(* ===== verification/Prelude.thy ===== *)
theory Prelude
  imports Main "HOL-Library.Sublist" "HOL-Library.List_Lexorder" "HOL-Library.Char_ord"
begin

section \<open>Shared vocabulary\<close>

text \<open>
  What every component theory uses: Go's time arithmetic, SQL's table operations on lists of
  rows, the selection of a least row (\<open>ORDER BY ... LIMIT 1\<close>), and the fencing argument that
  the download and the webhook queue share.  A table is a list of rows; a row is a record; the
  primary key of a table is a function of the row.
\<close>

named_theorems table_simps \<open>equations on tables: update, lookup, keys\<close>
named_theorems advance_intros \<open>facts that an operation only moves row versions forward\<close>

subsection \<open>Go's time and duration\<close>

text \<open>
  An instant is its distance in nanoseconds from Go's zero instant (1 January of year 1, UTC),
  so \<open>IsZero\<close> is equality with 0; a duration is an \<open>int64\<close> number of nanoseconds.
  \<open>Sub\<close> saturates at the limits of \<open>int64\<close>, as \<open>time.Time.Sub\<close> does.
\<close>

type_synonym time = int
type_synonym duration = int

definition max_int64 :: int where "max_int64 = 2 ^ 63 - 1"
definition min_int64 :: int where "min_int64 = - (2 ^ 63)"

definition time_is_zero :: "time \<Rightarrow> bool" where
  "time_is_zero t \<longleftrightarrow> t = 0"

definition time_add :: "time \<Rightarrow> duration \<Rightarrow> time" where
  "time_add t d = t + d"

definition time_sub :: "time \<Rightarrow> time \<Rightarrow> duration" where
  "time_sub a b = max min_int64 (min max_int64 (a - b))"

definition second :: duration where "second = 10 ^ 9"
definition minute :: duration where "minute = 60 * second"
definition hour :: duration where "hour = 60 * minute"

lemma second_pos [simp]: "0 < second" by (simp add: second_def)
lemma minute_pos [simp]: "0 < minute" by (simp add: minute_def)
lemma hour_pos [simp]: "0 < hour" by (simp add: hour_def)

lemma time_sub_ge_iff:
  "min_int64 < l \<Longrightarrow> l \<le> max_int64 \<Longrightarrow> l \<le> time_sub a b \<longleftrightarrow> b + l \<le> a"
  by (auto simp: time_sub_def)

subsection \<open>Tables\<close>

text \<open>\<open>UPDATE t SET f WHERE P\<close>, the number of rows it touches, and a lookup by key.\<close>

definition sql_update :: "('r \<Rightarrow> bool) \<Rightarrow> ('r \<Rightarrow> 'r) \<Rightarrow> 'r list \<Rightarrow> 'r list" where
  "sql_update P f rows = map (\<lambda>r. if P r then f r else r) rows"

definition rows_affected :: "('r \<Rightarrow> bool) \<Rightarrow> 'r list \<Rightarrow> nat" where
  "rows_affected P rows = length (filter P rows)"

definition sql_get :: "('r \<Rightarrow> 'k) \<Rightarrow> 'k \<Rightarrow> 'r list \<Rightarrow> 'r option" where
  "sql_get key k rows = find (\<lambda>r. key r = k) rows"

lemma sql_update_Nil [table_simps, simp]: "sql_update P f [] = []"
  by (simp add: sql_update_def)

lemma sql_update_Cons [table_simps]:
  "sql_update P f (r # rows) = (if P r then f r else r) # sql_update P f rows"
  by (simp add: sql_update_def)

lemma sql_get_Nil [table_simps, simp]: "sql_get key k [] = None"
  by (simp add: sql_get_def)

lemma sql_get_Cons [table_simps]:
  "sql_get key k (r # rows) = (if key r = k then Some r else sql_get key k rows)"
  by (simp add: sql_get_def)

lemma length_sql_update [simp]: "length (sql_update P f rows) = length rows"
  by (simp add: sql_update_def)

lemma sql_update_keys [table_simps]:
  "(\<And>r. key (f r) = key r) \<Longrightarrow> map key (sql_update P f rows) = map key rows"
  by (induction rows) (auto simp: sql_update_Cons)

lemma sql_get_update [table_simps]:
  "(\<And>r. key (f r) = key r) \<Longrightarrow>
   sql_get key k (sql_update P f rows) =
     map_option (\<lambda>r. if P r then f r else r) (sql_get key k rows)"
  by (induction rows) (auto simp: sql_update_Cons sql_get_Cons)

lemma sql_get_Some_mem: "sql_get key k rows = Some r \<Longrightarrow> r \<in> set rows \<and> key r = k"
  by (induction rows) (auto simp: sql_get_Cons split: if_splits)

lemma sql_get_None_iff: "sql_get key k rows = None \<longleftrightarrow> k \<notin> key ` set rows"
  by (induction rows) (auto simp: sql_get_Cons)

lemma sql_get_mem:
  "distinct (map key rows) \<Longrightarrow> r \<in> set rows \<Longrightarrow> sql_get key (key r) rows = Some r"
  by (induction rows) (auto simp: sql_get_Cons)

lemma sql_get_append:
  "sql_get key k (xs @ ys) = (case sql_get key k xs of Some r \<Rightarrow> Some r | None \<Rightarrow> sql_get key k ys)"
  by (induction xs) (auto simp: sql_get_Cons)

lemma set_sql_update: "set (sql_update P f rows) = (\<lambda>r. if P r then f r else r) ` set rows"
  by (simp add: sql_update_def)

lemma sql_update_id: "(\<And>r. r \<in> set rows \<Longrightarrow> \<not> P r) \<Longrightarrow> sql_update P f rows = rows"
  by (induction rows) (auto simp: sql_update_Cons)

lemma rows_affected_0_iff: "rows_affected P rows = 0 \<longleftrightarrow> (\<forall>r \<in> set rows. \<not> P r)"
  by (simp add: rows_affected_def filter_empty_conv)

lemma rows_affected_key:
  assumes "distinct (map key rows)" and "\<And>r. P r \<Longrightarrow> key r = k"
  shows "rows_affected P rows =
    (case sql_get key k rows of None \<Rightarrow> 0 | Some r \<Rightarrow> if P r then 1 else 0)"
  using assms(1)
proof (induction rows)
  case Nil
  then show ?case by (simp add: rows_affected_def)
next
  case (Cons a rows)
  show ?case
  proof (cases "key a = k")
    case True
    with Cons.prems have "k \<notin> key ` set rows" by auto
    with assms(2) have "\<forall>r \<in> set rows. \<not> P r" by blast
    then have "filter P rows = []" by (simp add: filter_empty_conv)
    with True show ?thesis by (simp add: rows_affected_def sql_get_Cons)
  next
    case False
    with assms(2) have "\<not> P a" by blast
    with Cons False show ?thesis by (simp add: rows_affected_def sql_get_Cons)
  qed
qed

lemma list_all2_mem: "list_all2 P xs ys \<Longrightarrow> x \<in> set xs \<Longrightarrow> \<exists>y \<in> set ys. P x y"
  by (induction rule: list_all2_induct) auto

subsection \<open>The least row of a query\<close>

fun min_by :: "('r \<Rightarrow> 'r \<Rightarrow> bool) \<Rightarrow> 'r list \<Rightarrow> 'r option" where
  "min_by lt [] = None"
| "min_by lt (x # xs) =
     (case min_by lt xs of None \<Rightarrow> Some x | Some y \<Rightarrow> if lt y x then Some y else Some x)"

lemma min_by_mem: "min_by lt xs = Some x \<Longrightarrow> x \<in> set xs"
  by (induction xs arbitrary: x) (auto split: option.splits if_splits)

lemma min_by_None [simp]: "min_by lt xs = None \<longleftrightarrow> xs = []"
  by (cases xs) (auto split: option.splits)

text \<open>
  The contract of an \<open>ORDER BY\<close>: the comparison is a strict weak order.  Then the first row of
  the ordered query is a row that no other row precedes.
\<close>

locale row_order =
  fixes lt :: "'r \<Rightarrow> 'r \<Rightarrow> bool"
  assumes lt_irrefl: "\<not> lt x x"
    and lt_trans: "lt x y \<Longrightarrow> lt y z \<Longrightarrow> lt x z"
    and lt_weak: "\<not> lt x y \<Longrightarrow> \<not> lt y z \<Longrightarrow> \<not> lt x z"
begin

lemma lt_asym: "lt x y \<Longrightarrow> \<not> lt y x"
  using lt_irrefl lt_trans by blast

lemma min_by_least: "min_by lt xs = Some m \<Longrightarrow> x \<in> set xs \<Longrightarrow> \<not> lt x m"
proof (induction xs arbitrary: m x)
  case Nil
  then show ?case by simp
next
  case (Cons a xs)
  show ?case
  proof (cases "min_by lt xs")
    case None
    with Cons.prems show ?thesis by (auto simp: lt_irrefl)
  next
    case (Some y)
    with Cons.IH have IH: "\<And>z. z \<in> set xs \<Longrightarrow> \<not> lt z y" by blast
    from Cons.prems Some IH show ?thesis
      by (auto simp: lt_irrefl split: if_splits dest: lt_asym lt_weak)
  qed
qed

end

interpretation int_order: row_order "(<) :: int \<Rightarrow> int \<Rightarrow> bool"
  by unfold_locales auto

text \<open>
  The key of both queues: due time, creation time, primary key, compared lexicographically.  With
  the library's orders on characters and lists a text key is compared bytewise, which is SQLite's
  BINARY collation.
\<close>

datatype 'k due = Due (due_at: time) (due_created: time) (due_key: 'k)

instantiation due :: (linorder) linorder
begin

definition less_eq_due :: "'a due \<Rightarrow> 'a due \<Rightarrow> bool" where
  "less_eq_due a b \<longleftrightarrow> due_at a < due_at b \<or> (due_at a = due_at b \<and>
     (due_created a < due_created b \<or> (due_created a = due_created b \<and> due_key a \<le> due_key b)))"

definition less_due :: "'a due \<Rightarrow> 'a due \<Rightarrow> bool" where
  "less_due a b \<longleftrightarrow> due_at a < due_at b \<or> (due_at a = due_at b \<and>
     (due_created a < due_created b \<or> (due_created a = due_created b \<and> due_key a < due_key b)))"

instance
  by standard (auto simp: less_eq_due_def less_due_def intro: due.expand)

end

text \<open>\<open>ORDER BY\<close> an expression: the rows sorted by it, and the first of them.\<close>

definition first_by :: "('r \<Rightarrow> 'o :: linorder) \<Rightarrow> 'r list \<Rightarrow> 'r option" where
  "first_by k rows = min_by (\<lambda>a b. k a < k b) rows"

interpretation key_order: row_order "\<lambda>a b. k a < k b" for k :: "'r \<Rightarrow> 'o :: linorder"
  by unfold_locales auto

lemma first_by_mem: "first_by k rows = Some r \<Longrightarrow> r \<in> set rows"
  unfolding first_by_def by (rule min_by_mem)

lemma first_by_least: "first_by k rows = Some r \<Longrightarrow> x \<in> set rows \<Longrightarrow> k r \<le> k x"
  using key_order.min_by_least [of k rows r x] by (simp add: first_by_def not_less)

lemma first_by_None [simp]: "first_by k rows = None \<longleftrightarrow> rows = []"
  by (simp add: first_by_def)

subsection \<open>Fallible code\<close>

text \<open>
  A Go function that returns a value and an error is a sum: \<open>Inl\<close> the error.  \<open>and_then\<close> is
  \<open>if err != nil { return err }\<close>, \<open>require\<close> an early return on a condition.
\<close>

definition and_then :: "'e + 'a \<Rightarrow> ('a \<Rightarrow> 'e + 'b) \<Rightarrow> 'e + 'b" where
  "and_then m k = (case m of Inl e \<Rightarrow> Inl e | Inr x \<Rightarrow> k x)"

definition require :: "bool \<Rightarrow> 'e \<Rightarrow> 'e + 'b \<Rightarrow> 'e + 'b" where
  "require c e k = (if c then k else Inl e)"

lemma and_then_simps [simp]:
  "and_then (Inl e) k = Inl e"
  "and_then (Inr x) k = k x"
  by (simp_all add: and_then_def)

lemma and_then_Inr_iff: "and_then m k = Inr y \<longleftrightarrow> (\<exists>x. m = Inr x \<and> k x = Inr y)"
  by (cases m) simp_all

lemma require_Inr_iff [simp]: "require c e k = Inr y \<longleftrightarrow> c \<and> k = Inr y"
  by (simp add: require_def)

lemma require_True [simp]: "require True e k = k"
  by (simp add: require_def)

lemmas fallible_iff = and_then_Inr_iff require_Inr_iff

lemma find_mem: "find P xs = Some x \<Longrightarrow> x \<in> set xs \<and> P x"
  by (auto simp: find_Some_iff)

end
