(* ===== verification/Go_Text.thy ===== *)
theory Go_Text
  imports Prelude
begin

section \<open>Go strings: bytes, UTF-8, trimming and paths\<close>

text \<open>
  A Go string is a sequence of bytes, and so is HOL's \<open>string\<close> (a list of 8-bit characters).
  This theory holds the parts of Go's \<open>strings\<close>, \<open>unicode\<close>, \<open>unicode/utf8\<close>, \<open>path\<close> and
  \<open>path/filepath\<close> (on Unix) that the program calls, with the lemmas the components share:
  what UTF-8 truncation drops and how cleaned paths compose.
\<close>

abbreviation byte :: "char \<Rightarrow> nat" where "byte c \<equiv> of_char c"

subsection \<open>UTF-8\<close>

text \<open>
  \<open>rune_len s\<close> is the width of the well-formed UTF-8 encoding at the head of \<open>s\<close>, or 0 when
  the head is not one (Go's \<open>DecodeRuneInString\<close> then answers \<open>RuneError\<close> and width 1).
\<close>

definition is_cont :: "nat \<Rightarrow> bool" where
  "is_cont b \<longleftrightarrow> 128 \<le> b \<and> b \<le> 191"

definition lead_len :: "nat \<Rightarrow> nat" where
  "lead_len b =
     (if b < 128 then 1
      else if 194 \<le> b \<and> b \<le> 223 then 2
      else if 224 \<le> b \<and> b \<le> 239 then 3
      else if 240 \<le> b \<and> b \<le> 244 then 4
      else 0)"

definition second_ok :: "nat \<Rightarrow> nat \<Rightarrow> bool" where
  "second_ok b c =
     (if b = 224 then 160 \<le> c \<and> c \<le> 191
      else if b = 237 then 128 \<le> c \<and> c \<le> 159
      else if b = 240 then 144 \<le> c \<and> c \<le> 191
      else if b = 244 then 128 \<le> c \<and> c \<le> 143
      else is_cont c)"

fun tail_ok :: "nat \<Rightarrow> nat \<Rightarrow> nat list \<Rightarrow> bool" where
  "tail_ok b n bs =
     (case bs of
        [] \<Rightarrow> n = 0
      | c # rest \<Rightarrow> length bs = n \<and> second_ok b c \<and> list_all is_cont rest)"

definition rune_len :: "string \<Rightarrow> nat" where
  "rune_len s =
     (case s of
        [] \<Rightarrow> 0
      | c # cs \<Rightarrow>
          (let n = lead_len (byte c)
           in if 0 < n \<and> tail_ok (byte c) (n - 1) (map byte (take (n - 1) cs)) then n else 0))"

fun rune_value :: "nat list \<Rightarrow> nat" where
  "rune_value [a] = a"
| "rune_value [a, b] = (a mod 32) * 64 + b mod 64"
| "rune_value [a, b, c] = (a mod 16) * 4096 + (b mod 64) * 64 + c mod 64"
| "rune_value [a, b, c, d] = (a mod 8) * 262144 + (b mod 64) * 4096 + (c mod 64) * 64 + d mod 64"
| "rune_value _ = 65533"

definition rune_error :: nat where "rune_error = 65533"

definition decode_rune :: "string \<Rightarrow> nat \<times> nat" where
  "decode_rune s =
     (let n = rune_len s
      in if s = [] then (rune_error, 0)
         else if n = 0 then (rune_error, 1)
         else (rune_value (map byte (take n s)), n))"

lemma rune_len_le [simp]: "rune_len s \<le> length s"
proof (cases s)
  case Nil
  then show ?thesis by (simp add: rune_len_def)
next
  case (Cons c cs)
  let ?k = "lead_len (byte c) - 1"
  have "tail_ok (byte c) ?k (map byte (take ?k cs)) \<Longrightarrow> ?k \<le> length cs"
    by (cases "take ?k cs") (auto simp: min_def dest!: arg_cong [where f = length] split: if_splits)
  with Cons show ?thesis by (auto simp: rune_len_def Let_def simp del: tail_ok.simps)
qed

lemma rune_len_le4: "rune_len s \<le> 4"
  by (auto simp: rune_len_def lead_len_def Let_def split: list.splits)

lemma decode_rune_width_pos: "s \<noteq> [] \<Longrightarrow> 0 < snd (decode_rune s)"
  by (auto simp: decode_rune_def Let_def)

function utf8_valid :: "string \<Rightarrow> bool" where
  "utf8_valid s =
     (if s = [] then True
      else if rune_len s = 0 then False
      else utf8_valid (drop (rune_len s) s))"
  by pat_completeness auto
termination by (relation "measure length") auto

function runes :: "string \<Rightarrow> nat list" where
  "runes s =
     (if s = [] then []
      else fst (decode_rune s) # runes (drop (snd (decode_rune s)) s))"
  by pat_completeness auto
termination
  by (relation "measure length") (auto simp: decode_rune_width_pos)

declare utf8_valid.simps [simp del] runes.simps [simp del] tail_ok.simps [simp del]

lemma utf8_valid_Nil [simp]: "utf8_valid []"
  by (subst utf8_valid.simps) simp

lemma runes_Nil [simp]: "runes [] = []"
  by (subst runes.simps) simp

lemma utf8_valid_step:
  "s \<noteq> [] \<Longrightarrow> utf8_valid s \<longleftrightarrow> 0 < rune_len s \<and> utf8_valid (drop (rune_len s) s)"
  by (subst utf8_valid.simps) simp

text \<open>The width at the head depends only on the bytes of the encoding itself.\<close>

lemma rune_len_prefix:
  assumes "0 < rune_len s" and "rune_len s \<le> n"
  shows "rune_len (take n s) = rune_len s"
proof (cases s)
  case Nil
  with assms show ?thesis by (simp add: rune_len_def)
next
  case (Cons c cs)
  have n: "rune_len s = lead_len (byte c)"
    using assms(1) Cons by (auto simp: rune_len_def Let_def split: if_splits)
  obtain m where m: "n = Suc m" "lead_len (byte c) - 1 \<le> m"
    using assms n by (cases n) auto
  have "take (lead_len (byte c) - 1) (take m cs) = take (lead_len (byte c) - 1) cs"
    using m(2) by (simp add: min_def)
  with Cons m show ?thesis by (simp add: rune_len_def)
qed

lemma rune_len_take_pos:
  assumes "0 < rune_len (take m s)"
  shows "rune_len s = rune_len (take m s)" and "rune_len s \<le> m"
proof -
  obtain c cs where s: "s = c # cs" and m: "0 < m"
    using assms by (cases s; cases m) (auto simp: rune_len_def)
  then obtain k where k: "m = Suc k" by (cases m) auto
  let ?n = "lead_len (byte c)"
  have pos: "0 < ?n" and ok: "tail_ok (byte c) (?n - 1) (map byte (take (?n - 1) (take k cs)))"
    using assms s k by (auto simp: rune_len_def Let_def split: if_splits)
  have len: "?n - 1 \<le> length (take k cs)"
    using ok by (cases "take (?n - 1) (take k cs)")
      (auto simp: tail_ok.simps min_def dest!: arg_cong [where f = length] split: if_splits)
  then have "?n - 1 \<le> k" by simp
  then have "take (?n - 1) (take k cs) = take (?n - 1) cs" by (simp add: min_def)
  with ok pos s k show "rune_len s = rune_len (take m s)" by (simp add: rune_len_def Let_def)
  have "rune_len s \<le> ?n" using s by (auto simp: rune_len_def Let_def)
  with len pos k show "rune_len s \<le> m" by auto
qed

lemma rune_len_append:
  assumes "0 < rune_len t"
  shows "rune_len (t @ u) = rune_len t"
  using rune_len_take_pos(1) [of "length t" "t @ u"] assms by simp

text \<open>
  Cutting a well-formed string at any byte leaves a well-formed string after at most three more
  bytes are removed: the cut falls inside one encoding, and an encoding has at most four bytes.
\<close>

lemma utf8_cut:
  "utf8_valid s \<Longrightarrow> n \<le> length s \<Longrightarrow> \<exists>k \<le> 3. k \<le> n \<and> utf8_valid (take (n - k) s)"
proof (induction s arbitrary: n rule: utf8_valid.induct)
  case (1 s)
  let ?m = "rune_len s"
  show ?case
  proof (cases "n < ?m \<or> s = []")
    case True
    have "n \<le> 3" using True rune_len_le4 [of s] "1.prems"(2) by auto
    then show ?thesis by (intro exI [of _ n]) simp
  next
    case False
    then have pos: "0 < ?m" "?m \<le> n" "s \<noteq> []" and rest: "utf8_valid (drop ?m s)"
      using "1.prems"(1) by (auto simp: utf8_valid_step)
    have "n - ?m \<le> length (drop ?m s)" using "1.prems"(2) by simp
    with "1.IH" pos rest obtain k where
      k: "k \<le> 3" "k \<le> n - ?m" "utf8_valid (take (n - ?m - k) (drop ?m s))" by blast
    let ?t = "take (n - k) s"
    have t: "?m \<le> n - k" using k(2) pos(2) by linarith
    then have len: "rune_len ?t = ?m" using pos(1) by (simp add: rune_len_prefix)
    have "drop ?m ?t = take (n - ?m - k) (drop ?m s)"
      using t by (simp add: drop_take add.commute)
    moreover have "?t \<noteq> []" using pos t by (cases s) auto
    ultimately have "utf8_valid ?t" using len pos(1) k(3) by (simp add: utf8_valid_step)
    with k show ?thesis by (intro exI [of _ k]) auto
  qed
qed

text \<open>The loop \<open>for !utf8.ValidString(cut) { cut = cut[:len(cut)-1] }\<close>.\<close>

function cut_to_valid :: "string \<Rightarrow> string" where
  "cut_to_valid s = (if utf8_valid s then s else cut_to_valid (butlast s))"
  by pat_completeness auto
termination
proof (relation "measure length")
  show "wf (measure (length :: string \<Rightarrow> nat))" by simp
next
  fix s :: string
  assume "\<not> utf8_valid s"
  then have "s \<noteq> []" by auto
  then show "(butlast s, s) \<in> measure length" by (cases s rule: rev_cases) auto
qed

declare cut_to_valid.simps [simp del]

lemma cut_to_valid_valid: "utf8_valid (cut_to_valid s)"
proof (induction s rule: cut_to_valid.induct)
  case (1 s)
  then show ?case by (cases "utf8_valid s") (simp_all add: cut_to_valid.simps [of s])
qed

lemma cut_to_valid_prefix: "prefix (cut_to_valid s) s"
proof (induction s rule: cut_to_valid.induct)
  case (1 s)
  show ?case
  proof (cases "utf8_valid s")
    case True
    then show ?thesis by (simp add: cut_to_valid.simps [of s])
  next
    case False
    with "1.IH" have "prefix (cut_to_valid (butlast s)) (butlast s)" by blast
    then have "prefix (cut_to_valid (butlast s)) s"
      using prefixeq_butlast prefix_order.trans by blast
    with False show ?thesis by (simp add: cut_to_valid.simps [of s])
  qed
qed

lemma cut_to_valid_longest:
  "utf8_valid (take n s) \<Longrightarrow> n \<le> length s \<Longrightarrow> n \<le> length (cut_to_valid s)"
proof (induction s rule: cut_to_valid.induct)
  case (1 s)
  show ?case
  proof (cases "utf8_valid s")
    case True
    with "1.prems" show ?thesis by (simp add: cut_to_valid.simps [of s])
  next
    case False
    with "1.prems" have "n < length s" by (cases "n = length s") auto
    then have "take n (butlast s) = take n s" and "n \<le> length (butlast s)"
      by (auto simp: take_butlast)
    with "1.IH" "1.prems" False show ?thesis by (simp add: cut_to_valid.simps [of s])
  qed
qed

text \<open>Cutting a well-formed string to \<open>n\<close> bytes drops fewer than four further bytes.\<close>

lemma cut_to_valid_loss:
  assumes "utf8_valid s" and "n \<le> length s"
  shows "n \<le> length (cut_to_valid (take n s)) + 3"
proof -
  from utf8_cut [OF assms] obtain k where "k \<le> 3" "k \<le> n" "utf8_valid (take (n - k) s)"
    by blast
  then have "utf8_valid (take (n - k) (take n s))" by (simp add: min_def)
  then have "n - k \<le> length (cut_to_valid (take n s))"
    using cut_to_valid_longest [of "n - k" "take n s"] assms(2) by simp
  with \<open>k \<le> 3\<close> show ?thesis by linarith
qed

subsection \<open>Character classes\<close>

text \<open>\<open>unicode.IsControl\<close> (category Cc) and \<open>unicode.IsSpace\<close> (White\_Space).\<close>

definition is_control :: "nat \<Rightarrow> bool" where
  "is_control r \<longleftrightarrow> r < 32 \<or> (127 \<le> r \<and> r < 160)"

definition is_space :: "nat \<Rightarrow> bool" where
  "is_space r \<longleftrightarrow> r \<in> {9, 10, 11, 12, 13, 32, 133, 160, 5760, 8232, 8233, 8239, 8287, 12288}
     \<or> (8192 \<le> r \<and> r \<le> 8202)"

definition contains_control :: "string \<Rightarrow> bool" where
  "contains_control s \<longleftrightarrow> list_ex is_control (runes s)"

subsection \<open>strings: prefixes, search, trimming\<close>

definition has_prefix :: "string \<Rightarrow> string \<Rightarrow> bool" where
  "has_prefix s p \<longleftrightarrow> prefix p s"

definition trim_prefix :: "string \<Rightarrow> string \<Rightarrow> string" where
  "trim_prefix s p = (if has_prefix s p then drop (length p) s else s)"

fun str_contains :: "string \<Rightarrow> string \<Rightarrow> bool" where
  "str_contains [] p = (p = [])"
| "str_contains (c # s) p = (prefix p (c # s) \<or> str_contains s p)"

lemma str_contains_sublist: "str_contains s p \<longleftrightarrow> sublist p s"
  by (induction s) (auto simp: sublist_Cons_right)

text \<open>
  \<open>strings.ToLower\<close> as far as it can produce ASCII: the ASCII letters and the two non-ASCII
  runes that lower to an ASCII letter (U+0130 and the Kelvin sign U+212A); an ill-formed byte
  becomes U+FFFD.  Every other rune is left as it is: lowering it stays outside ASCII, so a
  search for an ASCII word cannot tell.
\<close>

definition lower_rune :: "string \<Rightarrow> string" where
  "lower_rune w =
     (case w of
        [c] \<Rightarrow> if 65 \<le> byte c \<and> byte c \<le> 90 then [char_of (byte c + 32)] else w
      | _ \<Rightarrow> if map byte w = [196, 176] then ''i''
             else if map byte w = [226, 132, 170] then ''k'' else w)"

function to_lower :: "string \<Rightarrow> string" where
  "to_lower s =
     (if s = [] then []
      else if rune_len s = 0 then map char_of [239 :: nat, 191, 189] @ to_lower (tl s)
      else lower_rune (take (rune_len s) s) @ to_lower (drop (rune_len s) s))"
  by pat_completeness auto
termination by (relation "measure length") auto

declare to_lower.simps [simp del]

lemma to_lower_Nil [simp]: "to_lower [] = []"
  by (simp add: to_lower.simps)

function trim_left :: "string \<Rightarrow> string" where
  "trim_left s =
     (if s \<noteq> [] \<and> is_space (fst (decode_rune s)) then trim_left (drop (snd (decode_rune s)) s) else s)"
  by pat_completeness auto
termination
  by (relation "measure length") (auto simp: decode_rune_width_pos)

text \<open>
  \<open>utf8.DecodeLastRuneInString\<close>: the last byte if it is ASCII, the encoding of two to four bytes
  that ends the string if there is one, \<open>RuneError\<close> otherwise.
\<close>

definition suffix_bytes :: "nat \<Rightarrow> string \<Rightarrow> string" where
  "suffix_bytes k s = drop (length s - k) s"

definition decode_last_rune :: "string \<Rightarrow> nat \<times> nat" where
  "decode_last_rune s =
     (if s = [] then (rune_error, 0)
      else if byte (last s) < 128 then (byte (last s), 1)
      else case find (\<lambda>k. k \<le> length s \<and> rune_len (suffix_bytes k s) = k) [2, 3, 4] of
             Some k \<Rightarrow> (fst (decode_rune (suffix_bytes k s)), k)
           | None \<Rightarrow> (rune_error, 1))"

lemma decode_last_width_pos: "s \<noteq> [] \<Longrightarrow> 0 < snd (decode_last_rune s)"
  by (auto simp: decode_last_rune_def find_Some_iff split: option.splits)

function trim_right :: "string \<Rightarrow> string" where
  "trim_right s =
     (if s \<noteq> [] \<and> is_space (fst (decode_last_rune s))
      then trim_right (take (length s - snd (decode_last_rune s)) s) else s)"
  by pat_completeness auto
termination
  by (relation "measure length") (auto simp: decode_last_width_pos)

declare trim_left.simps [simp del] trim_right.simps [simp del]

definition trim_space :: "string \<Rightarrow> string" where
  "trim_space s = trim_right (trim_left s)"

lemma to_lower_append: "utf8_valid t \<Longrightarrow> to_lower (t @ u) = to_lower t @ to_lower u"
proof (induction t rule: utf8_valid.induct)
  case (1 t)
  show ?case
  proof (cases "t = []")
    case True
    then show ?thesis by simp
  next
    case False
    with "1.prems" have pos: "0 < rune_len t" and rest: "utf8_valid (drop (rune_len t) t)"
      by (auto simp: utf8_valid_step)
    have len: "rune_len (t @ u) = rune_len t" using pos by (rule rune_len_append)
    have "to_lower (t @ u) = lower_rune (take (rune_len t) t) @ to_lower (drop (rune_len t) t @ u)"
      using False pos len by (subst to_lower.simps) simp
    also have "\<dots> = lower_rune (take (rune_len t) t) @ to_lower (drop (rune_len t) t) @ to_lower u"
      using "1.IH" False pos rest by simp
    also have "\<dots> = to_lower t @ to_lower u"
      using False pos by (simp add: to_lower.simps [of t])
    finally show ?thesis .
  qed
qed

text \<open>Trimming: the result starts and ends with a rune that is no space, and trims to itself.\<close>

lemma trim_left_head: "trim_left s \<noteq> [] \<Longrightarrow> \<not> is_space (fst (decode_rune (trim_left s)))"
proof (induction s rule: trim_left.induct)
  case (1 s)
  then show ?case
    by (cases "s \<noteq> [] \<and> is_space (fst (decode_rune s))") (auto simp: trim_left.simps [of s])
qed

lemma trim_left_fixed: "s = [] \<or> \<not> is_space (fst (decode_rune s)) \<Longrightarrow> trim_left s = s"
  by (subst trim_left.simps) auto

lemma trim_right_last: "trim_right s \<noteq> [] \<Longrightarrow> \<not> is_space (fst (decode_last_rune (trim_right s)))"
proof (induction s rule: trim_right.induct)
  case (1 s)
  then show ?case
    by (cases "s \<noteq> [] \<and> is_space (fst (decode_last_rune s))") (auto simp: trim_right.simps [of s])
qed

lemma trim_right_fixed: "s = [] \<or> \<not> is_space (fst (decode_last_rune s)) \<Longrightarrow> trim_right s = s"
  by (subst trim_right.simps) auto

lemma trim_right_take: "\<exists>n. trim_right s = take n s"
proof (induction s rule: trim_right.induct)
  case (1 s)
  show ?case
  proof (cases "s \<noteq> [] \<and> is_space (fst (decode_last_rune s))")
    case True
    with "1.IH" obtain n where
      "trim_right (take (length s - snd (decode_last_rune s)) s) =
         take n (take (length s - snd (decode_last_rune s)) s)" by blast
    with True show ?thesis by (subst trim_right.simps) (auto simp: take_take)
  next
    case False
    then have "trim_right s = take (length s) s" by (subst trim_right.simps) auto
    then show ?thesis by blast
  qed
qed

text \<open>A non-empty prefix of a string that starts with a non-space starts with a non-space.\<close>

lemma head_nonspace_take:
  assumes "\<not> is_space (fst (decode_rune s))" and "take m s \<noteq> []"
  shows "\<not> is_space (fst (decode_rune (take m s)))"
proof (cases "rune_len (take m s) = 0")
  case True
  then show ?thesis by (auto simp: decode_rune_def is_space_def rune_error_def)
next
  case False
  then have "rune_len s = rune_len (take m s)" "rune_len s \<le> m"
    using rune_len_take_pos by blast+
  then have "decode_rune (take m s) = decode_rune s"
    using assms(2) False by (auto simp: decode_rune_def min_def)
  with assms(1) show ?thesis by simp
qed

lemma trim_space_idem: "trim_space (trim_space s) = trim_space s"
proof -
  let ?l = "trim_left s"
  obtain n where n: "trim_right ?l = take n ?l" using trim_right_take by blast
  have "trim_left (trim_right ?l) = trim_right ?l"
  proof (cases "trim_right ?l = []")
    case True
    then show ?thesis by (simp add: trim_left_fixed)
  next
    case False
    with n have "?l \<noteq> []" by auto
    then have "\<not> is_space (fst (decode_rune ?l))" by (rule trim_left_head)
    then have "\<not> is_space (fst (decode_rune (trim_right ?l)))"
      using head_nonspace_take False unfolding n by blast
    then show ?thesis by (simp add: trim_left_fixed)
  qed
  moreover have "trim_right (trim_right ?l) = trim_right ?l"
    using trim_right_last [of ?l] by (intro trim_right_fixed) blast
  ultimately show ?thesis by (simp add: trim_space_def)
qed

fun split_on :: "char \<Rightarrow> string \<Rightarrow> string list" where
  "split_on sep [] = [[]]"
| "split_on sep (c # cs) =
     (if c = sep then [] # split_on sep cs
      else case split_on sep cs of [] \<Rightarrow> [[c]] | w # ws \<Rightarrow> (c # w) # ws)"

fun join_with :: "string \<Rightarrow> string list \<Rightarrow> string" where
  "join_with sep [] = []"
| "join_with sep [w] = w"
| "join_with sep (w # ws) = w @ sep @ join_with sep ws"

text \<open>\<open>strconv.FormatInt\<close> in base 10.\<close>

fun format_nat :: "nat \<Rightarrow> string" where
  "format_nat n =
     (if n < 10 then [char_of (48 + n)] else format_nat (n div 10) @ [char_of (48 + n mod 10)])"

declare format_nat.simps [simp del]

definition format_int :: "int \<Rightarrow> string" where
  "format_int i = (if i < 0 then CHR ''-'' # format_nat (nat (- i)) else format_nat (nat i))"

subsection \<open>path and path/filepath on Unix\<close>

text \<open>
  \<open>Clean\<close> processes the path component by component: empty components and \<open>.\<close> vanish, \<open>..\<close>
  removes the component before it, a leading \<open>..\<close> is kept in a relative path and vanishes in a
  rooted one.  The second argument of \<open>clean_comps\<close> is the stack of components kept so far.
\<close>

fun clean_comps :: "bool \<Rightarrow> string list \<Rightarrow> string list \<Rightarrow> string list" where
  "clean_comps rooted st [] = rev st"
| "clean_comps rooted st (w # ws) =
     (if w = [] \<or> w = ''.'' then clean_comps rooted st ws
      else if w = ''..'' then
        (case st of
           [] \<Rightarrow> if rooted then clean_comps rooted [] ws else clean_comps rooted [''..''] ws
         | t # ts \<Rightarrow>
             if t = ''..'' then clean_comps rooted (''..'' # st) ws else clean_comps rooted ts ws)
      else clean_comps rooted (w # st) ws)"

definition is_abs :: "string \<Rightarrow> bool" where
  "is_abs p \<longleftrightarrow> (case p of [] \<Rightarrow> False | c # _ \<Rightarrow> c = CHR ''/'')"

definition path_clean :: "string \<Rightarrow> string" where
  "path_clean p =
     (if p = [] then ''.''
      else
        (let body = join_with ''/'' (clean_comps (is_abs p) [] (split_on CHR ''/'' p))
         in if is_abs p then ''/'' @ body else if body = [] then ''.'' else body))"

definition path_join :: "string list \<Rightarrow> string" where
  "path_join ws =
     (let es = dropWhile (\<lambda>w. w = []) ws
      in if es = [] then [] else path_clean (join_with ''/'' es))"

definition path_base :: "string \<Rightarrow> string" where
  "path_base p =
     (if p = [] then ''.''
      else
        (let b = last (split_on CHR ''/'' (rev (dropWhile (\<lambda>c. c = CHR ''/'') (rev p))))
         in if b = [] then ''/'' else b))"

text \<open>\<open>filepath.Dir\<close>: the cleaned text up to the last slash.\<close>

definition path_dir :: "string \<Rightarrow> string" where
  "path_dir p = path_clean (rev (dropWhile (\<lambda>c. c \<noteq> CHR ''/'') (rev p)))"

text \<open>\<open>path_below root p\<close>: \<open>p\<close> is \<open>root\<close> or lies under it, as the SQL triggers test it.\<close>

definition path_below :: "string \<Rightarrow> string \<Rightarrow> bool" where
  "path_below root p \<longleftrightarrow> p = root \<or> prefix (root @ ''/'') p"

definition normal_comp :: "string \<Rightarrow> bool" where
  "normal_comp w \<longleftrightarrow> w \<noteq> [] \<and> w \<noteq> ''.'' \<and> w \<noteq> ''..'' \<and> CHR ''/'' \<notin> set w"

lemma split_on_not_Nil [simp]: "split_on sep s \<noteq> []"
  by (induction s) (auto split: list.splits)

lemma split_on_append: "split_on sep (a @ sep # b) = split_on sep a @ split_on sep b"
  by (induction a) (auto split: list.splits)

lemma split_on_no_sep: "sep \<notin> set w \<Longrightarrow> split_on sep w = [w]"
  by (induction w) auto

lemma split_on_comps: "w \<in> set (split_on sep s) \<Longrightarrow> sep \<notin> set w"
proof (induction s arbitrary: w)
  case Nil
  then show ?case by simp
next
  case (Cons c s)
  then show ?case by (cases "split_on sep s") (auto split: if_splits)
qed

lemma clean_comps_append:
  "clean_comps r st (xs @ ys) = clean_comps r (rev (clean_comps r st xs)) ys"
  by (induction r st xs rule: clean_comps.induct) (auto split: list.splits)

lemma clean_comps_normal:
  "list_all normal_comp ws \<Longrightarrow> clean_comps r st ws = rev st @ ws"
  by (induction ws arbitrary: st) (auto simp: normal_comp_def)

lemma join_with_append:
  "xs \<noteq> [] \<Longrightarrow> ys \<noteq> [] \<Longrightarrow> join_with sep (xs @ ys) = join_with sep xs @ sep @ join_with sep ys"
proof (induction sep xs rule: join_with.induct)
  case (2 sep w)
  then show ?case by (cases ys) auto
next
  case (3 sep w v va)
  then show ?case by simp
qed simp

lemma is_abs_Cons [simp]: "is_abs (c # s) \<longleftrightarrow> c = CHR ''/''"
  by (simp add: is_abs_def)

lemma is_abs_Nil [simp]: "\<not> is_abs []"
  by (simp add: is_abs_def)

text \<open>
  Joining ordinary components below a clean rooted path only appends them: nothing of the root is
  consumed and nothing is rewritten.
\<close>

lemma path_clean_below:
  assumes root: "is_abs root" "path_clean root = root"
    and ws: "list_all normal_comp ws" "ws \<noteq> []"
  shows "path_clean (root @ ''/'' @ join_with ''/'' ws) =
    (if root = ''/'' then ''/'' else root @ ''/'') @ join_with ''/'' ws"
proof -
  let ?split = "split_on CHR ''/''"
  obtain s where s: "root = CHR ''/'' # s" using root(1) by (cases root) (auto simp: is_abs_def)
  define cs where "cs = clean_comps True [] (?split root)"
  have root_eq: "root = ''/'' @ join_with ''/'' cs"
    using root s by (simp add: path_clean_def cs_def)
  have "?split (join_with ''/'' ws) = ws" using ws
  proof (induction "''/''" ws rule: join_with.induct)
    case (2 w)
    then show ?case by (simp add: split_on_no_sep normal_comp_def)
  next
    case (3 w v va)
    then have "CHR ''/'' \<notin> set w" by (simp add: normal_comp_def)
    then have "?split w = [w]" by (rule split_on_no_sep)
    with 3 show ?case by (simp add: split_on_append)
  qed simp
  then have "?split (root @ ''/'' @ join_with ''/'' ws) = ?split root @ ws"
    by (simp add: split_on_append)
  then have "clean_comps True [] (?split (root @ ''/'' @ join_with ''/'' ws)) = cs @ ws"
    using ws(1) by (simp add: clean_comps_append clean_comps_normal cs_def)
  moreover have "is_abs (root @ ''/'' @ join_with ''/'' ws)" using s by simp
  ultimately have "path_clean (root @ ''/'' @ join_with ''/'' ws) = ''/'' @ join_with ''/'' (cs @ ws)"
    by (simp add: path_clean_def)
  also have "\<dots> = (if root = ''/'' then ''/'' else root @ ''/'') @ join_with ''/'' ws"
  proof (cases "cs = []")
    case True
    with root_eq show ?thesis by simp
  next
    case False
    have "join_with ''/'' cs \<noteq> []"
    proof
      assume e: "join_with ''/'' cs = []"
      with root_eq have "root = ''/''" by simp
      then have "cs = []" by (simp add: cs_def)
      with False show False ..
    qed
    with False root_eq ws(2) show ?thesis by (simp add: join_with_append)
  qed
  finally show ?thesis .
qed

subsection \<open>ASCII strings\<close>

text \<open>No longer encoding stands for an ASCII character, so an all-ASCII string is its own runes.\<close>

lemma rune_value_2: "194 \<le> a \<Longrightarrow> a \<le> 223 \<Longrightarrow> 128 \<le> rune_value [a, b]"
proof -
  assume a: "194 \<le> a" "a \<le> 223"
  have "2 \<le> a mod 32" using a by presburger
  then show ?thesis by simp
qed

lemma rune_value_3: "224 \<le> a \<Longrightarrow> a \<le> 239 \<Longrightarrow> second_ok a b \<Longrightarrow> 128 \<le> rune_value [a, b, c]"
proof -
  assume a: "224 \<le> a" "a \<le> 239" "second_ok a b"
  have "1 \<le> a mod 16 \<or> (a = 224 \<and> 32 \<le> b mod 64)"
  proof (cases "a = 224")
    case True
    with a(3) have "160 \<le> b" "b \<le> 191" by (auto simp: second_ok_def)
    then have "32 \<le> b mod 64" by presburger
    with True show ?thesis by simp
  next
    case False
    with a have "1 \<le> a mod 16" by presburger
    then show ?thesis ..
  qed
  then show ?thesis by auto
qed

lemma rune_value_4: "240 \<le> a \<Longrightarrow> a \<le> 244 \<Longrightarrow> second_ok a b \<Longrightarrow> 128 \<le> rune_value [a, b, c, d]"
proof -
  assume a: "240 \<le> a" "a \<le> 244" "second_ok a b"
  have "1 \<le> a mod 8 \<or> (a = 240 \<and> 16 \<le> b mod 64)"
  proof (cases "a = 240")
    case True
    with a(3) have "144 \<le> b" "b \<le> 191" by (auto simp: second_ok_def)
    then have "16 \<le> b mod 64" by presburger
    with True show ?thesis by simp
  next
    case False
    with a have "1 \<le> a mod 8" by presburger
    then show ?thesis ..
  qed
  then show ?thesis by auto
qed

lemma list_3: "length xs = 3 \<Longrightarrow> \<exists>a b c. xs = [a, b, c]"
  by (auto simp: numeral_3_eq_3 length_Suc_conv)

lemma ascii_head:
  assumes "fst (decode_rune (c # cs)) < 128"
  shows "decode_rune (c # cs) = (byte c, 1)"
proof (cases "rune_len (c # cs) = 0")
  case True
  with assms show ?thesis by (simp add: decode_rune_def rune_error_def)
next
  case False
  define n where "n = lead_len (byte c)"
  define t where "t = map byte (take (n - 1) cs)"
  from False have n: "rune_len (c # cs) = n" "0 < n" and ok: "tail_ok (byte c) (n - 1) t"
    by (auto simp: rune_len_def Let_def n_def t_def split: if_splits)
  have len: "length t = n - 1"
    using ok by (cases t) (auto simp: tail_ok.simps)
  have v: "fst (decode_rune (c # cs)) = rune_value (byte c # t)"
    using n by (simp add: decode_rune_def Let_def t_def) (metis One_nat_def Suc_pred list.simps(9) take_Suc_Cons)
  consider "n = 1" | "n = 2" | "n = 3" | "n = 4"
    using n(2) by (auto simp: n_def lead_len_def split: if_splits)
  then show ?thesis
  proof cases
    case 1
    with n len v show ?thesis by (auto simp: decode_rune_def Let_def t_def)
  next
    case 2
    with len obtain b where "t = [b]" by (auto simp: length_Suc_conv)
    with v assms 2 rune_value_2 [of "byte c" b] show ?thesis
      by (auto simp: n_def lead_len_def split: if_splits)
  next
    case 3
    with len obtain b d where t: "t = [b, d]" by (auto simp: length_Suc_conv numeral_2_eq_2)
    with ok have "second_ok (byte c) b" by (simp add: tail_ok.simps)
    with t v assms 3 rune_value_3 [of "byte c" b d] show ?thesis
      by (auto simp: n_def lead_len_def split: if_splits)
  next
    case 4
    with len obtain b d e where t: "t = [b, d, e]" by (auto dest: list_3)
    with ok have "second_ok (byte c) b" by (simp add: tail_ok.simps)
    with t v assms 4 rune_value_4 [of "byte c" b d e] show ?thesis
      by (auto simp: n_def lead_len_def split: if_splits)
  qed
qed

lemma runes_ascii: "\<forall>r \<in> set (runes s). r < 128 \<Longrightarrow> runes s = map byte s"
proof (induction s)
  case Nil
  then show ?case by simp
next
  case (Cons c cs)
  have "runes (c # cs) = fst (decode_rune (c # cs)) # runes (drop (snd (decode_rune (c # cs))) (c # cs))"
    by (simp add: runes.simps)
  moreover from this Cons.prems have "decode_rune (c # cs) = (byte c, 1)" by (intro ascii_head) simp
  ultimately have "runes (c # cs) = byte c # runes cs" by simp
  with Cons show ?case by simp
qed

end
