(* ===== verification/Float64.thy ===== *)
theory Float64
  imports Complex_Main Prelude
begin

section \<open>Go's float64\<close>

text \<open>
  Progress values are \<open>float64\<close>.  A finite value is the rational it denotes; arithmetic is the
  exact rational operation followed by one rounding to the nearest 53-bit significand, ties to
  even, with gradual underflow and overflow to an infinity (IEEE 754 binary64, as Go evaluates
  each operation; no fused multiply-add).  The two zeros are not told apart: nothing in the
  program divides by a progress or prints its sign.
\<close>

datatype float64 = Fin rat | PosInf | NegInf | NaN

subsection \<open>Rounding a rational to binary64\<close>

fun bit_length :: "nat \<Rightarrow> nat" where
  "bit_length n = (if n = 0 then 0 else Suc (bit_length (n div 2)))"

declare bit_length.simps [simp del]

text \<open>\<open>ilog2 x\<close> is the exponent \<open>e\<close> with \<open>2\<^sup>e \<le> x < 2\<^sup>e\<^sup>+\<^sup>1\<close>, for positive \<open>x\<close>.\<close>

definition ilog2 :: "rat \<Rightarrow> int" where
  "ilog2 x =
     (let (a, b) = quotient_of x;
          e = int (bit_length (nat a)) - int (bit_length (nat b))
      in if 2 powi e \<le> x then e else e - 1)"

text \<open>Round half to even, to an integer.\<close>

definition round_half_even :: "rat \<Rightarrow> int" where
  "round_half_even y =
     (let f = \<lfloor>y\<rfloor>; d = y - of_int f
      in if d < 1 / 2 then f
         else if d > 1 / 2 then f + 1
         else if even f then f else f + 1)"

definition ulp_exp :: "rat \<Rightarrow> int" where
  "ulp_exp x = max (ilog2 x) (- 1022) - 52"

definition rnd_pos :: "rat \<Rightarrow> rat" where
  "rnd_pos x = of_int (round_half_even (x / 2 powi ulp_exp x)) * 2 powi ulp_exp x"

definition rnd :: "rat \<Rightarrow> rat" where
  "rnd x = (if x = 0 then 0 else if x < 0 then - rnd_pos (- x) else rnd_pos x)"

definition to_float :: "rat \<Rightarrow> float64" where
  "to_float x =
     (let r = rnd x
      in if 2 ^ 1024 \<le> r then PosInf else if r \<le> - (2 ^ 1024) then NegInf else Fin r)"

lemma bit_length_bounds:
  "0 < n \<Longrightarrow> 0 < bit_length n \<and> 2 ^ (bit_length n - 1) \<le> n \<and> n < 2 ^ bit_length n"
proof (induction n rule: bit_length.induct)
  case (1 n)
  show ?case
  proof (cases "n = 1")
    case True
    then show ?thesis by (simp add: bit_length.simps)
  next
    case False
    with "1.prems" have half: "0 < n div 2" by auto
    with "1.IH" "1.prems" have IH: "0 < bit_length (n div 2)"
      "2 ^ (bit_length (n div 2) - 1) \<le> n div 2" "n div 2 < 2 ^ bit_length (n div 2)" by auto
    have len: "bit_length n = Suc (bit_length (n div 2))"
      using "1.prems" by (simp add: bit_length.simps [of n])
    have "(2 :: nat) ^ bit_length (n div 2) = 2 * 2 ^ (bit_length (n div 2) - 1)"
      using IH(1) by (cases "bit_length (n div 2)") auto
    with IH have "2 ^ bit_length (n div 2) \<le> n" by linarith
    moreover from IH(3) have "n < 2 * 2 ^ bit_length (n div 2)" by linarith
    ultimately show ?thesis by (simp add: len)
  qed
qed

lemma bit_length_rat:
  assumes "0 < (a :: int)"
  shows "0 < bit_length (nat a)"
    and "2 ^ (bit_length (nat a) - 1) \<le> (of_int a :: rat)"
    and "(of_int a :: rat) < 2 ^ bit_length (nat a)"
proof -
  let ?p = "bit_length (nat a)"
  have p: "0 < ?p" "2 ^ (?p - 1) \<le> nat a" "nat a < 2 ^ ?p"
    using bit_length_bounds [of "nat a"] assms by auto
  then show "0 < ?p" by simp
  have "(2 :: int) ^ (?p - 1) \<le> a" "a < 2 ^ ?p"
    using p assms by (simp_all add: le_nat_iff nat_less_iff)
  then have "(of_int (2 ^ (?p - 1)) :: rat) \<le> of_int a" "(of_int a :: rat) < of_int (2 ^ ?p)"
    by (simp_all only: of_int_le_iff of_int_less_iff)
  then show "2 ^ (?p - 1) \<le> (of_int a :: rat)" and "(of_int a :: rat) < 2 ^ ?p" by simp_all
qed

lemma ilog2_bounds:
  assumes "0 < x"
  shows "2 powi (ilog2 x) \<le> x" and "x < 2 powi (ilog2 x + 1)"
proof -
  obtain a b where ab: "quotient_of x = (a, b)" by (cases "quotient_of x") auto
  then have b: "0 < b" and x: "x = of_int a / of_int b"
    by (auto simp: quotient_of_denom_pos quotient_of_div)
  with assms have a: "0 < a" by (simp add: zero_less_divide_iff)
  define p q where "p = bit_length (nat a)" and "q = bit_length (nat b)"
  note ra = bit_length_rat [OF a, folded p_def] and rb = bit_length_rat [OF b, folded q_def]
  have up: "x < 2 powi (int p - int q + 1)"
  proof -
    have "x < 2 ^ p / 2 ^ (q - 1)"
      unfolding x by (rule frac_less [OF _ ra(3) _ rb(2)]) (use a in simp_all)
    also have "\<dots> = 2 powi (int p - int (q - 1))" by (simp add: power_int_diff)
    also have "int p - int (q - 1) = int p - int q + 1" using rb(1) by linarith
    finally show ?thesis .
  qed
  have down: "2 powi (int p - int q - 1) < x"
  proof -
    obtain k where k: "p = Suc k" using ra(1) by (cases p) auto
    have "2 powi (int p - int q - 1) = (2 :: rat) powi (int k - int q)" by (simp add: k)
    also have "\<dots> = (2 :: rat) ^ (p - 1) / 2 ^ q" by (simp add: power_int_diff k)
    also have "\<dots> < x"
      unfolding x by (rule frac_less2 [OF _ ra(2) _ rb(3)]) (use b in simp_all)
    finally show ?thesis .
  qed
  have "ilog2 x = (if 2 powi (int p - int q) \<le> x then int p - int q else int p - int q - 1)"
    by (simp add: ilog2_def ab p_def q_def)
  with up down show "2 powi (ilog2 x) \<le> x" and "x < 2 powi (ilog2 x + 1)"
    by (auto simp: not_le)
qed

lemma ilog2_mono: "0 < x \<Longrightarrow> x \<le> y \<Longrightarrow> ilog2 x \<le> ilog2 y"
proof (rule ccontr)
  assume "0 < x" "x \<le> y" "\<not> ilog2 x \<le> ilog2 y"
  then have "(2 :: rat) powi (ilog2 y + 1) \<le> 2 powi ilog2 x" by (intro power_int_increasing) auto
  with ilog2_bounds [of x] ilog2_bounds [of y] \<open>0 < x\<close> \<open>x \<le> y\<close> show False by force
qed

lemma round_half_even_bounds: "\<lfloor>y\<rfloor> \<le> round_half_even y \<and> round_half_even y \<le> \<lfloor>y\<rfloor> + 1"
  by (simp add: round_half_even_def Let_def)

lemma round_half_even_of_int [simp]: "round_half_even (of_int n) = n"
  by (simp add: round_half_even_def)

lemma round_half_even_mono: "x \<le> y \<Longrightarrow> round_half_even x \<le> round_half_even y"
proof -
  assume le: "x \<le> y"
  then have "\<lfloor>x\<rfloor> \<le> \<lfloor>y\<rfloor>" by (rule floor_mono)
  then consider "\<lfloor>x\<rfloor> = \<lfloor>y\<rfloor>" | "\<lfloor>x\<rfloor> + 1 \<le> \<lfloor>y\<rfloor>" by linarith
  then show ?thesis
  proof cases
    case 1
    with le show ?thesis by (auto simp: round_half_even_def Let_def)
  next
    case 2
    with round_half_even_bounds [of x] round_half_even_bounds [of y] show ?thesis by linarith
  qed
qed

lemma rnd_pos_exact:
  assumes "x / 2 powi ulp_exp x = of_int k"
  shows "rnd_pos x = x"
proof -
  have "rnd_pos x = x / 2 powi ulp_exp x * 2 powi ulp_exp x"
    unfolding rnd_pos_def assms by simp
  then show ?thesis by simp
qed

text \<open>A power of two at or above the unit of \<open>x\<close> is a bound that rounding respects.\<close>

lemma rnd_pos_le_pow:
  assumes "x \<le> 2 powi m" and "ulp_exp x \<le> m"
  shows "rnd_pos x \<le> 2 powi m"
proof -
  let ?e = "ulp_exp x"
  define k where "k = nat (m - ?e)"
  have pow: "(2 :: rat) powi m = of_int (2 ^ k) * 2 powi ?e"
    using assms(2) by (simp add: k_def power_int_add [symmetric] flip: power_int_of_nat)
  with assms(1) have "x / 2 powi ?e \<le> of_int (2 ^ k)" by (simp add: divide_le_eq)
  then have "round_half_even (x / 2 powi ?e) \<le> 2 ^ k"
    using round_half_even_mono round_half_even_of_int by metis
  then have "(of_int (round_half_even (x / 2 powi ?e)) :: rat) \<le> of_int (2 ^ k)"
    by (simp only: of_int_le_iff)
  then show ?thesis unfolding rnd_pos_def pow by (intro mult_right_mono) auto
qed

lemma rnd_pos_ge_pow:
  assumes "2 powi m \<le> x" and "ulp_exp x \<le> m"
  shows "2 powi m \<le> rnd_pos x"
proof -
  let ?e = "ulp_exp x"
  define k where "k = nat (m - ?e)"
  have pow: "(2 :: rat) powi m = of_int (2 ^ k) * 2 powi ?e"
    using assms(2) by (simp add: k_def power_int_add [symmetric] flip: power_int_of_nat)
  with assms(1) have "of_int (2 ^ k) \<le> x / 2 powi ?e" by (simp add: le_divide_eq)
  then have "2 ^ k \<le> round_half_even (x / 2 powi ?e)"
    using round_half_even_mono round_half_even_of_int by metis
  then have "(of_int (2 ^ k) :: rat) \<le> of_int (round_half_even (x / 2 powi ?e))"
    by (simp only: of_int_le_iff)
  then show ?thesis unfolding rnd_pos_def pow by (intro mult_right_mono) auto
qed

lemma rnd_pos_nonneg: "0 < x \<Longrightarrow> 0 \<le> rnd_pos x"
proof -
  assume "0 < x"
  then have "round_half_even 0 \<le> round_half_even (x / 2 powi ulp_exp x)"
    by (intro round_half_even_mono) simp
  then have "0 \<le> round_half_even (x / 2 powi ulp_exp x)"
    using round_half_even_of_int [of 0] by simp
  then show ?thesis by (simp add: rnd_pos_def)
qed

lemma rnd_pos_mono:
  assumes "0 < x" and "x \<le> y"
  shows "rnd_pos x \<le> rnd_pos y"
proof -
  have le: "ilog2 x \<le> ilog2 y" using assms by (rule ilog2_mono)
  then have "ulp_exp x = ulp_exp y \<or> ilog2 x < ilog2 y \<and> - 1022 \<le> ilog2 y"
    by (auto simp: ulp_exp_def max_def)
  then consider "ulp_exp x = ulp_exp y" | "ilog2 x < ilog2 y" "- 1022 \<le> ilog2 y" by blast
  then show ?thesis
  proof cases
    case 1
    have "x / 2 powi ulp_exp x \<le> y / 2 powi ulp_exp x"
      using assms(2) by (simp add: divide_right_mono)
    then have "round_half_even (x / 2 powi ulp_exp x) \<le> round_half_even (y / 2 powi ulp_exp x)"
      by (rule round_half_even_mono)
    with 1 show ?thesis unfolding rnd_pos_def by (simp add: mult_right_mono)
  next
    case 2
    have "x < 2 powi (ilog2 x + 1)" using assms(1) by (rule ilog2_bounds)
    also have "\<dots> \<le> 2 powi ilog2 y" using 2(1) by (intro power_int_increasing) auto
    finally have "rnd_pos x \<le> 2 powi ilog2 y"
      using 2 by (intro rnd_pos_le_pow) (auto simp: ulp_exp_def)
    also have "\<dots> \<le> rnd_pos y"
      using 2 assms by (intro rnd_pos_ge_pow ilog2_bounds) (auto simp: ulp_exp_def)
    finally show ?thesis .
  qed
qed

lemma rnd_0 [simp]: "rnd 0 = 0"
  by (simp add: rnd_def)

lemma rnd_mono: "x \<le> y \<Longrightarrow> rnd x \<le> rnd y"
proof -
  assume le: "x \<le> y"
  consider "0 < x" | "y < 0" | "x \<le> 0" "0 \<le> y" using le by linarith
  then show ?thesis
  proof cases
    case 1
    with le show ?thesis by (simp add: rnd_def rnd_pos_mono)
  next
    case 2
    with le have "rnd_pos (- y) \<le> rnd_pos (- x)" by (intro rnd_pos_mono) auto
    with 2 le show ?thesis by (simp add: rnd_def)
  next
    case 3
    have "rnd x \<le> 0" using 3 rnd_pos_nonneg [of "- x"] by (auto simp: rnd_def)
    moreover have "0 \<le> rnd y" using 3 rnd_pos_nonneg [of y] by (auto simp: rnd_def)
    ultimately show ?thesis by linarith
  qed
qed

text \<open>Integers of at most 53 bits are exact.\<close>

lemma rnd_of_int:
  assumes "0 \<le> n" and "n < 2 ^ 53"
  shows "rnd (of_int n) = of_int n"
proof (cases "n = 0")
  case True
  then show ?thesis by simp
next
  case False
  define x :: rat where "x = of_int n"
  have pos: "0 < x" and one: "1 \<le> x" using assms False by (auto simp: x_def)
  have "x < of_int (2 ^ 53)" unfolding x_def using assms(2) by (simp only: of_int_less_iff)
  then have "x < 2 powi 53" by simp
  with ilog2_bounds(1) [OF pos] have "(2 :: rat) powi ilog2 x < 2 powi 53" by linarith
  then have "ilog2 x < 53"
    using power_int_increasing [of 53 "ilog2 x" "2 :: rat"] by (meson linorder_not_le numeral_le_one_iff
        one_le_numeral)
  moreover have "0 \<le> ilog2 x"
  proof (rule ccontr)
    assume "\<not> 0 \<le> ilog2 x"
    then have "(2 :: rat) powi (ilog2 x + 1) \<le> 2 powi 0" by (intro power_int_increasing) auto
    with ilog2_bounds(2) [OF pos] one show False by simp
  qed
  ultimately have e: "ulp_exp x \<le> 0" by (simp add: ulp_exp_def)
  have "x / 2 powi ulp_exp x = x * 2 powi (- ulp_exp x)" by (simp add: power_int_minus_divide)
  also have "\<dots> = of_int (n * 2 ^ nat (- ulp_exp x))"
    using e by (simp add: x_def flip: power_int_of_nat)
  finally have "rnd_pos x = x" by (rule rnd_pos_exact)
  with pos show ?thesis by (simp add: rnd_def x_def)
qed

lemma rnd_1 [simp]: "rnd 1 = 1"
  using rnd_of_int [of 1] by simp


subsection \<open>The operations the program performs\<close>

fun float_mul :: "float64 \<Rightarrow> float64 \<Rightarrow> float64" where
  "float_mul NaN y = NaN"
| "float_mul x NaN = NaN"
| "float_mul (Fin a) (Fin b) = to_float (a * b)"
| "float_mul (Fin a) PosInf = (if a = 0 then NaN else if 0 < a then PosInf else NegInf)"
| "float_mul (Fin a) NegInf = (if a = 0 then NaN else if 0 < a then NegInf else PosInf)"
| "float_mul PosInf (Fin b) = (if b = 0 then NaN else if 0 < b then PosInf else NegInf)"
| "float_mul NegInf (Fin b) = (if b = 0 then NaN else if 0 < b then NegInf else PosInf)"
| "float_mul PosInf y = y"
| "float_mul NegInf PosInf = NegInf"
| "float_mul NegInf NegInf = PosInf"

fun float_add :: "float64 \<Rightarrow> float64 \<Rightarrow> float64" where
  "float_add NaN y = NaN"
| "float_add x NaN = NaN"
| "float_add (Fin a) (Fin b) = to_float (a + b)"
| "float_add (Fin a) y = y"
| "float_add x (Fin b) = x"
| "float_add PosInf PosInf = PosInf"
| "float_add NegInf NegInf = NegInf"
| "float_add x y = NaN"

text \<open>Division by a positive finite constant, the only division in the modelled code.\<close>

fun float_div_const :: "float64 \<Rightarrow> rat \<Rightarrow> float64" where
  "float_div_const (Fin a) b = to_float (a / b)"
| "float_div_const x b = x"

fun float_le :: "float64 \<Rightarrow> float64 \<Rightarrow> bool" where
  "float_le NaN y = False"
| "float_le x NaN = False"
| "float_le NegInf y = True"
| "float_le x PosInf = True"
| "float_le (Fin a) (Fin b) = (a \<le> b)"
| "float_le x y = False"

definition float_less :: "float64 \<Rightarrow> float64 \<Rightarrow> bool" where
  "float_less x y \<longleftrightarrow> float_le x y \<and> x \<noteq> y"

definition math_min :: "float64 \<Rightarrow> float64 \<Rightarrow> float64" where
  "math_min x y = (if x = NegInf \<or> y = NegInf then NegInf
     else if x = NaN \<or> y = NaN then NaN else if float_le x y then x else y)"

definition math_max :: "float64 \<Rightarrow> float64 \<Rightarrow> float64" where
  "math_max x y = (if x = PosInf \<or> y = PosInf then PosInf
     else if x = NaN \<or> y = NaN then NaN else if float_le x y then y else x)"

text \<open>\<open>math.Round\<close>: the nearest integer, halves away from zero.\<close>

fun math_round :: "float64 \<Rightarrow> float64" where
  "math_round (Fin a) = Fin (if a < 0 then - of_int \<lfloor>- a + 1 / 2\<rfloor> else of_int \<lfloor>a + 1 / 2\<rfloor>)"
| "math_round x = x"

text \<open>
  Conversions.  \<open>int64(f)\<close> truncates; outside the range of \<open>int64\<close> Go leaves the result to the
  implementation, so it is the parameter \<open>oob\<close>.
\<close>

definition float_of_int :: "int \<Rightarrow> float64" where
  "float_of_int n = to_float (of_int n)"

fun int_of_float :: "(float64 \<Rightarrow> int) \<Rightarrow> float64 \<Rightarrow> int" where
  "int_of_float oob (Fin a) =
     (let n = (if a < 0 then - \<lfloor>- a\<rfloor> else \<lfloor>a\<rfloor>)
      in if min_int64 \<le> n \<and> n \<le> max_int64 then n else oob (Fin a))"
| "int_of_float oob x = oob x"

subsection \<open>Values between 0 and 1\<close>

definition in_unit :: "float64 \<Rightarrow> bool" where
  "in_unit x \<longleftrightarrow> float_le (Fin 0) x \<and> float_le x (Fin 1)"

lemma in_unit_iff: "in_unit x \<longleftrightarrow> (\<exists>r. x = Fin r \<and> 0 \<le> r \<and> r \<le> 1)"
  by (cases x) (auto simp: in_unit_def)

lemma to_float_unit: "0 \<le> r \<Longrightarrow> r \<le> 1 \<Longrightarrow> \<exists>q. to_float r = Fin q \<and> 0 \<le> q \<and> q \<le> 1"
proof -
  assume "0 \<le> r" "r \<le> 1"
  then have "0 \<le> rnd r" "rnd r \<le> 1" using rnd_mono [of 0 r] rnd_mono [of r 1] by auto
  moreover have "rnd r < 2 ^ 1024"
    using \<open>rnd r \<le> 1\<close> one_less_power [of "2 :: rat" 1024] by linarith
  moreover have "- (2 ^ 1024) < rnd r"
    using \<open>0 \<le> rnd r\<close> zero_less_power [of "2 :: rat" 1024] by linarith
  ultimately show ?thesis by (simp add: to_float_def Let_def not_le)
qed

lemma in_unit_mul: "in_unit x \<Longrightarrow> in_unit y \<Longrightarrow> in_unit (float_mul x y)"
proof -
  assume "in_unit x" "in_unit y"
  then obtain a b where ab: "x = Fin a" "y = Fin b" "0 \<le> a" "a \<le> 1" "0 \<le> b" "b \<le> 1"
    by (auto simp: in_unit_iff)
  then have "0 \<le> a * b" "a * b \<le> 1" by (auto simp: mult_le_one)
  from to_float_unit [OF this] ab(1,2) show ?thesis by (auto simp: in_unit_iff)
qed

end
