(* ===== verification/Domain_State.thy ===== *)
theory Domain_State
  imports Go_Text Float64
begin

section \<open>The download and its lifecycle (internal/domain: model, state, problem)\<close>

text \<open>
  The durable download record, the lifecycle states with the transition relation, the problem
  catalogue, and the operator-facing predicates (pause, retry, retry target).  Go's \<open>State\<close> and
  \<open>SourceKind\<close> are strings; here they are datatypes with one constructor per constant and one for
  any other string.  A pointer that may be nil is an option; a time is \<^typ>\<open>time\<close>.
\<close>

subsection \<open>States\<close>

datatype State =
    StateAccepted | StateStopped | StateSubmittingOffline | StateWaitingOffline
  | StateSubmittingCopy | StateWaitingCopy | StateVerifyingLocal | StateCompleted
  | StateFailed | StateCancelRequested | StateCancelled | StateDeleteRequested | StateDeleted
  | StateOther string

datatype SourceKind = SourceMagnet | SourceTorrent | SourceOther string

fun State_Valid :: "State \<Rightarrow> bool" where
  "State_Valid (StateOther _) = False"
| "State_Valid _ = True"

definition State_Visible :: "State \<Rightarrow> bool" where
  "State_Visible s \<longleftrightarrow> State_Valid s \<and> s \<noteq> StateDeleteRequested \<and> s \<noteq> StateDeleted"

definition State_Terminal :: "State \<Rightarrow> bool" where
  "State_Terminal s \<longleftrightarrow> s \<in> {StateCompleted, StateFailed, StateCancelled}"

definition State_Claimable :: "State \<Rightarrow> bool" where
  "State_Claimable s \<longleftrightarrow>
     (if \<not> State_Valid s then False
      else s \<notin> {StateStopped, StateCompleted, StateFailed, StateCancelled, StateDeleted})"

fun SourceKind_Valid :: "SourceKind \<Rightarrow> bool" where
  "SourceKind_Valid (SourceOther _) = False"
| "SourceKind_Valid _ = True"

definition activeExit :: "State \<Rightarrow> bool" where
  "activeExit to \<longleftrightarrow> to = StateFailed \<or> to = StateCancelRequested \<or> to = StateDeleteRequested"

definition CanTransition :: "State \<Rightarrow> State \<Rightarrow> bool" where
  "CanTransition from to =
     (if from = to then False
      else case from of
        StateAccepted \<Rightarrow> to = StateSubmittingOffline \<or> activeExit to
      | StateStopped \<Rightarrow> to = StateAccepted \<or> to = StateSubmittingCopy \<or> to = StateVerifyingLocal
          \<or> to = StateCancelRequested \<or> to = StateDeleteRequested
      | StateSubmittingOffline \<Rightarrow>
          to = StateWaitingOffline \<or> to = StateSubmittingCopy \<or> activeExit to
      | StateWaitingOffline \<Rightarrow> to = StateSubmittingCopy \<or> activeExit to
      | StateSubmittingCopy \<Rightarrow> to = StateWaitingCopy \<or> activeExit to
      | StateWaitingCopy \<Rightarrow> to = StateVerifyingLocal \<or> activeExit to
      | StateVerifyingLocal \<Rightarrow> to = StateCompleted \<or> activeExit to
      | StateCompleted \<Rightarrow> to = StateDeleteRequested \<or> to = StateVerifyingLocal
      | StateCancelled \<Rightarrow> to = StateDeleteRequested
      | StateFailed \<Rightarrow>
          to \<in> {StateDeleteRequested, StateAccepted, StateSubmittingOffline, StateWaitingOffline,
                StateSubmittingCopy, StateWaitingCopy, StateVerifyingLocal}
      | StateCancelRequested \<Rightarrow>
          to = StateStopped \<or> to = StateCancelled \<or> to = StateDeleteRequested
      | StateDeleteRequested \<Rightarrow> to = StateDeleted
      | StateDeleted \<Rightarrow> to = StateAccepted \<or> to = StateStopped \<or> to = StateVerifyingLocal
      | StateOther _ \<Rightarrow> False)"

subsection \<open>The persisted upstream statuses\<close>

abbreviation "UpstreamOfflineInit \<equiv> ''offline:INIT''"
abbreviation "UpstreamOfflineDownloading \<equiv> ''offline:DOWNLOADING''"
abbreviation "UpstreamOfflineFinished \<equiv> ''offline:FINISHED''"
abbreviation "UpstreamOfflineError \<equiv> ''offline:ERROR''"
abbreviation "UpstreamCopyPending \<equiv> ''copy:PENDING''"
abbreviation "UpstreamCopyScanning \<equiv> ''copy:SCANNING''"
abbreviation "UpstreamCopyScanned \<equiv> ''copy:SCANNED''"
abbreviation "UpstreamCopyCompleted \<equiv> ''copy:COMPLETED''"
abbreviation "UpstreamCopyFailed \<equiv> ''copy:FAILED''"
abbreviation "UpstreamRetainedContent \<equiv> ''revive:retained_content''"
abbreviation "UpstreamCleanupCancelled \<equiv> ''cleanup:cancelled''"
abbreviation "UpstreamCopyRemoved \<equiv> ''cleanup:copy_removed''"

subsection \<open>The durable records\<close>

record Category =
  catName :: string
  catCloudPath :: string
  catSavePath :: string
  catEnabled :: bool
  catCreatedAt :: time
  catUpdatedAt :: time

record DownloadFile =
  fDownloadHash :: string
  fIndex :: int
  fRelativePath :: string
  fSize :: int
  fPriority :: int

record FileOverride =
  oDownloadHash :: string
  oFileIndex :: int
  oRelativePath :: string
  oPriority :: int

record Download =
  dHash :: string
  dName :: string
  dNameOverridden :: bool
  dSourceKind :: SourceKind
  dSubmissionURI :: string
  dCategory :: string
  dTags :: string
  dAutoTMM :: bool
  dCloudFolder :: string
  dSavePath :: string
  dWorkspacePath :: string
  dDestinationName :: string
  dCloudTaskName :: string
  dCloudResultPath :: string
  dCopySourcePath :: string
  dContentPath :: string
  dIsMultiFile :: "bool option"
  dPrivate :: "bool option"
  dTotalSize :: int
  dState :: State
  dOfflineProgress :: float64
  dCopyProgress :: float64
  dQbitProgress :: float64
  dLastUpstreamStatus :: string
  dLastError :: string
  dLastErrorCode :: string
  dPhaseStartedAt :: time
  dOfflineStartedAt :: "time option"
  dCopyCompletedAt :: "time option"
  dNextRunAt :: "time option"
  dLeaseUntil :: "time option"
  dLeaseOwner :: string
  dAttemptCount :: int
  dDeleteFilesRequested :: bool
  dPauseRequested :: bool
  dCreatedAt :: time
  dUpdatedAt :: time
  dCompletedAt :: "time option"
  dRemovedAt :: "time option"
  dRowVersion :: int

record Submission =
  subDownload :: Download
  subFiles :: "DownloadFile list"

subsection \<open>The problem catalogue\<close>

text \<open>
  A \<open>ProblemCode\<close> is a string constant of the persisted format.  \<open>ProblemText\<close> is a switch over
  the constants; here it is a lookup in the list of its cases.
\<close>

type_synonym ProblemCode = string

abbreviation "ProblemCloudUnreachable \<equiv> ''cloud_unreachable''"
abbreviation "ProblemCloudUnreachableTimeout \<equiv> ''cloud_unreachable_timeout''"
abbreviation "ProblemCloudAuthenticationRequired \<equiv> ''cloud_authentication_required''"
abbreviation "ProblemCloudAuthenticationTimeout \<equiv> ''cloud_authentication_timeout''"
abbreviation "ProblemCloudCopyNotReady \<equiv> ''cloud_copy_not_ready''"
abbreviation "ProblemCloudCopyNotReadyTimeout \<equiv> ''cloud_copy_not_ready_timeout''"
abbreviation "ProblemCloudFolderUnavailable \<equiv> ''cloud_folder_unavailable''"
abbreviation "ProblemCloudRequestRejected \<equiv> ''cloud_request_rejected''"
abbreviation "ProblemCloudContentLayoutInvalid \<equiv> ''cloud_content_layout_invalid''"
abbreviation "ProblemCloudResponseInvalid \<equiv> ''cloud_response_invalid''"
abbreviation "ProblemOfflineSubmissionRejected \<equiv> ''offline_submission_rejected''"
abbreviation "ProblemOfflineDownloadFailed \<equiv> ''offline_download_failed''"
abbreviation "ProblemOfflineTimeout \<equiv> ''offline_timeout''"
abbreviation "ProblemCopyTaskFailed \<equiv> ''copy_task_failed''"
abbreviation "ProblemCopyTimeout \<equiv> ''copy_timeout''"
abbreviation "ProblemDestinationConflict \<equiv> ''destination_conflict''"
abbreviation "ProblemDestinationCollision \<equiv> ''destination_collision''"
abbreviation "ProblemLocalFilesystemUnavailable \<equiv> ''local_filesystem_unavailable''"
abbreviation "ProblemLocalFilesystemUnavailableTimeout \<equiv> ''local_filesystem_unavailable_timeout''"
abbreviation "ProblemLocalPermissionDenied \<equiv> ''local_permission_denied''"
abbreviation "ProblemLocalPathUnsafe \<equiv> ''local_path_unsafe''"
abbreviation "ProblemLocalContentLayoutInvalid \<equiv> ''local_content_layout_invalid''"
abbreviation "ProblemLocalVerificationFailed \<equiv> ''local_verification_failed''"
abbreviation "ProblemLocalVerificationTimeout \<equiv> ''local_verification_timeout''"
abbreviation "ProblemLocalDeleteFailed \<equiv> ''local_delete_failed''"
abbreviation "ProblemWorkflowOperationTimeout \<equiv> ''workflow_operation_timeout''"
abbreviation "ProblemInternalWorkflowError \<equiv> ''internal_workflow_error''"
abbreviation "ProblemLegacy \<equiv> ''legacy''"

definition ProblemCode_Valid :: "ProblemCode \<Rightarrow> bool" where
  "ProblemCode_Valid code \<longleftrightarrow>
     code \<in> set [ProblemCloudUnreachable,
       ProblemCloudUnreachableTimeout,
       ProblemCloudAuthenticationRequired,
       ProblemCloudAuthenticationTimeout,
       ProblemCloudCopyNotReady,
       ProblemCloudCopyNotReadyTimeout,
       ProblemCloudFolderUnavailable,
       ProblemCloudContentLayoutInvalid,
       ProblemCloudRequestRejected,
       ProblemCloudResponseInvalid,
       ProblemOfflineSubmissionRejected,
       ProblemOfflineDownloadFailed,
       ProblemOfflineTimeout,
       ProblemCopyTaskFailed,
       ProblemCopyTimeout,
       ProblemDestinationConflict,
       ProblemDestinationCollision,
       ProblemLocalFilesystemUnavailable,
       ProblemLocalFilesystemUnavailableTimeout,
       ProblemLocalPermissionDenied,
       ProblemLocalPathUnsafe,
       ProblemLocalContentLayoutInvalid,
       ProblemLocalVerificationFailed,
       ProblemLocalVerificationTimeout,
       ProblemLocalDeleteFailed,
       ProblemWorkflowOperationTimeout,
       ProblemInternalWorkflowError,
       ProblemLegacy]"

definition problem_texts :: "(ProblemCode \<times> string) list" where
  "problem_texts =
    [(ProblemCloudUnreachable,
        ''CloudDrive2 is unreachable.''),
     (ProblemCloudUnreachableTimeout,
        ''CloudDrive2 stayed unreachable until the phase deadline. Check its connection, then Retry.''),
     (ProblemCloudAuthenticationRequired,
        ''CloudDrive2 requires authentication.''),
     (ProblemCloudAuthenticationTimeout,
        ''CloudDrive2 kept rejecting the credentials until the phase deadline. Check the CloudDrive2 login credentials, then Retry.''),
     (ProblemCloudCopyNotReady,
        ''The 115 offline download finished, but CloudDrive2 has not accepted the copy yet. If this persists, refresh the 115 mount and verify the cloud category and NAS staging paths.''),
     (ProblemCloudContentLayoutInvalid,
        ''The 115 offline result does not match the torrent file layout.''),
     (ProblemCloudCopyNotReadyTimeout,
        ''CloudDrive2 did not accept the copy before the deadline. Refresh the 115 mount and verify the cloud category and NAS staging paths, then Retry.''),
     (ProblemCloudFolderUnavailable,
        ''The 115 category folder is unavailable. Check the cloud root and category configuration, then Retry.''),
     (ProblemCloudRequestRejected,
        ''CloudDrive2 rejected the request. Check the configuration, then Retry.''),
     (ProblemCloudResponseInvalid,
        ''CloudDrive2 returned an invalid response. Retry to try the operation again.''),
     (ProblemOfflineSubmissionRejected,
        ''115 rejected the offline download submission. Check the source, then Retry.''),
     (ProblemOfflineDownloadFailed,
        ''The 115 offline download failed. Retry to submit it again.''),
     (ProblemOfflineTimeout,
        ''The 115 offline download did not finish before the deadline. Check the source, then Retry.''),
     (ProblemCopyTaskFailed,
        ''The CloudDrive2 copy task failed. Retry to submit the copy again.''),
     (ProblemCopyTimeout,
        ''The copy did not finish before the deadline. Refresh the 115 mount and verify the cloud category and NAS staging paths, then Retry.''),
     (ProblemDestinationConflict,
        ''Another download reserved the same destination. Resolve the conflict, then Retry.''),
     (ProblemDestinationCollision,
        ''Content already exists at the destination. Remove it, then Retry.''),
     (ProblemLocalFilesystemUnavailable,
        ''The shared local filesystem is temporarily unavailable. CD211 will retry automatically.''),
     (ProblemLocalFilesystemUnavailableTimeout,
        ''The shared local filesystem stayed unavailable until the workflow deadline. Check the shared mount, then Retry.''),
     (ProblemLocalPermissionDenied,
        ''CD211 does not have permission to access the shared local path. Check the shared user and group permissions, then Retry.''),
     (ProblemLocalPathUnsafe,
        ''The shared local path contains a symbolic link, special file, or unsafe path change. Remove the unsafe entry, then Retry.''),
     (ProblemLocalContentLayoutInvalid,
        ''The copied local content does not match the expected file type, size, or file list. Remove the incomplete content, then Retry.''),
     (ProblemLocalVerificationFailed,
        ''Local content verification failed. Check the shared staging folder, then Retry.''),
     (ProblemLocalVerificationTimeout,
        ''The local content did not appear before the verification deadline. Refresh the 115 mount and the staging folder, then Retry.''),
     (ProblemLocalDeleteFailed,
        ''Local content could not be deleted. Check the staging folder permissions, then Retry.''),
     (ProblemWorkflowOperationTimeout,
        ''A workflow operation exceeded its deadline. CD211 will retry automatically.''),
     (ProblemInternalWorkflowError,
        ''An internal workflow error occurred. Retry to continue.'')]"

definition ProblemText :: "ProblemCode \<Rightarrow> string" where
  "ProblemText code = (case map_of problem_texts code of Some t \<Rightarrow> t | None \<Rightarrow> [])"

text \<open>The structural check on a persisted code: empty, or UTF-8 without C0 controls and DEL.\<close>

definition safeProblemCode :: "string \<Rightarrow> bool" where
  "safeProblemCode v \<longleftrightarrow>
     v = [] \<or> (utf8_valid v \<and> list_all (\<lambda>r. \<not> (r < 32 \<or> r = 127)) (runes v))"

subsection \<open>Pause, retry and the retry target\<close>

definition CanPause :: "Download \<Rightarrow> bool" where
  "CanPause d \<longleftrightarrow>
     (if dPauseRequested d then False
      else dState d \<in> {StateAccepted, StateSubmittingOffline, StateWaitingOffline,
        StateSubmittingCopy, StateWaitingCopy, StateVerifyingLocal})"

definition CanRetry :: "Download \<Rightarrow> bool" where
  "CanRetry d \<longleftrightarrow> dState d = StateFailed \<or>
     ((dState d = StateCancelRequested \<or> dState d = StateDeleteRequested) \<and> dLastError d \<noteq> [])"

definition RetryTarget :: "Download \<Rightarrow> State" where
  "RetryTarget d =
     (let status = trim_prefix (trim_prefix (dLastUpstreamStatus d) (UpstreamCleanupCancelled @ ''|''))
                     (UpstreamCopyRemoved @ ''|'')
      in if dState d = StateCancelRequested \<or> dState d = StateDeleteRequested then dState d
         else if dState d = StateFailed \<and> dLastErrorCode d = ProblemDestinationConflict
           then StateSubmittingCopy
         else if dState d = StateFailed \<and>
             (dLastErrorCode d = ProblemLocalVerificationFailed \<or>
              dLastErrorCode d = ProblemLocalVerificationTimeout \<or>
              dLastErrorCode d = ProblemLocalFilesystemUnavailableTimeout \<or>
              dLastErrorCode d = ProblemLocalPermissionDenied \<or>
              dLastErrorCode d = ProblemLocalPathUnsafe \<or>
              dLastErrorCode d = ProblemLocalContentLayoutInvalid \<or>
              dLastErrorCode d = ProblemLocalDeleteFailed)
           then StateSubmittingCopy
         else if dContentPath d \<noteq> [] \<or> status = UpstreamCopyCompleted then StateVerifyingLocal
         else if status = UpstreamCopyPending \<or> status = UpstreamCopyScanning
             \<or> status = UpstreamCopyScanned then StateWaitingCopy
         else if status = UpstreamOfflineError then StateSubmittingOffline
         else if has_prefix status ''copy:'' then StateSubmittingCopy
         else if status = UpstreamOfflineFinished \<or> dCloudResultPath d \<noteq> []
           then StateSubmittingCopy
         else if has_prefix status ''offline:'' then StateWaitingOffline
         else StateSubmittingOffline)"

subsection \<open>Facts about the lifecycle\<close>

lemmas state_pred_defs =
  State_Visible_def State_Terminal_def State_Claimable_def activeExit_def

lemma CanTransition_irrefl [simp]: "\<not> CanTransition s s"
  by (simp add: CanTransition_def)

lemma CanTransition_valid: "CanTransition s t \<Longrightarrow> State_Valid s \<and> State_Valid t"
  by (cases s) (auto simp: CanTransition_def activeExit_def split: if_splits)

lemma CanTransition_into_completed: "CanTransition s StateCompleted \<longleftrightarrow> s = StateVerifyingLocal"
  by (cases s) (auto simp: CanTransition_def activeExit_def)

lemma CanTransition_from_delete_requested:
  "CanTransition StateDeleteRequested t \<longleftrightarrow> t = StateDeleted"
  by (auto simp: CanTransition_def)

end
