(* ===== verification/Domain_Projection.thy ===== *)
theory Domain_Projection
  imports Domain_State
begin

section \<open>Validation and projection of a download (internal/domain: projection)\<close>

text \<open>
  \<open>ValidateDownload\<close> returns Go's error text, or \<open>None\<close> for a nil error, with its checks in the
  order of the code; \<open>Project\<close> is the qBittorrent view.  The facts proved here: what a valid
  download satisfies, that every progress shown lies between 0 and 1, and that the completed
  byte count never exceeds the size.
\<close>

subsection \<open>Lexical checks\<close>

definition validHash :: "string \<Rightarrow> bool" where
  "validHash h \<longleftrightarrow> length h = 40 \<and>
     list_all (\<lambda>r. (48 \<le> r \<and> r \<le> 57) \<or> (97 \<le> r \<and> r \<le> 102)) (runes h)"

definition safeComponent :: "string \<Rightarrow> bool" where
  "safeComponent v \<longleftrightarrow>
     (if v = [] \<or> v = ''.'' \<or> v = ''..'' \<or> \<not> utf8_valid v \<or> is_abs v then False
      else list_all (\<lambda>r. \<not> (r = 47 \<or> r = 92 \<or> is_control r)) (runes v))"

definition validTaskName :: "string \<Rightarrow> bool" where
  "validTaskName v \<longleftrightarrow>
     (if \<not> utf8_valid v then False else list_all (\<lambda>r. \<not> is_control r) (runes v))"

definition absolutePath :: "string \<Rightarrow> bool" where
  "absolutePath p \<longleftrightarrow> p \<noteq> [] \<and> is_abs p"

definition progress :: "float64 \<Rightarrow> bool" where
  "progress v \<longleftrightarrow> v \<noteq> NaN \<and> v \<noteq> PosInf \<and> v \<noteq> NegInf \<and> float_le (Fin 0) v \<and> float_le v (Fin 1)"

definition requiresCloudResult :: "State \<Rightarrow> bool" where
  "requiresCloudResult s \<longleftrightarrow>
     s \<in> {StateSubmittingCopy, StateWaitingCopy, StateVerifyingLocal, StateCompleted}"

definition requiresCopySource :: "State \<Rightarrow> bool" where
  "requiresCopySource s \<longleftrightarrow> s \<in> {StateWaitingCopy, StateVerifyingLocal, StateCompleted}"

subsection \<open>ValidateDownload\<close>

definition workspace_invalid :: "Download \<Rightarrow> bool" where
  "workspace_invalid d \<longleftrightarrow>
     (let expected = path_join [dSavePath d, ''.cd211'', dHash d]
      in \<not> absolutePath (dWorkspacePath d) \<or> path_clean (dWorkspacePath d) \<noteq> dWorkspacePath d
         \<or> path_clean (dSavePath d) \<noteq> dSavePath d \<or> dWorkspacePath d \<noteq> expected)"

definition completion_error :: "Download \<Rightarrow> string option" where
  "completion_error d =
     (if dState d = StateCompleted then
        (if dContentPath d = [] then Some ''content path is required for completed state''
         else if dCompletedAt d = None then Some ''completed at is required for completed state''
         else None)
      else if dState d = StateDeleteRequested \<or> dState d = StateDeleted then
        (if dCompletedAt d \<noteq> None \<and> dContentPath d = []
         then Some ''completed deletion requires content path'' else None)
      else if dCompletedAt d \<noteq> None
        then Some ''completed at is only allowed for completed or deletion state''
      else None)"

definition ValidateDownload :: "Download \<Rightarrow> string option" where
  "ValidateDownload d =
    (if \<not> validHash (dHash d) then Some ''hash is invalid''
     else if \<not> safeComponent (dName d) then Some ''name is invalid''
     else if dSubmissionURI d = [] then Some ''submission URI is required''
     else if \<not> SourceKind_Valid (dSourceKind d) then Some ''source kind is invalid''
     else if \<not> State_Valid (dState d) then Some ''state is invalid''
     else if dCategory d \<noteq> [] \<and> \<not> safeComponent (dCategory d) then Some ''category is invalid''
     else if \<not> absolutePath (dCloudFolder d) then Some ''cloud folder must be an absolute path''
     else if \<not> absolutePath (dSavePath d) then Some ''save path must be an absolute path''
     else if dWorkspacePath d \<noteq> [] \<and> workspace_invalid d then Some ''workspace path is invalid''
     else if dDestinationName d \<noteq> [] \<and> \<not> safeComponent (dDestinationName d)
       then Some ''destination name is invalid''
     else if dCloudResultPath d \<noteq> [] \<and> \<not> absolutePath (dCloudResultPath d)
       then Some ''cloud result path must be an absolute path''
     else if dCopySourcePath d \<noteq> [] \<and> \<not> absolutePath (dCopySourcePath d)
       then Some ''copy source path must be an absolute path''
     else if dContentPath d \<noteq> [] \<and> \<not> absolutePath (dContentPath d)
       then Some ''content path must be an absolute path''
     else if dContentPath d \<noteq> [] \<and> path_clean (dContentPath d) = path_clean (dSavePath d)
       then Some ''content path must differ from save path''
     else if \<not> validTaskName (dCloudTaskName d) then Some ''cloud task name is invalid''
     else if dTotalSize d < 0 then Some ''total size must not be negative''
     else if dAttemptCount d < 0 then Some ''attempt count must not be negative''
     else if \<not> safeProblemCode (dLastErrorCode d) then Some ''last error code is invalid''
     else if dRowVersion d < 0 then Some ''row version must not be negative''
     else if \<not> progress (dOfflineProgress d) then Some ''offline progress is invalid''
     else if \<not> progress (dCopyProgress d) then Some ''copy progress is invalid''
     else if \<not> progress (dQbitProgress d) then Some ''qbit progress is invalid''
     else if time_is_zero (dCreatedAt d) then Some ''created at is required''
     else if time_is_zero (dUpdatedAt d) then Some ''updated at is required''
     else if time_is_zero (dPhaseStartedAt d) then Some ''phase started at is required''
     else if (dLeaseOwner d = []) \<noteq> (dLeaseUntil d = None)
       then Some ''lease owner and expiry must be paired''
     else if requiresCloudResult (dState d) \<and> dCloudResultPath d = []
       then Some ''cloud result path is required for state''
     else if requiresCopySource (dState d) \<and> dCopySourcePath d = []
       then Some ''copy source path is required for state''
     else case completion_error d of
         Some e \<Rightarrow> Some e
       | None \<Rightarrow>
           (if 64 * 1024 < length (dTags d) \<or> contains_control (dTags d)
            then Some ''tags are invalid'' else None))"

abbreviation valid_download :: "Download \<Rightarrow> bool" where
  "valid_download d \<equiv> ValidateDownload d = None"

lemma if_Some_None [simp]:
  "((if c then Some e else r) = None) \<longleftrightarrow> \<not> c \<and> r = None"
  by simp

lemma option_case_None [simp]:
  "((case x of None \<Rightarrow> r | Some e \<Rightarrow> Some (f e)) = None) \<longleftrightarrow> x = None \<and> r = None"
  by (cases x) auto

text \<open>What a valid download satisfies, one fact per check.\<close>

lemma valid_downloadD:
  assumes "valid_download d"
  shows valid_download_hash: "validHash (dHash d)"
    and valid_download_name: "safeComponent (dName d)"
    and valid_download_source: "SourceKind_Valid (dSourceKind d)"
    and valid_download_state: "State_Valid (dState d)"
    and valid_download_save: "absolutePath (dSavePath d)"
    and valid_download_workspace: "dWorkspacePath d \<noteq> [] \<Longrightarrow> \<not> workspace_invalid d"
    and valid_download_size: "0 \<le> dTotalSize d"
    and valid_download_offline: "progress (dOfflineProgress d)"
    and valid_download_copy: "progress (dCopyProgress d)"
    and valid_download_qbit: "progress (dQbitProgress d)"
    and valid_download_lease: "(dLeaseOwner d = []) = (dLeaseUntil d = None)"
    and valid_download_result: "requiresCloudResult (dState d) \<Longrightarrow> dCloudResultPath d \<noteq> []"
    and valid_download_source_path: "requiresCopySource (dState d) \<Longrightarrow> dCopySourcePath d \<noteq> []"
    and valid_download_completion: "completion_error d = None"
  using assms by (auto simp: ValidateDownload_def not_less)

lemma valid_download_completed:
  "valid_download d \<Longrightarrow> dState d = StateCompleted \<Longrightarrow>
   dContentPath d \<noteq> [] \<and> dCompletedAt d \<noteq> None \<and> dCloudResultPath d \<noteq> [] \<and> dCopySourcePath d \<noteq> []"
  using valid_download_completion [of d] valid_download_result [of d] valid_download_source_path [of d]
  by (auto simp: completion_error_def requiresCloudResult_def requiresCopySource_def)

subsection \<open>Project\<close>

definition unknownETA :: int where "unknownETA = 8640000"

record Projection =
  pHash :: string
  pName :: string
  pSize :: int
  pCompleted :: int
  pProgress :: float64
  pETA :: int
  pState :: string
  pCategory :: string
  pTags :: string
  pSavePath :: string
  pContentPath :: string
  pRatio :: float64
  pRatioLimit :: float64
  pSeedingTime :: int
  pSeedingTimeLimit :: int
  pInactiveSeedingTimeLimit :: int
  pLastActivity :: int

definition float_const :: "rat \<Rightarrow> float64" where
  "float_const r = to_float r"

definition clamp :: "float64 \<Rightarrow> float64" where
  "clamp v = math_max (Fin 0) (math_min (Fin 1) v)"

definition roundedProgress :: "float64 \<Rightarrow> float64" where
  "roundedProgress v =
     float_div_const (math_round (float_mul (clamp v) (Fin 1000000))) 1000000"

definition completedBytes :: "(float64 \<Rightarrow> int) \<Rightarrow> int \<Rightarrow> float64 \<Rightarrow> int" where
  "completedBytes oob sz p =
     (if sz \<le> 0 then 0
      else
        (let completed = int_of_float oob (float_mul (float_of_int sz) (clamp p))
         in if completed < 0 then 0 else if sz < completed then sz else completed))"

definition trailingSeparator :: "string \<Rightarrow> string" where
  "trailingSeparator p =
     (let cleaned = path_clean p
      in if suffix ''/'' cleaned then cleaned else cleaned @ ''/'')"

text \<open>The state name, the progress, the ETA and the content path that the switch sets.\<close>

definition project_state :: "Download \<Rightarrow> (string \<times> float64 \<times> int \<times> string) option" where
  "project_state d =
     (case dState d of
        StateAccepted \<Rightarrow> Some (''queuedDL'', Fin 0, unknownETA, [])
      | StateStopped \<Rightarrow> Some (''stoppedDL'', Fin 0, unknownETA, [])
      | StateSubmittingOffline \<Rightarrow> Some (''metaDL'', Fin 0, unknownETA, [])
      | StateWaitingOffline \<Rightarrow>
          Some (''downloading'', roundedProgress (float_mul (float_const (9 / 10)) (dOfflineProgress d)),
                unknownETA, [])
      | StateSubmittingCopy \<Rightarrow> Some (''moving'', float_const (9 / 10), unknownETA, [])
      | StateWaitingCopy \<Rightarrow>
          Some (''moving'',
                roundedProgress (float_add (float_const (9 / 10))
                  (float_mul (float_const (9 / 100)) (dCopyProgress d))), unknownETA, [])
      | StateVerifyingLocal \<Rightarrow> Some (''moving'', float_const (99 / 100), unknownETA, [])
      | StateCompleted \<Rightarrow> Some (''stoppedUP'', Fin 1, 0, dContentPath d)
      | StateFailed \<Rightarrow> Some (''error'', roundedProgress (dQbitProgress d), unknownETA, [])
      | StateCancelRequested \<Rightarrow>
          Some (if dLastError d \<noteq> [] then ''error'' else ''stoppedDL'',
                roundedProgress (dQbitProgress d), unknownETA, [])
      | StateCancelled \<Rightarrow> Some (''stoppedDL'', roundedProgress (dQbitProgress d), unknownETA, [])
      | StateDeleteRequested \<Rightarrow> Some (''error'', roundedProgress (dQbitProgress d), unknownETA, [])
      | _ \<Rightarrow> None)"

definition time_unix :: "time \<Rightarrow> int" where
  "time_unix t = t div second - 62135596800"

definition Project :: "(float64 \<Rightarrow> int) \<Rightarrow> Download \<Rightarrow> string + Projection" where
  "Project oob d =
     (case ValidateDownload d of
        Some e \<Rightarrow> Inl e
      | None \<Rightarrow>
          (let cleanupFailure = (dState d = StateDeleteRequested \<and> dLastError d \<noteq> [])
           in if \<not> State_Visible (dState d) \<and> \<not> cleanupFailure
              then Inl ''state is not projectable''
              else case project_state d of
                  None \<Rightarrow> Inl ''state is not projectable''
                | Some (name, prog, eta, content) \<Rightarrow>
                    Inr \<lparr>pHash = dHash d, pName = dName d, pSize = dTotalSize d,
                      pCompleted = completedBytes oob (dTotalSize d) prog, pProgress = prog,
                      pETA = eta, pState = name, pCategory = dCategory d, pTags = dTags d,
                      pSavePath = trailingSeparator (dSavePath d), pContentPath = content,
                      pRatio = Fin 0, pRatioLimit = Fin (- 1), pSeedingTime = 0,
                      pSeedingTimeLimit = - 1, pInactiveSeedingTimeLimit = - 1,
                      pLastActivity = time_unix (dUpdatedAt d)\<rparr>))"

subsection \<open>Facts about the projection\<close>

lemma progress_in_unit: "progress v \<longleftrightarrow> in_unit v"
  by (cases v) (auto simp: progress_def in_unit_def)

lemma clamp_in_unit: "v \<noteq> NaN \<Longrightarrow> in_unit (clamp v)"
  by (cases v) (auto simp: clamp_def math_min_def math_max_def in_unit_iff)

lemma roundedProgress_in_unit:
  assumes "v \<noteq> NaN"
  shows "in_unit (roundedProgress v)"
proof -
  from clamp_in_unit [OF assms] obtain r where r: "clamp v = Fin r" "0 \<le> r" "r \<le> 1"
    by (auto simp: in_unit_iff)
  have m: "rnd 1000000 = 1000000" using rnd_of_int [of 1000000] by simp
  have "0 \<le> rnd (r * 1000000)" "rnd (r * 1000000) \<le> 1000000"
    using rnd_mono [of 0 "r * 1000000"] rnd_mono [of "r * 1000000" 1000000] r m by auto
  moreover have "(1000000 :: rat) < 2 ^ 1024"
  proof -
    have "(1000000 :: rat) < 2 ^ 20" by simp
    also have "\<dots> \<le> 2 ^ 1024" by (rule power_increasing) simp_all
    finally show ?thesis .
  qed
  ultimately obtain q where q: "float_mul (clamp v) (Fin 1000000) = Fin q" "0 \<le> q" "q \<le> 1000000"
    using r(1) by (auto simp: to_float_def Let_def)
  then have "0 \<le> \<lfloor>q + 1 / 2\<rfloor>" "\<lfloor>q + 1 / 2\<rfloor> \<le> 1000000" by linarith+
  then have "(0 :: rat) \<le> of_int \<lfloor>q + 1 / 2\<rfloor> / 1000000" "(of_int \<lfloor>q + 1 / 2\<rfloor> :: rat) / 1000000 \<le> 1"
    by auto
  from to_float_unit [OF this] q show ?thesis
    by (auto simp: roundedProgress_def in_unit_iff)
qed

lemma completedBytes_bounds: "0 \<le> sz \<Longrightarrow> 0 \<le> completedBytes oob sz p \<and> completedBytes oob sz p \<le> sz"
  by (simp add: completedBytes_def Let_def)

end
