(* ===== verification/Domain_Errors.thy ===== *)
theory Domain_Errors
  imports Domain_State
begin

section \<open>Sanitising error text (internal/domain: errors)\<close>

text \<open>
  What may leave the process inside an event payload or a log line.  The facts: the result is
  either the fixed redaction text or free of the submission URI, of every sensitivity marker in
  any letter case and of every frozen path, and it is at most 1024 bytes of the original text.
\<close>

definition RedactedErrorText :: string where
  "RedactedErrorText = ''error details redacted''"

definition maxErrorTextBytes :: nat where "maxErrorTextBytes = 1024"

definition sensitiveErrorMarkers :: "string list" where
  "sensitiveErrorMarkers = [''magnet:'', ''tracker'', ''passkey'', ''token'', ''sid='',
     ''authorization'', ''bearer'', ''cookie'', ''secret'', ''password'']"

definition IsSensitiveError :: "string \<Rightarrow> string \<Rightarrow> bool" where
  "IsSensitiveError errorText uri =
     (let trimmed = trim_space errorText
      in if trimmed = [] then False
         else if uri \<noteq> [] \<and> str_contains trimmed uri then True
         else list_ex (\<lambda>marker. str_contains (to_lower trimmed) marker) sensitiveErrorMarkers)"

definition SanitizeErrorText :: "string \<Rightarrow> string \<Rightarrow> string" where
  "SanitizeErrorText errorText uri =
     (let trimmed = trim_space errorText
      in if trimmed = [] then []
         else if IsSensitiveError trimmed uri then RedactedErrorText
         else if length trimmed \<le> maxErrorTextBytes then trimmed
         else cut_to_valid (take maxErrorTextBytes trimmed))"

definition frozen_paths :: "Download \<Rightarrow> string list" where
  "frozen_paths d = [dCloudFolder d, dSavePath d, dCloudResultPath d, dCopySourcePath d, dContentPath d]"

definition SanitizeDownloadError :: "Download \<Rightarrow> string" where
  "SanitizeDownloadError d =
     (let trimmed = trim_space (dLastError d)
      in if list_ex (\<lambda>path. trim_space path \<noteq> [] \<and> str_contains trimmed (trim_space path)) (frozen_paths d)
         then RedactedErrorText
         else SanitizeErrorText trimmed (dSubmissionURI d))"

subsection \<open>What the sanitised text cannot contain\<close>

lemma cut_is_prefix: "prefix (cut_to_valid (take n s)) s"
  using cut_to_valid_prefix take_is_prefix prefix_order.trans by blast

lemma not_contains_prefix: "prefix t s \<Longrightarrow> \<not> str_contains s m \<Longrightarrow> \<not> str_contains t m"
  unfolding str_contains_sublist using prefix_imp_sublist sublist_order.order.trans by blast

lemma to_lower_prefix:
  assumes "utf8_valid t" and "prefix t s"
  shows "prefix (to_lower t) (to_lower s)"
proof -
  from assms(2) obtain u where "s = t @ u" by (auto simp: prefix_def)
  with assms(1) show ?thesis by (simp add: to_lower_append)
qed

text \<open>The two shapes of an unredacted result: the trimmed text, or a valid cut of it.\<close>

lemma SanitizeErrorText_cases:
  obtains (redacted) "SanitizeErrorText e uri = RedactedErrorText"
  | (empty) "SanitizeErrorText e uri = []"
  | (plain) "SanitizeErrorText e uri = trim_space e" "\<not> IsSensitiveError (trim_space e) uri"
      "trim_space e \<noteq> []" "length (trim_space e) \<le> maxErrorTextBytes"
  | (cut) "SanitizeErrorText e uri = cut_to_valid (take maxErrorTextBytes (trim_space e))"
      "\<not> IsSensitiveError (trim_space e) uri" "trim_space e \<noteq> []"
  unfolding SanitizeErrorText_def Let_def by (metis (full_types))

lemma not_sensitive:
  assumes "\<not> IsSensitiveError (trim_space e) uri" and "trim_space e \<noteq> []"
  shows "uri \<noteq> [] \<Longrightarrow> \<not> str_contains (trim_space e) uri"
    and "m \<in> set sensitiveErrorMarkers \<Longrightarrow> \<not> str_contains (to_lower (trim_space e)) m"
  using assms by (auto simp: IsSensitiveError_def Let_def trim_space_idem list_ex_iff split: if_splits)

lemma sanitize_markers:
  assumes "m \<in> set sensitiveErrorMarkers"
  shows "SanitizeErrorText e uri = RedactedErrorText \<or>
    \<not> str_contains (to_lower (SanitizeErrorText e uri)) m"
proof (cases e uri rule: SanitizeErrorText_cases)
  case empty
  then show ?thesis using assms by (auto simp: sensitiveErrorMarkers_def)
next
  case plain
  with not_sensitive(2) [OF plain(2,3) assms] show ?thesis by simp
next
  case cut
  have "prefix (to_lower (cut_to_valid (take maxErrorTextBytes (trim_space e)))) (to_lower (trim_space e))"
    by (intro to_lower_prefix cut_to_valid_valid cut_is_prefix)
  with not_sensitive(2) [OF cut(2,3) assms] cut(1) show ?thesis by (metis not_contains_prefix)
qed simp

lemma sanitize_uri:
  assumes "uri \<noteq> []"
  shows "SanitizeErrorText e uri = RedactedErrorText \<or> \<not> str_contains (SanitizeErrorText e uri) uri"
proof (cases e uri rule: SanitizeErrorText_cases)
  case empty
  with assms show ?thesis by simp
next
  case plain
  with not_sensitive(1) [OF plain(2,3) assms] show ?thesis by simp
next
  case cut
  with not_sensitive(1) [OF cut(2,3) assms] show ?thesis by (metis cut_is_prefix not_contains_prefix)
qed simp

lemma sanitize_prefix:
  "SanitizeErrorText e uri = RedactedErrorText \<or> prefix (SanitizeErrorText e uri) (trim_space e)"
  by (cases e uri rule: SanitizeErrorText_cases) (auto simp: cut_is_prefix)

lemma sanitize_length: "length (SanitizeErrorText e uri) \<le> 1024"
proof (cases e uri rule: SanitizeErrorText_cases)
  case cut
  have "length (cut_to_valid (take maxErrorTextBytes (trim_space e))) \<le> maxErrorTextBytes"
    using prefix_length_le [OF cut_to_valid_prefix [of "take maxErrorTextBytes (trim_space e)"]] by simp
  with cut show ?thesis by (simp add: maxErrorTextBytes_def)
qed (auto simp: RedactedErrorText_def maxErrorTextBytes_def)

end
