(* ===== verification/Outbox.thy ===== *)
theory Outbox
  imports Domain_Projection Domain_Errors
begin

section \<open>The outbox contract (internal/outbox)\<close>

text \<open>
  Event types, delivery statuses, the records that the store, the dispatcher and the Web UI
  exchange, the immutable event payload, the retry schedule, and the broadcast signal.  A payload
  is kept as the struct that \<open>encoding/json\<close> is given: the bytes are a function of it and the
  program never parses them again.  A time inside a payload is the instant that \<open>formatTime\<close>
  prints.
\<close>

subsection \<open>Types\<close>

datatype EventType =
    EventTypeCreated | EventTypeStateChanged | EventTypeCategoryChanged
  | EventTypeCompleted | EventTypeFailed | EventTypeTest | EventTypeOther string

datatype AggregateType = AggregateDownload | AggregateWebhookEndpoint | AggregateOther string

datatype DeliveryStatus =
    StatusPending | StatusDelivering | StatusSucceeded | StatusDead | StatusCancelled
  | StatusOther string

fun DeliveryStatus_Valid :: "DeliveryStatus \<Rightarrow> bool" where
  "DeliveryStatus_Valid (StatusOther _) = False"
| "DeliveryStatus_Valid _ = True"

definition LeaseDuration :: duration where "LeaseDuration = 30 * second"
definition HTTPTimeout :: duration where "HTTPTimeout = 10 * second"
definition RetryDeadline :: duration where "RetryDeadline = 24 * hour"
definition MaxIdlePoll :: duration where "MaxIdlePoll = second"
definition PruneRetention :: duration where "PruneRetention = 90 * 24 * hour"

abbreviation "ErrorCategoryTimeout \<equiv> ''request timeout''"
abbreviation "ErrorCategoryConnection \<equiv> ''connection failed''"
abbreviation "ErrorCategoryTLS \<equiv> ''TLS failure''"
abbreviation "ErrorCategoryRequest \<equiv> ''request failed''"

record downloadData =
  ddHash :: string
  ddName :: string
  ddCategory :: string
  ddState :: State
  ddPreviousState :: State
  ddProgress :: float64
  ddContentPath :: string
  ddTotalSize :: int
  ddError :: string
  ddCreatedAt :: time
  ddUpdatedAt :: time
  ddCompletedAt :: "time option"
  ddDownloadVersion :: int

record testData =
  tdEndpointID :: int
  tdEndpointName :: string
  tdMessage :: string

datatype Payload =
    DownloadPayload (payID: string) (payType: EventType) (payOccurredAt: time) (payData: downloadData)
  | TestPayload (payID: string) (payType: EventType) (payOccurredAt: time) (payTest: testData)

record EventQuery =
  qAfterSequence :: int
  qThroughSequence :: int
  qIncludeCompleted :: bool
  qIncludeFailed :: bool
  qAggregateID :: string
  qLimit :: int

record EndpointInput =
  inName :: string
  inURL :: string
  inSubscribeCompleted :: bool
  inSubscribeFailed :: bool
  inBearerToken :: string
  inClearBearerToken :: bool
  inEnabled :: "bool option"

record Claim =
  clDeliveryID :: int
  clOwner :: string
  clVersion :: int
  clEndpointID :: int
  clEventID :: string
  clEventType :: EventType
  clPayload :: Payload
  clURL :: string
  clHMACSecret :: string
  clBearerToken :: string
  clAttemptCount :: int
  clFirstAttemptAt :: "time option"

record Result =
  rsStatus :: DeliveryStatus
  rsNextAttemptAt :: "time option"
  rsLastHTTPStatus :: int
  rsLastError :: string
  rsDeliveredAt :: "time option"

subsection \<open>Payloads\<close>

text \<open>\<open>json.Marshal\<close> of these structs fails only on a float that JSON cannot represent.\<close>

fun json_finite :: "float64 \<Rightarrow> bool" where
  "json_finite (Fin _) = True"
| "json_finite _ = False"

definition downloadProgress :: "(float64 \<Rightarrow> int) \<Rightarrow> Download \<Rightarrow> float64" where
  "downloadProgress oob d =
     (case Project oob d of
        Inr p \<Rightarrow> pProgress p
      | Inl _ \<Rightarrow>
          (if float_less (dQbitProgress d) (Fin 0) then Fin 0
           else if float_less (Fin 1) (dQbitProgress d) then Fin 1
           else dQbitProgress d))"

definition BuildDownloadPayload ::
    "(float64 \<Rightarrow> int) \<Rightarrow> string \<Rightarrow> EventType \<Rightarrow> State \<Rightarrow> Download \<Rightarrow> Payload option" where
  "BuildDownloadPayload oob eventID eventType previousState d =
     (let errorText = (if eventType = EventTypeFailed then SanitizeDownloadError d else []);
          prog = downloadProgress oob d
      in if \<not> json_finite prog then None
         else Some (DownloadPayload eventID eventType (dUpdatedAt d)
           \<lparr>ddHash = dHash d, ddName = dName d, ddCategory = dCategory d, ddState = dState d,
            ddPreviousState = previousState, ddProgress = prog, ddContentPath = dContentPath d,
            ddTotalSize = dTotalSize d, ddError = errorText, ddCreatedAt = dCreatedAt d,
            ddUpdatedAt = dUpdatedAt d, ddCompletedAt = dCompletedAt d,
            ddDownloadVersion = dRowVersion d\<rparr>))"

definition BuildTestPayload :: "string \<Rightarrow> int \<Rightarrow> string \<Rightarrow> time \<Rightarrow> Payload" where
  "BuildTestPayload eventID endpointID endpointName occurredAt =
     TestPayload eventID EventTypeTest occurredAt
       \<lparr>tdEndpointID = endpointID, tdEndpointName = endpointName,
        tdMessage = ''CD211 webhook test''\<rparr>"

text \<open>The payload of a valid download always serialises, with a progress between 0 and 1.\<close>

lemma project_progress_unit:
  assumes "Project oob d = Inr p"
  shows "in_unit (pProgress p)"
proof -
  from assms have v: "valid_download d"
    by (cases "ValidateDownload d") (auto simp: Project_def)
  then have nan: "dOfflineProgress d \<noteq> NaN" "dCopyProgress d \<noteq> NaN" "dQbitProgress d \<noteq> NaN"
    using valid_download_offline [OF v] valid_download_copy [OF v] valid_download_qbit [OF v]
    by (auto simp: progress_def)
  have unit: "in_unit (dOfflineProgress d)" "in_unit (dCopyProgress d)"
    using valid_download_offline [OF v] valid_download_copy [OF v] by (simp_all add: progress_in_unit)
  have c: "in_unit (float_const (9 / 10))" "in_unit (float_const (9 / 100))"
    "in_unit (float_const (99 / 100))"
    using to_float_unit [of "9 / 10"] to_float_unit [of "9 / 100"] to_float_unit [of "99 / 100"]
    by (auto simp: float_const_def in_unit_iff)
  have mul: "float_mul (float_const (9 / 10)) (dOfflineProgress d) \<noteq> NaN"
    using in_unit_mul [OF c(1) unit(1)] by (auto simp: in_unit_iff)
  have add: "float_add (float_const (9 / 10)) (float_mul (float_const (9 / 100)) (dCopyProgress d)) \<noteq> NaN"
    using c(1) in_unit_mul [OF c(2) unit(2)]
    by (auto simp: in_unit_iff to_float_def Let_def split: if_splits)
  obtain name prog eta content where ps: "project_state d = Some (name, prog, eta, content)"
    and p: "pProgress p = prog"
    using assms v by (auto simp: Project_def Let_def split: option.splits if_splits prod.splits)
  have ends: "in_unit (Fin 0)" "in_unit (Fin 1)" by (simp_all add: in_unit_iff)
  from ps have "in_unit prog"
    using c nan mul add ends
    by (auto simp: project_state_def roundedProgress_in_unit split: State.splits if_splits)
  with p show ?thesis by simp
qed

lemma downloadProgress_unit:
  assumes "valid_download d"
  shows "in_unit (downloadProgress oob d)"
proof (cases "Project oob d")
  case (Inl e)
  with valid_download_qbit [OF assms] show ?thesis
    by (cases "dQbitProgress d")
      (auto simp: downloadProgress_def progress_def float_less_def in_unit_iff)
next
  case (Inr p)
  with project_progress_unit [OF Inr] show ?thesis by (simp add: downloadProgress_def)
qed

lemma payload_marshals:
  "valid_download d \<Longrightarrow> \<exists>p. BuildDownloadPayload oob i t s d = Some p"
  using downloadProgress_unit [of d oob]
  by (auto simp: BuildDownloadPayload_def Let_def in_unit_iff)

subsection \<open>The retry schedule\<close>

definition delivery_delays :: "duration list" where
  "delivery_delays = [30 * second, minute, 2 * minute, 4 * minute, 8 * minute, 16 * minute,
     32 * minute, hour, 2 * hour, 4 * hour, 6 * hour]"

definition DeliveryDelay :: "int \<Rightarrow> duration" where
  "DeliveryDelay attempt =
     (let a = (if attempt < 1 then 1 else attempt);
          index = a - 1;
          i = (if int (length delivery_delays) \<le> index then int (length delivery_delays) - 1 else index)
      in delivery_delays ! nat i)"

lemma delivery_delays_sorted: "sorted delivery_delays"
  by (simp add: delivery_delays_def second_def minute_def hour_def)

lemma DeliveryDelay_nth:
  "DeliveryDelay a = delivery_delays ! (min (nat (a - 1)) 10)"
  by (auto simp: DeliveryDelay_def Let_def delivery_delays_def min_def nat_le_iff)

lemma DeliveryDelay_mono: "a \<le> b \<Longrightarrow> DeliveryDelay a \<le> DeliveryDelay b"
  unfolding DeliveryDelay_nth
  by (rule sorted_nth_mono [OF delivery_delays_sorted]) (auto simp: delivery_delays_def min_def)

lemma DeliveryDelay_bounds: "30 * second \<le> DeliveryDelay a \<and> DeliveryDelay a \<le> 6 * hour"
proof -
  have "DeliveryDelay 1 \<le> DeliveryDelay (max 1 a)" by (rule DeliveryDelay_mono) simp
  moreover have "DeliveryDelay (max 1 a) = DeliveryDelay a"
    by (auto simp: DeliveryDelay_def max_def)
  moreover have "DeliveryDelay a \<le> DeliveryDelay (max 11 a)" by (rule DeliveryDelay_mono) simp
  moreover have "DeliveryDelay (max 11 a) = 6 * hour"
    by (auto simp: DeliveryDelay_nth delivery_delays_def min_def max_def)
  moreover have "DeliveryDelay 1 = 30 * second" by (simp add: DeliveryDelay_nth delivery_delays_def)
  ultimately show ?thesis by linarith
qed

subsection \<open>Endpoint input\<close>

text \<open>
  \<open>net/url\<close>'s parser is the parameter \<open>parse\<close>: what the code reads of its result is the scheme,
  the host, whether there is userinfo, and the fragment.
\<close>

record URL =
  uScheme :: string
  uHost :: string
  uHasUser :: bool
  uFragment :: string

definition http_url :: "(string \<Rightarrow> URL option) \<Rightarrow> string \<Rightarrow> bool" where
  "http_url parse raw \<longleftrightarrow>
     (case parse raw of
        None \<Rightarrow> False
      | Some u \<Rightarrow> (uScheme u = ''http'' \<or> uScheme u = ''https'') \<and> uHost u \<noteq> [])"

definition ValidateEndpointInput :: "(string \<Rightarrow> URL option) \<Rightarrow> EndpointInput \<Rightarrow> string option" where
  "ValidateEndpointInput parse input =
     (let name = trim_space (inName input)
      in if name = [] \<or> \<not> utf8_valid name \<or> 64 < length name \<or> contains_control name
         then Some ''endpoint name is invalid''
         else if 2048 < length (inURL input) then Some ''endpoint URL is too long''
         else if \<not> http_url parse (inURL input)
           then Some ''endpoint URL must be an absolute http or https URL''
         else case parse (inURL input) of
             None \<Rightarrow> Some ''endpoint URL must be an absolute http or https URL''
           | Some u \<Rightarrow>
               (if uHasUser u then Some ''endpoint URL must not contain userinfo''
                else if uFragment u \<noteq> [] then Some ''endpoint URL must not contain a fragment''
                else if \<not> inSubscribeCompleted input \<and> \<not> inSubscribeFailed input
                  then Some ''at least one event subscription is required''
                else if 4096 < length (trim_space (inBearerToken input))
                  then Some ''bearer token is too long''
                else None))"

text \<open>The query of a stored URL is replaced by the marker; the ellipsis is three bytes of UTF-8.\<close>

definition DisplayURL :: "string \<Rightarrow> string" where
  "DisplayURL raw =
     (if CHR ''?'' \<in> set raw
      then takeWhile (\<lambda>c. c \<noteq> CHR ''?'') raw @ ''?'' @ map char_of [226 :: nat, 128, 166]
      else raw)"

subsection \<open>The broadcast signal\<close>

text \<open>
  Channels are numbered in the order they are made; \<open>sgCurrent\<close> is the channel that \<open>Snapshot\<close>
  hands out (\<open>None\<close> is the nil channel of a zero-value Signal) and \<open>sgMade\<close> counts the channels.
\<close>

record Signal =
  sgCurrent :: "nat option"
  sgClosed :: "nat list"
  sgMade :: nat

definition NewSignal :: Signal where
  "NewSignal = \<lparr>sgCurrent = Some 0, sgClosed = [], sgMade = 1\<rparr>"

definition zero_signal :: Signal where
  "zero_signal = \<lparr>sgCurrent = None, sgClosed = [], sgMade = 0\<rparr>"

definition Snapshot :: "Signal \<Rightarrow> nat \<times> Signal" where
  "Snapshot s =
     (case sgCurrent s of
        Some ch \<Rightarrow> (ch, s)
      | None \<Rightarrow> (sgMade s, s\<lparr>sgCurrent := Some (sgMade s), sgMade := Suc (sgMade s)\<rparr>))"

definition Notify :: "Signal \<Rightarrow> Signal" where
  "Notify s =
     (let s' = snd (Snapshot s); ch = fst (Snapshot s)
      in s'\<lparr>sgClosed := ch # sgClosed s', sgCurrent := Some (sgMade s'), sgMade := Suc (sgMade s')\<rparr>)"

definition signal_ok :: "Signal \<Rightarrow> bool" where
  "signal_ok s \<longleftrightarrow>
     (\<forall>ch \<in> set (sgClosed s). ch < sgMade s) \<and>
     (case sgCurrent s of None \<Rightarrow> True | Some ch \<Rightarrow> ch < sgMade s \<and> ch \<notin> set (sgClosed s))"

lemma signal_ok_New: "signal_ok NewSignal"
  by (simp add: signal_ok_def NewSignal_def)

lemma signal_ok_Snapshot: "signal_ok s \<Longrightarrow> signal_ok (snd (Snapshot s))"
  by (auto simp: signal_ok_def Snapshot_def split: option.splits)

lemma signal_ok_Notify: "signal_ok s \<Longrightarrow> signal_ok (Notify s)"
  by (auto simp: signal_ok_def Notify_def Snapshot_def Let_def split: option.splits)

lemma Snapshot_open: "signal_ok s \<Longrightarrow> fst (Snapshot s) \<notin> set (sgClosed (snd (Snapshot s)))"
  by (auto simp: signal_ok_def Snapshot_def split: option.splits)

text \<open>A notification closes exactly the channel that snapshots had been handing out.\<close>

lemma Notify_closes: "set (sgClosed (Notify s)) = insert (fst (Snapshot s)) (set (sgClosed s))"
  by (auto simp: Notify_def Snapshot_def Let_def split: option.splits)

lemma Snapshot_stable: "fst (Snapshot (snd (Snapshot s))) = fst (Snapshot s)"
  by (auto simp: Snapshot_def split: option.splits)

lemma signal_snapshot_closed: "fst (Snapshot s) \<in> set (sgClosed (snd (Snapshot (Notify s))))"
  by (auto simp: Notify_def Snapshot_def Let_def split: option.splits)

lemma signal_moves: "signal_ok s \<Longrightarrow> fst (Snapshot (Notify s)) \<noteq> fst (Snapshot s)"
  using Snapshot_open [OF signal_ok_Notify] signal_snapshot_closed by metis

end
