(* ===== verification/Store_Rows.thy ===== *)
theory Store_Rows
  imports Outbox
begin

section \<open>The stored rows and the database (internal/store: sqlc models, repository.go conversions)\<close>

text \<open>
  One record per table, the conversions between rows and domain values, the path guards of the
  schema (migrations/00015), and the database as a record of tables.  A nullable column is an
  option; booleans are stored as 0 and 1 and kept as integers, because the conversions check them.
  CHECK constraints are left out: every value written has passed \<open>ValidateDownload\<close> or a narrower
  check that implies them.
\<close>

subsection \<open>Errors\<close>

text \<open>
  \<open>ErrConstraint\<close> is SQLite's UNIQUE or TRIGGER constraint error, which \<open>destinationConstraint\<close>
  recognises; \<open>ErrDriver l\<close> is any other failure of the driver, wrapped with the label \<open>l\<close>.
\<close>

datatype store_err =
    ErrNotFound | ErrClaimLost | ErrDestinationConflict | ErrInvalidTransition
  | ErrNameConflict | ErrConstraint | ErrDriver string | ErrText string

definition destinationConstraint :: "store_err \<Rightarrow> bool" where
  "destinationConstraint e \<longleftrightarrow> e = ErrConstraint"

text \<open>A statement that the driver may fail: the fault oracle says at which labels it does.\<close>

type_synonym faults = "string \<Rightarrow> bool"

definition stmt :: "faults \<Rightarrow> string \<Rightarrow> store_err + 'a \<Rightarrow> store_err + 'a" where
  "stmt flt l k = (if flt l then Inl (ErrDriver l) else k)"

lemma stmt_Inr_iff [simp]: "stmt flt l k = Inr y \<longleftrightarrow> \<not> flt l \<and> k = Inr y"
  by (simp add: stmt_def)

lemma stmt_no_fault [simp]: "\<not> flt l \<Longrightarrow> stmt flt l k = k"
  by (simp add: stmt_def)

subsection \<open>Download rows\<close>

record download_row =
  r_hash :: string
  r_name :: string
  r_source_kind :: SourceKind
  r_submission_uri :: string
  r_category :: string
  r_cloud_folder :: string
  r_save_path :: string
  r_destination_name :: "string option"
  r_cloud_task_name :: "string option"
  r_cloud_result_path :: "string option"
  r_content_path :: "string option"
  r_is_multi_file :: "int option"
  r_total_size :: int
  r_state :: State
  r_offline_progress :: float64
  r_copy_progress :: float64
  r_qbit_progress :: float64
  r_last_upstream_status :: "string option"
  r_last_error :: "string option"
  r_phase_started_at :: time
  r_next_run_at :: "time option"
  r_lease_until :: "time option"
  r_lease_owner :: "string option"
  r_attempt_count :: int
  r_delete_files_requested :: int
  r_created_at :: time
  r_updated_at :: time
  r_completed_at :: "time option"
  r_removed_at :: "time option"
  r_row_version :: int
  r_pause_requested :: int
  r_last_error_code :: "string option"
  r_offline_started_at :: "time option"
  r_copy_completed_at :: "time option"
  r_copy_source_path :: "string option"
  r_tags :: string
  r_auto_tmm :: int
  r_name_overridden :: int
  r_workspace_path :: "string option"
  r_private :: "int option"

definition nullableString :: "string \<Rightarrow> string option" where
  "nullableString v = (if v \<noteq> [] then Some v else None)"

definition nullString :: "string option \<Rightarrow> string" where
  "nullString v = (case v of None \<Rightarrow> [] | Some s \<Rightarrow> s)"

definition nullableTime :: "time option \<Rightarrow> time option" where
  "nullableTime v = (case v of None \<Rightarrow> None | Some t \<Rightarrow> Some t)"

definition nullTime :: "time option \<Rightarrow> time option" where
  "nullTime v = (case v of None \<Rightarrow> None | Some t \<Rightarrow> Some t)"

definition validNullableTime :: "time option \<Rightarrow> bool" where
  "validNullableTime v = (case v of None \<Rightarrow> True | Some t \<Rightarrow> \<not> time_is_zero t)"

definition boolInteger :: "bool \<Rightarrow> int" where
  "boolInteger b = (if b then 1 else 0)"

definition nullableBool :: "bool option \<Rightarrow> int option" where
  "nullableBool v = (case v of None \<Rightarrow> None | Some b \<Rightarrow> Some (boolInteger b))"

definition nullableBoolValue :: "int option \<Rightarrow> bool option" where
  "nullableBoolValue v = (case v of None \<Rightarrow> None | Some i \<Rightarrow> Some (i \<noteq> 0))"

definition bad_flag :: "int option \<Rightarrow> bool" where
  "bad_flag v = (case v of None \<Rightarrow> False | Some i \<Rightarrow> i \<noteq> 0 \<and> i \<noteq> 1)"

definition downloadRow :: "download_row \<Rightarrow> store_err + Download" where
  "downloadRow row =
    (if bad_flag (r_is_multi_file row) \<or> bad_flag (r_private row)
        \<or> (r_delete_files_requested row \<noteq> 0 \<and> r_delete_files_requested row \<noteq> 1)
        \<or> (r_pause_requested row \<noteq> 0 \<and> r_pause_requested row \<noteq> 1)
        \<or> (r_name_overridden row \<noteq> 0 \<and> r_name_overridden row \<noteq> 1)
     then Inl (ErrText ''stored download is invalid'')
     else if \<not> SourceKind_Valid (r_source_kind row) \<or> \<not> State_Valid (r_state row)
        \<or> time_is_zero (r_phase_started_at row) \<or> time_is_zero (r_created_at row)
        \<or> time_is_zero (r_updated_at row) \<or> r_updated_at row < r_created_at row
        \<or> \<not> validNullableTime (r_next_run_at row) \<or> \<not> validNullableTime (r_lease_until row)
        \<or> \<not> validNullableTime (r_offline_started_at row) \<or> \<not> validNullableTime (r_copy_completed_at row)
        \<or> \<not> validNullableTime (r_completed_at row) \<or> \<not> validNullableTime (r_removed_at row)
     then Inl (ErrText ''stored download is invalid'')
     else Inr
      \<lparr>dHash = r_hash row, dName = r_name row, dNameOverridden = (r_name_overridden row \<noteq> 0),
       dSourceKind = r_source_kind row, dSubmissionURI = r_submission_uri row,
       dCategory = r_category row, dTags = r_tags row, dAutoTMM = (r_auto_tmm row \<noteq> 0),
       dCloudFolder = r_cloud_folder row, dSavePath = r_save_path row,
       dWorkspacePath = nullString (r_workspace_path row),
       dDestinationName = nullString (r_destination_name row),
       dCloudTaskName = nullString (r_cloud_task_name row),
       dCloudResultPath = nullString (r_cloud_result_path row),
       dCopySourcePath = nullString (r_copy_source_path row),
       dContentPath = nullString (r_content_path row),
       dIsMultiFile = map_option (\<lambda>i. i = 1) (r_is_multi_file row),
       dPrivate = nullableBoolValue (r_private row),
       dTotalSize = r_total_size row, dState = r_state row,
       dOfflineProgress = r_offline_progress row, dCopyProgress = r_copy_progress row,
       dQbitProgress = r_qbit_progress row,
       dLastUpstreamStatus = nullString (r_last_upstream_status row),
       dLastError = nullString (r_last_error row), dLastErrorCode = nullString (r_last_error_code row),
       dPhaseStartedAt = r_phase_started_at row, dOfflineStartedAt = nullTime (r_offline_started_at row),
       dCopyCompletedAt = nullTime (r_copy_completed_at row), dNextRunAt = nullTime (r_next_run_at row),
       dLeaseUntil = nullTime (r_lease_until row), dLeaseOwner = nullString (r_lease_owner row),
       dAttemptCount = r_attempt_count row,
       dDeleteFilesRequested = (r_delete_files_requested row = 1),
       dPauseRequested = (r_pause_requested row = 1),
       dCreatedAt = r_created_at row, dUpdatedAt = r_updated_at row,
       dCompletedAt = nullTime (r_completed_at row), dRemovedAt = nullTime (r_removed_at row),
       dRowVersion = r_row_version row\<rparr>)"

definition downloadFromDB :: "download_row \<Rightarrow> store_err + Download" where
  "downloadFromDB row =
     and_then (downloadRow row) (\<lambda>download.
       case ValidateDownload download of
         Some e \<Rightarrow> Inl (ErrText (''stored download is invalid: '' @ e))
       | None \<Rightarrow> Inr download)"

text \<open>
  The row that an INSERT of these parameters creates: \<open>pause_requested\<close> is not a parameter and
  takes its column default.
\<close>

definition insertDownloadParams :: "Download \<Rightarrow> download_row" where
  "insertDownloadParams d =
    \<lparr>r_hash = dHash d, r_name = dName d, r_source_kind = dSourceKind d,
     r_submission_uri = dSubmissionURI d, r_category = dCategory d, r_cloud_folder = dCloudFolder d,
     r_save_path = dSavePath d, r_destination_name = nullableString (dDestinationName d),
     r_cloud_task_name = nullableString (dCloudTaskName d),
     r_cloud_result_path = nullableString (dCloudResultPath d),
     r_content_path = nullableString (dContentPath d), r_is_multi_file = nullableBool (dIsMultiFile d),
     r_total_size = dTotalSize d, r_state = dState d, r_offline_progress = dOfflineProgress d,
     r_copy_progress = dCopyProgress d, r_qbit_progress = dQbitProgress d,
     r_last_upstream_status = nullableString (dLastUpstreamStatus d),
     r_last_error = nullableString (dLastError d), r_phase_started_at = dPhaseStartedAt d,
     r_next_run_at = nullableTime (dNextRunAt d), r_lease_until = nullableTime (dLeaseUntil d),
     r_lease_owner = nullableString (dLeaseOwner d), r_attempt_count = dAttemptCount d,
     r_delete_files_requested = boolInteger (dDeleteFilesRequested d),
     r_created_at = dCreatedAt d, r_updated_at = dUpdatedAt d,
     r_completed_at = nullableTime (dCompletedAt d), r_removed_at = nullableTime (dRemovedAt d),
     r_row_version = dRowVersion d, r_pause_requested = 0,
     r_last_error_code = nullableString (dLastErrorCode d),
     r_offline_started_at = nullableTime (dOfflineStartedAt d),
     r_copy_completed_at = nullableTime (dCopyCompletedAt d),
     r_copy_source_path = nullableString (dCopySourcePath d), r_tags = dTags d,
     r_auto_tmm = boolInteger (dAutoTMM d), r_name_overridden = boolInteger (dNameOverridden d),
     r_workspace_path = nullableString (dWorkspacePath d), r_private = nullableBool (dPrivate d)\<rparr>"

text \<open>The statement \<open>ReviveDownload\<close> with its parameters: what it writes into a DELETED row.\<close>

definition reviveDownloadParams :: "Download \<Rightarrow> download_row \<Rightarrow> download_row" where
  "reviveDownloadParams d row = row
    \<lparr>r_name := dName d, r_source_kind := dSourceKind d, r_submission_uri := dSubmissionURI d,
     r_category := dCategory d, r_tags := dTags d, r_auto_tmm := boolInteger (dAutoTMM d),
     r_name_overridden := boolInteger (dNameOverridden d), r_cloud_folder := dCloudFolder d,
     r_save_path := dSavePath d, r_workspace_path := nullableString (dWorkspacePath d),
     r_destination_name := nullableString (dDestinationName d),
     r_cloud_task_name := nullableString (dCloudTaskName d),
     r_cloud_result_path := nullableString (dCloudResultPath d),
     r_copy_source_path := nullableString (dCopySourcePath d),
     r_content_path := nullableString (dContentPath d), r_is_multi_file := nullableBool (dIsMultiFile d),
     r_private := nullableBool (dPrivate d), r_total_size := dTotalSize d, r_state := dState d,
     r_offline_progress := dOfflineProgress d, r_copy_progress := dCopyProgress d,
     r_qbit_progress := dQbitProgress d,
     r_last_upstream_status := nullableString (dLastUpstreamStatus d),
     r_last_error := None, r_last_error_code := None, r_phase_started_at := dPhaseStartedAt d,
     r_offline_started_at := nullableTime (dOfflineStartedAt d),
     r_copy_completed_at := nullableTime (dCopyCompletedAt d),
     r_next_run_at := nullableTime (dNextRunAt d), r_lease_until := None, r_lease_owner := None,
     r_attempt_count := 0, r_delete_files_requested := 0, r_pause_requested := 0,
     r_created_at := dCreatedAt d, r_updated_at := dUpdatedAt d, r_completed_at := None,
     r_removed_at := None, r_row_version := r_row_version row + 1\<rparr>"

text \<open>The statement \<open>CommitClaim\<close> with its parameters: what it writes into the claimed row.\<close>

definition commitClaimParams :: "Download \<Rightarrow> download_row \<Rightarrow> download_row" where
  "commitClaimParams d row = row
    \<lparr>r_name := dName d, r_name_overridden := boolInteger (dNameOverridden d), r_tags := dTags d,
     r_auto_tmm := boolInteger (dAutoTMM d), r_workspace_path := nullableString (dWorkspacePath d),
     r_destination_name := nullableString (dDestinationName d),
     r_cloud_task_name := nullableString (dCloudTaskName d),
     r_cloud_result_path := nullableString (dCloudResultPath d),
     r_copy_source_path := nullableString (dCopySourcePath d),
     r_content_path := nullableString (dContentPath d), r_is_multi_file := nullableBool (dIsMultiFile d),
     r_total_size := dTotalSize d, r_state := dState d, r_offline_progress := dOfflineProgress d,
     r_copy_progress := dCopyProgress d, r_qbit_progress := dQbitProgress d,
     r_last_upstream_status := nullableString (dLastUpstreamStatus d),
     r_last_error := nullableString (dLastError d),
     r_last_error_code := nullableString (dLastErrorCode d), r_phase_started_at := dPhaseStartedAt d,
     r_offline_started_at := nullableTime (dOfflineStartedAt d),
     r_copy_completed_at := nullableTime (dCopyCompletedAt d),
     r_next_run_at := nullableTime (dNextRunAt d), r_attempt_count := dAttemptCount d,
     r_delete_files_requested := boolInteger (dDeleteFilesRequested d),
     r_pause_requested := boolInteger (dPauseRequested d), r_updated_at := dUpdatedAt d,
     r_completed_at := nullableTime (dCompletedAt d), r_removed_at := nullableTime (dRemovedAt d),
     r_lease_until := None, r_lease_owner := None, r_row_version := r_row_version row + 1\<rparr>"

subsection \<open>Conversions are lossless\<close>

definition times_ok :: "Download \<Rightarrow> bool" where
  "times_ok d \<longleftrightarrow> dCreatedAt d \<le> dUpdatedAt d \<and> validNullableTime (dNextRunAt d)
     \<and> validNullableTime (dLeaseUntil d) \<and> validNullableTime (dOfflineStartedAt d)
     \<and> validNullableTime (dCopyCompletedAt d) \<and> validNullableTime (dCompletedAt d)
     \<and> validNullableTime (dRemovedAt d)"

lemma null_conversions [simp]:
  "nullString (nullableString s) = s"
  "nullTime (nullableTime t) = t"
  "nullableBoolValue (nullableBool b) = b"
  "map_option (\<lambda>i. i = 1) (nullableBool b) = b"
  "\<not> bad_flag (nullableBool b)"
  "nullableTime t = t"
  "nullTime t = t"
  by (auto simp: nullString_def nullableString_def nullTime_def nullableTime_def
      nullableBoolValue_def nullableBool_def boolInteger_def bad_flag_def split: option.splits)

lemma boolInteger_simps [simp]:
  "boolInteger b = 1 \<longleftrightarrow> b" "boolInteger b = 0 \<longleftrightarrow> \<not> b"
  by (simp_all add: boolInteger_def)

lemma nullString_eq_Nil: "nullString v = [] \<longleftrightarrow> v = None \<or> v = Some []"
  by (auto simp: nullString_def split: option.splits)

lemma nullableString_eq_None [simp]: "nullableString s = None \<longleftrightarrow> s = []"
  by (simp add: nullableString_def)

lemma nullableString_eq_Some [simp]: "nullableString s = Some t \<longleftrightarrow> s = t \<and> s \<noteq> []"
  by (simp add: nullableString_def)

lemma valid_download_times:
  "valid_download d \<Longrightarrow>
   \<not> time_is_zero (dCreatedAt d) \<and> \<not> time_is_zero (dUpdatedAt d) \<and> \<not> time_is_zero (dPhaseStartedAt d)"
  by (auto simp: ValidateDownload_def)

lemma downloadRow_insert:
  assumes "valid_download d" and "times_ok d"
  shows "downloadRow (insertDownloadParams d) = Inr (d\<lparr>dPauseRequested := False\<rparr>)"
  using valid_download_times [OF assms(1)] valid_download_source [OF assms(1)]
    valid_download_state [OF assms(1)] assms(2)
  by (auto simp: downloadRow_def insertDownloadParams_def times_ok_def)

lemma valid_download_pause [simp]: "ValidateDownload (d\<lparr>dPauseRequested := b\<rparr>) = ValidateDownload d"
  by (cases d) (simp only: Download.update_convs Download.select_convs ValidateDownload_def
      workspace_invalid_def completion_error_def)

lemma downloadFromDB_insert:
  assumes "valid_download d" and "times_ok d"
  shows "downloadFromDB (insertDownloadParams d) = Inr (d\<lparr>dPauseRequested := False\<rparr>)"
  using assms by (simp add: downloadFromDB_def downloadRow_insert)

text \<open>A row whose times were not in order is refused when it is read back.\<close>

lemma downloadFromDB_bad_times: "\<not> times_ok d \<Longrightarrow> isl (downloadFromDB (insertDownloadParams d))"
  by (auto simp: downloadFromDB_def and_then_def downloadRow_def insertDownloadParams_def times_ok_def)

lemma times_ok_iff:
  "times_ok d \<longleftrightarrow> dCreatedAt d \<le> dUpdatedAt d \<and>
     (\<forall>t \<in> {dNextRunAt d, dLeaseUntil d, dOfflineStartedAt d, dCopyCompletedAt d, dCompletedAt d, dRemovedAt d}.
        t \<noteq> Some 0)"
  by (auto simp: times_ok_def validNullableTime_def time_is_zero_def split: option.splits)

lemma downloadFromDB_valid: "downloadFromDB row = Inr d \<Longrightarrow> valid_download d"
  by (auto simp: downloadFromDB_def and_then_Inr_iff split: option.splits)

lemma downloadRow_fields:
  assumes "downloadRow row = Inr d"
  shows "dHash d = r_hash row" "dState d = r_state row" "dRowVersion d = r_row_version row"
    "dLeaseOwner d = nullString (r_lease_owner row)" "dLeaseUntil d = r_lease_until row"
    "dContentPath d = nullString (r_content_path row)"
    "dCloudResultPath d = nullString (r_cloud_result_path row)"
    "dDeleteFilesRequested d = (r_delete_files_requested row = 1)"
    "dPauseRequested d = (r_pause_requested row = 1)" "dUpdatedAt d = r_updated_at row"
    "dCompletedAt d = r_completed_at row" "dNextRunAt d = r_next_run_at row"
    "dSavePath d = r_save_path row" "dWorkspacePath d = nullString (r_workspace_path row)"
  using assms by (auto simp: downloadRow_def split: if_splits)

lemma downloadFromDB_row: "downloadFromDB row = Inr d \<Longrightarrow> downloadRow row = Inr d"
  by (auto simp: downloadFromDB_def and_then_Inr_iff split: option.splits)

lemmas downloadFromDB_fields = downloadRow_fields [OF downloadFromDB_row]

subsection \<open>Workspace paths (internal/fsafe: WorkspacePath)\<close>

definition validateWorkspaceHash :: "string \<Rightarrow> bool" where
  "validateWorkspaceHash h \<longleftrightarrow> length h = 40 \<and>
     list_all (\<lambda>c. \<not> ((byte c < 48 \<or> 57 < byte c) \<and> (byte c < 97 \<or> 102 < byte c))) h"

definition WorkspacePath :: "string \<Rightarrow> string \<Rightarrow> string option" where
  "WorkspacePath savePath hash =
     (if \<not> is_abs savePath \<or> path_clean savePath \<noteq> savePath then None
      else if \<not> validateWorkspaceHash hash then None
      else Some (path_join [savePath, ''.cd211'', hash]))"

lemma workspace_hash_normal: "validateWorkspaceHash h \<Longrightarrow> normal_comp h"
  by (auto simp: validateWorkspaceHash_def normal_comp_def list_all_iff)

lemma WorkspacePath_shape:
  assumes "WorkspacePath sp h = Some w"
  shows "w = (if sp = ''/'' then ''/'' else sp @ ''/'') @ ''.cd211/'' @ h"
proof -
  from assms have a: "is_abs sp" "path_clean sp = sp" "validateWorkspaceHash h"
    and w: "w = path_join [sp, ''.cd211'', h]"
    by (auto simp: WorkspacePath_def split: if_splits)
  have "sp \<noteq> []" using a(1) by auto
  have "h \<noteq> []" using a(3) by (auto simp: validateWorkspaceHash_def)
  have "w = path_clean (sp @ ''/'' @ join_with ''/'' [''.cd211'', h])"
    using w \<open>sp \<noteq> []\<close> by (simp add: path_join_def)
  also have "\<dots> = (if sp = ''/'' then ''/'' else sp @ ''/'') @ join_with ''/'' [''.cd211'', h]"
    using a workspace_hash_normal [OF a(3)] by (intro path_clean_below) (auto simp: normal_comp_def)
  finally show ?thesis by simp
qed

text \<open>No two downloads share a workspace: the path determines the save root and the hash.\<close>

lemma WorkspacePath_inj:
  assumes "WorkspacePath sp h = Some w" and "WorkspacePath sp' h' = Some w"
  shows "sp = sp' \<and> h = h'"
proof -
  have len: "length h = 40" "length h' = 40"
    using assms by (auto simp: WorkspacePath_def validateWorkspaceHash_def split: if_splits)
  let ?root = "\<lambda>s. (if s = ''/'' then ''/'' else s @ ''/'')"
  have "?root sp @ ''.cd211/'' @ h = ?root sp' @ ''.cd211/'' @ h'"
    using WorkspacePath_shape [OF assms(1)] WorkspacePath_shape [OF assms(2)] by metis
  with len have "h = h'" and r: "?root sp = ?root sp'" by auto
  have "sp \<noteq> []" "sp' \<noteq> []"
    using assms by (auto simp: WorkspacePath_def split: if_splits)
  then have "sp = sp'" using r by (auto split: if_splits)
  with \<open>h = h'\<close> show ?thesis by simp
qed

subsection \<open>The other tables\<close>

record category_row =
  g_name :: string
  g_cloud_path :: string
  g_save_path :: string
  g_enabled :: int
  g_created_at :: time
  g_updated_at :: time

record file_row =
  fr_download_hash :: string
  fr_file_index :: int
  fr_relative_path :: string
  fr_size :: int

record event_row =
  ev_sequence :: int
  ev_id :: string
  ev_type :: EventType
  ev_aggregate_type :: AggregateType
  ev_aggregate_id :: string
  ev_aggregate_version :: int
  ev_payload :: Payload
  ev_occurred_at :: time

record endpoint_row =
  e_id :: int
  e_name :: string
  e_url :: string
  e_hmac_secret :: string
  e_bearer_token :: "string option"
  e_enabled :: int
  e_created_at :: time
  e_updated_at :: time
  e_deleted_at :: "time option"
  e_row_version :: int

record delivery_row =
  v_id :: int
  v_event_id :: string
  v_endpoint_id :: int
  v_endpoint_name :: string
  v_event_type :: EventType
  v_aggregate_type :: AggregateType
  v_aggregate_id :: string
  v_status :: DeliveryStatus
  v_attempt_count :: int
  v_first_attempt_at :: "time option"
  v_next_attempt_at :: "time option"
  v_lease_owner :: "string option"
  v_lease_until :: "time option"
  v_last_http_status :: "int option"
  v_last_error :: "string option"
  v_delivered_at :: "time option"
  v_created_at :: time
  v_updated_at :: time
  v_row_version :: int

text \<open>
  The store: the tables, the AUTOINCREMENT counters of the three tables that have one, and the
  process-wide broadcast signal.  The connection pool holds one connection, so operations do not
  overlap inside a transaction.
\<close>

record Db =
  downloads :: "download_row list"
  download_files :: "file_row list"
  file_overrides :: "FileOverride list"
  categories :: "category_row list"
  qbt_tags :: "string list"
  domain_events :: "event_row list"
  webhook_endpoints :: "endpoint_row list"
  webhook_subscriptions :: "(int \<times> EventType) list"
  webhook_deliveries :: "delivery_row list"
  last_sequence :: int
  last_endpoint_id :: int
  last_delivery_id :: int
  eventSignal :: Signal

end
