(* ===== verification/Encoding.thy ===== *)
theory Encoding
  imports Go_Text
begin

section \<open>Go byte encodings (encoding/base64)\<close>

text \<open>
  \<open>base64.RawURLEncoding\<close> and \<open>base64.RawStdEncoding\<close> on byte strings, as the standard library
  reads and writes them: decoding skips line breaks and ignores the unused low bits of the last
  character, so only canonical texts come back from a round trip.
\<close>

subsection \<open>The two alphabets\<close>

text \<open>\<open>A\<close> to \<open>Z\<close>, \<open>a\<close> to \<open>z\<close>, \<open>0\<close> to \<open>9\<close>, then \<open>-\<close> and \<open>_\<close> or \<open>+\<close> and \<open>/\<close>.\<close>

datatype alphabet = URLAlphabet | StdAlphabet

fun code62 :: "alphabet \<Rightarrow> nat" where
  "code62 URLAlphabet = 45"
| "code62 StdAlphabet = 43"

fun code63 :: "alphabet \<Rightarrow> nat" where
  "code63 URLAlphabet = 95"
| "code63 StdAlphabet = 47"

definition b64_code :: "alphabet \<Rightarrow> nat \<Rightarrow> nat" where
  "b64_code a n = (if n < 26 then n + 65 else if n < 52 then n + 71 else if n < 62 then n - 4
     else if n = 62 then code62 a else code63 a)"

definition b64_char :: "alphabet \<Rightarrow> nat \<Rightarrow> char" where
  "b64_char a n = char_of (b64_code a n)"

definition b64_value :: "alphabet \<Rightarrow> char \<Rightarrow> nat option" where
  "b64_value a c =
     (let n = byte c
      in if 65 \<le> n \<and> n \<le> 90 then Some (n - 65)
         else if 97 \<le> n \<and> n \<le> 122 then Some (n - 71)
         else if 48 \<le> n \<and> n \<le> 57 then Some (n + 4)
         else if n = code62 a then Some 62
         else if n = code63 a then Some 63
         else None)"

lemma b64_char_byte: "byte (b64_char a n) = b64_code a n"
proof -
  have "b64_code a n < 256" by (cases a) (auto simp: b64_code_def)
  then show ?thesis by (simp add: b64_char_def)
qed

lemma b64_value_char [simp]: "n < 64 \<Longrightarrow> b64_value a (b64_char a n) = Some n"
  unfolding b64_value_def b64_char_byte by (cases a) (auto simp: b64_code_def Let_def)

lemma b64_char_value:
  assumes "b64_value a c = Some n"
  shows "n < 64 \<and> b64_char a n = c"
proof -
  have "n < 64" using assms by (auto simp: b64_value_def Let_def split: if_splits)
  moreover have "byte (b64_char a n) = byte c"
    using assms by (cases a) (auto simp: b64_char_byte b64_code_def b64_value_def Let_def split: if_splits)
  ultimately show ?thesis by (simp add: of_char_eq_iff)
qed

subsection \<open>Groups of six bits\<close>

fun sextets :: "nat list \<Rightarrow> nat list" where
  "sextets [] = []"
| "sextets [a] = [a div 4, a mod 4 * 16]"
| "sextets [a, b] = [a div 4, a mod 4 * 16 + b div 16, b mod 16 * 4]"
| "sextets (a # b # c # r) =
     a div 4 # (a mod 4 * 16 + b div 16) # (b mod 16 * 4 + c div 64) # c mod 64 # sextets r"

fun octets :: "nat list \<Rightarrow> nat list option" where
  "octets [] = Some []"
| "octets [x] = None"
| "octets [x, y] = Some [x * 4 + y div 16]"
| "octets [x, y, z] = Some [x * 4 + y div 16, y mod 16 * 16 + z div 4]"
| "octets (x # y # z # w # r) =
     map_option (\<lambda>bs. (x * 4 + y div 16) # (y mod 16 * 16 + z div 4) # (z mod 4 * 64 + w) # bs) (octets r)"

lemma octets_sextets: "\<forall>b \<in> set bs. b < 256 \<Longrightarrow> octets (sextets bs) = Some bs"
  by (induction bs rule: sextets.induct) auto

lemma sextets_small: "\<forall>b \<in> set bs. b < 256 \<Longrightarrow> x \<in> set (sextets bs) \<Longrightarrow> x < 64"
  by (induction bs rule: sextets.induct) auto

lemma octets_small: "octets xs = Some bs \<Longrightarrow> \<forall>x \<in> set xs. x < 64 \<Longrightarrow> b \<in> set bs \<Longrightarrow> b < 256"
  by (induction xs arbitrary: bs rule: octets.induct) auto

lemma octets_length: "octets xs = Some bs \<Longrightarrow> length bs = length xs * 3 div 4"
  by (induction xs arbitrary: bs rule: octets.induct) auto

lemma octets_defined: "octets xs = None \<longleftrightarrow> length xs mod 4 = 1"
  by (induction xs rule: octets.induct) auto

lemma sextets_length: "length (sextets bs) = (length bs * 4 + 2) div 3"
  by (induction bs rule: sextets.induct) auto

text \<open>The texts that encoding produces: the unused bits of the last character are zero.\<close>

definition no_spare_bits :: "nat list \<Rightarrow> bool" where
  "no_spare_bits xs \<longleftrightarrow> xs \<noteq> [] \<longrightarrow> (length xs mod 4 = 2 \<longrightarrow> last xs mod 16 = 0) \<and> (length xs mod 4 = 3 \<longrightarrow> last xs mod 4 = 0)"

lemma sextets_octets:
  "octets xs = Some bs \<Longrightarrow> \<forall>x \<in> set xs. x < 64 \<Longrightarrow> no_spare_bits xs \<Longrightarrow> sextets bs = xs"
proof (induction xs arbitrary: bs rule: octets.induct)
  case (5 x y z w r)
  then obtain cs where cs: "octets r = Some cs" "bs = (x * 4 + y div 16) # (y mod 16 * 16 + z div 4) # (z mod 4 * 64 + w) # cs"
    by auto
  have "no_spare_bits r" using "5.prems"(3) by (auto simp: no_spare_bits_def split: if_splits)
  with 5 cs have "sextets cs = r" by simp
  moreover have "x < 64" "y < 64" "z < 64" "w < 64" using "5.prems" by simp_all
  moreover have "(x * 4 + y div 16) div 4 = x" "(x * 4 + y div 16) mod 4 = y div 16"
    "(y mod 16 * 16 + z div 4) div 16 = y mod 16" "(y mod 16 * 16 + z div 4) mod 16 = z div 4"
    "(z mod 4 * 64 + w) div 64 = z mod 4" "(z mod 4 * 64 + w) mod 64 = w"
    using \<open>y < 64\<close> \<open>z < 64\<close> \<open>w < 64\<close> by auto
  ultimately show ?case by (simp add: cs)
qed (auto simp: no_spare_bits_def)

subsection \<open>Encoding and decoding text\<close>

definition b64_encode :: "alphabet \<Rightarrow> string \<Rightarrow> string" where
  "b64_encode a s = map (b64_char a) (sextets (map byte s))"

fun b64_values :: "alphabet \<Rightarrow> string \<Rightarrow> nat list option" where
  "b64_values a [] = Some []"
| "b64_values a (c # cs) =
     (if c = CHR 0x0A \<or> c = CHR 0x0D then b64_values a cs
      else case (b64_value a c, b64_values a cs) of (Some v, Some vs) \<Rightarrow> Some (v # vs) | _ \<Rightarrow> None)"

definition b64_decode :: "alphabet \<Rightarrow> string \<Rightarrow> string option" where
  "b64_decode a s =
     (case b64_values a s of None \<Rightarrow> None | Some vs \<Rightarrow> map_option (map char_of) (octets vs))"

lemma b64_char_plain: "b64_char a n \<noteq> CHR 0x0A \<and> b64_char a n \<noteq> CHR 0x0D"
proof -
  have "byte (b64_char a n) \<noteq> 10 \<and> byte (b64_char a n) \<noteq> 13"
    by (cases a) (auto simp: b64_char_byte b64_code_def)
  then show ?thesis by auto
qed

lemma b64_values_chars: "\<forall>x \<in> set xs. x < 64 \<Longrightarrow> b64_values a (map (b64_char a) xs) = Some xs"
  by (induction xs) (auto simp: b64_char_plain)

lemma b64_values_length: "b64_values a s = Some vs \<Longrightarrow> length vs \<le> length s \<and> (\<forall>v \<in> set vs. v < 64)"
  by (induction s arbitrary: vs) (force split: if_splits option.splits dest: b64_char_value)+

lemma b64_values_full:
  "b64_values a s = Some vs \<Longrightarrow> length vs = length s \<Longrightarrow> map (b64_char a) vs = s"
proof (induction s arbitrary: vs)
  case (Cons c cs)
  then show ?case
    using b64_values_length [of a cs] by (fastforce split: if_splits option.splits dest: b64_char_value)
qed simp

theorem b64_round_trip: "b64_decode a (b64_encode a s) = Some s"
proof -
  have "\<forall>b \<in> set (map byte s). b < 256" by auto
  then have "\<forall>x \<in> set (sextets (map byte s)). x < 64" "octets (sextets (map byte s)) = Some (map byte s)"
    using sextets_small octets_sextets by blast+
  then show ?thesis by (simp add: b64_decode_def b64_encode_def b64_values_chars comp_def)
qed

lemma b64_encode_length: "length (b64_encode a s) = (length s * 4 + 2) div 3"
  by (simp add: b64_encode_def sextets_length)

text \<open>The texts that encoding produces: alphabet characters whose spare bits are zero.\<close>

lemma b64_image:
  assumes "list_all (\<lambda>c. b64_value a c \<noteq> None) s" "no_spare_bits (map (the \<circ> b64_value a) s)" "length s mod 4 \<noteq> 1"
  shows "\<exists>raw. s = b64_encode a raw \<and> length raw = length s * 3 div 4"
proof -
  let ?vs = "map (the \<circ> b64_value a) s"
  have each: "b64_value a c = Some (the (b64_value a c))" if "c \<in> set s" for c
    using assms(1) that by (auto simp: list_all_iff)
  then have small: "\<forall>v \<in> set ?vs. v < 64" and s: "map (b64_char a) ?vs = s"
    using b64_char_value by (fastforce intro: map_idI)+
  obtain ns where ns: "octets ?vs = Some ns"
    using assms(3) octets_defined [of ?vs] by (cases "octets ?vs") auto
  have "sextets ns = ?vs" by (rule sextets_octets [OF ns small assms(2)])
  moreover have "map byte (map char_of ns) = ns"
    using octets_small [OF ns small] by (auto intro!: map_idI)
  ultimately have "b64_encode a (map char_of ns) = s" using s by (simp add: b64_encode_def)
  moreover have "length ns = length s * 3 div 4" using octets_length [OF ns] by simp
  ultimately show ?thesis by (metis length_map)
qed

lemma sextets_no_spare: "no_spare_bits (sextets bs)"
proof (induction bs rule: sextets.induct)
  case (4 a b c r)
  have "sextets r \<noteq> [] \<or> r = []" by (cases r rule: sextets.cases) auto
  with 4 show ?case by (auto simp: no_spare_bits_def)
qed (auto simp: no_spare_bits_def)

lemma b64_encode_chars:
  "list_all (\<lambda>c. b64_value a c \<noteq> None) (b64_encode a raw) \<and>
   no_spare_bits (map (the \<circ> b64_value a) (b64_encode a raw))"
proof -
  have b: "\<forall>b \<in> set (map byte raw). b < 256" by auto
  then have v: "b64_value a (b64_char a x) = Some x" if "x \<in> set (sextets (map byte raw))" for x
    using sextets_small [OF b that] by simp
  then have "map (the \<circ> b64_value a) (b64_encode a raw) = sextets (map byte raw)"
    by (auto simp: b64_encode_def intro!: map_idI)
  then show ?thesis using v sextets_no_spare by (auto simp: b64_encode_def list_all_iff)
qed

text \<open>Decoding to a given length pins the text down to its characters, apart from the spare bits.\<close>

lemma b64_decode_exact:
  assumes "b64_decode a s = Some bs" "length bs = 32" "length s = 43"
  shows "list_all (\<lambda>c. b64_value a c \<noteq> None) s"
proof -
  from assms(1) obtain vs ns where v: "b64_values a s = Some vs" "octets vs = Some ns" "bs = map char_of ns"
    by (auto simp: b64_decode_def split: option.splits)
  then have "length ns = 32" "length ns = length vs * 3 div 4" using assms(2) octets_length by auto
  then have "43 \<le> length vs" by linarith
  with b64_values_length [OF v(1)] assms(3) have "length vs = length s" by simp
  from b64_values_full [OF v(1) this] b64_values_length [OF v(1)] show ?thesis
    by (auto simp: list_all_iff)
qed

end
