(* ===== verification/Sha256.thy ===== *)
theory Sha256
  imports Prelude "HOL-Library.Word"
begin

unbundle bit_operations_syntax

section \<open>SHA-256, HMAC and hexadecimal text (crypto/sha256, crypto/hmac, encoding/hex)\<close>

text \<open>
  The hash of the standard library on byte strings, after FIPS 180-4: padding to blocks of 64 bytes,
  the message schedule, and 64 rounds on eight 32-bit words.  Secrets and session ids are stored as
  these digests, and webhook bodies are signed with the HMAC built on it.
\<close>

subsection \<open>Constants and round functions\<close>

text \<open>
  The first 32 bits after the point of the square roots of the first eight primes, and of the cube
  roots of the first 64, in decimal.
\<close>

definition sha_init :: "32 word list" where
  "sha_init =
    [1779033703, 3144134277, 1013904242, 2773480762,
     1359893119, 2600822924, 528734635, 1541459225]"

definition sha_k :: "32 word list" where
  "sha_k =
    [1116352408, 1899447441, 3049323471, 3921009573, 961987163, 1508970993, 2453635748,
     2870763221, 3624381080, 310598401, 607225278, 1426881987, 1925078388, 2162078206,
     2614888103, 3248222580, 3835390401, 4022224774, 264347078, 604807628, 770255983,
     1249150122, 1555081692, 1996064986, 2554220882, 2821834349, 2952996808, 3210313671,
     3336571891, 3584528711, 113926993, 338241895, 666307205, 773529912, 1294757372,
     1396182291, 1695183700, 1986661051, 2177026350, 2456956037, 2730485921, 2820302411,
     3259730800, 3345764771, 3516065817, 3600352804, 4094571909, 275423344, 430227734,
     506948616, 659060556, 883997877, 958139571, 1322822218, 1537002063, 1747873779,
     1955562222, 2024104815, 2227730452, 2361852424, 2428436474, 2756734187, 3204031479,
     3329325298]"

definition small_sigma0 :: "32 word \<Rightarrow> 32 word" where
  "small_sigma0 x = word_rotr 7 x XOR word_rotr 18 x XOR drop_bit 3 x"

definition small_sigma1 :: "32 word \<Rightarrow> 32 word" where
  "small_sigma1 x = word_rotr 17 x XOR word_rotr 19 x XOR drop_bit 10 x"

definition big_sigma0 :: "32 word \<Rightarrow> 32 word" where
  "big_sigma0 x = word_rotr 2 x XOR word_rotr 13 x XOR word_rotr 22 x"

definition big_sigma1 :: "32 word \<Rightarrow> 32 word" where
  "big_sigma1 x = word_rotr 6 x XOR word_rotr 11 x XOR word_rotr 25 x"

definition choose_bits :: "32 word \<Rightarrow> 32 word \<Rightarrow> 32 word \<Rightarrow> 32 word" where
  "choose_bits x y z = (x AND y) XOR (NOT x AND z)"

definition majority_bits :: "32 word \<Rightarrow> 32 word \<Rightarrow> 32 word \<Rightarrow> 32 word" where
  "majority_bits x y z = (x AND y) XOR (x AND z) XOR (y AND z)"

subsection \<open>Padding and blocks\<close>

definition be_bytes :: "nat \<Rightarrow> int \<Rightarrow> int list" where
  "be_bytes k n = map (\<lambda>i. drop_bit (8 * (k - 1 - i)) n mod 256) [0..<k]"

definition sha_pad :: "int list \<Rightarrow> int list" where
  "sha_pad bs = bs @ [128] @ replicate ((119 - length bs mod 64) mod 64) 0 @ be_bytes 8 (int (length bs) * 8)"

fun be_words :: "int list \<Rightarrow> 32 word list" where
  "be_words (a # b # c # d # r) = word_of_int (((a * 256 + b) * 256 + c) * 256 + d) # be_words r"
| "be_words _ = []"

text \<open>The schedule, newest word first: each new word comes from the 2nd, 7th, 15th and 16th last.\<close>

fun extend :: "nat \<Rightarrow> 32 word list \<Rightarrow> 32 word list" where
  "extend 0 ws = ws"
| "extend (Suc n) ws =
     extend n ((small_sigma1 (ws ! 1) + ws ! 6 + small_sigma0 (ws ! 14) + ws ! 15) # ws)"

definition schedule :: "32 word list \<Rightarrow> 32 word list" where
  "schedule block = rev (extend 48 (rev block))"

subsection \<open>Compression\<close>

type_synonym sha_state =
  "32 word \<times> 32 word \<times> 32 word \<times> 32 word \<times> 32 word \<times> 32 word \<times> 32 word \<times> 32 word"

definition sha_round :: "32 word \<times> 32 word \<Rightarrow> sha_state \<Rightarrow> sha_state" where
  "sha_round kw s =
     (case (kw, s) of ((k, w), (a, b, c, d, e, f, g, h)) \<Rightarrow>
        let t1 = h + big_sigma1 e + choose_bits e f g + k + w;
            t2 = big_sigma0 a + majority_bits a b c
        in (t1 + t2, a, b, c, d + t1, e, f, g))"

definition state_words :: "sha_state \<Rightarrow> 32 word list" where
  "state_words s = (case s of (a, b, c, d, e, f, g, h) \<Rightarrow> [a, b, c, d, e, f, g, h])"

fun words_state :: "32 word list \<Rightarrow> sha_state" where
  "words_state [a, b, c, d, e, f, g, h] = (a, b, c, d, e, f, g, h)"
| "words_state _ = (0, 0, 0, 0, 0, 0, 0, 0)"

definition compress :: "32 word list \<Rightarrow> 32 word list \<Rightarrow> 32 word list" where
  "compress hs block =
     map2 (+) hs (state_words (fold sha_round (zip sha_k (schedule block)) (words_state hs)))"

fun blocks :: "32 word list \<Rightarrow> 32 word list \<Rightarrow> 32 word list" where
  "blocks hs ws = (if length ws < 16 then hs else blocks (compress hs (take 16 ws)) (drop 16 ws))"

declare blocks.simps [simp del]

definition word_bytes :: "32 word \<Rightarrow> int list" where
  "word_bytes w = be_bytes 4 (uint w)"

definition sha256 :: "string \<Rightarrow> string" where
  "sha256 s = map char_of (concat (map word_bytes (blocks sha_init (be_words (sha_pad (map of_char s))))))"

lemma compress_length: "length hs = 8 \<Longrightarrow> length (compress hs block) = 8"
  by (simp add: compress_def state_words_def split: prod.split)

lemma blocks_length: "length hs = 8 \<Longrightarrow> length (blocks hs ws) = 8"
  by (induction hs ws rule: blocks.induct) (subst blocks.simps, auto simp: compress_length)

lemma word_bytes_length: "length (word_bytes w) = 4"
  by (simp add: word_bytes_def be_bytes_def)

lemma sha256_length [simp]: "length (sha256 s) = 32"
proof -
  have "length (concat (map word_bytes ws)) = 4 * length ws" for ws
    by (induction ws) (simp_all add: word_bytes_length)
  moreover have "length (blocks sha_init ws) = 8" for ws
    by (rule blocks_length) (simp add: sha_init_def)
  ultimately show ?thesis by (simp add: sha256_def)
qed

subsection \<open>HMAC and hexadecimal text\<close>

definition xor_bytes :: "int \<Rightarrow> string \<Rightarrow> string" where
  "xor_bytes k s = map (\<lambda>c. char_of (of_char c XOR k :: int)) s"

definition hmac_sha256 :: "string \<Rightarrow> string \<Rightarrow> string" where
  "hmac_sha256 key message =
     (let k = (if 64 < length key then sha256 key else key);
          k' = k @ replicate (64 - length k) CHR 0x00
      in sha256 (xor_bytes 92 k' @ sha256 (xor_bytes 54 k' @ message)))"

definition hex_digit :: "int \<Rightarrow> char" where
  "hex_digit n = char_of (if n < 10 then n + 48 else n + 87)"

definition hex_encode :: "string \<Rightarrow> string" where
  "hex_encode s = concat (map (\<lambda>c. [hex_digit (of_char c div 16), hex_digit (of_char c mod 16)]) s)"

lemma hex_encode_length: "length (hex_encode s) = 2 * length s"
  by (induction s) (simp_all add: hex_encode_def)

end
