(* ===== verification/Secrets.thy ===== *)
theory Secrets
  imports Store_Rows Encoding Sha256
begin

section \<open>API tokens and keys (internal/token, internal/qbtkey, internal/store/repository_api_token, repository_qbt_api_key)\<close>

text \<open>
  The secrets of the two packages and the two single-row tables that keep them.  Both packages have
  the same code up to the prefix, which is an argument here.  The API token's row is deleted when it
  is revoked; the qBittorrent key's row stays as a tombstone, so that its versions never repeat.  The
  locale at the end is the contract of the authentication middleware with either table.
\<close>

subsection \<open>Secrets\<close>

definition token_Prefix :: string where "token_Prefix = ''cd211_api_''"
definition qbtkey_Prefix :: string where "qbtkey_Prefix = ''qbt_''"
definition SecretBytes :: nat where "SecretBytes = 32"
definition HintSuffix :: nat where "HintSuffix = 6"

definition SecretLength :: "string \<Rightarrow> nat" where
  "SecretLength Prefix = length Prefix + 43"

text \<open>\<open>Generate\<close>: the argument is what \<open>crypto/rand\<close> gives, \<open>None\<close> when it is unavailable.\<close>

definition GenerateSecret :: "string \<Rightarrow> string option \<Rightarrow> string option" where
  "GenerateSecret Prefix raw = map_option (\<lambda>r. Prefix @ b64_encode URLAlphabet r) raw"

definition Hash :: "string \<Rightarrow> string" where
  "Hash secret = sha256 secret"

definition Valid :: "string \<Rightarrow> string \<Rightarrow> bool" where
  "Valid Prefix secret =
     (if length secret \<noteq> SecretLength Prefix \<or> \<not> has_prefix secret Prefix then False
      else case b64_decode URLAlphabet (drop (length Prefix) secret) of
          None \<Rightarrow> False
        | Some raw \<Rightarrow> length raw = SecretBytes)"

text \<open>The ellipsis is U+2026 in UTF-8.\<close>

definition Hint :: "string \<Rightarrow> string \<Rightarrow> string" where
  "Hint Prefix secret =
     (if \<not> Valid Prefix secret then []
      else Prefix @ [CHR 0xE2, CHR 0x80, CHR 0xA6] @ drop (length secret - HintSuffix) secret)"

definition Verify :: "string \<Rightarrow> string \<Rightarrow> string \<Rightarrow> bool" where
  "Verify Prefix secret digest =
     (if \<not> Valid Prefix secret \<or> length digest \<noteq> 32 then False else Hash secret = digest)"

lemma Hash_length [simp]: "length (Hash s) = 32"
  by (simp add: Hash_def)

lemma generated_valid:
  assumes "GenerateSecret Prefix raw = Some secret" "\<And>r. raw = Some r \<Longrightarrow> length r = SecretBytes"
  shows "Valid Prefix secret"
proof -
  from assms obtain r where r: "raw = Some r" "secret = Prefix @ b64_encode URLAlphabet r" "length r = 32"
    by (auto simp: GenerateSecret_def SecretBytes_def)
  then show ?thesis
    by (simp add: Valid_def SecretLength_def SecretBytes_def has_prefix_def b64_encode_length b64_round_trip)
qed

lemma Valid_length: "Valid Prefix s \<Longrightarrow> length s = length Prefix + 43"
  by (simp add: Valid_def SecretLength_def split: if_splits)

lemma Verify_Hash: "Verify Prefix x (Hash y) \<longleftrightarrow> Valid Prefix x \<and> Hash x = Hash y"
  by (simp add: Verify_def)

text \<open>A valid secret is its prefix and 43 characters of the URL alphabet.\<close>

lemma Valid_chars:
  assumes "Valid Prefix s"
  shows "\<exists>body. s = Prefix @ body \<and> length body = 43 \<and> list_all (\<lambda>c. b64_value URLAlphabet c \<noteq> None) body"
proof -
  from assms have p: "length s = length Prefix + 43" "has_prefix s Prefix"
    by (auto simp: Valid_def SecretLength_def split: if_splits)
  then obtain body where body: "s = Prefix @ body" by (auto simp: has_prefix_def prefix_def)
  with p have len: "length body = 43" by simp
  from assms body p obtain raw where "b64_decode URLAlphabet body = Some raw" "length raw = 32"
    by (auto simp: Valid_def SecretBytes_def split: if_splits option.splits)
  with len have "list_all (\<lambda>c. b64_value URLAlphabet c \<noteq> None) body" using b64_decode_exact by blast
  with body len show ?thesis by blast
qed

lemma Hint_short: "length (Hint Prefix s) \<le> length Prefix + 9"
  using Valid_length [of Prefix s] by (auto simp: Hint_def HintSuffix_def)

subsection \<open>The API token table\<close>

datatype key_err = KeyNotFound | KeyConflict | KeyFault store_err

record api_token_row =
  t_token_hash :: string
  t_token_hint :: string
  t_token_secret :: string
  t_created_at :: time
  t_updated_at :: time
  t_row_version :: int

record Key =
  keyDigest :: string
  keySecret :: string
  keyHint :: string
  keyCreatedAt :: time
  keyUpdatedAt :: time
  keyRowVersion :: int

definition apiTokenFromDB :: "api_token_row \<Rightarrow> key_err + Key" where
  "apiTokenFromDB row =
     (if length (t_token_hash row) \<noteq> 32 \<or> t_token_hint row = [] \<or> time_is_zero (t_created_at row)
         \<or> time_is_zero (t_updated_at row) \<or> t_updated_at row < t_created_at row \<or> t_row_version row < 0
      then Inl (KeyFault (ErrText ''stored API token is invalid''))
      else Inr \<lparr>keyDigest = t_token_hash row, keySecret = t_token_secret row, keyHint = t_token_hint row,
                keyCreatedAt = t_created_at row, keyUpdatedAt = t_updated_at row,
                keyRowVersion = t_row_version row\<rparr>)"

text \<open>The table is \<open>None\<close> or its one row; \<open>CHECK (length(token_hash) = 32)\<close> and the primary key.\<close>

definition InsertAPIToken :: "api_token_row \<Rightarrow> api_token_row option \<Rightarrow> key_err + api_token_row option" where
  "InsertAPIToken row table =
     (if length (t_token_hash row) \<noteq> 32 then Inl (KeyFault ErrConstraint)
      else case table of Some _ \<Rightarrow> Inl KeyConflict | None \<Rightarrow> Inr (Some row))"

definition DeleteAPIToken :: "int \<Rightarrow> api_token_row option \<Rightarrow> nat \<times> api_token_row option" where
  "DeleteAPIToken expected table =
     (case table of
        None \<Rightarrow> (0, None)
      | Some row \<Rightarrow> if t_row_version row = expected then (1, None) else (0, Some row))"

definition GetAPIToken :: "faults \<Rightarrow> api_token_row option \<Rightarrow> key_err + Key" where
  "GetAPIToken flt table =
     (if flt ''get API token'' then Inl (KeyFault (ErrDriver ''get API token''))
      else case table of None \<Rightarrow> Inl KeyNotFound | Some row \<Rightarrow> apiTokenFromDB row)"

definition GenerateAPIToken ::
  "faults \<Rightarrow> string option \<Rightarrow> time \<Rightarrow> api_token_row option \<Rightarrow> (key_err + string) \<times> api_token_row option" where
  "GenerateAPIToken flt raw now table =
     (if time_is_zero now then (Inl (KeyFault (ErrText ''API token generation time is required'')), table)
      else case GenerateSecret token_Prefix raw of
          None \<Rightarrow> (Inl (KeyFault (ErrText ''token: crypto/rand unavailable'')), table)
        | Some secret \<Rightarrow>
            (if flt ''insert API token'' then (Inl (KeyFault (ErrDriver ''insert API token'')), table)
             else case InsertAPIToken
                 \<lparr>t_token_hash = Hash secret, t_token_hint = Hint token_Prefix secret, t_token_secret = secret,
                  t_created_at = now, t_updated_at = now, t_row_version = 0\<rparr> table of
                 Inl e \<Rightarrow> (Inl e, table)
               | Inr table' \<Rightarrow> (Inr secret, table')))"

definition RevokeAPIToken ::
  "faults \<Rightarrow> int \<Rightarrow> api_token_row option \<Rightarrow> (key_err + unit) \<times> api_token_row option" where
  "RevokeAPIToken flt expected table =
     (if expected < 0 then (Inl (KeyFault (ErrText ''API token version is invalid'')), table)
      else if flt ''revoke API token'' then (Inl (KeyFault (ErrDriver ''revoke API token'')), table)
      else case DeleteAPIToken expected table of
          (Suc n, table') \<Rightarrow> (Inr (), table')
        | (0, table') \<Rightarrow>
            (if flt ''read API token after revoke miss''
             then (Inl (KeyFault (ErrDriver ''read API token after revoke miss'')), table')
             else if table' = None then (Inr (), table') else (Inl KeyConflict, table')))"

subsection \<open>The qBittorrent key table\<close>

record qbt_key_row =
  q_key_hash :: string
  q_key_hint :: string
  q_key_secret :: string
  q_created_at :: time
  q_updated_at :: time
  q_active :: bool
  q_row_version :: int

definition qbtKeyFromDB :: "qbt_key_row \<Rightarrow> key_err + Key" where
  "qbtKeyFromDB row =
     (if \<not> q_active row \<or> length (q_key_hash row) \<noteq> 32 \<or> q_key_hint row = [] \<or> time_is_zero (q_created_at row)
         \<or> time_is_zero (q_updated_at row) \<or> q_updated_at row < q_created_at row \<or> q_row_version row < 0
      then Inl (KeyFault (ErrText ''stored qBittorrent API key is invalid''))
      else Inr \<lparr>keyDigest = q_key_hash row, keySecret = q_key_secret row, keyHint = q_key_hint row,
                keyCreatedAt = q_created_at row, keyUpdatedAt = q_updated_at row,
                keyRowVersion = q_row_version row\<rparr>)"

definition InsertQBTAPIKey :: "qbt_key_row \<Rightarrow> qbt_key_row option \<Rightarrow> key_err + qbt_key_row option" where
  "InsertQBTAPIKey row table =
     (if length (q_key_hash row) \<noteq> 32 then Inl (KeyFault ErrConstraint)
      else case table of Some _ \<Rightarrow> Inl KeyConflict | None \<Rightarrow> Inr (Some row))"

definition ActivateQBTAPIKey :: "qbt_key_row \<Rightarrow> qbt_key_row option \<Rightarrow> nat \<times> qbt_key_row option" where
  "ActivateQBTAPIKey new table =
     (case table of
        None \<Rightarrow> (0, None)
      | Some row \<Rightarrow>
          if q_active row then (0, Some row)
          else (1, Some (new\<lparr>q_active := True, q_row_version := q_row_version row + 1\<rparr>)))"

definition revoke_qbt_row :: "int \<Rightarrow> qbt_key_row option \<Rightarrow> nat \<times> qbt_key_row option" where
  "revoke_qbt_row expected table =
     (case table of
        None \<Rightarrow> (0, None)
      | Some row \<Rightarrow>
          if q_active row \<and> q_row_version row = expected
          then (1, Some (row\<lparr>q_active := False, q_key_secret := [], q_row_version := q_row_version row + 1\<rparr>))
          else (0, Some row))"

definition get_qbt_row :: "qbt_key_row option \<Rightarrow> qbt_key_row option" where
  "get_qbt_row table = (case table of None \<Rightarrow> None | Some row \<Rightarrow> if q_active row then Some row else None)"

definition GetQBTAPIKey :: "faults \<Rightarrow> qbt_key_row option \<Rightarrow> key_err + Key" where
  "GetQBTAPIKey flt table =
     (if flt ''get qBittorrent API key'' then Inl (KeyFault (ErrDriver ''get qBittorrent API key''))
      else case get_qbt_row table of None \<Rightarrow> Inl KeyNotFound | Some row \<Rightarrow> qbtKeyFromDB row)"

definition GenerateQBTAPIKey ::
  "faults \<Rightarrow> string option \<Rightarrow> time \<Rightarrow> qbt_key_row option \<Rightarrow> (key_err + string) \<times> qbt_key_row option" where
  "GenerateQBTAPIKey flt raw now table =
     (if time_is_zero now
      then (Inl (KeyFault (ErrText ''qBittorrent API key generation time is required'')), table)
      else case GenerateSecret qbtkey_Prefix raw of
          None \<Rightarrow> (Inl (KeyFault (ErrText ''qBittorrent API key: crypto/rand unavailable'')), table)
        | Some secret \<Rightarrow>
            (let row = \<lparr>q_key_hash = Hash secret, q_key_hint = Hint qbtkey_Prefix secret, q_key_secret = secret,
                        q_created_at = now, q_updated_at = now, q_active = True, q_row_version = 0\<rparr>
             in if flt ''insert qBittorrent API key''
                then (Inl (KeyFault (ErrDriver ''insert qBittorrent API key'')), table)
                else case InsertQBTAPIKey row table of
                    Inr table' \<Rightarrow> (Inr secret, table')
                  | Inl e \<Rightarrow>
                      (if e \<noteq> KeyConflict then (Inl e, table)
                       else if flt ''reactivate qBittorrent API key''
                       then (Inl (KeyFault (ErrDriver ''reactivate qBittorrent API key'')), table)
                       else case ActivateQBTAPIKey row table of
                           (0, table') \<Rightarrow> (Inl KeyConflict, table')
                         | (Suc n, table') \<Rightarrow> (Inr secret, table'))))"

definition RevokeQBTAPIKey ::
  "faults \<Rightarrow> int \<Rightarrow> qbt_key_row option \<Rightarrow> (key_err + unit) \<times> qbt_key_row option" where
  "RevokeQBTAPIKey flt expected table =
     (if expected < 0 then (Inl (KeyFault (ErrText ''qBittorrent API key version is invalid'')), table)
      else if flt ''revoke qBittorrent API key''
      then (Inl (KeyFault (ErrDriver ''revoke qBittorrent API key'')), table)
      else case revoke_qbt_row expected table of
          (Suc n, table') \<Rightarrow> (Inr (), table')
        | (0, table') \<Rightarrow>
            (if flt ''read qBittorrent API key after revoke miss''
             then (Inl (KeyFault (ErrDriver ''read qBittorrent API key after revoke miss'')), table')
             else if get_qbt_row table' = None then (Inr (), table') else (Inl KeyConflict, table')))"

subsection \<open>Histories of a table\<close>

text \<open>
  What happened to a table, newest first: the secrets issued and the revocations that succeeded.
  Requests that fail leave the table as it is; random bytes come 32 at a time.
\<close>

datatype key_event = Issued string | Withdrawn

definition raw_ok :: "string option \<Rightarrow> bool" where
  "raw_ok raw \<longleftrightarrow> (\<forall>r. raw = Some r \<longrightarrow> length r = SecretBytes)"

inductive key_history ::
  "(faults \<Rightarrow> string option \<Rightarrow> time \<Rightarrow> 's \<Rightarrow> (key_err + string) \<times> 's) \<Rightarrow>
   (faults \<Rightarrow> int \<Rightarrow> 's \<Rightarrow> (key_err + unit) \<times> 's) \<Rightarrow> 's \<Rightarrow> key_event list \<Rightarrow> 's \<Rightarrow> bool"
  for issue withdraw and s0 where
  key_start: "key_history issue withdraw s0 [] s0"
| key_issued: "key_history issue withdraw s0 evs s \<Longrightarrow> raw_ok raw \<Longrightarrow> issue flt raw now s = (Inr x, s') \<Longrightarrow>
    key_history issue withdraw s0 (Issued x # evs) s'"
| key_issue_failed: "key_history issue withdraw s0 evs s \<Longrightarrow> issue flt raw now s = (Inl e, s') \<Longrightarrow>
    key_history issue withdraw s0 evs s'"
| key_withdrawn: "key_history issue withdraw s0 evs s \<Longrightarrow> withdraw flt v s = (Inr (), s') \<Longrightarrow>
    key_history issue withdraw s0 (Withdrawn # evs) s'"
| key_withdraw_failed: "key_history issue withdraw s0 evs s \<Longrightarrow> withdraw flt v s = (Inl e, s') \<Longrightarrow>
    key_history issue withdraw s0 evs s'"

text \<open>The specification: the secret in force is the last one issued, unless it was revoked since.\<close>

fun in_force :: "key_event list \<Rightarrow> string option" where
  "in_force [] = None"
| "in_force (Issued x # evs) = Some x"
| "in_force (Withdrawn # evs) = None"

locale key_store =
  fixes Prefix :: string
    and digest_of :: "'s \<Rightarrow> string option"
    and key_wf :: "'s \<Rightarrow> bool"
    and lookup :: "faults \<Rightarrow> 's \<Rightarrow> key_err + Key"
    and issue :: "faults \<Rightarrow> string option \<Rightarrow> time \<Rightarrow> 's \<Rightarrow> (key_err + string) \<times> 's"
    and withdraw :: "faults \<Rightarrow> int \<Rightarrow> 's \<Rightarrow> (key_err + unit) \<times> 's"
  assumes lookup_digest: "lookup flt s = Inr k \<Longrightarrow> digest_of s = Some (keyDigest k)"
    and lookup_found: "key_wf s \<Longrightarrow> digest_of s = Some d \<Longrightarrow> \<exists>k. lookup (\<lambda>_. False) s = Inr k"
    and lookup_absent: "digest_of s = None \<Longrightarrow> lookup (\<lambda>_. False) s = Inl KeyNotFound"
    and issue_ok: "key_wf s \<Longrightarrow> raw_ok raw \<Longrightarrow> issue flt raw now s = (Inr x, s') \<Longrightarrow>
      digest_of s = None \<and> digest_of s' = Some (Hash x) \<and> key_wf s' \<and> Valid Prefix x"
    and issue_fails: "issue flt raw now s = (Inl e, s') \<Longrightarrow> s' = s"
    and withdraw_ok: "key_wf s \<Longrightarrow> withdraw flt v s = (Inr (), s') \<Longrightarrow> digest_of s' = None \<and> key_wf s'"
    and withdraw_fails: "withdraw flt v s = (Inl e, s') \<Longrightarrow> s' = s"
begin

lemma history_refines:
  assumes "key_history issue withdraw s0 evs s" "key_wf s0" "digest_of s0 = None"
  shows "key_wf s \<and> digest_of s = map_option Hash (in_force evs) \<and> (\<forall>x. Issued x \<in> set evs \<longrightarrow> Valid Prefix x)"
  using assms
proof (induction rule: key_history.induct)
  case (key_issued evs s raw flt now x s')
  then show ?case using issue_ok [of s raw flt now x s'] by auto
next
  case (key_withdrawn evs s flt v s')
  then show ?case using withdraw_ok [of s flt v s'] by auto
qed (auto dest: issue_fails withdraw_fails)

text \<open>Authentication accepts exactly the secret in force, up to a collision of the hash.\<close>

lemma accepted_in_force:
  assumes "key_history issue withdraw s0 evs s" "key_wf s0" "digest_of s0 = None"
    and "lookup flt s = Inr k" "Verify Prefix x (keyDigest k)"
  shows "\<exists>y. in_force evs = Some y \<and> Hash x = Hash y"
proof -
  have "map_option Hash (in_force evs) = Some (keyDigest k)"
    using history_refines [OF assms(1-3)] lookup_digest [OF assms(4)] by simp
  then obtain y where "in_force evs = Some y" "keyDigest k = Hash y" by auto
  with assms(5) show ?thesis by (auto simp: Verify_Hash)
qed

lemma in_force_accepted:
  assumes "key_history issue withdraw s0 evs s" "key_wf s0" "digest_of s0 = None" "in_force evs = Some y"
  shows "\<exists>k. lookup (\<lambda>_. False) s = Inr k \<and> Verify Prefix y (keyDigest k)"
proof -
  have wf: "key_wf s" "digest_of s = Some (Hash y)" "Valid Prefix y"
    using history_refines [OF assms(1-3)] assms(4) by (cases evs rule: in_force.cases; auto)+
  then obtain k where k: "lookup (\<lambda>_. False) s = Inr k" using lookup_found by blast
  with wf lookup_digest [OF k] show ?thesis by (auto simp: Verify_Hash)
qed

lemma none_in_force:
  assumes "key_history issue withdraw s0 evs s" "key_wf s0" "digest_of s0 = None" "in_force evs = None"
  shows "lookup (\<lambda>_. False) s = Inl KeyNotFound"
  using history_refines [OF assms(1-3)] assms(4) by (intro lookup_absent) simp

end

subsection \<open>Both tables meet the contract\<close>

definition api_digest :: "api_token_row option \<Rightarrow> string option" where
  "api_digest table = map_option t_token_hash table"

definition api_wf :: "api_token_row option \<Rightarrow> bool" where
  "api_wf table \<longleftrightarrow>
     (case table of None \<Rightarrow> True | Some row \<Rightarrow> \<not> isl (apiTokenFromDB row) \<and> t_row_version row = 0)"

definition qbt_digest :: "qbt_key_row option \<Rightarrow> string option" where
  "qbt_digest table = map_option q_key_hash (get_qbt_row table)"

definition qbt_wf :: "qbt_key_row option \<Rightarrow> bool" where
  "qbt_wf table \<longleftrightarrow>
     (case table of None \<Rightarrow> True | Some row \<Rightarrow> \<not> isl (qbtKeyFromDB (row\<lparr>q_active := True\<rparr>)))"

lemma Hint_nonempty: "Valid Prefix s \<Longrightarrow> Hint Prefix s \<noteq> []"
  by (simp add: Hint_def)

lemma not_isl: "\<not> isl x \<longleftrightarrow> (\<exists>y. x = Inr y)"
  by (cases x) auto

interpretation api_tokens: key_store token_Prefix api_digest api_wf GetAPIToken GenerateAPIToken RevokeAPIToken
proof
  fix flt s k assume "GetAPIToken flt s = Inr k"
  then show "api_digest s = Some (keyDigest k)"
    by (auto simp: GetAPIToken_def api_digest_def apiTokenFromDB_def split: if_splits option.splits)
next
  fix flt raw now s x s'
  assume a: "api_wf s" "raw_ok raw" "GenerateAPIToken flt raw now s = (Inr x, s')"
  then have gen: "GenerateSecret token_Prefix raw = Some x" "now \<noteq> 0"
    by (auto simp: GenerateAPIToken_def time_is_zero_def split: if_splits option.splits sum.splits)
  have valid: "Valid token_Prefix x" using generated_valid [OF gen(1)] a(2) by (simp add: raw_ok_def)
  with a gen Hint_nonempty show "api_digest s = None \<and> api_digest s' = Some (Hash x) \<and> api_wf s' \<and> Valid token_Prefix x"
    by (auto simp: GenerateAPIToken_def InsertAPIToken_def api_digest_def api_wf_def apiTokenFromDB_def
        time_is_zero_def split: if_splits option.splits sum.splits)
next
  fix flt v s s' assume "api_wf s" "RevokeAPIToken flt v s = (Inr (), s')"
  then show "api_digest s' = None \<and> api_wf s'"
    by (auto simp: RevokeAPIToken_def DeleteAPIToken_def api_digest_def api_wf_def
        split: if_splits option.splits nat.splits)
qed (auto simp: not_isl api_digest_def api_wf_def GetAPIToken_def GenerateAPIToken_def RevokeAPIToken_def DeleteAPIToken_def
    split: if_splits option.splits sum.splits)

interpretation qbt_keys: key_store qbtkey_Prefix qbt_digest qbt_wf GetQBTAPIKey GenerateQBTAPIKey RevokeQBTAPIKey
proof
  fix flt s k assume "GetQBTAPIKey flt s = Inr k"
  then show "qbt_digest s = Some (keyDigest k)"
    by (auto simp: GetQBTAPIKey_def qbt_digest_def qbtKeyFromDB_def split: if_splits option.splits)
next
  fix s d assume "qbt_wf s" "qbt_digest s = Some d"
  then show "\<exists>k. GetQBTAPIKey (\<lambda>_. False) s = Inr k"
    by (auto simp: GetQBTAPIKey_def qbt_digest_def qbt_wf_def qbtKeyFromDB_def get_qbt_row_def split: if_splits option.splits)
next
  fix flt raw now s x s'
  assume a: "qbt_wf s" "raw_ok raw" "GenerateQBTAPIKey flt raw now s = (Inr x, s')"
  then have gen: "GenerateSecret qbtkey_Prefix raw = Some x" "now \<noteq> 0"
    by (auto simp: GenerateQBTAPIKey_def Let_def time_is_zero_def split: if_splits option.splits sum.splits nat.splits prod.splits)
  have valid: "Valid qbtkey_Prefix x" using generated_valid [OF gen(1)] a(2) by (simp add: raw_ok_def)
  with a gen Hint_nonempty show "qbt_digest s = None \<and> qbt_digest s' = Some (Hash x) \<and> qbt_wf s' \<and> Valid qbtkey_Prefix x"
    by (auto simp: GenerateQBTAPIKey_def InsertQBTAPIKey_def ActivateQBTAPIKey_def qbt_digest_def qbt_wf_def qbtKeyFromDB_def
        get_qbt_row_def Let_def time_is_zero_def split: if_splits option.splits sum.splits)
next
  fix flt v s s' assume "qbt_wf s" "RevokeQBTAPIKey flt v s = (Inr (), s')"
  then show "qbt_digest s' = None \<and> qbt_wf s'"
    by (auto simp: RevokeQBTAPIKey_def revoke_qbt_row_def qbt_digest_def qbt_wf_def get_qbt_row_def qbtKeyFromDB_def
        split: if_splits option.splits nat.splits)
qed (auto simp: qbt_digest_def GetQBTAPIKey_def GenerateQBTAPIKey_def RevokeQBTAPIKey_def revoke_qbt_row_def InsertQBTAPIKey_def
    ActivateQBTAPIKey_def Let_def split: if_splits option.splits sum.splits nat.splits)

subsection \<open>Row versions\<close>

text \<open>
  Every API token has row version 0, so that the version a page has seen never tells two tokens
  apart.  The versions of the qBittorrent key only grow, and grow with each key.
\<close>

lemma api_token_version_constant:
  assumes "key_history GenerateAPIToken RevokeAPIToken None evs (Some row)"
  shows "t_row_version row = 0"
  using api_tokens.history_refines [OF assms] by (simp add: api_wf_def api_digest_def)

definition qbt_version :: "qbt_key_row option \<Rightarrow> int" where
  "qbt_version table = (case table of None \<Rightarrow> -1 | Some row \<Rightarrow> q_row_version row)"

lemma generate_version:
  "GenerateQBTAPIKey flt raw now s = (Inr x, s') \<Longrightarrow> qbt_version s' = qbt_version s + 1"
  by (auto simp: GenerateQBTAPIKey_def InsertQBTAPIKey_def ActivateQBTAPIKey_def qbt_version_def Let_def
      split: if_splits option.splits sum.splits)

lemma revoke_version:
  "RevokeQBTAPIKey flt v s = (r, s') \<Longrightarrow> s' = s \<or> (qbt_version s = v \<and> qbt_version s' = v + 1)"
  by (auto simp: RevokeQBTAPIKey_def revoke_qbt_row_def qbt_version_def split: if_splits option.splits nat.splits)

lemma history_version:
  assumes "key_history GenerateQBTAPIKey RevokeQBTAPIKey s0 evs s"
  shows "qbt_version s0 \<le> qbt_version s \<and> ((\<exists>x. Issued x \<in> set evs) \<longrightarrow> qbt_version s0 < qbt_version s)"
  using assms
proof (induction rule: key_history.induct)
  case (key_issued evs s raw flt now x s')
  then show ?case using generate_version [of flt raw now s x s'] by auto
next
  case (key_issue_failed evs s flt raw now e s')
  then show ?case using qbt_keys.issue_fails by blast
next
  case (key_withdrawn evs s flt v s')
  then show ?case using revoke_version [of flt v s "Inr ()" s'] by auto
next
  case (key_withdraw_failed evs s flt v e s')
  then show ?case using revoke_version [of flt v s "Inl e" s'] by auto
qed auto

lemma stale_revoke_harmless:
  assumes "GetQBTAPIKey flt s0 = Inr k" "key_history GenerateQBTAPIKey RevokeQBTAPIKey s0 evs s"
    and "Issued x \<in> set evs"
  shows "snd (RevokeQBTAPIKey flt' (keyRowVersion k) s) = s"
proof -
  have "keyRowVersion k = qbt_version s0"
    using assms(1) by (auto simp: GetQBTAPIKey_def get_qbt_row_def qbtKeyFromDB_def qbt_version_def split: if_splits option.splits)
  moreover have "qbt_version s0 < qbt_version s" using history_version [OF assms(2)] assms(3) by blast
  ultimately show ?thesis
    using revoke_version [of flt' "keyRowVersion k" s] by (metis order_less_irrefl prod.collapse)
qed

end
