(* ===== verification/Sessions.thy ===== *)
theory Sessions
  imports Secrets "HOL-Library.Product_Lexorder"
begin

section \<open>Sessions (internal/session/store, internal/store/repository_session)\<close>

text \<open>
  The table of sessions with its statements, the repository over it, and the operations of the
  session store: create with eviction, look up with sliding renewal, revoke, purge.  Only digests of
  session ids reach the table.  A lookup takes no lock; \<open>others n\<close> is what other requests do to the
  table before its \<open>n\<close>-th statement.
\<close>

subsection \<open>Rows and statements\<close>

datatype Audience = AudienceWeb | AudienceQBT | AudienceOther string

record Session =
  snAudience :: Audience
  snCSRFToken :: string
  snCreatedAt :: time
  snExpiresAt :: time

record session_row =
  ss_digest :: string
  ss_audience :: Audience
  ss_csrf :: string
  ss_created_at :: time
  ss_expires_at :: time

text \<open>The CHECK constraints of the table.\<close>

definition session_checks :: "session_row \<Rightarrow> bool" where
  "session_checks r \<longleftrightarrow>
     length (ss_digest r) = 32 \<and>
     (ss_audience r = AudienceWeb \<and> 0 < length (ss_csrf r) \<or> ss_audience r = AudienceQBT \<and> length (ss_csrf r) = 0) \<and>
     ss_created_at r < ss_expires_at r"

definition get_session_row :: "string \<Rightarrow> Audience \<Rightarrow> session_row list \<Rightarrow> session_row option" where
  "get_session_row digest audience rows = find (\<lambda>r. ss_digest r = digest \<and> ss_audience r = audience) rows"

definition purge_expired :: "time \<Rightarrow> session_row list \<Rightarrow> session_row list" where
  "purge_expired now rows = filter (\<lambda>r. \<not> ss_expires_at r \<le> now) rows"

text \<open>\<open>ORDER BY expires_at ASC, created_at ASC, sid_digest ASC\<close>\<close>

definition session_age :: "session_row \<Rightarrow> time \<times> time \<times> string" where
  "session_age r = (ss_expires_at r, ss_created_at r, ss_digest r)"

definition evict_oldest :: "session_row list \<Rightarrow> session_row list" where
  "evict_oldest rows =
     (case first_by session_age rows of
        None \<Rightarrow> rows
      | Some oldest \<Rightarrow> filter (\<lambda>r. ss_digest r \<noteq> ss_digest oldest) rows)"

definition insert_session :: "session_row \<Rightarrow> session_row list \<Rightarrow> store_err + session_row list" where
  "insert_session r rows =
     (if \<not> session_checks r \<or> ss_digest r \<in> ss_digest ` set rows then Inl ErrConstraint else Inr (rows @ [r]))"

definition refresh_where :: "string \<Rightarrow> Audience \<Rightarrow> time \<Rightarrow> session_row \<Rightarrow> bool" where
  "refresh_where digest audience expected r \<longleftrightarrow>
     ss_digest r = digest \<and> ss_audience r = audience \<and> ss_expires_at r = expected"

definition refresh_session_rows :: "string \<Rightarrow> Audience \<Rightarrow> time \<Rightarrow> time \<Rightarrow> session_row list \<Rightarrow>
    store_err + (nat \<times> session_row list)" where
  "refresh_session_rows digest audience expected new rows =
     (let hit = refresh_where digest audience expected
      in if list_all (\<lambda>r. hit r \<longrightarrow> session_checks (r\<lparr>ss_expires_at := new\<rparr>)) rows
         then Inr (rows_affected hit rows, sql_update hit (\<lambda>r. r\<lparr>ss_expires_at := new\<rparr>) rows)
         else Inl ErrConstraint)"

definition revoke_session_row :: "string \<Rightarrow> Audience \<Rightarrow> session_row list \<Rightarrow> session_row list" where
  "revoke_session_row digest audience rows = filter (\<lambda>r. \<not> (ss_digest r = digest \<and> ss_audience r = audience)) rows"

subsection \<open>The repository\<close>

definition sessionFromDB :: "session_row \<Rightarrow> store_err + Session" where
  "sessionFromDB row =
     (if length (ss_digest row) \<noteq> 32 \<or> (ss_audience row \<noteq> AudienceWeb \<and> ss_audience row \<noteq> AudienceQBT)
         \<or> (ss_audience row = AudienceWeb \<and> ss_csrf row = []) \<or> (ss_audience row = AudienceQBT \<and> ss_csrf row \<noteq> [])
         \<or> time_is_zero (ss_created_at row) \<or> time_is_zero (ss_expires_at row)
         \<or> \<not> ss_created_at row < ss_expires_at row
      then Inl (ErrText ''stored session is invalid'')
      else Inr \<lparr>snAudience = ss_audience row, snCSRFToken = ss_csrf row,
                snCreatedAt = ss_created_at row, snExpiresAt = ss_expires_at row\<rparr>)"

text \<open>The loop of \<open>CreateSession\<close> that makes room: \<open>count\<close> is the count read before it.\<close>

function make_room :: "int \<Rightarrow> int \<Rightarrow> session_row list \<Rightarrow> session_row list" where
  "make_room capacity count rows =
     (if capacity \<le> count then make_room capacity (count - 1) (evict_oldest rows) else rows)"
  by pat_completeness auto
termination by (relation "measure (\<lambda>(capacity, count, _). nat (count - capacity + 1))") auto

declare make_room.simps [simp del]

text \<open>
  The transaction: the error or \<open>inserted\<close>, and the table afterwards (unchanged unless it commits).
  A failing eviction rolls back like every other statement, whichever iteration it is.
\<close>

definition CreateSession :: "faults \<Rightarrow> string \<Rightarrow> Session \<Rightarrow> time \<Rightarrow> int \<Rightarrow> session_row list \<Rightarrow>
    (store_err + bool) \<times> session_row list" where
  "CreateSession flt digest current now capacity rows =
     (if capacity \<le> 0 then (Inl (ErrText ''session capacity must be positive''), rows)
      else if time_is_zero now then (Inl (ErrText ''session creation time is required''), rows)
      else if flt ''begin session create'' then (Inl (ErrDriver ''begin session create''), rows)
      else if flt ''read session for create'' then (Inl (ErrDriver ''read session for create''), rows)
      else if get_session_row digest AudienceWeb rows \<noteq> None \<or> get_session_row digest AudienceQBT rows \<noteq> None
      then (if flt ''rollback session create'' then (Inl (ErrDriver ''rollback session create''), rows)
            else (Inr False, rows))
      else if flt ''purge expired sessions'' then (Inl (ErrDriver ''purge expired sessions''), rows)
      else
        (let kept = purge_expired now rows
         in if flt ''count sessions'' then (Inl (ErrDriver ''count sessions''), rows)
            else if capacity \<le> int (length kept) \<and> flt ''evict oldest session''
            then (Inl (ErrDriver ''evict oldest session''), rows)
            else if flt ''insert session'' then (Inl (ErrDriver ''insert session''), rows)
            else case insert_session
                \<lparr>ss_digest = digest, ss_audience = snAudience current, ss_csrf = snCSRFToken current,
                 ss_created_at = snCreatedAt current, ss_expires_at = snExpiresAt current\<rparr>
                (make_room capacity (int (length kept)) kept) of
                Inl e \<Rightarrow> (Inl e, rows)
              | Inr rows' \<Rightarrow>
                  (if flt ''commit session create'' then (Inl (ErrDriver ''commit session create''), rows)
                   else (Inr True, rows'))))"

text \<open>\<open>Inr None\<close> is \<open>session.ErrNotFound\<close>.\<close>

definition GetSession :: "faults \<Rightarrow> string \<Rightarrow> Audience \<Rightarrow> session_row list \<Rightarrow> store_err + Session option" where
  "GetSession flt digest audience rows =
     (if flt ''get session'' then Inl (ErrDriver ''get session'')
      else case get_session_row digest audience rows of
          None \<Rightarrow> Inr None
        | Some row \<Rightarrow> (case sessionFromDB row of Inl e \<Rightarrow> Inl e | Inr s \<Rightarrow> Inr (Some s)))"

definition RefreshSession :: "faults \<Rightarrow> string \<Rightarrow> Audience \<Rightarrow> time \<Rightarrow> time \<Rightarrow> session_row list \<Rightarrow>
    (store_err + bool) \<times> session_row list" where
  "RefreshSession flt digest audience expected new rows =
     (if flt ''refresh session'' then (Inl (ErrDriver ''refresh session''), rows)
      else case refresh_session_rows digest audience expected new rows of
          Inl e \<Rightarrow> (Inl e, rows)
        | Inr (n, rows') \<Rightarrow> (Inr (n = 1), rows'))"

definition RevokeSession :: "faults \<Rightarrow> string \<Rightarrow> Audience \<Rightarrow> session_row list \<Rightarrow> (store_err + unit) \<times> session_row list" where
  "RevokeSession flt digest audience rows =
     (if flt ''revoke session'' then (Inl (ErrDriver ''revoke session''), rows)
      else (Inr (), revoke_session_row digest audience rows))"

definition PurgeExpiredSessions :: "faults \<Rightarrow> time \<Rightarrow> session_row list \<Rightarrow> (store_err + nat) \<times> session_row list" where
  "PurgeExpiredSessions flt now rows =
     (if flt ''purge expired sessions'' then (Inl (ErrDriver ''purge expired sessions''), rows)
      else (Inr (length rows - length (purge_expired now rows)), purge_expired now rows))"

definition CountSessions :: "faults \<Rightarrow> session_row list \<Rightarrow> store_err + nat" where
  "CountSessions flt rows = (if flt ''count sessions'' then Inl (ErrDriver ''count sessions'') else Inr (length rows))"

subsection \<open>Session ids\<close>

definition tokenBytes :: nat where "tokenBytes = 32"

definition hashSID :: "string \<Rightarrow> string" where
  "hashSID sid = sha256 sid"

definition isRawURLBase64Character :: "char \<Rightarrow> bool" where
  "isRawURLBase64Character c \<longleftrightarrow>
     (65 \<le> byte c \<and> byte c \<le> 90) \<or> (97 \<le> byte c \<and> byte c \<le> 122) \<or> (48 \<le> byte c \<and> byte c \<le> 57) \<or>
     c = CHR ''-'' \<or> c = CHR ''_''"

definition isFinalTokenCharacter :: "char \<Rightarrow> bool" where
  "isFinalTokenCharacter c \<longleftrightarrow> c \<in> set ''AEIMQUYcgkosw048''"

text \<open>\<open>base64.RawURLEncoding.EncodedLen(n)\<close> is \<open>(n * 8 + 5) / 6\<close>.\<close>

definition encodedLen :: "nat \<Rightarrow> nat" where
  "encodedLen n = (n * 8 + 5) div 6"

definition validSID :: "string \<Rightarrow> bool" where
  "validSID sid =
     (if length sid \<noteq> encodedLen tokenBytes then False
      else if \<not> list_all isRawURLBase64Character (butlast sid) then False
      else isFinalTokenCharacter (last sid))"

text \<open>
  \<open>io.ReadFull\<close> from the random source: the next 32 bytes, or the failure of the read; the rest of
  the source is returned.
\<close>

fun newToken :: "string option list \<Rightarrow> string option \<times> string option list" where
  "newToken [] = (None, [])"
| "newToken (None # rs) = (None, rs)"
| "newToken (Some token # rs) = (Some (b64_encode URLAlphabet token), rs)"

subsection \<open>The operations of the session store\<close>

record SessionConfig =
  scTTL :: duration
  scRefreshInterval :: duration
  scCapacity :: int

text \<open>\<open>New\<close>, with the checks for a nil repository, clock and random source left to the types.\<close>

definition NewSessions :: "duration \<Rightarrow> duration \<Rightarrow> int \<Rightarrow> string + SessionConfig" where
  "NewSessions ttl refreshInterval capacity =
     (if ttl \<le> 0 then Inl ''session: ttl must be positive''
      else if refreshInterval \<le> 0 \<or> ttl \<le> refreshInterval
      then Inl ''session: refresh interval must be positive and shorter than ttl''
      else if capacity \<le> 0 then Inl ''session: capacity must be positive''
      else Inr \<lparr>scTTL = ttl, scRefreshInterval = refreshInterval, scCapacity = capacity\<rparr>)"

text \<open>One of the three attempts of \<open>Create\<close>, and the loop over them.\<close>

fun create_tries :: "nat \<Rightarrow> faults \<Rightarrow> SessionConfig \<Rightarrow> Audience \<Rightarrow> time \<Rightarrow> string option list \<Rightarrow> session_row list \<Rightarrow>
    (store_err + (string \<times> Session)) \<times> session_row list" where
  "create_tries 0 flt c audience now rs rows =
     (Inl (ErrText ''session: sid collision retries exhausted''), rows)"
| "create_tries (Suc n) flt c audience now rs rows =
     (case newToken rs of
        (None, _) \<Rightarrow> (Inl (ErrText ''session: random source failed''), rows)
      | (Some sid, rs1) \<Rightarrow>
          (case (if audience = AudienceWeb then newToken rs1 else (Some [], rs1)) of
             (None, _) \<Rightarrow> (Inl (ErrText ''session: random source failed''), rows)
           | (Some csrf, rs2) \<Rightarrow>
               (let current = \<lparr>snAudience = audience, snCSRFToken = csrf, snCreatedAt = now,
                               snExpiresAt = time_add now (scTTL c)\<rparr>
                in case CreateSession flt (hashSID sid) current now (scCapacity c) rows of
                     (Inl e, rows') \<Rightarrow> (Inl e, rows')
                   | (Inr True, rows') \<Rightarrow> (Inr (sid, current), rows')
                   | (Inr False, rows') \<Rightarrow> create_tries n flt c audience now rs2 rows')))"

definition CreateSID :: "faults \<Rightarrow> SessionConfig \<Rightarrow> Audience \<Rightarrow> time \<Rightarrow> string option list \<Rightarrow> session_row list \<Rightarrow>
    (store_err + (string \<times> Session)) \<times> session_row list" where
  "CreateSID flt c audience now rs rows =
     (if audience \<noteq> AudienceWeb \<and> audience \<noteq> AudienceQBT
      then (Inl (ErrText ''session: invalid audience''), rows)
      else create_tries 3 flt c audience now rs rows)"

datatype get_result = SessionError store_err | SessionNotFound | SessionFound Session bool

text \<open>The tail of \<open>Get\<close> for an expired session: revoke it and report a miss.\<close>

definition expire :: "faults \<Rightarrow> string \<Rightarrow> Audience \<Rightarrow> session_row list \<Rightarrow> get_result \<times> session_row list" where
  "expire flt digest audience rows =
     (case RevokeSession flt digest audience rows of
        (Inl e, rows') \<Rightarrow> (SessionError e, rows')
      | (Inr _, rows') \<Rightarrow> (SessionNotFound, rows'))"

definition GetSID :: "faults \<Rightarrow> SessionConfig \<Rightarrow> (nat \<Rightarrow> session_row list \<Rightarrow> session_row list) \<Rightarrow> string \<Rightarrow> Audience \<Rightarrow>
    time \<Rightarrow> session_row list \<Rightarrow> get_result \<times> session_row list" where
  "GetSID flt c others sid audience now rows =
     (if audience \<noteq> AudienceWeb \<and> audience \<noteq> AudienceQBT then (SessionNotFound, rows)
      else if \<not> validSID sid then (SessionNotFound, rows)
      else
        (let digest = hashSID sid
         in case GetSession flt digest audience rows of
              Inl e \<Rightarrow> (SessionError e, rows)
            | Inr None \<Rightarrow> (SessionNotFound, rows)
            | Inr (Some current) \<Rightarrow>
                (if \<not> now < snExpiresAt current then expire flt digest audience (others 1 rows)
                 else if \<not> now < time_add (snExpiresAt current) (- (scTTL c - scRefreshInterval c))
                 then
                   (case RefreshSession flt digest audience (snExpiresAt current) (time_add now (scTTL c)) (others 1 rows) of
                      (Inl e, rows1) \<Rightarrow> (SessionError e, rows1)
                    | (Inr True, rows1) \<Rightarrow> (SessionFound (current\<lparr>snExpiresAt := time_add now (scTTL c)\<rparr>) True, rows1)
                    | (Inr False, rows1) \<Rightarrow>
                        (let rows2 = others 2 rows1
                         in case GetSession flt digest audience rows2 of
                              Inl e \<Rightarrow> (SessionError e, rows2)
                            | Inr None \<Rightarrow> (SessionNotFound, rows2)
                            | Inr (Some again) \<Rightarrow>
                                (if \<not> now < snExpiresAt again then expire flt digest audience (others 3 rows2)
                                 else (SessionFound again False, rows2))))
                 else (SessionFound current False, rows))))"

definition RevokeSID :: "faults \<Rightarrow> string \<Rightarrow> Audience \<Rightarrow> session_row list \<Rightarrow> (store_err + unit) \<times> session_row list" where
  "RevokeSID flt sid audience rows =
     (if audience \<noteq> AudienceWeb \<and> audience \<noteq> AudienceQBT then (Inl ErrNotFound, rows)
      else RevokeSession flt (hashSID sid) audience rows)"

definition PurgeExpired :: "faults \<Rightarrow> time \<Rightarrow> session_row list \<Rightarrow> (store_err + nat) \<times> session_row list" where
  "PurgeExpired flt now rows = PurgeExpiredSessions flt now rows"

end
