(* ===== verification/Text_Facts.thy ===== *)
theory Text_Facts
  imports Go_Text
begin

section \<open>ASCII inside UTF-8\<close>

text \<open>
  Lemmas on text that several components share: characters and their bytes, runes of ASCII text,
  ASCII characters of a well-formed string, and trimming of text without surrounding blanks.
\<close>

lemma char_eq_byte: "c = d \<longleftrightarrow> byte c = byte d"
  by (simp add: of_char_eq_iff)

lemma byte_high: "byte c div 16 < 16"
  using nat_of_char_less_256 [of c] by linarith

lemma list_all_butlast: "xs \<noteq> [] \<Longrightarrow> list_all P xs \<longleftrightarrow> list_all P (butlast xs) \<and> P (last xs)"
  by (induction xs rule: rev_induct) auto

lemma decode_rune_ascii: "byte c < 128 \<Longrightarrow> decode_rune (c # cs) = (byte c, 1)"
  by (simp add: decode_rune_def rune_len_def lead_len_def tail_ok.simps Let_def)

lemma rune_len_ascii: "byte c < 128 \<Longrightarrow> rune_len (c # cs) = 1"
  by (simp add: rune_len_def lead_len_def tail_ok.simps Let_def)

lemma ascii_text: "\<forall>c \<in> set s. byte c < 128 \<Longrightarrow> utf8_valid s \<and> runes s = map byte s"
proof (induction s)
  case (Cons c s)
  then show ?case
    by (simp add: utf8_valid.simps [of "c # s"] runes.simps [of "c # s"] decode_rune_ascii rune_len_ascii)
qed simp

lemma trim_ascii:
  assumes "s \<noteq> []" "byte (hd s) < 128" "byte (last s) < 128" "\<not> is_space (byte (hd s))" "\<not> is_space (byte (last s))"
  shows "trim_space s = s"
proof -
  obtain c cs where s: "s = c # cs" using assms(1) by (cases s) auto
  then have "trim_left s = s" using assms by (intro trim_left_fixed) (simp add: decode_rune_ascii)
  moreover have "trim_right s = s" using assms by (intro trim_right_fixed) (simp add: decode_last_rune_def)
  ultimately show ?thesis by (simp add: trim_space_def)
qed

text \<open>The bytes of a longer encoding, and its value, lie outside ASCII.\<close>

lemma encoding_outside_ascii:
  assumes "rune_len s = k" "2 \<le> k"
  shows "(\<forall>c \<in> set (take k s). 128 \<le> byte c) \<and> 128 \<le> rune_value (map byte (take k s))"
proof -
  obtain c cs where s: "s = c # cs" using assms by (cases s) (auto simp: rune_len_def)
  define t where "t = map byte (take (k - 1) cs)"
  from assms s have k: "lead_len (byte c) = k" and ok: "tail_ok (byte c) (k - 1) t"
    by (auto simp: rune_len_def Let_def t_def split: if_splits)
  have tk: "take k s = c # take (k - 1) cs" using s assms(2) by (cases k) auto
  have lead: "194 \<le> byte c" using k assms(2) by (auto simp: lead_len_def split: if_splits)
  obtain b r where t: "t = b # r" using ok assms(2) by (cases t) (auto simp: tail_ok.simps)
  with ok have sec: "second_ok (byte c) b" and r: "list_all is_cont r" "length t = k - 1" by (simp_all add: tail_ok.simps)
  have "\<forall>x \<in> set t. 128 \<le> x"
    using sec r(1) t by (auto simp: second_ok_def is_cont_def list_all_iff split: if_splits)
  then have "\<forall>x \<in> set (take (k - 1) cs). 128 \<le> byte x" by (auto simp: t_def)
  then have bytes: "\<forall>c \<in> set (take k s). 128 \<le> byte c" using tk lead by auto
  consider "k = 2" | "k = 3" | "k = 4" using k assms(2) by (auto simp: lead_len_def split: if_splits)
  then have "128 \<le> rune_value (byte c # t)"
  proof cases
    case 1
    with r t k show ?thesis using rune_value_2 [of "byte c" b] by (auto simp: lead_len_def split: if_splits)
  next
    case 2
    with r t obtain x where "t = [b, x]" by (auto simp: length_Suc_conv numeral_2_eq_2)
    with 2 k sec show ?thesis using rune_value_3 [of "byte c" b x] by (auto simp: lead_len_def split: if_splits)
  next
    case 3
    with r(2) obtain x y z where "t = [x, y, z]" using list_3 [of t] by auto
    with t obtain y z where "t = [b, y, z]" by auto
    with 3 k sec show ?thesis using rune_value_4 [of "byte c" b y z] by (auto simp: lead_len_def split: if_splits)
  qed
  with bytes tk show ?thesis by (simp add: t_def)
qed

text \<open>An ASCII byte is never part of a longer encoding, also in text that is not well formed.\<close>

lemma ascii_in_runes: "n < 128 \<Longrightarrow> n \<in> set (runes s) \<longleftrightarrow> n \<in> byte ` set s"
proof (induction s rule: runes.induct)
  case (1 s)
  show ?case
  proof (cases "s = []")
    case False
    define k where "k = snd (decode_rune s)"
    have r: "runes s = fst (decode_rune s) # runes (drop k s)" using False by (simp add: runes.simps [of s] k_def)
    have IH: "n \<in> set (runes (drop k s)) \<longleftrightarrow> n \<in> byte ` set (drop k s)"
      using "1.IH" False "1.prems" by (simp add: k_def)
    have "set s = set (take k s @ drop k s)" by simp
    then have split: "set s = set (take k s) \<union> set (drop k s)" by (simp only: set_append)
    have "n = fst (decode_rune s) \<longleftrightarrow> n \<in> byte ` set (take k s)"
    proof -
      obtain c cs where s: "s = c # cs" using False by (cases s) auto
      consider "byte c < 128" | "128 \<le> byte c" "rune_len s = 0" | "128 \<le> byte c" "0 < rune_len s" by linarith
      then show ?thesis
      proof cases
        case 1
        then show ?thesis using s by (auto simp: k_def decode_rune_ascii)
      next
        case 2
        then show ?thesis using s \<open>n < 128\<close> by (auto simp: k_def decode_rune_def rune_error_def)
      next
        case 3
        then have "2 \<le> rune_len s" using s by (auto simp: rune_len_def Let_def lead_len_def split: if_splits)
        from encoding_outside_ascii [OF HOL.refl this] \<open>n < 128\<close> 3(2) False show ?thesis
          by (auto simp: k_def decode_rune_def Let_def)
      qed
    qed
    with IH r split show ?thesis by auto
  qed simp
qed

lemma ascii_char_in_runes: "byte c < 128 \<Longrightarrow> byte c \<in> set (runes s) \<longleftrightarrow> c \<in> set s"
  using ascii_in_runes [of "byte c" s] by auto

text \<open>Well-formed text reads piece by piece.\<close>

lemma runes_append:
  "utf8_valid s \<Longrightarrow> runes (s @ t) = runes s @ runes t \<and> (utf8_valid (s @ t) \<longleftrightarrow> utf8_valid t)"
proof (induction s rule: utf8_valid.induct)
  case (1 s)
  show ?case
  proof (cases "s = []")
    case False
    with "1.prems" have pos: "0 < rune_len s" and rest: "utf8_valid (drop (rune_len s) s)"
      by (auto simp: utf8_valid_step)
    have len: "rune_len (s @ t) = rune_len s" using pos by (rule rune_len_append)
    note IH = "1.IH" [OF False _ rest]
    have "runes (s @ t) = rune_value (map byte (take (rune_len s) s)) # runes (drop (rune_len s) s @ t)"
      using False pos len by (simp add: runes.simps [of "s @ t"] decode_rune_def Let_def)
    moreover have "runes s = rune_value (map byte (take (rune_len s) s)) # runes (drop (rune_len s) s)"
      using False pos by (simp add: runes.simps [of s] decode_rune_def Let_def)
    moreover have "utf8_valid (s @ t) \<longleftrightarrow> utf8_valid (drop (rune_len s) s @ t)"
      using False pos len by (simp add: utf8_valid.simps [of "s @ t"])
    ultimately show ?thesis using IH pos by simp
  qed simp
qed

lemma join_text:
  "\<forall>w \<in> set ws. utf8_valid w \<Longrightarrow> byte c < 128 \<Longrightarrow>
   utf8_valid (join_with [c] ws) \<and> set (runes (join_with [c] ws)) \<subseteq> insert (byte c) (\<Union>w \<in> set ws. set (runes w))"
proof (induction "[c]" ws rule: join_with.induct)
  case (3 w v va)
  have one: "runes [c] = [byte c]" "utf8_valid [c]" using 3(3) ascii_text [of "[c]"] by simp_all
  have w: "utf8_valid w" using 3(2) by simp
  have IH: "utf8_valid (join_with [c] (v # va))"
    "set (runes (join_with [c] (v # va))) \<subseteq> insert (byte c) (\<Union>w \<in> set (v # va). set (runes w))"
    using 3 by simp_all
  have "runes (join_with [c] (w # v # va)) = runes w @ byte c # runes (join_with [c] (v # va))"
    "utf8_valid (join_with [c] (w # v # va))"
    using runes_append [OF w, of "[c] @ join_with [c] (v # va)"] runes_append [OF one(2), of "join_with [c] (v # va)"] one IH(1)
    by simp_all
  with IH(2) show ?case by auto
qed auto

subsection \<open>Joined relative paths\<close>

lemma split_join:
  "list_all (\<lambda>w. c \<notin> set w) ws \<Longrightarrow> ws \<noteq> [] \<Longrightarrow> split_on c (join_with [c] ws) = ws"
proof (induction "[c]" ws rule: join_with.induct)
  case (3 w v va)
  then have "split_on c w = [w]" using split_on_no_sep by simp
  with 3 show ?case by (simp add: split_on_append)
qed (auto simp: split_on_no_sep)

lemma path_clean_relative:
  assumes "list_all normal_comp ws" "ws \<noteq> []"
  shows "path_clean (join_with ''/'' ws) = join_with ''/'' ws \<and> \<not> is_abs (join_with ''/'' ws)"
proof -
  have no: "list_all (\<lambda>w. CHR ''/'' \<notin> set w) ws" using assms(1) by (auto simp: list_all_iff normal_comp_def)
  note split = split_join [OF no assms(2)]
  obtain w rest where ws: "ws = w # rest" using assms(2) by (cases ws) auto
  with assms(1) obtain a b where w: "w = a # b" "a \<noteq> CHR ''/''" by (cases w) (auto simp: normal_comp_def)
  then obtain tl where j: "join_with ''/'' ws = a # tl" using ws by (cases rest) auto
  then have "\<not> is_abs (join_with ''/'' ws)" using w by simp
  with j show ?thesis
    using clean_comps_normal [OF assms(1), of False "[]"] split by (simp add: path_clean_def)
qed

end
