(* ===== verification/Session_Facts.thy ===== *)
theory Session_Facts
  imports Sessions Text_Facts
begin

section \<open>What the session store guarantees\<close>

text \<open>
  Soundness of the table and its bound over every sequence of repository calls, what a lookup
  returns, that a revoked id stays revoked, and the shape of the ids.
\<close>

subsection \<open>Statements\<close>

definition sessions_sound :: "session_row list \<Rightarrow> bool" where
  "sessions_sound rows \<longleftrightarrow> distinct (map ss_digest rows) \<and> list_all session_checks rows"

lemma sound_filter: "sessions_sound rows \<Longrightarrow> sessions_sound (filter P rows)"
  by (auto simp: sessions_sound_def list_all_iff distinct_map_filter)

lemma bounded_filter:
  "sessions_sound rows \<and> int (length rows) \<le> n \<Longrightarrow>
   sessions_sound (filter P rows) \<and> int (length (filter P rows)) \<le> n"
  using sound_filter length_filter_le [of P rows] by (auto intro: order_trans [of _ "int (length rows)"])

lemma filter_key_length:
  "distinct (map key rows) \<Longrightarrow> r \<in> set rows \<Longrightarrow> Suc (length (filter (\<lambda>q. key q \<noteq> key r) rows)) = length rows"
proof (induction rows)
  case (Cons a rows)
  show ?case
  proof (cases "a = r")
    case True
    with Cons.prems have "\<forall>q \<in> set rows. key q \<noteq> key r" by (simp add: image_iff) metis
    then have "filter (\<lambda>q. key q \<noteq> key r) rows = rows" by simp
    with True show ?thesis by simp
  next
    case False
    with Cons.prems have "key a \<noteq> key r" "r \<in> set rows" by (auto simp: image_iff)
    with Cons show ?thesis by simp
  qed
qed simp

lemma evict_sound: "sessions_sound rows \<Longrightarrow> sessions_sound (evict_oldest rows)"
  by (auto simp: evict_oldest_def sound_filter split: option.splits)

lemma evict_length: "sessions_sound rows \<Longrightarrow> length (evict_oldest rows) = length rows - 1"
proof (cases "first_by session_age rows")
  case None
  then have e: "rows = []" by simp
  show ?thesis unfolding e by (simp add: evict_oldest_def first_by_def)
next
  case (Some r)
  assume "sessions_sound rows"
  then have "Suc (length (filter (\<lambda>q. ss_digest q \<noteq> ss_digest r) rows)) = length rows"
    using first_by_mem [OF Some] by (intro filter_key_length) (simp_all add: sessions_sound_def)
  with Some show ?thesis by (simp add: evict_oldest_def)
qed

lemma evict_subset: "set (evict_oldest rows) \<subseteq> set rows"
  by (auto simp: evict_oldest_def split: option.splits)

text \<open>What an eviction drops is at least as old as everything it keeps.\<close>

lemma evict_oldest_first:
  "x \<in> set rows \<Longrightarrow> x \<notin> set (evict_oldest rows) \<Longrightarrow> distinct (map ss_digest rows) \<Longrightarrow>
   y \<in> set (evict_oldest rows) \<Longrightarrow> session_age x \<le> session_age y"
proof (cases "first_by session_age rows")
  case (Some r)
  assume x: "x \<in> set rows" "x \<notin> set (evict_oldest rows)" and d: "distinct (map ss_digest rows)"
    and y: "y \<in> set (evict_oldest rows)"
  from x Some have "ss_digest x = ss_digest r" by (simp add: evict_oldest_def)
  then have "x = r" using d first_by_mem [OF Some] x(1) by (simp add: distinct_map inj_on_def)
  with first_by_least [OF Some] y evict_subset show ?thesis by blast
qed (simp add: evict_oldest_def)

lemma make_room_sound: "sessions_sound rows \<Longrightarrow> sessions_sound (make_room capacity count rows)"
proof (induction capacity count rows rule: make_room.induct)
  case (1 capacity count rows)
  with evict_sound [of rows] show ?case by (simp add: make_room.simps [of capacity count rows])
qed

lemma make_room_subset: "set (make_room capacity count rows) \<subseteq> set rows"
proof (induction capacity count rows rule: make_room.induct)
  case (1 capacity count rows)
  with evict_subset [of rows] show ?case by (simp add: make_room.simps [of capacity count rows]) blast
qed

lemma make_room_length:
  "sessions_sound rows \<Longrightarrow> count = int (length rows) \<Longrightarrow> 0 < capacity \<Longrightarrow>
   int (length (make_room capacity count rows)) = min (capacity - 1) count"
proof (induction capacity count rows rule: make_room.induct)
  case (1 capacity count rows)
  show ?case
  proof (cases "capacity \<le> count")
    case True
    with 1 have "int (length (evict_oldest rows)) = count - 1" by (simp add: evict_length of_nat_diff)
    with True 1 evict_sound [of rows] show ?thesis by (simp add: make_room.simps [of capacity "int (length rows)" rows])
  qed (use 1 in \<open>simp add: make_room.simps [of capacity "int (length rows)" rows]\<close>)
qed

lemma make_room_oldest_first:
  "sessions_sound rows \<Longrightarrow> x \<in> set rows \<Longrightarrow> x \<notin> set (make_room capacity count rows) \<Longrightarrow>
   y \<in> set (make_room capacity count rows) \<Longrightarrow> session_age x \<le> session_age y"
proof (induction capacity count rows rule: make_room.induct)
  case (1 capacity count rows)
  show ?case
  proof (cases "capacity \<le> count")
    case True
    then have step: "make_room capacity count rows = make_room capacity (count - 1) (evict_oldest rows)"
      by (simp add: make_room.simps [of capacity count rows])
    show ?thesis
    proof (cases "x \<in> set (evict_oldest rows)")
      case True
      with \<open>capacity \<le> count\<close> 1 step evict_sound show ?thesis by simp
    next
      case False
      moreover have "y \<in> set (evict_oldest rows)" using 1(5) step make_room_subset by auto
      ultimately show ?thesis using evict_oldest_first 1(2,3) by (auto simp: sessions_sound_def)
    qed
  qed (use 1 in \<open>simp add: make_room.simps [of capacity count rows]\<close>)
qed

lemma insert_session_sound:
  "sessions_sound rows \<Longrightarrow> insert_session r rows = Inr rows' \<Longrightarrow> sessions_sound rows' \<and> rows' = rows @ [r]"
  by (auto simp: insert_session_def sessions_sound_def split: if_splits)

lemma refresh_rows_sound:
  assumes "sessions_sound rows" "refresh_session_rows d a e new rows = Inr (n, rows')"
  shows "sessions_sound rows' \<and> map ss_digest rows' = map ss_digest rows"
proof -
  let ?f = "\<lambda>r. r\<lparr>ss_expires_at := new\<rparr>"
  from assms(2) have r: "rows' = sql_update (refresh_where d a e) ?f rows"
    "\<forall>r \<in> set rows. refresh_where d a e r \<longrightarrow> session_checks (?f r)"
    by (auto simp: refresh_session_rows_def Let_def list_all_iff split: if_splits)
  then have "map ss_digest rows' = map ss_digest rows" by (simp add: sql_update_keys)
  with assms(1) r show ?thesis by (auto simp: sessions_sound_def list_all_iff set_sql_update)
qed

subsection \<open>Sequences of repository calls\<close>

text \<open>The list holds the digests of the sessions created on the way, newest first.\<close>

inductive session_run :: "int \<Rightarrow> session_row list \<Rightarrow> string list \<Rightarrow> session_row list \<Rightarrow> bool" for capacity rows where
  run_start: "session_run capacity rows [] rows"
| run_created: "session_run capacity rows ds t \<Longrightarrow> CreateSession flt d current now capacity t = (Inr True, t') \<Longrightarrow>
    session_run capacity rows (d # ds) t'"
| run_not_created: "session_run capacity rows ds t \<Longrightarrow> CreateSession flt d current now capacity t = (res, t') \<Longrightarrow>
    res \<noteq> Inr True \<Longrightarrow> session_run capacity rows ds t'"
| run_refresh: "session_run capacity rows ds t \<Longrightarrow> RefreshSession flt d a e new t = (res, t') \<Longrightarrow>
    session_run capacity rows ds t'"
| run_revoke: "session_run capacity rows ds t \<Longrightarrow> RevokeSession flt d a t = (res, t') \<Longrightarrow>
    session_run capacity rows ds t'"
| run_purge: "session_run capacity rows ds t \<Longrightarrow> PurgeExpiredSessions flt now t = (res, t') \<Longrightarrow>
    session_run capacity rows ds t'"

lemma CreateSession_not: "CreateSession flt d current now capacity t = (res, t') \<Longrightarrow> res \<noteq> Inr True \<Longrightarrow> t' = t"
  by (auto simp: CreateSession_def Let_def split: if_splits sum.splits)

lemma CreateSession_done:
  assumes "CreateSession flt d current now capacity t = (Inr True, t')"
  obtains r where "0 < capacity" "ss_digest r = d" "ss_audience r = snAudience current" "session_checks r"
    "ss_expires_at r = snExpiresAt current" "ss_csrf r = snCSRFToken current" "ss_created_at r = snCreatedAt current"
    "t' = make_room capacity (int (length (purge_expired now t))) (purge_expired now t) @ [r]"
    "insert_session r (make_room capacity (int (length (purge_expired now t))) (purge_expired now t)) = Inr t'"
proof -
  let ?r = "\<lparr>ss_digest = d, ss_audience = snAudience current, ss_csrf = snCSRFToken current,
    ss_created_at = snCreatedAt current, ss_expires_at = snExpiresAt current\<rparr>"
  let ?rows = "make_room capacity (int (length (purge_expired now t))) (purge_expired now t)"
  from assms have "insert_session ?r ?rows = Inr t'" "0 < capacity"
    by (auto simp: CreateSession_def Let_def split: if_splits sum.splits)
  moreover from this have "t' = ?rows @ [?r]" "session_checks ?r" by (auto simp: insert_session_def split: if_splits)
  ultimately show ?thesis using that [of ?r] by simp
qed

lemma CreateSession_sound:
  assumes "sessions_sound t" "CreateSession flt d current now capacity t = (Inr True, t')"
  shows "sessions_sound t' \<and> int (length t') \<le> capacity"
proof -
  let ?kept = "purge_expired now t"
  from CreateSession_done [OF assms(2)] obtain r where r: "0 < capacity"
    "t' = make_room capacity (int (length ?kept)) ?kept @ [r]"
    "insert_session r (make_room capacity (int (length ?kept)) ?kept) = Inr t'" by metis
  have s: "sessions_sound ?kept" using assms(1) by (simp add: purge_expired_def sound_filter)
  then have "int (length (make_room capacity (int (length ?kept)) ?kept)) \<le> capacity - 1"
    using make_room_length [OF s HOL.refl r(1)] by simp
  moreover have "sessions_sound t'" using insert_session_sound [OF make_room_sound [OF s] r(3)] ..
  ultimately show ?thesis using r(2) by simp
qed

lemma Refresh_cases:
  assumes "RefreshSession flt d a e new t = (res, t')"
  obtains "t' = t" "res \<noteq> Inr True" | n where "refresh_session_rows d a e new t = Inr (n, t')" "res = Inr (n = 1)"
  using assms by (auto simp: RefreshSession_def split: if_splits sum.splits)

lemma Revoke_filter:
  assumes "RevokeSession flt d a t = (res, t')"
  shows "\<exists>P. t' = filter P t"
proof (cases "flt ''revoke session''")
  case True
  with assms have "t' = filter (\<lambda>_. True) t" by (simp add: RevokeSession_def)
  then show ?thesis by (rule exI [of _ "\<lambda>_. True"])
next
  case False
  with assms have "t' = filter (\<lambda>r. \<not> (ss_digest r = d \<and> ss_audience r = a)) t"
    by (simp add: RevokeSession_def revoke_session_row_def)
  then show ?thesis by (rule exI [of _ "\<lambda>r. \<not> (ss_digest r = d \<and> ss_audience r = a)"])
qed

lemma Purge_filter:
  assumes "PurgeExpiredSessions flt now t = (res, t')"
  shows "\<exists>P. t' = filter P t"
proof (cases "flt ''purge expired sessions''")
  case True
  with assms have "t' = filter (\<lambda>_. True) t" by (simp add: PurgeExpiredSessions_def)
  then show ?thesis by (rule exI [of _ "\<lambda>_. True"])
next
  case False
  with assms have "t' = filter (\<lambda>r. \<not> ss_expires_at r \<le> now) t"
    by (simp add: PurgeExpiredSessions_def purge_expired_def)
  then show ?thesis by (rule exI [of _ "\<lambda>r. \<not> ss_expires_at r \<le> now"])
qed

lemma run_bounded:
  assumes "session_run capacity rows ds t" "sessions_sound rows" "int (length rows) \<le> capacity"
  shows "sessions_sound t \<and> int (length t) \<le> capacity"
  using assms
proof (induction rule: session_run.induct)
  case (run_created ds t flt d current now t')
  then show ?case using CreateSession_sound by blast
next
  case (run_not_created ds t flt d current now res t')
  then show ?case using CreateSession_not by blast
next
  case (run_refresh ds t flt d a e new res t')
  from run_refresh.hyps(2) show ?case
  proof (cases rule: Refresh_cases)
    case (2 n)
    from refresh_rows_sound [OF _ 2(1)] run_refresh show ?thesis by (metis length_map)
  qed (use run_refresh in simp)
next
  case (run_revoke ds t flt d a res t')
  then obtain P where "t' = filter P t" using Revoke_filter by blast
  with run_revoke bounded_filter show ?case by metis
next
  case (run_purge ds t flt now res t')
  then obtain P where "t' = filter P t" using Purge_filter by blast
  with run_purge bounded_filter show ?case by metis
qed simp

text \<open>A digest and audience that the table lacks appear only when a session is created with it.\<close>

definition absent :: "string \<Rightarrow> Audience \<Rightarrow> session_row list \<Rightarrow> bool" where
  "absent d a rows \<longleftrightarrow> (\<forall>r \<in> set rows. \<not> (ss_digest r = d \<and> ss_audience r = a))"

lemma absent_filter: "absent d a rows \<Longrightarrow> absent d a (filter P rows)"
  by (auto simp: absent_def)

lemma run_absent:
  assumes "session_run capacity rows ds t" "absent d a rows" "d \<notin> set ds"
  shows "absent d a t"
  using assms
proof (induction rule: session_run.induct)
  case (run_created ds t flt d' current now t')
  from CreateSession_done [OF run_created(2)] obtain r where
    "t' = make_room capacity (int (length (purge_expired now t))) (purge_expired now t) @ [r]" "ss_digest r = d'" by metis
  with run_created show ?case
    using make_room_subset [of capacity "int (length (purge_expired now t))" "purge_expired now t"]
    by (auto simp: absent_def purge_expired_def)
next
  case (run_not_created ds t flt d' current now res t')
  then show ?case using CreateSession_not by blast
next
  case (run_refresh ds t flt d' a' e new res t')
  from run_refresh.hyps(2) show ?case
  proof (cases rule: Refresh_cases)
    case (2 n)
    then have "t' = sql_update (refresh_where d' a' e) (\<lambda>r. r\<lparr>ss_expires_at := new\<rparr>) t"
      by (auto simp: refresh_session_rows_def Let_def split: if_splits)
    with run_refresh show ?thesis by (auto simp: absent_def set_sql_update)
  qed (use run_refresh in simp)
next
  case (run_revoke ds t flt d' a' res t')
  then obtain P where "t' = filter P t" using Revoke_filter by blast
  with run_revoke absent_filter show ?case by simp
next
  case (run_purge ds t flt now res t')
  then obtain P where "t' = filter P t" using Purge_filter by blast
  with run_purge absent_filter show ?case by simp
qed simp

subsection \<open>The operations of the session store as sequences\<close>

lemma run_trans:
  assumes "session_run capacity b es c" "session_run capacity a ds b"
  shows "session_run capacity a (es @ ds) c"
  using assms by (induction rule: session_run.induct) (auto intro: session_run.intros)

lemma create_tries_run:
  "\<exists>ds. session_run (scCapacity c) rows ds (snd (create_tries n flt c audience now rs rows)) \<and>
     (\<forall>sid cur t'. create_tries n flt c audience now rs rows = (Inr (sid, cur), t') \<longrightarrow> hashSID sid \<in> set ds)"
proof (induction n arbitrary: rs rows)
  case 0
  then show ?case by (auto intro: run_start)
next
  case (Suc n)
  show ?case
  proof (cases "newToken rs")
    case (Pair tok rs1)
    show ?thesis
    proof (cases "\<exists>sid csrf rs2. tok = Some sid \<and> (if audience = AudienceWeb then newToken rs1 else (Some [], rs1)) = (Some csrf, rs2)")
      case False
      then have "create_tries (Suc n) flt c audience now rs rows = (Inl (ErrText ''session: random source failed''), rows)"
        using Pair by (cases tok) (auto split: option.splits prod.splits)
      then show ?thesis by (auto intro: run_start)
    next
      case True
      then obtain sid csrf rs2 where t: "tok = Some sid"
        "(if audience = AudienceWeb then newToken rs1 else (Some [], rs1)) = (Some csrf, rs2)" by blast
      define cur where "cur = \<lparr>snAudience = audience, snCSRFToken = csrf, snCreatedAt = now, snExpiresAt = time_add now (scTTL c)\<rparr>"
      obtain res t' where call: "CreateSession flt (hashSID sid) cur now (scCapacity c) rows = (res, t')"
        by (cases "CreateSession flt (hashSID sid) cur now (scCapacity c) rows")
      then have step: "create_tries (Suc n) flt c audience now rs rows =
        (case res of Inl e \<Rightarrow> (Inl e, t') | Inr True \<Rightarrow> (Inr (sid, cur), t') | Inr False \<Rightarrow> create_tries n flt c audience now rs2 t')"
        using Pair t by (simp add: cur_def Let_def split: sum.split bool.split)
      consider e where "res = Inl e" | "res = Inr True" | "res = Inr False" by (cases res) auto
      then show ?thesis
      proof cases
        case 1
        have "session_run (scCapacity c) rows [] t'"
          by (rule run_not_created [OF run_start call]) (simp add: 1)
        with step 1 show ?thesis by auto
      next
        case 2
        have "session_run (scCapacity c) rows [hashSID sid] t'"
          by (rule run_created [OF run_start]) (use call 2 in simp)
        with step 2 show ?thesis by auto
      next
        case 3
        have "t' = rows" using CreateSession_not [OF call] 3 by simp
        with step 3 Suc [of rows rs2] show ?thesis by simp
      qed
    qed
  qed
qed

lemma GetSession_found:
  assumes "GetSession flt d a rows = Inr (Some s)"
  shows "snAudience s = a \<and> (\<exists>r \<in> set rows. ss_digest r = d \<and> ss_audience r = a \<and> ss_expires_at r = snExpiresAt s)"
proof -
  from assms obtain r where r: "get_session_row d a rows = Some r" "sessionFromDB r = Inr s"
    by (auto simp: GetSession_def split: if_splits option.splits sum.splits)
  then have "r \<in> set rows" "ss_digest r = d" "ss_audience r = a"
    by (auto simp: get_session_row_def find_Some_iff)
  moreover have "snAudience s = ss_audience r" "snExpiresAt s = ss_expires_at r"
    using r(2) by (auto simp: sessionFromDB_def split: if_splits)
  ultimately show ?thesis by auto
qed

text \<open>What a lookup hands out was found in the table under this id and audience, unexpired.\<close>

lemma GetSID_found:
  assumes "GetSID flt c others sid audience now rows = (SessionFound s renewed, rows')" "0 < scTTL c"
  shows "validSID sid \<and> snAudience s = audience \<and> now < snExpiresAt s \<and>
    (\<exists>r \<in> set rows. ss_digest r = hashSID sid \<and> ss_audience r = audience \<and> now < ss_expires_at r)"
proof -
  from assms(1) obtain current where
    cur: "GetSession flt (hashSID sid) audience rows = Inr (Some current)" "validSID sid" "now < snExpiresAt current"
    and rest: "s = current \<or> s = current\<lparr>snExpiresAt := time_add now (scTTL c)\<rparr> \<or>
      (\<exists>rows2. GetSession flt (hashSID sid) audience rows2 = Inr (Some s) \<and> now < snExpiresAt s)"
    by (auto simp: GetSID_def expire_def Let_def split: if_splits sum.splits option.splits prod.splits bool.splits)
  note found = GetSession_found [OF cur(1)]
  then have "\<exists>r \<in> set rows. ss_digest r = hashSID sid \<and> ss_audience r = audience \<and> now < ss_expires_at r"
    using cur(3) by auto
  moreover have "snAudience s = audience \<and> now < snExpiresAt s"
    using rest found cur(3) assms(2) GetSession_found by (auto simp: time_add_def)
  ultimately show ?thesis using cur(2) by blast
qed

text \<open>A client that is served without a lost race may idle for \<open>ttl - refreshInterval\<close> from now.\<close>

lemma GetSID_lasts:
  assumes "GetSID flt c (\<lambda>_ t. t) sid audience now rows = (SessionFound s renewed, rows')" "sessions_sound rows"
    and "0 < scRefreshInterval c"
  shows "now + (scTTL c - scRefreshInterval c) < snExpiresAt s"
proof -
  from assms(1) obtain current where cur: "GetSession flt (hashSID sid) audience rows = Inr (Some current)"
    by (auto simp: GetSID_def expire_def Let_def split: if_splits sum.splits option.splits prod.splits bool.splits)
  then obtain r where r: "r \<in> set rows" "refresh_where (hashSID sid) audience (snExpiresAt current) r"
    using GetSession_found by (fastforce simp: refresh_where_def)
  have one: "rows_affected (refresh_where (hashSID sid) audience (snExpiresAt current)) rows = 1"
    using rows_affected_key [of ss_digest rows "refresh_where (hashSID sid) audience (snExpiresAt current)" "hashSID sid"]
      sql_get_mem [of ss_digest rows r] assms(2) r
    by (simp add: sessions_sound_def refresh_where_def)
  then have "RefreshSession flt (hashSID sid) audience (snExpiresAt current) new rows \<noteq> (Inr False, t)" for new t
    by (auto simp: RefreshSession_def refresh_session_rows_def Let_def split: if_splits sum.splits)
  with assms(1,3) cur show ?thesis
    by (auto simp: GetSID_def expire_def Let_def time_add_def split: if_splits sum.splits option.splits prod.splits bool.splits)
qed

text \<open>An id that was revoked is dead until a session is created under the same digest.\<close>

lemma revoked_absent: "RevokeSID flt sid audience rows = (Inr (), t) \<Longrightarrow> absent (hashSID sid) audience t"
  by (auto simp: RevokeSID_def RevokeSession_def revoke_session_row_def absent_def split: if_splits)

lemma GetSID_absent:
  assumes "absent (hashSID sid) audience rows" "0 < scTTL c"
  shows "fst (GetSID flt c others sid audience now rows) \<noteq> SessionFound s renewed"
  using GetSID_found [of flt c others sid audience now rows s renewed "snd (GetSID flt c others sid audience now rows)"] assms
  by (auto simp: absent_def prod_eq_iff)

subsection \<open>The shape of session ids\<close>

lemma raw_url_char: "isRawURLBase64Character c \<longleftrightarrow> b64_value URLAlphabet c \<noteq> None"
  by (simp add: isRawURLBase64Character_def b64_value_def Let_def char_eq_byte [of c])

text \<open>The final characters are those whose two unused bits are zero.\<close>

lemma final_byte:
  "isFinalTokenCharacter c \<longleftrightarrow>
     byte c \<in> {65, 69, 73, 77, 81, 85, 89, 99, 103, 107, 111, 115, 119, 48, 52, 56}"
  by (simp add: isFinalTokenCharacter_def char_eq_byte [of c])

lemma final_letters:
  fixes n :: nat
  shows "n \<le> 25 \<Longrightarrow> n mod 4 = 0 \<Longrightarrow> n + 65 \<in> {65, 69, 73, 77, 81, 85, 89}"
    and "26 \<le> n \<Longrightarrow> n \<le> 51 \<Longrightarrow> n mod 4 = 0 \<Longrightarrow> n + 71 \<in> {99, 103, 107, 111, 115, 119}"
    and "52 \<le> n \<Longrightarrow> n \<le> 61 \<Longrightarrow> n mod 4 = 0 \<Longrightarrow> n \<in> {52, 56, 60}"
  by simp_all presburger+

lemma final_char: "isFinalTokenCharacter c \<longleftrightarrow> (\<exists>n. b64_value URLAlphabet c = Some n \<and> n mod 4 = 0)"
proof
  assume "isFinalTokenCharacter c"
  then show "\<exists>n. b64_value URLAlphabet c = Some n \<and> n mod 4 = 0"
    by (auto simp: isFinalTokenCharacter_def b64_value_def Let_def)
next
  assume "\<exists>n. b64_value URLAlphabet c = Some n \<and> n mod 4 = 0"
  then obtain n where n: "n < 64" "byte c = b64_code URLAlphabet n" "n mod 4 = 0"
    using b64_char_value b64_char_byte by metis
  consider "n \<le> 25" | "26 \<le> n \<and> n \<le> 51" | "52 \<le> n \<and> n \<le> 61" | "n = 62 \<or> n = 63" using n(1) by linarith
  then show "isFinalTokenCharacter c"
    using n final_letters [of n] by cases (auto simp: final_byte b64_code_def)
qed

lemma validSID_iff: "validSID sid \<longleftrightarrow> (\<exists>raw. length raw = tokenBytes \<and> sid = b64_encode URLAlphabet raw)"
proof
  assume v: "validSID sid"
  then have len: "length sid = 43" "sid \<noteq> []" by (auto simp: validSID_def encodedLen_def tokenBytes_def split: if_splits)
  obtain n where last: "b64_value URLAlphabet (last sid) = Some n" "n mod 4 = 0"
    using v final_char by (auto simp: validSID_def split: if_splits)
  have chars: "list_all (\<lambda>c. b64_value URLAlphabet c \<noteq> None) sid"
    using v last len list_all_butlast [OF len(2), of "\<lambda>c. b64_value URLAlphabet c \<noteq> None"]
    by (auto simp: validSID_def raw_url_char [abs_def] split: if_splits)
  have spare: "no_spare_bits (map (the \<circ> b64_value URLAlphabet) sid)"
    using last len by (auto simp: no_spare_bits_def last_map)
  from b64_image [OF chars spare] len show "\<exists>raw. length raw = tokenBytes \<and> sid = b64_encode URLAlphabet raw"
    by (auto simp: tokenBytes_def)
next
  assume "\<exists>raw. length raw = tokenBytes \<and> sid = b64_encode URLAlphabet raw"
  then obtain raw where raw: "length raw = 32" "sid = b64_encode URLAlphabet raw" by (auto simp: tokenBytes_def)
  then have len: "length sid = 43" by (simp add: b64_encode_length)
  then have ne: "sid \<noteq> []" by auto
  have chars: "list_all (\<lambda>c. b64_value URLAlphabet c \<noteq> None) sid"
    and spare: "no_spare_bits (map (the \<circ> b64_value URLAlphabet) sid)"
    using b64_encode_chars [of URLAlphabet raw] raw(2) by simp_all
  then have "isFinalTokenCharacter (last sid)"
    using len last_in_set [OF ne] by (auto simp: final_char no_spare_bits_def last_map list_all_iff)
  moreover have "list_all isRawURLBase64Character (butlast sid)"
    using chars by (auto simp: list_all_iff raw_url_char dest: in_set_butlastD)
  ultimately show "validSID sid" using len by (simp add: validSID_def encodedLen_def tokenBytes_def)
qed

end
