(* ===== verification/Login_Policy.thy ===== *)
theory Login_Policy
  imports Go_Text "HOL-Library.Product_Lexorder"
begin

section \<open>The login policy (internal/session/store: AuthorizeLogin)\<close>

text \<open>
  Failed logins are counted for each client address in memory.  The Go map is an association list
  with distinct keys; its iteration order does not matter, since purging looks at each entry alone
  and eviction takes the least by time and key.
\<close>

subsection \<open>Client addresses\<close>

text \<open>\<open>net.SplitHostPort\<close>: \<open>None\<close> is an error, otherwise host and port.\<close>

fun last_index :: "char \<Rightarrow> string \<Rightarrow> nat option" where
  "last_index c [] = None"
| "last_index c (x # xs) =
     (case last_index c xs of Some i \<Rightarrow> Some (Suc i) | None \<Rightarrow> if x = c then Some 0 else None)"

fun first_index :: "char \<Rightarrow> string \<Rightarrow> nat option" where
  "first_index c [] = None"
| "first_index c (x # xs) = (if x = c then Some 0 else map_option Suc (first_index c xs))"

definition SplitHostPort :: "string \<Rightarrow> (string \<times> string) option" where
  "SplitHostPort hostport =
     (case last_index CHR '':'' hostport of
        None \<Rightarrow> None
      | Some i \<Rightarrow>
          (if hd hostport = CHR ''['' then
             (case first_index CHR '']'' hostport of
                None \<Rightarrow> None
              | Some e \<Rightarrow>
                  if e + 1 = length hostport \<or> e + 1 \<noteq> i then None
                  else if CHR ''['' \<in> set (drop 1 hostport) \<or> CHR '']'' \<in> set (drop (e + 1) hostport) then None
                  else Some (drop 1 (take e hostport), drop (i + 1) hostport))
           else if CHR '':'' \<in> set (take i hostport) then None
           else if CHR ''['' \<in> set hostport \<or> CHR '']'' \<in> set hostport then None
           else Some (take i hostport, drop (i + 1) hostport)))"

definition clientAddress :: "string \<Rightarrow> string" where
  "clientAddress remote =
     (let remoteAddress = trim_space remote
      in case SplitHostPort remoteAddress of
           Some (host, _) \<Rightarrow>
             if host \<noteq> [] then host else if remoteAddress = [] then ''unknown'' else remoteAddress
         | None \<Rightarrow> if remoteAddress = [] then ''unknown'' else remoteAddress)"

subsection \<open>Attempts\<close>

datatype LoginDecision = LoginAllowed | LoginInvalid | LoginBanned

record loginAttempt =
  laFailures :: int
  laWindowStart :: time
  laBannedUntil :: time
  laTouchedAt :: time

type_synonym logins = "(string \<times> loginAttempt) list"

definition loginWindow :: duration where "loginWindow = 5 * minute"
definition loginBanDuration :: duration where "loginBanDuration = 15 * minute"
definition loginFailureLimit :: int where "loginFailureLimit = 5"

definition delete_login :: "string \<Rightarrow> logins \<Rightarrow> logins" where
  "delete_login key l = filter (\<lambda>e. fst e \<noteq> key) l"

definition store_login :: "string \<Rightarrow> loginAttempt \<Rightarrow> logins \<Rightarrow> logins" where
  "store_login key a l = (key, a) # delete_login key l"

definition spent_attempt :: "time \<Rightarrow> loginAttempt \<Rightarrow> bool" where
  "spent_attempt now a \<longleftrightarrow> \<not> now < laBannedUntil a \<and> \<not> now < time_add (laWindowStart a) loginWindow"

definition purgeLoginAttempts :: "time \<Rightarrow> logins \<Rightarrow> logins" where
  "purgeLoginAttempts now l = filter (\<lambda>e. \<not> spent_attempt now (snd e)) l"

definition evictLoginAttempt :: "logins \<Rightarrow> logins" where
  "evictLoginAttempt l =
     (case first_by (\<lambda>e. (laTouchedAt (snd e), fst e)) l of
        None \<Rightarrow> delete_login [] l
      | Some oldest \<Rightarrow> delete_login (fst oldest) l)"

definition AuthorizeLogin :: "int \<Rightarrow> time \<Rightarrow> string \<Rightarrow> bool \<Rightarrow> logins \<Rightarrow> LoginDecision \<times> logins" where
  "AuthorizeLogin capacity now remoteAddress credentialsValid all_logins =
     (let key = clientAddress remoteAddress;
          l = purgeLoginAttempts now all_logins;
          found = map_of l key
      in if (case found of Some a \<Rightarrow> now < laBannedUntil a | None \<Rightarrow> False)
         then (LoginBanned, store_login key ((the found)\<lparr>laTouchedAt := now\<rparr>) l)
         else if credentialsValid then (LoginAllowed, delete_login key l)
         else
           (let attempt = (case found of
                  None \<Rightarrow> \<lparr>laFailures = 0, laWindowStart = now, laBannedUntil = 0, laTouchedAt = 0\<rparr>
                | Some a \<Rightarrow>
                    if \<not> now < time_add (laWindowStart a) loginWindow
                    then \<lparr>laFailures = 0, laWindowStart = now, laBannedUntil = 0, laTouchedAt = 0\<rparr> else a);
                counted = attempt\<lparr>laFailures := laFailures attempt + 1, laTouchedAt := now\<rparr>;
                judged = (if loginFailureLimit \<le> laFailures counted
                          then counted\<lparr>laBannedUntil := time_add now loginBanDuration\<rparr> else counted);
                room = (if found = None \<and> int (length l) = capacity then evictLoginAttempt l else l)
            in (if \<not> time_is_zero (laBannedUntil judged) then LoginBanned else LoginInvalid,
                store_login key judged room)))"

subsection \<open>The table of attempts stays bounded\<close>

definition logins_ok :: "int \<Rightarrow> logins \<Rightarrow> bool" where
  "logins_ok capacity l \<longleftrightarrow> distinct (map fst l) \<and> int (length l) \<le> capacity"

lemma login_filter_ok: "logins_ok c l \<Longrightarrow> logins_ok c (filter P l)"
  by (auto simp: logins_ok_def distinct_map_filter intro: order_trans [of _ "int (length l)"])

lemma map_of_delete: "map_of (delete_login k l) q = (if q = k then None else map_of l q)"
  by (induction l) (auto simp: delete_login_def)

lemma map_of_store [simp]: "map_of (store_login k a l) q = (if q = k then Some a else map_of l q)"
  by (simp add: store_login_def map_of_delete)

lemma keys_store: "fst ` set (store_login k a l) = insert k (fst ` set l)"
  by (auto simp: store_login_def delete_login_def image_iff)

lemma map_of_purge:
  "distinct (map fst l) \<Longrightarrow> map_of (purgeLoginAttempts now l) k =
    (case map_of l k of None \<Rightarrow> None | Some a \<Rightarrow> if spent_attempt now a then None else Some a)"
  by (induction l) (auto simp: purgeLoginAttempts_def map_of_eq_None_iff image_iff split: option.splits)

lemma store_ok:
  assumes "distinct (map fst l)" "int (length l) \<le> c" "map_of l k = None \<Longrightarrow> int (length l) < c"
  shows "logins_ok c (store_login k a l)"
proof (cases "k \<in> fst ` set l")
  case True
  then have "length (delete_login k l) < length l" by (auto simp: delete_login_def length_filter_less)
  with assms show ?thesis
    by (auto simp: logins_ok_def store_login_def delete_login_def distinct_map_filter)
next
  case False
  then have "delete_login k l = l" by (auto simp: delete_login_def filter_id_conv image_iff)
  with assms False show ?thesis by (simp add: logins_ok_def store_login_def map_of_eq_None_iff)
qed

lemma evict_login:
  assumes "distinct (map fst l)" "l \<noteq> []"
  shows "distinct (map fst (evictLoginAttempt l)) \<and> length (evictLoginAttempt l) < length l \<and>
    set (evictLoginAttempt l) \<subseteq> set l"
proof -
  obtain e where e: "first_by (\<lambda>e. (laTouchedAt (snd e), fst e)) l = Some e"
    using assms(2) by (cases "first_by (\<lambda>e. (laTouchedAt (snd e), fst e)) l") auto
  have "length (filter (\<lambda>q. fst q \<noteq> fst e) l) < length l"
    using first_by_mem [OF e] by (intro length_filter_less) auto
  with assms(1) e show ?thesis by (auto simp: evictLoginAttempt_def delete_login_def distinct_map_filter)
qed

lemma AuthorizeLogin_ok:
  assumes "logins_ok capacity l" "0 < capacity"
  shows "logins_ok capacity (snd (AuthorizeLogin capacity now remote valid l))"
proof -
  let ?l = "purgeLoginAttempts now l"
  let ?room = "if map_of ?l (clientAddress remote) = None \<and> int (length ?l) = capacity then evictLoginAttempt ?l else ?l"
  have l: "distinct (map fst ?l)" "int (length ?l) \<le> capacity"
    using login_filter_ok [OF assms(1)] by (simp_all add: logins_ok_def purgeLoginAttempts_def)
  have room: "logins_ok capacity (store_login (clientAddress remote) a ?room)" for a
  proof (rule store_ok)
    have "?l \<noteq> [] \<or> int (length ?l) < capacity" using assms(2) by auto
    then show "distinct (map fst ?room)" "int (length ?room) \<le> capacity"
      "map_of ?room (clientAddress remote) = None \<Longrightarrow> int (length ?room) < capacity"
      using l evict_login [OF l(1)] by auto
  qed
  have "logins_ok capacity (store_login (clientAddress remote) a ?l)" if "map_of ?l (clientAddress remote) \<noteq> None" for a
    using l that by (intro store_ok) auto
  moreover have "logins_ok capacity (delete_login (clientAddress remote) ?l)"
    unfolding delete_login_def using l by (intro login_filter_ok) (simp add: logins_ok_def)
  ultimately show ?thesis using room by (auto simp: AuthorizeLogin_def Let_def split: option.split)
qed

subsection \<open>Sequences of logins\<close>

text \<open>A request is its time, remote address and whether its credentials are right.\<close>

type_synonym login_request = "time \<times> string \<times> bool"

definition authorize :: "int \<Rightarrow> login_request \<Rightarrow> logins \<Rightarrow> LoginDecision \<times> logins" where
  "authorize capacity rq l = (case rq of (now, remote, valid) \<Rightarrow> AuthorizeLogin capacity now remote valid l)"

fun authorize_all :: "int \<Rightarrow> login_request list \<Rightarrow> logins \<Rightarrow> logins" where
  "authorize_all capacity [] l = l"
| "authorize_all capacity (rq # rqs) l = authorize_all capacity rqs (snd (authorize capacity rq l))"

definition addresses :: "login_request list \<Rightarrow> string set" where
  "addresses rqs = (\<lambda>(_, remote, _). clientAddress remote) ` set rqs"

text \<open>All addresses that the table and the requests mention fit into the table: nothing is evicted.\<close>

definition fits :: "int \<Rightarrow> login_request list \<Rightarrow> logins \<Rightarrow> bool" where
  "fits capacity rqs l \<longleftrightarrow> distinct (map fst l) \<and> int (card (fst ` set l \<union> addresses rqs)) \<le> capacity"

lemma addresses_Cons: "addresses ((now, remote, valid) # rqs) = insert (clientAddress remote) (addresses rqs)"
  by (simp add: addresses_def)

lemma finite_addresses [simp]: "finite (addresses rqs)"
  by (simp add: addresses_def)

lemma purge_keys: "fst ` set (purgeLoginAttempts now l) \<subseteq> fst ` set l"
  by (auto simp: purgeLoginAttempts_def)

lemma purge_distinct: "distinct (map fst l) \<Longrightarrow> distinct (map fst (purgeLoginAttempts now l))"
  by (simp add: purgeLoginAttempts_def distinct_map_filter)

text \<open>With room for every address a new one never meets a full table.\<close>

lemma no_eviction:
  assumes "fits capacity ((now, remote, valid) # rqs) l"
    and "map_of (purgeLoginAttempts now l) (clientAddress remote) = None"
  shows "int (length (purgeLoginAttempts now l)) \<noteq> capacity"
proof -
  let ?l = "purgeLoginAttempts now l" and ?k = "clientAddress remote"
  have "?k \<notin> fst ` set ?l" using assms(2) by (simp add: map_of_eq_None_iff)
  then have "card (insert ?k (fst ` set ?l)) = Suc (length ?l)"
    using distinct_card [OF purge_distinct, of l now] assms(1) by (simp add: fits_def)
  moreover have "card (insert ?k (fst ` set ?l)) \<le> card (fst ` set l \<union> addresses ((now, remote, valid) # rqs))"
    using purge_keys [of now l] finite_addresses [of rqs] by (intro card_mono) (auto simp: addresses_Cons)
  ultimately show ?thesis using assms(1) by (simp add: fits_def)
qed

text \<open>What one request does to the entries when nothing is evicted.\<close>

definition counted :: "time \<Rightarrow> loginAttempt option \<Rightarrow> loginAttempt" where
  "counted now found =
     (let a = (case found of
            None \<Rightarrow> \<lparr>laFailures = 0, laWindowStart = now, laBannedUntil = 0, laTouchedAt = 0\<rparr>
          | Some a \<Rightarrow> if \<not> now < laWindowStart a + loginWindow
              then \<lparr>laFailures = 0, laWindowStart = now, laBannedUntil = 0, laTouchedAt = 0\<rparr> else a);
          b = a\<lparr>laFailures := laFailures a + 1, laTouchedAt := now\<rparr>
      in if loginFailureLimit \<le> laFailures b then b\<lparr>laBannedUntil := now + loginBanDuration\<rparr> else b)"

definition banned_now :: "time \<Rightarrow> loginAttempt option \<Rightarrow> bool" where
  "banned_now now found \<longleftrightarrow> (case found of Some a \<Rightarrow> now < laBannedUntil a | None \<Rightarrow> False)"

lemma authorize_fits:
  assumes "fits capacity ((now, remote, valid) # rqs) l"
  defines "m \<equiv> map_of (purgeLoginAttempts now l)" and "k \<equiv> clientAddress remote"
  shows "fst (AuthorizeLogin capacity now remote valid l) =
      (if banned_now now (m k) then LoginBanned else if valid then LoginAllowed
       else if laBannedUntil (counted now (m k)) \<noteq> 0 then LoginBanned else LoginInvalid)"
    and "map_of (snd (AuthorizeLogin capacity now remote valid l)) =
      m(k := (if banned_now now (m k) then Some ((the (m k))\<lparr>laTouchedAt := now\<rparr>)
              else if valid then None else Some (counted now (m k))))"
    and "fits capacity rqs (snd (AuthorizeLogin capacity now remote valid l))"
proof -
  let ?l = "purgeLoginAttempts now l"
  have room: "m k = None \<Longrightarrow> int (length ?l) \<noteq> capacity"
    using no_eviction [OF assms(1)] by (simp add: k_def m_def)
  have d: "distinct (map fst ?l)" using assms(1) purge_distinct by (simp add: fits_def)
  have step: "AuthorizeLogin capacity now remote valid l =
      (if banned_now now (m k) then (LoginBanned, store_login k ((the (m k))\<lparr>laTouchedAt := now\<rparr>) ?l)
       else if valid then (LoginAllowed, delete_login k ?l)
       else (if laBannedUntil (counted now (m k)) \<noteq> 0 then LoginBanned else LoginInvalid, store_login k (counted now (m k)) ?l))"
    unfolding AuthorizeLogin_def Let_def k_def [symmetric] m_def [symmetric]
    using room by (auto simp: banned_now_def counted_def Let_def time_add_def time_is_zero_def split: option.split)
  show "fst (AuthorizeLogin capacity now remote valid l) =
      (if banned_now now (m k) then LoginBanned else if valid then LoginAllowed
       else if laBannedUntil (counted now (m k)) \<noteq> 0 then LoginBanned else LoginInvalid)"
    unfolding step by simp
  show "map_of (snd (AuthorizeLogin capacity now remote valid l)) =
      m(k := (if banned_now now (m k) then Some ((the (m k))\<lparr>laTouchedAt := now\<rparr>)
              else if valid then None else Some (counted now (m k))))"
    unfolding step by (rule ext) (simp add: m_def map_of_delete)
  have dist: "distinct (map fst (store_login k a ?l))" "distinct (map fst (delete_login k ?l))" for a
    using d by (auto simp: store_login_def delete_login_def distinct_map_filter)
  have sub: "fst ` set (snd (AuthorizeLogin capacity now remote valid l)) \<subseteq> insert k (fst ` set l)"
    unfolding step using purge_keys [of now l] keys_store [of k _ ?l] by (auto simp: delete_login_def)
  have "card (fst ` set (snd (AuthorizeLogin capacity now remote valid l)) \<union> addresses rqs) \<le>
      card (fst ` set l \<union> addresses ((now, remote, valid) # rqs))"
    using sub finite_addresses [of rqs] by (intro card_mono) (auto simp: addresses_Cons k_def)
  with assms(1) dist show "fits capacity rqs (snd (AuthorizeLogin capacity now remote valid l))"
    unfolding fits_def step by auto
qed

lemma purge_map: "distinct (map fst l) \<Longrightarrow> map_of (purgeLoginAttempts now l) k =
    (case map_of l k of Some a \<Rightarrow> if spent_attempt now a then None else Some a | None \<Rightarrow> None)"
  by (simp add: map_of_purge split: option.split)

text \<open>A ban lasts: nothing that arrives before its end lifts or shortens it.\<close>

lemma ban_lasts:
  assumes "fits capacity (rqs @ others) l" "map_of l k = Some a" "laBannedUntil a = until"
    and "\<forall>(now, _, _) \<in> set rqs. now < until"
  shows "\<exists>b. map_of (authorize_all capacity rqs l) k = Some b \<and> laBannedUntil b = until
    \<and> fits capacity others (authorize_all capacity rqs l)"
  using assms
proof (induction rqs arbitrary: l a)
  case (Cons rq rqs)
  obtain now remote valid where rq: "rq = (now, remote, valid)" by (cases rq)
  have fit: "fits capacity ((now, remote, valid) # rqs @ others) l" using Cons.prems(1) rq by simp
  have "now < until" using Cons.prems(4) rq by simp
  then have purged: "map_of (purgeLoginAttempts now l) k = Some a"
    using Cons.prems fit by (simp add: purge_map fits_def spent_attempt_def)
  define l' where "l' = snd (AuthorizeLogin capacity now remote valid l)"
  have "\<exists>b. map_of l' k = Some b \<and> laBannedUntil b = until"
    unfolding l'_def authorize_fits(2) [OF fit] using purged \<open>now < until\<close> Cons.prems(3) by (auto simp: banned_now_def)
  then obtain b where "map_of l' k = Some b" "laBannedUntil b = until" by blast
  with Cons.IH [of l' b] authorize_fits(3) [OF fit] Cons.prems(4) show ?case
    by (simp add: rq authorize_def l'_def)
qed simp

text \<open>
  The failures of one address within a window: \<open>failures k rqs\<close> counts its requests.  As long as none
  of them has the right credentials, the entry counts them, and the fifth is banned.
\<close>

definition failures :: "string \<Rightarrow> login_request list \<Rightarrow> nat" where
  "failures k rqs = length (filter (\<lambda>(_, remote, _). clientAddress remote = k) rqs)"

definition tally :: "time \<Rightarrow> nat \<Rightarrow> loginAttempt option \<Rightarrow> bool" where
  "tally t0 n e \<longleftrightarrow>
     (case e of
        None \<Rightarrow> n = 0
      | Some a \<Rightarrow> 0 < n \<and> t0 \<le> laWindowStart a \<and>
          (if n < 5 then laFailures a = int n \<and> laBannedUntil a = 0
           else t0 + loginBanDuration \<le> laBannedUntil a))"

lemma tally_purge:
  assumes "tally t0 n e" "t0 \<le> now" "now < t0 + loginWindow"
  shows "(case e of Some a \<Rightarrow> if spent_attempt now a then None else Some a | None \<Rightarrow> None) = e"
  using assms by (auto simp: tally_def spent_attempt_def time_add_def split: option.splits)

lemma window_before_ban: "loginWindow < loginBanDuration"
  by (simp add: loginWindow_def loginBanDuration_def)

lemma tally_banned:
  assumes "tally t0 n e" "0 < t0" "t0 \<le> now" "now < t0 + loginWindow"
  shows "banned_now now e \<longleftrightarrow> 5 \<le> n"
  using assms window_before_ban by (auto simp: tally_def banned_now_def split: option.splits if_splits)

lemma tally_counted:
  assumes "tally t0 n e" "0 < t0" "t0 \<le> now" "now < t0 + loginWindow" "n < 5"
  shows "tally t0 (Suc n) (Some (counted now e)) \<and> (laBannedUntil (counted now e) \<noteq> 0 \<longleftrightarrow> n = 4)"
  using assms
  by (auto simp: tally_def counted_def Let_def loginFailureLimit_def loginWindow_def loginBanDuration_def
      minute_def second_def split: option.splits if_splits)

lemma tally_run:
  assumes "fits capacity (rqs @ others) l" "tally t0 n (map_of l k)" "0 < t0"
    and "\<forall>(now, _, _) \<in> set rqs. t0 \<le> now \<and> now < t0 + loginWindow"
    and "\<forall>(_, remote, valid) \<in> set rqs. clientAddress remote = k \<longrightarrow> \<not> valid"
  shows "tally t0 (n + failures k rqs) (map_of (authorize_all capacity rqs l) k)
    \<and> fits capacity others (authorize_all capacity rqs l)"
  using assms
proof (induction rqs arbitrary: l n)
  case (Cons rq rqs)
  obtain now remote valid where rq: "rq = (now, remote, valid)" by (cases rq)
  have fit: "fits capacity ((now, remote, valid) # rqs @ others) l" using Cons.prems(1) rq by simp
  have now: "t0 \<le> now" "now < t0 + loginWindow" using Cons.prems(4) rq by simp_all
  define l' where "l' = snd (AuthorizeLogin capacity now remote valid l)"
  have purged: "map_of (purgeLoginAttempts now l) k = map_of l k"
    using fit tally_purge [OF Cons.prems(2) now] by (simp add: purge_map fits_def)
  have "tally t0 (n + failures k [rq]) (map_of l' k)"
  proof (cases "clientAddress remote = k")
    case False
    then show ?thesis unfolding l'_def authorize_fits(2) [OF fit]
      using Cons.prems(2) purged by (simp add: rq failures_def)
  next
    case True
    then have "\<not> valid" using Cons.prems(5) rq by simp
    have "tally t0 (Suc n) (map_of l' k)"
    proof (cases "5 \<le> n")
      case True
      with tally_banned [OF Cons.prems(2,3) now] Cons.prems(2) purged \<open>clientAddress remote = k\<close> show ?thesis
        unfolding l'_def authorize_fits(2) [OF fit] by (auto simp: tally_def banned_now_def split: option.splits)
    next
      case False
      with tally_banned [OF Cons.prems(2,3) now] tally_counted [OF Cons.prems(2,3) now] purged
        \<open>clientAddress remote = k\<close> \<open>\<not> valid\<close> show ?thesis
        unfolding l'_def authorize_fits(2) [OF fit] by simp
    qed
    with True show ?thesis by (simp add: rq failures_def)
  qed
  with Cons.IH [of l' "n + failures k [rq]"] Cons.prems authorize_fits(3) [OF fit]
  show ?case by (simp add: rq authorize_def l'_def failures_def add.assoc split: if_splits)
qed (simp add: failures_def)

lemma fifth_failure:
  assumes "fits capacity (rqs @ [(now, remote, valid)]) l" "map_of l (clientAddress remote) = None" "0 < t0"
    and "\<forall>(t, _, _) \<in> set (rqs @ [(now, remote, valid)]). t0 \<le> t \<and> t < t0 + loginWindow"
    and "\<forall>(_, r, v) \<in> set rqs. clientAddress r = clientAddress remote \<longrightarrow> \<not> v"
  shows "fst (AuthorizeLogin capacity now remote valid (authorize_all capacity rqs l)) =
    (if 5 \<le> failures (clientAddress remote) rqs then LoginBanned
     else if valid then LoginAllowed
     else if failures (clientAddress remote) rqs = 4 then LoginBanned else LoginInvalid)"
proof -
  let ?k = "clientAddress remote" and ?l = "authorize_all capacity rqs l"
  have now: "t0 \<le> now" "now < t0 + loginWindow" using assms(4) by simp_all
  have "tally t0 0 (map_of l ?k)" using assms(2) by (simp add: tally_def)
  from tally_run [OF assms(1) this assms(3) _ assms(5)] assms(4)
  have t: "tally t0 (failures ?k rqs) (map_of ?l ?k)" "fits capacity [(now, remote, valid)] ?l" by auto
  have purged: "map_of (purgeLoginAttempts now ?l) ?k = map_of ?l ?k"
    using t(2) tally_purge [OF t(1) now] by (simp add: purge_map fits_def)
  show ?thesis
    unfolding authorize_fits(1) [OF t(2)] purged
    using tally_banned [OF t(1) assms(3) now] tally_counted [OF t(1) assms(3) now] by auto
qed

end
