(* ===== verification/Credentials.thy ===== *)
theory Credentials
  imports Secrets
begin

section \<open>The operator password (internal/creds, internal/store/operator)\<close>

text \<open>
  PBKDF2-SHA256 hash records, their textual form, and the verification of the fixed operator account
  against the stored record.  \<open>strconv.Atoi\<close> and \<open>crypto/pbkdf2\<close> are modelled as the standard library
  documents them; random salts are arguments.
\<close>

subsection \<open>strconv.Atoi\<close>

fun digits_value :: "nat \<Rightarrow> string \<Rightarrow> nat option" where
  "digits_value acc [] = Some acc"
| "digits_value acc (c # cs) =
     (if 48 \<le> byte c \<and> byte c \<le> 57 then digits_value (acc * 10 + (byte c - 48)) cs else None)"

definition Atoi :: "string \<Rightarrow> int option" where
  "Atoi s =
     (let neg = (case s of [] \<Rightarrow> False | c # _ \<Rightarrow> c = CHR ''-'');
          body = (case s of [] \<Rightarrow> [] | c # cs \<Rightarrow> if c = CHR ''-'' \<or> c = CHR ''+'' then cs else s)
      in if body = [] then None
         else case digits_value 0 body of
             None \<Rightarrow> None
           | Some n \<Rightarrow>
               (let i = (if neg then - int n else int n)
                in if min_int64 \<le> i \<and> i \<le> max_int64 then Some i else None))"

lemma digits_value_snoc:
  "digits_value acc (s @ [c]) =
     (case digits_value acc s of None \<Rightarrow> None
      | Some n \<Rightarrow> if 48 \<le> byte c \<and> byte c \<le> 57 then Some (n * 10 + (byte c - 48)) else None)"
  by (induction s arbitrary: acc) auto

lemma byte_digit [simp]: "d < 10 \<Longrightarrow> byte (char_of (48 + d) :: char) = 48 + d"
  by simp

lemma format_nat_value: "digits_value 0 (format_nat n) = Some n"
proof (induction n rule: format_nat.induct)
  case (1 n)
  show ?case
  proof (cases "n < 10")
    case True
    then show ?thesis by (subst format_nat.simps) simp
  next
    case False
    with 1 have "digits_value 0 (format_nat (n div 10)) = Some (n div 10)" by simp
    with False show ?thesis by (subst format_nat.simps) (simp add: digits_value_snoc)
  qed
qed

lemma format_nat_digits: "c \<in> set (format_nat n) \<Longrightarrow> 48 \<le> byte c \<and> byte c \<le> 57"
proof (induction n rule: format_nat.induct)
  case (1 n)
  then show ?case by (cases "n < 10") (auto simp: format_nat.simps [of n])
qed

lemma format_nat_nonempty [simp]: "format_nat n \<noteq> []"
  by (subst format_nat.simps) simp

lemma Atoi_format:
  assumes "0 \<le> i" "i \<le> max_int64"
  shows "Atoi (format_int i) = Some i"
proof -
  obtain c cs where c: "format_nat (nat i) = c # cs" by (cases "format_nat (nat i)") auto
  then have "48 \<le> byte c" using format_nat_digits [of c "nat i"] by simp
  then have "c \<noteq> CHR ''-''" "c \<noteq> CHR ''+''" by auto
  with c format_nat_value [of "nat i"] assms show ?thesis
    by (simp add: Atoi_def format_int_def Let_def min_int64_def)
qed

subsection \<open>PBKDF2 with HMAC-SHA256\<close>

definition xor_strings :: "string \<Rightarrow> string \<Rightarrow> string" where
  "xor_strings s t = map2 (\<lambda>a b. char_of (of_char a XOR of_char b :: int)) s t"

text \<open>The remaining iterations of one block: \<open>u\<close> is the last U, \<open>t\<close> the exclusive or so far.\<close>

fun pbkdf2_iterate :: "nat \<Rightarrow> string \<Rightarrow> string \<Rightarrow> string \<Rightarrow> string" where
  "pbkdf2_iterate 0 password u t = t"
| "pbkdf2_iterate (Suc n) password u t =
     (let u' = hmac_sha256 password u in pbkdf2_iterate n password u' (xor_strings t u'))"

definition pbkdf2_block :: "string \<Rightarrow> string \<Rightarrow> int \<Rightarrow> nat \<Rightarrow> string" where
  "pbkdf2_block password salt iterations i =
     (let u = hmac_sha256 password (salt @ map char_of (be_bytes 4 (int i)))
      in pbkdf2_iterate (nat (iterations - 1)) password u u)"

text \<open>\<open>pbkdf2.Key\<close>: \<open>None\<close> is an error (the length must be positive and within \<open>2\<^sup>3\<^sup>2 - 1\<close> blocks).\<close>

definition pbkdf2_key :: "string \<Rightarrow> string \<Rightarrow> int \<Rightarrow> nat \<Rightarrow> string option" where
  "pbkdf2_key password salt iterations keyLength =
     (let numBlocks = (keyLength + 31) div 32
      in if keyLength = 0 \<or> 2 ^ 32 - 1 < int numBlocks then None
         else Some (take keyLength (concat (map (\<lambda>i. pbkdf2_block password salt iterations (i + 1)) [0..<numBlocks]))))"

subsection \<open>Hash records\<close>

definition Username :: string where "Username = ''admin''"
definition hashIterations :: int where "hashIterations = 600000"
definition hashKeyLength :: nat where "hashKeyLength = 32"
definition hashSaltLength :: nat where "hashSaltLength = 16"
definition hashScheme :: string where "hashScheme = ''pbkdf2-sha256''"

definition HashPassword :: "string option \<Rightarrow> string \<Rightarrow> string + string" where
  "HashPassword random password =
     (case random of
        None \<Rightarrow> Inl ''generate password salt''
      | Some salt \<Rightarrow>
          (case pbkdf2_key password salt hashIterations hashKeyLength of
             None \<Rightarrow> Inl ''derive password hash''
           | Some key \<Rightarrow> Inr (join_with ''$''
               [hashScheme, format_int hashIterations, b64_encode StdAlphabet salt, b64_encode StdAlphabet key])))"

definition verifyHash :: "string \<Rightarrow> string \<Rightarrow> string + bool" where
  "verifyHash encoded password =
     (let parts = split_on CHR ''$'' encoded
      in if length parts \<noteq> 4 \<or> parts ! 0 \<noteq> hashScheme then Inl ''unsupported password hash format''
         else case Atoi (parts ! 1) of
             None \<Rightarrow> Inl ''invalid password hash iteration count''
           | Some iterations \<Rightarrow>
               (if iterations < 1 then Inl ''invalid password hash iteration count''
                else case b64_decode StdAlphabet (parts ! 2) of
                    None \<Rightarrow> Inl ''invalid password hash salt''
                  | Some salt \<Rightarrow>
                      (case b64_decode StdAlphabet (parts ! 3) of
                         None \<Rightarrow> Inl ''invalid password hash key''
                       | Some expected \<Rightarrow>
                           (case pbkdf2_key password salt iterations (length expected) of
                              None \<Rightarrow> Inl ''derive password hash''
                            | Some key \<Rightarrow> Inr (key = expected)))))"

subsection \<open>The stored password and the manager\<close>

record operator_row =
  op_password_hash :: string
  op_updated_at :: time

definition GetOperatorPasswordHash :: "faults \<Rightarrow> operator_row option \<Rightarrow> string + string" where
  "GetOperatorPasswordHash flt table =
     (if flt ''get operator password'' then Inl ''get operator password''
      else case table of None \<Rightarrow> Inr [] | Some row \<Rightarrow> Inr (op_password_hash row))"

definition SetOperatorPasswordHash :: "faults \<Rightarrow> string \<Rightarrow> time \<Rightarrow> operator_row option \<Rightarrow>
    (string + unit) \<times> operator_row option" where
  "SetOperatorPasswordHash flt hash now table =
     (if hash = [] then (Inl ''operator password hash is empty'', table)
      else if flt ''set operator password'' then (Inl ''set operator password'', table)
      else (Inr (), Some \<lparr>op_password_hash = hash, op_updated_at = now\<rparr>))"

definition VerifyCredentials :: "faults \<Rightarrow> string \<Rightarrow> string \<Rightarrow> operator_row option \<Rightarrow> string + bool" where
  "VerifyCredentials flt username password table =
     (let usernameMatch = (sha256 username = sha256 Username)
      in and_then (GetOperatorPasswordHash flt table) (\<lambda>encoded.
         and_then (if encoded \<noteq> [] then verifyHash encoded password else Inr False) (\<lambda>passwordMatch.
         Inr (usernameMatch \<and> passwordMatch))))"

definition ErrCurrentPasswordMismatch :: string where
  "ErrCurrentPasswordMismatch = ''current password does not match''"

definition ChangePassword :: "faults \<Rightarrow> string option \<Rightarrow> string \<Rightarrow> string \<Rightarrow> time \<Rightarrow> operator_row option \<Rightarrow>
    (string + unit) \<times> operator_row option" where
  "ChangePassword flt random current new now table =
     (case VerifyCredentials flt Username current table of
        Inl e \<Rightarrow> (Inl e, table)
      | Inr False \<Rightarrow> (Inl ErrCurrentPasswordMismatch, table)
      | Inr True \<Rightarrow>
          (case HashPassword random new of
             Inl e \<Rightarrow> (Inl e, table)
           | Inr encoded \<Rightarrow> SetOperatorPasswordHash flt encoded now table))"

subsection \<open>Lengths and the textual form\<close>

lemma xor_strings_length [simp]: "length (xor_strings s t) = min (length s) (length t)"
  by (simp add: xor_strings_def)

lemma hmac_length [simp]: "length (hmac_sha256 k m) = 32"
  by (simp add: hmac_sha256_def Let_def)

lemma pbkdf2_iterate_length:
  "length u = 32 \<Longrightarrow> length t = 32 \<Longrightarrow> length (pbkdf2_iterate n password u t) = 32"
  by (induction n arbitrary: u t) (simp_all add: Let_def)

lemma pbkdf2_key_length:
  "pbkdf2_key password salt iterations n = Some key \<Longrightarrow> length key = n"
proof -
  have "length (concat (map (\<lambda>i. pbkdf2_block password salt iterations (i + 1)) [0..<m])) = 32 * m" for m
    by (induction m) (simp_all add: pbkdf2_block_def Let_def pbkdf2_iterate_length)
  moreover have "n \<le> 32 * ((n + 31) div 32)" by presburger
  ultimately show "pbkdf2_key password salt iterations n = Some key \<Longrightarrow> length key = n"
    by (auto simp: pbkdf2_key_def Let_def split: if_splits)
qed

lemma std_char_not_dollar: "CHR ''$'' \<notin> set (b64_encode StdAlphabet s)"
proof
  assume "CHR ''$'' \<in> set (b64_encode StdAlphabet s)"
  then obtain n where "b64_char StdAlphabet n = CHR ''$''" by (auto simp: b64_encode_def)
  then have "byte (b64_char StdAlphabet n) = 36" by simp
  then show False by (auto simp: b64_char_byte b64_code_def split: if_splits)
qed

lemma digits_not_dollar: "CHR ''$'' \<notin> set (format_int hashIterations)"
  using format_nat_digits [of "CHR ''$''"] by (auto simp: format_int_def hashIterations_def)

lemma record_parts:
  "split_on CHR ''$'' (join_with ''$''
     [hashScheme, format_int hashIterations, b64_encode StdAlphabet a, b64_encode StdAlphabet b]) =
   [hashScheme, format_int hashIterations, b64_encode StdAlphabet a, b64_encode StdAlphabet b]"
proof -
  have s: "CHR ''$'' \<notin> set hashScheme" by (simp add: hashScheme_def)
  show ?thesis
    using split_on_no_sep [OF s] split_on_no_sep [OF digits_not_dollar]
      split_on_no_sep [OF std_char_not_dollar [of a]] split_on_no_sep [OF std_char_not_dollar [of b]]
    by (simp add: split_on_append)
qed

text \<open>A record accepts exactly the passwords with the same derived key as the one it was made from.\<close>

lemma verify_hashed:
  assumes "HashPassword (Some salt) password = Inr encoded"
  shows "verifyHash encoded attempt =
    Inr (pbkdf2_key attempt salt hashIterations hashKeyLength = pbkdf2_key password salt hashIterations hashKeyLength)"
proof -
  from assms obtain key where key: "pbkdf2_key password salt hashIterations hashKeyLength = Some key"
    and e: "encoded = join_with ''$''
      [hashScheme, format_int hashIterations, b64_encode StdAlphabet salt, b64_encode StdAlphabet key]"
    by (auto simp: HashPassword_def split: option.splits)
  have "length key = hashKeyLength" using pbkdf2_key_length [OF key] .
  moreover have "Atoi (format_int hashIterations) = Some hashIterations"
    by (rule Atoi_format) (simp_all add: hashIterations_def max_int64_def)
  moreover obtain k where "pbkdf2_key attempt salt hashIterations hashKeyLength = Some k"
    by (simp add: pbkdf2_key_def hashKeyLength_def Let_def)
  ultimately show ?thesis
    using key unfolding verifyHash_def e record_parts
    by (auto simp: Let_def b64_round_trip hashIterations_def)
qed

lemma HashPassword_defined: "\<exists>encoded. HashPassword (Some salt) password = Inr encoded \<and> encoded \<noteq> []"
  by (simp add: HashPassword_def pbkdf2_key_def hashKeyLength_def hashScheme_def Let_def)

text \<open>After a change the new password is accepted, and any other only if it derives the same key.\<close>

lemma change_password:
  assumes "ChangePassword flt (Some salt) current new now table = (Inr (), table')"
  shows "VerifyCredentials (\<lambda>_. False) username attempt table' =
    Inr (sha256 username = sha256 Username \<and>
      pbkdf2_key attempt salt hashIterations hashKeyLength = pbkdf2_key new salt hashIterations hashKeyLength)"
proof -
  from assms obtain encoded where h: "HashPassword (Some salt) new = Inr encoded" "encoded \<noteq> []"
    "table' = Some \<lparr>op_password_hash = encoded, op_updated_at = now\<rparr>"
    using HashPassword_defined [of salt new]
    by (auto simp: ChangePassword_def SetOperatorPasswordHash_def split: sum.splits bool.splits if_splits)
  then show ?thesis
    using verify_hashed [OF h(1)] by (simp add: VerifyCredentials_def GetOperatorPasswordHash_def)
qed

end
