(* ===== verification/Authentication.thy ===== *)
theory Authentication
  imports Session_Facts Login_Policy Credentials Outbox
begin

section \<open>Authentication of requests (internal/authn, internal/httpapi/auth, internal/nativeapi/auth)\<close>

text \<open>
  The two authentication middlewares and the login form, over the stores of the previous theories.
  A request is what they read of it.  \<open>net/url\<close> parsing, \<open>strings.EqualFold\<close> and form parsing are
  functions of the record \<open>Front\<close>; the attempt names that only go to the log are left out.
\<close>

subsection \<open>Principals and requests\<close>

datatype PrincipalKind = OperatorPrincipal | QBTClientPrincipal | NativeClientPrincipal
datatype Method = BasicMethod | SessionMethod | QBTKeyMethod | NativeTokenMethod

record Principal =
  pKind :: PrincipalKind
  pMethod :: Method

record HttpRequest =
  hqMethod :: string
  hqAuthorization :: "string list"
  hqOrigin :: "string list"
  hqTLS :: bool
  hqHost :: string
  hqRemoteAddr :: string
  hqSID :: "string option"

record OriginURL =
  ouScheme :: string
  ouHost :: string
  ouHasUser :: bool
  ouPath :: string
  ouRawQuery :: string
  ouFragment :: string

record Front =
  frParse :: "string \<Rightarrow> OriginURL option"
  frEqualFold :: "string \<Rightarrow> string \<Rightarrow> bool"

text \<open>The stores that the handlers share, and the clock readings of one request.\<close>

record AuthState =
  asOperator :: "operator_row option"
  asQBTKey :: "qbt_key_row option"
  asAPIToken :: "api_token_row option"
  asSessions :: "session_row list"
  asLogins :: logins

datatype outcome = Forbidden | Unauthorized | InternalError | Served Principal "(string \<times> time) option"

subsection \<open>The native API\<close>

definition contains_any :: "string \<Rightarrow> string \<Rightarrow> bool" where
  "contains_any s cs \<longleftrightarrow> list_ex (\<lambda>c. c \<in> set cs) s"

definition bearerToken :: "string list \<Rightarrow> string option" where
  "bearerToken values =
     (case values of
        [v] \<Rightarrow>
          (let value = trim_space v
           in if \<not> has_prefix value ''Bearer '' then None
              else let secret = trim_prefix value ''Bearer ''
                   in if secret = [] \<or> contains_any secret [CHR '' '', CHR 0x09] then None else Some secret)
      | _ \<Rightarrow> None)"

definition NativeMiddleware :: "faults \<Rightarrow> HttpRequest \<Rightarrow> api_token_row option \<Rightarrow> outcome" where
  "NativeMiddleware flt r table =
     (case bearerToken (hqAuthorization r) of
        None \<Rightarrow> Unauthorized
      | Some secret \<Rightarrow>
          (case GetAPIToken flt table of
             Inl KeyNotFound \<Rightarrow> Unauthorized
           | Inl _ \<Rightarrow> InternalError
           | Inr info \<Rightarrow>
               if \<not> Verify token_Prefix secret (keyDigest info) then Unauthorized
               else Served \<lparr>pKind = NativeClientPrincipal, pMethod = NativeTokenMethod\<rparr> None))"

subsection \<open>The qBittorrent API\<close>

text \<open>Scheme and credentials separated by exactly one space.\<close>

definition authValue :: "string \<Rightarrow> (string \<times> string) option" where
  "authValue value =
     (if trim_space value \<noteq> value then None
      else case first_index CHR '' '' value of
          None \<Rightarrow> None
        | Some space \<Rightarrow>
            if space = 0 \<or> space = length value - 1 \<or> CHR '' '' \<in> set (drop (space + 1) value)
              \<or> contains_any value [CHR 0x09, CHR 0x0D, CHR 0x0A] then None
            else Some (take space value, drop (space + 1) value))"

text \<open>
  \<open>base64.StdEncoding.DecodeString\<close>: line breaks are skipped, the padding completes the last group
  of four and nothing follows it.
\<close>

definition b64_decode_padded :: "alphabet \<Rightarrow> string \<Rightarrow> string option" where
  "b64_decode_padded a s =
     (let text = filter (\<lambda>c. c \<noteq> CHR 0x0A \<and> c \<noteq> CHR 0x0D) s;
          body = takeWhile (\<lambda>c. c \<noteq> CHR ''='') text;
          pad = dropWhile (\<lambda>c. c \<noteq> CHR ''='') text
      in if (length body mod 4 = 0 \<and> pad = []) \<or> (length body mod 4 = 2 \<and> pad = ''=='')
            \<or> (length body mod 4 = 3 \<and> pad = ''='')
         then b64_decode a body else None)"

definition basicCredentials :: "string \<Rightarrow> (string \<times> string) option" where
  "basicCredentials value =
     (case b64_decode_padded StdAlphabet value of
        None \<Rightarrow> None
      | Some decoded \<Rightarrow>
          if contains_any decoded [CHR 0x00, CHR 0x0D, CHR 0x0A] then None
          else case first_index CHR '':'' decoded of
              None \<Rightarrow> None
            | Some i \<Rightarrow> if i = 0 then None else Some (take i decoded, drop (i + 1) decoded))"

definition browserOriginAllowed :: "Front \<Rightarrow> HttpRequest \<Rightarrow> bool" where
  "browserOriginAllowed fr r =
     (if hqMethod r \<in> {''GET'', ''HEAD'', ''OPTIONS''} then True
      else case hqOrigin r of
          [] \<Rightarrow> True
        | [origin] \<Rightarrow>
            (case frParse fr (trim_space origin) of
               None \<Rightarrow> False
             | Some u \<Rightarrow>
                 if ouScheme u = [] \<or> ouHost u = [] \<or> ouHasUser u \<or> ouPath u \<noteq> [] \<or> ouRawQuery u \<noteq> []
                    \<or> ouFragment u \<noteq> [] then False
                 else frEqualFold fr (ouScheme u) (if hqTLS r then ''https'' else ''http'')
                      \<and> frEqualFold fr (ouHost u) (hqHost r))
        | _ \<Rightarrow> False)"

text \<open>The three ways in: password, key, session cookie.\<close>

definition basic_boundary :: "faults \<Rightarrow> Front \<Rightarrow> SessionConfig \<Rightarrow> time \<Rightarrow> HttpRequest \<Rightarrow> string \<Rightarrow> AuthState \<Rightarrow>
    outcome \<times> AuthState" where
  "basic_boundary flt fr c now r value s =
     (case basicCredentials value of
        None \<Rightarrow>
          (Forbidden, s\<lparr>asLogins := snd (AuthorizeLogin (scCapacity c) now (hqRemoteAddr r) False (asLogins s))\<rparr>)
      | Some (username, password) \<Rightarrow>
          (case VerifyCredentials flt username password (asOperator s) of
             Inl _ \<Rightarrow> (InternalError, s)
           | Inr valid \<Rightarrow>
               (case AuthorizeLogin (scCapacity c) now (hqRemoteAddr r) valid (asLogins s) of
                  (decision, l) \<Rightarrow>
                    if decision = LoginBanned then (Forbidden, s\<lparr>asLogins := l\<rparr>)
                    else if decision = LoginInvalid then (Forbidden, s\<lparr>asLogins := l\<rparr>)
                    else if \<not> valid \<or> \<not> browserOriginAllowed fr r then (Forbidden, s\<lparr>asLogins := l\<rparr>)
                    else (Served \<lparr>pKind = OperatorPrincipal, pMethod = BasicMethod\<rparr> None, s\<lparr>asLogins := l\<rparr>))))"

definition bearer_boundary :: "faults \<Rightarrow> Front \<Rightarrow> HttpRequest \<Rightarrow> string \<Rightarrow> AuthState \<Rightarrow> outcome" where
  "bearer_boundary flt fr r secret s =
     (if \<not> Valid qbtkey_Prefix secret then Forbidden
      else case GetQBTAPIKey flt (asQBTKey s) of
          Inl KeyNotFound \<Rightarrow> Forbidden
        | Inl _ \<Rightarrow> InternalError
        | Inr key \<Rightarrow>
            if \<not> Verify qbtkey_Prefix secret (keyDigest key) \<or> \<not> browserOriginAllowed fr r then Forbidden
            else Served \<lparr>pKind = QBTClientPrincipal, pMethod = QBTKeyMethod\<rparr> None)"

definition session_boundary :: "faults \<Rightarrow> Front \<Rightarrow> SessionConfig \<Rightarrow> (nat \<Rightarrow> session_row list \<Rightarrow> session_row list) \<Rightarrow>
    time \<Rightarrow> HttpRequest \<Rightarrow> AuthState \<Rightarrow> outcome \<times> AuthState" where
  "session_boundary flt fr c others now r s =
     (case hqSID r of
        None \<Rightarrow> (Forbidden, s)
      | Some sid \<Rightarrow>
          if sid = [] then (Forbidden, s)
          else case GetSID flt c others sid AudienceQBT now (asSessions s) of
              (SessionError _, rows) \<Rightarrow> (InternalError, s\<lparr>asSessions := rows\<rparr>)
            | (SessionNotFound, rows) \<Rightarrow> (Forbidden, s\<lparr>asSessions := rows\<rparr>)
            | (SessionFound current renewed, rows) \<Rightarrow>
                if \<not> browserOriginAllowed fr r then (Forbidden, s\<lparr>asSessions := rows\<rparr>)
                else (Served \<lparr>pKind = QBTClientPrincipal, pMethod = SessionMethod\<rparr>
                        (if renewed then Some (sid, snExpiresAt current) else None), s\<lparr>asSessions := rows\<rparr>))"

definition authBoundary :: "faults \<Rightarrow> Front \<Rightarrow> SessionConfig \<Rightarrow> (nat \<Rightarrow> session_row list \<Rightarrow> session_row list) \<Rightarrow>
    time \<Rightarrow> HttpRequest \<Rightarrow> AuthState \<Rightarrow> outcome \<times> AuthState" where
  "authBoundary flt fr c others now r s =
     (case hqAuthorization r of
        [] \<Rightarrow> session_boundary flt fr c others now r s
      | [v] \<Rightarrow>
          (case authValue v of
             None \<Rightarrow> (Forbidden, s)
           | Some (scheme, value) \<Rightarrow>
               if to_lower scheme = ''basic'' then basic_boundary flt fr c now r value s
               else if to_lower scheme = ''bearer'' then (bearer_boundary flt fr r value s, s)
               else (Forbidden, s))
      | _ \<Rightarrow> (Forbidden, s))"

subsection \<open>The login form\<close>

datatype login_reply = LoginBadRequest | LoginInternalError | LoginFails nat | LoginOk string time

definition exactlyOne :: "string list \<Rightarrow> string option" where
  "exactlyOne values = (case values of [v] \<Rightarrow> Some v | _ \<Rightarrow> None)"

text \<open>The form is \<open>None\<close> when it was refused; \<open>rs\<close> is the random source of the session store.\<close>

definition login :: "faults \<Rightarrow> SessionConfig \<Rightarrow> time \<Rightarrow> string option list \<Rightarrow> HttpRequest \<Rightarrow>
    (string \<Rightarrow> string list) option \<Rightarrow> AuthState \<Rightarrow> login_reply \<times> AuthState" where
  "login flt c now rs r form s =
     (case form of
        None \<Rightarrow> (LoginBadRequest, s)
      | Some f \<Rightarrow>
          (case (case (exactlyOne (f ''username''), exactlyOne (f ''password'')) of
                   (Some u, Some p) \<Rightarrow> VerifyCredentials flt u p (asOperator s)
                 | _ \<Rightarrow> Inr False) of
             Inl _ \<Rightarrow> (LoginInternalError, s)
           | Inr credentialsValid \<Rightarrow>
               (case AuthorizeLogin (scCapacity c) now (hqRemoteAddr r) credentialsValid (asLogins s) of
                  (LoginBanned, l) \<Rightarrow> (LoginFails 403, s\<lparr>asLogins := l\<rparr>)
                | (LoginInvalid, l) \<Rightarrow> (LoginFails 200, s\<lparr>asLogins := l\<rparr>)
                | (LoginAllowed, l) \<Rightarrow>
                    (case CreateSID flt c AudienceQBT now rs (asSessions s) of
                       (Inl _, rows) \<Rightarrow> (LoginInternalError, s\<lparr>asLogins := l, asSessions := rows\<rparr>)
                     | (Inr (sid, current), rows) \<Rightarrow>
                         (LoginOk sid (snExpiresAt current), s\<lparr>asLogins := l, asSessions := rows\<rparr>)))))"

datatype logout_reply = LogoutBadRequest | LogoutInternalError | LogoutDone

definition logout :: "faults \<Rightarrow> bool \<Rightarrow> HttpRequest \<Rightarrow> AuthState \<Rightarrow> logout_reply \<times> AuthState" where
  "logout flt form_ok r s =
     (if \<not> form_ok then (LogoutBadRequest, s)
      else case hqSID r of
          None \<Rightarrow> (LogoutDone, s)
        | Some sid \<Rightarrow>
            (case RevokeSID flt sid AudienceQBT (asSessions s) of
               (Inl _, rows) \<Rightarrow> (LogoutInternalError, s\<lparr>asSessions := rows\<rparr>)
             | (Inr _, rows) \<Rightarrow> (LogoutDone, s\<lparr>asSessions := rows\<rparr>)))"

subsection \<open>The native API serves the token in force\<close>

lemma b64_char_not_space: "b64_value a c \<noteq> None \<Longrightarrow> byte c < 128 \<and> \<not> is_space (byte c) \<and> c \<noteq> CHR '' '' \<and> c \<noteq> CHR 0x09"
proof -
  assume "b64_value a c \<noteq> None"
  then have "33 \<le> byte c \<and> byte c < 128" by (cases a) (auto simp: b64_value_def Let_def split: if_splits)
  then show ?thesis by (auto simp: is_space_def)
qed

lemma bearer_of_secret:
  assumes "Valid token_Prefix y"
  shows "bearerToken [''Bearer '' @ y] = Some y"
proof -
  from Valid_chars [OF assms] obtain body where y: "y = token_Prefix @ body" "length body = 43"
    and body: "\<forall>c \<in> set body. b64_value URLAlphabet c \<noteq> None" by (auto simp: list_all_iff)
  from y(2) have ne: "body \<noteq> []" by auto
  with y have "last (''Bearer '' @ y) = last body" by simp
  moreover have "byte (last body) < 128 \<and> \<not> is_space (byte (last body))"
    using b64_char_not_space body last_in_set [OF ne] by blast
  ultimately have "trim_space (''Bearer '' @ y) = ''Bearer '' @ y"
    by (intro trim_ascii) (simp_all add: is_space_def)
  moreover have "\<forall>c \<in> set body. c \<noteq> CHR '' '' \<and> c \<noteq> CHR 0x09"
    using b64_char_not_space body by blast
  then have "\<not> contains_any y [CHR '' '', CHR 0x09]"
    by (auto simp: y(1) contains_any_def token_Prefix_def list_ex_iff)
  ultimately show ?thesis
    using y ne by (simp add: bearerToken_def has_prefix_def trim_prefix_def Let_def)
qed

lemma native_served:
  assumes "key_history GenerateAPIToken RevokeAPIToken None evs table" "NativeMiddleware flt r table = Served p cookie"
  shows "\<exists>x y. bearerToken (hqAuthorization r) = Some x \<and> in_force evs = Some y \<and> Hash x = Hash y \<and> Valid token_Prefix x
    \<and> pKind p = NativeClientPrincipal"
proof -
  from assms(2) obtain x info where x: "bearerToken (hqAuthorization r) = Some x" "GetAPIToken flt table = Inr info"
    "Verify token_Prefix x (keyDigest info)" "pKind p = NativeClientPrincipal"
    by (auto simp: NativeMiddleware_def split: option.splits sum.splits key_err.splits if_splits)
  from api_tokens.accepted_in_force [OF assms(1) _ _ x(2,3)] x show ?thesis
    by (auto simp: api_wf_def api_digest_def Verify_def split: if_splits)
qed

lemma native_accepts:
  assumes "key_history GenerateAPIToken RevokeAPIToken None evs table" "in_force evs = Some y"
    and "hqAuthorization r = [''Bearer '' @ y]"
  shows "\<exists>p. NativeMiddleware (\<lambda>_. False) r table = Served p None"
proof -
  have init: "api_wf None" "api_digest None = None" by (simp_all add: api_wf_def api_digest_def)
  from api_tokens.in_force_accepted [OF assms(1) init assms(2)] obtain k where
    k: "GetAPIToken (\<lambda>_. False) table = Inr k" "Verify token_Prefix y (keyDigest k)" by blast
  then have "bearerToken (hqAuthorization r) = Some y"
    unfolding assms(3) by (intro bearer_of_secret) (simp add: Verify_def split: if_splits)
  with k show ?thesis by (simp add: NativeMiddleware_def)
qed

lemma native_refuses:
  assumes "key_history GenerateAPIToken RevokeAPIToken None evs table" "in_force evs = None"
  shows "NativeMiddleware (\<lambda>_. False) r table = Unauthorized"
proof -
  have "GetAPIToken (\<lambda>_. False) table = Inl KeyNotFound"
    by (rule api_tokens.none_in_force [OF assms(1) _ _ assms(2)]) (simp_all add: api_wf_def api_digest_def)
  then show ?thesis by (simp add: NativeMiddleware_def split: option.split)
qed

subsection \<open>The qBittorrent boundary serves the authenticated\<close>

text \<open>What each way in has checked when it lets a request through.\<close>

text \<open>Scheme, in lower case, and credentials of the one \<open>Authorization\<close> header of a request.\<close>

definition presented :: "HttpRequest \<Rightarrow> (string \<times> string) option" where
  "presented r =
     (case hqAuthorization r of
        [v] \<Rightarrow> map_option (\<lambda>(scheme, credentials). (to_lower scheme, credentials)) (authValue v)
      | _ \<Rightarrow> None)"

definition password_checked :: "faults \<Rightarrow> SessionConfig \<Rightarrow> time \<Rightarrow> HttpRequest \<Rightarrow> AuthState \<Rightarrow> bool" where
  "password_checked flt c now r s \<longleftrightarrow>
     (\<exists>credentials u p. presented r = Some (''basic'', credentials) \<and> basicCredentials credentials = Some (u, p) \<and>
        VerifyCredentials flt u p (asOperator s) = Inr True) \<and>
     fst (AuthorizeLogin (scCapacity c) now (hqRemoteAddr r) True (asLogins s)) = LoginAllowed"

definition key_checked :: "faults \<Rightarrow> HttpRequest \<Rightarrow> AuthState \<Rightarrow> bool" where
  "key_checked flt r s \<longleftrightarrow>
     (\<exists>secret k. presented r = Some (''bearer'', secret) \<and> GetQBTAPIKey flt (asQBTKey s) = Inr k
        \<and> Verify qbtkey_Prefix secret (keyDigest k))"

definition session_checked :: "time \<Rightarrow> HttpRequest \<Rightarrow> AuthState \<Rightarrow> bool" where
  "session_checked now r s \<longleftrightarrow>
     (\<exists>sid. hqSID r = Some sid \<and> validSID sid \<and>
        (\<exists>row \<in> set (asSessions s). ss_digest row = hashSID sid \<and> ss_audience row = AudienceQBT \<and> now < ss_expires_at row))"

lemma basic_served:
  assumes "basic_boundary flt fr c now r credentials s = (Served p cookie, s')" "presented r = Some (''basic'', credentials)"
  shows "pMethod p = BasicMethod \<and> browserOriginAllowed fr r \<and> password_checked flt c now r s"
proof -
  from assms(1) obtain u pw valid l where
    v: "basicCredentials credentials = Some (u, pw)" "VerifyCredentials flt u pw (asOperator s) = Inr valid" "valid"
      "browserOriginAllowed fr r" "pMethod p = BasicMethod"
      "AuthorizeLogin (scCapacity c) now (hqRemoteAddr r) valid (asLogins s) = (LoginAllowed, l)"
    unfolding basic_boundary_def
    by (auto split: option.splits prod.splits sum.splits if_splits) (metis LoginDecision.exhaust)
  with assms(2) show ?thesis by (auto simp: password_checked_def)
qed

lemma bearer_served:
  assumes "bearer_boundary flt fr r secret s = Served p cookie" "presented r = Some (''bearer'', secret)"
  shows "pMethod p = QBTKeyMethod \<and> browserOriginAllowed fr r \<and> key_checked flt r s"
  using assms by (auto simp: bearer_boundary_def key_checked_def split: sum.splits key_err.splits if_splits)

lemma session_served:
  assumes "session_boundary flt fr c others now r s = (Served p cookie, s')" "0 < scTTL c"
  shows "pMethod p = SessionMethod \<and> browserOriginAllowed fr r \<and> session_checked now r s"
proof -
  from assms(1) obtain sid current renewed rows where sid: "hqSID r = Some sid"
    "GetSID flt c others sid AudienceQBT now (asSessions s) = (SessionFound current renewed, rows)"
    "browserOriginAllowed fr r" "pMethod p = SessionMethod"
    by (auto simp: session_boundary_def split: option.splits prod.splits get_result.splits if_splits)
  from GetSID_found [OF sid(2) assms(2)] sid show ?thesis by (auto simp: session_checked_def)
qed

lemma boundary_served:
  assumes "authBoundary flt fr c others now r s = (Served p cookie, s')" "0 < scTTL c"
  shows "browserOriginAllowed fr r \<and>
    (case pMethod p of
       BasicMethod \<Rightarrow> password_checked flt c now r s
     | QBTKeyMethod \<Rightarrow> key_checked flt r s
     | SessionMethod \<Rightarrow> hqAuthorization r = [] \<and> session_checked now r s
     | NativeTokenMethod \<Rightarrow> False)"
proof -
  consider v where "basic_boundary flt fr c now r v s = (Served p cookie, s')" "presented r = Some (''basic'', v)"
    | v where "bearer_boundary flt fr r v s = Served p cookie" "presented r = Some (''bearer'', v)"
    | "session_boundary flt fr c others now r s = (Served p cookie, s')" "hqAuthorization r = []"
    using assms(1) by (auto simp: authBoundary_def presented_def split: list.splits option.splits prod.splits if_splits)
  then show ?thesis
    using basic_served bearer_served session_served [OF _ assms(2)] by cases fastforce+
qed

text \<open>An address under a ban gets nothing for a password, right or wrong.\<close>

lemma banned_password_useless:
  assumes "map_of (asLogins s) (clientAddress (hqRemoteAddr r)) = Some a" "now < laBannedUntil a"
    and "distinct (map fst (asLogins s))"
  shows "fst (basic_boundary flt fr c now r value s) \<in> {Forbidden, InternalError}"
proof -
  have "fst (AuthorizeLogin (scCapacity c) now (hqRemoteAddr r) valid (asLogins s)) = LoginBanned" for valid
    using assms by (simp add: AuthorizeLogin_def Let_def purge_map spent_attempt_def)
  then show ?thesis
    by (auto simp: basic_boundary_def split: option.split sum.split prod.split) (metis fst_conv)+
qed

text \<open>Logging out ends the session for good, whatever else happens to the table.\<close>

lemma logout_final:
  assumes "logout flt True r s = (LogoutDone, s')" "hqSID r = Some sid"
    and "session_run capacity (asSessions s') ds rows" "hashSID sid \<notin> set ds" "0 < scTTL c"
  shows "session_boundary flt' fr c others now r (t\<lparr>asSessions := rows\<rparr>) \<noteq> (Served p cookie, t')"
proof
  assume served: "session_boundary flt' fr c others now r (t\<lparr>asSessions := rows\<rparr>) = (Served p cookie, t')"
  have "RevokeSID flt sid AudienceQBT (asSessions s) = (Inr (), asSessions s')"
    using assms(1,2) by (auto simp: logout_def split: prod.splits sum.splits)
  then have "absent (hashSID sid) AudienceQBT rows"
    using run_absent [OF assms(3) revoked_absent assms(4)] by blast
  moreover have "session_checked now r (t\<lparr>asSessions := rows\<rparr>)"
    using session_served [OF served assms(5)] by blast
  ultimately show False using assms(2) by (auto simp: absent_def session_checked_def)
qed

end
