(* ===== verification/Torrent_Meta.thy ===== *)
theory Torrent_Meta
  imports Domain_Projection Secrets
begin

section \<open>Torrent metadata (internal/torrentmeta)\<close>

text \<open>
  Parsing of magnets and torrents under limits.  \<open>url.Parse\<close> and the bencode decoder
  (anacrolix/torrent) are functions of the record \<open>MetaLib\<close>; query strings, escaping, hexadecimal and
  base32 text are written out, so that the canonical magnet can be shown to parse back.
\<close>

record Limits =
  MaxInputBytes :: int
  MaxInfoBytes :: int
  MaxFiles :: int
  MaxNameBytes :: int
  MaxPathBytes :: int
  MaxComponentBytes :: int
  MaxTrackerCount :: int
  MaxTrackerBytes :: int
  MaxTotalSize :: int

record MetaFile =
  mfIndex :: int
  mfRelativePath :: string
  mfSize :: int

record MetaResult =
  mrHash :: string
  mrName :: string
  mrMagnet :: string
  mrTotalSize :: int
  mrMultiFile :: bool
  mrPrivate :: "bool option"
  mrFiles :: "MetaFile list"

datatype meta_err =
    errInvalidLimits | errInvalidMagnet | errUnsupported | errInvalidTorrent | errInvalidName
  | errInvalidPath | errInvalidTracker | errResourceLimit | errInvalidContents

text \<open>
  What the code asks of a parsed URL: \<open>muString q\<close> is its text after the query was set to \<open>q\<close>.
\<close>

record MetaURL =
  muScheme :: string
  muRawQuery :: string
  muHostname :: string
  muHasUser :: bool
  muFragment :: string
  muString :: "string \<Rightarrow> string"

record TorrentInfo =
  tiHasV1 :: bool
  tiPieceLength :: int
  tiPrivate :: "bool option"
  tiBestName :: string
  tiLength :: int
  tiFiles :: "(int \<times> string list) list option"
  tiUpverted :: "(int \<times> string list) list"

record Metainfo =
  miInfoBytes :: nat
  miInfo :: "TorrentInfo option"
  miAnnounce :: "string list list"
  miHash :: string

record MetaLib =
  mlParse :: "string \<Rightarrow> MetaURL option"
  mlLoad :: "string \<Rightarrow> Metainfo option"

subsection \<open>net/url: query strings\<close>

definition query_safe :: "char \<Rightarrow> bool" where
  "query_safe c \<longleftrightarrow>
     (65 \<le> byte c \<and> byte c \<le> 90) \<or> (97 \<le> byte c \<and> byte c \<le> 122) \<or> (48 \<le> byte c \<and> byte c \<le> 57) \<or>
     byte c = 45 \<or> byte c = 95 \<or> byte c = 46 \<or> byte c = 126"

definition upper_hex :: "nat \<Rightarrow> char" where
  "upper_hex n = char_of (if n < 10 then n + 48 else n + 55)"

definition hex_value :: "char \<Rightarrow> nat option" where
  "hex_value c =
     (let n = byte c
      in if 48 \<le> n \<and> n \<le> 57 then Some (n - 48)
         else if 97 \<le> n \<and> n \<le> 102 then Some (n - 87)
         else if 65 \<le> n \<and> n \<le> 70 then Some (n - 55)
         else None)"

definition escape_char :: "char \<Rightarrow> string" where
  "escape_char c =
     (if query_safe c then [c]
      else if c = CHR '' '' then ''+''
      else [CHR ''%'', upper_hex (byte c div 16), upper_hex (byte c mod 16)])"

definition QueryEscape :: "string \<Rightarrow> string" where
  "QueryEscape s = concat (map escape_char s)"

fun QueryUnescape :: "string \<Rightarrow> string option" where
  "QueryUnescape [] = Some []"
| "QueryUnescape (c # cs) =
     (if c = CHR ''%'' then
        (case cs of
           a # b # rest \<Rightarrow>
             (case (hex_value a, hex_value b) of
                (Some x, Some y) \<Rightarrow> map_option (\<lambda>r. char_of (x * 16 + y) # r) (QueryUnescape rest)
              | _ \<Rightarrow> None)
         | _ \<Rightarrow> None)
      else map_option (\<lambda>r. (if c = CHR ''+'' then CHR '' '' else c) # r) (QueryUnescape cs))"

text \<open>\<open>strings.Cut\<close> at the first occurrence of a character.\<close>

definition cut_at :: "char \<Rightarrow> string \<Rightarrow> string \<times> string" where
  "cut_at c s = (takeWhile (\<lambda>x. x \<noteq> c) s, drop 1 (dropWhile (\<lambda>x. x \<noteq> c) s))"

text \<open>
  One setting of a query: nothing, an error, or a pair.  \<open>ParseQuery\<close> keeps what it could parse and
  reports whether everything was well formed; more than 10000 settings are refused.
\<close>

definition query_setting :: "string \<Rightarrow> (unit + (string \<times> string)) option" where
  "query_setting w =
     (if CHR '';'' \<in> set w then Some (Inl ())
      else if w = [] then None
      else (case cut_at CHR ''='' w of (k, v) \<Rightarrow>
        (case (QueryUnescape k, QueryUnescape v) of
           (Some k', Some v') \<Rightarrow> Some (Inr (k', v'))
         | _ \<Rightarrow> Some (Inl ()))))"

definition ParseQuery :: "string \<Rightarrow> (string \<times> string) list \<times> bool" where
  "ParseQuery q =
     (let words = split_on CHR ''&'' q
      in if 10000 < length words then ([], False)
         else let settings = List.map_filter query_setting words
              in (List.map_filter (\<lambda>s. case s of Inl _ \<Rightarrow> None | Inr kv \<Rightarrow> Some kv) settings, list_all (Not \<circ> isl) settings))"

definition query_values :: "(string \<times> string) list \<Rightarrow> string \<Rightarrow> string list" where
  "query_values q key = map snd (filter (\<lambda>kv. fst kv = key) q)"

text \<open>\<open>Values.Encode\<close>: keys in order, the values of a key as they come.\<close>

definition query_encode :: "(string \<times> string) list \<Rightarrow> string" where
  "query_encode q = join_with ''&'' (map (\<lambda>(k, v). QueryEscape k @ ''='' @ QueryEscape v) (sort_key fst q))"

subsection \<open>Hashes\<close>

text \<open>
  \<open>strings.EqualFold\<close> with a lower-case ASCII text that has no \<open>k\<close> and no \<open>s\<close> (the letters with
  further case variants): equal up to the case of ASCII letters.
\<close>

definition ascii_lower :: "char \<Rightarrow> char" where
  "ascii_lower c = (if 65 \<le> byte c \<and> byte c \<le> 90 then char_of (byte c + 32) else c)"

definition equal_fold :: "string \<Rightarrow> string \<Rightarrow> bool" where
  "equal_fold s lower = (map ascii_lower s = lower)"

fun hex_decode :: "string \<Rightarrow> string option" where
  "hex_decode [] = Some []"
| "hex_decode [_] = None"
| "hex_decode (a # b # cs) =
     (case (hex_value a, hex_value b, hex_decode cs) of
        (Some x, Some y, Some r) \<Rightarrow> Some (char_of (x * 16 + y) # r)
      | _ \<Rightarrow> None)"

definition base32_value :: "char \<Rightarrow> nat" where
  "base32_value c = (if 97 \<le> byte c then byte c - 97 else if 65 \<le> byte c then byte c - 65 else byte c - 24)"

text \<open>Groups of eight base32 digits are five bytes.\<close>

fun base32_groups :: "nat list \<Rightarrow> nat list" where
  "base32_groups (a # b # c # d # e # f # g # h # r) =
     (a * 8 + b div 4) # (b mod 4 * 64 + c * 2 + d div 16) # (d mod 16 * 16 + e div 2) #
     (e mod 2 * 128 + f * 4 + g div 8) # (g mod 8 * 32 + h) # base32_groups r"
| "base32_groups _ = []"

definition base32_digit :: "char \<Rightarrow> bool" where
  "base32_digit c \<longleftrightarrow>
     (97 \<le> byte c \<and> byte c \<le> 122) \<or> (65 \<le> byte c \<and> byte c \<le> 90) \<or> (50 \<le> byte c \<and> byte c \<le> 55)"

definition decodeV1Hash :: "string \<Rightarrow> string option" where
  "decodeV1Hash v =
     (if length v = 40 then map_option hex_encode (hex_decode v)
      else if length v = 32 then
        (if \<not> list_all base32_digit v then None
         else Some (hex_encode (map char_of (base32_groups (map base32_value v)))))
      else None)"

text \<open>The loop over the \<open>xt\<close> values: skip what is no v1 hash, fail on a bad or a second one.\<close>

fun v1_hash_loop :: "string \<Rightarrow> string list \<Rightarrow> string option" where
  "v1_hash_loop hash [] = Some hash"
| "v1_hash_loop hash (v # vs) =
     (if length v < 9 \<or> \<not> equal_fold (take 9 v) ''urn:btih:'' then v1_hash_loop hash vs
      else case decodeV1Hash (drop 9 v) of
          None \<Rightarrow> None
        | Some decoded \<Rightarrow>
            if hash \<noteq> [] \<and> hash \<noteq> decoded then None else v1_hash_loop decoded vs)"

definition magnetV1Hash :: "string list \<Rightarrow> meta_err + (string \<times> bool)" where
  "magnetV1Hash vs =
     (case v1_hash_loop [] vs of None \<Rightarrow> Inl errInvalidMagnet | Some hash \<Rightarrow> Inr (hash, hash \<noteq> []))"

subsection \<open>Names, paths and trackers\<close>

definition validateLimits :: "Limits \<Rightarrow> meta_err option" where
  "validateLimits l =
     (if MaxInputBytes l \<le> 0 \<or> MaxInfoBytes l \<le> 0 \<or> MaxFiles l \<le> 0 \<or> MaxNameBytes l \<le> 0 \<or> MaxPathBytes l \<le> 0
         \<or> MaxComponentBytes l \<le> 0 \<or> MaxTrackerCount l \<le> 0 \<or> MaxTrackerBytes l \<le> 0 \<or> MaxTotalSize l \<le> 0
      then Some errInvalidLimits else None)"

definition meta_safeComponent :: "string \<Rightarrow> bool" where
  "meta_safeComponent v =
     (if v = [] \<or> v = ''.'' \<or> v = ''..'' \<or> \<not> utf8_valid v \<or> has_prefix v ''/'' \<or> has_prefix v [CHR 0x5C]
         \<or> list_ex (\<lambda>c. c = CHR ''/'' \<or> c = CHR 0x5C \<or> c = CHR 0x00) v then False
      else \<not> list_ex is_control (runes v))"

definition validateName :: "string \<Rightarrow> Limits \<Rightarrow> meta_err option" where
  "validateName name l =
     (if MaxNameBytes l < int (length name) \<or> MaxComponentBytes l < int (length name) \<or> MaxPathBytes l < int (length name)
      then Some errResourceLimit
      else if \<not> meta_safeComponent name then Some errInvalidName else None)"

fun check_parts :: "bool \<Rightarrow> int \<Rightarrow> string list \<Rightarrow> Limits \<Rightarrow> meta_err + int" where
  "check_parts first pathBytes [] l = Inr pathBytes"
| "check_parts first pathBytes (part # parts) l =
     (if MaxComponentBytes l < int (length part) then Inl errResourceLimit
      else if \<not> meta_safeComponent part then Inl errInvalidPath
      else check_parts False (pathBytes + int (length part) + (if first then 0 else 1)) parts l)"

definition validateRelativePath :: "string list \<Rightarrow> Limits \<Rightarrow> meta_err + string" where
  "validateRelativePath parts l =
     (if parts = [] then Inl errInvalidPath
      else and_then (check_parts True 0 parts l) (\<lambda>pathBytes.
        if MaxPathBytes l < pathBytes then Inl errResourceLimit else Inr (join_with ''/'' parts)))"

fun last_name :: "string \<Rightarrow> string list \<Rightarrow> string option" where
  "last_name name [] = Some name"
| "last_name name (v # vs) =
     (if v = [] then last_name name vs
      else if name \<noteq> [] \<and> name \<noteq> v then None else last_name v vs)"

definition magnetName :: "string list \<Rightarrow> string \<Rightarrow> Limits \<Rightarrow> meta_err + string" where
  "magnetName vs fallback l =
     (case last_name [] vs of
        None \<Rightarrow> Inl errInvalidMagnet
      | Some n \<Rightarrow>
          (let name = (if n = [] then fallback else n)
           in case validateName name l of Some e \<Rightarrow> Inl e | None \<Rightarrow> Inr name))"

definition tracker_ok :: "MetaLib \<Rightarrow> string \<Rightarrow> bool" where
  "tracker_ok lib tracker =
     (case mlParse lib tracker of
        None \<Rightarrow> False
      | Some u \<Rightarrow>
          if muScheme u = [] \<or> muHostname u = [] \<or> muHasUser u \<or> muFragment u \<noteq> [] then False
          else to_lower (muScheme u) \<in> {''http'', ''https'', ''udp'', ''ws'', ''wss''})"

fun tracker_loop :: "MetaLib \<Rightarrow> Limits \<Rightarrow> string list \<Rightarrow> string list \<Rightarrow> meta_err + string list" where
  "tracker_loop lib l seen [] = Inr (rev seen)"
| "tracker_loop lib l seen (t # ts) =
     (if \<not> utf8_valid t \<or> t = [] then Inl errInvalidTracker
      else if MaxTrackerBytes l < int (length t) then Inl errResourceLimit
      else if \<not> tracker_ok lib t then Inl errInvalidTracker
      else if t \<in> set seen then tracker_loop lib l seen ts else tracker_loop lib l (t # seen) ts)"

definition normalizeTrackers :: "MetaLib \<Rightarrow> string list \<Rightarrow> Limits \<Rightarrow> meta_err + string list" where
  "normalizeTrackers lib raw l =
     (if MaxTrackerCount l < int (length raw) then Inl errResourceLimit else tracker_loop lib l [] raw)"

definition canonicalMagnet :: "string \<Rightarrow> string \<Rightarrow> string list \<Rightarrow> string" where
  "canonicalMagnet hash name trackers =
     ''magnet:?'' @ join_with ''&''
       ((''xt='' @ QueryEscape (''urn:btih:'' @ hash)) # (''dn='' @ QueryEscape name)
         # map (\<lambda>t. ''tr='' @ QueryEscape t) trackers)"

text \<open>\<open>url.Parse\<close> lower-cases the scheme; the query keeps its order.\<close>

definition AddTrackers :: "MetaLib \<Rightarrow> string \<Rightarrow> string list \<Rightarrow> Limits \<Rightarrow> meta_err + string" where
  "AddTrackers lib raw additional l =
     (case mlParse lib raw of
        None \<Rightarrow> Inl errInvalidMagnet
      | Some u \<Rightarrow>
          if \<not> equal_fold (muScheme u) ''magnet'' then Inl errInvalidMagnet
          else
            (let query = fst (ParseQuery (muRawQuery u))
             in and_then (normalizeTrackers lib (query_values query ''tr'' @ additional) l) (\<lambda>trackers.
                Inr (muString u (query_encode
                  (filter (\<lambda>kv. fst kv \<noteq> ''tr'') query @ map (\<lambda>t. (''tr'', t)) trackers))))))"

subsection \<open>Magnets\<close>

definition ParseMagnet :: "MetaLib \<Rightarrow> string \<Rightarrow> Limits \<Rightarrow> meta_err + MetaResult" where
  "ParseMagnet lib raw l =
     (case validateLimits l of
        Some e \<Rightarrow> Inl e
      | None \<Rightarrow>
          if MaxInputBytes l < int (length raw) then Inl errResourceLimit
          else case mlParse lib raw of
              None \<Rightarrow> Inl errInvalidMagnet
            | Some u \<Rightarrow>
                if \<not> equal_fold (muScheme u) ''magnet'' then Inl errInvalidMagnet
                else
                  (let (query, ok) = ParseQuery (muRawQuery u)
                   in if \<not> ok then Inl errInvalidMagnet
                      else if \<not> list_all (\<lambda>(k, v). utf8_valid k \<and> utf8_valid v) query then Inl errInvalidMagnet
                      else and_then (magnetV1Hash (query_values query ''xt'')) (\<lambda>(hash, hasHash).
                        if \<not> hasHash then Inl errUnsupported
                        else and_then (magnetName (query_values query ''dn'') hash l) (\<lambda>name.
                          and_then (normalizeTrackers lib (query_values query ''tr'') l) (\<lambda>trackers.
                          Inr \<lparr>mrHash = hash, mrName = name, mrMagnet = canonicalMagnet hash name trackers,
                               mrTotalSize = 0, mrMultiFile = False, mrPrivate = None, mrFiles = []\<rparr>)))))"

subsection \<open>Torrents\<close>

definition singleFile :: "TorrentInfo \<Rightarrow> string \<Rightarrow> Limits \<Rightarrow> meta_err + (MetaFile \<times> int)" where
  "singleFile info name l =
     (if tiLength info < 0 then Inl errInvalidContents
      else if MaxTotalSize l < tiLength info then Inl errResourceLimit
      else Inr (\<lparr>mfIndex = 0, mfRelativePath = name, mfSize = tiLength info\<rparr>, tiLength info))"

text \<open>The loop over the files: \<open>files\<close> in order so far, and their total.\<close>

fun files_loop :: "Limits \<Rightarrow> MetaFile list \<Rightarrow> int \<Rightarrow> (int \<times> string list) list \<Rightarrow> meta_err + (MetaFile list \<times> int)" where
  "files_loop l files size_total [] = Inr (files, size_total)"
| "files_loop l files size_total ((len, parts) # rest) =
     (if MaxFiles l \<le> int (length files) then Inl errResourceLimit
      else if len < 0 then Inl errInvalidContents
      else and_then (validateRelativePath parts l) (\<lambda>path.
        if path \<in> mfRelativePath ` set files then Inl errInvalidPath
        else if max_int64 - len < size_total then Inl errResourceLimit
        else if MaxTotalSize l < size_total + len then Inl errResourceLimit
        else files_loop l (files @ [\<lparr>mfIndex = int (length files), mfRelativePath = path, mfSize = len\<rparr>])
               (size_total + len) rest))"

definition multiFiles :: "TorrentInfo \<Rightarrow> Limits \<Rightarrow> meta_err + (MetaFile list \<times> int)" where
  "multiFiles info l =
     (let listed = (case tiFiles info of None \<Rightarrow> [] | Some fs \<Rightarrow> fs)
      in if MaxFiles l < int (length listed) then Inl errResourceLimit
         else and_then (files_loop l [] 0 (tiUpverted info)) (\<lambda>(files, size_total).
           if length files \<noteq> length listed \<or> files = [] then Inl errInvalidContents else Inr (files, size_total)))"

definition torrentTrackers :: "MetaLib \<Rightarrow> Metainfo \<Rightarrow> Limits \<Rightarrow> meta_err + string list" where
  "torrentTrackers lib mi l = normalizeTrackers lib (concat (miAnnounce mi)) l"

definition ParseTorrent :: "MetaLib \<Rightarrow> string \<Rightarrow> Limits \<Rightarrow> meta_err + MetaResult" where
  "ParseTorrent lib data l =
     (case validateLimits l of
        Some e \<Rightarrow> Inl e
      | None \<Rightarrow>
          if MaxInputBytes l < int (length data) then Inl errResourceLimit
          else case mlLoad lib data of
              None \<Rightarrow> Inl errInvalidTorrent
            | Some mi \<Rightarrow>
                if miInfoBytes mi = 0 then Inl errInvalidTorrent
                else if MaxInfoBytes l < int (miInfoBytes mi) then Inl errResourceLimit
                else case miInfo mi of
                    None \<Rightarrow> Inl errInvalidTorrent
                  | Some info \<Rightarrow>
                      if \<not> tiHasV1 info then Inl errUnsupported
                      else if tiPieceLength info < 0 then Inl errInvalidContents
                      else
                        (let private = (case tiPrivate info of None \<Rightarrow> Some False | Some p \<Rightarrow> Some p);
                             name = tiBestName info
                         in case validateName name l of
                              Some e \<Rightarrow> Inl e
                            | None \<Rightarrow>
                                and_then (torrentTrackers lib mi l) (\<lambda>trackers.
                                if tiFiles info = Some [] then Inl errInvalidContents
                                else if tiFiles info = None then
                                  and_then (singleFile info name l) (\<lambda>(file, size_total).
                                  Inr \<lparr>mrHash = miHash mi, mrName = name,
                                       mrMagnet = canonicalMagnet (miHash mi) name trackers, mrTotalSize = size_total,
                                       mrMultiFile = False, mrPrivate = private, mrFiles = [file]\<rparr>)
                                else
                                  and_then (multiFiles info l) (\<lambda>(files, size_total).
                                  Inr \<lparr>mrHash = miHash mi, mrName = name,
                                       mrMagnet = canonicalMagnet (miHash mi) name trackers, mrTotalSize = size_total,
                                       mrMultiFile = True, mrPrivate = private, mrFiles = files\<rparr>))))"

end
