(* ===== verification/Torrent_Facts.thy ===== *)
theory Torrent_Facts
  imports Torrent_Meta Text_Facts
begin

section \<open>What parsed torrent metadata is\<close>

text \<open>
  Escaping and the canonical magnet parse back; hashes, names, paths and sizes of a result satisfy
  what the domain demands of a download.
\<close>

subsection \<open>Query strings parse back\<close>

lemma hex_value_upper: "n < 16 \<Longrightarrow> hex_value (upper_hex n) = Some n"
proof -
  assume n: "n < 16"
  then have "byte (upper_hex n) = (if n < 10 then n + 48 else n + 55)" by (simp add: upper_hex_def)
  then show ?thesis using n by (simp add: hex_value_def Let_def)
qed

lemma unescape_char:
  "QueryUnescape (escape_char c @ rest) = map_option (\<lambda>r. c # r) (QueryUnescape rest)"
proof (cases "query_safe c \<or> c = CHR '' ''")
  case True
  then show ?thesis by (auto simp: escape_char_def query_safe_def)
next
  case False
  have "byte c div 16 < 16" by (rule byte_high)
  then have "hex_value (upper_hex (byte c div 16)) = Some (byte c div 16)"
    "hex_value (upper_hex (byte c mod 16)) = Some (byte c mod 16)" by (simp_all add: hex_value_upper)
  with False show ?thesis by (simp add: escape_char_def)
qed

lemma unescape_escape [simp]: "QueryUnescape (QueryEscape s) = Some s"
  by (induction s) (simp_all add: QueryEscape_def unescape_char)

text \<open>The characters of an escaped text, none of which has a meaning in a query.\<close>

definition query_char :: "char \<Rightarrow> bool" where
  "query_char c \<longleftrightarrow> query_safe c \<or> c = CHR ''+'' \<or> c = CHR ''%''"

lemma upper_hex_safe: "n < 16 \<Longrightarrow> query_safe (upper_hex n)"
proof -
  assume n: "n < 16"
  then have "byte (upper_hex n) = (if n < 10 then n + 48 else n + 55)" by (simp add: upper_hex_def)
  then show ?thesis using n by (simp add: query_safe_def)
qed

lemma escape_chars: "c \<in> set (QueryEscape s) \<Longrightarrow> query_char c"
proof -
  assume "c \<in> set (QueryEscape s)"
  then obtain d where d: "c \<in> set (escape_char d)" by (auto simp: QueryEscape_def)
  have "byte d div 16 < 16" by (rule byte_high)
  with d show ?thesis by (auto simp: escape_char_def query_char_def upper_hex_safe split: if_splits)
qed

lemma query_char_plain: "query_char c \<Longrightarrow> c \<noteq> CHR ''&'' \<and> c \<noteq> CHR '';'' \<and> c \<noteq> CHR ''=''"
  by (auto simp: query_char_def query_safe_def)

lemma escape_plain: "CHR ''&'' \<notin> set (QueryEscape s)" "CHR '';'' \<notin> set (QueryEscape s)" "CHR ''='' \<notin> set (QueryEscape s)"
  using escape_chars query_char_plain by blast+

lemma cut_at_append: "c \<notin> set a \<Longrightarrow> cut_at c (a @ c # b) = (a, b)"
proof -
  assume "c \<notin> set a"
  then have "takeWhile (\<lambda>x. x \<noteq> c) (a @ c # b) = a" "dropWhile (\<lambda>x. x \<noteq> c) (a @ c # b) = c # b"
    by (induction a) auto
  then show ?thesis by (simp add: cut_at_def)
qed

definition setting_text :: "string \<times> string \<Rightarrow> string" where
  "setting_text kv = QueryEscape (fst kv) @ CHR ''='' # QueryEscape (snd kv)"

lemma setting_parses [simp]: "query_setting (setting_text kv) = Some (Inr kv)"
  using escape_plain [of "fst kv"] escape_plain [of "snd kv"]
    cut_at_append [of "CHR ''=''" "QueryEscape (fst kv)" "QueryEscape (snd kv)"]
  by (simp add: query_setting_def setting_text_def)

lemma setting_no_amp: "CHR ''&'' \<notin> set (setting_text kv)"
  using escape_plain by (simp add: setting_text_def)

definition encode_pairs :: "(string \<times> string) list \<Rightarrow> string" where
  "encode_pairs kvs = join_with ''&'' (map setting_text kvs)"

lemma split_pairs: "kvs \<noteq> [] \<Longrightarrow> split_on CHR ''&'' (encode_pairs kvs) = map setting_text kvs"
proof (induction kvs)
  case (Cons kv kvs)
  note one = split_on_no_sep [OF setting_no_amp [of kv]]
  show ?case
  proof (cases kvs)
    case Nil
    with one show ?thesis by (simp add: encode_pairs_def)
  next
    case (Cons p ps)
    then have "encode_pairs (kv # kvs) = setting_text kv @ CHR ''&'' # encode_pairs kvs"
      by (simp add: encode_pairs_def)
    with Cons Cons.IH one show ?thesis by (simp add: split_on_append)
  qed
qed simp

lemma query_parses:
  assumes "kvs \<noteq> []" "length kvs \<le> 10000"
  shows "ParseQuery (encode_pairs kvs) = (kvs, True)"
proof -
  have "List.map_filter query_setting (map setting_text kvs) = map Inr kvs"
    by (induction kvs) (simp_all add: List.map_filter_simps)
  moreover have "List.map_filter (\<lambda>s. case s of Inl _ \<Rightarrow> None | Inr kv \<Rightarrow> Some kv) (map Inr kvs) = kvs"
    by (induction kvs) (simp_all add: List.map_filter_simps)
  ultimately show ?thesis using assms by (simp add: ParseQuery_def split_pairs Let_def list_all_iff)
qed

lemma safe_text_id: "list_all query_safe s \<Longrightarrow> QueryEscape s = s"
  by (induction s) (simp_all add: QueryEscape_def escape_char_def)

lemma canonical_query:
  "canonicalMagnet h n ts =
     ''magnet:?'' @ encode_pairs ((''xt'', ''urn:btih:'' @ h) # (''dn'', n) # map (\<lambda>t. (''tr'', t)) ts)"
proof -
  have "QueryEscape ''xt'' = ''xt''" "QueryEscape ''dn'' = ''dn''" "QueryEscape ''tr'' = ''tr''"
    by (rule safe_text_id, simp add: query_safe_def)+
  then show ?thesis by (simp add: canonicalMagnet_def encode_pairs_def setting_text_def comp_def)
qed

subsection \<open>Hashes\<close>

lemma hex_digit_byte: "0 \<le> n \<Longrightarrow> n < 16 \<Longrightarrow> int (byte (hex_digit n)) = (if n < 10 then n + 48 else n + 87)"
  unfolding hex_digit_def by (simp only: of_nat_of_char of_char_of) simp

definition hex_char :: "char \<Rightarrow> bool" where
  "hex_char c \<longleftrightarrow> (48 \<le> byte c \<and> byte c \<le> 57) \<or> (97 \<le> byte c \<and> byte c \<le> 102)"

lemma hex_digit_char: "0 \<le> n \<Longrightarrow> n < 16 \<Longrightarrow> hex_char (hex_digit n)"
  using hex_digit_byte [of n] by (auto simp: hex_char_def split: if_splits)

lemma hex_encode_chars: "list_all hex_char (hex_encode s)"
proof -
  have "0 \<le> (of_char d div 16 :: int) \<and> (of_char d div 16 :: int) < 16" for d
  proof -
    have "0 \<le> int (byte d) \<and> int (byte d) < 256" by simp
    then show ?thesis by (simp only: of_nat_of_char) auto
  qed
  then show ?thesis by (auto simp: hex_encode_def list_all_iff intro!: hex_digit_char)
qed

lemma hex_char_value:
  assumes "hex_char c"
  shows "\<exists>n < 16. hex_value c = Some n \<and> hex_digit (int n) = c"
proof -
  define n where "n = (if byte c \<le> 57 then byte c - 48 else byte c - 87)"
  have "hex_value c = Some n" "n < 16" using assms by (auto simp: hex_char_def hex_value_def Let_def n_def)
  moreover have "int (byte (hex_digit (int n))) = int (byte c)"
    using assms \<open>n < 16\<close> by (subst hex_digit_byte) (auto simp: n_def hex_char_def)
  then have "hex_digit (int n) = c" by simp
  ultimately show ?thesis by blast
qed

text \<open>Lower-case hexadecimal text decodes and encodes back to itself.\<close>

lemma hex_round:
  "list_all hex_char s \<Longrightarrow> even (length s) \<Longrightarrow> \<exists>r. hex_decode s = Some r \<and> hex_encode r = s"
proof (induction s rule: hex_decode.induct)
  case (3 a b cs)
  then obtain r where r: "hex_decode cs = Some r" "hex_encode r = cs" by auto
  obtain x where x: "x < 16" "hex_value a = Some x" "hex_digit (int x) = a" using 3(2) hex_char_value [of a] by auto
  obtain y where y: "y < 16" "hex_value b = Some y" "hex_digit (int y) = b" using 3(2) hex_char_value [of b] by auto
  have "x * 16 + y < 256" using x(1) y(1) by linarith
  then have "(of_char (char_of (x * 16 + y) :: char) :: int) = int (x * 16 + y)"
    using of_nat_of_char [of "char_of (x * 16 + y)", where 'a = int] by simp
  with x y r have "hex_encode (char_of (x * 16 + y) # r) = a # b # cs"
    by (simp add: hex_encode_def div_mult_self3 flip: of_nat_div of_nat_mod)
  with x y r show ?case by (simp add: hex_encode_def)
qed (auto simp: hex_encode_def)

lemma validHash_hex: "length h = 40 \<Longrightarrow> list_all hex_char h \<Longrightarrow> validHash h"
proof -
  assume h: "length h = 40" "list_all hex_char h"
  then have "\<forall>c \<in> set h. byte c < 128" by (auto simp: list_all_iff hex_char_def)
  then have "runes h = map byte h" using ascii_text by blast
  with h show "validHash h" by (simp add: validHash_def list_all_iff hex_char_def)
qed

lemma base32_groups_length: "8 dvd length xs \<Longrightarrow> length (base32_groups xs) = length xs div 8 * 5"
proof (induction xs rule: base32_groups.induct)
  case (1 a b c d e f g h r)
  have l: "length (a # b # c # d # e # f # g # h # r) = length r + 8" by simp
  from 1(2) have "8 dvd length r" unfolding l by (simp only: dvd_add_triv_right_iff)
  with 1(1) show ?case by simp
qed (auto dest!: dvd_imp_le)

lemma decodeV1Hash_hash:
  assumes "decodeV1Hash v = Some h"
  shows "length h = 40 \<and> list_all hex_char h \<and> decodeV1Hash h = Some h"
proof -
  have "hex_decode s = Some r \<Longrightarrow> length r * 2 = length s" for s r
    by (induction s arbitrary: r rule: hex_decode.induct) (auto split: option.splits)
  with assms have "length h = 40 \<and> list_all hex_char h"
    using hex_encode_chars base32_groups_length [of "map base32_value v"]
    by (force simp: decodeV1Hash_def hex_encode_length split: if_splits)
  moreover from this obtain r where "hex_decode h = Some r" "hex_encode r = h" using hex_round [of h] by auto
  ultimately show ?thesis by (simp add: decodeV1Hash_def)
qed

lemma v1_hash_loop_hash:
  "v1_hash_loop hash vs = Some h \<Longrightarrow> h = hash \<or> (length h = 40 \<and> list_all hex_char h \<and> decodeV1Hash h = Some h)"
  by (induction hash vs rule: v1_hash_loop.induct) (auto split: if_splits option.splits dest: decodeV1Hash_hash)

subsection \<open>Names and trackers\<close>

text \<open>The name check of the parser and that of the domain agree.\<close>

lemma meta_safe_iff: "meta_safeComponent v \<longleftrightarrow> safeComponent v"
proof (cases "utf8_valid v \<and> v \<noteq> []")
  case True
  have runes: "47 \<in> set (runes v) \<longleftrightarrow> CHR ''/'' \<in> set v" "92 \<in> set (runes v) \<longleftrightarrow> CHR 0x5C \<in> set v"
    "0 \<in> set (runes v) \<longleftrightarrow> CHR 0x00 \<in> set v"
    using True ascii_char_in_runes [of "CHR ''/''" v] ascii_char_in_runes [of "CHR 0x5C" v] ascii_char_in_runes [of "CHR 0x00" v]
    by simp_all
  then have A: "list_ex (\<lambda>c. c = CHR ''/'' \<or> c = CHR 0x5C \<or> c = CHR 0x00) v \<longleftrightarrow>
      47 \<in> set (runes v) \<or> 92 \<in> set (runes v) \<or> 0 \<in> set (runes v)"
    by (auto simp: list_ex_iff)
  have "has_prefix v ''/'' \<Longrightarrow> 47 \<in> set (runes v)" "has_prefix v [CHR 0x5C] \<Longrightarrow> 92 \<in> set (runes v)"
    "is_abs v \<Longrightarrow> 47 \<in> set (runes v)"
    using runes by (cases v; simp add: has_prefix_def is_abs_def)+
  moreover have "is_control 0" by (simp add: is_control_def)
  ultimately have "\<not> (has_prefix v ''/'' \<or> has_prefix v [CHR 0x5C] \<or> 47 \<in> set (runes v) \<or> 92 \<in> set (runes v)
      \<or> 0 \<in> set (runes v)) \<and> \<not> list_ex is_control (runes v) \<longleftrightarrow>
    \<not> is_abs v \<and> list_all (\<lambda>r. \<not> (r = 47 \<or> r = 92 \<or> is_control r)) (runes v)"
    unfolding list_all_iff list_ex_iff by blast
  with True show ?thesis
    unfolding meta_safeComponent_def safeComponent_def A by (simp split: if_split) blast
qed (auto simp: meta_safeComponent_def safeComponent_def)

lemma validateName_ok: "validateName n l = None \<Longrightarrow> safeComponent n \<and> int (length n) \<le> MaxNameBytes l"
  by (auto simp: validateName_def meta_safe_iff split: if_splits)

lemma magnetName_ok: "magnetName vs fallback l = Inr n \<Longrightarrow> validateName n l = None"
  by (auto simp: magnetName_def Let_def split: option.splits)

definition tracker_good :: "MetaLib \<Rightarrow> Limits \<Rightarrow> string \<Rightarrow> bool" where
  "tracker_good lib l t \<longleftrightarrow> utf8_valid t \<and> t \<noteq> [] \<and> int (length t) \<le> MaxTrackerBytes l \<and> tracker_ok lib t"

lemma tracker_loop_ok:
  assumes "tracker_loop lib l seen raw = Inr ts" "distinct seen" "list_all (tracker_good lib l) seen"
  shows "distinct ts \<and> list_all (tracker_good lib l) ts \<and> set ts = set seen \<union> set raw \<and>
    length ts \<le> length seen + length raw"
  using assms
proof (induction raw arbitrary: seen)
  case (Cons t raw)
  then have good: "tracker_good lib l t" by (auto simp: tracker_good_def split: if_splits)
  with Cons.prems(1) have "tracker_loop lib l (if t \<in> set seen then seen else t # seen) raw = Inr ts"
    by (simp add: tracker_good_def split: if_splits)
  from Cons.IH [OF this] Cons.prems(2,3) good show ?case by (cases "t \<in> set seen") auto
qed auto

lemma tracker_loop_fixed:
  "list_all (tracker_good lib l) raw \<Longrightarrow> distinct (rev seen @ raw) \<Longrightarrow> tracker_loop lib l seen raw = Inr (rev seen @ raw)"
proof (induction raw arbitrary: seen)
  case (Cons t raw)
  then have "tracker_loop lib l seen (t # raw) = tracker_loop lib l (t # seen) raw" by (simp add: tracker_good_def)
  with Cons show ?case by simp
qed simp

lemma normalize_fixed:
  assumes "normalizeTrackers lib raw l = Inr ts"
  shows "normalizeTrackers lib ts l = Inr ts \<and> distinct ts \<and> set ts = set raw \<and> list_all (tracker_good lib l) ts
    \<and> int (length ts) \<le> MaxTrackerCount l"
proof -
  from assms have r: "int (length raw) \<le> MaxTrackerCount l" "tracker_loop lib l [] raw = Inr ts"
    by (auto simp: normalizeTrackers_def split: if_splits)
  from tracker_loop_ok [OF r(2)] have t: "distinct ts" "list_all (tracker_good lib l) ts" "set ts = set raw" "length ts \<le> length raw"
    by simp_all
  with r(1) tracker_loop_fixed [of lib l ts "[]"] show ?thesis by (simp add: normalizeTrackers_def)
qed

subsection \<open>Magnets\<close>

definition magnet_pairs :: "string \<Rightarrow> string \<Rightarrow> string list \<Rightarrow> (string \<times> string) list" where
  "magnet_pairs h n ts = (''xt'', ''urn:btih:'' @ h) # (''dn'', n) # map (\<lambda>t. (''tr'', t)) ts"

lemma magnet_values [simp]:
  "query_values (magnet_pairs h n ts) ''xt'' = [''urn:btih:'' @ h]"
  "query_values (magnet_pairs h n ts) ''dn'' = [n]"
  "query_values (magnet_pairs h n ts) ''tr'' = ts"
  by (simp_all add: magnet_pairs_def query_values_def filter_map comp_def)

lemma ParseMagnet_cases:
  assumes "ParseMagnet lib raw l = Inr res"
  obtains u q trackers where "validateLimits l = None" "mlParse lib raw = Some u"
    "ParseQuery (muRawQuery u) = (q, True)" "magnetV1Hash (query_values q ''xt'') = Inr (mrHash res, True)"
    "magnetName (query_values q ''dn'') (mrHash res) l = Inr (mrName res)"
    "normalizeTrackers lib (query_values q ''tr'') l = Inr trackers"
    "res = \<lparr>mrHash = mrHash res, mrName = mrName res, mrMagnet = canonicalMagnet (mrHash res) (mrName res) trackers,
      mrTotalSize = 0, mrMultiFile = False, mrPrivate = None, mrFiles = []\<rparr>"
  using assms that
  by (auto simp: ParseMagnet_def and_then_Inr_iff Let_def split: option.splits if_splits prod.splits)

lemma ParseMagnet_facts:
  assumes "ParseMagnet lib raw l = Inr res"
  shows "length (mrHash res) = 40 \<and> list_all hex_char (mrHash res) \<and> decodeV1Hash (mrHash res) = Some (mrHash res)
    \<and> validHash (mrHash res) \<and> validateName (mrName res) l = None \<and> mrFiles res = [] \<and> mrTotalSize res = 0"
proof -
  from assms obtain u q trackers where p: "magnetV1Hash (query_values q ''xt'') = Inr (mrHash res, True)"
    "magnetName (query_values q ''dn'') (mrHash res) l = Inr (mrName res)"
    "res = \<lparr>mrHash = mrHash res, mrName = mrName res, mrMagnet = canonicalMagnet (mrHash res) (mrName res) trackers,
      mrTotalSize = 0, mrMultiFile = False, mrPrivate = None, mrFiles = []\<rparr>"
    by (rule ParseMagnet_cases)
  from p(1) have "v1_hash_loop [] (query_values q ''xt'') = Some (mrHash res)" "mrHash res \<noteq> []"
    by (auto simp: magnetV1Hash_def split: option.splits)
  with v1_hash_loop_hash have h: "length (mrHash res) = 40" "list_all hex_char (mrHash res)"
    "decodeV1Hash (mrHash res) = Some (mrHash res)" by blast+
  have "mrFiles res = []" "mrTotalSize res = 0" using p(3) by (metis MetaResult.select_convs(4,7))+
  with h validHash_hex [OF h(1,2)] magnetName_ok [OF p(2)] show ?thesis by simp
qed

text \<open>What is relied on: a query of unreserved characters after \<open>magnet:?\<close> is the raw query of the URL.\<close>

definition parses_magnets :: "MetaLib \<Rightarrow> bool" where
  "parses_magnets lib \<longleftrightarrow>
     (\<forall>q. list_all (\<lambda>c. query_char c \<or> c = CHR ''&'' \<or> c = CHR ''='') q \<longrightarrow>
        (\<exists>u. mlParse lib (''magnet:?'' @ q) = Some u \<and> muScheme u = ''magnet'' \<and> muRawQuery u = q))"

lemma encode_pairs_chars: "list_all (\<lambda>c. query_char c \<or> c = CHR ''&'' \<or> c = CHR ''='') (encode_pairs kvs)"
proof (induction kvs)
  case (Cons kv kvs)
  have "list_all (\<lambda>c. query_char c \<or> c = CHR ''&'' \<or> c = CHR ''='') (setting_text kv)"
    using escape_chars by (auto simp: setting_text_def list_all_iff)
  with Cons show ?case by (cases kvs) (simp_all add: encode_pairs_def)
qed (simp add: encode_pairs_def)

lemma canonical_fixed:
  assumes "ParseMagnet lib raw l = Inr res" "parses_magnets lib"
    and "int (length (mrMagnet res)) \<le> MaxInputBytes l" "MaxTrackerCount l \<le> 9998"
  shows "ParseMagnet lib (mrMagnet res) l = Inr res"
proof -
  from assms(1) obtain u q ts where p: "validateLimits l = None"
    "normalizeTrackers lib (query_values q ''tr'') l = Inr ts"
    "res = \<lparr>mrHash = mrHash res, mrName = mrName res, mrMagnet = canonicalMagnet (mrHash res) (mrName res) ts,
      mrTotalSize = 0, mrMultiFile = False, mrPrivate = None, mrFiles = []\<rparr>"
    by (rule ParseMagnet_cases)
  let ?kvs = "magnet_pairs (mrHash res) (mrName res) ts"
  note facts = ParseMagnet_facts [OF assms(1)]
  note norm = normalize_fixed [OF p(2)]
  have m: "mrMagnet res = ''magnet:?'' @ encode_pairs ?kvs"
    using p(3) canonical_query by (metis MetaResult.select_convs(3) magnet_pairs_def)
  obtain v where v: "mlParse lib (mrMagnet res) = Some v" "muScheme v = ''magnet''" "muRawQuery v = encode_pairs ?kvs"
    using assms(2) encode_pairs_chars unfolding m parses_magnets_def by blast
  have "length ?kvs \<le> 10000" using norm assms(4) by (simp add: magnet_pairs_def)
  then have q: "ParseQuery (muRawQuery v) = (?kvs, True)" using query_parses [of ?kvs] v(3) by (simp add: magnet_pairs_def)
  have utf: "list_all (\<lambda>(k, w). utf8_valid k \<and> utf8_valid w) ?kvs"
  proof -
    have "\<forall>c \<in> set (''urn:btih:'' @ mrHash res). byte c < 128"
      using facts by (auto simp: list_all_iff hex_char_def)
    then have "utf8_valid (''urn:btih:'' @ mrHash res)" using ascii_text by blast
    moreover have "utf8_valid (mrName res)"
      using validateName_ok [of "mrName res" l] facts by (simp add: safeComponent_def split: if_splits)
    moreover have "utf8_valid ''xt''" "utf8_valid ''dn''" "utf8_valid ''tr''"
      using ascii_text [of "''xt''"] ascii_text [of "''dn''"] ascii_text [of "''tr''"] by simp_all
    ultimately show ?thesis using norm by (simp add: magnet_pairs_def list_all_iff tracker_good_def)
  qed
  have fold: "equal_fold ''magnet'' ''magnet''" "equal_fold ''urn:btih:'' ''urn:btih:''"
    by (simp_all add: equal_fold_def ascii_lower_def)
  have "magnetV1Hash [''urn:btih:'' @ mrHash res] = Inr (mrHash res, True)"
    using facts fold by (auto simp: magnetV1Hash_def)
  moreover have "magnetName [mrName res] (mrHash res) l = Inr (mrName res)"
    using facts validateName_ok [of "mrName res" l] by (simp add: magnetName_def safeComponent_def split: if_splits)
  ultimately have "ParseMagnet lib (mrMagnet res) l =
      Inr \<lparr>mrHash = mrHash res, mrName = mrName res, mrMagnet = canonicalMagnet (mrHash res) (mrName res) ts,
        mrTotalSize = 0, mrMultiFile = False, mrPrivate = None, mrFiles = []\<rparr>"
    using p(1) assms(3) v fold q utf norm by (simp add: ParseMagnet_def Let_def)
  also have "\<dots> = Inr res" using p(3) by simp
  finally show ?thesis .
qed

end
