(* ===== verification/Store_Tx.thy ===== *)
theory Store_Tx
  imports Store_Rows
begin

section \<open>Transactions\<close>

text \<open>
  The body of a transaction is a function from the database to an error or a value with the
  database it leaves.  An error discards what the body did: nothing of it was committed.  The
  locale \<open>db_relation\<close> is the argument that a reflexive and transitive relation which holds for
  every statement holds for every operation, whatever its branches.
\<close>

type_synonym 'a tx = "Db \<Rightarrow> store_err + ('a \<times> Db)"

definition tx_return :: "'a \<Rightarrow> 'a tx" where
  "tx_return x db = Inr (x, db)"

definition tx_fail :: "store_err \<Rightarrow> 'a tx" where
  "tx_fail e db = Inl e"

definition tx_bind :: "'a tx \<Rightarrow> ('a \<Rightarrow> 'b tx) \<Rightarrow> 'b tx" where
  "tx_bind m k db = (case m db of Inl e \<Rightarrow> Inl e | Inr (x, db') \<Rightarrow> k x db')"

text \<open>A read-only statement, a computation that may fail, and an early return on a condition.\<close>

definition tx_query :: "faults \<Rightarrow> string \<Rightarrow> (Db \<Rightarrow> 'a) \<Rightarrow> 'a tx" where
  "tx_query flt l q db = (if flt l then Inl (ErrDriver l) else Inr (q db, db))"

definition tx_lift :: "store_err + 'a \<Rightarrow> 'a tx" where
  "tx_lift m db = (case m of Inl e \<Rightarrow> Inl e | Inr x \<Rightarrow> Inr (x, db))"

definition tx_require :: "bool \<Rightarrow> store_err \<Rightarrow> unit tx" where
  "tx_require c e db = (if c then Inr ((), db) else Inl e)"

text \<open>A writing statement; \<open>w\<close> itself reports the constraint error.\<close>

definition tx_exec :: "faults \<Rightarrow> string \<Rightarrow> (Db \<Rightarrow> store_err + ('a \<times> Db)) \<Rightarrow> 'a tx" where
  "tx_exec flt l w db = (if flt l then Inl (ErrDriver l) else w db)"

text \<open>\<open>fmt.Errorf\<close> and the mapping of constraint errors: a function of the error.\<close>

definition tx_catch :: "'a tx \<Rightarrow> (store_err \<Rightarrow> store_err) \<Rightarrow> 'a tx" where
  "tx_catch m h db = (case m db of Inl e \<Rightarrow> Inl (h e) | Inr r \<Rightarrow> Inr r)"

text \<open>Branching on what a read sees, and on whether a statement failed.\<close>

definition tx_look :: "(Db \<Rightarrow> 'a) \<Rightarrow> ('a \<Rightarrow> 'b tx) \<Rightarrow> 'b tx" where
  "tx_look q k db = k (q db) db"

definition tx_handle :: "'a tx \<Rightarrow> (store_err \<Rightarrow> 'b tx) \<Rightarrow> ('a \<Rightarrow> 'b tx) \<Rightarrow> 'b tx" where
  "tx_handle m h k db = (case m db of Inl e \<Rightarrow> h e db | Inr (x, db') \<Rightarrow> k x db')"

fun tx_each :: "('x \<Rightarrow> unit tx) \<Rightarrow> 'x list \<Rightarrow> unit tx" where
  "tx_each f [] = tx_return ()"
| "tx_each f (x # xs) = tx_bind (f x) (\<lambda>_. tx_each f xs)"

text \<open>A loop that also reports whether one of its iterations changed something.\<close>

fun tx_any :: "('x \<Rightarrow> bool tx) \<Rightarrow> 'x list \<Rightarrow> bool tx" where
  "tx_any f [] = tx_return False"
| "tx_any f (x # xs) = tx_bind (f x) (\<lambda>c. tx_bind (tx_any f xs) (\<lambda>c'. tx_return (c \<or> c')))"

definition in_tx :: "faults \<Rightarrow> string \<Rightarrow> 'a tx \<Rightarrow> Db \<Rightarrow> (store_err + 'a) \<times> Db" where
  "in_tx flt l body db =
     (if flt l then (Inl (ErrDriver l), db)
      else case body db of Inl e \<Rightarrow> (Inl e, db) | Inr (x, db') \<Rightarrow> (Inr x, db'))"

definition auto_commit :: "'a tx \<Rightarrow> Db \<Rightarrow> (store_err + 'a) \<times> Db" where
  "auto_commit m db = (case m db of Inl e \<Rightarrow> (Inl e, db) | Inr (x, db') \<Rightarrow> (Inr x, db'))"

subsection \<open>The two commit paths\<close>

definition notify :: "Db \<Rightarrow> Db" where
  "notify db = db\<lparr>eventSignal := Notify (eventSignal db)\<rparr>"

definition tx_commit :: "faults \<Rightarrow> string \<Rightarrow> unit tx" where
  "tx_commit flt l db = (if flt l then Inl (ErrDriver l) else Inr ((), db))"

definition commitEventTx :: "faults \<Rightarrow> string \<Rightarrow> bool \<Rightarrow> unit tx" where
  "commitEventTx flt l emitted db =
     (if flt l then Inl (ErrDriver l) else Inr ((), if emitted then notify db else db))"

definition commitMutationTx :: "faults \<Rightarrow> string \<Rightarrow> bool \<Rightarrow> unit tx" where
  "commitMutationTx flt l changed db =
     (if flt l then Inl (ErrDriver l) else Inr ((), if changed then notify db else db))"

subsection \<open>Simulation of the parts\<close>

lemmas tx_defs = tx_return_def tx_fail_def tx_bind_def tx_query_def tx_lift_def tx_require_def
  tx_exec_def tx_catch_def tx_commit_def commitEventTx_def commitMutationTx_def

lemma in_tx_error_unchanged: "fst (in_tx flt l body db) = Inl e \<Longrightarrow> snd (in_tx flt l body db) = db"
  by (auto simp: in_tx_def split: sum.splits if_splits)

lemma auto_commit_error_unchanged: "fst (auto_commit m db) = Inl e \<Longrightarrow> snd (auto_commit m db) = db"
  by (auto simp: auto_commit_def split: sum.splits)

lemma tx_bind_Inr:
  "tx_bind m k db = Inr (y, db'') \<longleftrightarrow> (\<exists>x db'. m db = Inr (x, db') \<and> k x db' = Inr (y, db''))"
  by (auto simp: tx_bind_def split: sum.splits)

lemma tx_Inr_iffs [simp]:
  "tx_return x db = Inr (y, db') \<longleftrightarrow> y = x \<and> db' = db"
  "tx_fail e db = Inr (y', db') \<longleftrightarrow> False"
  "tx_query flt l q db = Inr (z, db') \<longleftrightarrow> \<not> flt l \<and> z = q db \<and> db' = db"
  "tx_require c e db = Inr (u, db') \<longleftrightarrow> c \<and> db' = db"
  "tx_lift m db = Inr (w, db') \<longleftrightarrow> m = Inr w \<and> db' = db"
  "tx_exec flt l s db = Inr (v, db') \<longleftrightarrow> \<not> flt l \<and> s db = Inr (v, db')"
  "tx_catch n h db = Inr (t, db') \<longleftrightarrow> n db = Inr (t, db')"
  "commitEventTx flt l emitted db = Inr (u, db') \<longleftrightarrow> \<not> flt l \<and> db' = (if emitted then notify db else db)"
  "commitMutationTx flt l emitted db = Inr (u, db') \<longleftrightarrow> \<not> flt l \<and> db' = (if emitted then notify db else db)"
  "tx_commit flt l db = Inr (u, db') \<longleftrightarrow> \<not> flt l \<and> db' = db"
  by (auto simp: tx_defs split: sum.splits)

locale db_relation =
  fixes R :: "Db \<Rightarrow> Db \<Rightarrow> bool"
  assumes R_refl: "R db db"
    and R_trans: "R a b \<Longrightarrow> R b c \<Longrightarrow> R a c"
    and R_notify: "R db (notify db)"
begin

definition steps :: "'a tx \<Rightarrow> Db \<Rightarrow> bool" where
  "steps m db \<longleftrightarrow> (\<forall>x db'. m db = Inr (x, db') \<longrightarrow> R db db')"

lemma stepsI: "(\<And>x db'. m db = Inr (x, db') \<Longrightarrow> R db db') \<Longrightarrow> steps m db"
  by (auto simp: steps_def)

lemma stepsD: "steps m db \<Longrightarrow> m db = Inr (x, db') \<Longrightarrow> R db db'"
  by (auto simp: steps_def)

lemma steps_return: "steps (tx_return x) db"
  by (simp add: steps_def R_refl)

lemma steps_fail: "steps (tx_fail e) db"
  by (simp add: steps_def)

lemma steps_query: "steps (tx_query flt l q) db"
  by (simp add: steps_def R_refl)

lemma steps_lift: "steps (tx_lift m) db"
  by (simp add: steps_def R_refl)

lemma steps_require: "steps (tx_require c e) db"
  by (simp add: steps_def R_refl)

lemma steps_bind:
  assumes "steps m db" and "\<And>x db'. m db = Inr (x, db') \<Longrightarrow> steps (k x) db'"
  shows "steps (tx_bind m k) db"
  using assms unfolding steps_def tx_bind_Inr by (blast intro: R_trans)

lemma steps_catch: "steps m db \<Longrightarrow> steps (tx_catch m h) db"
  by (simp add: steps_def)

lemma steps_commit: "steps (tx_commit flt l) db"
  by (simp add: steps_def R_refl)

lemma steps_commitEvent: "steps (commitEventTx flt l c) db"
  by (simp add: steps_def R_refl R_notify)

lemma steps_commitMutation: "steps (commitMutationTx flt l c) db"
  by (simp add: steps_def R_refl R_notify)

lemma steps_exec: "steps w db \<Longrightarrow> steps (tx_exec flt l w) db"
  by (simp add: steps_def)

lemma steps_if: "(c \<Longrightarrow> steps m db) \<Longrightarrow> (\<not> c \<Longrightarrow> steps n db) \<Longrightarrow> steps (if c then m else n) db"
  by simp

lemma steps_option:
  "(o' = None \<Longrightarrow> steps m db) \<Longrightarrow> (\<And>x. o' = Some x \<Longrightarrow> steps (k x) db) \<Longrightarrow>
   steps (case o' of None \<Rightarrow> m | Some x \<Rightarrow> k x) db"
  by (cases o') simp_all

lemma steps_look: "(\<And>x. x = q db \<Longrightarrow> steps (k x) db) \<Longrightarrow> steps (tx_look q k) db"
  by (simp add: steps_def tx_look_def)

lemma steps_handle:
  assumes "steps m db" and "\<And>e. steps (h e) db" and "\<And>x db'. steps (k x) db'"
  shows "steps (tx_handle m h k) db"
proof (rule stepsI)
  fix y db' assume run: "tx_handle m h k db = Inr (y, db')"
  show "R db db'"
  proof (cases "m db")
    case (Inl e)
    with run assms(2) show ?thesis by (simp add: tx_handle_def steps_def)
  next
    case (Inr r)
    obtain x db1 where r: "r = (x, db1)" by (cases r)
    with Inr run have "k x db1 = Inr (y, db')" by (simp add: tx_handle_def)
    with stepsD [OF assms(1) Inr [unfolded r]] stepsD [OF assms(3)] show ?thesis
      by (blast intro: R_trans)
  qed
qed

lemma steps_each: "(\<And>x db. x \<in> set xs \<Longrightarrow> steps (f x) db) \<Longrightarrow> steps (tx_each f xs) db"
  by (induction xs arbitrary: db) (auto intro!: steps_return steps_bind)

lemma steps_any: "(\<And>x db. x \<in> set xs \<Longrightarrow> steps (f x) db) \<Longrightarrow> steps (tx_any f xs) db"
  by (induction xs arbitrary: db) (auto intro!: steps_return steps_bind)

lemma in_tx_R: "steps body db \<Longrightarrow> R db (snd (in_tx flt l body db))"
  by (auto simp: in_tx_def R_refl dest: stepsD split: sum.splits)

lemma auto_commit_R: "steps m db \<Longrightarrow> R db (snd (auto_commit m db))"
  by (auto simp: auto_commit_def R_refl dest: stepsD split: sum.splits)

lemmas steps_rules = steps_return steps_fail steps_query steps_lift steps_require steps_bind
  steps_catch steps_commit steps_commitEvent steps_commitMutation steps_exec steps_if steps_option
  steps_each steps_any steps_look steps_handle

end

end
