(* ===== verification/Store_Relation.thy ===== *)
theory Store_Relation
  imports Store_Schema
begin

section \<open>Events, fan-out, and what a relation must satisfy to hold for every operation\<close>

text \<open>
  The statements that append to the event log and to the delivery queue, \<open>emitDownloadEvent\<close>, and
  the locales over \<open>db_relation\<close>: a relation on databases that every kind of write statement
  satisfies holds, by the lemmas of the component theories, for every operation of the store.
\<close>

subsection \<open>Appending events and deliveries\<close>

definition wrap :: "string \<Rightarrow> store_err \<Rightarrow> store_err" where
  "wrap l e = ErrDriver l"

definition insert_event ::
    "string \<Rightarrow> EventType \<Rightarrow> AggregateType \<Rightarrow> string \<Rightarrow> int \<Rightarrow> Payload \<Rightarrow> time \<Rightarrow> unit tx" where
  "insert_event evID ty agg aggID ver payload occurredAt db =
     (if evID \<in> ev_id ` set (domain_events db) then Inl ErrConstraint
      else Inr ((), db\<lparr>domain_events := domain_events db @
             [\<lparr>ev_sequence = last_sequence db + 1, ev_id = evID, ev_type = ty, ev_aggregate_type = agg,
               ev_aggregate_id = aggID, ev_aggregate_version = ver, ev_payload = payload,
               ev_occurred_at = occurredAt\<rparr>],
             last_sequence := last_sequence db + 1\<rparr>))"

definition insert_delivery ::
    "string \<Rightarrow> int \<Rightarrow> string \<Rightarrow> EventType \<Rightarrow> AggregateType \<Rightarrow> string \<Rightarrow> time \<Rightarrow> time \<Rightarrow> delivery_row tx"
    where
  "insert_delivery eventID endpointID endpointName ty agg aggID nextAt createdAt db =
     (if list_ex (\<lambda>v. v_event_id v = eventID \<and> v_endpoint_id v = endpointID) (webhook_deliveries db)
      then Inl ErrConstraint
      else if eventID \<notin> ev_id ` set (domain_events db) \<or> endpointID \<notin> e_id ` set (webhook_endpoints db)
        then Inl (ErrDriver ''FOREIGN KEY constraint failed'')
      else
        (let row = \<lparr>v_id = last_delivery_id db + 1, v_event_id = eventID, v_endpoint_id = endpointID,
               v_endpoint_name = endpointName, v_event_type = ty, v_aggregate_type = agg,
               v_aggregate_id = aggID, v_status = StatusPending, v_attempt_count = 0,
               v_first_attempt_at = None, v_next_attempt_at = Some nextAt, v_lease_owner = None,
               v_lease_until = None, v_last_http_status = None, v_last_error = None,
               v_delivered_at = None, v_created_at = createdAt, v_updated_at = createdAt, v_row_version = 0\<rparr>
         in Inr (row, db\<lparr>webhook_deliveries := webhook_deliveries db @ [row],
                         last_delivery_id := last_delivery_id db + 1\<rparr>)))"

text \<open>\<open>ListSubscribedEndpoints\<close>: enabled, not deleted, subscribed, by ascending id.\<close>

definition list_subscribed :: "EventType \<Rightarrow> Db \<Rightarrow> endpoint_row list" where
  "list_subscribed ty db =
     sort_key e_id (filter (\<lambda>e. (e_id e, ty) \<in> set (webhook_subscriptions db) \<and> e_enabled e = 1
       \<and> e_deleted_at e = None) (webhook_endpoints db))"

text \<open>
  \<open>oob\<close> is Go's implementation-defined float-to-integer conversion out of range; \<open>eventID\<close> is what
  \<open>NewEventID\<close> drew.
\<close>

definition emitDownloadEvent ::
    "faults \<Rightarrow> (float64 \<Rightarrow> int) \<Rightarrow> string \<Rightarrow> EventType \<Rightarrow> State \<Rightarrow> Download \<Rightarrow> unit tx" where
  "emitDownloadEvent flt oob eventID eventType previousState after =
     tx_bind (tx_lift (case BuildDownloadPayload oob eventID eventType previousState after of
                None \<Rightarrow> Inl (ErrDriver ''serialize event'') | Some p \<Rightarrow> Inr p)) (\<lambda>payload.
     tx_bind (tx_catch (tx_exec flt ''insert event''
                (insert_event eventID eventType AggregateDownload (dHash after) (dRowVersion after)
                  payload (dUpdatedAt after))) (wrap ''insert event'')) (\<lambda>_.
     if eventType \<noteq> EventTypeCompleted \<and> eventType \<noteq> EventTypeFailed then tx_return ()
     else
       tx_bind (tx_query flt ''list subscribers'' (list_subscribed eventType)) (\<lambda>endpoints.
       tx_each (\<lambda>endpoint.
         tx_bind (tx_catch (tx_exec flt ''fan out delivery''
           (insert_delivery eventID (e_id endpoint) (e_name endpoint) eventType AggregateDownload
             (dHash after) (dUpdatedAt after) (dUpdatedAt after))) (wrap ''fan out delivery''))
           (\<lambda>_. tx_return ())) endpoints)))"

subsection \<open>The locales\<close>

locale event_relation = db_relation +
  assumes R_event: "insert_event evID ty agg aggID ver payload occurredAt db = Inr (u, db') \<Longrightarrow> R db db'"
    and R_delivery: "insert_delivery eID endID nm ty agg aggID n t db = Inr (v, db') \<Longrightarrow> R db db'"
begin

lemma steps_event: "steps (insert_event evID ty agg aggID ver payload t) db"
  by (rule stepsI) (rule R_event)

lemma steps_delivery: "steps (insert_delivery eID endID nm ty agg aggID n t) db"
  by (rule stepsI) (rule R_delivery)

lemma steps_emit: "steps (emitDownloadEvent flt oob eid ty prev after) db"
  unfolding emitDownloadEvent_def
  by (intro steps_rules steps_event steps_delivery)

end

text \<open>
  A lawful write moves the version by one, keeps the key, and follows the lifecycle.  Its paths are
  either untouched or accepted by the guards.
\<close>

definition lawful :: "download_row \<Rightarrow> download_row \<Rightarrow> bool" where
  "lawful r r' \<longleftrightarrow> r_hash r' = r_hash r \<and> r_row_version r' = r_row_version r + 1 \<and>
     (State_Valid (r_state r) \<longrightarrow> r_state r' = r_state r \<or> CanTransition (r_state r) (r_state r'))"

definition same_tree :: "download_row \<Rightarrow> download_row \<Rightarrow> bool" where
  "same_tree r r' \<longleftrightarrow> r_save_path r' = r_save_path r \<and> r_workspace_path r' = r_workspace_path r
     \<and> r_destination_name r' = r_destination_name r \<and> r_state r' = r_state r
     \<and> r_content_path r' = r_content_path r
     \<and> r_delete_files_requested r' = r_delete_files_requested r"

definition guarded_write :: "Db \<Rightarrow> download_row \<Rightarrow> download_row \<Rightarrow> bool" where
  "guarded_write db r r' \<longleftrightarrow> \<not> guard_rejects db r' \<and> \<not> index_rejects db r' \<and>
     (r_save_path r' = r_save_path r \<or> \<not> path_reserved (r_save_path r'))"

definition fresh_row :: "Db \<Rightarrow> download_row \<Rightarrow> bool" where
  "fresh_row db row \<longleftrightarrow> r_hash row \<notin> r_hash ` set (downloads db) \<and> \<not> guard_rejects db row
     \<and> \<not> index_rejects db row \<and> \<not> path_reserved (r_save_path row)"

locale download_relation = event_relation +
  assumes R_plain: "(\<And>r. P r \<Longrightarrow> lawful r (f r) \<and> same_tree r (f r)) \<Longrightarrow>
      R db (db\<lparr>downloads := sql_update P f (downloads db)\<rparr>)"
    and R_guarded: "(\<And>r. P r \<Longrightarrow> r_hash r = h \<and> lawful r (f r)) \<Longrightarrow>
      (\<And>r. r \<in> set (downloads db) \<Longrightarrow> P r \<Longrightarrow> guarded_write db r (f r)) \<Longrightarrow>
      R db (db\<lparr>downloads := sql_update P f (downloads db)\<rparr>)"
    and R_insert: "fresh_row db row \<Longrightarrow> R db (db\<lparr>downloads := downloads db @ [row]\<rparr>)"
    and R_files: "R db (db\<lparr>download_files := fs\<rparr>)"
    and R_overrides: "R db (db\<lparr>file_overrides := os\<rparr>)"
    and R_tags: "R db (db\<lparr>qbt_tags := ts\<rparr>)"
    and R_categories: "(\<And>c. c \<in> set cs \<Longrightarrow> g_save_path c \<in> g_save_path ` set (categories db) \<or>
        \<not> guard_category_rejects db (g_save_path c)) \<Longrightarrow> R db (db\<lparr>categories := cs\<rparr>)"
begin

lemma steps_plain:
  assumes "\<And>r. P r \<Longrightarrow> lawful r (f r) \<and> same_tree r (f r)"
  shows "steps (update_plain P f) db"
  using R_plain [OF assms] by (auto simp: steps_def update_plain_def)

lemma steps_guarded:
  assumes "\<And>r. P r \<Longrightarrow> r_hash r = h \<and> lawful r (f r)"
    and "sets_save \<or> (\<forall>r. P r \<longrightarrow> r_save_path (f r) = r_save_path r)"
  shows "steps (update_guarded sets_save P f) db"
proof (rule stepsI)
  fix x db' assume u: "update_guarded sets_save P f db = Inr (x, db')"
  then have ok: "\<And>r. r \<in> set (downloads db) \<Longrightarrow> P r \<Longrightarrow> guarded_write db r (f r)"
    using assms(2) by (fastforce simp: update_guarded_def guarded_write_def list_ex_iff split: if_splits)
  from u have "db' = db\<lparr>downloads := sql_update P f (downloads db)\<rparr>"
    by (auto simp: update_guarded_def update_plain_def split: if_splits)
  with R_guarded [where f = f and h = h, OF assms(1) ok] show "R db db'" by simp
qed

lemma steps_insert: "steps (insert_download row) db"
proof (rule stepsI)
  fix x db' assume "insert_download row db = Inr (x, db')"
  then have "fresh_row db row" and "db' = db\<lparr>downloads := downloads db @ [row]\<rparr>"
    by (auto simp: insert_download_def fresh_row_def sql_get_None_iff split: if_splits)
  with R_insert show "R db db'" by simp
qed

end

locale outbox_relation = event_relation +
  assumes R_deliveries: "(\<And>v. P v \<Longrightarrow> v_id (f v) = v_id v \<and> v_row_version (f v) = v_row_version v + 1
        \<and> v_event_id (f v) = v_event_id v \<and> v_endpoint_id (f v) = v_endpoint_id v) \<Longrightarrow>
      R db (db\<lparr>webhook_deliveries := sql_update P f (webhook_deliveries db)\<rparr>)"
    and R_prune: "R db (db\<lparr>webhook_deliveries := filter Q (webhook_deliveries db)\<rparr>)"
    and R_endpoints: "(\<And>e. PE e \<Longrightarrow> e_id (g e) = e_id e) \<Longrightarrow>
      R db (db\<lparr>webhook_endpoints := sql_update PE g (webhook_endpoints db)\<rparr>)"
    and R_new_endpoint: "e_id row = last_endpoint_id db + 1 \<Longrightarrow>
      R db (db\<lparr>webhook_endpoints := webhook_endpoints db @ [row],
               last_endpoint_id := last_endpoint_id db + 1\<rparr>)"
    and R_subscriptions: "R db (db\<lparr>webhook_subscriptions := subs\<rparr>)"

locale store_relation = download_relation + outbox_relation

text \<open>
  What an operation draws from outside: the driver's faults, the float conversion, the identifiers
  of the events it emits (by aggregate), and the secret of a new endpoint.
\<close>

record Env =
  faulty :: faults
  floatOob :: "float64 \<Rightarrow> int"
  freshID :: "string \<Rightarrow> string"
  freshSecret :: string

definition emit :: "Env \<Rightarrow> EventType \<Rightarrow> State \<Rightarrow> Download \<Rightarrow> unit tx" where
  "emit env ty prev d =
     emitDownloadEvent (faulty env) (floatOob env) (freshID env (dHash d)) ty prev d"

context event_relation
begin

lemma steps_emit_env: "steps (emit env ty prev d) db"
  unfolding emit_def by (rule steps_emit)

end

definition conflict :: "string \<Rightarrow> store_err \<Rightarrow> store_err" where
  "conflict l e = (if destinationConstraint e then ErrDestinationConflict else ErrDriver l)"

text \<open>\<open>GetDownload\<close> inside a transaction: the row or \<open>sql.ErrNoRows\<close>.\<close>

definition get_row :: "faults \<Rightarrow> string \<Rightarrow> string \<Rightarrow> download_row option tx" where
  "get_row flt l hash = tx_query flt l (\<lambda>db. sql_get r_hash hash (downloads db))"

text \<open>Reading back the row just written, which the code treats as an error when it is missing.\<close>

definition reread :: "faults \<Rightarrow> string \<Rightarrow> string \<Rightarrow> download_row tx" where
  "reread flt l hash =
     tx_bind (get_row flt l hash) (\<lambda>found. case found of None \<Rightarrow> tx_fail (ErrDriver l) | Some row \<Rightarrow> tx_return row)"

context event_relation
begin

lemma steps_get_row: "steps (get_row flt l hash) db"
  unfolding get_row_def by (rule steps_query)

lemma steps_reread: "steps (reread flt l hash) db"
  unfolding reread_def by (intro steps_rules steps_get_row)

end

end
