(* ===== verification/Store_Downloads.thy ===== *)
theory Store_Downloads
  imports Store_Relation
begin

section \<open>The download repository (internal/store: repository.go, queries/*.sql)\<close>

text \<open>
  Every operation of the repository on categories, downloads, their files and file overrides, with
  the SQL statement it runs.  An operation takes the environment \<open>env\<close>, its Go arguments and the
  database, and returns the error or the value with the database it leaves.  Reads that the code
  makes after a rollback see the database that the rolled-back transaction started from.
\<close>

subsection \<open>Validation of arguments\<close>

definition safeCategoryName :: "string \<Rightarrow> bool" where
  "safeCategoryName v \<longleftrightarrow>
     (if v = [] \<or> v = ''.'' \<or> v = ''..'' \<or> \<not> utf8_valid v \<or> is_abs v then False
      else list_all (\<lambda>r. \<not> (r = 47 \<or> r = 92 \<or> is_control r)) (runes v))"

definition store_absolutePath :: "string \<Rightarrow> bool" where
  "store_absolutePath p \<longleftrightarrow> p \<noteq> [] \<and> is_abs p"

definition validateCategory :: "Category \<Rightarrow> store_err option" where
  "validateCategory c =
     (if \<not> safeCategoryName (catName c) \<or> \<not> store_absolutePath (catCloudPath c)
         \<or> \<not> store_absolutePath (catSavePath c) \<or> time_is_zero (catCreatedAt c)
         \<or> time_is_zero (catUpdatedAt c) \<or> catUpdatedAt c < catCreatedAt c
      then Some (ErrText ''category is invalid'') else None)"

definition categoryFromDB :: "category_row \<Rightarrow> store_err + Category" where
  "categoryFromDB row =
     (if (g_enabled row \<noteq> 0 \<and> g_enabled row \<noteq> 1) \<or> \<not> safeCategoryName (g_name row)
         \<or> \<not> store_absolutePath (g_cloud_path row) \<or> \<not> store_absolutePath (g_save_path row)
         \<or> time_is_zero (g_created_at row) \<or> time_is_zero (g_updated_at row)
         \<or> g_updated_at row < g_created_at row
      then Inl (ErrText ''stored category is invalid'')
      else Inr \<lparr>catName = g_name row, catCloudPath = g_cloud_path row, catSavePath = g_save_path row,
             catEnabled = (g_enabled row = 1), catCreatedAt = g_created_at row,
             catUpdatedAt = g_updated_at row\<rparr>)"

text \<open>The files of a submission: each names the download, is numbered by position, has a size.\<close>

fun files_valid :: "string \<Rightarrow> int \<Rightarrow> DownloadFile list \<Rightarrow> bool" where
  "files_valid h i [] = True"
| "files_valid h i (f # fs) =
     (if fDownloadHash f \<noteq> h \<or> fIndex f \<noteq> i \<or> fSize f < 0 then False else files_valid h (i + 1) fs)"

definition validateSubmission :: "Submission \<Rightarrow> store_err option" where
  "validateSubmission s =
     (let d = subDownload s
      in case ValidateDownload d of
           Some e \<Rightarrow> Some (ErrText e)
         | None \<Rightarrow>
             (if dState d \<noteq> StateAccepted \<and> dState d \<noteq> StateStopped \<and> dState d \<noteq> StateVerifyingLocal
              then Some ErrInvalidTransition
              else if dLeaseOwner d \<noteq> [] \<or> dLeaseUntil d \<noteq> None
                then Some (ErrText ''initial submission must not have a lease'')
              else if \<not> files_valid (dHash d) 0 (subFiles s)
                then Some (ErrText ''submission files are invalid'')
              else None))"

fun convert_all :: "('r \<Rightarrow> store_err + 'a) \<Rightarrow> 'r list \<Rightarrow> store_err + 'a list" where
  "convert_all f [] = Inr []"
| "convert_all f (r # rs) = and_then (f r) (\<lambda>x. and_then (convert_all f rs) (\<lambda>xs. Inr (x # xs)))"

subsection \<open>Categories\<close>

definition upsert_category :: "category_row \<Rightarrow> category_row tx" where
  "upsert_category c db =
     (if guard_category_rejects db (g_save_path c) then Inl ErrConstraint
      else case sql_get g_name (g_name c) (categories db) of
          None \<Rightarrow> Inr (c, db\<lparr>categories := categories db @ [c]\<rparr>)
        | Some old \<Rightarrow>
            (let upd = (\<lambda>r. r\<lparr>g_cloud_path := g_cloud_path c, g_save_path := g_save_path c,
                          g_enabled := g_enabled c, g_updated_at := g_updated_at c\<rparr>)
             in Inr (upd old, db\<lparr>categories :=
                       sql_update (\<lambda>r. g_name r = g_name c) upd (categories db)\<rparr>)))"

definition UpsertCategory :: "Env \<Rightarrow> Category \<Rightarrow> Db \<Rightarrow> (store_err + Category) \<times> Db" where
  "UpsertCategory env category db =
     (case validateCategory category of
        Some e \<Rightarrow> (Inl e, db)
      | None \<Rightarrow>
          (let enabled = (if catEnabled category then 1 else 0);
               row = \<lparr>g_name = catName category, g_cloud_path = catCloudPath category,
                 g_save_path = catSavePath category, g_enabled = enabled,
                 g_created_at = catCreatedAt category, g_updated_at = catUpdatedAt category\<rparr>
           in case auto_commit (tx_catch (tx_exec (faulty env) ''upsert category'' (upsert_category row))
                    (conflict ''upsert category'')) db of
                (Inl e, db') \<Rightarrow> (Inl e, db')
              | (Inr stored, db') \<Rightarrow> (categoryFromDB stored, db')))"

definition GetCategory :: "Env \<Rightarrow> string \<Rightarrow> Db \<Rightarrow> store_err + Category" where
  "GetCategory env name db =
     stmt (faulty env) ''get category''
       (case sql_get g_name name (categories db) of
          None \<Rightarrow> Inl ErrNotFound | Some row \<Rightarrow> categoryFromDB row)"

definition ListCategories :: "Env \<Rightarrow> Db \<Rightarrow> store_err + Category list" where
  "ListCategories env db =
     stmt (faulty env) ''list categories'' (convert_all categoryFromDB (sort_key g_name (categories db)))"

subsection \<open>Submissions\<close>

definition delete_files :: "string \<Rightarrow> unit tx" where
  "delete_files hash db =
     Inr ((), db\<lparr>download_files := filter (\<lambda>f. fr_download_hash f \<noteq> hash) (download_files db)\<rparr>)"

definition insert_file :: "file_row \<Rightarrow> unit tx" where
  "insert_file f db =
     (if sql_get r_hash (fr_download_hash f) (downloads db) = None
         \<or> list_ex (\<lambda>g. fr_download_hash g = fr_download_hash f \<and> fr_file_index g = fr_file_index f)
             (download_files db)
      then Inl (ErrDriver ''constraint failed: download_files'')
      else Inr ((), db\<lparr>download_files := download_files db @ [f]\<rparr>))"

definition file_params :: "DownloadFile \<Rightarrow> file_row" where
  "file_params f = \<lparr>fr_download_hash = fDownloadHash f, fr_file_index = fIndex f,
     fr_relative_path = fRelativePath f, fr_size = fSize f\<rparr>"

definition revive_where :: "string \<Rightarrow> download_row \<Rightarrow> bool" where
  "revive_where hash r \<longleftrightarrow> r_hash r = hash \<and> r_state r = StateDeleted"

definition revive_download :: "Download \<Rightarrow> nat tx" where
  "revive_download d = update_guarded True (revive_where (dHash d)) (reviveDownloadParams d)"

text \<open>Commits without writing when a live download has the hash already.\<close>

definition duplicate :: "Env \<Rightarrow> Download \<Rightarrow> (Download \<times> bool) tx" where
  "duplicate env d =
     tx_bind (tx_commit (faulty env) ''commit duplicate submission'') (\<lambda>_. tx_return (d, False))"

definition store_submission :: "Env \<Rightarrow> State \<Rightarrow> Submission \<Rightarrow> (Download \<times> bool) tx" where
  "store_submission env previousState s =
     tx_bind (tx_each (\<lambda>f. tx_catch (tx_exec (faulty env) ''insert submission file''
                (insert_file (file_params f))) (wrap ''insert submission file'')) (subFiles s)) (\<lambda>_.
     tx_bind (reread (faulty env) ''read created submission'' (dHash (subDownload s))) (\<lambda>row.
     tx_bind (tx_lift (downloadFromDB row)) (\<lambda>d.
     tx_bind (emit env EventTypeCreated previousState d) (\<lambda>_.
     tx_bind (commitEventTx (faulty env) ''commit submission'' True) (\<lambda>_. tx_return (d, True))))))"

definition revive_submission :: "Env \<Rightarrow> State \<Rightarrow> Submission \<Rightarrow> (Download \<times> bool) tx" where
  "revive_submission env previousState s =
     tx_bind (tx_catch (tx_exec (faulty env) ''revive submission'' (revive_download (subDownload s)))
                (conflict ''revive submission'')) (\<lambda>_.
     tx_bind (tx_exec (faulty env) ''replace submission files'' (delete_files (dHash (subDownload s)))) (\<lambda>_.
     store_submission env previousState s))"

text \<open>
  When the insert fails, the row of a concurrent winner is returned if there is a live one; the
  failed statement has left the database as it was.
\<close>

definition insert_submission :: "Env \<Rightarrow> Submission \<Rightarrow> (Download \<times> bool) tx" where
  "insert_submission env s =
     tx_handle
       (tx_exec (faulty env) ''insert submission'' (insert_download (insertDownloadParams (subDownload s))))
       (\<lambda>insertErr.
         tx_look (\<lambda>db. if faulty env ''read winner'' then None
                       else sql_get r_hash (dHash (subDownload s)) (downloads db)) (\<lambda>found.
         case found of
           None \<Rightarrow> tx_fail (conflict ''insert submission'' insertErr)
         | Some winner \<Rightarrow>
             tx_bind (tx_lift (downloadFromDB winner)) (\<lambda>d.
             if dState d \<noteq> StateDeleted then duplicate env d
             else tx_fail (conflict ''insert submission'' insertErr))))
       (\<lambda>_. store_submission env (StateOther []) s)"

definition CreateSubmission :: "Env \<Rightarrow> Submission \<Rightarrow> Db \<Rightarrow> (store_err + (Download \<times> bool)) \<times> Db" where
  "CreateSubmission env s db =
     (case validateSubmission s of
        Some e \<Rightarrow> (Inl e, db)
      | None \<Rightarrow>
          in_tx (faulty env) ''begin submission''
            (tx_look (\<lambda>db. if faulty env ''read existing'' then None
                           else sql_get r_hash (dHash (subDownload s)) (downloads db)) (\<lambda>found.
             case found of
               None \<Rightarrow> insert_submission env s
             | Some existing \<Rightarrow>
                 tx_bind (tx_lift (downloadFromDB existing)) (\<lambda>d.
                 if dState d \<noteq> StateDeleted then duplicate env d
                 else revive_submission env (dState d) s))) db)"

subsection \<open>Reads\<close>

definition GetDownload :: "Env \<Rightarrow> string \<Rightarrow> Db \<Rightarrow> store_err + Download" where
  "GetDownload env hash db =
     stmt (faulty env) ''get download''
       (case sql_get r_hash hash (downloads db) of
          None \<Rightarrow> Inl ErrNotFound | Some row \<Rightarrow> downloadFromDB row)"

text \<open>\<open>ORDER BY created_at DESC, hash ASC\<close>.\<close>

definition newest_first :: "download_row list \<Rightarrow> download_row list" where
  "newest_first rows = sort_key (\<lambda>r. Due (- r_created_at r) 0 (r_hash r)) rows"

definition row_visible :: "download_row \<Rightarrow> bool" where
  "row_visible r \<longleftrightarrow> r_removed_at r = None \<or>
     (r_state r = StateDeleteRequested \<and> r_last_error r \<noteq> None)"

definition ListDownloads :: "Env \<Rightarrow> string option \<Rightarrow> Db \<Rightarrow> store_err + Download list" where
  "ListDownloads env category db =
     stmt (faulty env) ''list downloads''
       (convert_all downloadFromDB
         (newest_first
           (case category of
              None \<Rightarrow> filter row_visible (downloads db)
            | Some c \<Rightarrow> filter (\<lambda>r. r_category r = c \<and> row_visible r) (downloads db))))"

definition ListAllDownloads :: "Env \<Rightarrow> Db \<Rightarrow> store_err + Download list" where
  "ListAllDownloads env db =
     stmt (faulty env) ''list all downloads'' (convert_all downloadRow (newest_first (downloads db)))"

text \<open>The two branches of the UNION in \<open>NextDue\<close>: a row is due at its run time or its lease expiry.\<close>

definition workflow_ended :: "State \<Rightarrow> bool" where
  "workflow_ended s \<longleftrightarrow> s \<in> {StateCompleted, StateFailed, StateCancelled, StateDeleted}"

definition due_times :: "time \<Rightarrow> download_row \<Rightarrow> time list" where
  "due_times now r =
     (if r_state r = StateStopped \<or> workflow_ended (r_state r) then []
      else case r_next_run_at r of
          None \<Rightarrow> []
        | Some next \<Rightarrow>
            (case r_lease_until r of
               None \<Rightarrow> [next]
             | Some lease \<Rightarrow>
                 (if lease \<le> now \<or> lease \<le> next then [next] else []) @
                 (if now < lease \<and> next < lease then [lease] else [])))"

definition NextDue :: "Env \<Rightarrow> time \<Rightarrow> Db \<Rightarrow> store_err + time option" where
  "NextDue env now db =
     (if time_is_zero now then Inl (ErrText ''due time is required'')
      else stmt (faulty env) ''get next due''
        (case first_by id (concat (map (due_times now) (downloads db))) of
           None \<Rightarrow> Inr None
         | Some t \<Rightarrow>
             if time_is_zero t then Inl (ErrText ''stored next due is invalid'') else Inr (Some t)))"

definition files_of :: "string \<Rightarrow> Db \<Rightarrow> file_row list" where
  "files_of hash db = sort_key fr_file_index (filter (\<lambda>f. fr_download_hash f = hash) (download_files db))"

definition overrides_of :: "string \<Rightarrow> Db \<Rightarrow> FileOverride list" where
  "overrides_of hash db = sort_key oFileIndex (filter (\<lambda>f. oDownloadHash f = hash) (file_overrides db))"

text \<open>The priority of a listed file is the zero value of the Go struct: the table has no column for it.\<close>

definition fileFromDB :: "file_row \<Rightarrow> store_err + DownloadFile" where
  "fileFromDB f =
     (if fr_file_index f < 0 \<or> fr_size f < 0 then Inl (ErrText ''stored download file is invalid'')
      else Inr \<lparr>fDownloadHash = fr_download_hash f, fIndex = fr_file_index f,
             fRelativePath = fr_relative_path f, fSize = fr_size f, fPriority = 0\<rparr>)"

definition ListDownloadFiles :: "Env \<Rightarrow> string \<Rightarrow> Db \<Rightarrow> store_err + DownloadFile list" where
  "ListDownloadFiles env hash db =
     stmt (faulty env) ''list download files'' (convert_all fileFromDB (files_of hash db))"

definition ListDownloadFileOverrides :: "Env \<Rightarrow> string \<Rightarrow> Db \<Rightarrow> store_err + FileOverride list" where
  "ListDownloadFileOverrides env hash db =
     stmt (faulty env) ''list file overrides'' (Inr (overrides_of hash db))"

subsection \<open>The operations run lawful statements\<close>

lemma revive_lawful:
  assumes "dState d = StateAccepted \<or> dState d = StateStopped \<or> dState d = StateVerifyingLocal"
    and "revive_where (dHash d) r"
  shows "r_hash r = dHash d \<and> lawful r (reviveDownloadParams d r)"
  using assms by (auto simp: revive_where_def lawful_def reviveDownloadParams_def CanTransition_def)

lemma validateSubmission_state:
  "validateSubmission s = None \<Longrightarrow>
   valid_download (subDownload s) \<and> (dState (subDownload s) = StateAccepted \<or>
     dState (subDownload s) = StateStopped \<or> dState (subDownload s) = StateVerifyingLocal)"
  by (auto simp: validateSubmission_def Let_def split: option.splits if_splits)

context download_relation
begin

lemma steps_upsert_category: "steps (upsert_category c) db"
proof (rule stepsI)
  fix x db' assume u: "upsert_category c db = Inr (x, db')"
  then have ok: "\<not> guard_category_rejects db (g_save_path c)"
    by (auto simp: upsert_category_def split: if_splits)
  have "\<And>k. k \<in> set (categories db') \<Longrightarrow> k \<in> set (categories db) \<or> g_save_path k = g_save_path c"
    and db': "db' = db\<lparr>categories := categories db'\<rparr>"
    using u by (auto simp: upsert_category_def Let_def set_sql_update split: if_splits option.splits)
  then have "R db (db\<lparr>categories := categories db'\<rparr>)"
    using ok by (intro R_categories) (metis imageI)
  with db' show "R db db'" by simp
qed

lemma UpsertCategory_R: "R db (snd (UpsertCategory env category db))"
proof (cases "validateCategory category")
  case None
  define row where "row = \<lparr>g_name = catName category, g_cloud_path = catCloudPath category,
    g_save_path = catSavePath category, g_enabled = (if catEnabled category then 1 else 0),
    g_created_at = catCreatedAt category, g_updated_at = catUpdatedAt category\<rparr>"
  have "snd (UpsertCategory env category db) =
      snd (auto_commit (tx_catch (tx_exec (faulty env) ''upsert category'' (upsert_category row))
             (conflict ''upsert category'')) db)"
    unfolding UpsertCategory_def None row_def Let_def option.case
    by (simp split: prod.splits sum.splits)
  also have "R db \<dots>" by (intro auto_commit_R steps_rules steps_upsert_category)
  finally show ?thesis .
qed (simp add: UpsertCategory_def R_refl)

lemma steps_delete_files: "steps (delete_files hash) db"
  using R_files by (auto simp: steps_def delete_files_def)

lemma steps_insert_file: "steps (insert_file f) db"
  using R_files by (auto simp: steps_def insert_file_def)

lemma steps_store_submission: "steps (store_submission env prev s) db"
  unfolding store_submission_def
  by (intro steps_rules steps_insert_file steps_reread steps_emit_env)

lemma steps_duplicate: "steps (duplicate env d) db"
  unfolding duplicate_def by (intro steps_rules)

lemma steps_revive:
  assumes "dState d = StateAccepted \<or> dState d = StateStopped \<or> dState d = StateVerifyingLocal"
  shows "steps (revive_download d) db"
  unfolding revive_download_def
  by (rule steps_guarded [where h = "dHash d"]) (simp_all add: revive_lawful [OF assms])

lemma steps_insert_submission: "steps (insert_submission env s) db"
  unfolding insert_submission_def
  by (intro steps_rules steps_insert steps_duplicate steps_store_submission)

lemma CreateSubmission_R: "R db (snd (CreateSubmission env s db))"
proof (cases "validateSubmission s")
  case None
  note st = conjunct2 [OF validateSubmission_state [OF None]]
  have "steps (revive_submission env prev s) db" for prev db
    unfolding revive_submission_def
    by (intro steps_rules steps_revive st steps_delete_files steps_store_submission)
  with None show ?thesis
    by (auto simp: CreateSubmission_def
        intro!: in_tx_R steps_rules steps_insert_submission steps_duplicate)
qed (simp add: CreateSubmission_def R_refl)

end

end
