(* ===== verification/Store_Fields.thy ===== *)
theory Store_Fields
  imports Store_Downloads "HOL-Library.AList"
begin

section \<open>Field updates of a download (internal/store: repository.go)\<close>

text \<open>
  Tags, automatic management, starting many, save paths, names, file overrides and priorities.
  Most of these loop over hashes in one transaction: an error on any of them discards all.
\<close>

subsection \<open>Tags and automatic management\<close>

definition live_where :: "string \<Rightarrow> download_row \<Rightarrow> bool" where
  "live_where hash r \<longleftrightarrow> r_hash r = hash \<and> r_state r \<noteq> StateDeleted"

definition UpdateDownloadTags :: "string \<Rightarrow> time \<Rightarrow> string \<Rightarrow> nat tx" where
  "UpdateDownloadTags tags now hash =
     update_plain (live_where hash)
       (\<lambda>r. r\<lparr>r_tags := tags, r_updated_at := now, r_row_version := r_row_version r + 1\<rparr>)"

definition UpdateDownloadAutoTMM :: "int \<Rightarrow> time \<Rightarrow> string \<Rightarrow> nat tx" where
  "UpdateDownloadAutoTMM v now hash =
     update_plain (live_where hash)
       (\<lambda>r. r\<lparr>r_auto_tmm := v, r_updated_at := now, r_row_version := r_row_version r + 1\<rparr>)"

definition TouchDownload :: "time \<Rightarrow> string \<Rightarrow> nat tx" where
  "TouchDownload now hash =
     update_plain (live_where hash)
       (\<lambda>r. r\<lparr>r_updated_at := now, r_row_version := r_row_version r + 1\<rparr>)"

text \<open>
  The row of a hash, or \<open>ErrNotFound\<close>; and the check that exactly one row was updated.
\<close>

definition need_row :: "Env \<Rightarrow> string \<Rightarrow> download_row tx" where
  "need_row env hash =
     tx_bind (get_row (faulty env) ''get download'' hash) (\<lambda>found.
     case found of None \<Rightarrow> tx_fail ErrNotFound | Some row \<Rightarrow> tx_return row)"

definition one_row :: "nat \<Rightarrow> unit tx" where
  "one_row updated = tx_require (updated = 1) ErrInvalidTransition"

definition update_field_one ::
    "Env \<Rightarrow> time \<Rightarrow> string option \<Rightarrow> bool option \<Rightarrow> string \<Rightarrow> bool tx" where
  "update_field_one env now tags autoTMM hash =
     tx_bind (need_row env hash) (\<lambda>before.
     tx_bind (tx_require (r_state before \<noteq> StateDeleted) ErrInvalidTransition) (\<lambda>_.
     case tags of
       Some t \<Rightarrow>
         if r_tags before = t then tx_return False
         else tx_bind (tx_exec (faulty env) ''update tags'' (UpdateDownloadTags t now hash)) (\<lambda>updated.
              tx_bind (one_row updated) (\<lambda>_. tx_return True))
     | None \<Rightarrow>
         (let v = boolInteger (autoTMM = Some True)
          in if r_auto_tmm before = v then tx_return False
             else tx_bind (tx_exec (faulty env) ''update auto tmm'' (UpdateDownloadAutoTMM v now hash)) (\<lambda>updated.
                  tx_bind (one_row updated) (\<lambda>_. tx_return True)))))"

definition updateDownloadField ::
    "Env \<Rightarrow> string list \<Rightarrow> time \<Rightarrow> string option \<Rightarrow> bool option \<Rightarrow> Db \<Rightarrow> (store_err + unit) \<times> Db" where
  "updateDownloadField env hashes now tags autoTMM db =
     (if hashes = [] \<or> time_is_zero now then (Inl ErrInvalidTransition, db)
      else in_tx (faulty env) ''begin download update''
        (tx_bind (tx_any (update_field_one env now tags autoTMM) hashes) (\<lambda>changed.
         commitMutationTx (faulty env) ''commit download update'' changed)) db)"

definition UpdateTags :: "Env \<Rightarrow> string list \<Rightarrow> string \<Rightarrow> time \<Rightarrow> Db \<Rightarrow> (store_err + unit) \<times> Db" where
  "UpdateTags env hashes tags now = updateDownloadField env hashes now (Some tags) None"

definition SetAutoTMM :: "Env \<Rightarrow> string list \<Rightarrow> bool \<Rightarrow> time \<Rightarrow> Db \<Rightarrow> (store_err + unit) \<times> Db" where
  "SetAutoTMM env hashes enabled now = updateDownloadField env hashes now None (Some enabled)"

text \<open>The stored form of a tag list: parts trimmed, empty ones and repetitions dropped.\<close>

fun dedup_tags :: "string list \<Rightarrow> string list \<Rightarrow> string list" where
  "dedup_tags seen [] = []"
| "dedup_tags seen (p # ps) =
     (let part = trim_space p
      in if part = [] then dedup_tags seen ps
         else if part \<in> set seen then dedup_tags seen ps
         else part # dedup_tags (part # seen) ps)"

definition normalizeStoredTags :: "string \<Rightarrow> string" where
  "normalizeStoredTags raw = join_with '','' (dedup_tags [] (split_on CHR '','' raw))"

definition trim_commas :: "string \<Rightarrow> string" where
  "trim_commas s =
     rev (dropWhile (\<lambda>c. c = CHR '','') (rev (dropWhile (\<lambda>c. c = CHR '','') s)))"

definition add_tags_one :: "Env \<Rightarrow> string \<Rightarrow> time \<Rightarrow> string \<Rightarrow> bool tx" where
  "add_tags_one env tags now hash =
     tx_bind (need_row env hash) (\<lambda>row.
     tx_bind (tx_require (r_state row \<noteq> StateDeleted) ErrInvalidTransition) (\<lambda>_.
     let merged = trim_commas (r_tags row @ '','' @ tags);
         canonical = normalizeStoredTags merged
     in tx_bind (tx_require (\<not> (64 * 1024 < length canonical \<or> contains_control canonical))
                  ErrInvalidTransition) (\<lambda>_.
        if r_tags row = canonical then tx_return False
        else tx_bind (tx_exec (faulty env) ''update tags'' (UpdateDownloadTags canonical now hash)) (\<lambda>_.
             tx_return True))))"

definition AddTags :: "Env \<Rightarrow> string list \<Rightarrow> string \<Rightarrow> time \<Rightarrow> Db \<Rightarrow> (store_err + unit) \<times> Db" where
  "AddTags env hashes tags now db =
     (if hashes = [] \<or> time_is_zero now then (Inl ErrInvalidTransition, db)
      else in_tx (faulty env) ''begin add tags''
        (tx_bind (tx_any (add_tags_one env tags now) hashes) (\<lambda>changed.
         commitMutationTx (faulty env) ''commit add tags'' changed)) db)"

subsection \<open>Starting\<close>

text \<open>The CASE of \<open>StartDownload\<close>: a stopped download resumes at its last completed stage.\<close>

definition start_state :: "download_row \<Rightarrow> State" where
  "start_state r =
     (if r_cloud_result_path r \<noteq> None \<and> (r_content_path r \<noteq> None \<or>
           r_last_upstream_status r = Some UpstreamCopyCompleted \<or>
           r_last_upstream_status r = Some UpstreamRetainedContent)
      then StateVerifyingLocal
      else if r_cloud_result_path r \<noteq> None then StateSubmittingCopy
      else StateAccepted)"

definition start_where :: "string \<Rightarrow> download_row \<Rightarrow> bool" where
  "start_where hash r \<longleftrightarrow> r_hash r = hash \<and> r_state r = StateStopped"

definition start_set :: "time \<Rightarrow> download_row \<Rightarrow> download_row" where
  "start_set now r = r\<lparr>r_state := start_state r, r_pause_requested := 0, r_phase_started_at := now,
     r_next_run_at := Some now, r_lease_until := None, r_lease_owner := None, r_updated_at := now,
     r_row_version := r_row_version r + 1\<rparr>"

definition StartDownload :: "time \<Rightarrow> string \<Rightarrow> nat tx" where
  "StartDownload now hash = update_guarded False (start_where hash) (start_set now)"

definition start_one :: "Env \<Rightarrow> time \<Rightarrow> string \<Rightarrow> bool tx" where
  "start_one env now hash =
     tx_bind (need_row env hash) (\<lambda>row.
     if r_state row = StateAccepted then tx_return False
     else tx_bind (tx_require (r_state row = StateStopped) ErrInvalidTransition) (\<lambda>_.
          tx_bind (tx_exec (faulty env) ''start download'' (StartDownload now hash)) (\<lambda>updated.
          tx_bind (one_row updated) (\<lambda>_. tx_return True))))"

definition StartMany :: "Env \<Rightarrow> string list \<Rightarrow> time \<Rightarrow> Db \<Rightarrow> (store_err + unit) \<times> Db" where
  "StartMany env hashes now db =
     (if hashes = [] \<or> time_is_zero now then (Inl ErrInvalidTransition, db)
      else in_tx (faulty env) ''begin start many''
        (tx_bind (tx_any (start_one env now) hashes) (\<lambda>changed.
         commitMutationTx (faulty env) ''commit start many'' changed)) db)"

subsection \<open>Save paths and names\<close>

definition save_path_where :: "string \<Rightarrow> int \<Rightarrow> download_row \<Rightarrow> bool" where
  "save_path_where hash version r \<longleftrightarrow> r_hash r = hash
     \<and> (r_state r = StateStopped \<or> r_state r = StateAccepted) \<and> r_lease_owner r = None
     \<and> r_content_path r = None \<and> r_copy_source_path r = None \<and> r_cloud_result_path r = None
     \<and> r_row_version r = version"

definition UpdateDownloadSavePath ::
    "string \<Rightarrow> string option \<Rightarrow> time \<Rightarrow> string \<Rightarrow> int \<Rightarrow> nat tx" where
  "UpdateDownloadSavePath savePath workspace now hash version =
     update_guarded True (save_path_where hash version)
       (\<lambda>r. r\<lparr>r_save_path := savePath, r_workspace_path := workspace, r_updated_at := now,
              r_row_version := r_row_version r + 1\<rparr>)"

definition save_path_one :: "Env \<Rightarrow> string \<Rightarrow> time \<Rightarrow> string \<Rightarrow> int \<Rightarrow> unit tx" where
  "save_path_one env savePath now hash version =
     (case WorkspacePath savePath hash of
        None \<Rightarrow> tx_fail ErrInvalidTransition
      | Some w \<Rightarrow>
          tx_bind (tx_catch (tx_exec (faulty env) ''update save path''
                     (UpdateDownloadSavePath savePath (nullableString w) now hash version))
                     (conflict ''update save path'')) one_row)"

definition SetSavePaths :: "Env \<Rightarrow> string list \<Rightarrow> string \<Rightarrow> time \<Rightarrow> Db \<Rightarrow> (store_err + unit) \<times> Db" where
  "SetSavePaths env hashes savePath now db =
     (if hashes = [] \<or> savePath = [] \<or> time_is_zero now then (Inl ErrInvalidTransition, db)
      else in_tx (faulty env) ''begin save paths''
        (tx_bind (tx_each (\<lambda>hash. tx_bind (need_row env hash) (\<lambda>row.
                    save_path_one env savePath now hash (r_row_version row))) hashes) (\<lambda>_.
         commitMutationTx (faulty env) ''commit save paths'' True)) db)"

definition SetSavePath :: "Env \<Rightarrow> string \<Rightarrow> string \<Rightarrow> int \<Rightarrow> time \<Rightarrow> Db \<Rightarrow> (store_err + unit) \<times> Db" where
  "SetSavePath env hash savePath version now db =
     (if hash = [] \<or> savePath = [] \<or> time_is_zero now \<or> version < 0 then (Inl ErrInvalidTransition, db)
      else in_tx (faulty env) ''begin save path''
        (tx_bind (save_path_one env savePath now hash version) (\<lambda>_.
         commitMutationTx (faulty env) ''commit save path'' True)) db)"

definition set_name :: "string \<Rightarrow> time \<Rightarrow> string \<Rightarrow> nat tx" where
  "set_name name now hash =
     update_plain (live_where hash)
       (\<lambda>r. r\<lparr>r_name := name, r_name_overridden := 1, r_updated_at := now,
              r_row_version := r_row_version r + 1\<rparr>)"

definition SetDownloadName :: "Env \<Rightarrow> string \<Rightarrow> string \<Rightarrow> time \<Rightarrow> Db \<Rightarrow> (store_err + unit) \<times> Db" where
  "SetDownloadName env hash name now db =
     (if hash = [] \<or> name = [] \<or> time_is_zero now then (Inl ErrInvalidTransition, db)
      else case auto_commit (tx_exec (faulty env) ''set name'' (set_name name now hash)) db of
          (Inl e, db') \<Rightarrow> (Inl e, db')
        | (Inr updated, db') \<Rightarrow>
            if updated \<noteq> 1 then (Inl ErrInvalidTransition, db') else (Inr (), db'))"

subsection \<open>File overrides\<close>

definition pathConflicts :: "string \<Rightarrow> string \<Rightarrow> bool" where
  "pathConflicts a b =
     (let a' = path_clean a; b' = path_clean b
      in a' = b' \<or> has_prefix a' (b' @ ''/'') \<or> has_prefix b' (a' @ ''/''))"

definition UpsertDownloadFileOverride :: "FileOverride \<Rightarrow> unit tx" where
  "UpsertDownloadFileOverride ov db =
     (let same = (\<lambda>x. oDownloadHash x = oDownloadHash ov \<and> oFileIndex x = oFileIndex ov)
      in if sql_get r_hash (oDownloadHash ov) (downloads db) = None
         then Inl (ErrDriver ''FOREIGN KEY constraint failed'')
         else if list_ex same (file_overrides db)
         then Inr ((), db\<lparr>file_overrides := sql_update same (\<lambda>x. x\<lparr>oRelativePath := oRelativePath ov,
                oPriority := oPriority ov\<rparr>) (file_overrides db)\<rparr>)
         else Inr ((), db\<lparr>file_overrides := file_overrides db @ [ov]\<rparr>))"

definition UpdateCompletedDownloadContentPath :: "string \<Rightarrow> time \<Rightarrow> string \<Rightarrow> nat tx" where
  "UpdateCompletedDownloadContentPath content now hash =
     update_guarded False (\<lambda>r. r_hash r = hash \<and> r_state r = StateCompleted)
       (\<lambda>r. r\<lparr>r_content_path := Some content, r_updated_at := now,
              r_row_version := r_row_version r + 1\<rparr>)"

definition priority_ok :: "int \<Rightarrow> bool" where
  "priority_ok p \<longleftrightarrow> \<not> (p \<noteq> 0 \<and> p \<noteq> 1 \<and> p \<noteq> 6 \<and> p \<noteq> 7)"

text \<open>No content, copy source, cloud result or lease yet.\<close>

definition untouched :: "download_row \<Rightarrow> bool" where
  "untouched row \<longleftrightarrow> r_lease_owner row = None \<and> r_content_path row = None
     \<and> r_copy_source_path row = None \<and> r_cloud_result_path row = None"

definition override_path :: "FileOverride list \<Rightarrow> file_row \<Rightarrow> string" where
  "override_path overrides file =
     (case find (\<lambda>ov. oFileIndex ov = fr_file_index file) overrides of
        Some ov \<Rightarrow> oRelativePath ov | None \<Rightarrow> fr_relative_path file)"

definition old_relative :: "file_row list \<Rightarrow> FileOverride list \<Rightarrow> int \<Rightarrow> string" where
  "old_relative manifest overrides index =
     (case find (\<lambda>ov. oFileIndex ov = index) overrides of
        Some ov \<Rightarrow> oRelativePath ov
      | None \<Rightarrow>
          (case find (\<lambda>f. fr_file_index f = index) manifest of
             Some f \<Rightarrow> fr_relative_path f | None \<Rightarrow> []))"

text \<open>The new content path of a completed download whose content is the renamed file, else empty.\<close>

definition content_root :: "download_row \<Rightarrow> string" where
  "content_root row =
     (let root = (case r_workspace_path row of None \<Rightarrow> r_save_path row | Some w \<Rightarrow> w)
      in case (r_source_kind row, r_is_multi_file row, r_copy_source_path row, r_cloud_result_path row,
               r_destination_name row) of
           (SourceTorrent, Some multi, Some copySource, Some cloudResult, Some dest) \<Rightarrow>
             (if multi \<noteq> 0 \<and> copySource = cloudResult then path_join [root, dest] else root)
         | _ \<Rightarrow> root)"

definition renamed_content :: "download_row \<Rightarrow> string \<Rightarrow> string \<Rightarrow> string" where
  "renamed_content row oldRelative relative =
     (let root = content_root row
      in if path_clean (nullString (r_content_path row)) = path_clean (path_join [root, oldRelative])
         then path_join [root, relative] else [])"

definition set_file_override ::
    "Env \<Rightarrow> string \<Rightarrow> int \<Rightarrow> string \<Rightarrow> int \<Rightarrow> time \<Rightarrow> unit tx" where
  "set_file_override env hash index relative prio now =
     tx_bind (need_row env hash) (\<lambda>row.
     let preStart = (r_state row = StateStopped \<or> r_state row = StateAccepted) \<and> untouched row;
         completed = (r_state row = StateCompleted \<and> r_lease_owner row = None \<and> r_content_path row \<noteq> None)
     in tx_bind (tx_require (preStart \<or> completed) ErrInvalidTransition) (\<lambda>_.
        tx_bind (tx_query (faulty env) ''list files'' (files_of hash)) (\<lambda>manifest.
        tx_bind (tx_query (faulty env) ''list overrides'' (overrides_of hash)) (\<lambda>overrides.
        let oldRelative = old_relative manifest overrides index
        in tx_bind (tx_require (\<not> list_ex (\<lambda>f. fr_file_index f \<noteq> index \<and>
                      pathConflicts (override_path overrides f) relative) manifest)
                    ErrDestinationConflict) (\<lambda>_.
           let contentPath = (if completed \<and> oldRelative \<noteq> [] then renamed_content row oldRelative relative
                              else [])
           in tx_bind (tx_exec (faulty env) ''upsert override'' (UpsertDownloadFileOverride
                 \<lparr>oDownloadHash = hash, oFileIndex = index, oRelativePath = relative, oPriority = prio\<rparr>)) (\<lambda>_.
              tx_bind
                (if contentPath \<noteq> []
                 then tx_bind (tx_exec (faulty env) ''update content path''
                        (UpdateCompletedDownloadContentPath contentPath now hash)) one_row
                 else tx_bind (tx_exec (faulty env) ''touch download'' (TouchDownload now hash)) one_row) (\<lambda>_.
              commitMutationTx (faulty env) ''commit file override'' True)))))))"

definition SetFileOverride ::
    "Env \<Rightarrow> string \<Rightarrow> int \<Rightarrow> string \<Rightarrow> int \<Rightarrow> time \<Rightarrow> Db \<Rightarrow> (store_err + unit) \<times> Db" where
  "SetFileOverride env hash index relative prio now db =
     (if hash = [] \<or> index < 0 \<or> relative = [] \<or> time_is_zero now \<or> \<not> priority_ok prio
      then (Inl ErrInvalidTransition, db)
      else in_tx (faulty env) ''begin file override''
        (set_file_override env hash index relative prio now) db)"

subsection \<open>File priorities\<close>

text \<open>
  \<open>effective\<close> maps a file index to its override: the manifest with priority 1, then the stored
  overrides on top.
\<close>

type_synonym effective = "(int \<times> FileOverride) list"

definition manifest_effective :: "string \<Rightarrow> file_row list \<Rightarrow> effective" where
  "manifest_effective hash manifest =
     fold (\<lambda>f m. AList.update (fr_file_index f)
       \<lparr>oDownloadHash = hash, oFileIndex = fr_file_index f, oRelativePath = fr_relative_path f,
        oPriority = 1\<rparr> m) manifest []"

definition with_overrides :: "FileOverride list \<Rightarrow> effective \<Rightarrow> effective" where
  "with_overrides overrides m = fold (\<lambda>ov m. AList.update (oFileIndex ov) ov m) overrides m"

fun put_priorities :: "Env \<Rightarrow> string \<Rightarrow> int \<Rightarrow> int list \<Rightarrow> int list \<Rightarrow> effective \<Rightarrow> effective tx" where
  "put_priorities env hash prio seen [] m = tx_return m"
| "put_priorities env hash prio seen (i # is) m =
     (if i \<in> set seen then put_priorities env hash prio seen is m
      else case map_of m i of
          None \<Rightarrow> tx_fail ErrInvalidTransition
        | Some file \<Rightarrow>
            tx_bind (tx_exec (faulty env) ''upsert override'' (UpsertDownloadFileOverride
              \<lparr>oDownloadHash = hash, oFileIndex = i, oRelativePath = oRelativePath file, oPriority = prio\<rparr>)) (\<lambda>_.
            put_priorities env hash prio (i # seen) is (AList.update i (file\<lparr>oPriority := prio\<rparr>) m)))"

definition some_selected :: "effective \<Rightarrow> bool" where
  "some_selected m = list_ex (\<lambda>kv. oPriority (snd kv) \<noteq> 0) m"

definition set_file_priorities :: "Env \<Rightarrow> string \<Rightarrow> int list \<Rightarrow> int \<Rightarrow> time \<Rightarrow> unit tx" where
  "set_file_priorities env hash indexes prio now =
     tx_bind (need_row env hash) (\<lambda>row.
     tx_bind (tx_require (r_state row = StateStopped \<or> r_state row = StateAccepted) ErrInvalidTransition) (\<lambda>_.
     tx_bind (tx_require (untouched row) ErrInvalidTransition) (\<lambda>_.
     tx_bind (tx_query (faulty env) ''list files'' (files_of hash)) (\<lambda>manifest.
     tx_bind (tx_query (faulty env) ''list overrides'' (overrides_of hash)) (\<lambda>overrides.
     tx_bind (put_priorities env hash prio [] indexes
       (with_overrides overrides (manifest_effective hash manifest))) (\<lambda>m.
     tx_bind (tx_require (some_selected m) ErrInvalidTransition) (\<lambda>_.
     tx_bind (tx_exec (faulty env) ''touch download'' (TouchDownload now hash)) (\<lambda>updated.
     tx_bind (one_row updated) (\<lambda>_.
     commitMutationTx (faulty env) ''commit file priorities'' True)))))))))"

definition SetFilePriorities ::
    "Env \<Rightarrow> string \<Rightarrow> int list \<Rightarrow> int \<Rightarrow> time \<Rightarrow> Db \<Rightarrow> (store_err + unit) \<times> Db" where
  "SetFilePriorities env hash indexes prio now db =
     (if hash = [] \<or> indexes = [] \<or> time_is_zero now \<or> \<not> priority_ok prio
      then (Inl ErrInvalidTransition, db)
      else in_tx (faulty env) ''begin file priorities''
        (set_file_priorities env hash indexes prio now) db)"

subsection \<open>The operations run lawful statements\<close>

lemmas plain_statements = UpdateDownloadTags_def UpdateDownloadAutoTMM_def TouchDownload_def set_name_def

lemma start_lawful: "start_where hash r \<Longrightarrow> r_hash r = hash \<and> lawful r (start_set now r)"
  by (auto simp: start_where_def start_set_def start_state_def lawful_def CanTransition_def)

context event_relation
begin

lemma steps_need_row: "steps (need_row env hash) db"
  unfolding need_row_def by (intro steps_rules steps_get_row)

lemma steps_one_row: "steps (one_row n) db"
  unfolding one_row_def by (intro steps_rules)

end

context download_relation
begin

lemma steps_tags: "steps (UpdateDownloadTags t now hash) db"
  unfolding plain_statements by (rule steps_plain) (simp add: lawful_def same_tree_def)

lemma steps_tmm: "steps (UpdateDownloadAutoTMM v now hash) db"
  unfolding plain_statements by (rule steps_plain) (simp add: lawful_def same_tree_def)

lemma steps_touch: "steps (TouchDownload now hash) db"
  unfolding plain_statements by (rule steps_plain) (simp add: lawful_def same_tree_def)

lemma steps_name: "steps (set_name name now hash) db"
  unfolding plain_statements by (rule steps_plain) (simp add: lawful_def same_tree_def)

lemma steps_start: "steps (StartDownload now hash) db"
  unfolding StartDownload_def
  by (rule steps_guarded [where h = hash]) (auto simp: start_lawful, simp add: start_set_def)

lemma steps_save_path: "steps (UpdateDownloadSavePath sp w now hash version) db"
  unfolding UpdateDownloadSavePath_def
  by (rule steps_guarded [where h = hash]) (auto simp: save_path_where_def lawful_def)

lemma steps_content: "steps (UpdateCompletedDownloadContentPath c now hash) db"
  unfolding UpdateCompletedDownloadContentPath_def
  by (rule steps_guarded [where h = hash]) (auto simp: lawful_def)

lemma steps_override: "steps (UpsertDownloadFileOverride ov) db"
  using R_overrides by (auto simp: steps_def UpsertDownloadFileOverride_def Let_def split: if_splits)

lemma updateDownloadField_R: "R db (snd (updateDownloadField env hashes now tags autoTMM db))"
  unfolding updateDownloadField_def update_field_one_def
  by (auto simp: R_refl Let_def
      intro!: in_tx_R steps_rules steps_need_row steps_one_row steps_tags steps_tmm)

lemma UpdateTags_R: "R db (snd (UpdateTags env hashes tags now db))"
  unfolding UpdateTags_def by (rule updateDownloadField_R)

lemma SetAutoTMM_R: "R db (snd (SetAutoTMM env hashes enabled now db))"
  unfolding SetAutoTMM_def by (rule updateDownloadField_R)

lemma AddTags_R: "R db (snd (AddTags env hashes tags now db))"
  unfolding AddTags_def add_tags_one_def Let_def
  by (auto simp: R_refl intro!: in_tx_R steps_rules steps_need_row steps_tags)

lemma StartMany_R: "R db (snd (StartMany env hashes now db))"
  unfolding StartMany_def start_one_def
  by (auto simp: R_refl intro!: in_tx_R steps_rules steps_need_row steps_one_row steps_start)

lemma steps_save_path_one: "steps (save_path_one env sp now hash version) db"
  unfolding save_path_one_def by (intro steps_rules steps_save_path steps_one_row)

lemma SetSavePaths_R: "R db (snd (SetSavePaths env hashes sp now db))"
  unfolding SetSavePaths_def
  by (auto simp: R_refl intro!: in_tx_R steps_rules steps_need_row steps_save_path_one)

lemma SetSavePath_R: "R db (snd (SetSavePath env hash sp version now db))"
  unfolding SetSavePath_def
  by (auto simp: R_refl intro!: in_tx_R steps_rules steps_save_path_one)

lemma SetDownloadName_R: "R db (snd (SetDownloadName env hash name now db))"
proof -
  have "R db (snd (auto_commit (tx_exec (faulty env) ''set name'' (set_name name now hash)) db))"
    by (intro auto_commit_R steps_rules steps_name)
  then show ?thesis
    by (auto simp: SetDownloadName_def R_refl split: prod.splits sum.splits)
qed

lemma SetFileOverride_R: "R db (snd (SetFileOverride env hash index relative prio now db))"
  unfolding SetFileOverride_def set_file_override_def Let_def
  by (auto simp: R_refl intro!: in_tx_R steps_rules steps_need_row steps_override steps_content
      steps_one_row steps_touch)

lemma steps_put_priorities: "steps (put_priorities env hash prio seen is m) db"
  by (induction env hash prio seen "is" m arbitrary: db rule: put_priorities.induct)
    (auto intro!: steps_rules steps_override)

lemma SetFilePriorities_R: "R db (snd (SetFilePriorities env hash indexes prio now db))"
  unfolding SetFilePriorities_def set_file_priorities_def
  by (auto simp: R_refl intro!: in_tx_R steps_rules steps_need_row steps_put_priorities
      steps_one_row steps_touch)

end

end
