(* ===== verification/Store_Lifecycle.thy ===== *)
theory Store_Lifecycle
  imports Store_Fields
begin

section \<open>Lifecycle operations of the repository (internal/store: repository.go)\<close>

text \<open>
  The operations that move a download through its lifecycle: category change, start, retry, pause,
  cancel, delete request, and the lease protocol of the reconciler (claim and commit).
\<close>

definition exec_wrapped :: "Env \<Rightarrow> string \<Rightarrow> 'a tx \<Rightarrow> 'a tx" where
  "exec_wrapped env l w = tx_catch (tx_exec (faulty env) l w) (wrap l)"

text \<open>
  The tail that these operations share: read the row back, convert it, emit one event, commit.
\<close>

definition emit_after ::
    "Env \<Rightarrow> string \<Rightarrow> (download_row \<Rightarrow> store_err + Download) \<Rightarrow> string
     \<Rightarrow> (Download \<Rightarrow> (EventType \<times> State) option) \<Rightarrow> unit tx" where
  "emit_after env l convert hash ev =
     tx_bind (reread (faulty env) (''read '' @ l) hash) (\<lambda>row.
     tx_bind (tx_lift (convert row)) (\<lambda>d.
     case ev d of
       None \<Rightarrow> commitEventTx (faulty env) (''commit '' @ l) False
     | Some (ty, prev) \<Rightarrow>
         tx_bind (emit env ty prev d) (\<lambda>_. commitEventTx (faulty env) (''commit '' @ l) True)))"

definition intentMiss :: "Env \<Rightarrow> string \<Rightarrow> State option \<Rightarrow> Db \<Rightarrow> store_err + unit" where
  "intentMiss env hash idempotent db =
     and_then (GetDownload env hash db) (\<lambda>d.
       if idempotent = Some (dState d) then Inr () else Inl ErrInvalidTransition)"

text \<open>The outcome of a body that may find nothing to update: then it was rolled back.\<close>

definition or_miss ::
    "(store_err + bool) \<times> Db \<Rightarrow> Db \<Rightarrow> store_err + unit \<Rightarrow> (store_err + unit) \<times> Db" where
  "or_miss outcome db miss =
     (case outcome of
        (Inl e, db') \<Rightarrow> (Inl e, db')
      | (Inr True, db') \<Rightarrow> (Inr (), db')
      | (Inr False, _) \<Rightarrow> (miss, db))"

definition update_then :: "nat tx \<Rightarrow> unit tx \<Rightarrow> bool tx" where
  "update_then upd rest =
     tx_bind upd (\<lambda>n. if n = 0 then tx_return False else tx_bind rest (\<lambda>_. tx_return True))"

subsection \<open>Category\<close>

definition SetDownloadCategory :: "string \<Rightarrow> time \<Rightarrow> string \<Rightarrow> nat tx" where
  "SetDownloadCategory category now hash =
     update_plain (\<lambda>r. r_hash r = hash)
       (\<lambda>r. r\<lparr>r_category := category, r_updated_at := now, r_row_version := r_row_version r + 1\<rparr>)"

definition set_category :: "Env \<Rightarrow> string \<Rightarrow> string \<Rightarrow> time \<Rightarrow> bool tx" where
  "set_category env hash category now =
     tx_bind (need_row env hash) (\<lambda>before.
     if r_category before = category
     then tx_bind (tx_commit (faulty env) ''commit same-category update'') (\<lambda>_. tx_return True)
     else update_then
       (exec_wrapped env ''set category'' (SetDownloadCategory category now hash))
       (emit_after env ''category update'' downloadFromDB hash
         (\<lambda>d. Some (EventTypeCategoryChanged, dState d))))"

definition SetCategory :: "Env \<Rightarrow> string \<Rightarrow> string \<Rightarrow> time \<Rightarrow> Db \<Rightarrow> (store_err + unit) \<times> Db" where
  "SetCategory env hash category now db =
     (if (category \<noteq> [] \<and> \<not> safeCategoryName category) \<or> time_is_zero now
      then (Inl (ErrText ''category or update time is invalid''), db)
      else or_miss (in_tx (faulty env) ''begin category update'' (set_category env hash category now) db) db
        (intentMiss env hash (Some StateAccepted) db))"

subsection \<open>Start\<close>

definition Start :: "Env \<Rightarrow> string \<Rightarrow> time \<Rightarrow> Db \<Rightarrow> (store_err + unit) \<times> Db" where
  "Start env hash now db =
     (if time_is_zero now then (Inl (ErrText ''start time is required''), db)
      else or_miss (in_tx (faulty env) ''begin start''
          (update_then (exec_wrapped env ''start download'' (StartDownload now hash))
            (emit_after env ''started download'' downloadFromDB hash
              (\<lambda>_. Some (EventTypeStateChanged, StateStopped)))) db) db
        (and_then (GetDownload env hash db) (\<lambda>d.
          if dState d = StateAccepted \<or> dState d = StateSubmittingCopy \<or> dState d = StateVerifyingLocal
          then Inr () else Inl ErrInvalidTransition)))"

subsection \<open>Retry\<close>

definition retry_where :: "string \<Rightarrow> download_row \<Rightarrow> bool" where
  "retry_where hash r \<longleftrightarrow> r_hash r = hash \<and> r_state r = StateFailed"

definition retry_set :: "State \<Rightarrow> time \<Rightarrow> download_row \<Rightarrow> download_row" where
  "retry_set target now r =
     (let reset = (target = StateSubmittingCopy \<and> r_last_error_code r = Some ProblemDestinationConflict)
      in r\<lparr>r_state := target,
           r_copy_source_path := (if reset then None else r_copy_source_path r),
           r_destination_name := (if reset then None else r_destination_name r),
           r_last_error := None, r_last_error_code := None, r_attempt_count := 0,
           r_phase_started_at := now, r_next_run_at := Some now, r_lease_until := None,
           r_lease_owner := None, r_updated_at := now, r_row_version := r_row_version r + 1\<rparr>)"

definition RetryDownload :: "State \<Rightarrow> time \<Rightarrow> string \<Rightarrow> nat tx" where
  "RetryDownload target now hash = update_guarded False (retry_where hash) (retry_set target now)"

definition RetryCleanup :: "time \<Rightarrow> string \<Rightarrow> nat tx" where
  "RetryCleanup now hash =
     update_plain (\<lambda>r. r_hash r = hash \<and> (r_state r = StateCancelRequested \<or> r_state r = StateDeleteRequested)
         \<and> r_last_error r \<noteq> None)
       (\<lambda>r. r\<lparr>r_last_error := None, r_last_error_code := None, r_attempt_count := 0,
              r_phase_started_at := now, r_next_run_at := Some now, r_updated_at := now,
              r_row_version := r_row_version r + 1\<rparr>)"

definition cleanup_target :: "State \<Rightarrow> bool" where
  "cleanup_target target \<longleftrightarrow> target = StateCancelRequested \<or> target = StateDeleteRequested"

definition Retry :: "Env \<Rightarrow> string \<Rightarrow> State \<Rightarrow> time \<Rightarrow> Db \<Rightarrow> (store_err + unit) \<times> Db" where
  "Retry env hash target now db =
     (if time_is_zero now then (Inl ErrInvalidTransition, db)
      else if \<not> cleanup_target target \<and> (\<not> CanTransition StateFailed target \<or> target = StateDeleteRequested)
        then (Inl ErrInvalidTransition, db)
      else or_miss (in_tx (faulty env) ''begin retry''
          (update_then
            (exec_wrapped env ''retry download''
              (if cleanup_target target then RetryCleanup now hash else RetryDownload target now hash))
            (emit_after env ''retried download'' downloadRow hash
              (\<lambda>_. if cleanup_target target then None else Some (EventTypeStateChanged, StateFailed)))) db) db
        (intentMiss env hash None db))"

subsection \<open>Pause and cancel\<close>

definition active_states :: "State list" where
  "active_states = [StateAccepted, StateSubmittingOffline, StateWaitingOffline, StateSubmittingCopy,
     StateWaitingCopy, StateVerifyingLocal]"

definition cancel_set :: "int \<Rightarrow> time \<Rightarrow> download_row \<Rightarrow> download_row" where
  "cancel_set pause now r = r\<lparr>r_state := StateCancelRequested, r_pause_requested := pause,
     r_phase_started_at := now, r_next_run_at := Some now, r_updated_at := now,
     r_row_version := r_row_version r + 1\<rparr>"

definition pause_where :: "string \<Rightarrow> download_row \<Rightarrow> bool" where
  "pause_where hash r \<longleftrightarrow> r_hash r = hash \<and> r_state r \<in> set active_states"

definition cancel_where :: "string \<Rightarrow> download_row \<Rightarrow> bool" where
  "cancel_where hash r \<longleftrightarrow> r_hash r = hash \<and> r_state r \<in> set (StateStopped # active_states)"

definition PauseDownload :: "time \<Rightarrow> string \<Rightarrow> nat tx" where
  "PauseDownload now hash = update_guarded False (pause_where hash) (cancel_set 1 now)"

definition CancelDownload :: "time \<Rightarrow> string \<Rightarrow> nat tx" where
  "CancelDownload now hash = update_guarded False (cancel_where hash) (cancel_set 0 now)"

definition Pause :: "Env \<Rightarrow> string \<Rightarrow> time \<Rightarrow> Db \<Rightarrow> (store_err + unit) \<times> Db" where
  "Pause env hash now db =
     (if time_is_zero now then (Inl (ErrText ''pause time is required''), db)
      else or_miss (in_tx (faulty env) ''begin pause''
          (tx_bind (need_row env hash) (\<lambda>beforeRow.
           tx_bind (tx_lift (downloadFromDB beforeRow)) (\<lambda>before.
           update_then (exec_wrapped env ''pause download'' (PauseDownload now hash))
             (emit_after env ''paused download'' downloadFromDB hash
               (\<lambda>_. Some (EventTypeStateChanged, dState before)))))) db) db
        (and_then (GetDownload env hash db) (\<lambda>d.
          if dState d = StateCancelRequested \<and> dPauseRequested d then Inr ()
          else Inl ErrInvalidTransition)))"

definition Cancel :: "Env \<Rightarrow> string \<Rightarrow> time \<Rightarrow> Db \<Rightarrow> (store_err + unit) \<times> Db" where
  "Cancel env hash now db =
     (if time_is_zero now then (Inl (ErrText ''cancel time is required''), db)
      else or_miss (in_tx (faulty env) ''begin cancel''
          (tx_bind (need_row env hash) (\<lambda>beforeRow.
           tx_bind (tx_lift (downloadFromDB beforeRow)) (\<lambda>before.
           update_then (exec_wrapped env ''cancel download'' (CancelDownload now hash))
             (emit_after env ''cancelled download'' downloadFromDB hash
               (\<lambda>_. Some (EventTypeStateChanged, dState before)))))) db) db
        (and_then (GetDownload env hash db) (\<lambda>d.
          if dState d = StateCancelRequested \<or> dState d = StateCancelled then Inr ()
          else Inl ErrInvalidTransition)))"

subsection \<open>Delete requests\<close>

definition delete_where :: "int \<Rightarrow> string \<Rightarrow> download_row \<Rightarrow> bool" where
  "delete_where deleteFiles hash r \<longleftrightarrow> r_hash r = hash \<and> r_state r \<noteq> StateDeleted \<and>
     (r_state r \<noteq> StateDeleteRequested \<or> (deleteFiles = 1 \<and> r_delete_files_requested r = 0))"

definition delete_set :: "int \<Rightarrow> time \<Rightarrow> download_row \<Rightarrow> download_row" where
  "delete_set deleteFiles now r = r\<lparr>r_state := StateDeleteRequested, r_pause_requested := 0,
     r_delete_files_requested := (if r_delete_files_requested r = 1 \<or> deleteFiles = 1 then 1 else 0),
     r_phase_started_at := now, r_next_run_at := Some now, r_updated_at := now,
     r_removed_at := (case r_removed_at r of None \<Rightarrow> Some now | Some t \<Rightarrow> Some t),
     r_row_version := r_row_version r + 1\<rparr>"

definition delete_statement :: "int \<Rightarrow> time \<Rightarrow> string \<Rightarrow> nat tx" where
  "delete_statement deleteFiles now hash =
     update_guarded False (delete_where deleteFiles hash) (delete_set deleteFiles now)"

definition request_delete_one :: "Env \<Rightarrow> bool \<Rightarrow> time \<Rightarrow> string \<Rightarrow> bool tx" where
  "request_delete_one env deleteFiles now hash =
     tx_bind (get_row (faulty env) ''request delete read'' hash) (\<lambda>found.
     case found of
       None \<Rightarrow> tx_return False
     | Some beforeRow \<Rightarrow>
         tx_bind (tx_lift (downloadFromDB beforeRow)) (\<lambda>before.
         tx_bind (exec_wrapped env ''request delete''
            (delete_statement (boolInteger deleteFiles) now hash)) (\<lambda>_.
         if dState before = StateDeleteRequested \<or> dState before = StateDeleted then tx_return False
         else
           tx_bind (reread (faulty env) ''read delete request'' hash) (\<lambda>row.
           tx_bind (tx_lift (downloadFromDB row)) (\<lambda>d.
           tx_bind (emit env EventTypeStateChanged (dState before) d) (\<lambda>_. tx_return True))))))"

definition unique_hashes :: "string list \<Rightarrow> string list" where
  "unique_hashes hashes = remdups (filter (\<lambda>h. h \<noteq> []) (map (\<lambda>h. to_lower (trim_space h)) hashes))"

text \<open>\<open>order\<close> is the order in which Go's map iteration visits the distinct hashes.\<close>

definition RequestDelete ::
    "Env \<Rightarrow> (string list \<Rightarrow> string list) \<Rightarrow> string list \<Rightarrow> bool \<Rightarrow> time \<Rightarrow> Db \<Rightarrow> (store_err + unit) \<times> Db"
    where
  "RequestDelete env order hashes deleteFiles now db =
     (if time_is_zero now then (Inl (ErrText ''delete time is required''), db)
      else if unique_hashes hashes = [] then (Inr (), db)
      else in_tx (faulty env) ''begin delete request''
        (tx_bind (tx_any (request_delete_one env deleteFiles now) (order (unique_hashes hashes))) (\<lambda>emitted.
         commitEventTx (faulty env) ''commit delete request'' emitted)) db)"

subsection \<open>The lease protocol\<close>

record DownloadClaim =
  kDownload :: Download
  kOwner :: string
  kState :: State
  kVersion :: int

text \<open>The candidates of \<open>ClaimDue\<close>, its order, and the lease it writes.\<close>

definition claimable_row :: "time \<Rightarrow> download_row \<Rightarrow> bool" where
  "claimable_row now r \<longleftrightarrow>
     (case r_next_run_at r of None \<Rightarrow> False | Some t \<Rightarrow> t \<le> now) \<and> \<not> workflow_ended (r_state r) \<and>
     (case r_lease_until r of None \<Rightarrow> True | Some t \<Rightarrow> t \<le> now)"

definition row_due :: "download_row \<Rightarrow> string due" where
  "row_due r = Due (case r_next_run_at r of None \<Rightarrow> 0 | Some t \<Rightarrow> t) (r_created_at r) (r_hash r)"

definition lease_set :: "string \<Rightarrow> time \<Rightarrow> download_row \<Rightarrow> download_row" where
  "lease_set owner leaseUntil r = r\<lparr>r_lease_owner := Some owner, r_lease_until := Some leaseUntil,
     r_row_version := r_row_version r + 1\<rparr>"

definition claim_statement :: "string \<Rightarrow> time \<Rightarrow> time \<Rightarrow> download_row option tx" where
  "claim_statement owner leaseUntil now =
     tx_look (\<lambda>db. first_by row_due (filter (claimable_row now) (downloads db))) (\<lambda>candidate.
     case candidate of
       None \<Rightarrow> tx_return None
     | Some c \<Rightarrow>
         tx_bind (update_plain (\<lambda>r. r_hash r = r_hash c) (lease_set owner leaseUntil)) (\<lambda>_.
         tx_return (Some (lease_set owner leaseUntil c))))"

text \<open>
  The statement commits on its own: when the conversion fails afterwards, the lease stays.
\<close>

definition ClaimDue ::
    "Env \<Rightarrow> string \<Rightarrow> time \<Rightarrow> duration \<Rightarrow> Db \<Rightarrow> (store_err + DownloadClaim option) \<times> Db" where
  "ClaimDue env owner now leaseDuration db =
     (if trim_space owner = [] \<or> leaseDuration \<le> 0 \<or> time_is_zero now
      then (Inl (ErrText ''claim owner, time, or lease duration is invalid''), db)
      else case auto_commit (exec_wrapped env ''claim due download''
               (claim_statement owner (time_add now leaseDuration) now)) db of
          (Inl e, db') \<Rightarrow> (Inl e, db')
        | (Inr None, db') \<Rightarrow> (Inr None, db')
        | (Inr (Some row), db') \<Rightarrow>
            (and_then (downloadFromDB row) (\<lambda>d.
               Inr (Some \<lparr>kDownload = d, kOwner = owner, kState = dState d, kVersion = dRowVersion d\<rparr>)), db'))"

definition sameClaimIdentity :: "Download \<Rightarrow> Download \<Rightarrow> bool" where
  "sameClaimIdentity current next \<longleftrightarrow> dHash current = dHash next \<and> dSourceKind current = dSourceKind next
     \<and> dSubmissionURI current = dSubmissionURI next \<and> dCloudFolder current = dCloudFolder next
     \<and> dSavePath current = dSavePath next \<and> dCreatedAt current = dCreatedAt next"

definition validateClaimWorkspace :: "Download \<Rightarrow> Download \<Rightarrow> store_err option" where
  "validateClaimWorkspace current next =
     (if dWorkspacePath current = dWorkspacePath next then None
      else if dWorkspacePath current \<noteq> [] \<or> dWorkspacePath next = []
          \<or> dState current \<noteq> StateSubmittingCopy \<or> dSavePath current \<noteq> dSavePath next
          \<or> dContentPath next \<noteq> [] \<or> dLastUpstreamStatus next \<noteq> UpstreamOfflineFinished
          \<or> (dLastUpstreamStatus current \<noteq> UpstreamOfflineFinished \<and>
             \<not> has_prefix (dLastUpstreamStatus current) (UpstreamCopyRemoved @ ''|copy:''))
        then Some ErrInvalidTransition
      else case WorkspacePath (dSavePath next) (dHash next) of
          None \<Rightarrow> Some ErrInvalidTransition
        | Some expected \<Rightarrow>
            (if dWorkspacePath next \<noteq> expected then Some ErrInvalidTransition else None))"

definition commit_where :: "DownloadClaim \<Rightarrow> download_row \<Rightarrow> bool" where
  "commit_where claim r \<longleftrightarrow> r_hash r = dHash (kDownload claim) \<and> r_state r = kState claim
     \<and> r_lease_owner r = Some (kOwner claim) \<and> r_row_version r = kVersion claim"

definition commit_statement :: "DownloadClaim \<Rightarrow> Download \<Rightarrow> nat tx" where
  "commit_statement claim next = update_guarded False (commit_where claim) (commitClaimParams next)"

definition commit_event :: "State \<Rightarrow> EventType" where
  "commit_event s =
     (if s = StateCompleted then EventTypeCompleted
      else if s = StateFailed then EventTypeFailed else EventTypeStateChanged)"

text \<open>The checks before the transaction, in the order of the code, and the download to store.\<close>

definition commit_check :: "DownloadClaim \<Rightarrow> Download \<Rightarrow> store_err + Download" where
  "commit_check claim next =
     (if trim_space (kOwner claim) = [] \<or> kVersion claim < 0 \<or> dHash (kDownload claim) = []
         \<or> \<not> State_Valid (kState claim) \<or> dState (kDownload claim) \<noteq> kState claim
      then Inl ErrClaimLost
      else if \<not> sameClaimIdentity (kDownload claim) next then Inl ErrInvalidTransition
      else case validateClaimWorkspace (kDownload claim) next of
          Some e \<Rightarrow> Inl e
        | None \<Rightarrow>
            (if dState next \<noteq> kState claim \<and> \<not> CanTransition (kState claim) (dState next)
             then Inl ErrInvalidTransition
             else
               (let next' = next\<lparr>dLeaseOwner := [], dLeaseUntil := None\<rparr>
                in case ValidateDownload next' of
                     Some e \<Rightarrow> Inl (ErrText e) | None \<Rightarrow> Inr next')))"

definition commit_error :: "Download \<Rightarrow> store_err \<Rightarrow> store_err" where
  "commit_error next e =
     (if destinationConstraint e \<and> dDestinationName next \<noteq> [] then ErrDestinationConflict
      else ErrDriver ''commit claim'')"

definition CommitClaim :: "Env \<Rightarrow> DownloadClaim \<Rightarrow> Download \<Rightarrow> Db \<Rightarrow> (store_err + unit) \<times> Db" where
  "CommitClaim env claim next db =
     (case commit_check claim next of
        Inl e \<Rightarrow> (Inl e, db)
      | Inr next' \<Rightarrow>
          in_tx (faulty env) ''begin claim commit''
            (tx_bind (tx_catch (tx_exec (faulty env) ''commit claim'' (commit_statement claim next'))
                       (commit_error next')) (\<lambda>updated.
             tx_bind (tx_require (updated \<noteq> 0) ErrClaimLost) (\<lambda>_.
             emit_after env ''committed claim'' downloadFromDB (dHash next')
               (\<lambda>d. if dState d \<noteq> kState claim then Some (commit_event (dState d), kState claim)
                    else None)))) db)"

subsection \<open>The operations run lawful statements\<close>

lemma retry_lawful:
  assumes "\<not> cleanup_target target" "CanTransition StateFailed target"
  shows "retry_where hash r \<Longrightarrow> r_hash r = hash \<and> lawful r (retry_set target now r)"
  using assms by (auto simp: retry_where_def retry_set_def lawful_def Let_def)

lemma cancel_lawful:
  "cancel_where hash r \<Longrightarrow> r_hash r = hash \<and> lawful r (cancel_set p now r)"
  by (auto simp: cancel_where_def cancel_set_def lawful_def active_states_def CanTransition_def activeExit_def)

lemma pause_cancel_where: "pause_where hash r \<Longrightarrow> cancel_where hash r"
  by (auto simp: pause_where_def cancel_where_def)

lemma delete_lawful:
  "delete_where v hash r \<Longrightarrow> r_hash r = hash \<and> lawful r (delete_set v now r)"
  by (cases "r_state r")
    (auto simp: delete_where_def delete_set_def lawful_def CanTransition_def activeExit_def)

lemma commit_check_Inr:
  assumes "commit_check claim next = Inr next'"
  shows "next' = next\<lparr>dLeaseOwner := [], dLeaseUntil := None\<rparr>" "valid_download next'"
    "sameClaimIdentity (kDownload claim) next" "dState (kDownload claim) = kState claim"
    "dState next = kState claim \<or> CanTransition (kState claim) (dState next)"
    "validateClaimWorkspace (kDownload claim) next = None"
  using assms by (auto simp: commit_check_def Let_def split: if_splits option.splits)

lemma commit_lawful:
  assumes "commit_check claim next = Inr next'" and "commit_where claim r"
  shows "r_hash r = dHash (kDownload claim) \<and> lawful r (commitClaimParams next' r)"
  using commit_check_Inr [OF assms(1)] assms(2)
  by (auto simp: commit_where_def lawful_def commitClaimParams_def)

lemmas lifecycle_sets = start_set_def retry_set_def cancel_set_def delete_set_def commitClaimParams_def

context event_relation
begin

lemma steps_exec_wrapped: "steps w db \<Longrightarrow> steps (exec_wrapped env l w) db"
  unfolding exec_wrapped_def by (intro steps_rules)

lemma steps_emit_after: "steps (emit_after env l conv hash ev) db"
  unfolding emit_after_def
  by (intro steps_rules steps_reread) (auto split: option.splits intro!: steps_rules steps_emit_env)

lemma steps_update_then:
  "(\<And>db. steps upd db) \<Longrightarrow> (\<And>db. steps rest db) \<Longrightarrow> steps (update_then upd rest) db"
  unfolding update_then_def by (intro steps_rules)

lemma or_miss_R: "R db (snd outcome) \<Longrightarrow> R db (snd (or_miss outcome db miss))"
  by (auto simp: or_miss_def R_refl split: prod.splits sum.splits bool.splits)

lemmas op_rules = in_tx_R or_miss_R steps_rules steps_update_then steps_exec_wrapped steps_emit_after
  steps_need_row steps_get_row steps_reread steps_emit_env

end

context download_relation
begin

lemma SetCategory_R: "R db (snd (SetCategory env hash category now db))"
proof -
  have "steps (SetDownloadCategory category now hash) db" for db
    unfolding SetDownloadCategory_def by (rule steps_plain) (simp add: lawful_def same_tree_def)
  then show ?thesis
    by (auto simp: SetCategory_def set_category_def R_refl intro!: op_rules)
qed

lemma Start_R: "R db (snd (Start env hash now db))"
  by (auto simp: Start_def R_refl intro!: op_rules steps_start)

lemma steps_retry:
  "\<not> cleanup_target target \<Longrightarrow> CanTransition StateFailed target \<Longrightarrow> steps (RetryDownload target now hash) db"
  unfolding RetryDownload_def
  by (rule steps_guarded [where h = hash]) (auto simp: retry_lawful, simp add: retry_set_def Let_def)

lemma steps_retry_cleanup: "steps (RetryCleanup now hash) db"
  unfolding RetryCleanup_def by (rule steps_plain) (simp add: lawful_def same_tree_def)

lemma Retry_R: "R db (snd (Retry env hash target now db))"
  by (auto simp: Retry_def R_refl intro!: op_rules steps_retry steps_retry_cleanup)

lemma steps_pause: "steps (PauseDownload now hash) db"
  unfolding PauseDownload_def
  using cancel_lawful [OF pause_cancel_where, of hash _ 1 now]
  by (intro steps_guarded [where h = hash]) (blast, simp add: cancel_set_def)

lemma steps_cancel: "steps (CancelDownload now hash) db"
  unfolding CancelDownload_def
  by (rule steps_guarded [where h = hash]) (auto simp: cancel_lawful, simp add: cancel_set_def)

lemma Pause_R: "R db (snd (Pause env hash now db))"
  by (auto simp: Pause_def R_refl intro!: op_rules steps_pause)

lemma Cancel_R: "R db (snd (Cancel env hash now db))"
  by (auto simp: Cancel_def R_refl intro!: op_rules steps_cancel)

lemma steps_delete: "steps (delete_statement v now hash) db"
  unfolding delete_statement_def
  by (rule steps_guarded [where h = hash]) (auto simp: delete_lawful, simp add: delete_set_def)

lemma RequestDelete_R: "R db (snd (RequestDelete env order hashes deleteFiles now db))"
  by (auto simp: RequestDelete_def request_delete_one_def R_refl intro!: op_rules steps_delete)

lemma steps_claim: "steps (claim_statement owner lease now) db"
  unfolding claim_statement_def
  by (intro steps_rules steps_plain) (simp add: lawful_def same_tree_def lease_set_def)

lemma ClaimDue_R: "R db (snd (ClaimDue env owner now dur db))"
proof -
  have "R db (snd (auto_commit (exec_wrapped env ''claim due download''
      (claim_statement owner (time_add now dur) now)) db))"
    by (intro auto_commit_R steps_exec_wrapped steps_claim)
  then show ?thesis
    by (auto simp: ClaimDue_def R_refl split: prod.splits sum.splits option.splits)
qed

lemma steps_commit_statement:
  "commit_check claim next = Inr next' \<Longrightarrow> steps (commit_statement claim next') db"
  unfolding commit_statement_def
  by (rule steps_guarded [where h = "dHash (kDownload claim)"])
    (auto simp: commit_lawful, simp add: commitClaimParams_def)

lemma CommitClaim_R: "R db (snd (CommitClaim env claim next db))"
  by (auto simp: CommitClaim_def R_refl intro!: op_rules steps_commit_statement split: sum.splits)

end

end
