(* ===== verification/Store_Surface.thy ===== *)
theory Store_Surface
  imports Store_Lifecycle
begin

section \<open>The qBittorrent surface of the repository (internal/store: repository\_qbt\_surface.go)\<close>

text \<open>
  The tag registry, bulk tag and category removal, renames, and the re-verification of a completed
  download.
\<close>

subsection \<open>Canonical lists\<close>

fun keep_first :: "string list \<Rightarrow> string list \<Rightarrow> string list" where
  "keep_first seen [] = []"
| "keep_first seen (v # vs) =
     (if v = [] then keep_first seen vs
      else if v \<in> set seen then keep_first seen vs
      else v # keep_first (v # seen) vs)"

fun canonical_parts :: "string list \<Rightarrow> string list \<Rightarrow> store_err + string list" where
  "canonical_parts seen [] = Inr []"
| "canonical_parts seen (p # ps) =
     (let part = trim_space p
      in if part = [] then canonical_parts seen ps
         else if (CHR '','' \<in> set part \<or> CHR 0x00 \<in> set part) \<or> contains_control part
           then Inl ErrInvalidTransition
         else if part \<in> set seen then canonical_parts seen ps
         else and_then (canonical_parts (part # seen) ps) (\<lambda>rest. Inr (part # rest)))"

definition canonicalQBTTagList :: "string \<Rightarrow> bool \<Rightarrow> store_err + string list" where
  "canonicalQBTTagList raw required =
     and_then (canonical_parts [] (split_on CHR '','' raw)) (\<lambda>result.
       if required \<and> result = [] then Inl ErrInvalidTransition else Inr result)"

definition uniqueHashes :: "string list \<Rightarrow> string list" where
  "uniqueHashes hashes = keep_first [] (map (\<lambda>h. to_lower (trim_space h)) hashes)"

definition uniqueNonEmpty :: "string list \<Rightarrow> string list" where
  "uniqueNonEmpty values = keep_first [] (map trim_space values)"

definition safeQBTName :: "string \<Rightarrow> bool" where
  "safeQBTName v \<longleftrightarrow> v \<noteq> [] \<and> v \<noteq> ''.'' \<and> v \<noteq> ''..'' \<and> \<not> is_abs v \<and> path_clean v = v
     \<and> \<not> (CHR ''/'' \<in> set v \<or> CHR 0x5C \<in> set v) \<and> CHR 0x00 \<notin> set v \<and> \<not> contains_control v"

definition safeRelativePrefix :: "string \<Rightarrow> bool" where
  "safeRelativePrefix v \<longleftrightarrow>
     (if v = [] \<or> v = ''.'' \<or> is_abs v \<or> path_clean v \<noteq> v \<or> CHR 0x5C \<in> set v \<or> CHR 0x00 \<in> set v
      then False
      else list_all (\<lambda>part. \<not> (part = [] \<or> part = ''.'' \<or> part = ''..'' \<or> contains_control part))
             (split_on CHR ''/'' v))"

subsection \<open>Tags\<close>

definition InsertQbtTag :: "string \<Rightarrow> nat tx" where
  "InsertQbtTag tag db =
     (if tag \<in> set (qbt_tags db) then Inr (0, db)
      else Inr (1, db\<lparr>qbt_tags := qbt_tags db @ [tag]\<rparr>))"

definition DeleteQbtTag :: "string \<Rightarrow> nat tx" where
  "DeleteQbtTag tag db =
     Inr (rows_affected (\<lambda>t. t = tag) (qbt_tags db),
          db\<lparr>qbt_tags := filter (\<lambda>t. t \<noteq> tag) (qbt_tags db)\<rparr>)"

definition ListTags :: "Env \<Rightarrow> Db \<Rightarrow> store_err + string list" where
  "ListTags env db =
     stmt (faulty env) ''list tags''
       (and_then (ListDownloads env None db) (\<lambda>ds.
         Inr (sort (remdups (qbt_tags db @
           filter (\<lambda>t. t \<noteq> []) (map trim_space (concat (map (\<lambda>d. split_on CHR '','' (dTags d)) ds))))))))"

definition changed_row :: "nat tx \<Rightarrow> bool tx" where
  "changed_row m = tx_bind m (\<lambda>n. tx_return (0 < n))"

definition CreateTags :: "Env \<Rightarrow> string \<Rightarrow> time \<Rightarrow> Db \<Rightarrow> (store_err + unit) \<times> Db" where
  "CreateTags env tags now db =
     (if time_is_zero now then (Inl ErrInvalidTransition, db)
      else case canonicalQBTTagList tags False of
          Inl e \<Rightarrow> (Inl e, db)
        | Inr tagList \<Rightarrow>
            in_tx (faulty env) ''begin create tags''
              (tx_bind (tx_any (\<lambda>tag. changed_row (exec_wrapped env ''create tag'' (InsertQbtTag tag))) tagList)
                (\<lambda>changed. commitMutationTx (faulty env) ''commit create tags'' changed)) db)"

definition clear_deleted_tags :: "Env \<Rightarrow> string list \<Rightarrow> time \<Rightarrow> download_row \<Rightarrow> bool tx" where
  "clear_deleted_tags env remove now row =
     (let cur = normalizeStoredTags (r_tags row);
          parts = split_on CHR '','' cur;
          kept = filter (\<lambda>t. t \<notin> set remove) parts;
          dropped = list_ex (\<lambda>t. t \<in> set remove) parts;
          next = join_with '','' kept
      in if next = cur then tx_return dropped
         else tx_bind (exec_wrapped env ''clear deleted tag'' (UpdateDownloadTags next now (r_hash row)))
                (\<lambda>_. tx_return dropped))"

definition visible_rows :: "Db \<Rightarrow> download_row list" where
  "visible_rows db = newest_first (filter row_visible (downloads db))"

definition DeleteTags :: "Env \<Rightarrow> string \<Rightarrow> time \<Rightarrow> Db \<Rightarrow> (store_err + unit) \<times> Db" where
  "DeleteTags env tags now db =
     (if time_is_zero now then (Inl ErrInvalidTransition, db)
      else case canonicalQBTTagList tags False of
          Inl e \<Rightarrow> (Inl e, db)
        | Inr tagList \<Rightarrow>
            if tagList = [] then (Inr (), db)
            else in_tx (faulty env) ''begin delete tags''
              (tx_bind (tx_any (\<lambda>tag. changed_row (exec_wrapped env ''delete tag'' (DeleteQbtTag tag))) tagList)
                (\<lambda>removed.
               tx_bind (tx_query (faulty env) ''list downloads for tag deletion'' visible_rows) (\<lambda>rows.
               tx_bind (tx_any (clear_deleted_tags env tagList now) rows) (\<lambda>cleared.
               commitMutationTx (faulty env) ''commit delete tags'' (removed \<or> cleared))))) db)"

definition remove_tags_one :: "Env \<Rightarrow> string list \<Rightarrow> time \<Rightarrow> string \<Rightarrow> bool tx" where
  "remove_tags_one env remove now hash =
     tx_bind (get_row (faulty env) ''read tags download'' hash) (\<lambda>found.
     case found of
       None \<Rightarrow> tx_return False
     | Some row \<Rightarrow>
         if r_state row = StateDeleted then tx_return False
         else
           (let cur = normalizeStoredTags (r_tags row);
                drop_tag = (\<lambda>t. remove = [] \<or> t \<in> set remove);
                parts = split_on CHR '','' cur;
                next = join_with '','' (filter (\<lambda>t. \<not> drop_tag t) parts)
            in if cur = [] then tx_return False
               else if next \<noteq> cur
               then tx_bind (exec_wrapped env ''remove tags'' (UpdateDownloadTags next now hash))
                      (\<lambda>_. tx_return (list_ex drop_tag parts))
               else tx_return (list_ex drop_tag parts)))"

definition RemoveTags :: "Env \<Rightarrow> string list \<Rightarrow> string \<Rightarrow> time \<Rightarrow> Db \<Rightarrow> (store_err + unit) \<times> Db" where
  "RemoveTags env hashes tags now db =
     (if time_is_zero now then (Inl ErrInvalidTransition, db)
      else case canonicalQBTTagList tags False of
          Inl e \<Rightarrow> (Inl e, db)
        | Inr tagList \<Rightarrow>
            if uniqueHashes hashes = [] then (Inr (), db)
            else in_tx (faulty env) ''begin remove tags''
              (tx_bind (tx_any (remove_tags_one env tagList now) (uniqueHashes hashes)) (\<lambda>changed.
               commitMutationTx (faulty env) ''commit remove tags'' changed)) db)"

subsection \<open>Categories\<close>

definition DeleteQbtCategories :: "string list \<Rightarrow> unit tx" where
  "DeleteQbtCategories names db =
     Inr ((), db\<lparr>categories := filter (\<lambda>c. g_name c \<notin> set names) (categories db)\<rparr>)"

definition ClearDownloadCategories :: "time \<Rightarrow> string list \<Rightarrow> nat tx" where
  "ClearDownloadCategories now names =
     update_plain (\<lambda>r. r_category r \<in> set names \<and> r_state r \<noteq> StateDeleted)
       (\<lambda>r. r\<lparr>r_category := [], r_updated_at := now, r_row_version := r_row_version r + 1\<rparr>)"

definition cleared_category_event :: "Env \<Rightarrow> string list \<Rightarrow> download_row \<Rightarrow> bool tx" where
  "cleared_category_event env removed row =
     (if r_category row \<notin> set removed then tx_return False
      else
        tx_bind (reread (faulty env) ''read cleared category'' (r_hash row)) (\<lambda>afterRow.
        tx_bind (tx_lift (downloadFromDB afterRow)) (\<lambda>d.
        tx_bind (emit env EventTypeCategoryChanged (r_state row) d) (\<lambda>_. tx_return True))))"

definition RemoveCategories :: "Env \<Rightarrow> string list \<Rightarrow> time \<Rightarrow> Db \<Rightarrow> (store_err + unit) \<times> Db" where
  "RemoveCategories env cats now db =
     (if time_is_zero now then (Inl ErrInvalidTransition, db)
      else
        (let names = uniqueNonEmpty cats
         in if names = [] then (Inr (), db)
            else in_tx (faulty env) ''begin remove categories''
              (tx_bind (tx_query (faulty env) ''list category downloads'' visible_rows) (\<lambda>rows.
               tx_bind (exec_wrapped env ''delete categories'' (DeleteQbtCategories names)) (\<lambda>_.
               tx_bind (exec_wrapped env ''clear categories'' (ClearDownloadCategories now names)) (\<lambda>_.
               tx_bind (tx_any (cleared_category_event env names) rows) (\<lambda>changed.
               commitEventTx (faulty env) ''commit remove categories'' changed))))) db))"

subsection \<open>Renames and re-verification\<close>

definition RenameDownload :: "Env \<Rightarrow> string \<Rightarrow> string \<Rightarrow> time \<Rightarrow> Db \<Rightarrow> (store_err + unit) \<times> Db" where
  "RenameDownload env hash name now db =
     (if hash = [] \<or> \<not> safeQBTName name \<or> time_is_zero now then (Inl ErrInvalidTransition, db)
      else in_tx (faulty env) ''begin rename''
        (tx_bind (need_row env hash) (\<lambda>before.
         tx_bind (tx_require (r_state before \<noteq> StateDeleted) ErrInvalidTransition) (\<lambda>_.
         if r_name before = name \<and> r_name_overridden before = 1
         then tx_commit (faulty env) ''commit rename''
         else tx_bind (exec_wrapped env ''rename download'' (set_name name now hash)) (\<lambda>updated.
              tx_bind (one_row updated) (\<lambda>_.
              commitMutationTx (faulty env) ''commit rename'' True))))) db)"

record effectiveFile =
  xIndex :: int
  xPath :: string
  xPrio :: int

definition effective_file :: "FileOverride list \<Rightarrow> file_row \<Rightarrow> effectiveFile" where
  "effective_file overrides f =
     (case find (\<lambda>ov. oFileIndex ov = fr_file_index f) overrides of
        Some ov \<Rightarrow> \<lparr>xIndex = fr_file_index f, xPath = oRelativePath ov, xPrio = oPriority ov\<rparr>
      | None \<Rightarrow> \<lparr>xIndex = fr_file_index f, xPath = fr_relative_path f, xPrio = 1\<rparr>)"

definition rename_prefix :: "string \<Rightarrow> string \<Rightarrow> string \<Rightarrow> string" where
  "rename_prefix oldPath newPath p =
     (if p = oldPath then newPath
      else if has_prefix p (oldPath @ ''/'') then newPath @ drop (length oldPath) p else p)"

definition renames :: "string \<Rightarrow> string \<Rightarrow> bool" where
  "renames oldPath p \<longleftrightarrow> p = oldPath \<or> has_prefix p (oldPath @ ''/'')"

fun pairwise_conflict :: "string list \<Rightarrow> bool" where
  "pairwise_conflict [] = False"
| "pairwise_conflict (p # ps) = (list_ex (pathConflicts p) ps \<or> pairwise_conflict ps)"

definition rename_folder :: "Env \<Rightarrow> string \<Rightarrow> string \<Rightarrow> string \<Rightarrow> time \<Rightarrow> unit tx" where
  "rename_folder env hash oldPath newPath now =
     tx_bind (need_row env hash) (\<lambda>row.
     let preStart = (r_state row = StateStopped \<or> r_state row = StateAccepted) \<and> untouched row;
         completed = (r_state row = StateCompleted \<and> r_lease_owner row = None \<and> r_content_path row \<noteq> None)
     in tx_bind (tx_require (preStart \<or> completed) ErrInvalidTransition) (\<lambda>_.
        tx_bind (tx_query (faulty env) ''list files'' (files_of hash)) (\<lambda>manifest.
        tx_bind (tx_query (faulty env) ''list overrides'' (overrides_of hash)) (\<lambda>overrides.
        let before = map (effective_file overrides) manifest;
            after = map (\<lambda>x. x\<lparr>xPath := rename_prefix oldPath newPath (xPath x)\<rparr>) before
        in tx_bind (tx_require (list_ex (\<lambda>x. renames oldPath (xPath x)) before) ErrNotFound) (\<lambda>_.
           tx_bind (tx_require (\<not> pairwise_conflict (map xPath after)) ErrDestinationConflict) (\<lambda>_.
           tx_bind (tx_each (\<lambda>x.
             if old_relative manifest overrides (xIndex x) = xPath x then tx_return ()
             else exec_wrapped env ''write folder override'' (UpsertDownloadFileOverride
               \<lparr>oDownloadHash = hash, oFileIndex = xIndex x, oRelativePath = xPath x,
                oPriority = xPrio x\<rparr>)) after) (\<lambda>_.
           tx_bind (tx_exec (faulty env) ''touch download'' (TouchDownload now hash)) (\<lambda>_.
           commitMutationTx (faulty env) ''commit folder rename'' True))))))))"

definition RenameFolder :: "Env \<Rightarrow> string \<Rightarrow> string \<Rightarrow> string \<Rightarrow> time \<Rightarrow> Db \<Rightarrow> (store_err + unit) \<times> Db" where
  "RenameFolder env hash oldPath newPath now db =
     (if hash = [] \<or> \<not> safeRelativePrefix oldPath \<or> \<not> safeRelativePrefix newPath \<or> time_is_zero now
      then (Inl ErrInvalidTransition, db)
      else in_tx (faulty env) ''begin folder rename'' (rename_folder env hash oldPath newPath now) db)"

definition reverify_set :: "time \<Rightarrow> download_row \<Rightarrow> download_row" where
  "reverify_set now r = r\<lparr>r_state := StateVerifyingLocal, r_last_error := None,
     r_last_error_code := None, r_attempt_count := 0, r_phase_started_at := now,
     r_next_run_at := Some now, r_lease_until := None, r_lease_owner := None,
     r_completed_at := None, r_updated_at := now, r_row_version := r_row_version r + 1\<rparr>"

definition ReverifyDownload :: "time \<Rightarrow> string \<Rightarrow> nat tx" where
  "ReverifyDownload now hash =
     update_guarded False (\<lambda>r. r_hash r = hash \<and> r_state r = StateCompleted) (reverify_set now)"

definition Reverify :: "Env \<Rightarrow> string \<Rightarrow> time \<Rightarrow> Db \<Rightarrow> (store_err + unit) \<times> Db" where
  "Reverify env hash now db =
     (if hash = [] \<or> time_is_zero now then (Inl ErrInvalidTransition, db)
      else in_tx (faulty env) ''begin reverify''
        (tx_bind (need_row env hash) (\<lambda>before.
         if r_state before \<noteq> StateCompleted then tx_commit (faulty env) ''commit reverify''
         else
           tx_bind (exec_wrapped env ''reverify download'' (ReverifyDownload now hash)) (\<lambda>updated.
           tx_bind (one_row updated) (\<lambda>_.
           emit_after env ''reverified download'' downloadFromDB hash
             (\<lambda>_. Some (EventTypeStateChanged, StateCompleted)))))) db)"

subsection \<open>The operations run lawful statements\<close>

context download_relation
begin

lemma steps_insert_tag: "steps (InsertQbtTag tag) db"
  using R_tags R_refl by (auto simp: steps_def InsertQbtTag_def split: if_splits)

lemma steps_delete_tag: "steps (DeleteQbtTag tag) db"
  using R_tags by (auto simp: steps_def DeleteQbtTag_def)

lemma steps_delete_categories: "steps (DeleteQbtCategories names) db"
  by (auto simp: steps_def DeleteQbtCategories_def intro!: R_categories)

lemma steps_clear_categories: "steps (ClearDownloadCategories now names) db"
  unfolding ClearDownloadCategories_def by (rule steps_plain) (simp add: lawful_def same_tree_def)

lemma steps_reverify: "steps (ReverifyDownload now hash) db"
  unfolding ReverifyDownload_def
  by (rule steps_guarded [where h = hash])
    (auto simp: reverify_set_def lawful_def CanTransition_def)

lemma CreateTags_R: "R db (snd (CreateTags env tags now db))"
  by (auto simp: CreateTags_def changed_row_def R_refl intro!: op_rules steps_insert_tag split: sum.splits)

lemma DeleteTags_R: "R db (snd (DeleteTags env tags now db))"
  by (auto simp: DeleteTags_def changed_row_def clear_deleted_tags_def Let_def R_refl
      intro!: op_rules steps_delete_tag steps_tags split: sum.splits)

lemma RemoveTags_R: "R db (snd (RemoveTags env hashes tags now db))"
  by (auto simp: RemoveTags_def remove_tags_one_def Let_def R_refl
      intro!: op_rules steps_tags split: sum.splits)

lemma RemoveCategories_R: "R db (snd (RemoveCategories env cats now db))"
  by (auto simp: RemoveCategories_def cleared_category_event_def Let_def R_refl
      intro!: op_rules steps_delete_categories steps_clear_categories)

lemma RenameDownload_R: "R db (snd (RenameDownload env hash name now db))"
  by (auto simp: RenameDownload_def R_refl intro!: op_rules steps_name steps_one_row)

lemma RenameFolder_R: "R db (snd (RenameFolder env hash oldPath newPath now db))"
  unfolding RenameFolder_def rename_folder_def Let_def
  by (auto simp: R_refl intro!: op_rules steps_override steps_touch)

lemma Reverify_R: "R db (snd (Reverify env hash now db))"
  by (auto simp: Reverify_def R_refl intro!: op_rules steps_reverify steps_one_row)

end

end
