(* ===== verification/Store_Outbox.thy ===== *)
theory Store_Outbox
  imports Store_Lifecycle
begin

section \<open>The outbox repository (internal/store: repository\_outbox.go, queries/outbox.sql)\<close>

text \<open>
  Webhook endpoints and their subscriptions, the event feed, and the delivery queue with its lease
  protocol.  \<open>parse\<close> stands for \<open>net/url\<close>'s parser; the secret of a new endpoint comes from the
  environment.  Cursors of the delivery history stay the pair (creation time, id) that
  \<open>EncodeCursor\<close> packs.
\<close>

subsection \<open>Conversions\<close>

record Endpoint =
  enID :: int
  enName :: string
  enDisplayURL :: string
  enHMACSecret :: string
  enEnabled :: bool
  enSubscribeCompleted :: bool
  enSubscribeFailed :: bool
  enCreatedAt :: time
  enUpdatedAt :: time
  enDeletedAt :: "time option"
  enRowVersion :: int

record Delivery =
  deID :: int
  deEventID :: string
  deEndpointID :: int
  deEndpointName :: string
  deEventType :: EventType
  deAggregateType :: AggregateType
  deAggregateID :: string
  deStatus :: DeliveryStatus
  deAttemptCount :: int
  deFirstAttemptAt :: "time option"
  deNextAttemptAt :: "time option"
  deLeaseOwner :: string
  deLeaseUntil :: "time option"
  deLastHTTPStatus :: int
  deLastError :: string
  deDeliveredAt :: "time option"
  deCreatedAt :: time
  deUpdatedAt :: time
  deRowVersion :: int

definition endpointFromDB :: "endpoint_row \<Rightarrow> bool \<Rightarrow> bool \<Rightarrow> bool \<Rightarrow> Endpoint" where
  "endpointFromDB row completed failed withSecret =
     \<lparr>enID = e_id row, enName = e_name row, enDisplayURL = DisplayURL (e_url row),
      enHMACSecret = (if withSecret then e_hmac_secret row else []), enEnabled = (e_enabled row = 1),
      enSubscribeCompleted = completed, enSubscribeFailed = failed, enCreatedAt = e_created_at row,
      enUpdatedAt = e_updated_at row, enDeletedAt = nullTime (e_deleted_at row),
      enRowVersion = e_row_version row\<rparr>"

definition deliveryFromDB :: "delivery_row \<Rightarrow> store_err + Delivery" where
  "deliveryFromDB row =
     (if \<not> DeliveryStatus_Valid (v_status row) \<or> v_attempt_count row < 0 \<or> v_row_version row < 0
         \<or> v_event_id row = [] \<or> v_endpoint_id row \<le> 0 \<or> v_event_type row = EventTypeOther []
         \<or> v_aggregate_type row = AggregateOther [] \<or> v_aggregate_id row = []
         \<or> time_is_zero (v_created_at row) \<or> time_is_zero (v_updated_at row)
         \<or> v_updated_at row < v_created_at row
         \<or> \<not> validNullableTime (v_first_attempt_at row) \<or> \<not> validNullableTime (v_next_attempt_at row)
         \<or> \<not> validNullableTime (v_lease_until row) \<or> \<not> validNullableTime (v_delivered_at row)
         \<or> (case v_last_http_status row of None \<Rightarrow> False | Some c \<Rightarrow> c < 0)
         \<or> (nullString (v_lease_owner row) = []) \<noteq> (v_lease_until row = None)
      then Inl (ErrText ''stored webhook delivery is invalid'')
      else Inr
        \<lparr>deID = v_id row, deEventID = v_event_id row, deEndpointID = v_endpoint_id row,
         deEndpointName = v_endpoint_name row, deEventType = v_event_type row,
         deAggregateType = v_aggregate_type row, deAggregateID = v_aggregate_id row,
         deStatus = v_status row, deAttemptCount = v_attempt_count row,
         deFirstAttemptAt = nullTime (v_first_attempt_at row),
         deNextAttemptAt = nullTime (v_next_attempt_at row),
         deLeaseOwner = nullString (v_lease_owner row), deLeaseUntil = nullTime (v_lease_until row),
         deLastHTTPStatus = (case v_last_http_status row of None \<Rightarrow> 0 | Some c \<Rightarrow> c),
         deLastError = nullString (v_last_error row), deDeliveredAt = nullTime (v_delivered_at row),
         deCreatedAt = v_created_at row, deUpdatedAt = v_updated_at row,
         deRowVersion = v_row_version row\<rparr>)"

text \<open>A payload is never empty: it is the marshalled form of a struct.\<close>

definition eventFromDB :: "event_row \<Rightarrow> store_err + event_row" where
  "eventFromDB row =
     (if ev_sequence row < 1 \<or> ev_id row = [] \<or> ev_type row = EventTypeOther []
         \<or> ev_aggregate_type row = AggregateOther [] \<or> ev_aggregate_id row = []
         \<or> ev_aggregate_version row < 0 \<or> time_is_zero (ev_occurred_at row)
      then Inl (ErrText ''stored domain event is invalid'') else Inr row)"

definition endpointEnabled :: "bool option \<Rightarrow> bool \<Rightarrow> int" where
  "endpointEnabled input fallback =
     (case input of
        Some b \<Rightarrow> if b then 1 else 0
      | None \<Rightarrow> if fallback then 1 else 0)"

definition endpointNameConflict :: "string \<Rightarrow> store_err \<Rightarrow> store_err" where
  "endpointNameConflict l e = (if e = ErrConstraint then ErrNameConflict else ErrDriver l)"

definition maxDeliveryErrorBytes :: nat where "maxDeliveryErrorBytes = 128"

definition boundDeliveryError :: "string \<Rightarrow> string" where
  "boundDeliveryError v =
     (let trimmed = trim_space v
      in if length trimmed \<le> maxDeliveryErrorBytes then trimmed
         else cut_to_valid (take maxDeliveryErrorBytes trimmed))"

text \<open>\<open>COLLATE NOCASE\<close> folds the 26 ASCII letters.\<close>

definition nocase :: "string \<Rightarrow> string" where
  "nocase s = map (\<lambda>c. if 65 \<le> byte c \<and> byte c \<le> 90 then char_of (byte c + 32) else c) s"

subsection \<open>Endpoint statements\<close>

definition InsertEndpoint :: "endpoint_row \<Rightarrow> endpoint_row tx" where
  "InsertEndpoint params db =
     (if list_ex (\<lambda>e. nocase (e_name e) = nocase (e_name params)) (webhook_endpoints db)
      then Inl ErrConstraint
      else
        (let row = params\<lparr>e_id := last_endpoint_id db + 1\<rparr>
         in Inr (row, db\<lparr>webhook_endpoints := webhook_endpoints db @ [row],
                         last_endpoint_id := last_endpoint_id db + 1\<rparr>)))"

definition live_endpoint :: "int \<Rightarrow> endpoint_row \<Rightarrow> bool" where
  "live_endpoint i e \<longleftrightarrow> e_id e = i \<and> e_deleted_at e = None"

definition get_endpoint :: "int \<Rightarrow> Db \<Rightarrow> endpoint_row option" where
  "get_endpoint i db = find (live_endpoint i) (webhook_endpoints db)"

text \<open>An UPDATE of the live endpoint with this id, RETURNING the row.\<close>

definition update_endpoint :: "int \<Rightarrow> (endpoint_row \<Rightarrow> endpoint_row) \<Rightarrow> endpoint_row option tx" where
  "update_endpoint i f db =
     Inr (map_option f (get_endpoint i db),
          db\<lparr>webhook_endpoints := sql_update (live_endpoint i) f (webhook_endpoints db)\<rparr>)"

definition endpoint_fields ::
    "string \<Rightarrow> string \<Rightarrow> string option \<Rightarrow> int \<Rightarrow> time \<Rightarrow> endpoint_row \<Rightarrow> endpoint_row" where
  "endpoint_fields nm url bearer enabled now e = e\<lparr>e_name := nm, e_url := url, e_bearer_token := bearer,
     e_enabled := enabled, e_updated_at := now, e_row_version := e_row_version e + 1\<rparr>"

definition UpdateEndpoint ::
    "string \<Rightarrow> string \<Rightarrow> string option \<Rightarrow> int \<Rightarrow> time \<Rightarrow> int \<Rightarrow> endpoint_row option tx" where
  "UpdateEndpoint nm url bearer enabled now i db =
     (if list_ex (\<lambda>e. e_id e \<noteq> i \<and> nocase (e_name e) = nocase nm) (webhook_endpoints db)
         \<and> get_endpoint i db \<noteq> None
      then Inl ErrConstraint
      else update_endpoint i (endpoint_fields nm url bearer enabled now) db)"

definition SetEndpointEnabled :: "int \<Rightarrow> time \<Rightarrow> int \<Rightarrow> endpoint_row option tx" where
  "SetEndpointEnabled v now i = update_endpoint i
     (\<lambda>e. e\<lparr>e_enabled := v, e_updated_at := now, e_row_version := e_row_version e + 1\<rparr>)"

definition RotateEndpointSecret :: "string \<Rightarrow> time \<Rightarrow> int \<Rightarrow> endpoint_row option tx" where
  "RotateEndpointSecret secret now i = update_endpoint i
     (\<lambda>e. e\<lparr>e_hmac_secret := secret, e_updated_at := now, e_row_version := e_row_version e + 1\<rparr>)"

definition DeleteEndpoint :: "time \<Rightarrow> int \<Rightarrow> endpoint_row option tx" where
  "DeleteEndpoint now i = update_endpoint i
     (\<lambda>e. e\<lparr>e_enabled := 0, e_deleted_at := Some now, e_updated_at := now,
            e_row_version := e_row_version e + 1\<rparr>)"

definition InsertSubscription :: "int \<Rightarrow> EventType \<Rightarrow> unit tx" where
  "InsertSubscription i ty db =
     (if (i, ty) \<in> set (webhook_subscriptions db)
      then Inl (ErrDriver ''constraint failed: webhook_subscriptions'')
      else Inr ((), db\<lparr>webhook_subscriptions := webhook_subscriptions db @ [(i, ty)]\<rparr>))"

definition DeleteSubscription :: "int \<Rightarrow> EventType \<Rightarrow> unit tx" where
  "DeleteSubscription i ty db =
     Inr ((), db\<lparr>webhook_subscriptions := filter (\<lambda>s. s \<noteq> (i, ty)) (webhook_subscriptions db)\<rparr>)"

definition subscriptions_of :: "int \<Rightarrow> Db \<Rightarrow> EventType list" where
  "subscriptions_of i db = map snd (filter (\<lambda>s. fst s = i) (webhook_subscriptions db))"

definition subscriptionFlags :: "EventType list \<Rightarrow> bool \<times> bool" where
  "subscriptionFlags tys = (EventTypeCompleted \<in> set tys, EventTypeFailed \<in> set tys)"

text \<open>The pending and dead deliveries that a predicate selects are cancelled.\<close>

definition cancel_delivery :: "time \<Rightarrow> delivery_row \<Rightarrow> delivery_row" where
  "cancel_delivery now v = v\<lparr>v_status := StatusCancelled, v_next_attempt_at := None,
     v_lease_owner := None, v_lease_until := None, v_updated_at := now,
     v_row_version := v_row_version v + 1\<rparr>"

definition update_deliveries ::
    "(delivery_row \<Rightarrow> bool) \<Rightarrow> (delivery_row \<Rightarrow> delivery_row) \<Rightarrow> nat tx" where
  "update_deliveries P f db =
     Inr (rows_affected P (webhook_deliveries db),
          db\<lparr>webhook_deliveries := sql_update P f (webhook_deliveries db)\<rparr>)"

definition CancelEndpointDeliveries :: "int \<Rightarrow> time \<Rightarrow> nat tx" where
  "CancelEndpointDeliveries i now =
     update_deliveries (\<lambda>v. v_endpoint_id v = i \<and> (v_status v = StatusPending \<or> v_status v = StatusDead))
       (cancel_delivery now)"

definition CancelSubscriptionDeliveries :: "int \<Rightarrow> time \<Rightarrow> EventType \<Rightarrow> nat tx" where
  "CancelSubscriptionDeliveries i now ty =
     update_deliveries (\<lambda>v. v_endpoint_id v = i \<and> v_event_type v = ty \<and>
         (v_status v = StatusPending \<or> v_status v = StatusDead)) (cancel_delivery now)"

subsection \<open>Endpoint operations\<close>

definition endpointEventTypes :: "EventType list" where
  "endpointEventTypes = [EventTypeCompleted, EventTypeFailed]"

definition wants :: "bool \<Rightarrow> bool \<Rightarrow> EventType \<Rightarrow> bool" where
  "wants completed failed ty \<longleftrightarrow>
     (ty = EventTypeCompleted \<and> completed) \<or> (ty = EventTypeFailed \<and> failed)"

definition removed_types :: "EventType list \<Rightarrow> bool \<Rightarrow> bool \<Rightarrow> EventType list" where
  "removed_types have completed failed =
     filter (\<lambda>ty. \<not> wants completed failed ty \<and> ty \<in> set have) endpointEventTypes"

definition reconcileSubscriptions :: "Env \<Rightarrow> int \<Rightarrow> bool \<Rightarrow> bool \<Rightarrow> EventType list tx" where
  "reconcileSubscriptions env i completed failed =
     tx_bind (tx_query (faulty env) ''list endpoint subscriptions'' (subscriptions_of i)) (\<lambda>have.
     tx_bind (tx_each (\<lambda>ty.
       if wants completed failed ty \<and> ty \<notin> set have
       then exec_wrapped env ''insert endpoint subscription'' (InsertSubscription i ty)
       else if \<not> wants completed failed ty \<and> ty \<in> set have
       then exec_wrapped env ''delete endpoint subscription'' (DeleteSubscription i ty)
       else tx_return ()) endpointEventTypes) (\<lambda>_.
     tx_return (removed_types have completed failed)))"

definition text_err :: "string option \<Rightarrow> unit tx" where
  "text_err e = (case e of None \<Rightarrow> tx_return () | Some t \<Rightarrow> tx_fail (ErrText t))"

definition new_endpoint :: "Env \<Rightarrow> EndpointInput \<Rightarrow> time \<Rightarrow> endpoint_row" where
  "new_endpoint env input now =
     \<lparr>e_id = 0, e_name = inName input, e_url = inURL input, e_hmac_secret = freshSecret env,
      e_bearer_token = nullableString (trim_space (inBearerToken input)),
      e_enabled = endpointEnabled (inEnabled input) True, e_created_at = now, e_updated_at = now,
      e_deleted_at = None, e_row_version = 0\<rparr>"

definition CreateWebhookEndpoint ::
    "Env \<Rightarrow> (string \<Rightarrow> URL option) \<Rightarrow> EndpointInput \<Rightarrow> time \<Rightarrow> Db \<Rightarrow> (store_err + Endpoint) \<times> Db" where
  "CreateWebhookEndpoint env parse input0 now db =
     (if time_is_zero now then (Inl (ErrText ''endpoint create time is required''), db)
      else
        (let input = input0\<lparr>inName := trim_space (inName input0)\<rparr>
         in case ValidateEndpointInput parse input of
              Some e \<Rightarrow> (Inl (ErrText e), db)
            | None \<Rightarrow>
                in_tx (faulty env) ''begin endpoint create''
                  (tx_bind (tx_catch (tx_exec (faulty env) ''create webhook endpoint''
                       (InsertEndpoint (new_endpoint env input now)))
                       (endpointNameConflict ''create webhook endpoint'')) (\<lambda>row.
                   tx_bind (reconcileSubscriptions env (e_id row) (inSubscribeCompleted input)
                       (inSubscribeFailed input)) (\<lambda>_.
                   tx_bind (tx_commit (faulty env) ''commit webhook endpoint create'') (\<lambda>_.
                   tx_return (endpointFromDB row (inSubscribeCompleted input)
                     (inSubscribeFailed input) True))))) db))"

text \<open>Empty URL and bearer preserve the stored ones; the merged input is what is validated.\<close>

definition merged_bearer :: "endpoint_row \<Rightarrow> EndpointInput \<Rightarrow> string option" where
  "merged_bearer cur input =
     (if inClearBearerToken input then None
      else if inBearerToken input \<noteq> [] then nullableString (trim_space (inBearerToken input))
      else e_bearer_token cur)"

definition merged_url :: "endpoint_row \<Rightarrow> EndpointInput \<Rightarrow> string" where
  "merged_url cur input = (if inURL input = [] then e_url cur else inURL input)"

definition update_webhook_endpoint ::
    "Env \<Rightarrow> (string \<Rightarrow> URL option) \<Rightarrow> int \<Rightarrow> EndpointInput \<Rightarrow> time \<Rightarrow> Endpoint tx" where
  "update_webhook_endpoint env parse i input now =
     tx_bind (tx_query (faulty env) ''read webhook endpoint'' (get_endpoint i)) (\<lambda>found.
     case found of
       None \<Rightarrow> tx_fail ErrNotFound
     | Some cur \<Rightarrow>
         (let url = merged_url cur input; bearer = merged_bearer cur input;
              merged = input\<lparr>inURL := url, inBearerToken := nullString bearer\<rparr>
          in tx_bind (text_err (ValidateEndpointInput parse merged)) (\<lambda>_.
             tx_bind (tx_catch (tx_exec (faulty env) ''update webhook endpoint''
                 (UpdateEndpoint (inName input) url bearer
                   (endpointEnabled (inEnabled input) (e_enabled cur = 1)) now i))
                 (endpointNameConflict ''update webhook endpoint'')) (\<lambda>updated.
             case updated of
               None \<Rightarrow> tx_fail (ErrDriver ''update webhook endpoint'')
             | Some row \<Rightarrow>
                 tx_bind (reconcileSubscriptions env i (inSubscribeCompleted input)
                   (inSubscribeFailed input)) (\<lambda>removed.
                 tx_bind (tx_each (\<lambda>ty. tx_bind (exec_wrapped env ''cancel removed subscription deliveries''
                   (CancelSubscriptionDeliveries i now ty)) (\<lambda>_. tx_return ())) removed) (\<lambda>_.
                 tx_bind (tx_commit (faulty env) ''commit webhook endpoint update'') (\<lambda>_.
                 tx_return (endpointFromDB row (inSubscribeCompleted input)
                   (inSubscribeFailed input) False))))))))"

definition UpdateWebhookEndpoint ::
    "Env \<Rightarrow> (string \<Rightarrow> URL option) \<Rightarrow> int \<Rightarrow> EndpointInput \<Rightarrow> time \<Rightarrow> Db \<Rightarrow> (store_err + Endpoint) \<times> Db" where
  "UpdateWebhookEndpoint env parse i input now db =
     (if i \<le> 0 \<or> time_is_zero now then (Inl (ErrText ''endpoint id or update time is invalid''), db)
      else in_tx (faulty env) ''begin endpoint update''
        (update_webhook_endpoint env parse i (input\<lparr>inName := trim_space (inName input)\<rparr>) now) db)"

definition live_endpoints :: "Db \<Rightarrow> endpoint_row list" where
  "live_endpoints db = sort_key (\<lambda>e. nocase (e_name e))
     (sort_key e_id (filter (\<lambda>e. e_deleted_at e = None) (webhook_endpoints db)))"

definition with_flags :: "Db \<Rightarrow> bool \<Rightarrow> endpoint_row \<Rightarrow> Endpoint" where
  "with_flags db secret row =
     (let flags = subscriptionFlags (subscriptions_of (e_id row) db)
      in endpointFromDB row (fst flags) (snd flags) secret)"

definition ListWebhookEndpoints :: "Env \<Rightarrow> Db \<Rightarrow> store_err + Endpoint list" where
  "ListWebhookEndpoints env db =
     stmt (faulty env) ''list webhook endpoints''
       (stmt (faulty env) ''list webhook endpoint subscriptions''
         (Inr (map (with_flags db False) (live_endpoints db))))"

definition GetWebhookEndpoint :: "Env \<Rightarrow> int \<Rightarrow> Db \<Rightarrow> store_err + Endpoint" where
  "GetWebhookEndpoint env i db =
     stmt (faulty env) ''get webhook endpoint''
       (case get_endpoint i db of
          None \<Rightarrow> Inl ErrNotFound
        | Some row \<Rightarrow> stmt (faulty env) ''get webhook endpoint subscriptions''
            (Inr (with_flags db False row)))"

definition SetWebhookEndpointEnabled ::
    "Env \<Rightarrow> int \<Rightarrow> bool \<Rightarrow> time \<Rightarrow> Db \<Rightarrow> (store_err + unit) \<times> Db" where
  "SetWebhookEndpointEnabled env i enabled now db =
     (if i \<le> 0 \<or> time_is_zero now then (Inl (ErrText ''endpoint id or enable time is invalid''), db)
      else auto_commit
        (tx_bind (exec_wrapped env ''set webhook endpoint enabled''
           (SetEndpointEnabled (if enabled then 1 else 0) now i)) (\<lambda>updated.
         tx_require (updated \<noteq> None) ErrNotFound)) db)"

text \<open>The rotation commits before the subscriptions are read.\<close>

definition RotateWebhookEndpointSecret :: "Env \<Rightarrow> int \<Rightarrow> time \<Rightarrow> Db \<Rightarrow> (store_err + Endpoint) \<times> Db" where
  "RotateWebhookEndpointSecret env i now db =
     (if i \<le> 0 \<or> time_is_zero now then (Inl (ErrText ''endpoint id or rotate time is invalid''), db)
      else case auto_commit (exec_wrapped env ''rotate webhook endpoint secret''
               (RotateEndpointSecret (freshSecret env) now i)) db of
          (Inl e, db') \<Rightarrow> (Inl e, db')
        | (Inr None, db') \<Rightarrow> (Inl ErrNotFound, db')
        | (Inr (Some row), db') \<Rightarrow>
            (stmt (faulty env) ''get webhook endpoint subscriptions'' (Inr (with_flags db' True row)), db'))"

definition DeleteWebhookEndpoint :: "Env \<Rightarrow> int \<Rightarrow> time \<Rightarrow> Db \<Rightarrow> (store_err + unit) \<times> Db" where
  "DeleteWebhookEndpoint env i now db =
     (if i \<le> 0 \<or> time_is_zero now then (Inl (ErrText ''endpoint id or delete time is invalid''), db)
      else in_tx (faulty env) ''begin endpoint delete''
        (tx_bind (exec_wrapped env ''delete webhook endpoint'' (DeleteEndpoint now i)) (\<lambda>updated.
         if updated = None then
           tx_bind (tx_query (faulty env) ''check webhook endpoint existence''
             (\<lambda>db. list_ex (\<lambda>e. e_id e = i) (webhook_endpoints db))) (\<lambda>exists.
           tx_bind (tx_require exists ErrNotFound) (\<lambda>_.
           tx_commit (faulty env) ''commit idempotent webhook endpoint delete''))
         else
           tx_bind (exec_wrapped env ''cancel deleted endpoint deliveries'' (CancelEndpointDeliveries i now)) (\<lambda>_.
           tx_commit (faulty env) ''commit webhook endpoint delete''))) db)"

subsection \<open>The event feed and the delivery history\<close>

definition LatestEventSequence :: "Env \<Rightarrow> Db \<Rightarrow> store_err + int" where
  "LatestEventSequence env db =
     stmt (faulty env) ''read latest event sequence''
       (Inr (fold max (map ev_sequence (domain_events db)) 0))"

definition MaxEventFeedLimit :: int where "MaxEventFeedLimit = 501"

definition feed_row :: "EventQuery \<Rightarrow> event_row \<Rightarrow> bool" where
  "feed_row q e \<longleftrightarrow> qAfterSequence q < ev_sequence e \<and> ev_sequence e \<le> qThroughSequence q
     \<and> ev_aggregate_type e = AggregateDownload
     \<and> ((ev_type e = EventTypeCompleted \<and> qIncludeCompleted q) \<or> (ev_type e = EventTypeFailed \<and> qIncludeFailed q))
     \<and> (qAggregateID q = [] \<or> ev_aggregate_id e = qAggregateID q)"

definition ListDownloadEvents :: "Env \<Rightarrow> EventQuery \<Rightarrow> Db \<Rightarrow> store_err + event_row list" where
  "ListDownloadEvents env q db =
     (if qAfterSequence q < 0 then Inl (ErrText ''event feed after sequence is negative'')
      else if qThroughSequence q < 0 then Inl (ErrText ''event feed through sequence is negative'')
      else if qThroughSequence q < qAfterSequence q
        then Inl (ErrText ''event feed sequence range is inverted'')
      else if qLimit q < 1 \<or> MaxEventFeedLimit < qLimit q
        then Inl (ErrText (''event feed limit must be between 1 and '' @ format_int MaxEventFeedLimit))
      else if \<not> qIncludeCompleted q \<and> \<not> qIncludeFailed q
        then Inl (ErrText ''event feed requires at least one event type'')
      else stmt (faulty env) ''list download events''
        (convert_all eventFromDB
          (take (nat (qLimit q)) (sort_key ev_sequence (filter (feed_row q) (domain_events db))))))"

record DeliveryFilter =
  fiEndpointID :: "int option"
  fiEventType :: EventType
  fiStatus :: DeliveryStatus
  fiCursor :: string
  fiLimit :: int

text \<open>The rows of \<open>ListDeliveries\<close>, newest first; a cursor id below 0 means no cursor.\<close>

definition history_row :: "DeliveryFilter \<Rightarrow> (time \<times> int) option \<Rightarrow> delivery_row \<Rightarrow> bool" where
  "history_row flt cursor v \<longleftrightarrow>
     (case fiEndpointID flt of None \<Rightarrow> True | Some i \<Rightarrow> v_endpoint_id v = i)
     \<and> (fiEventType flt = EventTypeOther [] \<or> v_event_type v = fiEventType flt)
     \<and> (fiStatus flt = StatusOther [] \<or> v_status v = fiStatus flt)
     \<and> (case cursor of
          None \<Rightarrow> True
        | Some (t, i) \<Rightarrow> v_created_at v < t \<or> (v_created_at v = t \<and> v_id v < i))"

definition history_rows :: "DeliveryFilter \<Rightarrow> (time \<times> int) option \<Rightarrow> Db \<Rightarrow> delivery_row list" where
  "history_rows flt cursor db =
     sort_key (\<lambda>v. Due (- v_created_at v) 0 (- v_id v)) (filter (history_row flt cursor) (webhook_deliveries db))"

definition ListWebhookDeliveries ::
    "Env \<Rightarrow> (string \<Rightarrow> (time \<times> int) option) \<Rightarrow> (time \<Rightarrow> int \<Rightarrow> string) \<Rightarrow> DeliveryFilter \<Rightarrow> Db
     \<Rightarrow> store_err + (Delivery list \<times> (string \<times> bool))" where
  "ListWebhookDeliveries env decodeCursor encodeCursor flt db =
     (let limit = (if fiLimit flt = 0 then 50 else fiLimit flt)
      in if limit < 1 \<or> 100 < limit then Inl (ErrText ''delivery limit must be between 1 and 100'')
         else if (case fiEndpointID flt of None \<Rightarrow> False | Some i \<Rightarrow> i \<le> 0)
           then Inl (ErrText ''delivery endpoint filter is invalid'')
         else if fiStatus flt \<noteq> StatusOther [] \<and> \<not> DeliveryStatus_Valid (fiStatus flt)
           then Inl (ErrText ''delivery status filter is invalid'')
         else and_then (if fiCursor flt = [] then Inr None
                        else case decodeCursor (fiCursor flt) of
                            None \<Rightarrow> Inl (ErrText ''delivery cursor is invalid'')
                          | Some c \<Rightarrow> Inr (Some c)) (\<lambda>cursor.
           stmt (faulty env) ''list webhook deliveries''
             (let rows = take (nat limit + 1) (history_rows flt cursor db);
                  hasMore = nat limit < length rows
              in and_then (convert_all deliveryFromDB (if hasMore then take (nat limit) rows else rows)) (\<lambda>ds.
                 Inr (ds, if hasMore then (encodeCursor (deCreatedAt (last ds)) (deID (last ds)), True)
                          else ([], False))))))"

definition GetWebhookDelivery :: "Env \<Rightarrow> int \<Rightarrow> Db \<Rightarrow> store_err + Delivery" where
  "GetWebhookDelivery env i db =
     stmt (faulty env) ''get webhook delivery''
       (case sql_get v_id i (webhook_deliveries db) of
          None \<Rightarrow> Inl ErrNotFound | Some row \<Rightarrow> deliveryFromDB row)"

subsection \<open>Replay, test delivery, prune\<close>

definition deliverable_endpoint :: "Db \<Rightarrow> int \<Rightarrow> bool" where
  "deliverable_endpoint db i \<longleftrightarrow>
     list_ex (\<lambda>e. e_id e = i \<and> e_enabled e = 1 \<and> e_deleted_at e = None) (webhook_endpoints db)"

definition replay_set :: "time \<Rightarrow> delivery_row \<Rightarrow> delivery_row" where
  "replay_set now v = v\<lparr>v_status := StatusPending, v_attempt_count := 0, v_first_attempt_at := None,
     v_next_attempt_at := Some now, v_lease_owner := None, v_lease_until := None,
     v_last_http_status := None, v_last_error := None, v_delivered_at := None, v_updated_at := now,
     v_row_version := v_row_version v + 1\<rparr>"

definition ReplayDelivery :: "time \<Rightarrow> int \<Rightarrow> delivery_row option tx" where
  "ReplayDelivery now i =
     tx_look (\<lambda>db. (\<lambda>v. v_id v = i \<and> v_status v = StatusDead \<and> deliverable_endpoint db (v_endpoint_id v))) (\<lambda>P.
     tx_look (\<lambda>db. find P (webhook_deliveries db)) (\<lambda>found.
     tx_bind (update_deliveries P (replay_set now)) (\<lambda>_.
     tx_return (map_option (replay_set now) found))))"

definition ReplayWebhookDelivery :: "Env \<Rightarrow> int \<Rightarrow> time \<Rightarrow> Db \<Rightarrow> (store_err + Delivery) \<times> Db" where
  "ReplayWebhookDelivery env i now db =
     (if i \<le> 0 \<or> time_is_zero now then (Inl (ErrText ''delivery id or replay time is invalid''), db)
      else case auto_commit (exec_wrapped env ''replay webhook delivery'' (ReplayDelivery now i)) db of
          (Inl e, db') \<Rightarrow> (Inl e, db')
        | (Inr None, db') \<Rightarrow> (Inl ErrNotFound, db')
        | (Inr (Some row), db') \<Rightarrow> (deliveryFromDB row, db'))"

definition enqueue_test :: "Env \<Rightarrow> int \<Rightarrow> time \<Rightarrow> delivery_row tx" where
  "enqueue_test env endpointID now =
     tx_bind (tx_query (faulty env) ''read test endpoint'' (get_endpoint endpointID)) (\<lambda>found.
     case found of
       None \<Rightarrow> tx_fail ErrNotFound
     | Some endpoint \<Rightarrow>
         (let aggregateID = format_int (e_id endpoint);
              eventID = freshID env aggregateID;
              payload = BuildTestPayload eventID (e_id endpoint) (e_name endpoint) now
          in tx_bind (exec_wrapped env ''insert webhook.test event''
                 (insert_event eventID EventTypeTest AggregateWebhookEndpoint aggregateID
                   (e_row_version endpoint) payload now)) (\<lambda>_.
             tx_bind (exec_wrapped env ''insert webhook.test delivery''
                 (insert_delivery eventID (e_id endpoint) (e_name endpoint) EventTypeTest
                   AggregateWebhookEndpoint aggregateID now now)) (\<lambda>delivery.
             tx_bind (commitEventTx (faulty env) ''commit webhook.test delivery'' True) (\<lambda>_.
             tx_return delivery)))))"

definition EnqueueTestDelivery :: "Env \<Rightarrow> int \<Rightarrow> time \<Rightarrow> Db \<Rightarrow> (store_err + Delivery) \<times> Db" where
  "EnqueueTestDelivery env endpointID now db =
     (if endpointID \<le> 0 \<or> time_is_zero now then (Inl (ErrText ''endpoint id or test time is invalid''), db)
      else case in_tx (faulty env) ''begin test delivery'' (enqueue_test env endpointID now) db of
          (Inl e, db') \<Rightarrow> (Inl e, db')
        | (Inr row, db') \<Rightarrow> (deliveryFromDB row, db'))"

definition prunable :: "time \<Rightarrow> delivery_row \<Rightarrow> bool" where
  "prunable cutoff v \<longleftrightarrow> (v_status v = StatusSucceeded \<or> v_status v = StatusCancelled) \<and> v_updated_at v < cutoff"

definition PruneDeliveries :: "time \<Rightarrow> nat tx" where
  "PruneDeliveries cutoff db =
     Inr (rows_affected (prunable cutoff) (webhook_deliveries db),
          db\<lparr>webhook_deliveries := filter (\<lambda>v. \<not> prunable cutoff v) (webhook_deliveries db)\<rparr>)"

definition PruneWebhookDeliveries :: "Env \<Rightarrow> time \<Rightarrow> Db \<Rightarrow> (store_err + nat) \<times> Db" where
  "PruneWebhookDeliveries env now db =
     (if time_is_zero now then (Inl (ErrText ''prune time is required''), db)
      else auto_commit (exec_wrapped env ''prune webhook deliveries''
        (PruneDeliveries (time_add now (- PruneRetention)))) db)"

subsection \<open>The delivery lease protocol\<close>

definition in_flight :: "delivery_row \<Rightarrow> bool" where
  "in_flight v \<longleftrightarrow> v_status v = StatusPending \<or> v_status v = StatusDelivering"

text \<open>An unfinished earlier delivery of the same endpoint and aggregate blocks a delivery.\<close>

definition same_lane :: "delivery_row \<Rightarrow> delivery_row \<Rightarrow> bool" where
  "same_lane a b \<longleftrightarrow> v_endpoint_id a = v_endpoint_id b \<and> v_aggregate_type a = v_aggregate_type b
     \<and> v_aggregate_id a = v_aggregate_id b"

definition earlier :: "delivery_row \<Rightarrow> delivery_row \<Rightarrow> bool" where
  "earlier a b \<longleftrightarrow> v_created_at a < v_created_at b \<or> (v_created_at a = v_created_at b \<and> v_id a < v_id b)"

definition blocked :: "Db \<Rightarrow> delivery_row \<Rightarrow> bool" where
  "blocked db v \<longleftrightarrow>
     list_ex (\<lambda>e. same_lane e v \<and> in_flight e \<and> earlier e v) (webhook_deliveries db)"

definition claimable_delivery :: "Db \<Rightarrow> time \<Rightarrow> delivery_row \<Rightarrow> bool" where
  "claimable_delivery db now v \<longleftrightarrow> in_flight v
     \<and> (case v_next_attempt_at v of None \<Rightarrow> False | Some t \<Rightarrow> t \<le> now)
     \<and> (case v_lease_until v of None \<Rightarrow> True | Some t \<Rightarrow> t \<le> now)
     \<and> deliverable_endpoint db (v_endpoint_id v) \<and> \<not> blocked db v"

definition delivery_due :: "delivery_row \<Rightarrow> int due" where
  "delivery_due v = Due (case v_next_attempt_at v of None \<Rightarrow> 0 | Some t \<Rightarrow> t) (v_created_at v) (v_id v)"

definition delivery_lease :: "string \<Rightarrow> time \<Rightarrow> time \<Rightarrow> delivery_row \<Rightarrow> delivery_row" where
  "delivery_lease owner leaseUntil now v = v\<lparr>v_status := StatusDelivering,
     v_attempt_count := v_attempt_count v + 1,
     v_first_attempt_at := (case v_first_attempt_at v of None \<Rightarrow> Some now | Some t \<Rightarrow> Some t),
     v_lease_owner := Some owner, v_lease_until := Some leaseUntil, v_updated_at := now,
     v_row_version := v_row_version v + 1\<rparr>"

definition claim_delivery :: "string \<Rightarrow> time \<Rightarrow> time \<Rightarrow> delivery_row option tx" where
  "claim_delivery owner leaseUntil now =
     tx_look (\<lambda>db. first_by delivery_due (filter (claimable_delivery db now) (webhook_deliveries db))) (\<lambda>candidate.
     case candidate of
       None \<Rightarrow> tx_return None
     | Some c \<Rightarrow>
         tx_bind (update_deliveries (\<lambda>v. v_id v = v_id c) (delivery_lease owner leaseUntil now)) (\<lambda>_.
         tx_return (Some (delivery_lease owner leaseUntil now c))))"

definition delivery_claim :: "string \<Rightarrow> Delivery \<Rightarrow> event_row \<Rightarrow> endpoint_row \<Rightarrow> Claim" where
  "delivery_claim owner d event endpoint =
     \<lparr>clDeliveryID = deID d, clOwner = owner, clVersion = deRowVersion d, clEndpointID = deEndpointID d,
      clEventID = deEventID d, clEventType = deEventType d, clPayload = ev_payload event,
      clURL = e_url endpoint, clHMACSecret = e_hmac_secret endpoint,
      clBearerToken = nullString (e_bearer_token endpoint), clAttemptCount = deAttemptCount d,
      clFirstAttemptAt = deFirstAttemptAt d\<rparr>"

definition need :: "string \<Rightarrow> 'a option \<Rightarrow> 'a tx" where
  "need l found = (case found of None \<Rightarrow> tx_fail (ErrDriver l) | Some x \<Rightarrow> tx_return x)"

definition claim_webhook :: "Env \<Rightarrow> string \<Rightarrow> time \<Rightarrow> time \<Rightarrow> Claim option tx" where
  "claim_webhook env owner leaseUntil now =
     tx_bind (exec_wrapped env ''claim due webhook delivery'' (claim_delivery owner leaseUntil now)) (\<lambda>found.
     case found of
       None \<Rightarrow> tx_return None
     | Some row \<Rightarrow>
         tx_bind (tx_lift (deliveryFromDB row)) (\<lambda>d.
         tx_bind (tx_query (faulty env) ''read claimed event''
           (\<lambda>db. sql_get ev_id (deEventID d) (domain_events db))) (\<lambda>ev.
         tx_bind (need ''read claimed event'' ev) (\<lambda>event.
         tx_bind (tx_query (faulty env) ''read claimed endpoint''
           (\<lambda>db. sql_get e_id (deEndpointID d) (webhook_endpoints db))) (\<lambda>en.
         tx_bind (need ''read claimed endpoint'' en) (\<lambda>endpoint.
         if e_deleted_at endpoint \<noteq> None then tx_return None
         else tx_bind (tx_commit (faulty env) ''commit webhook claim'') (\<lambda>_.
              tx_return (Some (delivery_claim owner d event endpoint)))))))))"

definition ClaimWebhookDue ::
    "Env \<Rightarrow> string \<Rightarrow> time \<Rightarrow> duration \<Rightarrow> Db \<Rightarrow> (store_err + Claim option) \<times> Db" where
  "ClaimWebhookDue env owner now leaseDuration db =
     (if trim_space owner = [] \<or> leaseDuration \<le> 0 \<or> time_is_zero now
      then (Inl (ErrText ''claim owner, time, or lease duration is invalid''), db)
      else case in_tx (faulty env) ''begin webhook claim''
               (claim_webhook env owner (time_add now leaseDuration) now) db of
          (Inr None, _) \<Rightarrow> (Inr None, db)
        | outcome \<Rightarrow> outcome)"

definition delivery_commit_where :: "Claim \<Rightarrow> delivery_row \<Rightarrow> bool" where
  "delivery_commit_where claim v \<longleftrightarrow> v_id v = clDeliveryID claim \<and> v_status v = StatusDelivering
     \<and> v_lease_owner v = Some (clOwner claim) \<and> v_row_version v = clVersion claim"

definition delivery_commit_set ::
    "DeliveryStatus \<Rightarrow> int option \<Rightarrow> string option \<Rightarrow> time option \<Rightarrow> time option \<Rightarrow> time
     \<Rightarrow> delivery_row \<Rightarrow> delivery_row" where
  "delivery_commit_set status httpStatus err nextAttempt deliveredAt now v =
     v\<lparr>v_status := status, v_last_http_status := httpStatus, v_last_error := err,
       v_next_attempt_at := nextAttempt, v_delivered_at := deliveredAt, v_lease_owner := None,
       v_lease_until := None, v_updated_at := now, v_row_version := v_row_version v + 1\<rparr>"

definition result_check :: "Result \<Rightarrow> string option" where
  "result_check result =
     (case rsStatus result of
        StatusSucceeded \<Rightarrow>
          (case rsDeliveredAt result of
             None \<Rightarrow> Some ''succeeded delivery requires a delivered time''
           | Some t \<Rightarrow> if time_is_zero t then Some ''succeeded delivery requires a delivered time'' else None)
      | StatusPending \<Rightarrow>
          (case rsNextAttemptAt result of
             None \<Rightarrow> Some ''pending delivery requires a next attempt time''
           | Some t \<Rightarrow> if time_is_zero t then Some ''pending delivery requires a next attempt time'' else None)
      | StatusDead \<Rightarrow>
          (if rsNextAttemptAt result \<noteq> None then Some ''dead delivery must not schedule a next attempt''
           else None)
      | _ \<Rightarrow> Some ''delivery commit status is invalid'')"

text \<open>A missing endpoint counts as deleted; then the outcome is cancelled whatever the result was.\<close>

definition endpoint_gone :: "Db \<Rightarrow> int \<Rightarrow> bool" where
  "endpoint_gone db i =
     (case sql_get e_id i (webhook_endpoints db) of None \<Rightarrow> True | Some e \<Rightarrow> e_deleted_at e \<noteq> None)"

definition commit_delivery :: "bool \<Rightarrow> Claim \<Rightarrow> Result \<Rightarrow> time \<Rightarrow> nat tx" where
  "commit_delivery gone claim result now =
     update_deliveries (delivery_commit_where claim)
       (delivery_commit_set (if gone then StatusCancelled else rsStatus result)
          (if 0 < rsLastHTTPStatus result then Some (rsLastHTTPStatus result) else None)
          (nullableString (boundDeliveryError (rsLastError result)))
          (if gone then None else nullableTime (rsNextAttemptAt result))
          (if gone then None else nullableTime (rsDeliveredAt result)) now)"

definition CommitWebhookClaim ::
    "Env \<Rightarrow> Claim \<Rightarrow> Result \<Rightarrow> time \<Rightarrow> Db \<Rightarrow> (store_err + unit) \<times> Db" where
  "CommitWebhookClaim env claim result now db =
     (if clDeliveryID claim \<le> 0 \<or> clEndpointID claim \<le> 0 \<or> trim_space (clOwner claim) = []
         \<or> clVersion claim < 0 \<or> time_is_zero now
      then (Inl ErrClaimLost, db)
      else case result_check result of
          Some e \<Rightarrow> (Inl (ErrText e), db)
        | None \<Rightarrow>
            in_tx (faulty env) ''begin webhook commit''
              (tx_bind (tx_query (faulty env) ''read committed endpoint state''
                 (\<lambda>db. endpoint_gone db (clEndpointID claim))) (\<lambda>gone.
               tx_bind (exec_wrapped env ''commit webhook claim'' (commit_delivery gone claim result now)) (\<lambda>updated.
               tx_bind (tx_require (updated \<noteq> 0) ErrClaimLost) (\<lambda>_.
               tx_commit (faulty env) ''commit webhook claim transaction'')))) db)"

definition delivery_due_times :: "Db \<Rightarrow> time \<Rightarrow> delivery_row \<Rightarrow> time list" where
  "delivery_due_times db now v =
     (if \<not> in_flight v \<or> \<not> deliverable_endpoint db (v_endpoint_id v) \<or> blocked db v then []
      else case v_next_attempt_at v of
          None \<Rightarrow> []
        | Some next \<Rightarrow>
            (case v_lease_until v of
               None \<Rightarrow> [next]
             | Some lease \<Rightarrow>
                 (if lease \<le> now \<or> lease \<le> next then [next] else []) @
                 (if now < lease \<and> next < lease then [lease] else [])))"

definition NextWebhookDue :: "Env \<Rightarrow> time \<Rightarrow> Db \<Rightarrow> store_err + time option" where
  "NextWebhookDue env now db =
     (if time_is_zero now then Inl (ErrText ''due time is required'')
      else stmt (faulty env) ''get next webhook due''
        (case first_by id (concat (map (delivery_due_times db now) (webhook_deliveries db))) of
           None \<Rightarrow> Inr None
         | Some t \<Rightarrow>
             if time_is_zero t then Inl (ErrText ''stored next webhook due is invalid'') else Inr (Some t)))"

subsection \<open>The operations run lawful statements\<close>

context store_relation
begin

lemma steps_update_deliveries:
  assumes "\<And>v. P v \<Longrightarrow> v_id (f v) = v_id v \<and> v_row_version (f v) = v_row_version v + 1
    \<and> v_event_id (f v) = v_event_id v \<and> v_endpoint_id (f v) = v_endpoint_id v"
  shows "steps (update_deliveries P f) db"
  using R_deliveries [OF assms] by (auto simp: steps_def update_deliveries_def)

lemma steps_update_endpoint:
  assumes "\<And>e. live_endpoint i e \<Longrightarrow> e_id (f e) = e_id e"
  shows "steps (update_endpoint i f) db"
  using R_endpoints [OF assms] by (auto simp: steps_def update_endpoint_def)

lemma steps_InsertEndpoint: "steps (InsertEndpoint params) db"
  using R_new_endpoint [of "params\<lparr>e_id := last_endpoint_id db + 1\<rparr>" db]
  by (auto simp: steps_def InsertEndpoint_def Let_def)

lemma steps_UpdateEndpoint: "steps (UpdateEndpoint nm url b e now i) db"
  using steps_update_endpoint [of i "endpoint_fields nm url b e now" db]
  by (auto simp: steps_def UpdateEndpoint_def endpoint_fields_def split: if_splits)

lemma steps_endpoint_updates:
  "steps (SetEndpointEnabled w now i) db"
  "steps (RotateEndpointSecret secret now i) db"
  "steps (DeleteEndpoint now i) db"
  unfolding SetEndpointEnabled_def RotateEndpointSecret_def DeleteEndpoint_def
  by (intro steps_update_endpoint; simp)+

lemma steps_subscriptions:
  "steps (InsertSubscription i ty) db" "steps (DeleteSubscription i ty) db"
  using R_subscriptions by (auto simp: steps_def InsertSubscription_def DeleteSubscription_def)

lemma steps_cancel_deliveries:
  "steps (CancelEndpointDeliveries i now) db" "steps (CancelSubscriptionDeliveries i now ty) db"
  unfolding CancelEndpointDeliveries_def CancelSubscriptionDeliveries_def
  by (intro steps_update_deliveries; simp add: cancel_delivery_def)+

lemma steps_reconcile: "steps (reconcileSubscriptions env i c f) db"
  unfolding reconcileSubscriptions_def by (intro op_rules steps_subscriptions)

lemma steps_text_err: "steps (text_err e) db"
  unfolding text_err_def by (intro steps_rules)

lemmas outbox_rules = op_rules steps_InsertEndpoint steps_UpdateEndpoint steps_endpoint_updates
  steps_cancel_deliveries steps_reconcile steps_text_err

lemma CreateWebhookEndpoint_R: "R db (snd (CreateWebhookEndpoint env parse input now db))"
  by (auto simp: CreateWebhookEndpoint_def Let_def R_refl intro!: outbox_rules split: option.splits)

lemma UpdateWebhookEndpoint_R: "R db (snd (UpdateWebhookEndpoint env parse i input now db))"
  unfolding UpdateWebhookEndpoint_def update_webhook_endpoint_def Let_def
  by (auto simp: R_refl intro!: outbox_rules)

lemma SetWebhookEndpointEnabled_R: "R db (snd (SetWebhookEndpointEnabled env i b now db))"
  by (auto simp: SetWebhookEndpointEnabled_def R_refl intro!: auto_commit_R outbox_rules)

lemma RotateWebhookEndpointSecret_R: "R db (snd (RotateWebhookEndpointSecret env i now db))"
proof -
  have "R db (snd (auto_commit (exec_wrapped env ''rotate webhook endpoint secret''
      (RotateEndpointSecret (freshSecret env) now i)) db))"
    by (intro auto_commit_R outbox_rules)
  then show ?thesis
    by (auto simp: RotateWebhookEndpointSecret_def R_refl split: prod.splits sum.splits option.splits)
qed

lemma DeleteWebhookEndpoint_R: "R db (snd (DeleteWebhookEndpoint env i now db))"
  by (auto simp: DeleteWebhookEndpoint_def R_refl intro!: outbox_rules)

lemma ReplayWebhookDelivery_R: "R db (snd (ReplayWebhookDelivery env i now db))"
proof -
  have "steps (ReplayDelivery now i) db"
    unfolding ReplayDelivery_def by (intro steps_rules steps_update_deliveries) (simp add: replay_set_def)
  then have "R db (snd (auto_commit (exec_wrapped env ''replay webhook delivery'' (ReplayDelivery now i)) db))"
    by (intro auto_commit_R outbox_rules)
  then show ?thesis
    by (auto simp: ReplayWebhookDelivery_def R_refl split: prod.splits sum.splits option.splits)
qed

lemma EnqueueTestDelivery_R: "R db (snd (EnqueueTestDelivery env i now db))"
proof -
  have "steps (enqueue_test env i now) db" for db
    unfolding enqueue_test_def Let_def
    by (intro outbox_rules steps_event steps_delivery)
  then have "R db (snd (in_tx (faulty env) ''begin test delivery'' (enqueue_test env i now) db))"
    by (rule in_tx_R)
  then show ?thesis
    by (auto simp: EnqueueTestDelivery_def R_refl split: prod.splits sum.splits)
qed

lemma PruneWebhookDeliveries_R: "R db (snd (PruneWebhookDeliveries env now db))"
proof -
  have "steps (PruneDeliveries c) db" for c
    using R_prune by (auto simp: steps_def PruneDeliveries_def)
  then show ?thesis
    by (auto simp: PruneWebhookDeliveries_def R_refl intro!: auto_commit_R outbox_rules)
qed

lemma steps_need: "steps (need l x) db"
  unfolding need_def by (intro steps_rules)

lemma steps_claim_webhook: "steps (claim_webhook env owner lease now) db"
proof -
  have "steps (claim_delivery owner lease now) db" for db
    unfolding claim_delivery_def
    by (intro steps_rules steps_update_deliveries) (simp add: delivery_lease_def)
  then show ?thesis
    unfolding claim_webhook_def by (intro outbox_rules steps_need)
qed

lemma ClaimWebhookDue_R: "R db (snd (ClaimWebhookDue env owner now dur db))"
  using in_tx_R [OF steps_claim_webhook, of db "faulty env" "''begin webhook claim''" env owner
      "time_add now dur" now]
  by (auto simp: ClaimWebhookDue_def R_refl split: prod.splits sum.splits option.splits)

lemma CommitWebhookClaim_R: "R db (snd (CommitWebhookClaim env claim result now db))"
proof -
  have "steps (commit_delivery gone claim result now) db" for gone db
    unfolding commit_delivery_def
    by (intro steps_update_deliveries) (simp add: delivery_commit_set_def)
  then show ?thesis
    by (auto simp: CommitWebhookClaim_def R_refl intro!: outbox_rules split: option.splits)
qed

end

end
