(* ===== verification/Store_System.thy ===== *)
theory Store_System
  imports Store_Surface Store_Outbox
begin

section \<open>The store as a system: sequences of operations and what they keep\<close>

text \<open>
  The operations as one request type with an executable interpreter, the databases reachable from
  the freshly migrated one, and the interpretations of the relation locales: rows only move
  forward, the event log only grows, keys stay unique, and local trees stay apart.
\<close>

subsection \<open>Requests\<close>

datatype store_op =
    OpUpsertCategory Category
  | OpCreateSubmission Submission
  | OpUpdateTags "string list" string time
  | OpSetAutoTMM "string list" bool time
  | OpAddTags "string list" string time
  | OpStartMany "string list" time
  | OpSetSavePaths "string list" string time
  | OpSetSavePath string string int time
  | OpSetFileOverride string int string int time
  | OpSetDownloadName string string time
  | OpSetFilePriorities string "int list" int time
  | OpSetCategory string string time
  | OpStart string time
  | OpRetry string State time
  | OpPause string time
  | OpCancel string time
  | OpRequestDelete "string list" bool time
  | OpClaimDue string time duration
  | OpCommitClaim DownloadClaim Download
  | OpCreateTags string time
  | OpDeleteTags string time
  | OpRemoveTags "string list" string time
  | OpRemoveCategories "string list" time
  | OpRenameDownload string string time
  | OpRenameFolder string string string time
  | OpReverify string time
  | OpCreateEndpoint EndpointInput time
  | OpUpdateEndpoint int EndpointInput time
  | OpSetEndpointEnabled int bool time
  | OpRotateSecret int time
  | OpDeleteEndpoint int time
  | OpReplay int time
  | OpEnqueueTest int time
  | OpClaimWebhook string time duration
  | OpCommitWebhook Claim Result time
  | OpPrune time

text \<open>What a run draws from outside besides \<open>Env\<close>: the map iteration order and the URL parser.\<close>

record Oracle =
  orEnv :: Env
  orOrder :: "string list \<Rightarrow> string list"
  orParse :: "string \<Rightarrow> URL option"

fun run_op :: "Oracle \<Rightarrow> store_op \<Rightarrow> Db \<Rightarrow> Db" where
  "run_op w (OpUpsertCategory c) db = snd (UpsertCategory (orEnv w) c db)"
| "run_op w (OpCreateSubmission s) db = snd (CreateSubmission (orEnv w) s db)"
| "run_op w (OpUpdateTags hs t n) db = snd (UpdateTags (orEnv w) hs t n db)"
| "run_op w (OpSetAutoTMM hs b n) db = snd (SetAutoTMM (orEnv w) hs b n db)"
| "run_op w (OpAddTags hs t n) db = snd (AddTags (orEnv w) hs t n db)"
| "run_op w (OpStartMany hs n) db = snd (StartMany (orEnv w) hs n db)"
| "run_op w (OpSetSavePaths hs p n) db = snd (SetSavePaths (orEnv w) hs p n db)"
| "run_op w (OpSetSavePath h p v n) db = snd (SetSavePath (orEnv w) h p v n db)"
| "run_op w (OpSetFileOverride h i r p n) db = snd (SetFileOverride (orEnv w) h i r p n db)"
| "run_op w (OpSetDownloadName h nm n) db = snd (SetDownloadName (orEnv w) h nm n db)"
| "run_op w (OpSetFilePriorities h is p n) db = snd (SetFilePriorities (orEnv w) h is p n db)"
| "run_op w (OpSetCategory h c n) db = snd (SetCategory (orEnv w) h c n db)"
| "run_op w (OpStart h n) db = snd (Start (orEnv w) h n db)"
| "run_op w (OpRetry h s n) db = snd (Retry (orEnv w) h s n db)"
| "run_op w (OpPause h n) db = snd (Pause (orEnv w) h n db)"
| "run_op w (OpCancel h n) db = snd (Cancel (orEnv w) h n db)"
| "run_op w (OpRequestDelete hs b n) db = snd (RequestDelete (orEnv w) (orOrder w) hs b n db)"
| "run_op w (OpClaimDue o' n d) db = snd (ClaimDue (orEnv w) o' n d db)"
| "run_op w (OpCommitClaim c d) db = snd (CommitClaim (orEnv w) c d db)"
| "run_op w (OpCreateTags t n) db = snd (CreateTags (orEnv w) t n db)"
| "run_op w (OpDeleteTags t n) db = snd (DeleteTags (orEnv w) t n db)"
| "run_op w (OpRemoveTags hs t n) db = snd (RemoveTags (orEnv w) hs t n db)"
| "run_op w (OpRemoveCategories cs n) db = snd (RemoveCategories (orEnv w) cs n db)"
| "run_op w (OpRenameDownload h nm n) db = snd (RenameDownload (orEnv w) h nm n db)"
| "run_op w (OpRenameFolder h a b n) db = snd (RenameFolder (orEnv w) h a b n db)"
| "run_op w (OpReverify h n) db = snd (Reverify (orEnv w) h n db)"
| "run_op w (OpCreateEndpoint e n) db = snd (CreateWebhookEndpoint (orEnv w) (orParse w) e n db)"
| "run_op w (OpUpdateEndpoint i e n) db = snd (UpdateWebhookEndpoint (orEnv w) (orParse w) i e n db)"
| "run_op w (OpSetEndpointEnabled i b n) db = snd (SetWebhookEndpointEnabled (orEnv w) i b n db)"
| "run_op w (OpRotateSecret i n) db = snd (RotateWebhookEndpointSecret (orEnv w) i n db)"
| "run_op w (OpDeleteEndpoint i n) db = snd (DeleteWebhookEndpoint (orEnv w) i n db)"
| "run_op w (OpReplay i n) db = snd (ReplayWebhookDelivery (orEnv w) i n db)"
| "run_op w (OpEnqueueTest i n) db = snd (EnqueueTestDelivery (orEnv w) i n db)"
| "run_op w (OpClaimWebhook o' n d) db = snd (ClaimWebhookDue (orEnv w) o' n d db)"
| "run_op w (OpCommitWebhook c r n) db = snd (CommitWebhookClaim (orEnv w) c r n db)"
| "run_op w (OpPrune n) db = snd (PruneWebhookDeliveries (orEnv w) n db)"

inductive store_step :: "Db \<Rightarrow> Db \<Rightarrow> bool" where
  op: "store_step db (run_op w a db)"

inductive_cases store_stepE: "store_step db db'"

text \<open>Operations in sequence, with whatever oracle each of them meets.\<close>

inductive store_run :: "Db \<Rightarrow> Db \<Rightarrow> bool" where
  refl: "store_run db db"
| step: "store_run a b \<Longrightarrow> store_step b c \<Longrightarrow> store_run a c"

definition run_ops :: "(Oracle \<times> store_op) list \<Rightarrow> Db \<Rightarrow> Db" where
  "run_ops ops db = fold (\<lambda>(w, a). run_op w a) ops db"

lemma store_run_ops: "store_run db (run_ops ops db)"
proof (induction ops rule: rev_induct)
  case Nil
  then show ?case by (simp add: run_ops_def store_run.refl)
next
  case (snoc x ops)
  then show ?case
    by (cases x) (auto simp: run_ops_def intro: store_run.step store_step.op)
qed

lemma store_run_trans: "store_run b c \<Longrightarrow> store_run a b \<Longrightarrow> store_run a c"
  by (induction rule: store_run.induct) (auto intro: store_run.step)

definition empty_db :: Db where
  "empty_db = \<lparr>downloads = [], download_files = [], file_overrides = [], categories = [],
     qbt_tags = [], domain_events = [], webhook_endpoints = [], webhook_subscriptions = [],
     webhook_deliveries = [], last_sequence = 0, last_endpoint_id = 0, last_delivery_id = 0,
     eventSignal = NewSignal\<rparr>"

definition reachable :: "Db \<Rightarrow> bool" where
  "reachable db \<longleftrightarrow> store_run empty_db db"

context store_relation
begin

lemma run_op_R: "R db (run_op w a db)"
  by (cases a) (simp_all add: UpsertCategory_R CreateSubmission_R UpdateTags_R SetAutoTMM_R AddTags_R
      StartMany_R SetSavePaths_R SetSavePath_R SetFileOverride_R SetDownloadName_R
      SetFilePriorities_R SetCategory_R Start_R Retry_R Pause_R Cancel_R RequestDelete_R ClaimDue_R
      CommitClaim_R CreateTags_R DeleteTags_R RemoveTags_R RemoveCategories_R RenameDownload_R
      RenameFolder_R Reverify_R CreateWebhookEndpoint_R UpdateWebhookEndpoint_R
      SetWebhookEndpointEnabled_R RotateWebhookEndpointSecret_R DeleteWebhookEndpoint_R
      ReplayWebhookDelivery_R EnqueueTestDelivery_R ClaimWebhookDue_R CommitWebhookClaim_R
      PruneWebhookDeliveries_R)

lemma store_step_R: "store_step db db' \<Longrightarrow> R db db'"
  by (auto elim: store_stepE simp: run_op_R)

lemma store_run_R: "store_run db db' \<Longrightarrow> R db db'"
  by (induction rule: store_run.induct) (auto intro: R_refl R_trans store_step_R)

end

subsection \<open>Rows only move forward\<close>

text \<open>
  Every write of a row raises its version by one, and keeps the state or takes one transition of the
  lifecycle.  So the version difference of two versions of a row bounds the transitions between
  them: the later state is reached in exactly that many steps, each of them a transition or none.
\<close>

definition write_step :: "State \<Rightarrow> State \<Rightarrow> bool" where
  "write_step s t \<longleftrightarrow> t = s \<or> CanTransition s t"

definition row_evolves :: "download_row \<Rightarrow> download_row \<Rightarrow> bool" where
  "row_evolves r r' \<longleftrightarrow> r_hash r' = r_hash r \<and> r_row_version r \<le> r_row_version r' \<and>
     (r_row_version r' = r_row_version r \<longrightarrow> r' = r) \<and>
     (State_Valid (r_state r) \<longrightarrow>
       (write_step ^^ nat (r_row_version r' - r_row_version r)) (r_state r) (r_state r'))"

definition rows_evolve :: "Db \<Rightarrow> Db \<Rightarrow> bool" where
  "rows_evolve db db' \<longleftrightarrow>
     (\<exists>rows rest. downloads db' = rows @ rest \<and> list_all2 row_evolves (downloads db) rows)"

lemma rows_evolveI:
  "downloads db' = rows @ rest \<Longrightarrow> list_all2 row_evolves (downloads db) rows \<Longrightarrow> rows_evolve db db'"
  by (auto simp: rows_evolve_def)

lemma write_steps_valid: "(write_step ^^ n) s t \<Longrightarrow> State_Valid s \<Longrightarrow> State_Valid t"
  by (induction n arbitrary: t) (auto simp: write_step_def dest: CanTransition_valid)

lemma row_evolves_refl: "row_evolves r r"
  by (simp add: row_evolves_def)

lemma row_evolves_forward: "row_evolves r r' \<Longrightarrow> r' = r \<or> r_row_version r < r_row_version r'"
  by (auto simp: row_evolves_def)

lemma row_evolves_trans:
  assumes "row_evolves a b" "row_evolves b c"
  shows "row_evolves a c"
proof -
  have n: "nat (r_row_version c - r_row_version a) =
      nat (r_row_version b - r_row_version a) + nat (r_row_version c - r_row_version b)"
    using assms by (auto simp: row_evolves_def)
  have "(write_step ^^ nat (r_row_version c - r_row_version a)) (r_state a) (r_state c)"
    if "State_Valid (r_state a)"
    using assms that write_steps_valid [of _ "r_state a" "r_state b"]
    unfolding n relpowp_add by (auto simp: row_evolves_def)
  with assms show ?thesis by (auto simp: row_evolves_def)
qed

lemma lawful_evolves: "lawful r r' \<Longrightarrow> row_evolves r r'"
  by (auto simp: lawful_def row_evolves_def write_step_def)

lemma rows_evolve_same: "downloads db' = downloads db \<Longrightarrow> rows_evolve db db'"
  by (rule rows_evolveI [where rows = "downloads db" and rest = "[]"])
    (simp_all add: list.rel_refl row_evolves_refl)

lemma rows_evolve_update:
  assumes "\<And>r. P r \<Longrightarrow> lawful r (f r)"
  shows "rows_evolve db (db\<lparr>downloads := sql_update P f (downloads db)\<rparr>)"
proof -
  have "list_all2 row_evolves rows (sql_update P f rows)" for rows
    by (induction rows) (auto simp: sql_update_Cons assms lawful_evolves row_evolves_refl)
  then show ?thesis
    by (intro rows_evolveI [where rows = "sql_update P f (downloads db)" and rest = "[]"]) simp_all
qed

lemma rows_evolve_trans:
  assumes "rows_evolve a b" and "rows_evolve b c"
  shows "rows_evolve a c"
proof -
  from assms obtain r1 m1 r2 m2 where b: "downloads b = r1 @ m1" "list_all2 row_evolves (downloads a) r1"
    and c: "downloads c = r2 @ m2" "list_all2 row_evolves (downloads b) r2"
    by (auto simp: rows_evolve_def)
  from c(2) b(1) obtain u v where r2: "r2 = u @ v" "list_all2 row_evolves r1 u"
    by (auto simp: list_all2_append1)
  have "list_all2 row_evolves (downloads a) u"
    using list_all2_trans [OF row_evolves_trans b(2) r2(2)] .
  with c(1) r2(1) show ?thesis unfolding rows_evolve_def by (metis append_assoc)
qed

lemma insert_event_downloads:
  "insert_event evID ty agg aggID ver payload t db = Inr (u, db') \<Longrightarrow> downloads db' = downloads db"
  by (auto simp: insert_event_def split: if_splits)

lemma insert_delivery_downloads:
  "insert_delivery eID endID nm ty agg aggID n t db = Inr (v, db') \<Longrightarrow> downloads db' = downloads db"
  by (auto simp: insert_delivery_def Let_def split: if_splits)

interpretation evolution: store_relation rows_evolve
proof unfold_locales
  show "rows_evolve a c" if "rows_evolve a b" "rows_evolve b c" for a b c
    using rows_evolve_trans that .
  show "rows_evolve db (db\<lparr>downloads := downloads db @ [row]\<rparr>)" for db row
    by (rule rows_evolveI [where rows = "downloads db" and rest = "[row]"])
      (simp_all add: list.rel_refl row_evolves_refl)
qed (auto simp: rows_evolve_same notify_def insert_event_downloads insert_delivery_downloads
      intro: rows_evolve_update)

end
