(* ===== verification/Store_Invariants.thy ===== *)
theory Store_Invariants
  imports Store_System
begin

section \<open>Invariants of the store\<close>

text \<open>
  Three more interpretations of the store's relation locale (keys and local paths, the event log,
  the delivery queue) and the fencing argument: a lease identity that still matches names an
  untouched row.
\<close>

subsection \<open>Local paths stay apart\<close>

text \<open>
  The tree that the triggers of migrations/00015 compare: the workspace, or in the legacy layout the text of
  save path and destination name.  The content path of a legacy row without a destination name, which a
  deletion falls back to, is not looked at by any trigger and is no part of it.
\<close>

definition local_tree :: "download_row \<Rightarrow> string option" where
  "local_tree r = (case r_workspace_path r of Some w \<Rightarrow> Some w | None \<Rightarrow> legacy_tree r)"

text \<open>
  Two rows are apart when their local trees do not nest; between two workspaces it is the save
  paths that must stay out of the other's workspace, and the workspaces that must differ.
\<close>

definition trees_apart :: "string option \<Rightarrow> string option \<Rightarrow> bool" where
  "trees_apart p q = (case (p, q) of (Some x, Some y) \<Rightarrow> \<not> path_nested x y | _ \<Rightarrow> True)"

definition rows_apart :: "download_row \<Rightarrow> download_row \<Rightarrow> bool" where
  "rows_apart a b \<longleftrightarrow>
     (case (r_workspace_path a, r_workspace_path b) of
        (Some v, Some w) \<Rightarrow> v \<noteq> w \<and> \<not> path_below w (r_save_path a) \<and> \<not> path_below v (r_save_path b)
      | _ \<Rightarrow> trees_apart (local_tree a) (local_tree b))"

definition paths_ok :: "Db \<Rightarrow> bool" where
  "paths_ok db \<longleftrightarrow> distinct (map r_hash (downloads db)) \<and>
     (\<forall>a \<in> set (downloads db). \<forall>b \<in> set (downloads db). r_hash a \<noteq> r_hash b \<longrightarrow> rows_apart a b)"

lemma path_nested_sym: "path_nested p q = path_nested q p"
  by (auto simp: path_nested_def)

lemma rows_apart_sym: "rows_apart a b \<Longrightarrow> rows_apart b a"
  by (auto simp: rows_apart_def trees_apart_def path_nested_sym split: option.splits)

lemma guarded_apart:
  assumes "\<not> guard_against new other" and "\<not> index_conflict new other"
  shows "rows_apart new other"
  using assms
  by (auto simp: guard_against_def index_conflict_def rows_apart_def trees_apart_def local_tree_def
      path_nested_def legacy_tree_def split: option.splits if_splits)

lemma not_rejected_apart:
  assumes "\<not> guard_rejects db new" and "\<not> index_rejects db new"
    and "other \<in> set (downloads db)" and "r_hash other \<noteq> r_hash new"
  shows "rows_apart new other"
  using assms by (intro guarded_apart) (auto simp: guard_rejects_def index_rejects_def list_ex_iff)

lemma legacy_tree_same:
  "same_tree r r' \<Longrightarrow> legacy_tree r' = legacy_tree r"
  by (auto simp: same_tree_def legacy_tree_def row_retained_def split: option.splits)

lemma rows_apart_same:
  "same_tree a a' \<Longrightarrow> same_tree b b' \<Longrightarrow> rows_apart a' b' = rows_apart a b"
  using legacy_tree_same [of a a'] legacy_tree_same [of b b']
  by (auto simp: rows_apart_def local_tree_def same_tree_def split: option.splits)

lemma same_tree_refl: "same_tree r r"
  by (simp add: same_tree_def)

lemma paths_ok_plain:
  assumes "\<And>r. P r \<Longrightarrow> lawful r (f r) \<and> same_tree r (f r)" and "paths_ok db"
  shows "paths_ok (db\<lparr>downloads := sql_update P f (downloads db)\<rparr>)"
proof -
  define g where "g = (\<lambda>r. if P r then f r else r)"
  have g: "same_tree r (g r)" "r_hash (g r) = r_hash r" for r
    using assms(1) by (auto simp: g_def same_tree_refl lawful_def)
  have upd: "sql_update P f rows = map g rows" for rows
    by (simp add: sql_update_def g_def)
  have keys: "map (r_hash \<circ> g) rows = map r_hash rows" for rows
    by (simp add: g(2) comp_def)
  show ?thesis
    using assms(2) rows_apart_same [OF g(1) g(1)]
    by (auto simp: paths_ok_def upd g(2) keys)
qed

lemma paths_ok_guarded:
  assumes key: "\<And>r. P r \<Longrightarrow> r_hash r = h \<and> lawful r (f r)"
    and ok: "\<And>r. r \<in> set (downloads db) \<Longrightarrow> P r \<Longrightarrow> guarded_write db r (f r)"
    and inv: "paths_ok db"
  shows "paths_ok (db\<lparr>downloads := sql_update P f (downloads db)\<rparr>)"
proof -
  define g where "g = (\<lambda>r. if P r then f r else r)"
  have g: "P r \<Longrightarrow> g r = f r" "\<not> P r \<Longrightarrow> g r = r" for r by (simp_all add: g_def)
  have upd: "sql_update P f rows = map g rows" for rows
    by (simp add: sql_update_def g_def)
  have hash: "r_hash (g r) = r_hash r" for r
    using key by (auto simp: lawful_def g_def)
  have apart: "rows_apart (g a) (g b)"
    if a: "a \<in> set (downloads db)" and b: "b \<in> set (downloads db)" and ne: "r_hash a \<noteq> r_hash b" for a b
  proof -
    have new: "rows_apart (f x) y"
      if "x \<in> set (downloads db)" "P x" "y \<in> set (downloads db)" "r_hash y \<noteq> r_hash x" for x y
      using ok [OF that(1,2)] hash [of x] that
      by (intro not_rejected_apart) (auto simp: guarded_write_def g)
    consider "P a" "\<not> P b" | "P b" "\<not> P a" | "\<not> P a" "\<not> P b" using key ne by blast
    then show ?thesis
    proof cases
      case 1
      with new [OF a _ b] ne show ?thesis by (auto simp: g)
    next
      case 2
      with new [OF b _ a] ne show ?thesis by (auto simp: g intro: rows_apart_sym)
    next
      case 3
      with inv a b ne show ?thesis by (simp add: paths_ok_def g)
    qed
  qed
  have keys: "map (r_hash \<circ> g) rows = map r_hash rows" for rows
    by (simp add: hash comp_def)
  from inv apart show ?thesis by (auto simp: paths_ok_def upd hash keys)
qed

lemma paths_ok_insert:
  assumes "fresh_row db row" and "paths_ok db"
  shows "paths_ok (db\<lparr>downloads := downloads db @ [row]\<rparr>)"
proof -
  have "rows_apart row y \<and> rows_apart y row" if "y \<in> set (downloads db)" for y
  proof -
    have "r_hash y \<noteq> r_hash row" using assms(1) imageI [OF that, of r_hash] by (auto simp: fresh_row_def)
    with assms(1) that have "rows_apart row y"
      by (intro not_rejected_apart) (simp_all add: fresh_row_def)
    then show ?thesis by (simp add: rows_apart_sym)
  qed
  with assms show ?thesis by (auto simp: paths_ok_def fresh_row_def)
qed

lemma paths_ok_same: "paths_ok db \<Longrightarrow> downloads db' = downloads db \<Longrightarrow> paths_ok db'"
  by (simp add: paths_ok_def)

interpretation paths: store_relation "\<lambda>db db'. paths_ok db \<longrightarrow> paths_ok db'"
proof unfold_locales
  show "paths_ok db \<longrightarrow> paths_ok (db\<lparr>downloads := sql_update P f (downloads db)\<rparr>)"
    if "\<And>r. P r \<Longrightarrow> lawful r (f r) \<and> same_tree r (f r)" for P f db
    using paths_ok_plain [OF that] by blast
  show "paths_ok db \<longrightarrow> paths_ok (db\<lparr>downloads := sql_update P f (downloads db)\<rparr>)"
    if "\<And>r. P r \<Longrightarrow> r_hash r = h \<and> lawful r (f r)"
      and "\<And>r. r \<in> set (downloads db) \<Longrightarrow> P r \<Longrightarrow> guarded_write db r (f r)" for P f db h
    using paths_ok_guarded [OF that] by blast
qed (auto simp: notify_def elim: paths_ok_same intro: insert_event_downloads
      insert_delivery_downloads paths_ok_insert)

lemma reachable_paths: "reachable db \<Longrightarrow> paths_ok db"
  using paths.store_run_R [of empty_db db] by (simp add: reachable_def paths_ok_def empty_db_def)

subsection \<open>The event log\<close>

text \<open>Sequences are 1, 2, 3, ... without gaps, ids are unique, and rows are only appended.\<close>

definition log_ok :: "Db \<Rightarrow> bool" where
  "log_ok db \<longleftrightarrow> 0 \<le> last_sequence db \<and> map ev_sequence (domain_events db) = [1..last_sequence db]
     \<and> distinct (map ev_id (domain_events db))"

definition log_grows :: "Db \<Rightarrow> Db \<Rightarrow> bool" where
  "log_grows db db' \<longleftrightarrow> (log_ok db \<longrightarrow> log_ok db') \<and> prefix (domain_events db) (domain_events db')"

lemma log_grows_same:
  "domain_events db' = domain_events db \<Longrightarrow> last_sequence db' = last_sequence db \<Longrightarrow> log_grows db db'"
  by (simp add: log_grows_def log_ok_def)

lemma log_grows_event:
  "insert_event evID ty agg aggID ver payload t db = Inr (u, db') \<Longrightarrow> log_grows db db'"
  using upto_rec2 [of 1 "last_sequence db + 1"]
  by (auto simp: insert_event_def log_grows_def log_ok_def split: if_splits)

lemma insert_delivery_events:
  "insert_delivery eID endID nm ty agg aggID n t db = Inr (v, db') \<Longrightarrow>
   domain_events db' = domain_events db \<and> last_sequence db' = last_sequence db"
  by (auto simp: insert_delivery_def Let_def split: if_splits)

interpretation log: store_relation log_grows
proof unfold_locales
  show "log_grows a c" if "log_grows a b" "log_grows b c" for a b c
    using that by (auto simp: log_grows_def)
qed (auto simp: log_grows_same notify_def log_grows_event dest: insert_delivery_events
      intro: log_grows_same)

lemma reachable_log: "reachable db \<Longrightarrow> log_ok db"
  using log.store_run_R [of empty_db db] by (simp add: reachable_def log_grows_def log_ok_def empty_db_def)

subsection \<open>The delivery queue\<close>

text \<open>
  Ids are unique and never reused, each delivery belongs to an event and an endpoint that exist,
  and an event reaches an endpoint at most once.
\<close>

definition queue_ok :: "Db \<Rightarrow> bool" where
  "queue_ok db \<longleftrightarrow> distinct (map v_id (webhook_deliveries db)) \<and>
     distinct (map (\<lambda>v. (v_event_id v, v_endpoint_id v)) (webhook_deliveries db)) \<and>
     (\<forall>v \<in> set (webhook_deliveries db). v_id v \<le> last_delivery_id db \<and>
        v_event_id v \<in> ev_id ` set (domain_events db) \<and>
        v_endpoint_id v \<in> e_id ` set (webhook_endpoints db))"

definition delivery_evolves :: "delivery_row \<Rightarrow> delivery_row \<Rightarrow> bool" where
  "delivery_evolves v v' \<longleftrightarrow> v_id v' = v_id v \<and> v_event_id v' = v_event_id v
     \<and> v_endpoint_id v' = v_endpoint_id v \<and> (v' = v \<or> v_row_version v < v_row_version v')"

definition queue_evolves :: "Db \<Rightarrow> Db \<Rightarrow> bool" where
  "queue_evolves db db' \<longleftrightarrow> (queue_ok db \<longrightarrow> queue_ok db') \<and>
     last_delivery_id db \<le> last_delivery_id db' \<and>
     (\<forall>v' \<in> set (webhook_deliveries db'). v_id v' \<le> last_delivery_id db \<longrightarrow>
        (\<exists>v \<in> set (webhook_deliveries db). delivery_evolves v v'))"

lemma delivery_evolves_refl [simp]: "delivery_evolves v v"
  by (simp add: delivery_evolves_def)

lemma delivery_evolves_trans: "delivery_evolves a b \<Longrightarrow> delivery_evolves b c \<Longrightarrow> delivery_evolves a c"
  by (auto simp: delivery_evolves_def)

lemma queue_evolves_trans:
  assumes "queue_evolves a b" and "queue_evolves b c"
  shows "queue_evolves a c"
proof -
  have "\<exists>v \<in> set (webhook_deliveries a). delivery_evolves v v'"
    if "v' \<in> set (webhook_deliveries c)" "v_id v' \<le> last_delivery_id a" for v'
  proof -
    from that assms obtain v1 where v1: "v1 \<in> set (webhook_deliveries b)" "delivery_evolves v1 v'"
      by (force simp: queue_evolves_def)
    then have "v_id v1 \<le> last_delivery_id a" using that by (simp add: delivery_evolves_def)
    with v1 assms(1) show ?thesis
      by (auto simp: queue_evolves_def intro: delivery_evolves_trans)
  qed
  with assms show ?thesis by (auto simp: queue_evolves_def)
qed

lemma queue_evolves_same:
  assumes "webhook_deliveries db' = webhook_deliveries db" "last_delivery_id db' = last_delivery_id db"
    and "set (domain_events db) \<subseteq> set (domain_events db')"
    and "e_id ` set (webhook_endpoints db) \<subseteq> e_id ` set (webhook_endpoints db')"
  shows "queue_evolves db db'"
proof -
  have "queue_ok db'" if "queue_ok db"
    using that assms unfolding queue_ok_def by (metis image_mono subsetD)
  with assms(1,2) show ?thesis by (auto simp: queue_evolves_def intro!: bexI)
qed

lemma queue_evolves_event:
  "insert_event evID ty agg aggID ver payload t db = Inr (u, db') \<Longrightarrow> queue_evolves db db'"
  by (rule queue_evolves_same) (auto simp: insert_event_def split: if_splits)

lemma queue_evolves_delivery:
  "insert_delivery eID endID nm ty agg aggID n t db = Inr (v, db') \<Longrightarrow> queue_evolves db db'"
proof -
  assume ins: "insert_delivery eID endID nm ty agg aggID n t db = Inr (v, db')"
  then have new: "v_id v = last_delivery_id db + 1" "v_event_id v = eID" "v_endpoint_id v = endID"
    and db': "webhook_deliveries db' = webhook_deliveries db @ [v]"
      "last_delivery_id db' = last_delivery_id db + 1" "domain_events db' = domain_events db"
      "webhook_endpoints db' = webhook_endpoints db"
    and fk: "eID \<in> ev_id ` set (domain_events db)" "endID \<in> e_id ` set (webhook_endpoints db)"
    and uniq: "\<forall>w \<in> set (webhook_deliveries db). \<not> (v_event_id w = eID \<and> v_endpoint_id w = endID)"
    by (auto simp: insert_delivery_def Let_def list_ex_iff split: if_splits)
  have "queue_ok db'" if "queue_ok db"
  proof -
    have "v_id v \<notin> v_id ` set (webhook_deliveries db)"
      using that new(1) by (auto simp: queue_ok_def)
    moreover have "(eID, endID) \<notin> (\<lambda>v. (v_event_id v, v_endpoint_id v)) ` set (webhook_deliveries db)"
      using uniq by auto
    ultimately show ?thesis
      using that fk by (auto simp: queue_ok_def db' new)
  qed
  moreover have "\<exists>w \<in> set (webhook_deliveries db). delivery_evolves w v'"
    if "v' \<in> set (webhook_deliveries db')" "v_id v' \<le> last_delivery_id db" for v'
    using that new(1) by (auto simp: db' intro!: bexI)
  ultimately show ?thesis by (simp add: queue_evolves_def db')
qed

lemma queue_evolves_update:
  assumes "\<And>v. P v \<Longrightarrow> v_id (f v) = v_id v \<and> v_row_version (f v) = v_row_version v + 1
    \<and> v_event_id (f v) = v_event_id v \<and> v_endpoint_id (f v) = v_endpoint_id v"
  shows "queue_evolves db (db\<lparr>webhook_deliveries := sql_update P f (webhook_deliveries db)\<rparr>)"
proof -
  define g where "g = (\<lambda>v. if P v then f v else v)"
  have g: "v_id (g v) = v_id v" "v_event_id (g v) = v_event_id v" "v_endpoint_id (g v) = v_endpoint_id v"
    "delivery_evolves v (g v)" for v
    using assms by (auto simp: delivery_evolves_def g_def)
  have upd: "sql_update P f rows = map g rows" for rows
    by (simp add: sql_update_def g_def)
  show ?thesis
    using g by (auto simp: queue_evolves_def queue_ok_def upd comp_def intro!: bexI)
qed

lemma queue_evolves_prune:
  "queue_evolves db (db\<lparr>webhook_deliveries := filter Q (webhook_deliveries db)\<rparr>)"
  by (auto simp: queue_evolves_def queue_ok_def distinct_map_filter intro!: bexI)

interpretation queue: store_relation queue_evolves
proof unfold_locales
  show "queue_evolves a c" if "queue_evolves a b" "queue_evolves b c" for a b c
    using queue_evolves_trans that .
  show "queue_evolves db (db\<lparr>webhook_endpoints := sql_update PE g (webhook_endpoints db)\<rparr>)"
    if "\<And>e. PE e \<Longrightarrow> e_id (g e) = e_id e" for PE g db
  proof -
    define h where "h = (\<lambda>e. if PE e then g e else e)"
    have "e_id (h e) = e_id e" for e using that by (simp add: h_def)
    moreover have "sql_update PE g rows = map h rows" for rows by (simp add: sql_update_def h_def)
    ultimately show ?thesis by (intro queue_evolves_same) (simp_all add: image_comp comp_def)
  qed
qed (auto simp: notify_def queue_evolves_prune intro: queue_evolves_same queue_evolves_event
      queue_evolves_delivery queue_evolves_update)

lemma reachable_queue: "reachable db \<Longrightarrow> queue_ok db"
  using queue.store_run_R [of empty_db db]
  by (simp add: reachable_def queue_evolves_def queue_ok_def empty_db_def)

end
