(* ===== verification/Fencing.thy ===== *)
theory Fencing
  imports Store_Invariants
begin

section \<open>Leases are fences\<close>

text \<open>
  Both queues of the store hand out a lease identity (key, owner, row version) and accept a result
  only from a caller that still holds it.  The locale states what the queue owes: unique keys, and
  rows whose version grows whenever they change.  Then a matching identity names the very row that
  was leased, and a used identity never matches again.  It is interpreted on downloads and on
  webhook deliveries.
\<close>

locale fenced =
  fixes rows :: "Db \<Rightarrow> 'r list" and key :: "'r \<Rightarrow> 'k" and ver :: "'r \<Rightarrow> int"
    and later :: "Db \<Rightarrow> Db \<Rightarrow> bool" and wf :: "Db \<Rightarrow> bool"
  assumes keys: "wf db \<Longrightarrow> distinct (map key (rows db))"
    and forward: "wf db \<Longrightarrow> later db db' \<Longrightarrow> r \<in> set (rows db) \<Longrightarrow> r' \<in> set (rows db') \<Longrightarrow>
      key r' = key r \<Longrightarrow> r' = r \<or> ver r < ver r'"
begin

lemma untouched:
  assumes "wf db" "later db db'" "r \<in> set (rows db)" "r' \<in> set (rows db')"
    and "key r' = key r" "ver r' = ver r"
  shows "r' = r"
  using forward [OF assms(1-5)] assms(6) by auto

lemma spent:
  assumes "wf db" "later db db'" "r \<in> set (rows db)" "v < ver r"
    and "r' \<in> set (rows db')" "key r' = key r"
  shows "ver r' \<noteq> v"
  using forward [OF assms(1-3,5,6)] assms(4) by auto

text \<open>A compare-and-set on key and version: when it hits, it hits the leased row.\<close>

lemma cas_hits_lease:
  assumes "wf db" "later db db'" "wf db'" "r \<in> set (rows db)"
    and P: "\<And>x. P x \<Longrightarrow> key x = key r \<and> ver x = ver r"
    and hit: "rows_affected P (rows db') \<noteq> 0"
  shows "P r" "r \<in> set (rows db')" "rows_affected P (rows db') = 1"
proof -
  from hit obtain x where x: "x \<in> set (rows db')" "P x" by (auto simp: rows_affected_0_iff)
  with untouched [OF assms(1,2,4)] P have "x = r" by blast
  with x show "P r" "r \<in> set (rows db')" by simp_all
  have "rows_affected P (rows db') =
      (case sql_get key (key r) (rows db') of None \<Rightarrow> 0 | Some r' \<Rightarrow> if P r' then 1 else 0)"
    using P by (intro rows_affected_key keys [OF assms(3)]) blast
  with hit show "rows_affected P (rows db') = 1" by (auto split: option.splits if_splits)
qed

lemma cas_spent:
  assumes "wf db" "later db db'" "r \<in> set (rows db)" "v < ver r"
    and P: "\<And>x. P x \<Longrightarrow> key x = key r \<and> ver x = v"
  shows "rows_affected P (rows db') = 0"
  using spent [OF assms(1-4)] P by (auto simp: rows_affected_0_iff)

end

subsection \<open>Downloads and deliveries are fenced\<close>

lemma run_downloads_forward:
  assumes "paths_ok db" and run: "store_run db db'" and r: "r \<in> set (downloads db)"
    and r': "r' \<in> set (downloads db')" "r_hash r' = r_hash r"
  shows "row_evolves r r'"
proof -
  from evolution.store_run_R [OF run] obtain rs rest
    where rs: "downloads db' = rs @ rest" "list_all2 row_evolves (downloads db) rs"
    by (auto simp: rows_evolve_def)
  from list_all2_mem [OF rs(2) r] obtain q where q: "q \<in> set rs" "row_evolves r q" by blast
  then have "r_hash q = r_hash r" by (simp add: row_evolves_def)
  moreover have "distinct (map r_hash (downloads db'))"
    using paths.store_run_R [OF run] assms(1) by (simp add: paths_ok_def)
  ultimately have "q = r'"
    using q(1) r' rs(1) by (metis UnCI inj_onD distinct_map set_append)
  with q(2) show ?thesis by simp
qed

lemma row_persists:
  assumes ok: "paths_ok db" and run: "store_run db db'" and r: "r \<in> set (downloads db)"
  shows "\<exists>r' \<in> set (downloads db'). (\<forall>q \<in> set (downloads db'). r_hash q = r_hash r \<longleftrightarrow> q = r')
    \<and> r_row_version r \<le> r_row_version r' \<and> (r_row_version r' = r_row_version r \<longrightarrow> r' = r)
    \<and> (State_Valid (r_state r) \<longrightarrow>
        (write_step ^^ nat (r_row_version r' - r_row_version r)) (r_state r) (r_state r'))"
proof -
  from evolution.store_run_R [OF run] obtain rs rest
    where rs: "downloads db' = rs @ rest" "list_all2 row_evolves (downloads db) rs"
    by (auto simp: rows_evolve_def)
  from list_all2_mem [OF rs(2) r] obtain q where q: "q \<in> set rs" "row_evolves r q" by blast
  have mem: "q \<in> set (downloads db')" using q(1) rs(1) by simp
  have "distinct (map r_hash (downloads db'))"
    using paths.store_run_R [OF run] ok by (simp add: paths_ok_def)
  then have "\<forall>x \<in> set (downloads db'). r_hash x = r_hash r \<longleftrightarrow> x = q"
    using mem q(2) by (auto simp: distinct_map inj_on_def row_evolves_def)
  with mem q(2) show ?thesis by (auto simp: row_evolves_def intro!: bexI [of _ q])
qed

interpretation download_fence: fenced downloads r_hash r_row_version store_run paths_ok
proof unfold_locales
  show "distinct (map r_hash (downloads db))" if "paths_ok db" for db
    using that by (simp add: paths_ok_def)
  show "r' = r \<or> r_row_version r < r_row_version r'"
    if "paths_ok db" "store_run db db'" "r \<in> set (downloads db)" "r' \<in> set (downloads db')"
      "r_hash r' = r_hash r" for db db' r r'
    using row_evolves_forward [OF run_downloads_forward [OF that]] .
qed

interpretation delivery_fence: fenced webhook_deliveries v_id v_row_version store_run queue_ok
proof unfold_locales
  show "distinct (map v_id (webhook_deliveries db))" if "queue_ok db" for db
    using that by (simp add: queue_ok_def)
  show "r' = r \<or> v_row_version r < v_row_version r'"
    if wf: "queue_ok db" and run: "store_run db db'" and r: "r \<in> set (webhook_deliveries db)"
      and r': "r' \<in> set (webhook_deliveries db')" "v_id r' = v_id r" for db db' r r'
  proof -
    have "v_id r' \<le> last_delivery_id db" using wf r r'(2) by (auto simp: queue_ok_def)
    with queue.store_run_R [OF run] r'(1) obtain v
      where v: "v \<in> set (webhook_deliveries db)" "delivery_evolves v r'"
      by (auto simp: queue_evolves_def)
    with r'(2) have "v_id v = v_id r" by (simp add: delivery_evolves_def)
    with v(1) r wf have "v = r" by (auto simp: queue_ok_def distinct_map inj_on_def)
    with v(2) show ?thesis by (auto simp: delivery_evolves_def)
  qed
qed

subsection \<open>What a successful claim and a successful commit did\<close>

interpretation emits: event_relation "\<lambda>db db'. downloads db' = downloads db"
  by unfold_locales (auto simp: notify_def intro: insert_event_downloads insert_delivery_downloads)

lemma emit_after_downloads:
  "emit_after env l conv hash ev db = Inr (u, db') \<Longrightarrow> downloads db' = downloads db"
  by (rule emits.stepsD [OF emits.steps_emit_after])

lemma CommitClaim_success:
  assumes "CommitClaim env claim next db = (Inr (), db')"
  obtains next' where "commit_check claim next = Inr next'"
    "rows_affected (commit_where claim) (downloads db) \<noteq> 0"
    "downloads db' = sql_update (commit_where claim) (commitClaimParams next') (downloads db)"
  using assms
  by (auto simp: CommitClaim_def in_tx_def tx_bind_Inr commit_statement_def update_guarded_def
      update_plain_def split: sum.splits if_splits dest!: emit_after_downloads)

lemma ClaimDue_success:
  assumes "ClaimDue env owner now dur db = (Inr (Some claim), db')"
  obtains c d where "first_by row_due (filter (claimable_row now) (downloads db)) = Some c"
    "downloads db' = sql_update (\<lambda>r. r_hash r = r_hash c) (lease_set owner (time_add now dur)) (downloads db)"
    "downloadFromDB (lease_set owner (time_add now dur) c) = Inr d"
    "claim = \<lparr>kDownload = d, kOwner = owner, kState = dState d, kVersion = dRowVersion d\<rparr>"
  using assms
  by (auto simp: ClaimDue_def auto_commit_def exec_wrapped_def claim_statement_def tx_look_def
      tx_bind_def tx_return_def tx_catch_def tx_exec_def update_plain_def and_then_Inr_iff
      split: sum.splits if_splits option.splits prod.splits)

end
