(* ===== verification/Leases.thy ===== *)
theory Leases
  imports Fencing
begin

section \<open>The lease protocol of both queues\<close>

text \<open>
  The contract that a worker relies on: a claim leaves a row that carries its lease, and a commit
  succeeds only against such a row and moves its version on.  From it: between a claim and its
  commit nothing happened to the row; a claim commits at most once; and a lease that was taken over
  can no longer commit.  The store provides the contract twice, for downloads and for deliveries.
\<close>

locale lease_protocol = fenced rows key ver later wf
  for rows :: "Db \<Rightarrow> 'r list" and key :: "'r \<Rightarrow> 'k" and ver :: "'r \<Rightarrow> int"
    and later :: "Db \<Rightarrow> Db \<Rightarrow> bool" and wf :: "Db \<Rightarrow> bool" +
  fixes claims :: "Db \<Rightarrow> 'c \<Rightarrow> Db \<Rightarrow> bool" and commits :: "Db \<Rightarrow> 'c \<Rightarrow> Db \<Rightarrow> bool"
    and leased :: "'c \<Rightarrow> 'r \<Rightarrow> bool" and ckey :: "'c \<Rightarrow> 'k" and cver :: "'c \<Rightarrow> int"
  assumes claim_wf: "wf db \<Longrightarrow> claims db c db' \<Longrightarrow> wf db'"
    and claim_leases: "wf db \<Longrightarrow> claims db c db' \<Longrightarrow> \<exists>r \<in> set (rows db'). leased c r"
    and claim_bumps: "wf db \<Longrightarrow> claims db c db' \<Longrightarrow>
      \<exists>r \<in> set (rows db). key r = ckey c \<and> ver r < cver c"
    and leased_key: "leased c r \<Longrightarrow> key r = ckey c \<and> ver r = cver c"
    and commit_held: "commits db c db' \<Longrightarrow> \<exists>r \<in> set (rows db). leased c r"
    and commit_wf: "wf db \<Longrightarrow> commits db c db' \<Longrightarrow> wf db'"
    and commit_bumps: "commits db c db' \<Longrightarrow> \<exists>r \<in> set (rows db'). key r = ckey c \<and> cver c < ver r"
begin

text \<open>Whatever ran between a claim and its commit, the leased row is still there, unchanged.\<close>

lemma lease_intact:
  assumes "wf a" "claims a c b" "later b d" "commits d c e"
  shows "\<exists>r \<in> set (rows b). leased c r \<and> r \<in> set (rows d)"
proof -
  from claim_leases [OF assms(1,2)] obtain r where r: "r \<in> set (rows b)" "leased c r" by blast
  from commit_held [OF assms(4)] obtain q where q: "q \<in> set (rows d)" "leased c q" by blast
  have "q = r"
    using untouched [OF claim_wf [OF assms(1,2)] assms(3) r(1) q(1)] leased_key r(2) q(2) by auto
  with r q show ?thesis by blast
qed

lemma commit_once:
  assumes "wf a" "commits a c b" "later b d"
  shows "\<not> commits d c e"
proof
  assume "commits d c e"
  from commit_held [OF this] obtain q where q: "q \<in> set (rows d)" "leased c q" by blast
  from commit_bumps [OF assms(2)] obtain r where r: "r \<in> set (rows b)" "key r = ckey c" "cver c < ver r"
    by blast
  from spent [OF commit_wf [OF assms(1,2)] assms(3) r(1,3) q(1)] leased_key [OF q(2)] r(2)
  show False by simp
qed

lemma taken_over:
  assumes "wf a" "claims a c b" "later b d" "wf d" "claims d c' e" "ckey c' = ckey c" "later e f"
  shows "\<not> commits f c g"
proof
  assume "commits f c g"
  from commit_held [OF this] obtain q where q: "q \<in> set (rows f)" "leased c q" by blast
  from claim_leases [OF assms(1,2)] obtain r where r: "r \<in> set (rows b)" "leased c r" by blast
  from claim_bumps [OF assms(4,5)] obtain u where u: "u \<in> set (rows d)" "key u = ckey c'" "ver u < cver c'"
    by blast
  from claim_leases [OF assms(4,5)] obtain w where w: "w \<in> set (rows e)" "leased c' w" by blast
  have "ver r \<le> ver u"
    using forward [OF claim_wf [OF assms(1,2)] assms(3) r(1) u(1)] leased_key [OF r(2)] u(2) assms(6) by auto
  with u(3) leased_key [OF r(2)] leased_key [OF w(2)] have "cver c < ver w" by simp
  from spent [OF claim_wf [OF assms(4,5)] assms(7) w(1) this q(1)] leased_key [OF q(2)] leased_key [OF w(2)]
    assms(6)
  show False by simp
qed

end

subsection \<open>Downloads\<close>

lemma paths_run: "paths_ok db \<Longrightarrow> store_run db db' \<Longrightarrow> paths_ok db'"
  using paths.store_run_R by blast

lemma sql_update_hit:
  "r \<in> set rows \<Longrightarrow> P r \<Longrightarrow> f r \<in> set (sql_update P f rows)"
  by (auto simp: set_sql_update image_iff intro!: bexI [of _ r])

lemma run_claim: "store_run db (snd (ClaimDue env owner now dur db))"
  using store_run.step [OF store_run.refl store_step.op, of db "\<lparr>orEnv = env, orOrder = undefined, orParse = undefined\<rparr>"
      "OpClaimDue owner now dur"] by simp

lemma run_commit: "store_run db (snd (CommitClaim env claim next db))"
  using store_run.step [OF store_run.refl store_step.op, of db "\<lparr>orEnv = env, orOrder = undefined, orParse = undefined\<rparr>"
      "OpCommitClaim claim next"] by simp

definition claims_download :: "Db \<Rightarrow> DownloadClaim \<Rightarrow> Db \<Rightarrow> bool" where
  "claims_download db claim db' \<longleftrightarrow>
     (\<exists>env owner now dur. ClaimDue env owner now dur db = (Inr (Some claim), db'))"

definition commits_download :: "Db \<Rightarrow> DownloadClaim \<Rightarrow> Db \<Rightarrow> bool" where
  "commits_download db claim db' \<longleftrightarrow> (\<exists>env next. CommitClaim env claim next db = (Inr (), db'))"

lemma claim_row:
  assumes "ClaimDue env owner now dur db = (Inr (Some claim), db')"
  obtains c where "c \<in> set (downloads db)" "claimable_row now c"
    "r_hash c = dHash (kDownload claim)" "kVersion claim = r_row_version c + 1"
    "lease_set owner (time_add now dur) c \<in> set (downloads db')"
    "commit_where claim (lease_set owner (time_add now dur) c)"
    "downloadFromDB (lease_set owner (time_add now dur) c) = Inr (kDownload claim)"
    "\<forall>r \<in> set (downloads db). claimable_row now r \<longrightarrow> row_due c \<le> row_due r"
proof -
  from ClaimDue_success [OF assms] obtain c d where
    c: "first_by row_due (filter (claimable_row now) (downloads db)) = Some c"
      "downloads db' = sql_update (\<lambda>r. r_hash r = r_hash c) (lease_set owner (time_add now dur)) (downloads db)"
      "downloadFromDB (lease_set owner (time_add now dur) c) = Inr d"
      "claim = \<lparr>kDownload = d, kOwner = owner, kState = dState d, kVersion = dRowVersion d\<rparr>" by blast
  have m: "c \<in> set (downloads db)" "claimable_row now c" using first_by_mem [OF c(1)] by auto
  have l: "\<forall>r \<in> set (downloads db). claimable_row now r \<longrightarrow> row_due c \<le> row_due r"
    using first_by_least [OF c(1)] by simp
  have fields: "dHash d = r_hash c" "dState d = r_state c" "dRowVersion d = r_row_version c + 1"
    using downloadFromDB_fields [OF c(3)] by (simp_all add: lease_set_def)
  have "commit_where claim (lease_set owner (time_add now dur) c)"
    using fields by (simp add: commit_where_def c(4), simp add: lease_set_def)
  moreover have "lease_set owner (time_add now dur) c \<in> set (downloads db')"
    unfolding c(2) using m(1) by (rule sql_update_hit) simp
  ultimately show ?thesis using that m l fields c(3) by (simp add: c(4))
qed

lemma commit_row:
  assumes "CommitClaim env claim next db = (Inr (), db')"
  obtains r next' where "r \<in> set (downloads db)" "commit_where claim r"
    "commit_check claim next = Inr next'" "commitClaimParams next' r \<in> set (downloads db')"
    "r_row_version (commitClaimParams next' r) = kVersion claim + 1"
    "r_hash (commitClaimParams next' r) = dHash (kDownload claim)"
proof -
  from CommitClaim_success [OF assms] obtain next' where
    n: "commit_check claim next = Inr next'" "rows_affected (commit_where claim) (downloads db) \<noteq> 0"
      "downloads db' = sql_update (commit_where claim) (commitClaimParams next') (downloads db)" by blast
  from n(2) obtain r where r: "r \<in> set (downloads db)" "commit_where claim r"
    by (auto simp: rows_affected_0_iff)
  have "commitClaimParams next' r \<in> set (downloads db')"
    unfolding n(3) by (rule sql_update_hit [where P = "commit_where claim", OF r])
  with that n(1) r show ?thesis by (auto simp: commitClaimParams_def commit_where_def)
qed

interpretation download_lease: lease_protocol downloads r_hash r_row_version store_run paths_ok
  claims_download commits_download commit_where "\<lambda>c. dHash (kDownload c)" kVersion
proof unfold_locales
  show "paths_ok db'" if "paths_ok db" "claims_download db c db'" for db c db'
    using that paths_run [OF that(1)] run_claim by (metis claims_download_def snd_conv)
  show "\<exists>r \<in> set (downloads db'). commit_where c r" if "claims_download db c db'" for db c db'
    using that by (auto simp: claims_download_def elim!: claim_row)
  show "\<exists>r \<in> set (downloads db). r_hash r = dHash (kDownload c) \<and> r_row_version r < kVersion c"
    if "claims_download db c db'" for db c db'
    using that by (force simp: claims_download_def elim!: claim_row)
  show "r_hash r = dHash (kDownload c) \<and> r_row_version r = kVersion c" if "commit_where c r" for c r
    using that by (simp add: commit_where_def)
  show "\<exists>r \<in> set (downloads db). commit_where c r" if "commits_download db c db'" for db c db'
    using that by (auto simp: commits_download_def elim!: commit_row)
  show "paths_ok db'" if "paths_ok db" "commits_download db c db'" for db c db'
    using that paths_run [OF that(1)] run_commit by (metis commits_download_def snd_conv)
  show "\<exists>r \<in> set (downloads db'). r_hash r = dHash (kDownload c) \<and> kVersion c < r_row_version r"
    if "commits_download db c db'" for db c db'
    using that by (force simp: commits_download_def elim!: commit_row)
qed

subsection \<open>Webhook deliveries\<close>

lemma run_webhook_claim: "store_run db (snd (ClaimWebhookDue env owner now dur db))"
  using store_run.step [OF store_run.refl store_step.op, of db "\<lparr>orEnv = env, orOrder = undefined, orParse = undefined\<rparr>"
      "OpClaimWebhook owner now dur"] by simp

lemma run_webhook_commit: "store_run db (snd (CommitWebhookClaim env claim result now db))"
  using store_run.step [OF store_run.refl store_step.op, of db "\<lparr>orEnv = env, orOrder = undefined, orParse = undefined\<rparr>"
      "OpCommitWebhook claim result now"] by simp

lemma run_prune: "store_run db (snd (PruneWebhookDeliveries env now db))"
  using store_run.step [OF store_run.refl store_step.op, of db "\<lparr>orEnv = env, orOrder = undefined, orParse = undefined\<rparr>"
      "OpPrune now"] by simp

lemma queue_run: "queue_ok db \<Longrightarrow> store_run db db' \<Longrightarrow> queue_ok db'"
  using queue.store_run_R by (auto simp: queue_evolves_def)

definition claims_delivery :: "Db \<Rightarrow> Claim \<Rightarrow> Db \<Rightarrow> bool" where
  "claims_delivery db claim db' \<longleftrightarrow>
     (\<exists>env owner now dur. ClaimWebhookDue env owner now dur db = (Inr (Some claim), db'))"

definition commits_delivery :: "Db \<Rightarrow> Claim \<Rightarrow> Db \<Rightarrow> bool" where
  "commits_delivery db claim db' \<longleftrightarrow>
     (\<exists>env result now. CommitWebhookClaim env claim result now db = (Inr (), db'))"

lemma need_Inr [simp]: "need l found db = Inr (x, db') \<longleftrightarrow> found = Some x \<and> db' = db"
  by (auto simp: need_def split: option.splits)

lemma ClaimWebhook_success:
  assumes "ClaimWebhookDue env owner now dur db = (Inr (Some claim), db')"
  obtains c d event endpoint where
    "first_by delivery_due (filter (claimable_delivery db now) (webhook_deliveries db)) = Some c"
    "db' = db\<lparr>webhook_deliveries := sql_update (\<lambda>v. v_id v = v_id c)
        (delivery_lease owner (time_add now dur) now) (webhook_deliveries db)\<rparr>"
    "deliveryFromDB (delivery_lease owner (time_add now dur) now c) = Inr d"
    "sql_get ev_id (v_event_id c) (domain_events db) = Some event"
    "sql_get e_id (v_endpoint_id c) (webhook_endpoints db) = Some endpoint" "e_deleted_at endpoint = None"
    "claim = delivery_claim owner d event endpoint"
proof -
  have body: "claim_webhook env owner (time_add now dur) now db = Inr (Some claim, db')"
    using assms by (auto simp: ClaimWebhookDue_def in_tx_def split: if_splits sum.splits option.splits)
  then obtain found dbm where found: "claim_delivery owner (time_add now dur) now db = Inr (Some found, dbm)"
    and tail: "\<exists>d event endpoint. deliveryFromDB found = Inr d \<and>
        sql_get ev_id (deEventID d) (domain_events dbm) = Some event \<and>
        sql_get e_id (deEndpointID d) (webhook_endpoints dbm) = Some endpoint \<and>
        e_deleted_at endpoint = None \<and> db' = dbm \<and> claim = delivery_claim owner d event endpoint"
    by (auto simp: claim_webhook_def tx_bind_Inr exec_wrapped_def split: option.splits if_splits)
  from found obtain c where c: "first_by delivery_due (filter (claimable_delivery db now) (webhook_deliveries db)) = Some c"
    and f: "found = delivery_lease owner (time_add now dur) now c"
    and dbm: "dbm = db\<lparr>webhook_deliveries := sql_update (\<lambda>v. v_id v = v_id c)
        (delivery_lease owner (time_add now dur) now) (webhook_deliveries db)\<rparr>"
    by (auto simp: claim_delivery_def tx_look_def tx_bind_Inr update_deliveries_def split: option.splits)
  from tail obtain d event endpoint where t: "deliveryFromDB found = Inr d"
      "sql_get ev_id (deEventID d) (domain_events dbm) = Some event"
      "sql_get e_id (deEndpointID d) (webhook_endpoints dbm) = Some endpoint"
      "e_deleted_at endpoint = None" "db' = dbm" "claim = delivery_claim owner d event endpoint" by blast
  have "deEventID d = v_event_id c" "deEndpointID d = v_endpoint_id c"
    using t(1) by (auto simp: f deliveryFromDB_def delivery_lease_def split: if_splits)
  with that c f dbm t show ?thesis by auto
qed

lemma delivery_claim_row:
  assumes "ClaimWebhookDue env owner now dur db = (Inr (Some claim), db')"
  obtains c where "c \<in> set (webhook_deliveries db)" "claimable_delivery db now c"
    "v_id c = clDeliveryID claim" "clVersion claim = v_row_version c + 1"
    "clAttemptCount claim = v_attempt_count c + 1" "clEndpointID claim = v_endpoint_id c"
    "delivery_lease owner (time_add now dur) now c \<in> set (webhook_deliveries db')"
    "delivery_commit_where claim (delivery_lease owner (time_add now dur) now c)"
    "\<forall>v \<in> set (webhook_deliveries db). claimable_delivery db now v \<longrightarrow> delivery_due c \<le> delivery_due v"
proof -
  from ClaimWebhook_success [OF assms] obtain c d event endpoint where
    c: "first_by delivery_due (filter (claimable_delivery db now) (webhook_deliveries db)) = Some c"
      "db' = db\<lparr>webhook_deliveries := sql_update (\<lambda>v. v_id v = v_id c)
        (delivery_lease owner (time_add now dur) now) (webhook_deliveries db)\<rparr>"
      "deliveryFromDB (delivery_lease owner (time_add now dur) now c) = Inr d"
      "claim = delivery_claim owner d event endpoint" by metis
  have m: "c \<in> set (webhook_deliveries db)" "claimable_delivery db now c" using first_by_mem [OF c(1)] by auto
  have l: "\<forall>v \<in> set (webhook_deliveries db). claimable_delivery db now v \<longrightarrow> delivery_due c \<le> delivery_due v"
    using first_by_least [OF c(1)] by simp
  have fields: "deID d = v_id c" "deRowVersion d = v_row_version c + 1"
    "deAttemptCount d = v_attempt_count c + 1" "deEndpointID d = v_endpoint_id c"
    using c(3) by (auto simp: deliveryFromDB_def delivery_lease_def split: if_splits)
  have "delivery_lease owner (time_add now dur) now c \<in> set (webhook_deliveries db')"
    using m(1) by (simp add: c(2) sql_update_hit)
  with that m l fields show ?thesis
    by (simp add: c(4) delivery_claim_def delivery_commit_where_def delivery_lease_def)
qed

lemma delivery_commit_row:
  assumes "CommitWebhookClaim env claim result now db = (Inr (), db')"
  obtains "rows_affected (delivery_commit_where claim) (webhook_deliveries db) \<noteq> 0"
    "commit_delivery (endpoint_gone db (clEndpointID claim)) claim result now db =
      Inr (rows_affected (delivery_commit_where claim) (webhook_deliveries db), db')"
    "result_check result = None"
  using assms
  by (auto simp: CommitWebhookClaim_def in_tx_def tx_bind_Inr exec_wrapped_def commit_delivery_def
      update_deliveries_def split: if_splits option.splits sum.splits)

lemma delivery_commit_hit:
  assumes "CommitWebhookClaim env claim result now db = (Inr (), db')"
  obtains v v' where "v \<in> set (webhook_deliveries db)" "delivery_commit_where claim v"
    "v' \<in> set (webhook_deliveries db')" "v_id v' = clDeliveryID claim" "v_row_version v' = clVersion claim + 1"
    "v_status v' = (if endpoint_gone db (clEndpointID claim) then StatusCancelled else rsStatus result)"
    "v_lease_owner v' = None" "v_lease_until v' = None"
proof -
  from delivery_commit_row [OF assms] obtain v where v: "v \<in> set (webhook_deliveries db)"
    "delivery_commit_where claim v"
    and db': "commit_delivery (endpoint_gone db (clEndpointID claim)) claim result now db =
      Inr (rows_affected (delivery_commit_where claim) (webhook_deliveries db), db')"
    by (auto simp: rows_affected_0_iff)
  let ?f = "\<lambda>g. delivery_commit_set (if g then StatusCancelled else rsStatus result)
          (if 0 < rsLastHTTPStatus result then Some (rsLastHTTPStatus result) else None)
          (nullableString (boundDeliveryError (rsLastError result)))
          (if g then None else nullableTime (rsNextAttemptAt result))
          (if g then None else nullableTime (rsDeliveredAt result)) now"
  have "?f (endpoint_gone db (clEndpointID claim)) v \<in> set (webhook_deliveries db')"
    using db' sql_update_hit [where P = "delivery_commit_where claim", OF v]
    by (auto simp: commit_delivery_def update_deliveries_def)
  with that v show ?thesis by (simp add: delivery_commit_set_def delivery_commit_where_def)
qed

interpretation delivery_lease: lease_protocol webhook_deliveries v_id v_row_version store_run queue_ok
  claims_delivery commits_delivery delivery_commit_where clDeliveryID clVersion
proof unfold_locales
  show "queue_ok db'" if "queue_ok db" "claims_delivery db c db'" for db c db'
    using that queue_run [OF that(1)] run_webhook_claim by (metis claims_delivery_def snd_conv)
  show "\<exists>v \<in> set (webhook_deliveries db'). delivery_commit_where c v" if "claims_delivery db c db'" for db c db'
    using that by (auto simp: claims_delivery_def elim!: delivery_claim_row)
  show "\<exists>v \<in> set (webhook_deliveries db). v_id v = clDeliveryID c \<and> v_row_version v < clVersion c"
    if "claims_delivery db c db'" for db c db'
    using that by (force simp: claims_delivery_def elim!: delivery_claim_row)
  show "v_id v = clDeliveryID c \<and> v_row_version v = clVersion c" if "delivery_commit_where c v" for c v
    using that by (simp add: delivery_commit_where_def)
  show "\<exists>v \<in> set (webhook_deliveries db). delivery_commit_where c v" if "commits_delivery db c db'" for db c db'
    using that by (auto simp: commits_delivery_def elim!: delivery_commit_hit)
  show "queue_ok db'" if "queue_ok db" "commits_delivery db c db'" for db c db'
    using that queue_run [OF that(1)] run_webhook_commit by (metis commits_delivery_def snd_conv)
  show "\<exists>v \<in> set (webhook_deliveries db'). v_id v = clDeliveryID c \<and> clVersion c < v_row_version v"
    if "commits_delivery db c db'" for db c db'
    using that by (force simp: commits_delivery_def elim!: delivery_commit_hit)
qed

end
