(* ===== verification/Reconcile_World.thy ===== *)
theory Reconcile_World
  imports Leases
begin

section \<open>What a reconciler step observes, and its helpers (internal/reconcile: reconcile.go)\<close>

text \<open>
  CloudDrive2, the local filesystem, the clock and the repository reads are interfaces of the code; a
  step meets them as the functions of a record \<open>World\<close>.  An error of those interfaces is kept as
  what the code reads of it.  Every call that can change something outside is logged as an effect.
  The helpers that update the download in place are functions on it.
\<close>

subsection \<open>The interfaces\<close>

datatype cloud_kind =
    ErrorTemporary | ErrorUnauthorized | ErrorNotFound | ErrorRejected | ErrorInvalidInput
  | ErrorInvalidResponse | ErrorKindOther string

text \<open>
  \<open>cfKind\<close> is \<open>None\<close> for an error that is no \<open>clouddrive.Error\<close>; \<open>cfContext\<close> says that it is a
  cancellation or deadline of the context, \<open>cfGrpcNotFound\<close> what \<open>notFound\<close> answers.
\<close>

record CloudFault =
  cfKind :: "cloud_kind option"
  cfOperation :: string
  cfContext :: bool
  cfGrpcNotFound :: bool

datatype failure_kind =
    FailureMissing | FailureTransient | FailurePermission | FailureUnsafe | FailureLayout
  | FailureOther string

text \<open>A filesystem error as \<open>fsafe.Diagnose\<close> classifies it.\<close>

record Diagnostic =
  dgKind :: failure_kind
  dgOperation :: string

datatype OfflineState =
    OfflineInit | OfflineDownloading | OfflineFinished | OfflineError | OfflineOther string

record OfflineTask =
  otName :: string
  otInfoHash :: string
  otSourcePath :: string
  otState :: OfflineState
  otProgress :: float64
  otSize :: int

datatype CopyState =
    CopyPending | CopyScanning | CopyScanned | CopyCompleted | CopyFailed | CopyOther string

record CopyTask =
  ctSourcePath :: string
  ctDestinationPath :: string
  ctState :: CopyState
  ctProgress :: float64

datatype ContentKind = ContentDirectory | ContentFile | ContentOther string

record Content =
  coKind :: ContentKind
  coSize :: int

record ExpectedContent =
  xcCandidateName :: string
  xcMultiFile :: bool
  xcFiles :: "(string \<times> int) list"

record VerifiedContent =
  vcPath :: string
  vcSize :: int

record UnknownContent =
  ucPath :: string
  ucSize :: int
  ucMultiFile :: bool

record FilePlan =
  fpIndex :: int
  fpOriginalPath :: string
  fpEffectivePath :: string
  fpPriority :: int
  fpSize :: int

record World =
  wEnsureOffline :: "string \<Rightarrow> string \<Rightarrow> string \<Rightarrow> CloudFault + OfflineTask"
  wInspectOffline :: "string \<Rightarrow> string \<Rightarrow> CloudFault + OfflineTask option"
  wInspectContent :: "string \<Rightarrow> CloudFault + Content"
  wCancelOffline :: "string \<Rightarrow> string \<Rightarrow> CloudFault option"
  wEnsureCopy :: "string \<Rightarrow> string \<Rightarrow> CloudFault + CopyTask"
  wInspectCopy :: "string \<Rightarrow> string \<Rightarrow> CloudFault + CopyTask option"
  wRemoveCopy :: "string \<Rightarrow> string \<Rightarrow> CloudFault option"
  wVerify :: "string \<Rightarrow> ExpectedContent \<Rightarrow> Diagnostic + VerifiedContent"
  wVerifyUnknownType :: "string \<Rightarrow> string \<Rightarrow> Diagnostic + UnknownContent"
  wInspectCandidate :: "string \<Rightarrow> string \<Rightarrow> Diagnostic + bool"
  wDelete :: "string \<Rightarrow> string \<Rightarrow> Diagnostic option"
  wPrepareWorkspace :: "string \<Rightarrow> string \<Rightarrow> Diagnostic + string"
  wDeleteWorkspace :: "string \<Rightarrow> string \<Rightarrow> Diagnostic option"
  wApplyFilePlan :: "(string \<Rightarrow> string \<Rightarrow> FilePlan list \<Rightarrow> Diagnostic option) option"
  wFiles :: "string \<Rightarrow> store_err + DownloadFile list"
  wOverrides :: "(string \<Rightarrow> store_err + FileOverride list) option"
  wNow :: time
  wOfflineStarted :: time
  wRetryNow :: time
  wClaimNow :: time
  wUpdated :: time
  wUpdatedAgain :: time
  wCancelled :: bool
  wDeadline :: bool
  wMeanwhile :: "Db \<Rightarrow> Db"

datatype effect =
    EffEnsureOffline string string string | EffInspectOffline string string
  | EffInspectContent string | EffCancelOffline string string | EffEnsureCopy string string
  | EffInspectCopy string string | EffRemoveCopy string string
  | EffVerify string ExpectedContent | EffVerifyUnknown string string
  | EffInspectCandidate string string | EffDelete string string
  | EffPrepareWorkspace string string | EffDeleteWorkspace string string
  | EffApplyFilePlan string string "FilePlan list"

text \<open>
  A step's decision: the operation label, the error that ends the step without a commit, the
  download to commit, and the calls made.
\<close>

record Decision =
  dcOp :: string
  dcErr :: "store_err option"
  dcNext :: Download
  dcEffects :: "effect list"

record Config =
  cfgOwner :: string
  cfgLeaseDuration :: duration
  cfgPollInterval :: duration
  cfgOfflineTimeout :: duration
  cfgCopyTimeout :: duration
  cfgVerifyTimeout :: duration
  cfgWorkerCount :: int

definition leaseCommitMargin :: duration where "leaseCommitMargin = 15 * second"

definition config_ok :: "Config \<Rightarrow> bool" where
  "config_ok c \<longleftrightarrow> \<not> (trim_space (cfgOwner c) = [] \<or> cfgLeaseDuration c \<le> leaseCommitMargin
     \<or> cfgPollInterval c \<le> 0 \<or> cfgOfflineTimeout c \<le> 0 \<or> cfgCopyTimeout c \<le> 0
     \<or> cfgVerifyTimeout c \<le> 0 \<or> cfgWorkerCount c \<le> 0)"

subsection \<open>Constants and status bookkeeping\<close>

abbreviation "destinationClear \<equiv> ''local:destination_clear''"

definition cleanupCompleted :: "string \<Rightarrow> bool" where
  "cleanupCompleted status \<longleftrightarrow>
     status = UpstreamCleanupCancelled \<or> has_prefix status (UpstreamCleanupCancelled @ ''|'')"

definition copyRemovalCompleted :: "string \<Rightarrow> bool" where
  "copyRemovalCompleted status \<longleftrightarrow>
     status = UpstreamCopyRemoved \<or> has_prefix status (UpstreamCopyRemoved @ ''|'')"

definition markCleanupCancelled :: "Download \<Rightarrow> Download" where
  "markCleanupCancelled d =
     (if cleanupCompleted (dLastUpstreamStatus d) then d
      else if dLastUpstreamStatus d = [] then d\<lparr>dLastUpstreamStatus := UpstreamCleanupCancelled\<rparr>
      else d\<lparr>dLastUpstreamStatus := UpstreamCleanupCancelled @ ''|'' @ dLastUpstreamStatus d\<rparr>)"

definition markCopyRemoved :: "Download \<Rightarrow> Download" where
  "markCopyRemoved d =
     (if copyRemovalCompleted (dLastUpstreamStatus d) then d
      else
        (let status = trim_prefix (dLastUpstreamStatus d) (UpstreamCleanupCancelled @ ''|'')
         in if status = [] \<or> status = UpstreamCleanupCancelled
            then d\<lparr>dLastUpstreamStatus := UpstreamCopyRemoved\<rparr>
            else d\<lparr>dLastUpstreamStatus := UpstreamCopyRemoved @ ''|'' @ status\<rparr>))"

definition hasCopyEvidence :: "string \<Rightarrow> bool" where
  "hasCopyEvidence status \<longleftrightarrow>
     trim_prefix (trim_prefix status (UpstreamCleanupCancelled @ ''|'')) (UpstreamCopyRemoved @ ''|'')
       \<in> set [destinationClear, UpstreamCopyPending, UpstreamCopyScanning, UpstreamCopyScanned,
              UpstreamCopyCompleted, UpstreamCopyFailed]"

definition workspaceRoot :: "Download \<Rightarrow> string" where
  "workspaceRoot d = (if dWorkspacePath d \<noteq> [] then dWorkspacePath d else dSavePath d)"

subsection \<open>Scheduling helpers\<close>

definition clear_error :: "Download \<Rightarrow> Download" where
  "clear_error d = d\<lparr>dAttemptCount := 0, dLastError := [], dLastErrorCode := []\<rparr>"

definition advance :: "State \<Rightarrow> time \<Rightarrow> time \<Rightarrow> Download \<Rightarrow> Download" where
  "advance s now due d = (clear_error d)\<lparr>dState := s, dPhaseStartedAt := now, dNextRunAt := Some due\<rparr>"

definition poll :: "Config \<Rightarrow> time \<Rightarrow> Download \<Rightarrow> Download" where
  "poll c now d = (clear_error d)\<lparr>dNextRunAt := Some (time_add now (cfgPollInterval c))\<rparr>"

definition fail_with :: "ProblemCode \<Rightarrow> Download \<Rightarrow> Download" where
  "fail_with code d = d\<lparr>dState := StateFailed, dLastError := ProblemText code, dLastErrorCode := code,
     dNextRunAt := None\<rparr>"

definition backoff :: "int \<Rightarrow> duration" where
  "backoff attempt =
     (if attempt \<le> 1 then 30 * second
      else if attempt = 2 then minute
      else if attempt = 3 then 2 * minute
      else if attempt = 4 then 4 * minute
      else 5 * minute)"

definition retry :: "World \<Rightarrow> ProblemCode \<Rightarrow> Download \<Rightarrow> Download" where
  "retry w code d =
     (let n = dAttemptCount d + 1
      in d\<lparr>dAttemptCount := n, dLastError := ProblemText code, dLastErrorCode := code,
           dNextRunAt := Some (time_add (wRetryNow w) (backoff n))\<rparr>)"

definition cleanupProblem :: "ProblemCode \<Rightarrow> Download \<Rightarrow> Download" where
  "cleanupProblem code d = d\<lparr>dAttemptCount := dAttemptCount d + 1, dLastError := ProblemText code,
     dLastErrorCode := code, dNextRunAt := None\<rparr>"

definition timedOut :: "Download \<Rightarrow> time \<Rightarrow> duration \<Rightarrow> bool" where
  "timedOut d now limit \<longleftrightarrow> \<not> time_is_zero (dPhaseStartedAt d) \<and> limit \<le> time_sub now (dPhaseStartedAt d)"

definition deadlineProblem :: "Download \<Rightarrow> ProblemCode \<Rightarrow> ProblemCode" where
  "deadlineProblem d fallback =
     (if dLastErrorCode d = ProblemCloudCopyNotReady then
        (if fallback = ProblemCopyTimeout then ProblemCloudCopyNotReadyTimeout else fallback)
      else if dLastErrorCode d = ProblemCloudAuthenticationRequired then ProblemCloudAuthenticationTimeout
      else if dLastErrorCode d = ProblemCloudUnreachable then ProblemCloudUnreachableTimeout
      else if dLastErrorCode d = ProblemLocalFilesystemUnavailable
        then ProblemLocalFilesystemUnavailableTimeout
      else fallback)"

subsection \<open>Classifying failures\<close>

definition copy_operation :: "string \<Rightarrow> bool" where
  "copy_operation operation \<longleftrightarrow>
     operation = ''ensure_copy'' \<or> operation = ''inspect_copy'' \<or> operation = ''inspect_content''"

definition cloudProblem :: "CloudFault \<Rightarrow> string \<Rightarrow> ProblemCode" where
  "cloudProblem err operation =
     (case cfKind err of
        None \<Rightarrow> if cfContext err then ProblemCloudUnreachable else ProblemCloudResponseInvalid
      | Some ErrorTemporary \<Rightarrow> ProblemCloudUnreachable
      | Some ErrorUnauthorized \<Rightarrow> ProblemCloudAuthenticationRequired
      | Some ErrorNotFound \<Rightarrow>
          if copy_operation operation then ProblemCloudCopyNotReady else ProblemCloudFolderUnavailable
      | Some ErrorRejected \<Rightarrow>
          if copy_operation operation then ProblemCloudCopyNotReady
          else if cfOperation err = ''create_folder'' then ProblemCloudFolderUnavailable
          else if cfOperation err = ''add_offline'' then ProblemOfflineSubmissionRejected
          else ProblemCloudRequestRejected
      | Some ErrorInvalidInput \<Rightarrow> ProblemInternalWorkflowError
      | Some ErrorInvalidResponse \<Rightarrow> ProblemCloudResponseInvalid
      | Some (ErrorKindOther _) \<Rightarrow> ProblemInternalWorkflowError)"

definition retryObservation :: "CloudFault \<Rightarrow> string \<Rightarrow> bool" where
  "retryObservation err operation =
     (case cfKind err of
        None \<Rightarrow> cfContext err
      | Some ErrorTemporary \<Rightarrow> True
      | Some ErrorUnauthorized \<Rightarrow> True
      | Some ErrorNotFound \<Rightarrow> copy_operation operation
      | Some ErrorRejected \<Rightarrow> copy_operation operation
      | _ \<Rightarrow> False)"

definition cloudFailure :: "World \<Rightarrow> CloudFault \<Rightarrow> string \<Rightarrow> Download \<Rightarrow> Download" where
  "cloudFailure w err operation d =
     (let code = cloudProblem err operation
      in if retryObservation err operation then retry w code d else fail_with code d)"

definition cleanupFailure :: "World \<Rightarrow> CloudFault \<Rightarrow> Download \<Rightarrow> Download" where
  "cleanupFailure w err d =
     (let code = cloudProblem err ''cancel''
      in if retryObservation err ''cancel'' then retry w code d else cleanupProblem code d)"

definition handleLocalFilesystemFailure :: "World \<Rightarrow> Diagnostic \<Rightarrow> string \<Rightarrow> Download \<Rightarrow> Download" where
  "handleLocalFilesystemFailure w diag pathRole d =
     (let kind = (if dgKind diag = FailureMissing \<and> pathRole = ''workspace'' then FailureTransient
                  else dgKind diag)
      in case kind of
           FailurePermission \<Rightarrow> fail_with ProblemLocalPermissionDenied d
         | FailureUnsafe \<Rightarrow> fail_with ProblemLocalPathUnsafe d
         | FailureLayout \<Rightarrow> fail_with ProblemLocalContentLayoutInvalid d
         | _ \<Rightarrow> retry w ProblemLocalFilesystemUnavailable d)"

text \<open>An error without a filesystem cause is transient to \<open>fsafe.Diagnose\<close>.\<close>

definition plain_error :: Diagnostic where
  "plain_error = \<lparr>dgKind = FailureTransient, dgOperation = []\<rparr>"

definition missingLocalContent :: "Diagnostic \<Rightarrow> bool" where
  "missingLocalContent diag \<longleftrightarrow> dgKind diag = FailureMissing \<and>
     (dgOperation diag = [] \<or> dgOperation diag = ''inspect_candidate''
      \<or> dgOperation diag = ''verify_manifest'')"

subsection \<open>Validation of cloud answers\<close>

definition safeName :: "string \<Rightarrow> bool" where
  "safeName v \<longleftrightarrow>
     (if v = [] \<or> v = ''.'' \<or> v = ''..'' \<or> \<not> utf8_valid v
         \<or> (CHR ''/'' \<in> set v \<or> CHR 0x5C \<in> set v \<or> CHR 0x00 \<in> set v) then False
      else \<not> contains_control v)"

definition safeCloudPath :: "string \<Rightarrow> bool" where
  "safeCloudPath v \<longleftrightarrow> is_abs v \<and> path_clean v = v \<and> utf8_valid v
     \<and> \<not> (CHR 0x5C \<in> set v \<or> CHR 0x00 \<in> set v) \<and> \<not> contains_control v"

definition cloudDescendant :: "string \<Rightarrow> string \<Rightarrow> bool" where
  "cloudDescendant folder source =
     (let f = path_clean folder; s = path_clean source
      in if f = ''/'' then s \<noteq> ''/'' \<and> has_prefix s ''/'' else has_prefix s (f @ ''/''))"

definition validateOfflineTask :: "Download \<Rightarrow> OfflineTask \<Rightarrow> bool" where
  "validateOfflineTask d t \<longleftrightarrow>
     (if (case otState t of OfflineOther _ \<Rightarrow> True | _ \<Rightarrow> False) then False
      else if otInfoHash t \<noteq> dHash d \<or> float_less (otProgress t) (Fin 0) \<or> float_less (Fin 1) (otProgress t)
          \<or> otSize t < 0 \<or> (otName t = [] \<and> otSourcePath t \<noteq> []) \<or> (otName t \<noteq> [] \<and> \<not> safeName (otName t))
        then False
      else if otName t = [] then otState t = OfflineInit
      else \<not> (\<not> safeCloudPath (otSourcePath t) \<or> path_base (otSourcePath t) \<noteq> otName t
              \<or> \<not> cloudDescendant (dCloudFolder d) (otSourcePath t)))"

definition validateCopyTask :: "CopyTask \<Rightarrow> string \<Rightarrow> string \<Rightarrow> bool" where
  "validateCopyTask t source destination \<longleftrightarrow>
     (if ctSourcePath t \<noteq> path_clean source \<or> ctDestinationPath t \<noteq> path_clean destination
         \<or> float_less (ctProgress t) (Fin 0) \<or> float_less (Fin 1) (ctProgress t) then False
      else (case ctState t of CopyOther _ \<Rightarrow> False | _ \<Rightarrow> True))"

fun offline_state_text :: "OfflineState \<Rightarrow> string" where
  "offline_state_text OfflineInit = ''INIT''"
| "offline_state_text OfflineDownloading = ''DOWNLOADING''"
| "offline_state_text OfflineFinished = ''FINISHED''"
| "offline_state_text OfflineError = ''ERROR''"
| "offline_state_text (OfflineOther s) = s"

fun copy_state_text :: "CopyState \<Rightarrow> string" where
  "copy_state_text CopyPending = ''PENDING''"
| "copy_state_text CopyScanning = ''SCANNING''"
| "copy_state_text CopyScanned = ''SCANNED''"
| "copy_state_text CopyCompleted = ''COMPLETED''"
| "copy_state_text CopyFailed = ''FAILED''"
| "copy_state_text (CopyOther s) = s"

definition round6 :: "float64 \<Rightarrow> float64" where
  "round6 v = float_div_const (math_round (float_mul v (Fin 1000000))) 1000000"

definition offlineProgress :: "float64 \<Rightarrow> float64" where
  "offlineProgress v = round6 (float_mul (float_const (9 / 10)) v)"

definition copyProgress :: "float64 \<Rightarrow> float64" where
  "copyProgress v = round6 (float_add (float_const (9 / 10)) (float_mul (float_const (9 / 100)) v))"

definition recordOffline :: "OfflineTask \<Rightarrow> Download \<Rightarrow> Download" where
  "recordOffline t d0 =
     (let d1 = d0\<lparr>dOfflineProgress := otProgress t, dQbitProgress := offlineProgress (otProgress t),
                 dLastUpstreamStatus := ''offline:'' @ offline_state_text (otState t)\<rparr>;
          d2 = (if otState t = OfflineFinished
                then (let d = d1\<lparr>dCloudTaskName := otName t, dCloudResultPath := otSourcePath t\<rparr>
                      in if dSourceKind d = SourceMagnet \<and> \<not> dNameOverridden d
                         then d\<lparr>dName := otName t\<rparr> else d)
                else d1)
      in if dSourceKind d2 = SourceMagnet \<and> dTotalSize d2 = 0 \<and> 0 < otSize t
         then d2\<lparr>dTotalSize := otSize t\<rparr> else d2)"

definition recordCopyCompleted :: "time \<Rightarrow> Download \<Rightarrow> Download" where
  "recordCopyCompleted t d =
     (if dCopyCompletedAt d = None then d\<lparr>dCopyCompletedAt := Some t\<rparr> else d)"

definition recordCopy :: "CopyTask \<Rightarrow> Download \<Rightarrow> Download" where
  "recordCopy t d = d\<lparr>dCopyProgress := ctProgress t, dQbitProgress := copyProgress (ctProgress t),
     dLastUpstreamStatus := ''copy:'' @ copy_state_text (ctState t)\<rparr>"

definition copiesTorrentAsFile :: "Download \<Rightarrow> bool" where
  "copiesTorrentAsFile d \<longleftrightarrow> dSourceKind d = SourceTorrent \<and>
     (case dIsMultiFile d of
        None \<Rightarrow> False
      | Some multi \<Rightarrow> \<not> multi \<or> dCopySourcePath d \<noteq> dCloudResultPath d)"

subsection \<open>The manifest\<close>

definition manifest_path_ok :: "string \<Rightarrow> bool" where
  "manifest_path_ok p \<longleftrightarrow> \<not> (p = [] \<or> is_abs p \<or> path_clean p \<noteq> p \<or> p = ''.'' \<or> p = ''..''
     \<or> has_prefix p ''../'' \<or> (CHR 0x5C \<in> set p \<or> CHR 0x00 \<in> set p) \<or> \<not> utf8_valid p \<or> contains_control p)"

text \<open>The loop of \<open>validateManifest\<close>: the accumulated total, or \<open>None\<close> for a contradiction.\<close>

fun manifest_total :: "string \<Rightarrow> int \<Rightarrow> string list \<Rightarrow> int \<Rightarrow> DownloadFile list \<Rightarrow> int option" where
  "manifest_total h i seen acc [] = Some acc"
| "manifest_total h i seen acc (f # fs) =
     (if fDownloadHash f \<noteq> h \<or> fIndex f \<noteq> i \<or> fSize f < 0 \<or> \<not> manifest_path_ok (fRelativePath f) then None
      else if fRelativePath f \<in> set seen then None
      else if max_int64 - fSize f < acc then None
      else manifest_total h (i + 1) (fRelativePath f # seen) (acc + fSize f) fs)"

definition validateManifest :: "Download \<Rightarrow> DownloadFile list \<Rightarrow> bool" where
  "validateManifest d files =
     (case dIsMultiFile d of
        None \<Rightarrow> True
      | Some multi \<Rightarrow>
          (if (if multi then files = [] else length files \<noteq> 1) then False
           else manifest_total (dHash d) 0 [] 0 files = Some (dTotalSize d)))"

end
