(* ===== verification/Submission.thy ===== *)
theory Submission
  imports Torrent_Facts Reconcile_World Store_System
begin

section \<open>The submission service (internal/submission)\<close>

text \<open>
  From a magnet or a torrent with its options to the row that is inserted: canonical categories and
  tags, frozen paths, the revival of retained content, and the call of the repository.  The record
  \<open>SubmitWorld\<close> holds what the service is given: settings, file system, clock, Unicode lower-casing,
  and what other requests do between its reads and the insertion.
\<close>

datatype submit_err =
    ErrInvalidSource | ErrCategoryInvalid | ErrInvalidOptions | SubmitStore store_err | SubmitText string

record Options =
  opRename :: "string option"
  opTags :: "string option"
  opAutoTMM :: "bool option"
  opSavePath :: "string option"

text \<open>
  \<open>swSettings\<close> is \<open>None\<close> for a repository without settings, \<open>swRoots\<close> for a file system that cannot
  resolve save roots; a prepared root answers \<open>Some\<close> error.
\<close>

record SubmitWorld =
  swMeta :: MetaLib
  swSettings :: "(store_err + (string \<Rightarrow> string)) option"
  swRoots :: "((string \<Rightarrow> string option) \<times> (string \<Rightarrow> string option)) option"
  swVerify :: "string \<Rightarrow> ExpectedContent \<Rightarrow> VerifiedContent option"
  swLower :: "string \<Rightarrow> string"
  swNow :: time
  swMeanwhile :: "Db \<Rightarrow> Db"

record SubmitConfig =
  scCloudRoot :: string
  scLocalRoot :: string
  scLimits :: Limits

subsection \<open>Names, lines, tags\<close>

definition validCloudRoot :: "string \<Rightarrow> bool" where
  "validCloudRoot dir \<longleftrightarrow> is_abs dir \<and> path_clean dir = dir"

definition validLimits :: "Limits \<Rightarrow> bool" where
  "validLimits l \<longleftrightarrow> 0 < MaxInputBytes l \<and> 0 < MaxInfoBytes l \<and> 0 < MaxFiles l \<and> 0 < MaxNameBytes l \<and>
     0 < MaxPathBytes l \<and> 0 < MaxComponentBytes l \<and> 0 < MaxTrackerCount l \<and> 0 < MaxTrackerBytes l \<and> 0 < MaxTotalSize l"

text \<open>\<open>New\<close>, without the checks that its dependencies are not nil.\<close>

definition NewService :: "SubmitConfig \<Rightarrow> string option" where
  "NewService c =
     (if \<not> validCloudRoot (scCloudRoot c) then Some ''cloud root must be an absolute clean POSIX path''
      else if \<not> is_abs (scLocalRoot c) \<or> path_clean (scLocalRoot c) \<noteq> scLocalRoot c
      then Some ''local root must be an absolute clean host path''
      else if \<not> validLimits (scLimits c) then Some ''torrent limits are invalid''
      else None)"

definition low_control :: "nat \<Rightarrow> bool" where
  "low_control r \<longleftrightarrow> r < 32 \<or> r = 127"

definition CanonicalCategory :: "(string \<Rightarrow> string) \<Rightarrow> string \<Rightarrow> bool \<Rightarrow> string \<times> bool" where
  "CanonicalCategory lower raw allowEmpty =
     (if \<not> utf8_valid raw then ([], False)
      else
        (let name = lower (trim_space raw)
         in if name = [] then ([], allowEmpty)
            else if name = ''.'' \<or> name = ''..'' \<or> CHR ''/'' \<in> set name \<or> CHR 0x5C \<in> set name then ([], False)
            else if list_ex low_control (runes name) then ([], False)
            else (name, True)))"

definition safeRetainedName :: "string \<Rightarrow> bool" where
  "safeRetainedName name =
     (if name = [] \<or> name = ''.'' \<or> name = ''..'' \<or> \<not> utf8_valid name \<or> CHR ''/'' \<in> set name \<or> CHR 0x5C \<in> set name
         \<or> CHR 0x00 \<in> set name then False
      else \<not> list_ex low_control (runes name))"

fun replace_crlf :: "string \<Rightarrow> string" where
  "replace_crlf (a # b # s) =
     (if a = CHR 0x0D \<and> b = CHR 0x0A then CHR 0x0A # replace_crlf s else a # replace_crlf (b # s))"
| "replace_crlf s = s"

definition oneMagnetLine :: "string \<Rightarrow> string option" where
  "oneMagnetLine v =
     (case split_on CHR 0x0A (replace_crlf v) of
        [l] \<Rightarrow> (let line = trim_space l in if line = [] then None else Some line)
      | _ \<Rightarrow> None)"

fun tags_loop :: "string list \<Rightarrow> string list \<Rightarrow> string list option" where
  "tags_loop seen [] = Some (rev seen)"
| "tags_loop seen (raw # rest) =
     (let part = trim_space raw
      in if part = [] then tags_loop seen rest
         else if CHR '','' \<in> set part \<or> CHR 0x00 \<in> set part \<or> list_ex low_control (runes part) then None
         else if part \<in> set seen then tags_loop seen rest
         else tags_loop (part # seen) rest)"

definition canonicalTags :: "string \<Rightarrow> bool \<Rightarrow> string option" where
  "canonicalTags raw required =
     (case tags_loop [] (split_on CHR '','' raw) of
        None \<Rightarrow> None
      | Some tags \<Rightarrow> if required \<and> tags = [] then None else Some (join_with '','' tags))"

subsection \<open>Paths of a submission\<close>

definition submissionPaths :: "SubmitConfig \<Rightarrow> SubmitWorld \<Rightarrow> Env \<Rightarrow> Db \<Rightarrow> string \<Rightarrow>
    submit_err + (string \<times> string \<times> string)" where
  "submissionPaths c w env db rawCategory =
     (case CanonicalCategory (swLower w) rawCategory True of
        (category, valid) \<Rightarrow>
          if \<not> valid then Inl ErrCategoryInvalid
          else if category = [] then Inr (category, scCloudRoot c, scLocalRoot c)
          else case GetCategory env category db of
              Inl e \<Rightarrow> if e = ErrNotFound then Inl ErrCategoryInvalid else Inl (SubmitStore e)
            | Inr configured \<Rightarrow>
                if \<not> catEnabled configured then Inl ErrCategoryInvalid
                else Inr (category, catCloudPath configured, catSavePath configured))"

subsection \<open>Retained content\<close>

text \<open>The expected candidate name of a retained download, or \<open>None\<close> for the early returns.\<close>

definition candidate_name :: "Download \<Rightarrow> string option" where
  "candidate_name existing =
     (if dDestinationName existing \<noteq> [] then
        (if safeRetainedName (dDestinationName existing) then Some (dDestinationName existing) else None)
      else
        (let candidate = path_clean (dContentPath existing);
             dir = path_clean (if dWorkspacePath existing \<noteq> [] then dWorkspacePath existing else dSavePath existing)
         in if path_dir candidate \<noteq> dir \<or> \<not> safeRetainedName (path_base candidate) then None
            else Some (path_base candidate)))"

definition effective_override :: "FileOverride list \<Rightarrow> DownloadFile \<Rightarrow> string \<times> int" where
  "effective_override overrides f =
     (case find (\<lambda>o'. oFileIndex o' = fIndex f) (rev overrides) of
        None \<Rightarrow> (fRelativePath f, 1)
      | Some o' \<Rightarrow> (oRelativePath o', oPriority o'))"

definition expected_files :: "FileOverride list \<Rightarrow> DownloadFile list \<Rightarrow> (string \<times> int) list" where
  "expected_files overrides files =
     map (\<lambda>f. (fst (effective_override overrides f), fSize f))
       (filter (\<lambda>f. snd (effective_override overrides f) \<noteq> 0) files)"

definition expected_content :: "Env \<Rightarrow> Db \<Rightarrow> Download \<Rightarrow> Download \<Rightarrow> DownloadFile list \<Rightarrow> ExpectedContent option" where
  "expected_content env db existing d files =
     (case candidate_name existing of
        None \<Rightarrow> None
      | Some name \<Rightarrow>
          if dSourceKind d = SourceTorrent then
            (case ListDownloadFileOverrides env (dHash d) db of
               Inl _ \<Rightarrow> None
             | Inr overrides \<Rightarrow>
                 (let xs = expected_files overrides files
                  in if xs = [] then None
                     else Some \<lparr>xcCandidateName = name,
                       xcMultiFile = (the (dIsMultiFile d) \<and> path_clean (dCopySourcePath existing) = path_clean (dCloudResultPath existing)),
                       xcFiles = xs\<rparr>))
          else Some \<lparr>xcCandidateName = name, xcMultiFile = the (dIsMultiFile existing), xcFiles = []\<rparr>)"

definition retained :: "Download \<Rightarrow> Download \<Rightarrow> bool" where
  "retained existing d \<longleftrightarrow>
     \<not> (dState existing \<noteq> StateDeleted \<or> dDeleteFilesRequested existing \<or> dContentPath existing = []
        \<or> dCloudResultPath existing = [] \<or> dCopySourcePath existing = [] \<or> dIsMultiFile existing = None
        \<or> path_clean (dSavePath existing) \<noteq> path_clean (dSavePath d))"

definition revive_from :: "Download \<Rightarrow> string \<Rightarrow> VerifiedContent \<Rightarrow> Download \<Rightarrow> Download" where
  "revive_from existing name content d =
     (let d1 = d\<lparr>dDestinationName := name\<rparr>;
          d2 = (if dSourceKind d = SourceMagnet
                then d1\<lparr>dName := dName existing, dIsMultiFile := dIsMultiFile existing, dTotalSize := vcSize content\<rparr>
                else d1)
      in d2\<lparr>dCloudTaskName := dCloudTaskName existing, dCloudResultPath := dCloudResultPath existing,
            dWorkspacePath := dWorkspacePath existing, dCopySourcePath := dCopySourcePath existing,
            dContentPath := vcPath content, dState := StateVerifyingLocal, dOfflineProgress := Fin 1,
            dCopyProgress := Fin 1, dQbitProgress := float_const (99 / 100),
            dLastUpstreamStatus := UpstreamRetainedContent\<rparr>)"

definition prepareRetainedContent :: "SubmitWorld \<Rightarrow> Env \<Rightarrow> Db \<Rightarrow> Download \<Rightarrow> DownloadFile list \<Rightarrow> Download" where
  "prepareRetainedContent w env db d files =
     (case GetDownload env (dHash d) db of
        Inl _ \<Rightarrow> d
      | Inr existing \<Rightarrow>
          if \<not> retained existing d then d
          else case expected_content env db existing d files of
              None \<Rightarrow> d
            | Some expected \<Rightarrow>
                (case swVerify w (if dWorkspacePath existing \<noteq> [] then dWorkspacePath existing else dSavePath existing) expected of
                   None \<Rightarrow> d
                 | Some content \<Rightarrow>
                     if path_clean (vcPath content) \<noteq> path_clean (dContentPath existing) then d
                     else revive_from existing (xcCandidateName expected) content d))"

subsection \<open>Submitting\<close>

text \<open>The trackers of the settings, merged into the magnet of the result.\<close>

definition add_setting_trackers :: "SubmitConfig \<Rightarrow> SubmitWorld \<Rightarrow> string \<Rightarrow> submit_err + string" where
  "add_setting_trackers c w magnet =
     (case swSettings w of
        None \<Rightarrow> Inr magnet
      | Some (Inl e) \<Rightarrow> Inl (SubmitStore e)
      | Some (Inr settings) \<Rightarrow>
          if settings ''qbt.add_trackers_enabled'' = ''true'' \<and> trim_space (settings ''qbt.add_trackers'') \<noteq> [] then
            (let trackers = map trim_space (split_on CHR 0x0A (settings ''qbt.add_trackers''))
             in if [] \<in> set trackers then Inl ErrInvalidSource
                else case normalizeTrackers (swMeta w) trackers (scLimits c) of
                    Inl _ \<Rightarrow> Inl ErrInvalidSource
                  | Inr _ \<Rightarrow>
                      (case AddTrackers (swMeta w) magnet trackers (scLimits c) of
                         Inl _ \<Rightarrow> Inl ErrInvalidSource | Inr m \<Rightarrow> Inr m))
          else Inr magnet)"

text \<open>The checks of the options, in the order of the code; the trimmed name and the canonical tags.\<close>

definition check_options :: "Options \<Rightarrow> submit_err + Options" where
  "check_options o' =
     (if opAutoTMM o' = Some True then Inl ErrInvalidOptions
      else and_then
        (case opRename o' of
           None \<Rightarrow> Inr None
         | Some n \<Rightarrow> if safeRetainedName (trim_space n) then Inr (Some (trim_space n)) else Inl ErrInvalidOptions)
        (\<lambda>name. and_then
          (case opTags o' of
             None \<Rightarrow> Inr None
           | Some t \<Rightarrow> (case canonicalTags t False of None \<Rightarrow> Inl ErrInvalidOptions | Some t' \<Rightarrow> Inr (Some t')))
          (\<lambda>tags. Inr (o'\<lparr>opRename := name, opTags := tags\<rparr>))))"

definition chosen_save_path :: "SubmitWorld \<Rightarrow> Options \<Rightarrow> string \<Rightarrow> submit_err + string" where
  "chosen_save_path w o' savePath =
     (case opSavePath o' of
        None \<Rightarrow> Inr savePath
      | Some p \<Rightarrow>
          if \<not> is_abs p \<or> path_clean p \<noteq> p then Inl ErrInvalidOptions
          else case swRoots w of
              None \<Rightarrow> Inl ErrInvalidOptions
            | Some (resolve, prepare) \<Rightarrow>
                (case resolve p of
                   None \<Rightarrow> Inl ErrInvalidOptions
                 | Some resolved \<Rightarrow>
                     (case prepare resolved of Some e \<Rightarrow> Inl (SubmitText e) | None \<Rightarrow> Inr resolved)))"

text \<open>The fresh download and its files.\<close>

definition fresh_download :: "MetaResult \<Rightarrow> SourceKind \<Rightarrow> string \<Rightarrow> string \<Rightarrow> string \<Rightarrow> string \<Rightarrow> time \<Rightarrow> Options \<Rightarrow> Download" where
  "fresh_download res source category cloudFolder savePath workspacePath now o' =
     \<lparr>dHash = mrHash res, dName = mrName res, dNameOverridden = False, dSourceKind = source,
      dSubmissionURI = mrMagnet res, dCategory = category,
      dTags = (case opTags o' of Some t \<Rightarrow> t | None \<Rightarrow> []),
      dAutoTMM = (case opAutoTMM o' of Some b \<Rightarrow> b | None \<Rightarrow> False),
      dCloudFolder = cloudFolder, dSavePath = savePath, dWorkspacePath = workspacePath, dDestinationName = [],
      dCloudTaskName = [], dCloudResultPath = [], dCopySourcePath = [], dContentPath = [],
      dIsMultiFile = (if source = SourceTorrent then Some (mrMultiFile res) else None),
      dPrivate = mrPrivate res, dTotalSize = mrTotalSize res, dState = StateAccepted,
      dOfflineProgress = Fin 0, dCopyProgress = Fin 0, dQbitProgress = Fin 0, dLastUpstreamStatus = [],
      dLastError = [], dLastErrorCode = [], dPhaseStartedAt = now, dOfflineStartedAt = None,
      dCopyCompletedAt = None, dNextRunAt = Some now, dLeaseUntil = None, dLeaseOwner = [], dAttemptCount = 0,
      dDeleteFilesRequested = False, dPauseRequested = False, dCreatedAt = now, dUpdatedAt = now,
      dCompletedAt = None, dRemovedAt = None, dRowVersion = 0\<rparr>"

definition submission_files :: "MetaResult \<Rightarrow> SourceKind \<Rightarrow> DownloadFile list" where
  "submission_files res source =
     (if source = SourceTorrent
      then map (\<lambda>f. \<lparr>fDownloadHash = mrHash res, fIndex = mfIndex f, fRelativePath = mfRelativePath f,
                     fSize = mfSize f, fPriority = 0\<rparr>) (mrFiles res)
      else [])"

definition apply_last :: "Options \<Rightarrow> bool \<Rightarrow> Download \<Rightarrow> Download" where
  "apply_last o' stopped d =
     (let d1 = (case opRename o' of Some n \<Rightarrow> d\<lparr>dName := n, dNameOverridden := True\<rparr> | None \<Rightarrow> d)
      in if stopped then d1\<lparr>dState := StateStopped, dNextRunAt := None\<rparr> else d1)"

text \<open>Everything up to the call of the repository: the submission that is handed over.\<close>

definition prepare_submission :: "SubmitConfig \<Rightarrow> SubmitWorld \<Rightarrow> Env \<Rightarrow> Db \<Rightarrow> MetaResult \<Rightarrow> SourceKind \<Rightarrow>
    string \<times> string \<times> string \<Rightarrow> bool \<Rightarrow> Options \<Rightarrow> submit_err + Submission" where
  "prepare_submission c w env db result source paths stopped options =
     (case paths of (category, cloudFolder, savePath0) \<Rightarrow>
      and_then (add_setting_trackers c w (mrMagnet result)) (\<lambda>magnet.
      and_then (check_options options) (\<lambda>o'.
      and_then (chosen_save_path w o' savePath0) (\<lambda>savePath.
      case WorkspacePath savePath (mrHash result) of
        None \<Rightarrow> Inl (SubmitText ''derive workspace path'')
      | Some workspacePath \<Rightarrow>
          (let res = result\<lparr>mrMagnet := magnet\<rparr>;
               files = submission_files res source;
               d = prepareRetainedContent w env db
                     (fresh_download res source category cloudFolder savePath workspacePath (swNow w) o') files
           in Inr \<lparr>subDownload = apply_last o' stopped d, subFiles = files\<rparr>)))))"

text \<open>The result carries whether the reconciler was woken: exactly when a row was inserted.\<close>

definition submit :: "SubmitConfig \<Rightarrow> SubmitWorld \<Rightarrow> Env \<Rightarrow> MetaResult \<Rightarrow> SourceKind \<Rightarrow> string \<times> string \<times> string \<Rightarrow>
    bool \<Rightarrow> Options \<Rightarrow> Db \<Rightarrow> (submit_err + (Download \<times> bool)) \<times> Db" where
  "submit c w env result source paths stopped options db =
     (case prepare_submission c w env db result source paths stopped options of
        Inl e \<Rightarrow> (Inl e, db)
      | Inr s \<Rightarrow>
          (case CreateSubmission env s (swMeanwhile w db) of
             (Inl e, db') \<Rightarrow> (Inl (SubmitStore e), db')
           | (Inr r, db') \<Rightarrow> (Inr r, db')))"

definition SubmitMagnetWithOptions :: "SubmitConfig \<Rightarrow> SubmitWorld \<Rightarrow> Env \<Rightarrow> string \<Rightarrow> string \<Rightarrow> bool \<Rightarrow> Options \<Rightarrow> Db \<Rightarrow>
    (submit_err + (Download \<times> bool)) \<times> Db" where
  "SubmitMagnetWithOptions c w env raw category stopped options db =
     (case submissionPaths c w env db category of
        Inl e \<Rightarrow> (Inl e, db)
      | Inr paths \<Rightarrow>
          (case oneMagnetLine raw of
             None \<Rightarrow> (Inl ErrInvalidSource, db)
           | Some magnet \<Rightarrow>
               (case ParseMagnet (swMeta w) magnet (scLimits c) of
                  Inl _ \<Rightarrow> (Inl ErrInvalidSource, db)
                | Inr result \<Rightarrow> submit c w env result SourceMagnet paths stopped options db)))"

definition SubmitTorrentWithOptions :: "SubmitConfig \<Rightarrow> SubmitWorld \<Rightarrow> Env \<Rightarrow> string \<Rightarrow> string \<Rightarrow> bool \<Rightarrow> Options \<Rightarrow> Db \<Rightarrow>
    (submit_err + (Download \<times> bool)) \<times> Db" where
  "SubmitTorrentWithOptions c w env data category stopped options db =
     (case submissionPaths c w env db category of
        Inl e \<Rightarrow> (Inl e, db)
      | Inr paths \<Rightarrow>
          (case ParseTorrent (swMeta w) data (scLimits c) of
             Inl _ \<Rightarrow> (Inl ErrInvalidSource, db)
           | Inr result \<Rightarrow> submit c w env result SourceTorrent paths stopped options db))"

end
