(* ===== verification/Submission_Facts.thy ===== *)
theory Submission_Facts
  imports Submission
begin

section \<open>What the submission service hands to the repository\<close>

text \<open>
  The manifest of a parsed torrent passes the check of the reconciler, and every submission passes
  the validation of the repository, up to the control characters U+0080 to U+009F, which the service
  lets through in names and tags.
\<close>

subsection \<open>Manifests\<close>

lemma safe_normal:
  assumes "safeComponent w"
  shows "normal_comp w \<and> CHR 0x5C \<notin> set w \<and> CHR 0x00 \<notin> set w \<and> utf8_valid w \<and> list_all (Not \<circ> is_control) (runes w)"
proof -
  from assms have w: "w \<noteq> []" "w \<noteq> ''.''" "w \<noteq> ''..''" "utf8_valid w"
    and r: "\<forall>r \<in> set (runes w). r \<noteq> 47 \<and> r \<noteq> 92 \<and> \<not> is_control r"
    unfolding safeComponent_def by (simp_all add: list_all_iff split: if_splits)
  have "is_control 0" by (simp add: is_control_def)
  then have "47 \<notin> set (runes w)" "92 \<notin> set (runes w)" "0 \<notin> set (runes w)" using r by auto
  then have "CHR ''/'' \<notin> set w" "CHR 0x5C \<notin> set w" "CHR 0x00 \<notin> set w"
    using ascii_char_in_runes [of "CHR ''/''" w] ascii_char_in_runes [of "CHR 0x5C" w]
      ascii_char_in_runes [of "CHR 0x00" w] by simp_all
  with w r show ?thesis by (simp add: normal_comp_def list_all_iff)
qed

lemma joined_path_ok:
  assumes "list_all safeComponent ws" "ws \<noteq> []"
  shows "manifest_path_ok (join_with ''/'' ws)"
proof -
  let ?p = "join_with ''/'' ws"
  have all: "\<forall>w \<in> set ws. normal_comp w \<and> CHR 0x5C \<notin> set w \<and> CHR 0x00 \<notin> set w \<and> utf8_valid w \<and> list_all (Not \<circ> is_control) (runes w)"
    using assms(1) safe_normal by (auto simp: list_all_iff)
  then have normal: "list_all normal_comp ws" by (simp add: list_all_iff)
  note clean = path_clean_relative [OF normal assms(2)]
  have no: "list_all (\<lambda>w. CHR ''/'' \<notin> set w) ws" using all by (auto simp: list_all_iff normal_comp_def)
  note split = split_join [OF no assms(2)]
  have utf: "utf8_valid ?p \<and> set (runes ?p) \<subseteq> insert 47 (\<Union>w \<in> set ws. set (runes w))"
    using join_text [of ws "CHR ''/''"] all by simp
  have "\<forall>r \<in> set (runes ?p). \<not> is_control r"
  proof
    fix r assume "r \<in> set (runes ?p)"
    then consider "r = 47" | w where "w \<in> set ws" "r \<in> set (runes w)" using utf by blast
    then show "\<not> is_control r"
      using all by cases (auto simp: is_control_def list_all_iff)
  qed
  then have "\<not> contains_control ?p" by (auto simp: contains_control_def list_ex_iff)
  moreover have "?p \<noteq> x" if "x = [] \<or> x = ''.'' \<or> x = ''..''" for x
  proof
    assume "?p = x"
    then have "ws = split_on CHR ''/'' x" using split by metis
    moreover have "split_on CHR ''/'' x = [x]" using that by auto
    ultimately have "normal_comp x" using normal by simp
    with that show False by (auto simp: normal_comp_def)
  qed
  moreover have "\<not> has_prefix ?p ''../''"
  proof
    assume "has_prefix ?p ''../''"
    then obtain s where "?p = ''..'' @ CHR ''/'' # s" by (auto simp: has_prefix_def prefix_def)
    then have "ws = ''..'' # split_on CHR ''/'' s" using split split_on_append [of "CHR ''/''" "''..''" s] by simp
    then show False using normal by (simp add: normal_comp_def)
  qed
  moreover have "CHR 0x5C \<notin> set ?p \<and> CHR 0x00 \<notin> set ?p"
    using all by (induction "''/''" ws rule: join_with.induct) auto
  ultimately show ?thesis using clean utf by (simp add: manifest_path_ok_def)
qed

lemma check_parts_safe: "check_parts first n parts l = Inr m \<Longrightarrow> list_all safeComponent parts"
  by (induction first n parts l rule: check_parts.induct) (auto simp: meta_safe_iff split: if_splits)

lemma validateRelativePath_ok: "validateRelativePath parts l = Inr p \<Longrightarrow> manifest_path_ok p"
  using check_parts_safe joined_path_ok
  by (auto simp: validateRelativePath_def and_then_Inr_iff split: if_splits)

definition manifest_of :: "string \<Rightarrow> MetaFile list \<Rightarrow> DownloadFile list" where
  "manifest_of h files = map (\<lambda>f. \<lparr>fDownloadHash = h, fIndex = mfIndex f, fRelativePath = mfRelativePath f,
     fSize = mfSize f, fPriority = 0\<rparr>) files"

lemma manifest_total_snoc:
  "manifest_total h i seen acc (fs @ [f]) =
     (case manifest_total h i seen acc fs of
        None \<Rightarrow> None
      | Some t \<Rightarrow> manifest_total h (i + int (length fs)) (rev (map fRelativePath fs) @ seen) t [f])"
  by (induction h i seen acc fs rule: manifest_total.induct) (simp_all add: algebra_simps split: option.split)

lemma files_loop_manifest:
  "files_loop l files t rest = Inr (files', t') \<Longrightarrow> manifest_total h 0 [] 0 (manifest_of h files) = Some t \<Longrightarrow>
   manifest_total h 0 [] 0 (manifest_of h files') = Some t'"
proof (induction rest arbitrary: files t)
  case (Cons e rest)
  obtain len parts where e: "e = (len, parts)" by (cases e)
  from Cons.prems(1) e obtain path where p: "validateRelativePath parts l = Inr path" "\<not> len < 0"
    "path \<notin> mfRelativePath ` set files" "\<not> max_int64 - len < t"
    "files_loop l (files @ [\<lparr>mfIndex = int (length files), mfRelativePath = path, mfSize = len\<rparr>]) (t + len) rest = Inr (files', t')"
    by (auto simp: and_then_Inr_iff split: if_splits)
  have "manifest_total h 0 [] 0 (manifest_of h (files @ [\<lparr>mfIndex = int (length files), mfRelativePath = path, mfSize = len\<rparr>]))
      = Some (t + len)"
    using Cons.prems(2) p(2-4) validateRelativePath_ok [OF p(1)]
    by (simp add: manifest_of_def manifest_total_snoc comp_def)
  from Cons.IH [OF p(5) this] show ?case .
qed simp

lemma ParseTorrent_cases:
  assumes "ParseTorrent lib data l = Inr res"
  obtains (single) h name ts p info f t where "validateName name l = None" "singleFile info name l = Inr (f, t)"
      "res = \<lparr>mrHash = h, mrName = name, mrMagnet = canonicalMagnet h name ts, mrTotalSize = t,
        mrMultiFile = False, mrPrivate = p, mrFiles = [f]\<rparr>"
    | (multi) h name ts p info fs t where "validateName name l = None" "multiFiles info l = Inr (fs, t)"
      "res = \<lparr>mrHash = h, mrName = name, mrMagnet = canonicalMagnet h name ts, mrTotalSize = t,
        mrMultiFile = True, mrPrivate = p, mrFiles = fs\<rparr>"
  using assms single multi
  by (auto simp: ParseTorrent_def and_then_Inr_iff Let_def split: option.splits if_splits)

lemma files_loop_bound:
  "files_loop l files t rest = Inr (files', t') \<Longrightarrow> 0 \<le> t \<Longrightarrow> t \<le> MaxTotalSize l \<Longrightarrow> 0 \<le> t' \<and> t' \<le> MaxTotalSize l"
  by (induction rest arbitrary: files t) (auto simp: and_then_Inr_iff split: if_splits)

text \<open>The files of a parsed torrent pass the manifest check and add up to its total.\<close>

lemma ParseTorrent_manifest:
  assumes "ParseTorrent lib data l = Inr res" "0 < MaxTotalSize l" "MaxTotalSize l \<le> max_int64"
  shows "manifest_total (mrHash res) 0 [] 0 (manifest_of (mrHash res) (mrFiles res)) = Some (mrTotalSize res)
    \<and> (if mrMultiFile res then mrFiles res \<noteq> [] else length (mrFiles res) = 1)
    \<and> safeComponent (mrName res) \<and> 0 \<le> mrTotalSize res \<and> mrTotalSize res \<le> MaxTotalSize l
    \<and> mrMagnet res \<noteq> []"
  using assms(1)
proof (cases rule: ParseTorrent_cases)
  case (single h name ts p info f t)
  then have f: "f = \<lparr>mfIndex = 0, mfRelativePath = name, mfSize = t\<rparr>" "0 \<le> t" "t \<le> MaxTotalSize l"
    by (auto simp: singleFile_def split: if_splits)
  have safe: "safeComponent name" using validateName_ok [OF single(1)] ..
  then have "manifest_path_ok name" using joined_path_ok [of "[name]"] by simp
  moreover have "\<not> max_int64 - t < 0" using f(3) assms(3) by simp
  ultimately show ?thesis using f single(3) safe by (simp add: manifest_of_def canonicalMagnet_def)
next
  case (multi h name ts p info fs t)
  have safe: "safeComponent name" using validateName_ok [OF multi(1)] ..
  from multi(2) have loop: "files_loop l [] 0 (tiUpverted info) = Inr (fs, t)" "fs \<noteq> []"
    by (auto simp: multiFiles_def Let_def and_then_Inr_iff split: if_splits)
  have "manifest_total h 0 [] 0 (manifest_of h fs) = Some t"
    by (rule files_loop_manifest [OF loop(1)]) (simp add: manifest_of_def)
  moreover have "0 \<le> t \<and> t \<le> MaxTotalSize l" using files_loop_bound [OF loop(1)] assms(2) by simp
  ultimately show ?thesis using multi(3) safe loop(2) by (simp add: canonicalMagnet_def)
qed

subsection \<open>Names and tags\<close>

text \<open>The control characters that the service does not look for.\<close>

definition c1_free :: "string \<Rightarrow> bool" where
  "c1_free s \<longleftrightarrow> (\<forall>r \<in> set (runes s). r < 128 \<or> 160 \<le> r)"

lemma is_control_low: "is_control r \<longleftrightarrow> low_control r \<or> (128 \<le> r \<and> r < 160)"
  by (auto simp: is_control_def low_control_def)

lemma retained_name_safe:
  assumes "safeRetainedName n" "c1_free n"
  shows "safeComponent n"
proof -
  from assms(1) have n: "n \<noteq> []" "n \<noteq> ''.''" "n \<noteq> ''..''" "utf8_valid n" "CHR ''/'' \<notin> set n" "CHR 0x5C \<notin> set n"
    and low: "\<forall>r \<in> set (runes n). \<not> low_control r"
    by (simp_all add: safeRetainedName_def list_ex_iff split: if_splits)
  have "47 \<notin> set (runes n)" "92 \<notin> set (runes n)"
    using n ascii_char_in_runes [of "CHR ''/''" n] ascii_char_in_runes [of "CHR 0x5C" n] by simp_all
  moreover have "\<not> is_abs n" using n(5) by (auto simp: is_abs_def split: list.splits)
  moreover have "\<forall>r \<in> set (runes n). \<not> is_control r" using low assms(2) by (auto simp: is_control_low c1_free_def)
  ultimately show ?thesis using n by (auto simp: safeComponent_def list_all_iff)
qed

lemma low_control_bytes: "list_ex low_control (runes s) \<longleftrightarrow> (\<exists>c \<in> set s. low_control (byte c))"
proof -
  have "low_control n \<Longrightarrow> n < 128" for n by (auto simp: low_control_def)
  then show ?thesis using ascii_in_runes [of _ s] by (fastforce simp: list_ex_iff)
qed

lemma tags_loop_clean:
  "tags_loop seen parts = Some ts \<Longrightarrow> list_all (\<lambda>w. \<not> list_ex low_control (runes w)) seen \<Longrightarrow>
   list_all (\<lambda>w. \<not> list_ex low_control (runes w)) ts"
proof (induction parts arbitrary: seen)
  case (Cons raw rest)
  let ?part = "trim_space raw"
  from Cons.prems(1) consider "tags_loop seen rest = Some ts"
    | "\<not> list_ex low_control (runes ?part)" "tags_loop (?part # seen) rest = Some ts"
    by (auto simp: Let_def split: if_splits)
  then show ?case using Cons.IH Cons.prems(2) by cases simp_all
qed (auto simp: list_all_iff)

lemma join_bytes: "set (join_with sep ws) \<subseteq> set sep \<union> (\<Union>w \<in> set ws. set w)"
  by (induction sep ws rule: join_with.induct) auto

lemma canonicalTags_clean:
  assumes "canonicalTags raw required = Some t" "c1_free t"
  shows "\<not> contains_control t"
proof -
  from assms(1) obtain ts where ts: "tags_loop [] (split_on CHR '','' raw) = Some ts" "t = join_with '','' ts"
    by (auto simp: canonicalTags_def split: option.splits if_splits)
  from tags_loop_clean [OF ts(1)] have "\<forall>w \<in> set ts. \<forall>c \<in> set w. \<not> low_control (byte c)"
    by (simp add: low_control_bytes list_all_iff)
  moreover have "\<not> low_control (byte CHR '','')" by (simp add: low_control_def)
  ultimately have "\<forall>c \<in> set t. \<not> low_control (byte c)"
    unfolding ts(2) using join_bytes [of "'',''" ts] by auto
  then have "\<forall>r \<in> set (runes t). \<not> low_control r" using low_control_bytes [of t] by (auto simp: list_ex_iff)
  with assms(2) show ?thesis by (auto simp: contains_control_def list_ex_iff is_control_low c1_free_def)
qed

subsection \<open>Categories and paths\<close>

lemma submissionPaths_ok:
  assumes "submissionPaths c w env db raw = Inr (category, cloud, save)" "NewService c = None"
  shows "(category = [] \<or> safeComponent category) \<and> absolutePath cloud \<and> absolutePath save"
proof (cases "category = []")
  case True
  with assms show ?thesis
    by (auto simp: submissionPaths_def NewService_def validCloudRoot_def absolutePath_def split: prod.splits if_splits sum.splits)
next
  case False
  with assms(1) obtain cat row where g: "sql_get g_name category (categories db) = Some row" "categoryFromDB row = Inr cat"
    "cloud = catCloudPath cat" "save = catSavePath cat"
    by (auto simp: submissionPaths_def GetCategory_def split: prod.splits if_splits sum.splits option.splits)
  from sql_get_Some_mem [OF g(1)] have "g_name row = category" by simp
  with g False show ?thesis
    by (auto simp: categoryFromDB_def safeCategoryName_def safeComponent_def store_absolutePath_def absolutePath_def split: if_splits)
qed

lemma is_abs_clean: "is_abs p \<Longrightarrow> is_abs (path_clean p)"
  by (auto simp: path_clean_def Let_def)

lemma clean_comps_subset: "set (clean_comps r st ws) \<subseteq> set st \<union> {w \<in> set ws. w \<noteq> []} \<union> {''..''}"
  by (induction r st ws rule: clean_comps.induct) (auto split: list.splits if_splits)

lemma relative_clean: "\<not> is_abs p \<Longrightarrow> \<not> is_abs (path_clean p)"
proof (cases "p = [] \<or> clean_comps False [] (split_on CHR ''/'' p) = []")
  case False
  assume p: "\<not> is_abs p"
  obtain w ws where c: "clean_comps False [] (split_on CHR ''/'' p) = w # ws"
    using False by (cases "clean_comps False [] (split_on CHR ''/'' p)") auto
  then have "w \<in> {w \<in> set (split_on CHR ''/'' p). w \<noteq> []} \<union> {''..''}"
    using clean_comps_subset [of False "[]" "split_on CHR ''/'' p"] by auto
  then have w: "w \<noteq> []" "CHR ''/'' \<notin> set w" using split_on_comps by auto
  then obtain a b where "w = a # b" "a \<noteq> CHR ''/''" by (cases w) auto
  then have "\<not> is_abs (join_with ''/'' (w # ws))" "join_with ''/'' (w # ws) \<noteq> []" by (cases ws; simp)+
  with p c False show ?thesis by (simp add: path_clean_def)
qed (auto simp: path_clean_def)

lemma abs_of_clean_eq: "path_clean p = path_clean q \<Longrightarrow> is_abs q \<Longrightarrow> is_abs p"
  using is_abs_clean relative_clean by metis

subsection \<open>The handed-over download is valid\<close>

text \<open>What a result of the parser brings, from either kind of source.\<close>

definition result_ok :: "MetaResult \<Rightarrow> SourceKind \<Rightarrow> bool" where
  "result_ok res source \<longleftrightarrow> (source = SourceMagnet \<or> source = SourceTorrent) \<and> safeComponent (mrName res) \<and>
     0 \<le> mrTotalSize res \<and> files_valid (mrHash res) 0 (submission_files res source)"

lemma workspace_hash_valid: "WorkspacePath save h = Some ws \<Longrightarrow> validHash h"
proof -
  assume "WorkspacePath save h = Some ws"
  then have "length h = 40" "list_all hex_char h"
    by (auto simp: WorkspacePath_def validateWorkspaceHash_def hex_char_def list_all_iff split: if_splits)
  then show ?thesis by (rule validHash_hex)
qed

lemma clean_comps_rooted:
  "list_all normal_comp st \<Longrightarrow> list_all (\<lambda>w. CHR ''/'' \<notin> set w) ws \<Longrightarrow> list_all normal_comp (clean_comps True st ws)"
proof (induction ws arbitrary: st)
  case (Cons w ws)
  have "st = t # ts \<Longrightarrow> t \<noteq> ''..''" for t ts using Cons.prems(1) by (simp add: normal_comp_def)
  moreover have "w \<noteq> [] \<Longrightarrow> w \<noteq> ''.'' \<Longrightarrow> w \<noteq> ''..'' \<Longrightarrow> normal_comp w"
    using Cons.prems(2) by (simp add: normal_comp_def)
  ultimately show ?case using Cons by (cases st) simp_all
qed (simp add: list_all_iff)

lemma path_clean_idem:
  assumes "is_abs p"
  shows "path_clean (path_clean p) = path_clean p"
proof -
  define cs where "cs = clean_comps True [] (split_on CHR ''/'' p)"
  have "p \<noteq> []" using assms by auto
  then have p: "path_clean p = ''/'' @ join_with ''/'' cs" using assms by (simp add: path_clean_def cs_def)
  have cs: "list_all normal_comp cs"
    unfolding cs_def using split_on_comps by (intro clean_comps_rooted) (auto simp: list_all_iff)
  show ?thesis
  proof (cases "cs = []")
    case True
    with p show ?thesis by (simp add: path_clean_def)
  next
    case False
    from cs have "list_all (\<lambda>w. CHR ''/'' \<notin> set w) cs" by (auto simp: list_all_iff normal_comp_def)
    from split_join [OF this False] have "split_on CHR ''/'' (path_clean p) = [] # cs"
      using split_on_append [of "CHR ''/''" "[]" "join_with ''/'' cs"] p by simp
    with cs p show ?thesis by (simp add: path_clean_def clean_comps_normal)
  qed
qed

lemma workspace_ok:
  assumes "WorkspacePath save h = Some ws"
  shows "path_clean save = save \<and> absolutePath save \<and> ws = path_join [save, ''.cd211'', h] \<and> absolutePath ws \<and> path_clean ws = ws"
proof -
  from assms have a: "is_abs save" "path_clean save = save" "ws = path_join [save, ''.cd211'', h]"
    by (auto simp: WorkspacePath_def split: if_splits)
  have "save \<noteq> []" using a(1) by auto
  then have "ws = path_clean (save @ ''/'' @ ''.cd211'' @ ''/'' @ h)" using a(3) by (simp add: path_join_def)
  moreover have abs: "is_abs (save @ ''/'' @ ''.cd211'' @ ''/'' @ h)" using a(1) by (cases save) auto
  ultimately have "is_abs ws" "path_clean ws = ws" using is_abs_clean path_clean_idem by simp_all
  with a \<open>save \<noteq> []\<close> show ?thesis by (auto simp: absolutePath_def)
qed

lemma GetDownload_facts:
  assumes "GetDownload env h db = Inr d"
  shows "valid_download d \<and> dHash d = h"
proof -
  from assms obtain row where row: "sql_get r_hash h (downloads db) = Some row" "downloadFromDB row = Inr d"
    by (auto simp: GetDownload_def stmt_def split: if_splits option.splits)
  then show ?thesis
    using downloadFromDB_valid [OF row(2)] downloadFromDB_fields(1) [OF row(2)] sql_get_Some_mem [OF row(1)] by auto
qed

lemma expected_name: "expected_content env db existing d files = Some x \<Longrightarrow> safeRetainedName (xcCandidateName x)"
  by (auto simp: expected_content_def candidate_name_def Let_def split: option.splits if_splits sum.splits)

text \<open>The two outcomes of the search for retained content.\<close>

lemma prepareRetainedContent_cases:
  assumes "prepareRetainedContent w env db d files = d'"
  obtains (fresh) "d' = d"
    | (revived) existing name content root_dir expected where "d' = revive_from existing name content d" "valid_download existing"
      "dHash existing = dHash d" "retained existing d" "path_clean (vcPath content) = path_clean (dContentPath existing)"
      "swVerify w root_dir expected = Some content" "safeRetainedName name"
  using assms that GetDownload_facts expected_name
  by (auto simp: prepareRetainedContent_def split: sum.splits if_splits option.splits)

lemma check_chain: "(if a then Some e else r) = None \<longleftrightarrow> \<not> a \<and> r = None"
  by simp

lemma completion_chain:
  "(case completion_error d of Some e \<Rightarrow> Some e | None \<Rightarrow> r) = None \<longleftrightarrow> completion_error d = None \<and> r = None"
  by (simp split: option.split)

lemmas valid_download_iff = ValidateDownload_def [THEN arg_cong [where f = "\<lambda>e. e = None"], simplified check_chain completion_chain]

lemma fresh_valid:
  assumes "result_ok res source" "mrMagnet res \<noteq> []" "category = [] \<or> safeComponent category" "absolutePath cloud"
    and "WorkspacePath save (mrHash res) = Some ws" "\<not> time_is_zero now"
    and "case opTags o' of None \<Rightarrow> True | Some t \<Rightarrow> \<not> contains_control t \<and> length t \<le> 64 * 1024"
  shows "valid_download (fresh_download res source category cloud save ws now o')"
proof -
  note wsp = workspace_ok [OF assms(5)]
  then have "ws \<noteq> []" by (auto simp: absolutePath_def)
  moreover have "contains_control [] = False" by (simp add: contains_control_def runes.simps)
  ultimately show ?thesis
    using assms wsp workspace_hash_valid [OF assms(5)] unfolding valid_download_iff
    by (auto simp: fresh_download_def workspace_invalid_def completion_error_def result_ok_def Let_def
        requiresCloudResult_def requiresCopySource_def validTaskName_def utf8_valid.simps
        safeProblemCode_def progress_def runes.simps split: option.splits)
qed

lemma revive_keeps [simp]:
  "dTags (revive_from e n v d) = dTags d" "dDestinationName (revive_from e n v d) = n"
  "dState (revive_from e n v d) = StateVerifyingLocal" "dLeaseOwner (revive_from e n v d) = dLeaseOwner d"
  "dLeaseUntil (revive_from e n v d) = dLeaseUntil d" "dHash (revive_from e n v d) = dHash d"
  "dCompletedAt (revive_from e n v d) = dCompletedAt d" "dSubmissionURI (revive_from e n v d) = dSubmissionURI d"
  "dSourceKind (revive_from e n v d) = dSourceKind d" "dCategory (revive_from e n v d) = dCategory d"
  "dCloudFolder (revive_from e n v d) = dCloudFolder d" "dSavePath (revive_from e n v d) = dSavePath d"
  "dAttemptCount (revive_from e n v d) = dAttemptCount d" "dLastErrorCode (revive_from e n v d) = dLastErrorCode d"
  "dRowVersion (revive_from e n v d) = dRowVersion d" "dCreatedAt (revive_from e n v d) = dCreatedAt d"
  "dUpdatedAt (revive_from e n v d) = dUpdatedAt d" "dPhaseStartedAt (revive_from e n v d) = dPhaseStartedAt d"
  by (simp_all add: revive_from_def Let_def)

lemma revive_changes [simp]:
  "dName (revive_from e n v d) = (if dSourceKind d = SourceMagnet then dName e else dName d)"
  "dTotalSize (revive_from e n v d) = (if dSourceKind d = SourceMagnet then vcSize v else dTotalSize d)"
  "dCloudTaskName (revive_from e n v d) = dCloudTaskName e" "dCloudResultPath (revive_from e n v d) = dCloudResultPath e"
  "dWorkspacePath (revive_from e n v d) = dWorkspacePath e" "dCopySourcePath (revive_from e n v d) = dCopySourcePath e"
  "dContentPath (revive_from e n v d) = vcPath v" "dOfflineProgress (revive_from e n v d) = Fin 1"
  "dCopyProgress (revive_from e n v d) = Fin 1" "dQbitProgress (revive_from e n v d) = float_const (99 / 100)"
  by (simp_all add: revive_from_def Let_def)

lemma revive_valid:
  assumes "valid_download d" "dState d = StateAccepted" "path_clean (dSavePath d) = dSavePath d" "dCompletedAt d = None"
    and "valid_download existing" "dHash existing = dHash d" "retained existing d"
    and "path_clean (vcPath content) = path_clean (dContentPath existing)" "0 \<le> vcSize content" "safeComponent name"
  shows "valid_download (revive_from existing name content d)"
proof -
  from assms(7) have r: "dContentPath existing \<noteq> []" "dCloudResultPath existing \<noteq> []" "dCopySourcePath existing \<noteq> []"
    "path_clean (dSavePath existing) = path_clean (dSavePath d)" by (simp_all add: retained_def)
  have old: "absolutePath (dContentPath existing)" "path_clean (dContentPath existing) \<noteq> path_clean (dSavePath existing)"
    "absolutePath (dCloudResultPath existing)" "absolutePath (dCopySourcePath existing)" "validTaskName (dCloudTaskName existing)"
    "safeComponent (dName existing)" "dWorkspacePath existing \<noteq> [] \<longrightarrow> \<not> workspace_invalid existing"
    using assms(5) r unfolding valid_download_iff by auto
  have "is_abs (vcPath content)" using abs_of_clean_eq [OF assms(8)] old(1) by (simp add: absolutePath_def)
  then have content: "absolutePath (vcPath content)" "path_clean (vcPath content) \<noteq> path_clean (dSavePath d)"
    using old(2) assms(8) r(4) by (auto simp: absolutePath_def)
  have "dWorkspacePath existing \<noteq> [] \<longrightarrow> dSavePath existing = dSavePath d"
    using old(7) r(4) assms(3) by (simp add: workspace_invalid_def Let_def)
  then have ws: "dWorkspacePath existing \<noteq> [] \<longrightarrow> \<not> workspace_invalid (revive_from existing name content d)"
    using old(7) assms(6) by (simp add: workspace_invalid_def Let_def)
  have "progress (float_const (99 / 100))" by code_simp
  moreover have "progress (Fin 1)" by (simp add: progress_def)
  ultimately show ?thesis
    using assms(1,2,4,9,10) old content ws r(1-3) unfolding valid_download_iff
    by (simp add: completion_error_def) blast
qed

lemma files_valid_manifest:
  "manifest_total h 0 [] 0 (manifest_of h files) = Some t \<Longrightarrow> files_valid h 0 (manifest_of h files)"
proof -
  have "manifest_total h i seen acc fs = Some t' \<Longrightarrow> files_valid h i fs" for i seen acc fs t'
    by (induction h i seen acc fs rule: manifest_total.induct) (auto split: if_splits)
  then show "manifest_total h 0 [] 0 (manifest_of h files) = Some t \<Longrightarrow> files_valid h 0 (manifest_of h files)" by blast
qed

text \<open>A result of either parser under limits that the service accepts.\<close>

definition parsed :: "MetaLib \<Rightarrow> Limits \<Rightarrow> string \<Rightarrow> SourceKind \<Rightarrow> MetaResult \<Rightarrow> bool" where
  "parsed lib l input source res \<longleftrightarrow>
     (source = SourceMagnet \<and> ParseMagnet lib input l = Inr res) \<or>
     (source = SourceTorrent \<and> ParseTorrent lib input l = Inr res)"

lemma parsed_result_ok:
  assumes "parsed lib l input source res" "validLimits l" "MaxTotalSize l \<le> max_int64"
  shows "result_ok res source \<and> mrMagnet res \<noteq> []"
  using assms(1) unfolding parsed_def
proof (elim disjE conjE)
  assume m: "source = SourceMagnet" "ParseMagnet lib input l = Inr res"
  note facts = ParseMagnet_facts [OF m(2)]
  from m(2) have "mrMagnet res \<noteq> []" by (rule ParseMagnet_cases) (auto simp: canonicalMagnet_def dest: arg_cong [where f = mrMagnet])
  then show ?thesis
    using facts m(1) validateName_ok [of "mrName res" l] by (simp add: result_ok_def submission_files_def)
next
  assume t: "source = SourceTorrent" "ParseTorrent lib input l = Inr res"
  have "0 < MaxTotalSize l" using assms(2) by (simp add: validLimits_def)
  note facts = ParseTorrent_manifest [OF t(2) this assms(3)]
  then show ?thesis using t(1) files_valid_manifest by (auto simp: result_ok_def submission_files_def manifest_of_def)
qed

lemma check_options_facts:
  assumes "check_options o' = Inr p"
  shows "(opRename p = None \<or> (\<exists>n. opRename p = Some n \<and> safeRetainedName n))
    \<and> (opTags p = None \<or> (\<exists>raw t. opTags p = Some t \<and> canonicalTags raw False = Some t)) \<and> opAutoTMM p \<noteq> Some True"
  using assms by (auto simp: check_options_def and_then_Inr_iff split: option.splits if_splits)

text \<open>The names and tags of a submission, printable as the domain wants them.\<close>

definition printable :: "Download \<Rightarrow> bool" where
  "printable d \<longleftrightarrow> c1_free (dName d) \<and> c1_free (dDestinationName d) \<and> c1_free (dTags d) \<and> length (dTags d) \<le> 64 * 1024"

text \<open>What is relied on: a URL prints as a non-empty text, and a verified size is not negative.\<close>

definition world_sane :: "SubmitWorld \<Rightarrow> bool" where
  "world_sane w \<longleftrightarrow> \<not> time_is_zero (swNow w) \<and>
     (\<forall>t u q. mlParse (swMeta w) t = Some u \<longrightarrow> muString u q \<noteq> []) \<and>
     (\<forall>p x v. swVerify w p x = Some v \<longrightarrow> 0 \<le> vcSize v)"

lemma setting_trackers_nonempty:
  "world_sane w \<Longrightarrow> add_setting_trackers c w m = Inr m' \<Longrightarrow> m \<noteq> [] \<Longrightarrow> m' \<noteq> []"
  by (auto simp: add_setting_trackers_def AddTrackers_def world_sane_def and_then_Inr_iff Let_def
      split: option.splits sum.splits if_splits)

lemma last_keeps [simp]:
  "dTags (apply_last p stopped d) = dTags d" "dDestinationName (apply_last p stopped d) = dDestinationName d"
  "dLeaseOwner (apply_last p stopped d) = dLeaseOwner d" "dLeaseUntil (apply_last p stopped d) = dLeaseUntil d"
  "dHash (apply_last p stopped d) = dHash d"
  "dState (apply_last p stopped d) = (if stopped then StateStopped else dState d)"
  "dName (apply_last p stopped d) = (case opRename p of Some n \<Rightarrow> n | None \<Rightarrow> dName d)"
  by (simp_all add: apply_last_def Let_def split: option.split)

lemma fresh_keeps [simp]:
  "dState (fresh_download res source category cloud save ws now p) = StateAccepted"
  "dTags (fresh_download res source category cloud save ws now p) = (case opTags p of Some t \<Rightarrow> t | None \<Rightarrow> [])"
  "dSavePath (fresh_download res source category cloud save ws now p) = save"
  "dHash (fresh_download res source category cloud save ws now p) = mrHash res"
  "dCompletedAt (fresh_download res source category cloud save ws now p) = None"
  "dLeaseOwner (fresh_download res source category cloud save ws now p) = []"
  "dLeaseUntil (fresh_download res source category cloud save ws now p) = None"
  by (simp_all add: fresh_download_def)

lemma rename_valid: "valid_download d \<Longrightarrow> safeComponent n \<Longrightarrow> valid_download (d\<lparr>dName := n, dNameOverridden := True\<rparr>)"
proof -
  have "completion_error (d\<lparr>dName := n, dNameOverridden := True\<rparr>) = completion_error d"
    "workspace_invalid (d\<lparr>dName := n, dNameOverridden := True\<rparr>) = workspace_invalid d"
    by (simp_all add: workspace_invalid_def completion_error_def)
  then show "valid_download d \<Longrightarrow> safeComponent n \<Longrightarrow> ?thesis" unfolding valid_download_iff by simp
qed

lemma stop_valid:
  "valid_download d \<Longrightarrow> dCompletedAt d = None \<Longrightarrow> valid_download (d\<lparr>dState := StateStopped, dNextRunAt := None\<rparr>)"
proof -
  have "workspace_invalid (d\<lparr>dState := StateStopped, dNextRunAt := None\<rparr>) = workspace_invalid d"
    by (simp add: workspace_invalid_def)
  moreover have "dCompletedAt d = None \<Longrightarrow> completion_error (d\<lparr>dState := StateStopped, dNextRunAt := None\<rparr>) = None"
    by (simp add: completion_error_def)
  ultimately show "valid_download d \<Longrightarrow> dCompletedAt d = None \<Longrightarrow> ?thesis"
    unfolding valid_download_iff by (simp add: requiresCloudResult_def requiresCopySource_def)
qed

lemma last_valid:
  assumes "valid_download d" "dCompletedAt d = None" "opRename p = None \<or> (\<exists>n. opRename p = Some n \<and> safeComponent n)"
  shows "valid_download (apply_last p stopped d)"
  using assms rename_valid [of d] stop_valid
  by (auto simp: apply_last_def Let_def)

lemma submission_is_valid:
  assumes "NewService c = None" "MaxTotalSize (scLimits c) \<le> max_int64" "world_sane w"
    and "submissionPaths c w env db rawCategory = Inr paths"
    and "parsed (swMeta w) (scLimits c) input source res"
    and "prepare_submission c w env db res source paths stopped options = Inr s" "printable (subDownload s)"
  shows "validateSubmission s = None"
proof -
  obtain category cloud save0 where paths: "paths = (category, cloud, save0)" by (cases paths)
  have limits: "validLimits (scLimits c)" using assms(1) by (simp add: NewService_def split: if_splits)
  from assms(6) obtain magnet o' save ws where p: "add_setting_trackers c w (mrMagnet res) = Inr magnet"
      "check_options options = Inr o'" "WorkspacePath save (mrHash res) = Some ws"
    and s: "s = (let files = submission_files (res\<lparr>mrMagnet := magnet\<rparr>) source in
        \<lparr>subDownload = apply_last o' stopped (prepareRetainedContent w env db
           (fresh_download (res\<lparr>mrMagnet := magnet\<rparr>) source category cloud save ws (swNow w) o') files), subFiles = files\<rparr>)"
    unfolding prepare_submission_def paths by (auto simp: and_then_Inr_iff Let_def split: option.splits)
  define res' where "res' = res\<lparr>mrMagnet := magnet\<rparr>"
  define fresh where "fresh = fresh_download res' source category cloud save ws (swNow w) o'"
  define kept where "kept = prepareRetainedContent w env db fresh (submission_files res' source)"
  have s: "subDownload s = apply_last o' stopped kept" "subFiles s = submission_files res' source"
    unfolding s kept_def fresh_def res'_def by (simp_all add: Let_def)
  have res: "result_ok res' source" "mrMagnet res' \<noteq> []" "mrHash res' = mrHash res"
    using parsed_result_ok [OF assms(5) limits assms(2)] setting_trackers_nonempty [OF assms(3) p(1)]
    by (auto simp: res'_def result_ok_def submission_files_def)
  note options = check_options_facts [OF p(2)]
  have kept: "dTags kept = dTags fresh \<and> dCompletedAt kept = None \<and> dHash kept = mrHash res \<and> dLeaseOwner kept = []
      \<and> dLeaseUntil kept = None \<and> (dState kept = StateAccepted \<or> dState kept = StateVerifyingLocal)
      \<and> (valid_download fresh \<longrightarrow> valid_download kept)"
    using kept_def [symmetric]
  proof (cases rule: prepareRetainedContent_cases)
    case fresh
    then show ?thesis by (simp add: fresh_def res(3))
  next
    case (revived existing name content root_dir expected)
    have "safeComponent name"
      using retained_name_safe [OF revived(7)] assms(7) s(1) revived(1) by (simp add: printable_def)
    then show ?thesis
      using revive_valid [of fresh existing content name] revived assms(3) workspace_ok [OF p(3)]
      by (simp add: fresh_def res(3) world_sane_def)
  qed
  have tags: "case opTags o' of None \<Rightarrow> True | Some t \<Rightarrow> \<not> contains_control t \<and> length t \<le> 64 * 1024"
    using options kept assms(7) canonicalTags_clean by (auto simp: printable_def s(1) fresh_def split: option.splits)
  then have "valid_download fresh"
    unfolding fresh_def using res p(3) submissionPaths_ok [OF assms(4) [unfolded paths] assms(1)] assms(3)
    by (intro fresh_valid) (simp_all add: world_sane_def)
  moreover have "opRename o' = None \<or> (\<exists>n. opRename o' = Some n \<and> safeComponent n)"
    using options assms(7) retained_name_safe by (auto simp: printable_def s(1))
  ultimately have "valid_download (subDownload s)" unfolding s(1) using kept last_valid by blast
  moreover have "files_valid (mrHash res) 0 (subFiles s)" using res by (simp add: result_ok_def s(2))
  ultimately show ?thesis using kept by (auto simp: validateSubmission_def Let_def s(1))
qed

text \<open>Of a torrent, the reconciler will accept the manifest.\<close>

lemma submitted_manifest:
  assumes "NewService c = None" "MaxTotalSize (scLimits c) \<le> max_int64"
    and "ParseTorrent (swMeta w) data (scLimits c) = Inr res"
    and "prepare_submission c w env db res SourceTorrent paths stopped options = Inr s"
  shows "validateManifest (subDownload s) (subFiles s)"
proof -
  have limits: "0 < MaxTotalSize (scLimits c)" using assms(1) by (simp add: NewService_def validLimits_def split: if_splits)
  obtain category cloud save0 where paths: "paths = (category, cloud, save0)" by (cases paths)
  from assms(4) obtain magnet o' save ws files fresh where fresh:
      "fresh = fresh_download (res\<lparr>mrMagnet := magnet\<rparr>) SourceTorrent category cloud save ws (swNow w) o'"
    and s: "subDownload s = apply_last o' stopped (prepareRetainedContent w env db fresh files)"
      "subFiles s = manifest_of (mrHash res) (mrFiles res)"
    unfolding prepare_submission_def paths
    by (auto simp: and_then_Inr_iff Let_def submission_files_def manifest_of_def split: option.splits)
  have kept: "dSourceKind fresh = SourceTorrent" "dHash fresh = mrHash res" "dTotalSize fresh = mrTotalSize res"
    "dIsMultiFile fresh = Some (mrMultiFile res)" by (simp_all add: fresh fresh_download_def)
  obtain d' where d': "prepareRetainedContent w env db fresh files = d'" by simp
  then have "dHash d' = mrHash res \<and> dTotalSize d' = mrTotalSize res \<and> dIsMultiFile d' = Some (mrMultiFile res)"
    by (cases rule: prepareRetainedContent_cases) (use kept in \<open>simp_all add: revive_from_def Let_def\<close>)
  then show ?thesis
    using ParseTorrent_manifest [OF assms(3) limits assms(2)] s(2)
    by (auto simp: validateManifest_def s(1) d' apply_last_def Let_def manifest_of_def length_Suc_conv split: option.splits if_splits)
qed

end
