(* ===== verification/Store_Progress.thy ===== *)
theory Store_Progress
  imports Leases
begin

section \<open>Operations succeed when nothing stands in the way\<close>

text \<open>
  Forward facts on the main operations of the workflow: with a calm driver and no conflicting row, a
  valid submission is stored and announced, a due row is claimed, and a checked commit goes through.
  They are what the concrete runs of the development are made of.
\<close>

definition driver_calm :: "Env \<Rightarrow> bool" where
  "driver_calm env \<longleftrightarrow> faulty env = (\<lambda>_. False)"

lemma calm_tx [simp]:
  "driver_calm env \<Longrightarrow> tx_exec (faulty env) l w = w"
  "driver_calm env \<Longrightarrow> in_tx (faulty env) l body db =
     (case body db of Inl e \<Rightarrow> (Inl e, db) | Inr (x, db') \<Rightarrow> (Inr x, db'))"
  "driver_calm env \<Longrightarrow> tx_query (faulty env) l q db = Inr (q db, db)"
  "driver_calm env \<Longrightarrow> stmt (faulty env) l m = m"
  "driver_calm env \<Longrightarrow> commitEventTx (faulty env) l b db = Inr ((), if b then notify db else db)"
  "driver_calm env \<Longrightarrow> tx_commit (faulty env) l db = Inr ((), db)"
  by (auto simp: driver_calm_def tx_exec_def in_tx_def tx_query_def stmt_def commitEventTx_def tx_commit_def)

lemma calm_no_fault: "driver_calm env \<Longrightarrow> \<not> faulty env l"
  by (simp add: driver_calm_def)

lemma trim_space_Nil [simp]: "trim_space [] = []"
  by (simp add: trim_space_def trim_left.simps trim_right.simps)

lemma tx_run [simp]:
  "m db = Inr (x, db') \<Longrightarrow> tx_bind m k db = k x db'"
  "m db = Inl e \<Longrightarrow> tx_bind m k db = Inl e"
  "w db = Inr (x, db') \<Longrightarrow> tx_catch w h db = Inr (x, db')"
  "w db = Inl e \<Longrightarrow> tx_catch w h db = Inl (h e)"
  "tx_return y db = Inr (y, db)" "tx_lift (Inr z) db = Inr (z, db)" "tx_lift (Inl e) db = Inl e"
  by (simp_all add: tx_bind_def tx_catch_def tx_return_def tx_lift_def)

subsection \<open>Announcing\<close>

definition append_event ::
    "Env \<Rightarrow> EventType \<Rightarrow> Payload \<Rightarrow> Download \<Rightarrow> Db \<Rightarrow> Db" where
  "append_event env ty payload d db = db\<lparr>domain_events := domain_events db @
     [\<lparr>ev_sequence = last_sequence db + 1, ev_id = freshID env (dHash d), ev_type = ty,
       ev_aggregate_type = AggregateDownload, ev_aggregate_id = dHash d,
       ev_aggregate_version = dRowVersion d, ev_payload = payload, ev_occurred_at = dUpdatedAt d\<rparr>],
     last_sequence := last_sequence db + 1\<rparr>"

lemma emit_plain:
  assumes "driver_calm env" "valid_download d" "freshID env (dHash d) \<notin> ev_id ` set (domain_events db)"
    and "ty \<noteq> EventTypeCompleted" "ty \<noteq> EventTypeFailed"
  obtains payload where
    "BuildDownloadPayload (floatOob env) (freshID env (dHash d)) ty prev d = Some payload"
    "emit env ty prev d db = Inr ((), append_event env ty payload d db)"
proof -
  from payload_marshals [OF assms(2)] obtain p where
    p: "BuildDownloadPayload (floatOob env) (freshID env (dHash d)) ty prev d = Some p" by blast
  then have "emit env ty prev d db = Inr ((), append_event env ty p d db)"
    using assms by (simp add: emit_def emitDownloadEvent_def insert_event_def append_event_def)
  with p that show ?thesis by blast
qed

subsection \<open>Submitting\<close>

lemma sql_get_snoc:
  "sql_get key k (rows @ [r]) = (case sql_get key k rows of Some q \<Rightarrow> Some q | None \<Rightarrow> if key r = k then Some r else None)"
  by (simp add: sql_get_append sql_get_Cons split: option.split)

lemma insertDownloadParams_hash [simp]: "r_hash (insertDownloadParams d) = dHash d"
  by (simp add: insertDownloadParams_def)

lemma store_files:
  assumes "driver_calm env" "sql_get r_hash h (downloads db) \<noteq> None"
    and "\<forall>f \<in> set fs. fDownloadHash f = h" "distinct (map fIndex fs)"
    and "\<forall>g \<in> set (download_files db). fr_download_hash g = h \<longrightarrow> fr_file_index g \<notin> fIndex ` set fs"
  shows "tx_each (\<lambda>f. tx_catch (tx_exec (faulty env) l (insert_file (file_params f))) wr) fs db =
    Inr ((), db\<lparr>download_files := download_files db @ map file_params fs\<rparr>)"
  using assms
proof (induction fs arbitrary: db)
  case Nil
  then show ?case by simp
next
  case (Cons f fs)
  let ?db = "db\<lparr>download_files := download_files db @ [file_params f]\<rparr>"
  have "insert_file (file_params f) db = Inr ((), ?db)"
    using Cons.prems by (auto simp: insert_file_def file_params_def list_ex_iff)
  moreover have "tx_each (\<lambda>f. tx_catch (tx_exec (faulty env) l (insert_file (file_params f))) wr) fs ?db =
      Inr ((), ?db\<lparr>download_files := download_files ?db @ map file_params fs\<rparr>)"
    using Cons.prems by (intro Cons.IH) (auto simp: file_params_def)
  ultimately show ?case using Cons.prems(1) by simp
qed

text \<open>The manifest of a valid submission is numbered by position.\<close>

lemma files_valid_facts:
  "files_valid h i fs \<Longrightarrow> map fIndex fs = map (\<lambda>k. i + int k) [0..<length fs] \<and> (\<forall>f \<in> set fs. fDownloadHash f = h)"
proof (induction h i fs rule: files_valid.induct)
  case (2 h i f fs)
  have idx: "map (\<lambda>k. i + int k) [0..<Suc (length fs)] = i # map (\<lambda>k. (i + 1) + int k) [0..<length fs]"
    by (simp add: map_upt_Suc del: upt_Suc)
  from 2 show ?case by (auto simp: idx simp del: upt_Suc split: if_splits)
qed simp

lemma validateSubmission_files:
  assumes "validateSubmission s = None"
  shows "distinct (map fIndex (subFiles s))" "\<forall>f \<in> set (subFiles s). fDownloadHash f = dHash (subDownload s)"
proof -
  have "files_valid (dHash (subDownload s)) 0 (subFiles s)"
    using assms by (auto simp: validateSubmission_def Let_def split: option.splits if_splits)
  from files_valid_facts [OF this]
  show "distinct (map fIndex (subFiles s))" "\<forall>f \<in> set (subFiles s). fDownloadHash f = dHash (subDownload s)"
    by (auto simp: distinct_map inj_on_def)
qed

theorem submission_stored:
  assumes calm: "driver_calm env" and valid: "validateSubmission s = None" and times: "times_ok (subDownload s)"
    and fresh: "sql_get r_hash (dHash (subDownload s)) (downloads db) = None"
    and files: "\<forall>g \<in> set (download_files db). fr_download_hash g \<noteq> dHash (subDownload s)"
    and paths: "\<not> path_reserved (dSavePath (subDownload s))"
      "\<not> guard_rejects db (insertDownloadParams (subDownload s))"
      "\<not> index_rejects db (insertDownloadParams (subDownload s))"
    and ident: "freshID env (dHash (subDownload s)) \<notin> ev_id ` set (domain_events db)"
  obtains payload where
    "CreateSubmission env s db =
       (Inr ((subDownload s)\<lparr>dPauseRequested := False\<rparr>, True),
        notify (append_event env EventTypeCreated payload (subDownload s)
          (db\<lparr>downloads := downloads db @ [insertDownloadParams (subDownload s)],
              download_files := download_files db @ map file_params (subFiles s)\<rparr>)))"
proof -
  let ?d = "subDownload s"
  let ?d' = "?d\<lparr>dPauseRequested := False\<rparr>"
  let ?db1 = "db\<lparr>downloads := downloads db @ [insertDownloadParams ?d]\<rparr>"
  let ?db2 = "?db1\<lparr>download_files := download_files db @ map file_params (subFiles s)\<rparr>"
  have v: "valid_download ?d" using validateSubmission_state [OF valid] by simp
  have "r_save_path (insertDownloadParams ?d) = dSavePath ?d" by (simp add: insertDownloadParams_def)
  then have ins: "insert_download (insertDownloadParams ?d) db = Inr ((), ?db1)"
    using paths fresh by (simp add: insert_download_def)
  have fs: "tx_each (\<lambda>f. tx_catch (tx_exec (faulty env) ''insert submission file'' (insert_file (file_params f)))
      (wrap ''insert submission file'')) (subFiles s) ?db1 = Inr ((), ?db2)"
    using store_files [OF calm, of "dHash ?d" ?db1 "subFiles s"] files fresh
      validateSubmission_files [OF valid] by (auto simp: sql_get_snoc)
  have row: "reread (faulty env) ''read created submission'' (dHash ?d) ?db2 = Inr (insertDownloadParams ?d, ?db2)"
    using calm fresh by (simp add: reread_def get_row_def sql_get_snoc)
  from emit_plain [OF calm, of ?d' ?db2 EventTypeCreated "StateOther []"] v ident obtain p where
    em: "emit env EventTypeCreated (StateOther []) ?d' ?db2 = Inr ((), append_event env EventTypeCreated p ?d' ?db2)"
    by auto
  have "append_event env EventTypeCreated p ?d' ?db2 = append_event env EventTypeCreated p ?d ?db2"
    by (simp add: append_event_def)
  with em have em: "emit env EventTypeCreated (StateOther []) ?d' ?db2 = Inr ((), append_event env EventTypeCreated p ?d ?db2)"
    by simp
  have "store_submission env (StateOther []) s ?db1 = Inr ((?d', True), notify (append_event env EventTypeCreated p ?d ?db2))"
    using fs row em calm downloadFromDB_insert [OF v times] by (simp add: store_submission_def)
  then have "insert_submission env s db = Inr ((?d', True), notify (append_event env EventTypeCreated p ?d ?db2))"
    using ins calm by (simp add: insert_submission_def tx_handle_def)
  then have "CreateSubmission env s db = (Inr (?d', True), notify (append_event env EventTypeCreated p ?d ?db2))"
    using valid fresh calm by (simp add: CreateSubmission_def tx_look_def calm_no_fault)
  with that show ?thesis by simp
qed

subsection \<open>Claiming\<close>

lemma downloadFromDB_lease:
  assumes "downloadFromDB r = Inr d" "owner \<noteq> []" "t \<noteq> 0"
  shows "downloadFromDB (lease_set owner t r) =
    Inr (d\<lparr>dLeaseOwner := owner, dLeaseUntil := Some t, dRowVersion := dRowVersion d + 1\<rparr>)"
proof -
  have row: "downloadRow r = Inr d" and v: "valid_download d"
    using downloadFromDB_row [OF assms(1)] downloadFromDB_valid [OF assms(1)] by simp_all
  let ?d = "d\<lparr>dLeaseOwner := owner, dLeaseUntil := Some t, dRowVersion := dRowVersion d + 1\<rparr>"
  have "downloadRow (lease_set owner t r) = Inr ?d"
    using row assms(2,3)
    by (auto simp: downloadRow_def lease_set_def nullString_def nullTime_def validNullableTime_def time_is_zero_def
        split: if_splits)
  moreover have same: "completion_error ?d = completion_error d" "workspace_invalid ?d = workspace_invalid d"
    by (simp_all add: completion_error_def workspace_invalid_def)
  have "valid_download ?d"
    using v assms(2) same by (simp add: ValidateDownload_def)
  ultimately show ?thesis by (simp add: downloadFromDB_def)
qed

theorem due_row_claimed:
  assumes calm: "driver_calm env" and args: "trim_space owner \<noteq> []" "0 < dur" "now \<noteq> 0" "now + dur \<noteq> 0"
    and due: "first_by row_due (filter (claimable_row now) (downloads db)) = Some r"
    and conv: "downloadFromDB r = Inr d"
  shows "ClaimDue env owner now dur db =
    (Inr (Some \<lparr>kDownload = d\<lparr>dLeaseOwner := owner, dLeaseUntil := Some (now + dur), dRowVersion := dRowVersion d + 1\<rparr>,
        kOwner = owner, kState = dState d, kVersion = dRowVersion d + 1\<rparr>),
     db\<lparr>downloads := sql_update (\<lambda>q. r_hash q = r_hash r) (lease_set owner (now + dur)) (downloads db)\<rparr>)"
proof -
  have "owner \<noteq> []" using args(1) by auto
  from downloadFromDB_lease [OF conv this args(4)] calm args due show ?thesis
    by (simp add: ClaimDue_def exec_wrapped_def auto_commit_def claim_statement_def tx_look_def update_plain_def
        time_add_def time_is_zero_def)
qed

subsection \<open>Committing\<close>

theorem checked_commit_succeeds:
  assumes calm: "driver_calm env" and check: "commit_check claim next = Inr next'"
    and held: "rows_affected (commit_where claim) (downloads db) \<noteq> 0"
    and paths: "\<forall>r \<in> set (downloads db). commit_where claim r \<longrightarrow>
      \<not> guard_rejects db (commitClaimParams next' r) \<and> \<not> index_rejects db (commitClaimParams next' r)"
    and conv: "sql_get r_hash (dHash next') (sql_update (commit_where claim) (commitClaimParams next') (downloads db)) = Some row"
      "downloadFromDB row = Inr d" "dState d = kState claim"
  shows "CommitClaim env claim next db =
    (Inr (), db\<lparr>downloads := sql_update (commit_where claim) (commitClaimParams next') (downloads db)\<rparr>)"
proof -
  let ?db = "db\<lparr>downloads := sql_update (commit_where claim) (commitClaimParams next') (downloads db)\<rparr>"
  have "commit_statement claim next' db = Inr (rows_affected (commit_where claim) (downloads db), ?db)"
    using paths by (auto simp: commit_statement_def update_guarded_def update_plain_def list_ex_iff)
  moreover have "emit_after env ''committed claim'' downloadFromDB (dHash next')
      (\<lambda>d. if dState d \<noteq> kState claim then Some (commit_event (dState d), kState claim) else None) ?db = Inr ((), ?db)"
    using conv calm by (simp add: emit_after_def reread_def get_row_def)
  ultimately show ?thesis
    using calm check held by (simp add: CommitClaim_def tx_require_def)
qed

subsection \<open>Delivering\<close>

theorem due_delivery_claimed:
  assumes calm: "driver_calm env" and args: "trim_space owner \<noteq> []" "0 < dur" "now \<noteq> 0"
    and due: "first_by delivery_due (filter (claimable_delivery db now) (webhook_deliveries db)) = Some v"
    and conv: "deliveryFromDB (delivery_lease owner (now + dur) now v) = Inr d"
    and event: "sql_get ev_id (v_event_id v) (domain_events db) = Some event"
    and endpoint: "sql_get e_id (v_endpoint_id v) (webhook_endpoints db) = Some endpoint" "e_deleted_at endpoint = None"
  shows "ClaimWebhookDue env owner now dur db =
    (Inr (Some (delivery_claim owner d event endpoint)),
     db\<lparr>webhook_deliveries := sql_update (\<lambda>w. v_id w = v_id v) (delivery_lease owner (now + dur) now) (webhook_deliveries db)\<rparr>)"
proof -
  have ids: "deEventID d = v_event_id v" "deEndpointID d = v_endpoint_id v"
    using conv by (auto simp: deliveryFromDB_def delivery_lease_def split: if_splits)
  let ?db = "db\<lparr>webhook_deliveries := sql_update (\<lambda>w. v_id w = v_id v) (delivery_lease owner (now + dur) now) (webhook_deliveries db)\<rparr>"
  have claim: "claim_delivery owner (now + dur) now db = Inr (Some (delivery_lease owner (now + dur) now v), ?db)"
    using due by (simp add: claim_delivery_def tx_look_def update_deliveries_def)
  have "claim_webhook env owner (now + dur) now db = Inr (Some (delivery_claim owner d event endpoint), ?db)"
    using claim calm conv event endpoint ids
    by (simp add: claim_webhook_def exec_wrapped_def need_def)
  with calm args show ?thesis
    by (simp add: ClaimWebhookDue_def time_add_def time_is_zero_def calm_no_fault)
qed

theorem held_delivery_committed:
  assumes calm: "driver_calm env" and args: "0 < clDeliveryID claim" "0 < clEndpointID claim"
      "trim_space (clOwner claim) \<noteq> []" "0 \<le> clVersion claim" "now \<noteq> 0"
    and result: "result_check result = None"
    and held: "rows_affected (delivery_commit_where claim) (webhook_deliveries db) \<noteq> 0"
  obtains db' where "CommitWebhookClaim env claim result now db = (Inr (), db')"
    "commit_delivery (endpoint_gone db (clEndpointID claim)) claim result now db =
      Inr (rows_affected (delivery_commit_where claim) (webhook_deliveries db), db')"
proof -
  obtain db' where u: "commit_delivery (endpoint_gone db (clEndpointID claim)) claim result now db =
      Inr (rows_affected (delivery_commit_where claim) (webhook_deliveries db), db')"
    by (simp add: commit_delivery_def update_deliveries_def)
  from calm args result held u have "CommitWebhookClaim env claim result now db = (Inr (), db')"
    by (simp add: CommitWebhookClaim_def exec_wrapped_def time_is_zero_def calm_no_fault tx_require_def)
  with u that show ?thesis by blast
qed

end
