(* ===== verification/Reconcile.thy ===== *)
theory Reconcile
  imports Reconcile_World
begin

section \<open>The reconciler's decisions (internal/reconcile: decide, pause, cancel, delete)\<close>

text \<open>
  One definition per branch of \<open>decide\<close>.  A branch returns what the code returns (operation and
  error), the download it leaves for the commit, and the external calls it made, in order.
\<close>

definition decided :: "string \<Rightarrow> Download \<Rightarrow> effect list \<Rightarrow> Decision" where
  "decided op d eff = \<lparr>dcOp = op, dcErr = None, dcNext = d, dcEffects = eff\<rparr>"

definition aborted :: "string \<Rightarrow> store_err \<Rightarrow> Download \<Rightarrow> effect list \<Rightarrow> Decision" where
  "aborted op e d eff = \<lparr>dcOp = op, dcErr = Some e, dcNext = d, dcEffects = eff\<rparr>"

subsection \<open>Workspace and destination\<close>

definition prepareWorkspace :: "World \<Rightarrow> Download \<Rightarrow> Diagnostic option \<times> effect list" where
  "prepareWorkspace w d =
     (if dWorkspacePath d = [] then (None, [])
      else if WorkspacePath (dSavePath d) (dHash d) \<noteq> Some (dWorkspacePath d) then (Some plain_error, [])
      else case wPrepareWorkspace w (dSavePath d) (dHash d) of
          Inl e \<Rightarrow> (Some e, [EffPrepareWorkspace (dSavePath d) (dHash d)])
        | Inr actual \<Rightarrow>
            (if actual \<noteq> dWorkspacePath d then Some plain_error else None,
             [EffPrepareWorkspace (dSavePath d) (dHash d)]))"

definition deleteCopyWorkspace :: "World \<Rightarrow> Download \<Rightarrow> Diagnostic option \<times> effect list" where
  "deleteCopyWorkspace w d =
     (if dWorkspacePath d \<noteq> []
      then (wDeleteWorkspace w (dSavePath d) (dHash d), [EffDeleteWorkspace (dSavePath d) (dHash d)])
      else if dDestinationName d = [] then (Some plain_error, [])
      else
        (let root = workspaceRoot d; p = path_join [root, dDestinationName d]
         in (wDelete w p root, [EffDelete p root])))"

subsection \<open>Resolving the copy source\<close>

datatype resolve_err = LayoutErr | CloudErr CloudFault | ManifestErr store_err

definition resolve_child :: "World \<Rightarrow> string \<Rightarrow> DownloadFile \<Rightarrow> effect list \<Rightarrow> (resolve_err + string) \<times> effect list" where
  "resolve_child w result file eff =
     (let child = path_join [result, fRelativePath file]
      in if \<not> cloudDescendant result child then (Inl LayoutErr, eff)
         else case wInspectContent w child of
             Inl e \<Rightarrow> (Inl (CloudErr e), eff @ [EffInspectContent child])
           | Inr c \<Rightarrow>
               (if coKind c \<noteq> ContentFile \<or> coSize c \<noteq> fSize file then Inl LayoutErr else Inr child,
                eff @ [EffInspectContent child]))"

definition resolveCopySource :: "World \<Rightarrow> Download \<Rightarrow> (resolve_err + string) \<times> effect list" where
  "resolveCopySource w d =
     (let result = path_clean (dCloudResultPath d)
      in if \<not> safeCloudPath (dCloudResultPath d) \<or> result \<noteq> dCloudResultPath d then (Inl LayoutErr, [])
         else if dSourceKind d = SourceMagnet \<or> dIsMultiFile d = None then (Inr result, [])
         else case wFiles w (dHash d) of
             Inl e \<Rightarrow> (Inl (ManifestErr e), [])
           | Inr manifest \<Rightarrow>
               (if \<not> validateManifest d manifest then (Inl LayoutErr, [])
                else case wInspectContent w result of
                    Inl e \<Rightarrow> (Inl (CloudErr e), [EffInspectContent result])
                  | Inr content \<Rightarrow>
                      (let eff = [EffInspectContent result];
                           single = (length manifest = 1 \<and>
                             path_base (fRelativePath (hd manifest)) = fRelativePath (hd manifest))
                       in if coKind content = ContentDirectory \<and> single
                          then resolve_child w result (hd manifest) eff
                          else if dIsMultiFile d = Some True then
                            (if coKind content \<noteq> ContentDirectory then Inl LayoutErr else Inr result, eff)
                          else if coKind content = ContentFile then
                            (if coSize content \<noteq> fSize (hd manifest) then Inl LayoutErr else Inr result, eff)
                          else (Inl LayoutErr, eff))))"

subsection \<open>Verifying local content\<close>

datatype verify_err = VManifest store_err | VLayout | VFs Diagnostic

definition plan_of :: "FileOverride list \<Rightarrow> DownloadFile \<Rightarrow> FilePlan" where
  "plan_of overrides f =
     (case find (\<lambda>ov. oFileIndex ov = fIndex f) overrides of
        None \<Rightarrow> \<lparr>fpIndex = fIndex f, fpOriginalPath = fRelativePath f, fpEffectivePath = fRelativePath f,
                 fpPriority = 1, fpSize = fSize f\<rparr>
      | Some ov \<Rightarrow> \<lparr>fpIndex = fIndex f, fpOriginalPath = fRelativePath f,
                 fpEffectivePath = oRelativePath ov, fpPriority = oPriority ov, fpSize = fSize f\<rparr>)"

text \<open>The selected files, renumbered by position and under their effective paths.\<close>

fun effective_files :: "FileOverride list \<Rightarrow> int \<Rightarrow> DownloadFile list \<Rightarrow> DownloadFile list" where
  "effective_files overrides n [] = []"
| "effective_files overrides n (f # fs) =
     (let plan = plan_of overrides f
      in if fpPriority plan \<noteq> 0
         then f\<lparr>fIndex := n, fRelativePath := fpEffectivePath plan\<rparr> # effective_files overrides (n + 1) fs
         else effective_files overrides n fs)"

fun sum_sizes :: "int \<Rightarrow> DownloadFile list \<Rightarrow> int option" where
  "sum_sizes acc [] = Some acc"
| "sum_sizes acc (f # fs) =
     (if max_int64 - fSize f < acc then None else sum_sizes (acc + fSize f) fs)"

definition verify_manifest ::
    "World \<Rightarrow> Download \<Rightarrow> DownloadFile list \<Rightarrow> effect list \<Rightarrow> verify_err option \<times> Download \<times> effect list" where
  "verify_manifest w d effective eff =
     (case sum_sizes 0 effective of
        None \<Rightarrow> (Some VLayout, d, eff)
      | Some selected \<Rightarrow>
          (if \<not> validateManifest (d\<lparr>dTotalSize := selected\<rparr>) effective then (Some VLayout, d, eff)
           else
             (let root = workspaceRoot d;
                  expected = \<lparr>xcCandidateName = dDestinationName d,
                    xcMultiFile = \<not> copiesTorrentAsFile d,
                    xcFiles = map (\<lambda>f. (fRelativePath f, fSize f)) effective\<rparr>;
                  eff' = eff @ [EffVerify root expected]
              in case wVerify w root expected of
                   Inl e \<Rightarrow> (Some (VFs e), d, eff')
                 | Inr c \<Rightarrow> (None, d\<lparr>dContentPath := vcPath c, dTotalSize := vcSize c\<rparr>, eff'))))"

definition plan_root :: "Download \<Rightarrow> string" where
  "plan_root d = (if copiesTorrentAsFile d then workspaceRoot d
                  else path_join [workspaceRoot d, dDestinationName d])"

definition verify_torrent ::
    "World \<Rightarrow> Download \<Rightarrow> DownloadFile list \<Rightarrow> FileOverride list option
     \<Rightarrow> verify_err option \<times> Download \<times> effect list" where
  "verify_torrent w d files overrides =
     (let effective = (case overrides of None \<Rightarrow> files | Some ovs \<Rightarrow> effective_files ovs 0 files);
          plans = (case overrides of None \<Rightarrow> [] | Some ovs \<Rightarrow> map (plan_of ovs) files);
          hasOverride = (case overrides of None \<Rightarrow> False
            | Some ovs \<Rightarrow> list_ex (\<lambda>f. list_ex (\<lambda>ov. oFileIndex ov = fIndex f) ovs) files)
      in if effective = [] then (Some VLayout, d, [])
         else case wApplyFilePlan w of
             Some apply_plan \<Rightarrow>
               (if hasOverride then
                  (case apply_plan (plan_root d) (dHash d) plans of
                     Some e \<Rightarrow> (Some (VFs e), d, [EffApplyFilePlan (plan_root d) (dHash d) plans])
                   | None \<Rightarrow> verify_manifest w d effective [EffApplyFilePlan (plan_root d) (dHash d) plans])
                else verify_manifest w d effective [])
           | None \<Rightarrow> verify_manifest w d effective [])"

definition verifyAndRecord :: "World \<Rightarrow> Download \<Rightarrow> verify_err option \<times> Download \<times> effect list" where
  "verifyAndRecord w d =
     (if dSourceKind d = SourceMagnet \<or> dIsMultiFile d = None then
        (let root = workspaceRoot d; eff = [EffVerifyUnknown root (dDestinationName d)]
         in case wVerifyUnknownType w root (dDestinationName d) of
              Inl e \<Rightarrow> (Some (VFs e), d, eff)
            | Inr c \<Rightarrow> (None, d\<lparr>dIsMultiFile := Some (ucMultiFile c), dContentPath := ucPath c,
                                dTotalSize := ucSize c\<rparr>, eff))
      else case wFiles w (dHash d) of
          Inl e \<Rightarrow> (Some (VManifest e), d, [])
        | Inr files \<Rightarrow>
            (case wOverrides w of
               None \<Rightarrow> verify_torrent w d files None
             | Some list_overrides \<Rightarrow>
                 (case list_overrides (dHash d) of
                    Inl e \<Rightarrow> (Some (VManifest e), d, [])
                  | Inr ovs \<Rightarrow> verify_torrent w d files (Some ovs))))"

text \<open>
  How both verifying states react to a failed verification.  An error of the manifest itself has no
  filesystem cause.
\<close>

definition verify_diagnostic :: "verify_err \<Rightarrow> Diagnostic" where
  "verify_diagnostic e = (case e of VFs diag \<Rightarrow> diag | _ \<Rightarrow> plain_error)"

definition verify_failed ::
    "Config \<Rightarrow> World \<Rightarrow> time \<Rightarrow> verify_err \<Rightarrow> Download \<Rightarrow> effect list \<Rightarrow> Decision" where
  "verify_failed c w now e d eff =
     (case e of
        VManifest err \<Rightarrow> aborted ''verify_local'' err d eff
      | _ \<Rightarrow>
          (if missingLocalContent (verify_diagnostic e) then decided ''verify_local'' (poll c now d) eff
           else decided ''verify_local''
             (handleLocalFilesystemFailure w (verify_diagnostic e) ''candidate'' d) eff))"

subsection \<open>Offline submission and waiting\<close>

definition decide_submitting_offline :: "Config \<Rightarrow> World \<Rightarrow> Download \<Rightarrow> Decision" where
  "decide_submitting_offline c w d0 =
     (let now = wNow w
      in if timedOut d0 now (cfgOfflineTimeout c)
         then decided ''ensure_offline'' (fail_with (deadlineProblem d0 ProblemOfflineTimeout) d0) []
         else if dLastUpstreamStatus d0 = UpstreamOfflineError then
           (let eff = [EffCancelOffline (dCloudFolder d0) (dHash d0)]
            in case wCancelOffline w (dCloudFolder d0) (dHash d0) of
                 Some e \<Rightarrow> decided ''retry_cancel_offline'' (cloudFailure w e ''cancel_offline'' d0) eff
               | None \<Rightarrow> decided ''retry_cancel_offline''
                   ((clear_error d0)\<lparr>dOfflineProgress := Fin 0, dQbitProgress := Fin 0,
                      dLastUpstreamStatus := [], dNextRunAt := Some now\<rparr>) eff)
         else
           (let d = (if dOfflineStartedAt d0 = None then d0\<lparr>dOfflineStartedAt := Some (wOfflineStarted w)\<rparr> else d0);
                eff = [EffEnsureOffline (dSubmissionURI d) (dCloudFolder d) (dHash d)]
            in case wEnsureOffline w (dSubmissionURI d) (dCloudFolder d) (dHash d) of
                 Inl e \<Rightarrow> decided ''ensure_offline'' (cloudFailure w e ''ensure_offline'' d) eff
               | Inr t \<Rightarrow>
                   (if \<not> validateOfflineTask d t
                    then decided ''ensure_offline'' (fail_with ProblemCloudResponseInvalid d) eff
                    else
                      (let r = recordOffline t d
                       in decided ''ensure_offline''
                            (case otState t of
                               OfflineInit \<Rightarrow> advance StateWaitingOffline now (time_add now (cfgPollInterval c)) r
                             | OfflineDownloading \<Rightarrow>
                                 advance StateWaitingOffline now (time_add now (cfgPollInterval c)) r
                             | OfflineFinished \<Rightarrow>
                                 advance StateSubmittingCopy now now
                                   (r\<lparr>dOfflineProgress := Fin 1, dQbitProgress := float_const (9 / 10)\<rparr>)
                             | OfflineError \<Rightarrow> fail_with ProblemOfflineDownloadFailed r
                             | OfflineOther _ \<Rightarrow> r) eff))))"

definition decide_waiting_offline :: "Config \<Rightarrow> World \<Rightarrow> Download \<Rightarrow> Decision" where
  "decide_waiting_offline c w d =
     (let now = wNow w; eff = [EffInspectOffline (dCloudFolder d) (dHash d)]
      in if timedOut d now (cfgOfflineTimeout c)
         then decided ''inspect_offline'' (fail_with (deadlineProblem d ProblemOfflineTimeout) d) []
         else case wInspectOffline w (dCloudFolder d) (dHash d) of
             Inl e \<Rightarrow> decided ''inspect_offline'' (cloudFailure w e ''inspect_offline'' d) eff
           | Inr None \<Rightarrow> decided ''inspect_offline'' (poll c now d) eff
           | Inr (Some t) \<Rightarrow>
               (if \<not> validateOfflineTask d t
                then decided ''inspect_offline'' (fail_with ProblemCloudResponseInvalid d) eff
                else
                  (let r = recordOffline t d
                   in decided ''inspect_offline''
                        (case otState t of
                           OfflineInit \<Rightarrow> poll c now r
                         | OfflineDownloading \<Rightarrow> poll c now r
                         | OfflineFinished \<Rightarrow>
                             (if otName t = [] \<or> otSourcePath t = [] then fail_with ProblemCloudResponseInvalid r
                              else advance StateSubmittingCopy now now
                                (r\<lparr>dOfflineProgress := Fin 1, dQbitProgress := float_const (9 / 10)\<rparr>))
                         | OfflineError \<Rightarrow> fail_with ProblemOfflineDownloadFailed r
                         | OfflineOther _ \<Rightarrow> fail_with ProblemCloudResponseInvalid r) eff)))"

subsection \<open>Submitting the copy\<close>

text \<open>The block before the switch: the deadline, the copy source, the destination reservation.\<close>

definition decide_copy_source :: "World \<Rightarrow> Download \<Rightarrow> Decision" where
  "decide_copy_source w d =
     (case resolveCopySource w d of
        (Inl LayoutErr, eff) \<Rightarrow>
          decided ''resolve_copy_source'' (fail_with ProblemCloudContentLayoutInvalid d) eff
      | (Inl (CloudErr e), eff) \<Rightarrow>
          (if cfKind e \<noteq> None then decided ''inspect_content'' (cloudFailure w e ''inspect_content'' d) eff
           else aborted ''resolve_copy_source'' (ErrText ''inspect content'') d eff)
      | (Inl (ManifestErr e), eff) \<Rightarrow> aborted ''resolve_copy_source'' e d eff
      | (Inr source, eff) \<Rightarrow>
          decided ''resolve_copy_source''
            ((clear_error d)\<lparr>dCopySourcePath := source, dNextRunAt := Some (wNow w)\<rparr>) eff)"

definition decide_reserve :: "World \<Rightarrow> Download \<Rightarrow> Decision" where
  "decide_reserve w d =
     (let name = path_base (path_clean (dCopySourcePath d))
      in if \<not> safeName name
         then decided ''reserve_destination'' (fail_with ProblemCloudContentLayoutInvalid d) []
         else decided ''reserve_destination''
           ((clear_error d)\<lparr>dDestinationName := name, dNextRunAt := Some (wNow w)\<rparr>) [])"

definition decide_remove_copy :: "World \<Rightarrow> Download \<Rightarrow> Decision" where
  "decide_remove_copy w d =
     (if dDestinationName d = []
      then decided ''retry_remove_copy'' (fail_with ProblemInternalWorkflowError d) []
      else
        (let eff = [EffRemoveCopy (dCopySourcePath d) (workspaceRoot d)]
         in case wRemoveCopy w (dCopySourcePath d) (workspaceRoot d) of
              Some e \<Rightarrow> decided ''retry_remove_copy'' (cloudFailure w e ''remove_copy'' d) eff
            | None \<Rightarrow> decided ''retry_remove_copy''
                ((clear_error (markCopyRemoved (d\<lparr>dCopyProgress := Fin 0,
                    dQbitProgress := float_const (9 / 10)\<rparr>)))\<lparr>dNextRunAt := Some (wNow w)\<rparr>) eff))"

text \<open>A legacy row gets its workspace here, after its shared content is gone.\<close>

definition restart_copy :: "World \<Rightarrow> string \<Rightarrow> Download \<Rightarrow> Download" where
  "restart_copy w workspace d =
     (clear_error d)\<lparr>dWorkspacePath := workspace, dCopyProgress := Fin 0,
       dQbitProgress := float_const (9 / 10), dContentPath := [], dCopyCompletedAt := None,
       dLastUpstreamStatus := UpstreamOfflineFinished, dNextRunAt := Some (wNow w)\<rparr>"

definition decide_delete_copy :: "World \<Rightarrow> Download \<Rightarrow> Decision" where
  "decide_delete_copy w d =
     (if dDestinationName d = []
      then decided ''retry_delete_copy'' (fail_with ProblemInternalWorkflowError d) []
      else case deleteCopyWorkspace w d of
          (Some _, eff) \<Rightarrow>
            decided ''retry_delete_copy''
              ((fail_with ProblemLocalDeleteFailed d)\<lparr>dAttemptCount := dAttemptCount d + 1\<rparr>) eff
        | (None, eff) \<Rightarrow>
            (if dWorkspacePath d \<noteq> []
             then decided ''retry_delete_copy'' (restart_copy w (dWorkspacePath d) d) eff
             else case WorkspacePath (dSavePath d) (dHash d) of
                 None \<Rightarrow> decided ''retry_delete_copy'' (fail_with ProblemInternalWorkflowError d) eff
               | Some workspace \<Rightarrow> decided ''retry_delete_copy'' (restart_copy w workspace d) eff))"

definition decide_preflight :: "World \<Rightarrow> Download \<Rightarrow> Decision" where
  "decide_preflight w d =
     (case prepareWorkspace w d of
        (Some e, eff) \<Rightarrow>
          decided ''preflight_local'' (handleLocalFilesystemFailure w e ''workspace'' d) eff
      | (None, eff) \<Rightarrow>
          (let eff' = eff @ [EffInspectCandidate (workspaceRoot d) (dDestinationName d)]
           in case wInspectCandidate w (workspaceRoot d) (dDestinationName d) of
                Inl e \<Rightarrow> decided ''preflight_local'' (handleLocalFilesystemFailure w e ''candidate'' d) eff'
              | Inr True \<Rightarrow> decided ''preflight_local'' (fail_with ProblemDestinationCollision d) eff'
              | Inr False \<Rightarrow> decided ''preflight_local''
                  ((clear_error d)\<lparr>dLastUpstreamStatus := destinationClear, dNextRunAt := Some (wNow w)\<rparr>) eff'))"

definition decide_ensure_copy :: "Config \<Rightarrow> World \<Rightarrow> Download \<Rightarrow> Decision" where
  "decide_ensure_copy c w d =
     (let now = wNow w; root = workspaceRoot d
      in case prepareWorkspace w d of
           (Some e, eff) \<Rightarrow>
             decided ''ensure_copy'' (handleLocalFilesystemFailure w e ''workspace'' d) eff
         | (None, eff) \<Rightarrow>
             (let eff' = eff @ [EffEnsureCopy (dCopySourcePath d) root]
              in case wEnsureCopy w (dCopySourcePath d) root of
                   Inl e \<Rightarrow> decided ''ensure_copy'' (cloudFailure w e ''ensure_copy'' d) eff'
                 | Inr t \<Rightarrow>
                     (if \<not> validateCopyTask t (dCopySourcePath d) root
                      then decided ''ensure_copy'' (fail_with ProblemCloudResponseInvalid d) eff'
                      else
                        (let r = recordCopy t d
                         in decided ''ensure_copy''
                              (case ctState t of
                                 CopyCompleted \<Rightarrow> advance StateWaitingCopy now now (recordCopyCompleted now r)
                               | CopyFailed \<Rightarrow> fail_with ProblemCopyTaskFailed r
                               | CopyOther _ \<Rightarrow> r
                               | _ \<Rightarrow> advance StateWaitingCopy now (time_add now (cfgPollInterval c)) r) eff'))))"

definition decide_submitting_copy :: "Config \<Rightarrow> World \<Rightarrow> Download \<Rightarrow> Decision" where
  "decide_submitting_copy c w d =
     (if timedOut d (wNow w) (cfgCopyTimeout c)
      then decided ''resolve_copy_source'' (fail_with (deadlineProblem d ProblemCopyTimeout) d) []
      else if dCloudResultPath d = []
        then decided ''resolve_copy_source'' (fail_with ProblemCloudContentLayoutInvalid d) []
      else if dCopySourcePath d = [] then decide_copy_source w d
      else if dDestinationName d = [] then decide_reserve w d
      else
        (let status = dLastUpstreamStatus d;
             priorCopy = trim_prefix status (UpstreamCleanupCancelled @ ''|'')
         in if (priorCopy = UpstreamCopyCompleted \<or> priorCopy = UpstreamCopyFailed)
               \<and> \<not> copyRemovalCompleted status
            then decide_remove_copy w d
            else if status = UpstreamCopyRemoved @ ''|'' @ UpstreamCopyFailed
                \<or> status = UpstreamCopyRemoved @ ''|'' @ UpstreamCopyCompleted
            then decide_delete_copy w d
            else if status \<noteq> destinationClear then decide_preflight w d
            else decide_ensure_copy c w d))"

subsection \<open>Waiting for the copy and verifying\<close>

definition decide_waiting_copy :: "Config \<Rightarrow> World \<Rightarrow> Download \<Rightarrow> Decision" where
  "decide_waiting_copy c w d =
     (let now = wNow w; root = workspaceRoot d; seen = [EffInspectCopy (dCopySourcePath d) root]
      in if timedOut d now (cfgCopyTimeout c)
         then decided ''inspect_copy'' (fail_with (deadlineProblem d ProblemCopyTimeout) d) []
         else case wInspectCopy w (dCopySourcePath d) root of
             Inl e \<Rightarrow> decided ''inspect_copy'' (cloudFailure w e ''inspect_copy'' d) seen
           | Inr None \<Rightarrow>
               (case verifyAndRecord w d of
                  (None, d', eff) \<Rightarrow>
                    decided ''verify_local''
                      (advance StateVerifyingLocal now now (recordCopyCompleted now d')) (seen @ eff)
                | (Some e, d', eff) \<Rightarrow> verify_failed c w now e d' (seen @ eff))
           | Inr (Some t) \<Rightarrow>
               (if \<not> validateCopyTask t (dCopySourcePath d) root
                then decided ''inspect_copy'' (fail_with ProblemCloudResponseInvalid d) seen
                else
                  (let r = recordCopy t d
                   in decided ''inspect_copy''
                        (case ctState t of
                           CopyCompleted \<Rightarrow> advance StateVerifyingLocal now now (recordCopyCompleted now r)
                         | CopyFailed \<Rightarrow> fail_with ProblemCopyTaskFailed r
                         | CopyOther _ \<Rightarrow> fail_with ProblemCloudResponseInvalid r
                         | _ \<Rightarrow> poll c now r) seen)))"

definition complete :: "time \<Rightarrow> Download \<Rightarrow> Download" where
  "complete now d = (clear_error d)\<lparr>dOfflineProgress := Fin 1, dCopyProgress := Fin 1,
     dQbitProgress := Fin 1, dState := StateCompleted, dCompletedAt := Some now, dNextRunAt := None\<rparr>"

definition decide_verifying :: "Config \<Rightarrow> World \<Rightarrow> Download \<Rightarrow> Decision" where
  "decide_verifying c w d =
     (let now = wNow w
      in if timedOut d now (cfgVerifyTimeout c)
         then decided ''verify_local''
           (fail_with (if dLastErrorCode d = ProblemLocalFilesystemUnavailable
                       then ProblemLocalFilesystemUnavailableTimeout else ProblemLocalVerificationTimeout) d) []
         else case verifyAndRecord w d of
             (None, d', eff) \<Rightarrow> decided ''verify_local'' (complete now d') eff
           | (Some e, d', eff) \<Rightarrow> verify_failed c w now e d' eff)"

subsection \<open>Cancel, pause, delete\<close>

definition settle :: "State \<Rightarrow> Download \<Rightarrow> Download" where
  "settle s d = (clear_error d)\<lparr>dState := s, dNextRunAt := None\<rparr>"

text \<open>
  The upstream half of a cancellation or removal: the copy is removed when there is a copy source,
  else the offline task is cancelled, where a missing task counts as done.
\<close>

definition upstream_cleanup :: "World \<Rightarrow> Download \<Rightarrow> string \<times> CloudFault option \<times> effect list" where
  "upstream_cleanup w d =
     (if dCopySourcePath d \<noteq> []
      then (''remove_copy'', wRemoveCopy w (dCopySourcePath d) (workspaceRoot d),
            [EffRemoveCopy (dCopySourcePath d) (workspaceRoot d)])
      else (''cancel_offline'',
            (case wCancelOffline w (dCloudFolder d) (dHash d) of
               None \<Rightarrow> None
             | Some e \<Rightarrow> if cfGrpcNotFound e then None else Some e),
            [EffCancelOffline (dCloudFolder d) (dHash d)]))"

definition mark_cleaned :: "Download \<Rightarrow> Download" where
  "mark_cleaned d = (if dCopySourcePath d \<noteq> [] then markCopyRemoved d else markCleanupCancelled d)"

definition pause_download :: "World \<Rightarrow> Download \<Rightarrow> Decision" where
  "pause_download w d =
     (let stopped = (\<lambda>op eff. decided op (settle StateStopped (d\<lparr>dCopyProgress := Fin 0,
            dQbitProgress := float_const (9 / 10), dLastUpstreamStatus := UpstreamOfflineFinished\<rparr>)) eff)
      in if dContentPath d \<noteq> [] \<or> dLastUpstreamStatus d = UpstreamCopyCompleted
         then decided ''pause_verified_copy'' (settle StateStopped d) []
         else if dCopySourcePath d = [] then
           (let eff = [EffCancelOffline (dCloudFolder d) (dHash d)];
                done = settle StateStopped (d\<lparr>dOfflineProgress := Fin 0, dCopyProgress := Fin 0,
                  dQbitProgress := Fin 0, dLastUpstreamStatus := []\<rparr>)
            in case wCancelOffline w (dCloudFolder d) (dHash d) of
                 None \<Rightarrow> decided ''pause_offline'' done eff
               | Some e \<Rightarrow>
                   (if cfGrpcNotFound e then decided ''pause_offline'' done eff
                    else decided ''pause_offline'' (cleanupFailure w e d) eff))
         else if \<not> copyRemovalCompleted (dLastUpstreamStatus d) then
           (let eff = [EffRemoveCopy (dCopySourcePath d) (workspaceRoot d)]
            in case wRemoveCopy w (dCopySourcePath d) (workspaceRoot d) of
                 Some e \<Rightarrow> decided ''pause_remove_copy'' (cleanupFailure w e d) eff
               | None \<Rightarrow> decided ''pause_remove_copy''
                   ((clear_error (markCopyRemoved d))\<lparr>dNextRunAt := Some (wNow w)\<rparr>) eff)
         else if dWorkspacePath d \<noteq> [] then
           (let eff = [EffDeleteWorkspace (dSavePath d) (dHash d)]
            in case wDeleteWorkspace w (dSavePath d) (dHash d) of
                 Some _ \<Rightarrow> decided ''pause_copy'' (cleanupProblem ProblemLocalDeleteFailed d) eff
               | None \<Rightarrow> stopped ''pause_copy'' eff)
         else if dDestinationName d = [] then
           (if hasCopyEvidence (dLastUpstreamStatus d)
            then decided ''pause_copy'' (fail_with ProblemInternalWorkflowError d) []
            else stopped ''pause_copy'' [])
         else
           (let p = path_join [dSavePath d, dDestinationName d]; eff = [EffDelete p (dSavePath d)]
            in case wDelete w p (dSavePath d) of
                 Some _ \<Rightarrow> decided ''pause_copy'' (cleanupProblem ProblemLocalDeleteFailed d) eff
               | None \<Rightarrow> stopped ''pause_copy'' eff))"

definition cancel_download :: "World \<Rightarrow> Download \<Rightarrow> Decision" where
  "cancel_download w d =
     (if dPauseRequested d then pause_download w d
      else case upstream_cleanup w d of
          (op, Some e, eff) \<Rightarrow> decided op (cleanupFailure w e d) eff
        | (op, None, eff) \<Rightarrow> decided op (settle StateCancelled (mark_cleaned d)) eff)"

definition deleted :: "time \<Rightarrow> Download \<Rightarrow> Download" where
  "deleted now d =
     (let d' = settle StateDeleted d
      in if dRemovedAt d' = None then d'\<lparr>dRemovedAt := Some now\<rparr> else d')"

text \<open>The local half of a deletion.\<close>

definition delete_local :: "World \<Rightarrow> Download \<Rightarrow> Decision" where
  "delete_local w d =
     (let finished = (\<lambda>eff. decided ''delete_local'' (deleted (wNow w) d) eff);
          blocked = (\<lambda>eff. decided ''delete_local'' (cleanupProblem ProblemLocalDeleteFailed d) eff)
      in if \<not> dDeleteFilesRequested d then finished []
         else if dWorkspacePath d \<noteq> [] then
           (let eff = [EffDeleteWorkspace (dSavePath d) (dHash d)]
            in case wDeleteWorkspace w (dSavePath d) (dHash d) of
                 Some _ \<Rightarrow> blocked eff | None \<Rightarrow> finished eff)
         else if dContentPath d = [] \<and> hasCopyEvidence (dLastUpstreamStatus d) \<and> dDestinationName d = []
           then decided ''delete_local'' (fail_with ProblemInternalWorkflowError d) []
         else
           (let content = (if dContentPath d = [] \<and> hasCopyEvidence (dLastUpstreamStatus d)
                           then path_join [dSavePath d, dDestinationName d] else dContentPath d);
                eff = [EffDelete content (dSavePath d)]
            in if content = [] then finished []
               else case wDelete w content (dSavePath d) of
                   Some _ \<Rightarrow> blocked eff | None \<Rightarrow> finished eff))"

definition copyNeedsRemoval :: "Download \<Rightarrow> bool" where
  "copyNeedsRemoval d \<longleftrightarrow> dCopySourcePath d \<noteq> [] \<and> \<not> copyRemovalCompleted (dLastUpstreamStatus d)"

definition offlineNeedsCancellation :: "Download \<Rightarrow> bool" where
  "offlineNeedsCancellation d \<longleftrightarrow> dCopySourcePath d = [] \<and> dCompletedAt d = None \<and> dContentPath d = []
     \<and> \<not> cleanupCompleted (dLastUpstreamStatus d)"

definition delete_download :: "World \<Rightarrow> Download \<Rightarrow> Decision" where
  "delete_download w d =
     (if copyNeedsRemoval d \<or> offlineNeedsCancellation d then
        (case upstream_cleanup w d of
           (op, Some e, eff) \<Rightarrow> decided op (cleanupFailure w e d) eff
         | (op, None, eff) \<Rightarrow>
             decided op ((clear_error (mark_cleaned d))\<lparr>dNextRunAt := Some (wNow w)\<rparr>) eff)
      else delete_local w d)"

subsection \<open>One decision\<close>

definition decide :: "Config \<Rightarrow> World \<Rightarrow> Download \<Rightarrow> Decision" where
  "decide c w d =
     (case dState d of
        StateAccepted \<Rightarrow> decided ''transition'' (advance StateSubmittingOffline (wNow w) (wNow w) d) []
      | StateSubmittingOffline \<Rightarrow> decide_submitting_offline c w d
      | StateWaitingOffline \<Rightarrow> decide_waiting_offline c w d
      | StateSubmittingCopy \<Rightarrow> decide_submitting_copy c w d
      | StateWaitingCopy \<Rightarrow> decide_waiting_copy c w d
      | StateVerifyingLocal \<Rightarrow> decide_verifying c w d
      | StateCancelRequested \<Rightarrow> cancel_download w d
      | StateDeleteRequested \<Rightarrow> delete_download w d
      | _ \<Rightarrow> aborted ''transition'' (ErrText ''reconciler invariant: impossible claimed state'') d [])"

end
