(* ===== verification/Reconcile_Step.thy ===== *)
theory Reconcile_Step
  imports Reconcile
begin

section \<open>One reconciler step, and what its decisions respect\<close>

text \<open>
  \<open>Step\<close> claims a row, decides, and commits; the lemmas state for every decision that it keeps the
  identity of the download, follows the lifecycle, touches the workspace only where the commit
  accepts it, and calls out only where its evidence allows.
\<close>

subsection \<open>Step\<close>

definition commit_again :: "Env \<Rightarrow> World \<Rightarrow> DownloadClaim \<Rightarrow> Download \<Rightarrow> Db \<Rightarrow> (bool \<times> store_err option) \<times> Db" where
  "commit_again env w claim d db =
     (let d' = (fail_with ProblemDestinationConflict (d\<lparr>dDestinationName := []\<rparr>))\<lparr>dUpdatedAt := wUpdatedAgain w\<rparr>
      in case CommitClaim env claim d' db of
           (Inl e, db') \<Rightarrow> if e = ErrClaimLost then ((True, None), db') else ((True, Some e), db')
         | (Inr _, db') \<Rightarrow> ((True, None), db'))"

definition commit_step :: "Env \<Rightarrow> World \<Rightarrow> DownloadClaim \<Rightarrow> Download \<Rightarrow> Db \<Rightarrow> (bool \<times> store_err option) \<times> Db" where
  "commit_step env w claim d db =
     (case CommitClaim env claim d db of
        (Inr _, db') \<Rightarrow> ((True, None), db')
      | (Inl e, db') \<Rightarrow>
          (if e = ErrClaimLost then ((True, None), db')
           else if e = ErrDestinationConflict then commit_again env w claim d db'
           else ((True, Some e), db')))"

definition Step :: "Config \<Rightarrow> Env \<Rightarrow> World \<Rightarrow> Db \<Rightarrow> (bool \<times> store_err option) \<times> Db" where
  "Step c env w db =
     (case ClaimDue env (cfgOwner c) (wClaimNow w) (cfgLeaseDuration c) db of
        (Inl e, db') \<Rightarrow> ((False, Some e), db')
      | (Inr None, db') \<Rightarrow> ((False, None), db')
      | (Inr (Some claim), db') \<Rightarrow>
          (let d = kDownload claim; later = wMeanwhile w db'
           in if \<not> State_Claimable (dState d) \<or> time_is_zero (dPhaseStartedAt d)
              then ((True, Some (ErrText ''reconciler invariant: unclaimable state or zero phase start'')), later)
              else
                (let dec = decide c w d
                 in if wCancelled w then ((True, Some (ErrText ''context canceled'')), later)
                    else if wDeadline w
                    then commit_step env w claim
                      ((retry w ProblemWorkflowOperationTimeout d)\<lparr>dUpdatedAt := wUpdated w\<rparr>) later
                    else case dcErr dec of
                        Some e \<Rightarrow> ((True, Some e), later)
                      | None \<Rightarrow> commit_step env w claim ((dcNext dec)\<lparr>dUpdatedAt := wUpdated w\<rparr>) later)))"

subsection \<open>Fields that the helpers keep\<close>

definition identity :: "Download \<Rightarrow> string \<times> SourceKind \<times> string \<times> string \<times> string \<times> time" where
  "identity d = (dHash d, dSourceKind d, dSubmissionURI d, dCloudFolder d, dSavePath d, dCreatedAt d)"

lemma sameClaimIdentity_iff: "sameClaimIdentity a b \<longleftrightarrow> identity a = identity b"
  by (simp add: sameClaimIdentity_def identity_def)

lemma identity_updates [simp]:
  "identity (d\<lparr>dState := s\<rparr>) = identity d" "identity (d\<lparr>dNextRunAt := t\<rparr>) = identity d"
  "identity (d\<lparr>dPhaseStartedAt := p\<rparr>) = identity d" "identity (d\<lparr>dAttemptCount := n\<rparr>) = identity d"
  "identity (d\<lparr>dLastError := e\<rparr>) = identity d" "identity (d\<lparr>dLastErrorCode := e\<rparr>) = identity d"
  "identity (d\<lparr>dLastUpstreamStatus := e\<rparr>) = identity d" "identity (d\<lparr>dOfflineProgress := f\<rparr>) = identity d"
  "identity (d\<lparr>dCopyProgress := f\<rparr>) = identity d" "identity (d\<lparr>dQbitProgress := f\<rparr>) = identity d"
  "identity (d\<lparr>dOfflineStartedAt := t\<rparr>) = identity d" "identity (d\<lparr>dCopyCompletedAt := t\<rparr>) = identity d"
  "identity (d\<lparr>dCompletedAt := t\<rparr>) = identity d" "identity (d\<lparr>dRemovedAt := t\<rparr>) = identity d"
  "identity (d\<lparr>dName := e\<rparr>) = identity d" "identity (d\<lparr>dTotalSize := n\<rparr>) = identity d"
  "identity (d\<lparr>dCloudTaskName := e\<rparr>) = identity d" "identity (d\<lparr>dCloudResultPath := e\<rparr>) = identity d"
  "identity (d\<lparr>dCopySourcePath := e\<rparr>) = identity d" "identity (d\<lparr>dContentPath := e\<rparr>) = identity d"
  "identity (d\<lparr>dDestinationName := e\<rparr>) = identity d" "identity (d\<lparr>dWorkspacePath := e\<rparr>) = identity d"
  "identity (d\<lparr>dIsMultiFile := m\<rparr>) = identity d" "identity (d\<lparr>dUpdatedAt := p\<rparr>) = identity d"
  by (simp_all add: identity_def)

lemmas helper_defs = clear_error_def advance_def poll_def fail_with_def retry_def cleanupProblem_def
  cloudFailure_def cleanupFailure_def handleLocalFilesystemFailure_def markCopyRemoved_def
  markCleanupCancelled_def mark_cleaned_def recordOffline_def recordCopyCompleted_def recordCopy_def
  settle_def deleted_def complete_def restart_copy_def

lemma identity_helpers [simp]:
  "identity (clear_error d) = identity d" "identity (advance s t t' d) = identity d"
  "identity (poll c t d) = identity d" "identity (fail_with p d) = identity d"
  "identity (retry w p d) = identity d" "identity (cleanupProblem p d) = identity d"
  "identity (cloudFailure w e op d) = identity d" "identity (cleanupFailure w e d) = identity d"
  "identity (handleLocalFilesystemFailure w g r d) = identity d"
  "identity (markCopyRemoved d) = identity d" "identity (markCleanupCancelled d) = identity d"
  "identity (mark_cleaned d) = identity d" "identity (recordOffline ot d) = identity d"
  "identity (recordCopyCompleted t d) = identity d" "identity (recordCopy ct d) = identity d"
  "identity (settle s d) = identity d" "identity (deleted t d) = identity d"
  "identity (complete t d) = identity d" "identity (restart_copy w x d) = identity d"
  by (simp_all add: helper_defs Let_def split: failure_kind.splits)

lemma workspace_helpers [simp]:
  "dWorkspacePath (clear_error d) = dWorkspacePath d" "dWorkspacePath (advance s t t' d) = dWorkspacePath d"
  "dWorkspacePath (poll c t d) = dWorkspacePath d" "dWorkspacePath (fail_with p d) = dWorkspacePath d"
  "dWorkspacePath (retry w p d) = dWorkspacePath d" "dWorkspacePath (cleanupProblem p d) = dWorkspacePath d"
  "dWorkspacePath (cloudFailure w e op d) = dWorkspacePath d"
  "dWorkspacePath (cleanupFailure w e d) = dWorkspacePath d"
  "dWorkspacePath (handleLocalFilesystemFailure w g r d) = dWorkspacePath d"
  "dWorkspacePath (markCopyRemoved d) = dWorkspacePath d"
  "dWorkspacePath (markCleanupCancelled d) = dWorkspacePath d"
  "dWorkspacePath (mark_cleaned d) = dWorkspacePath d" "dWorkspacePath (recordOffline ot d) = dWorkspacePath d"
  "dWorkspacePath (recordCopyCompleted t d) = dWorkspacePath d" "dWorkspacePath (recordCopy ct d) = dWorkspacePath d"
  "dWorkspacePath (settle s d) = dWorkspacePath d" "dWorkspacePath (deleted t d) = dWorkspacePath d"
  "dWorkspacePath (complete t d) = dWorkspacePath d" "dWorkspacePath (restart_copy w x d) = x"
  by (simp_all add: helper_defs Let_def split: failure_kind.splits)

lemma state_helpers [simp]:
  "dState (clear_error d) = dState d" "dState (advance s t t' d) = s"
  "dState (poll c t d) = dState d" "dState (fail_with p d) = StateFailed"
  "dState (retry w p d) = dState d" "dState (cleanupProblem p d) = dState d"
  "dState (cleanupFailure w e d) = dState d"
  "dState (markCopyRemoved d) = dState d" "dState (markCleanupCancelled d) = dState d"
  "dState (mark_cleaned d) = dState d" "dState (recordOffline ot d) = dState d"
  "dState (recordCopyCompleted t d) = dState d" "dState (recordCopy ct d) = dState d"
  "dState (settle s d) = s" "dState (deleted t d) = StateDeleted"
  "dState (complete t d) = StateCompleted" "dState (restart_copy w x d) = dState d"
  by (simp_all add: helper_defs Let_def)

lemma state_cloudFailure: "dState (cloudFailure w e op d) = dState d \<or> dState (cloudFailure w e op d) = StateFailed"
  by (simp add: cloudFailure_def Let_def)

lemma state_local_failure:
  "dState (handleLocalFilesystemFailure w g r d) = dState d \<or>
   dState (handleLocalFilesystemFailure w g r d) = StateFailed"
  by (auto simp: handleLocalFilesystemFailure_def Let_def split: failure_kind.splits)

lemma decided_simps [simp]:
  "dcNext (decided op d eff) = d" "dcErr (decided op d eff) = None" "dcEffects (decided op d eff) = eff"
  "dcOp (decided op d eff) = op"
  "dcNext (aborted op e d eff) = d" "dcErr (aborted op e d eff) = Some e"
  "dcEffects (aborted op e d eff) = eff"
  by (simp_all add: decided_def aborted_def)

subsection \<open>What the verification leaves alone\<close>

lemma verify_manifest_keeps:
  assumes "verify_manifest w d effective eff = (r, d', eff')"
  shows "identity d' = identity d" "dState d' = dState d" "dWorkspacePath d' = dWorkspacePath d"
    "dDestinationName d' = dDestinationName d" "dCopySourcePath d' = dCopySourcePath d"
  using assms
  by (auto simp: verify_manifest_def Let_def split: option.splits if_splits sum.splits)

lemma verify_torrent_keeps:
  assumes "verify_torrent w d files overrides = (r, d', eff')"
  shows "identity d' = identity d" "dState d' = dState d" "dWorkspacePath d' = dWorkspacePath d"
    "dDestinationName d' = dDestinationName d" "dCopySourcePath d' = dCopySourcePath d"
  using assms
  by (auto simp: verify_torrent_def Let_def split: option.splits if_splits dest: verify_manifest_keeps)

lemma verifyAndRecord_keeps:
  assumes "verifyAndRecord w d = (r, d', eff)"
  shows "identity d' = identity d" "dState d' = dState d" "dWorkspacePath d' = dWorkspacePath d"
    "dDestinationName d' = dDestinationName d" "dCopySourcePath d' = dCopySourcePath d"
  using assms
  by (auto simp: verifyAndRecord_def Let_def split: option.splits if_splits sum.splits dest: verify_torrent_keeps)

subsection \<open>Every decision is one that the commit can accept\<close>

text \<open>
  The one exception: a cleanup of a legacy row, whose recorded copy has neither a workspace nor a
  destination, asks for FAILED, which neither CANCEL_REQUESTED nor DELETE_REQUESTED may enter.
\<close>

definition legacy_dead_end :: "Download \<Rightarrow> Download \<Rightarrow> bool" where
  "legacy_dead_end d d' \<longleftrightarrow> (dState d = StateCancelRequested \<or> dState d = StateDeleteRequested)
     \<and> dState d' = StateFailed \<and> dWorkspacePath d = [] \<and> dDestinationName d = []
     \<and> hasCopyEvidence (dLastUpstreamStatus d)"

definition acceptable :: "Download \<Rightarrow> Download \<Rightarrow> bool" where
  "acceptable d d' \<longleftrightarrow> sameClaimIdentity d d' \<and> validateClaimWorkspace d d' = None \<and>
     (dState d' = dState d \<or> CanTransition (dState d) (dState d') \<or> legacy_dead_end d d')"

lemma acceptable_keep:
  assumes "identity d' = identity d" "dWorkspacePath d' = dWorkspacePath d"
    and "dState d' = dState d \<or> CanTransition (dState d) (dState d')"
  shows "acceptable d d'"
  using assms by (auto simp: acceptable_def sameClaimIdentity_iff validateClaimWorkspace_def)

lemma CanTransition_simps [simp]:
  "CanTransition StateAccepted StateSubmittingOffline"
  "CanTransition StateSubmittingOffline StateWaitingOffline"
  "CanTransition StateSubmittingOffline StateSubmittingCopy"
  "CanTransition StateWaitingOffline StateSubmittingCopy"
  "CanTransition StateSubmittingCopy StateWaitingCopy"
  "CanTransition StateWaitingCopy StateVerifyingLocal"
  "CanTransition StateVerifyingLocal StateCompleted"
  "CanTransition StateCancelRequested StateStopped" "CanTransition StateCancelRequested StateCancelled"
  "CanTransition StateDeleteRequested StateDeleted"
  "CanTransition StateSubmittingOffline StateFailed" "CanTransition StateWaitingOffline StateFailed"
  "CanTransition StateSubmittingCopy StateFailed" "CanTransition StateWaitingCopy StateFailed"
  "CanTransition StateVerifyingLocal StateFailed"
  by (simp_all add: CanTransition_def activeExit_def)

definition active_state :: "State \<Rightarrow> bool" where
  "active_state s \<longleftrightarrow> s \<in> {StateSubmittingOffline, StateWaitingOffline, StateSubmittingCopy,
     StateWaitingCopy, StateVerifyingLocal}"

lemma active_may_fail: "active_state s \<Longrightarrow> CanTransition s StateFailed"
  by (auto simp: active_state_def)

lemma acceptable_attempts [simp]: "acceptable d (r\<lparr>dAttemptCount := n\<rparr>) \<longleftrightarrow> acceptable d r"
  by (simp add: acceptable_def sameClaimIdentity_iff validateClaimWorkspace_def legacy_dead_end_def
      cong: option.case_cong)

text \<open>As conditional rewrites, one for each way a branch ends; the rest is case splitting.\<close>

lemma acceptable_ends:
  assumes "active_state (dState d)" "identity r = identity d" "dState r = dState d"
    "dWorkspacePath r = dWorkspacePath d"
  shows "acceptable d (fail_with p r)" "acceptable d (cloudFailure w e op r)"
    "acceptable d (handleLocalFilesystemFailure w g role r)" "acceptable d (poll c t r)" "acceptable d r"
    "CanTransition (dState d) s \<Longrightarrow> acceptable d (advance s t t' r)"
  using assms active_may_fail [OF assms(1)] state_cloudFailure [of w e op r]
    state_local_failure [of w g role r]
  by (auto intro!: acceptable_keep)

lemma submitting_offline_acceptable:
  assumes "dState d = StateSubmittingOffline"
  shows "acceptable d (dcNext (decide_submitting_offline c w d))"
proof -
  have act: "active_state (dState d)" using assms by (simp add: active_state_def)
  show ?thesis
    using assms
    by (simp add: decide_submitting_offline_def Let_def acceptable_ends [OF act]
        split: sum.split option.split OfflineState.split)
qed

lemma waiting_offline_acceptable:
  assumes "dState d = StateWaitingOffline"
  shows "acceptable d (dcNext (decide_waiting_offline c w d))"
proof -
  have act: "active_state (dState d)" using assms by (simp add: active_state_def)
  show ?thesis
    using assms
    by (simp add: decide_waiting_offline_def Let_def acceptable_ends [OF act]
        split: sum.split option.split OfflineState.split)
qed

lemma verify_failed_acceptable:
  assumes "active_state (dState d)" "verifyAndRecord w d = (Some e, d', eff)"
  shows "acceptable d (dcNext (verify_failed c w now e d' eff'))"
  using verifyAndRecord_keeps [OF assms(2)]
  by (simp add: verify_failed_def acceptable_ends [OF assms(1)] split: verify_err.splits)

lemma waiting_copy_acceptable:
  assumes "dState d = StateWaitingCopy"
  shows "acceptable d (dcNext (decide_waiting_copy c w d))"
proof -
  have act: "active_state (dState d)" using assms by (simp add: active_state_def)
  show ?thesis
    using assms
    by (simp add: decide_waiting_copy_def Let_def acceptable_ends [OF act] verifyAndRecord_keeps
        verify_failed_acceptable [OF act] split: sum.split option.split CopyState.split prod.split)
qed

lemma verifying_acceptable:
  assumes "dState d = StateVerifyingLocal"
  shows "acceptable d (dcNext (decide_verifying c w d))"
proof -
  have act: "active_state (dState d)" using assms by (simp add: active_state_def)
  have "acceptable d (complete t d')" if "verifyAndRecord w d = (None, d', eff)" for t d' eff
    using verifyAndRecord_keeps [OF that] assms by (intro acceptable_keep) simp_all
  then show ?thesis
    using assms
    by (simp add: decide_verifying_def Let_def acceptable_ends [OF act]
        verify_failed_acceptable [OF act] split: option.split prod.split)
qed

text \<open>Submitting the copy: the one decision that may give a row its workspace.\<close>

lemma restart_acceptable:
  assumes "dState d = StateSubmittingCopy" "dWorkspacePath d = []"
    and "dLastUpstreamStatus d = UpstreamCopyRemoved @ ''|'' @ UpstreamCopyFailed \<or>
      dLastUpstreamStatus d = UpstreamCopyRemoved @ ''|'' @ UpstreamCopyCompleted"
    and "WorkspacePath (dSavePath d) (dHash d) = Some workspace"
  shows "acceptable d (restart_copy w workspace d)"
proof -
  have "has_prefix (dLastUpstreamStatus d) (UpstreamCopyRemoved @ ''|copy:'')"
    using assms(3) by (auto simp: has_prefix_def)
  moreover have "workspace \<noteq> []"
    using WorkspacePath_shape [OF assms(4)] by simp
  ultimately show ?thesis
    using assms
    by (simp add: acceptable_def sameClaimIdentity_iff validateClaimWorkspace_def restart_copy_def clear_error_def)
qed

lemma delete_copy_acceptable:
  assumes "dState d = StateSubmittingCopy"
    and "dLastUpstreamStatus d = UpstreamCopyRemoved @ ''|'' @ UpstreamCopyFailed \<or>
      dLastUpstreamStatus d = UpstreamCopyRemoved @ ''|'' @ UpstreamCopyCompleted"
  shows "acceptable d (dcNext (decide_delete_copy w d))"
proof -
  have act: "active_state (dState d)" using assms by (simp add: active_state_def)
  show ?thesis
    using restart_acceptable [OF assms(1) _ assms(2)]
    by (simp add: decide_delete_copy_def acceptable_ends [OF act] split: prod.split option.split)
qed

lemma submitting_copy_acceptable:
  assumes "dState d = StateSubmittingCopy"
  shows "acceptable d (dcNext (decide_submitting_copy c w d))"
proof -
  have act: "active_state (dState d)" using assms by (simp add: active_state_def)
  note ends = acceptable_ends [OF act]
  have "acceptable d (dcNext (decide_copy_source w d))"
    by (simp add: decide_copy_source_def ends split: prod.split sum.split resolve_err.split)
  moreover have "acceptable d (dcNext (decide_reserve w d))"
    by (simp add: decide_reserve_def Let_def ends)
  moreover have "acceptable d (dcNext (decide_remove_copy w d))"
    by (simp add: decide_remove_copy_def Let_def ends split: option.split)
  moreover have "acceptable d (dcNext (decide_preflight w d))"
    by (simp add: decide_preflight_def Let_def ends split: prod.split option.split sum.split bool.split)
  moreover have "acceptable d (dcNext (decide_ensure_copy c w d))"
    using assms
    by (simp add: decide_ensure_copy_def Let_def ends split: prod.split option.split sum.split CopyState.split)
  ultimately show ?thesis
    using delete_copy_acceptable [OF assms]
    by (simp add: decide_submitting_copy_def Let_def ends)
qed

subsection \<open>Cleanup decisions\<close>

lemma cleanup_ends:
  assumes "identity r = identity d" "dState r = dState d" "dWorkspacePath r = dWorkspacePath d"
  shows "acceptable d (cleanupFailure w e r)" "acceptable d (cleanupProblem p r)" "acceptable d r"
    "CanTransition (dState d) s \<Longrightarrow> acceptable d (settle s r)"
    "CanTransition (dState d) StateDeleted \<Longrightarrow> acceptable d (deleted t r)"
  using assms by (auto intro!: acceptable_keep)

lemma dead_end_acceptable:
  assumes "dState d = StateCancelRequested \<or> dState d = StateDeleteRequested" "dWorkspacePath d = []"
    and "dDestinationName d = []" "hasCopyEvidence (dLastUpstreamStatus d)"
  shows "acceptable d (fail_with p d)"
  using assms
  by (auto simp: acceptable_def sameClaimIdentity_iff validateClaimWorkspace_def legacy_dead_end_def)

lemma pause_acceptable:
  assumes "dState d = StateCancelRequested"
  shows "acceptable d (dcNext (pause_download w d))"
  using assms dead_end_acceptable [of d]
  by (simp add: pause_download_def Let_def cleanup_ends split: option.split)

lemma cancel_acceptable:
  assumes "dState d = StateCancelRequested"
  shows "acceptable d (dcNext (cancel_download w d))"
  using assms pause_acceptable [OF assms]
  by (simp add: cancel_download_def cleanup_ends split: prod.split option.split)

lemma delete_acceptable:
  assumes "dState d = StateDeleteRequested"
  shows "acceptable d (dcNext (delete_download w d))"
  using assms dead_end_acceptable [of d]
  by (simp add: delete_download_def delete_local_def Let_def cleanup_ends split: prod.split option.split)

lemma decide_acceptable: "acceptable d (dcNext (decide c w d))"
proof (cases "dState d")
  case StateAccepted
  then show ?thesis by (simp add: decide_def acceptable_keep)
qed (auto simp: decide_def submitting_offline_acceptable waiting_offline_acceptable
      submitting_copy_acceptable waiting_copy_acceptable verifying_acceptable cancel_acceptable
      delete_acceptable intro: acceptable_keep)

end
