(* ===== verification/Store_Facts.thy ===== *)
theory Store_Facts
  imports Leases
begin

section \<open>What operations of the store announce and what they leave alone\<close>

text \<open>
  The outbox side of a commit (one event for a state change, one pending delivery per subscribed
  endpoint), the outcome for a delivery whose endpoint is gone, pruning, the schedule that both
  queues answer, and the all-or-nothing behaviour of failing operations.
\<close>

subsection \<open>Events and their fan-out\<close>

definition fans_out :: "string \<Rightarrow> EventType \<Rightarrow> endpoint_row list \<Rightarrow> delivery_row list \<Rightarrow> bool" where
  "fans_out eventID ty endpoints vs \<longleftrightarrow> map v_endpoint_id vs = map e_id endpoints
     \<and> (\<forall>v \<in> set vs. v_event_id v = eventID \<and> v_event_type v = ty \<and> v_status v = StatusPending
          \<and> v_attempt_count v = 0)"

lemma insert_delivery_row:
  assumes "insert_delivery eventID i nm ty agg aggID nextAt created db = Inr (v, db')"
  shows "webhook_deliveries db' = webhook_deliveries db @ [v]" "v_endpoint_id v = i"
    "v_event_id v = eventID" "v_event_type v = ty" "v_status v = StatusPending" "v_attempt_count v = 0"
    "domain_events db' = domain_events db" "downloads db' = downloads db"
  using assms by (auto simp: insert_delivery_def Let_def split: if_splits)

lemma fan_out_rows:
  assumes "tx_each (\<lambda>ep. tx_bind (tx_catch (tx_exec flt l (insert_delivery eventID (e_id ep) (e_name ep) ty agg
      aggID t t)) h) (\<lambda>_. tx_return ())) eps db = Inr (u, db')"
  shows "\<exists>vs. webhook_deliveries db' = webhook_deliveries db @ vs \<and> fans_out eventID ty eps vs
    \<and> domain_events db' = domain_events db"
  using assms
proof (induction eps arbitrary: db)
  case Nil
  then show ?case by (simp add: fans_out_def)
next
  case (Cons ep eps)
  from Cons.prems obtain v db1 where v: "insert_delivery eventID (e_id ep) (e_name ep) ty agg aggID t t db = Inr (v, db1)"
    and rest: "tx_each (\<lambda>ep. tx_bind (tx_catch (tx_exec flt l (insert_delivery eventID (e_id ep) (e_name ep) ty agg
      aggID t t)) h) (\<lambda>_. tx_return ())) eps db1 = Inr (u, db')"
    by (auto simp: tx_bind_Inr)
  from Cons.IH [OF rest] obtain vs where vs: "webhook_deliveries db' = webhook_deliveries db1 @ vs"
    "fans_out eventID ty eps vs" "domain_events db' = domain_events db1" by blast
  with insert_delivery_row [OF v] show ?case
    by (intro exI [of _ "v # vs"]) (auto simp: fans_out_def)
qed

definition announced :: "Env \<Rightarrow> EventType \<Rightarrow> Download \<Rightarrow> Db \<Rightarrow> Db \<Rightarrow> bool" where
  "announced env ty d db db' \<longleftrightarrow>
     (\<exists>e. domain_events db' = domain_events db @ [e] \<and> ev_type e = ty \<and> ev_id e = freshID env (dHash d)
        \<and> ev_aggregate_id e = dHash d \<and> ev_aggregate_version e = dRowVersion d \<and> ev_occurred_at e = dUpdatedAt d) \<and>
     (if ty = EventTypeCompleted \<or> ty = EventTypeFailed
      then \<exists>vs. webhook_deliveries db' = webhook_deliveries db @ vs
             \<and> fans_out (freshID env (dHash d)) ty (list_subscribed ty db) vs
      else webhook_deliveries db' = webhook_deliveries db)"

lemma emit_announces:
  assumes "emit env ty prev d db = Inr (u, db')"
  shows "announced env ty d db db'"
proof -
  from assms obtain payload db1 where
    ins: "insert_event (freshID env (dHash d)) ty AggregateDownload (dHash d) (dRowVersion d) payload (dUpdatedAt d) db = Inr ((), db1)"
    and rest: "if ty \<noteq> EventTypeCompleted \<and> ty \<noteq> EventTypeFailed then db' = db1
      else tx_each (\<lambda>ep. tx_bind (tx_catch (tx_exec (faulty env) ''fan out delivery'' (insert_delivery (freshID env (dHash d)) (e_id ep) (e_name ep)
        ty AggregateDownload (dHash d) (dUpdatedAt d) (dUpdatedAt d))) (wrap ''fan out delivery'')) (\<lambda>_. tx_return ()))
        (list_subscribed ty db1) db1 = Inr (u, db')"
    by (auto simp: emit_def emitDownloadEvent_def tx_bind_Inr split: if_splits)
  from ins have db1: "domain_events db1 = domain_events db @
      [\<lparr>ev_sequence = last_sequence db + 1, ev_id = freshID env (dHash d), ev_type = ty,
        ev_aggregate_type = AggregateDownload, ev_aggregate_id = dHash d, ev_aggregate_version = dRowVersion d,
        ev_payload = payload, ev_occurred_at = dUpdatedAt d\<rparr>]"
    "webhook_deliveries db1 = webhook_deliveries db" "list_subscribed ty db1 = list_subscribed ty db"
    by (auto simp: insert_event_def list_subscribed_def split: if_splits)
  show ?thesis
  proof (cases "ty = EventTypeCompleted \<or> ty = EventTypeFailed")
    case False
    with rest have "db' = db1" by simp
    with False db1 show ?thesis by (auto simp: announced_def)
  next
    case True
    with rest have "tx_each (\<lambda>ep. tx_bind (tx_catch (tx_exec (faulty env) ''fan out delivery'' (insert_delivery (freshID env (dHash d)) (e_id ep) (e_name ep)
        ty AggregateDownload (dHash d) (dUpdatedAt d) (dUpdatedAt d))) (wrap ''fan out delivery'')) (\<lambda>_. tx_return ()))
        (list_subscribed ty db1) db1 = Inr (u, db')"
      by (simp split: if_splits)
    from fan_out_rows [OF this] db1 True show ?thesis by (auto simp: announced_def)
  qed
qed

lemma notify_tables [simp]:
  "domain_events (notify db) = domain_events db" "webhook_deliveries (notify db) = webhook_deliveries db"
  "downloads (notify db) = downloads db"
  by (simp_all add: notify_def)

lemma emit_after_announces:
  assumes "emit_after env l conv hash ev db = Inr (u, db')"
  obtains row d where "sql_get r_hash hash (downloads db) = Some row" "conv row = Inr d"
    "case ev d of None \<Rightarrow> domain_events db' = domain_events db \<and> webhook_deliveries db' = webhook_deliveries db
      | Some (ty, prev) \<Rightarrow> announced env ty d db db'"
proof -
  from assms obtain row d db1 where row: "sql_get r_hash hash (downloads db) = Some row" "conv row = Inr d"
    and rest: "(case ev d of None \<Rightarrow> commitEventTx (faulty env) (''commit '' @ l) False
      | Some (ty, prev) \<Rightarrow> tx_bind (emit env ty prev d) (\<lambda>_. commitEventTx (faulty env) (''commit '' @ l) True)) db = Inr (u, db')"
    by (auto simp: emit_after_def reread_def get_row_def tx_bind_Inr split: option.splits)
  show ?thesis
  proof (cases "ev d")
    case None
    with rest that [OF row] show ?thesis by auto
  next
    case (Some p)
    obtain ty prev where p: "p = (ty, prev)" by (cases p)
    from rest Some p obtain db2 where em: "emit env ty prev d db = Inr ((), db2)" and "db' = notify db2"
      by (auto simp: tx_bind_Inr)
    with emit_announces [OF em] have "announced env ty d db db'" by (simp add: announced_def)
    with Some p that [OF row] show ?thesis by simp
  qed
qed

lemma announced_same:
  "announced env ty d db db' \<Longrightarrow> domain_events db0 = domain_events db \<Longrightarrow> webhook_deliveries db0 = webhook_deliveries db \<Longrightarrow>
   list_subscribed ty db0 = list_subscribed ty db \<Longrightarrow> announced env ty d db0 db'"
  by (simp add: announced_def)

lemma commit_announces:
  assumes ok: "paths_ok db" and commit: "CommitClaim env claim next db = (Inr (), db')"
  shows "if dState next = kState claim
    then domain_events db' = domain_events db \<and> webhook_deliveries db' = webhook_deliveries db
    else \<exists>d. dHash d = dHash (kDownload claim) \<and> dRowVersion d = kVersion claim + 1 \<and> dUpdatedAt d = dUpdatedAt next
      \<and> announced env (commit_event (dState next)) d db db'"
proof -
  from commit obtain next' db1 n where chk: "commit_check claim next = Inr next'"
    and upd: "commit_statement claim next' db = Inr (n, db1)" "n \<noteq> 0"
    and em: "emit_after env ''committed claim'' downloadFromDB (dHash next')
       (\<lambda>d. if dState d \<noteq> kState claim then Some (commit_event (dState d), kState claim) else None) db1 = Inr ((), db')"
    by (auto simp: CommitClaim_def in_tx_def tx_bind_Inr split: sum.splits if_splits)
  have next': "next' = next\<lparr>dLeaseOwner := [], dLeaseUntil := None\<rparr>" "dHash next' = dHash (kDownload claim)"
    using commit_check_Inr [OF chk] by (auto simp: sameClaimIdentity_def)
  from upd have n: "n = rows_affected (commit_where claim) (downloads db)"
    and db1: "db1 = db\<lparr>downloads := sql_update (commit_where claim) (commitClaimParams next') (downloads db)\<rparr>"
    by (auto simp: commit_statement_def update_guarded_def update_plain_def split: if_splits)
  from n upd(2) obtain r where r: "r \<in> set (downloads db)" "commit_where claim r"
    by (auto simp: rows_affected_0_iff)
  have keys: "\<And>q. r_hash (commitClaimParams next' q) = r_hash q" by (simp add: commitClaimParams_def)
  have "sql_get r_hash (r_hash r) (downloads db) = Some r"
    using ok r(1) by (intro sql_get_mem) (simp_all add: paths_ok_def)
  then have row: "sql_get r_hash (dHash next') (downloads db1) = Some (commitClaimParams next' r)"
    using r(2) next'(2) by (simp add: db1 sql_get_update keys commit_where_def)
  obtain row' d where found: "sql_get r_hash (dHash next') (downloads db1) = Some row'" "downloadFromDB row' = Inr d"
    and tail: "case (if dState d \<noteq> kState claim then Some (commit_event (dState d), kState claim) else None) of
         None \<Rightarrow> domain_events db' = domain_events db1 \<and> webhook_deliveries db' = webhook_deliveries db1
       | Some (ty, prev) \<Rightarrow> announced env ty d db1 db'"
    by (rule emit_after_announces [OF em])
  with row have d: "downloadFromDB (commitClaimParams next' r) = Inr d"
      "case (if dState d \<noteq> kState claim then Some (commit_event (dState d), kState claim) else None) of
         None \<Rightarrow> domain_events db' = domain_events db1 \<and> webhook_deliveries db' = webhook_deliveries db1
       | Some (ty, prev) \<Rightarrow> announced env ty d db1 db'"
    by simp_all
  have f: "dState d = dState next" "dHash d = dHash (kDownload claim)" "dRowVersion d = kVersion claim + 1"
    "dUpdatedAt d = dUpdatedAt next"
    using downloadFromDB_fields [OF d(1)] r(2) next'(1) by (simp_all add: commitClaimParams_def commit_where_def)
  have same: "domain_events db1 = domain_events db" "webhook_deliveries db1 = webhook_deliveries db"
    "list_subscribed ty db1 = list_subscribed ty db" for ty
    by (simp_all add: db1 list_subscribed_def)
  show ?thesis
    using d(2) f same announced_same [of env _ d db1 db' db]
    by (cases "dState next = kState claim") (auto intro!: exI [of _ d])
qed

subsection \<open>Delivery outcomes\<close>

lemma prune_keeps:
  assumes "PruneWebhookDeliveries env now db = (Inr n, db')" "v \<in> set (webhook_deliveries db)"
  shows "v \<in> set (webhook_deliveries db') \<or>
    ((v_status v = StatusSucceeded \<or> v_status v = StatusCancelled) \<and> v_updated_at v + PruneRetention < now)"
proof -
  from assms(1) have "webhook_deliveries db' =
      filter (\<lambda>v. \<not> prunable (time_add now (- PruneRetention)) v) (webhook_deliveries db)"
    by (auto simp: PruneWebhookDeliveries_def auto_commit_def exec_wrapped_def PruneDeliveries_def tx_catch_def
        tx_exec_def split: if_splits sum.splits)
  with assms(2) show ?thesis by (auto simp: prunable_def time_add_def)
qed

lemma bound_error_facts:
  "length (boundDeliveryError s) \<le> 128" "prefix (boundDeliveryError s) (trim_space s)"
  "utf8_valid (trim_space s) \<Longrightarrow> utf8_valid (boundDeliveryError s)"
proof -
  have p: "prefix (cut_to_valid (take n t)) (take n t)" for n t by (rule cut_to_valid_prefix)
  show "length (boundDeliveryError s) \<le> 128"
    using prefix_length_le [OF p [of 128 "trim_space s"]]
    by (simp add: boundDeliveryError_def Let_def maxDeliveryErrorBytes_def)
  show "prefix (boundDeliveryError s) (trim_space s)"
    using prefix_order.trans [OF p take_is_prefix]
    by (simp add: boundDeliveryError_def Let_def)
  show "utf8_valid (trim_space s) \<Longrightarrow> utf8_valid (boundDeliveryError s)"
    by (simp add: boundDeliveryError_def Let_def cut_to_valid_valid)
qed

subsection \<open>When the next download is due\<close>

lemma due_times_iff:
  "(\<exists>t \<in> set (due_times now r). t \<le> now) \<longleftrightarrow> claimable_row now r \<and> r_state r \<noteq> StateStopped"
  by (auto simp: due_times_def claimable_row_def split: option.splits)

lemma NextDue_now:
  assumes "NextDue env now db = Inr due"
  shows "(\<exists>t. due = Some t \<and> t \<le> now) \<longleftrightarrow>
    (\<exists>r \<in> set (downloads db). claimable_row now r \<and> r_state r \<noteq> StateStopped)"
proof -
  let ?ts = "concat (map (due_times now) (downloads db))"
  from assms have due: "first_by (\<lambda>t. t) ?ts = due"
    by (auto simp: NextDue_def stmt_def id_def split: if_splits option.splits)
  have "(\<exists>t. due = Some t \<and> t \<le> now) \<longleftrightarrow> (\<exists>t \<in> set ?ts. t \<le> now)"
  proof (cases due)
    case None
    with due have "?ts = []" by simp
    with None show ?thesis by (simp only: set_empty2) simp
  next
    case (Some m)
    with due have "m \<in> set ?ts" "\<forall>t \<in> set ?ts. m \<le> t"
      using first_by_mem [of "\<lambda>t. t" ?ts m] first_by_least [of "\<lambda>t. t" ?ts m] by auto
    with Some show ?thesis by fastforce
  qed
  also have "\<dots> \<longleftrightarrow> (\<exists>r \<in> set (downloads db). claimable_row now r \<and> r_state r \<noteq> StateStopped)"
    using due_times_iff by fastforce
  finally show ?thesis .
qed

subsection \<open>Retry\<close>

lemma RetryTarget_permitted:
  "(dState d = StateFailed \<longrightarrow> CanTransition StateFailed (RetryTarget d) \<and> RetryTarget d \<noteq> StateDeleteRequested
      \<and> State_Claimable (RetryTarget d)) \<and>
   (dState d = StateCancelRequested \<or> dState d = StateDeleteRequested \<longrightarrow> RetryTarget d = dState d)"
  by (auto simp: RetryTarget_def Let_def CanTransition_def State_Claimable_def)

subsection \<open>A failed operation leaves no trace\<close>

lemma in_tx_unchanged: "in_tx flt l body db = (Inl e, db') \<Longrightarrow> db' = db"
  using in_tx_error_unchanged [of flt l body db e] by simp

lemma or_miss_unchanged:
  "or_miss (in_tx flt l body db) db miss = (Inl e, db') \<Longrightarrow> db' = db"
  by (auto simp: or_miss_def split: prod.splits sum.splits bool.splits dest: in_tx_unchanged)

lemma failed_operation_unchanged:
  "CreateSubmission env s db = (Inl e, db') \<Longrightarrow> db' = db"
  "SetCategory env hash category now db = (Inl e, db') \<Longrightarrow> db' = db"
  "Start env hash now db = (Inl e, db') \<Longrightarrow> db' = db"
  "Retry env hash target now db = (Inl e, db') \<Longrightarrow> db' = db"
  "Pause env hash now db = (Inl e, db') \<Longrightarrow> db' = db"
  "Cancel env hash now db = (Inl e, db') \<Longrightarrow> db' = db"
  "RequestDelete env order hashes files now db = (Inl e, db') \<Longrightarrow> db' = db"
  "CommitClaim env claim next db = (Inl e, db') \<Longrightarrow> db' = db"
  "CommitWebhookClaim env held result now db = (Inl e, db') \<Longrightarrow> db' = db"
  by (auto simp: CreateSubmission_def SetCategory_def Start_def Retry_def Pause_def Cancel_def RequestDelete_def
      CommitClaim_def CommitWebhookClaim_def Let_def split: option.splits sum.splits if_splits
      dest: in_tx_unchanged or_miss_unchanged)

end
