(* ===== verification/Reconcile_Safety.thy ===== *)
theory Reconcile_Safety
  imports Reconcile_Step Store_Facts
begin

section \<open>What a reconciler step may do outside, and what the store sees of it\<close>

text \<open>
  The calls of a decision: local content is deleted only after the remote copy is gone, a copy is
  started only into a destination found clear, a download completes only after a verification.  And
  the step as a whole: it runs store operations only, and what it asks the store to commit is
  refused for no reason that the decision could have avoided.
\<close>

subsection \<open>Classes of calls\<close>

fun destructive :: "effect \<Rightarrow> bool" where
  "destructive (EffDelete _ _) = True"
| "destructive (EffDeleteWorkspace _ _) = True"
| "destructive _ = False"

fun starts_copy :: "effect \<Rightarrow> bool" where
  "starts_copy (EffEnsureCopy _ _) = True"
| "starts_copy _ = False"

fun submits :: "effect \<Rightarrow> bool" where
  "submits (EffEnsureOffline _ _ _) = True"
| "submits _ = False"

fun verifies :: "effect \<Rightarrow> bool" where
  "verifies (EffVerify _ _) = True"
| "verifies (EffVerifyUnknown _ _) = True"
| "verifies _ = False"

lemma destructive_only: "destructive e \<Longrightarrow> \<not> starts_copy e \<and> \<not> submits e"
  by (cases e) auto

text \<open>Observation and preparation: neither of the first two, nor a submission.\<close>

definition harmless :: "effect list \<Rightarrow> bool" where
  "harmless eff \<longleftrightarrow> (\<forall>e \<in> set eff. \<not> destructive e \<and> \<not> starts_copy e \<and> \<not> submits e)"

lemma harmless_simps [simp]:
  "harmless []" "harmless (xs @ ys) \<longleftrightarrow> harmless xs \<and> harmless ys"
  "harmless (e # es) \<longleftrightarrow> \<not> destructive e \<and> \<not> starts_copy e \<and> \<not> submits e \<and> harmless es"
  by (auto simp: harmless_def)

lemma harmless_mem: "harmless eff \<Longrightarrow> e \<in> set eff \<Longrightarrow> \<not> destructive e \<and> \<not> starts_copy e \<and> \<not> submits e"
  by (simp add: harmless_def)

lemma prepareWorkspace_harmless: "prepareWorkspace w d = (r, eff) \<Longrightarrow> harmless eff"
  by (auto simp: prepareWorkspace_def split: if_splits sum.splits)

lemma resolve_child_harmless:
  "resolve_child w result file eff = (r, eff') \<Longrightarrow> harmless eff \<Longrightarrow> harmless eff'"
  by (auto simp: resolve_child_def Let_def split: if_splits sum.splits)

lemma resolveCopySource_harmless: "resolveCopySource w d = (r, eff) \<Longrightarrow> harmless eff"
  by (auto simp: resolveCopySource_def Let_def split: if_splits sum.splits dest: resolve_child_harmless)

lemma verify_manifest_harmless:
  "verify_manifest w d effective eff = (r, d', eff') \<Longrightarrow> harmless eff \<Longrightarrow> harmless eff'"
  by (auto simp: verify_manifest_def Let_def split: if_splits sum.splits option.splits)

lemma verify_torrent_harmless: "verify_torrent w d files ovs = (r, d', eff) \<Longrightarrow> harmless eff"
  by (auto simp: verify_torrent_def Let_def split: if_splits option.splits dest: verify_manifest_harmless)

lemma verifyAndRecord_harmless: "verifyAndRecord w d = (r, d', eff) \<Longrightarrow> harmless eff"
  by (auto simp: verifyAndRecord_def Let_def split: if_splits sum.splits option.splits dest: verify_torrent_harmless)

lemma verify_failed_effects: "dcEffects (verify_failed c w now e d eff) = eff"
  by (simp add: verify_failed_def split: verify_err.splits)

lemma waiting_harmless:
  "harmless (dcEffects (decide_waiting_offline c w d))"
  "harmless (dcEffects (decide_waiting_copy c w d))"
  "harmless (dcEffects (decide_verifying c w d))"
    apply (simp add: decide_waiting_offline_def Let_def split: sum.split option.split)
   apply (simp add: decide_waiting_copy_def Let_def verify_failed_effects verifyAndRecord_harmless
      split: sum.split option.split prod.split)
  apply (simp add: decide_verifying_def Let_def verify_failed_effects verifyAndRecord_harmless
      split: option.split prod.split)
  done

lemma upstream_cleanup_harmless: "upstream_cleanup w d = (op, r, eff) \<Longrightarrow> harmless eff"
  by (auto simp: upstream_cleanup_def split: if_splits)

subsection \<open>Deletion of local content\<close>

definition copy_gone :: "Download \<Rightarrow> bool" where
  "copy_gone d \<longleftrightarrow> dCopySourcePath d = [] \<or> copyRemovalCompleted (dLastUpstreamStatus d)"

lemma removed_status:
  "dLastUpstreamStatus d = UpstreamCopyRemoved @ ''|'' @ s \<Longrightarrow> copyRemovalCompleted (dLastUpstreamStatus d)"
  by (simp add: copyRemovalCompleted_def has_prefix_def)

lemma submitting_copy_parts_harmless:
  "harmless (dcEffects (decide_copy_source w d))" "harmless (dcEffects (decide_reserve w d))"
  "harmless (dcEffects (decide_remove_copy w d))" "harmless (dcEffects (decide_preflight w d))"
     apply (simp add: decide_copy_source_def resolveCopySource_harmless
      split: prod.split sum.split resolve_err.split)
    apply (simp add: decide_reserve_def Let_def)
   apply (simp add: decide_remove_copy_def Let_def split: option.split)
  apply (simp add: decide_preflight_def Let_def prepareWorkspace_harmless
      split: prod.split option.split sum.split bool.split)
  done

lemma delete_copy_effects:
  "\<forall>e \<in> set (dcEffects (decide_delete_copy w d)). destructive e \<and> dDestinationName d \<noteq> []"
  by (simp add: decide_delete_copy_def deleteCopyWorkspace_def Let_def split: prod.split option.split)

lemma ensure_copy_effects:
  assumes "e \<in> set (dcEffects (decide_ensure_copy c w d))"
  shows "e = EffEnsureCopy (dCopySourcePath d) (workspaceRoot d) \<or> harmless [e]"
proof -
  have "dcEffects (decide_ensure_copy c w d) = eff \<or>
      dcEffects (decide_ensure_copy c w d) = eff @ [EffEnsureCopy (dCopySourcePath d) (workspaceRoot d)]"
    if "prepareWorkspace w d = (r, eff)" for r eff
    using that by (simp add: decide_ensure_copy_def Let_def split: option.split sum.split)
  moreover obtain r eff where "prepareWorkspace w d = (r, eff)" by fastforce
  ultimately show ?thesis
    using assms prepareWorkspace_harmless harmless_mem by fastforce
qed

text \<open>The branch that \<open>decide_submitting_copy\<close> takes, as far as its calls matter.\<close>

lemma submitting_copy_cases:
  obtains (harmless) "harmless (dcEffects (decide_submitting_copy c w d))"
  | (delete) "decide_submitting_copy c w d = decide_delete_copy w d" "copyRemovalCompleted (dLastUpstreamStatus d)"
  | (copy) "decide_submitting_copy c w d = decide_ensure_copy c w d" "dLastUpstreamStatus d = destinationClear"
      "dCopySourcePath d \<noteq> []" "dDestinationName d \<noteq> []"
  using removed_status [of d "UpstreamCopyFailed"] removed_status [of d "UpstreamCopyCompleted"]
    submitting_copy_parts_harmless [of w d]
  unfolding decide_submitting_copy_def Let_def
  by (smt (verit) decided_simps(3) harmless_simps(1))

lemma submitting_copy_destroys:
  assumes "e \<in> set (dcEffects (decide_submitting_copy c w d))" "destructive e"
  shows "copy_gone d \<and> dDestinationName d \<noteq> []"
proof (cases rule: submitting_copy_cases [where c = c and w = w and d = d])
  case harmless
  with assms harmless_mem show ?thesis by blast
next
  case delete
  with assms delete_copy_effects show ?thesis by (auto simp: copy_gone_def)
next
  case copy
  with assms ensure_copy_effects [of e c w d] show ?thesis by auto
qed

lemma pause_destroys:
  assumes "e \<in> set (dcEffects (pause_download w d))" "destructive e"
  shows "copy_gone d" "dContentPath d = []"
  using assms
  by (auto simp: pause_download_def Let_def copy_gone_def split: if_splits option.splits)

lemma delete_destroys:
  assumes "e \<in> set (dcEffects (delete_download w d))" "destructive e"
  shows "copy_gone d" "dDeleteFilesRequested d"
  using assms harmless_mem upstream_cleanup_harmless
  by (fastforce simp: delete_download_def delete_local_def copyNeedsRemoval_def Let_def copy_gone_def
      split: if_splits option.splits prod.splits)+

lemma submitting_offline_effects:
  assumes "e \<in> set (dcEffects (decide_submitting_offline c w d))"
  shows "\<not> destructive e \<and> \<not> starts_copy e \<and>
    (submits e \<longrightarrow> e = EffEnsureOffline (dSubmissionURI d) (dCloudFolder d) (dHash d))"
  using assms
  by (auto simp: decide_submitting_offline_def Let_def split: if_splits option.splits sum.splits)

lemma cancel_effects:
  assumes "e \<in> set (dcEffects (cancel_download w d))"
  shows "\<not> starts_copy e \<and> \<not> submits e \<and> (destructive e \<longrightarrow> dPauseRequested d \<and> copy_gone d \<and> dContentPath d = [])"
proof -
  have "\<not> starts_copy e \<and> \<not> submits e" if "e \<in> set (dcEffects (pause_download w d))"
    using that by (auto simp: pause_download_def Let_def split: if_splits option.splits)
  moreover have "harmless (dcEffects (cancel_download w d))" if "\<not> dPauseRequested d"
    using that upstream_cleanup_harmless
    by (simp add: cancel_download_def split: prod.split option.split)
  ultimately show ?thesis
    using assms pause_destroys [of e w d] harmless_mem
    by (cases "dPauseRequested d") (auto simp: cancel_download_def)
qed

lemma delete_effects:
  assumes "e \<in> set (dcEffects (delete_download w d))"
  shows "\<not> starts_copy e \<and> \<not> submits e"
proof -
  have "\<not> starts_copy e \<and> \<not> submits e" if "e \<in> set (dcEffects (delete_local w d))"
    using that by (auto simp: delete_local_def Let_def split: if_splits option.splits)
  moreover have "harmless (dcEffects (delete_download w d))" if "copyNeedsRemoval d \<or> offlineNeedsCancellation d"
    using that upstream_cleanup_harmless
    by (simp add: delete_download_def split: prod.split option.split)
  ultimately show ?thesis
    using assms harmless_mem by (cases "copyNeedsRemoval d \<or> offlineNeedsCancellation d") (auto simp: delete_download_def)
qed

lemma submitting_copy_starts:
  assumes "e \<in> set (dcEffects (decide_submitting_copy c w d))"
  shows "\<not> submits e \<and> (starts_copy e \<longrightarrow>
    e = EffEnsureCopy (dCopySourcePath d) (workspaceRoot d) \<and> dLastUpstreamStatus d = destinationClear
    \<and> dCopySourcePath d \<noteq> [] \<and> dDestinationName d \<noteq> [])"
proof (cases rule: submitting_copy_cases [where c = c and w = w and d = d])
  case harmless
  with assms harmless_mem show ?thesis by blast
next
  case delete
  with assms delete_copy_effects [of w d] destructive_only show ?thesis by metis
next
  case copy
  with assms ensure_copy_effects [of e c w d] show ?thesis by auto
qed

text \<open>What state and row allow a decision to delete, to copy, to submit.\<close>

lemma decide_destroys:
  assumes "e \<in> set (dcEffects (decide c w d))" "destructive e"
  shows "copy_gone d \<and>
    (dState d = StateSubmittingCopy \<and> dDestinationName d \<noteq> [] \<or>
     dState d = StateCancelRequested \<and> dPauseRequested d \<and> dContentPath d = [] \<or>
     dState d = StateDeleteRequested \<and> dDeleteFilesRequested d)"
  using assms submitting_copy_destroys [of e c w d] cancel_effects [of e w d] delete_destroys [of e w d]
    submitting_offline_effects [of e c w d] harmless_mem [OF waiting_harmless(1)]
    harmless_mem [OF waiting_harmless(2)] harmless_mem [OF waiting_harmless(3)]
  by (cases "dState d") (auto simp: decide_def)

lemma decide_copies:
  assumes "EffEnsureCopy source target \<in> set (dcEffects (decide c w d))"
  shows "dState d = StateSubmittingCopy \<and> dLastUpstreamStatus d = destinationClear \<and>
    source = dCopySourcePath d \<and> source \<noteq> [] \<and> target = workspaceRoot d \<and> dDestinationName d \<noteq> []"
  using assms submitting_copy_starts [of "EffEnsureCopy source target" c w d]
    cancel_effects [of "EffEnsureCopy source target" w d] delete_effects [of "EffEnsureCopy source target" w d]
    submitting_offline_effects [of "EffEnsureCopy source target" c w d] harmless_mem [OF waiting_harmless(1)]
    harmless_mem [OF waiting_harmless(2)] harmless_mem [OF waiting_harmless(3)]
  by (cases "dState d") (auto simp: decide_def, fastforce+)

lemma decide_submits:
  assumes "EffEnsureOffline uri folder hash \<in> set (dcEffects (decide c w d))"
  shows "dState d = StateSubmittingOffline \<and> uri = dSubmissionURI d \<and> folder = dCloudFolder d \<and> hash = dHash d"
  using assms submitting_copy_starts [of "EffEnsureOffline uri folder hash" c w d]
    cancel_effects [of "EffEnsureOffline uri folder hash" w d] delete_effects [of "EffEnsureOffline uri folder hash" w d]
    submitting_offline_effects [of "EffEnsureOffline uri folder hash" c w d] harmless_mem [OF waiting_harmless(1)]
    harmless_mem [OF waiting_harmless(2)] harmless_mem [OF waiting_harmless(3)]
  by (cases "dState d") (auto simp: decide_def, fastforce+)

subsection \<open>Which local content a decision removes\<close>

text \<open>
  Besides the two deletions, applying a file plan removes local files: those that the plan gives
  priority 0.
\<close>

fun applies_plan :: "effect \<Rightarrow> bool" where
  "applies_plan (EffApplyFilePlan _ _ _) = True"
| "applies_plan _ = False"

definition removes_local :: "effect \<Rightarrow> bool" where
  "removes_local e \<longleftrightarrow> destructive e \<or> applies_plan e"

text \<open>The target of a deletion is the download's own: its workspace, or in the legacy layout its tree or content path.\<close>

definition own_content :: "Download \<Rightarrow> effect \<Rightarrow> bool" where
  "own_content d e \<longleftrightarrow>
     (if dWorkspacePath d \<noteq> [] then e = EffDeleteWorkspace (dSavePath d) (dHash d)
      else e = EffDelete (path_join [dSavePath d, dDestinationName d]) (dSavePath d) \<and> dDestinationName d \<noteq> []
         \<or> e = EffDelete (dContentPath d) (dSavePath d) \<and> dContentPath d \<noteq> [] \<and> dDeleteFilesRequested d)"

lemma delete_copy_own: "e \<in> set (dcEffects (decide_delete_copy w d)) \<Longrightarrow> own_content d e"
  by (auto simp: decide_delete_copy_def deleteCopyWorkspace_def own_content_def workspaceRoot_def Let_def
      split: prod.splits option.splits if_splits)

lemma pause_own: "e \<in> set (dcEffects (pause_download w d)) \<Longrightarrow> destructive e \<Longrightarrow> own_content d e"
  by (auto simp: pause_download_def own_content_def Let_def split: if_splits option.splits)

lemma delete_local_own: "e \<in> set (dcEffects (delete_local w d)) \<Longrightarrow> own_content d e"
  by (auto simp: delete_local_def own_content_def Let_def split: if_splits option.splits)

lemma submitting_copy_own:
  assumes "e \<in> set (dcEffects (decide_submitting_copy c w d))" "destructive e"
  shows "own_content d e"
proof (cases rule: submitting_copy_cases [where c = c and w = w and d = d])
  case harmless
  with assms harmless_mem show ?thesis by blast
next
  case delete
  with assms delete_copy_own show ?thesis by simp
next
  case copy
  with assms ensure_copy_effects [of e c w d] show ?thesis by auto
qed

lemma cancel_own:
  assumes "e \<in> set (dcEffects (cancel_download w d))" "destructive e"
  shows "own_content d e"
  using assms cancel_effects [OF assms(1)] pause_own [of e w d] by (simp add: cancel_download_def)

lemma delete_own:
  assumes "e \<in> set (dcEffects (delete_download w d))" "destructive e"
  shows "own_content d e"
proof (cases "copyNeedsRemoval d \<or> offlineNeedsCancellation d")
  case True
  then have "harmless (dcEffects (delete_download w d))"
    using upstream_cleanup_harmless by (simp add: delete_download_def split: prod.split option.split)
  with assms harmless_mem show ?thesis by blast
qed (use assms delete_local_own in \<open>simp add: delete_download_def\<close>)

lemma decide_destroys_own:
  assumes "e \<in> set (dcEffects (decide c w d))" "destructive e"
  shows "own_content d e"
  using assms submitting_copy_own [of e c w d] cancel_own [of e w d] delete_own [of e w d]
    submitting_offline_effects [of e c w d] harmless_mem [OF waiting_harmless(1)]
    harmless_mem [OF waiting_harmless(2)] harmless_mem [OF waiting_harmless(3)]
  by (cases "dState d") (auto simp: decide_def)

text \<open>File plans: only a verification applies one, and it is the plan of the recorded files and overrides.\<close>

definition own_plan :: "World \<Rightarrow> Download \<Rightarrow> effect \<Rightarrow> bool" where
  "own_plan w d e \<longleftrightarrow> dSourceKind d \<noteq> SourceMagnet \<and>
     (\<exists>files overrides ovs. wFiles w (dHash d) = Inr files \<and> wOverrides w = Some overrides
        \<and> overrides (dHash d) = Inr ovs \<and> effective_files ovs 0 files \<noteq> []
        \<and> e = EffApplyFilePlan (plan_root d) (dHash d) (map (plan_of ovs) files)
        \<and> (\<forall>p \<in> set (map (plan_of ovs) files). fpPriority p = 0 \<longrightarrow>
              (\<exists>ov \<in> set ovs. oFileIndex ov = fpIndex p \<and> oPriority ov = 0)))"

definition no_plan :: "effect list \<Rightarrow> bool" where
  "no_plan eff \<longleftrightarrow> (\<forall>e \<in> set eff. \<not> applies_plan e)"

lemma no_plan_simps [simp]:
  "no_plan []" "no_plan (xs @ ys) \<longleftrightarrow> no_plan xs \<and> no_plan ys" "no_plan (e # es) \<longleftrightarrow> \<not> applies_plan e \<and> no_plan es"
  by (auto simp: no_plan_def)

lemma no_plan_mem: "no_plan eff \<Longrightarrow> e \<in> set eff \<Longrightarrow> \<not> applies_plan e"
  by (simp add: no_plan_def)

lemma plan_of_priority:
  assumes "p \<in> set (map (plan_of ovs) files)" "fpPriority p = 0"
  shows "\<exists>ov \<in> set ovs. oFileIndex ov = fpIndex p \<and> oPriority ov = 0"
proof -
  from assms obtain f where p: "p = plan_of ovs f" by auto
  with assms(2) obtain ov where "find (\<lambda>ov. oFileIndex ov = fIndex f) ovs = Some ov" "oPriority ov = 0"
    by (auto simp: plan_of_def split: option.splits)
  then show ?thesis using find_mem by (fastforce simp: p plan_of_def)
qed
lemma verify_manifest_effects:
  "verify_manifest w d effective eff = (r, d', eff') \<Longrightarrow> e \<in> set eff' \<Longrightarrow> e \<in> set eff \<or> \<not> applies_plan e"
  by (auto simp: verify_manifest_def Let_def split: if_splits sum.splits option.splits)

lemma verify_torrent_plans:
  assumes "verify_torrent w d files overrides = (r, d', eff)" "e \<in> set eff" "applies_plan e"
  shows "\<exists>ovs. overrides = Some ovs \<and> effective_files ovs 0 files \<noteq> []
    \<and> e = EffApplyFilePlan (plan_root d) (dHash d) (map (plan_of ovs) files)"
  using assms
  by (auto simp: verify_torrent_def Let_def split: if_splits option.splits dest!: verify_manifest_effects)

lemma verifyAndRecord_plans:
  assumes "verifyAndRecord w d = (r, d', eff)" "e \<in> set eff" "applies_plan e"
  shows "own_plan w d e"
  using assms
  by (auto simp: verifyAndRecord_def own_plan_def Let_def split: if_splits sum.splits option.splits
      dest!: verify_torrent_plans intro!: plan_of_priority)

lemma waiting_copy_plans:
  assumes "e \<in> set (dcEffects (decide_waiting_copy c w d))" "applies_plan e"
  shows "own_plan w d e"
  using assms verifyAndRecord_plans [of w d _ _ _ e]
  by (auto simp: decide_waiting_copy_def Let_def verify_failed_effects
      split: sum.splits option.splits prod.splits if_splits)

lemma verifying_plans:
  assumes "e \<in> set (dcEffects (decide_verifying c w d))" "applies_plan e"
  shows "own_plan w d e"
  using assms verifyAndRecord_plans [of w d _ _ _ e]
  by (auto simp: decide_verifying_def Let_def verify_failed_effects
      split: sum.splits option.splits prod.splits if_splits)

lemma prepare_no_plan: "prepareWorkspace w d = (r, eff) \<Longrightarrow> no_plan eff"
  by (auto simp: prepareWorkspace_def split: if_splits sum.splits)

lemma resolve_child_no_plan: "resolve_child w result file eff = (r, eff') \<Longrightarrow> no_plan eff \<Longrightarrow> no_plan eff'"
  by (auto simp: resolve_child_def Let_def split: if_splits sum.splits)

lemma resolve_no_plan: "resolveCopySource w d = (r, eff) \<Longrightarrow> no_plan eff"
  by (auto simp: resolveCopySource_def Let_def split: if_splits sum.splits dest: resolve_child_no_plan)

lemma copy_parts_no_plan:
  "no_plan (dcEffects (decide_copy_source w d))" "no_plan (dcEffects (decide_reserve w d))"
  "no_plan (dcEffects (decide_remove_copy w d))" "no_plan (dcEffects (decide_preflight w d))"
  "no_plan (dcEffects (decide_delete_copy w d))" "no_plan (dcEffects (decide_ensure_copy c w d))"
       apply (simp add: decide_copy_source_def resolve_no_plan split: prod.split sum.split resolve_err.split)
      apply (simp add: decide_reserve_def Let_def)
     apply (simp add: decide_remove_copy_def Let_def split: option.split)
    apply (simp add: decide_preflight_def Let_def prepare_no_plan split: prod.split option.split sum.split bool.split)
   apply (simp add: decide_delete_copy_def deleteCopyWorkspace_def Let_def split: prod.split option.split)
  apply (simp add: decide_ensure_copy_def Let_def prepare_no_plan split: prod.split option.split sum.split)
  done

lemma submitting_copy_no_plan: "no_plan (dcEffects (decide_submitting_copy c w d))"
  by (simp add: decide_submitting_copy_def Let_def copy_parts_no_plan)

lemma upstream_no_plan: "upstream_cleanup w d = (op, r, eff) \<Longrightarrow> no_plan eff"
  by (auto simp: upstream_cleanup_def split: if_splits)

lemma cleanup_no_plan:
  "no_plan (dcEffects (cancel_download w d))" "no_plan (dcEffects (delete_download w d))"
proof -
  have "no_plan (dcEffects (pause_download w d))"
    by (simp add: pause_download_def Let_def split: option.split)
  then show "no_plan (dcEffects (cancel_download w d))"
    using upstream_no_plan by (simp add: cancel_download_def split: prod.split option.split)
  have "no_plan (dcEffects (delete_local w d))"
    by (simp add: delete_local_def Let_def split: option.split)
  then show "no_plan (dcEffects (delete_download w d))"
    using upstream_no_plan by (simp add: delete_download_def split: prod.split option.split)
qed

lemma offline_no_plan:
  "no_plan (dcEffects (decide_submitting_offline c w d))" "no_plan (dcEffects (decide_waiting_offline c w d))"
  by (simp_all add: decide_submitting_offline_def decide_waiting_offline_def Let_def split: sum.split option.split)

lemma decide_plans:
  assumes "e \<in> set (dcEffects (decide c w d))" "applies_plan e"
  shows "own_plan w d e \<and> (dState d = StateWaitingCopy \<or> dState d = StateVerifyingLocal)"
  using assms waiting_copy_plans [of e c w d] verifying_plans [of e c w d]
    no_plan_mem [OF submitting_copy_no_plan [of c w d], of e] no_plan_mem [OF cleanup_no_plan(1) [of w d], of e]
    no_plan_mem [OF cleanup_no_plan(2) [of w d], of e] no_plan_mem [OF offline_no_plan(1) [of c w d], of e]
    no_plan_mem [OF offline_no_plan(2) [of c w d], of e]
  by (cases "dState d") (auto simp: decide_def)

subsection \<open>Completion\<close>

lemma decide_completes:
  assumes "dState (dcNext (decide c w d)) = StateCompleted" "dcErr (decide c w d) = None"
  shows "dState d = StateVerifyingLocal \<and>
    (\<exists>d' eff. verifyAndRecord w d = (None, d', eff) \<and> dcNext (decide c w d) = complete (wNow w) d')"
proof -
  have acc: "acceptable d (dcNext (decide c w d))" by (rule decide_acceptable)
  have claimable: "dState d \<noteq> StateCompleted" using assms by (auto simp: decide_def)
  with acc assms(1) have v: "dState d = StateVerifyingLocal"
    by (auto simp: acceptable_def CanTransition_into_completed legacy_dead_end_def)
  then have dec: "decide c w d = decide_verifying c w d" by (simp add: decide_def)
  obtain r d' eff where ver: "verifyAndRecord w d = (r, d', eff)" by (metis prod_cases3)
  have "r = None" and "\<not> timedOut d (wNow w) (cfgVerifyTimeout c)"
    using assms dec ver v verifyAndRecord_keeps [OF ver] state_local_failure
    by (auto simp: decide_verifying_def verify_failed_def Let_def split: if_splits option.splits verify_err.splits)
      (metis State.distinct)+
  with v dec ver show ?thesis by (simp add: decide_verifying_def Let_def)
qed

subsection \<open>The manifest that is verified\<close>

text \<open>What the loop over the manifest accepts: a safe, duplicate-free, numbered list that adds up.\<close>

lemma manifest_total_facts:
  assumes "manifest_total h i seen acc fs = Some t"
  shows "t = acc + sum_list (map fSize fs)" "map fIndex fs = map (\<lambda>k. i + int k) [0..<length fs]"
    "distinct (map fRelativePath fs)" "set seen \<inter> fRelativePath ` set fs = {}"
    "\<forall>f \<in> set fs. fDownloadHash f = h \<and> 0 \<le> fSize f \<and> manifest_path_ok (fRelativePath f)"
    "acc \<le> max_int64 \<Longrightarrow> t \<le> max_int64"
proof -
  have "t = acc + sum_list (map fSize fs) \<and> map fIndex fs = map (\<lambda>k. i + int k) [0..<length fs] \<and>
    distinct (map fRelativePath fs) \<and> set seen \<inter> fRelativePath ` set fs = {} \<and>
    (\<forall>f \<in> set fs. fDownloadHash f = h \<and> 0 \<le> fSize f \<and> manifest_path_ok (fRelativePath f)) \<and>
    (acc \<le> max_int64 \<longrightarrow> t \<le> max_int64)"
    using assms
  proof (induction h i seen acc fs arbitrary: t rule: manifest_total.induct)
    case (1 h i seen acc)
    then show ?case by simp
  next
    case (2 h i seen acc f fs)
    have idx: "map (\<lambda>k. i + int k) [0..<Suc (length fs)] = i # map (\<lambda>k. (i + 1) + int k) [0..<length fs]"
      by (simp add: map_upt_Suc del: upt_Suc)
    from "2.prems" have here: "fDownloadHash f = h" "fIndex f = i" "0 \<le> fSize f"
      "manifest_path_ok (fRelativePath f)" "fRelativePath f \<notin> set seen" "acc + fSize f \<le> max_int64"
      and rest: "manifest_total h (i + 1) (fRelativePath f # seen) (acc + fSize f) fs = Some t"
      by (simp_all split: if_splits)
    have IH: "t = acc + fSize f + sum_list (map fSize fs)"
      "map fIndex fs = map (\<lambda>k. (i + 1) + int k) [0..<length fs]" "distinct (map fRelativePath fs)"
      "set (fRelativePath f # seen) \<inter> fRelativePath ` set fs = {}"
      "\<forall>f \<in> set fs. fDownloadHash f = h \<and> 0 \<le> fSize f \<and> manifest_path_ok (fRelativePath f)"
      "t \<le> max_int64"
      using "2.IH" here rest by simp_all
    from here IH show ?case by (simp add: idx del: upt_Suc)
  qed
  then show "t = acc + sum_list (map fSize fs)" "map fIndex fs = map (\<lambda>k. i + int k) [0..<length fs]"
    "distinct (map fRelativePath fs)" "set seen \<inter> fRelativePath ` set fs = {}"
    "\<forall>f \<in> set fs. fDownloadHash f = h \<and> 0 \<le> fSize f \<and> manifest_path_ok (fRelativePath f)"
    "acc \<le> max_int64 \<Longrightarrow> t \<le> max_int64"
    by blast+
qed

lemma effective_files_facts:
  "length (effective_files ovs n fs) = length (filter (\<lambda>f. fpPriority (plan_of ovs f) \<noteq> 0) fs)"
  "map fIndex (effective_files ovs n fs) = map (\<lambda>k. n + int k) [0..<length (effective_files ovs n fs)]"
  "map fRelativePath (effective_files ovs n fs) =
     map (\<lambda>f. fpEffectivePath (plan_of ovs f)) (filter (\<lambda>f. fpPriority (plan_of ovs f) \<noteq> 0) fs)"
  "map fSize (effective_files ovs n fs) =
     map fSize (filter (\<lambda>f. fpPriority (plan_of ovs f) \<noteq> 0) fs)"
proof (induction fs arbitrary: n)
  case Nil
  {
    case 1 show ?case by simp
  next
    case 2 show ?case by simp
  next
    case 3 show ?case by simp
  next
    case 4 show ?case by simp
  }
next
  case (Cons f fs)
  have idx: "map (\<lambda>k. n + int k) [0..<Suc m] = n # map (\<lambda>k. (n + 1) + int k) [0..<m]" for n m
    by (simp add: map_upt_Suc del: upt_Suc)
  {
    case 1 show ?case using Cons by (simp add: Let_def)
  next
    case 2 show ?case using Cons(2) by (simp add: Let_def idx del: upt_Suc)
  next
    case 3 show ?case using Cons by (simp add: Let_def)
  next
    case 4 show ?case using Cons by (simp add: Let_def)
  }
qed

text \<open>The evidence behind a successful verification.\<close>

definition verified_unknown :: "World \<Rightarrow> Download \<Rightarrow> Download \<Rightarrow> bool" where
  "verified_unknown w d d' \<longleftrightarrow> (\<exists>c. wVerifyUnknownType w (workspaceRoot d) (dDestinationName d) = Inr c
     \<and> dContentPath d' = ucPath c \<and> dTotalSize d' = ucSize c \<and> dIsMultiFile d' = Some (ucMultiFile c))"

definition verified_manifest :: "World \<Rightarrow> Download \<Rightarrow> Download \<Rightarrow> bool" where
  "verified_manifest w d d' \<longleftrightarrow> (\<exists>(selected :: DownloadFile list) c.
     wVerify w (workspaceRoot d) \<lparr>xcCandidateName = dDestinationName d,
         xcMultiFile = \<not> copiesTorrentAsFile d,
         xcFiles = map (\<lambda>f. (fRelativePath f, fSize f)) selected\<rparr> = Inr c
     \<and> selected \<noteq> [] \<and> distinct (map fRelativePath selected)
     \<and> (\<forall>f \<in> set selected. 0 \<le> fSize f \<and> manifest_path_ok (fRelativePath f))
     \<and> sum_list (map fSize selected) \<le> max_int64
     \<and> dContentPath d' = vcPath c \<and> dTotalSize d' = vcSize c)"

lemma verify_manifest_success:
  assumes "verify_manifest w d effective eff = (None, d', eff')" "effective \<noteq> []" "dIsMultiFile d \<noteq> None"
  shows "verified_manifest w d d'"
proof -
  from assms(1) obtain selected c where s: "sum_sizes 0 effective = Some selected"
      "validateManifest (d\<lparr>dTotalSize := selected\<rparr>) effective"
      "wVerify w (workspaceRoot d) \<lparr>xcCandidateName = dDestinationName d,
         xcMultiFile = \<not> copiesTorrentAsFile d,
         xcFiles = map (\<lambda>f. (fRelativePath f, fSize f)) effective\<rparr> = Inr c"
      "d' = d\<lparr>dContentPath := vcPath c, dTotalSize := vcSize c\<rparr>"
    by (auto simp: verify_manifest_def Let_def split: option.splits if_splits sum.splits)
  from s(2) assms(3) have "manifest_total (dHash d) 0 [] 0 effective = Some selected"
    by (auto simp: validateManifest_def split: option.splits if_splits)
  from manifest_total_facts [OF this] s(3,4) assms(2) show ?thesis
    unfolding verified_manifest_def by (intro exI [of _ effective] exI [of _ c]) (auto simp: max_int64_def)
qed

lemma verify_torrent_success:
  assumes "verify_torrent w d files ovs = (None, d', eff)" "dIsMultiFile d \<noteq> None"
  shows "verified_manifest w d d'"
  using assms verify_manifest_success
  by (auto simp: verify_torrent_def Let_def split: if_splits option.splits)

lemma verify_success:
  assumes "verifyAndRecord w d = (None, d', eff)"
  shows "verified_unknown w d d' \<or> verified_manifest w d d'"
  using assms
  by (auto simp: verifyAndRecord_def Let_def verified_unknown_def verify_torrent_success
      split: if_splits sum.splits option.splits)

text \<open>The manifest that the overrides select, and what the verifier is asked to find of it.\<close>

definition selected_files :: "World \<Rightarrow> Download \<Rightarrow> DownloadFile list option" where
  "selected_files w d =
     (case wFiles w (dHash d) of
        Inl _ \<Rightarrow> None
      | Inr files \<Rightarrow>
          (case wOverrides w of
             None \<Rightarrow> Some files
           | Some list_overrides \<Rightarrow>
               (case list_overrides (dHash d) of
                  Inl _ \<Rightarrow> None
                | Inr ovs \<Rightarrow> Some (effective_files ovs 0 files))))"

definition expected_content :: "Download \<Rightarrow> DownloadFile list \<Rightarrow> ExpectedContent" where
  "expected_content d files = \<lparr>xcCandidateName = dDestinationName d, xcMultiFile = \<not> copiesTorrentAsFile d,
     xcFiles = map (\<lambda>f. (fRelativePath f, fSize f)) files\<rparr>"

lemma verify_unknown_recorded:
  assumes "verifyAndRecord w d = (None, d', eff)" "dSourceKind d = SourceMagnet \<or> dIsMultiFile d = None"
  shows "verified_unknown w d d'"
  using assms by (auto simp: verifyAndRecord_def Let_def verified_unknown_def split: sum.splits)

lemma verify_torrent_recorded:
  assumes "verify_torrent w d files overrides = (None, d', eff)"
  defines "effective \<equiv> (case overrides of None \<Rightarrow> files | Some ovs \<Rightarrow> effective_files ovs 0 files)"
  shows "effective \<noteq> [] \<and> (\<exists>c. wVerify w (workspaceRoot d) (expected_content d effective) = Inr c
    \<and> dContentPath d' = vcPath c \<and> dTotalSize d' = vcSize c)"
  using assms
  by (auto simp: verify_torrent_def verify_manifest_def Let_def expected_content_def split: if_splits option.splits sum.splits)

lemma verify_manifest_recorded:
  assumes "verifyAndRecord w d = (None, d', eff)" "\<not> (dSourceKind d = SourceMagnet \<or> dIsMultiFile d = None)"
  shows "\<exists>files c. selected_files w d = Some files \<and> files \<noteq> []
    \<and> wVerify w (workspaceRoot d) (expected_content d files) = Inr c
    \<and> dContentPath d' = vcPath c \<and> dTotalSize d' = vcSize c"
  using assms
  by (auto simp: verifyAndRecord_def selected_files_def split: sum.splits option.splits dest: verify_torrent_recorded)

subsection \<open>Backoff\<close>

lemma backoff_bounds: "30 * second \<le> backoff n \<and> backoff n \<le> 5 * minute"
  by (simp add: backoff_def minute_def)

lemma backoff_mono: "m \<le> n \<Longrightarrow> backoff m \<le> backoff n"
  by (auto simp: backoff_def minute_def)

lemma retry_schedule:
  "dNextRunAt (retry w p d) = Some (wRetryNow w + backoff (dAttemptCount d + 1))"
  "dState (retry w p d) = dState d" "dAttemptCount (retry w p d) = dAttemptCount d + 1"
  by (simp_all add: retry_def Let_def time_add_def)

subsection \<open>The step against the store\<close>

lemma snd_commit_again:
  "snd (commit_again env w claim d db) =
   snd (CommitClaim env claim ((fail_with ProblemDestinationConflict (d\<lparr>dDestinationName := []\<rparr>))
     \<lparr>dUpdatedAt := wUpdatedAgain w\<rparr>) db)"
  by (simp add: commit_again_def Let_def split: prod.split sum.split)

lemma snd_commit_step:
  "snd (commit_step env w claim d db) =
     (if fst (CommitClaim env claim d db) = Inl ErrDestinationConflict
      then snd (commit_again env w claim d (snd (CommitClaim env claim d db)))
      else snd (CommitClaim env claim d db))"
  by (simp add: commit_step_def split: prod.split sum.split)

lemma commit_step_run: "store_run db (snd (commit_step env w claim d db))"
  using store_run_trans [OF run_commit run_commit] run_commit
  by (simp add: snd_commit_step snd_commit_again)

lemma Step_run:
  assumes "\<And>db. store_run db (wMeanwhile w db)"
  shows "store_run db (snd (Step c env w db))"
proof -
  let ?b = "snd (ClaimDue env (cfgOwner c) (wClaimNow w) (cfgLeaseDuration c) db)"
  have b: "store_run db ?b" by (rule run_claim)
  then have m: "store_run db (wMeanwhile w ?b)" by (rule store_run_trans [OF assms])
  have "store_run db (snd (commit_step env w claim d (wMeanwhile w ?b)))" for claim d
    by (rule store_run_trans [OF commit_step_run m])
  with b m show ?thesis
    by (auto simp: Step_def Let_def split: prod.splits sum.splits option.splits if_splits)
qed

text \<open>What a step asks the store to commit: the decision, or after the deadline a retry of the claimed download.\<close>

definition step_next :: "Config \<Rightarrow> World \<Rightarrow> Download \<Rightarrow> Download" where
  "step_next c w d =
     (if wDeadline w then retry w ProblemWorkflowOperationTimeout d else dcNext (decide c w d))\<lparr>dUpdatedAt := wUpdated w\<rparr>"

definition conflict_next :: "World \<Rightarrow> Download \<Rightarrow> Download" where
  "conflict_next w d = (fail_with ProblemDestinationConflict (d\<lparr>dDestinationName := []\<rparr>))\<lparr>dUpdatedAt := wUpdatedAgain w\<rparr>"

definition unleased :: "Download \<Rightarrow> Download" where
  "unleased d = d\<lparr>dLeaseOwner := [], dLeaseUntil := None\<rparr>"

text \<open>A commit of a claim replaces exactly the row that the claim leased.\<close>

definition row_committed :: "DownloadClaim \<Rightarrow> Download \<Rightarrow> Db \<Rightarrow> Db \<Rightarrow> Db \<Rightarrow> bool" where
  "row_committed claim n leased later db' \<longleftrightarrow>
     (\<exists>r \<in> set (downloads leased). downloadFromDB r = Inr (kDownload claim) \<and> r \<in> set (downloads later)
        \<and> downloads db' = sql_update (\<lambda>q. q = r) (commitClaimParams (unleased n)) (downloads later))"

lemma sql_update_cong: "(\<And>x. x \<in> set xs \<Longrightarrow> P x = Q x) \<Longrightarrow> sql_update P f xs = sql_update Q f xs"
  by (simp add: sql_update_def)

lemma commit_replaces_leased:
  assumes "paths_ok a" "ClaimDue env owner now dur a = (Inr (Some claim), b)" "store_run b d"
    and commit: "CommitClaim env' claim n d = (Inr (), e)"
  shows "row_committed claim n b d e"
proof -
  have ok: "paths_ok b" using paths_run [OF assms(1) run_claim [of a env owner now dur]] assms(2) by simp
  have d: "paths_ok d" by (rule paths_run [OF ok assms(3)])
  from claim_row [OF assms(2)] obtain r where r: "r \<in> set (downloads b)" "commit_where claim r"
    "downloadFromDB r = Inr (kDownload claim)" by metis
  from CommitClaim_success [OF commit] obtain next' where n: "commit_check claim n = Inr next'"
      "rows_affected (commit_where claim) (downloads d) \<noteq> 0"
      "downloads e = sql_update (commit_where claim) (commitClaimParams next') (downloads d)" by blast
  have key: "r_hash x = r_hash r \<and> r_row_version x = r_row_version r" if "commit_where claim x" for x
    using that r(2) by (simp add: commit_where_def)
  have only: "x = r" if "x \<in> set (downloads d)" "commit_where claim x" for x
    using download_fence.untouched [OF ok assms(3) r(1) that(1)] key [OF that(2)] by simp
  have mem: "r \<in> set (downloads d)"
    using n(2) only by (auto simp: rows_affected_0_iff)
  have "next' = unleased n"
    using commit_check_Inr(1) [OF n(1)] by (simp add: unleased_def)
  moreover have "sql_update (commit_where claim) f (downloads d) = sql_update (\<lambda>q. q = r) f (downloads d)" for f
    using only r(2) by (intro sql_update_cong) blast
  ultimately show ?thesis using r mem n(3) by (auto simp: row_committed_def)
qed

theorem step_commits_decision:
  assumes "paths_ok db" "\<And>db. store_run db (wMeanwhile w db)" "Step c env w db = ((True, None), db')"
  shows "\<exists>claim leased. ClaimDue env (cfgOwner c) (wClaimNow w) (cfgLeaseDuration c) db = (Inr (Some claim), leased)
    \<and> \<not> wCancelled w \<and> (wDeadline w \<or> dcErr (decide c w (kDownload claim)) = None)
    \<and> (let later = wMeanwhile w leased; n = step_next c w (kDownload claim)
       in row_committed claim n leased later db'
        \<or> fst (CommitClaim env claim n later) = Inl ErrDestinationConflict
            \<and> row_committed claim (conflict_next w n) leased later db'
        \<or> db' = later \<and> (fst (CommitClaim env claim n later) = Inl ErrClaimLost
            \<or> fst (CommitClaim env claim n later) = Inl ErrDestinationConflict
              \<and> fst (CommitClaim env claim (conflict_next w n) later) = Inl ErrClaimLost))"
proof -
  from assms(3) obtain claim leased where
    claim: "ClaimDue env (cfgOwner c) (wClaimNow w) (cfgLeaseDuration c) db = (Inr (Some claim), leased)"
    and run: "\<not> wCancelled w" "wDeadline w \<or> dcErr (decide c w (kDownload claim)) = None"
      "commit_step env w claim (step_next c w (kDownload claim)) (wMeanwhile w leased) = ((True, None), db')"
    by (auto simp: Step_def Let_def step_next_def split: prod.splits sum.splits option.splits if_splits)
  let ?n = "step_next c w (kDownload claim)" and ?later = "wMeanwhile w leased"
  note replaced = commit_replaces_leased [OF assms(1) claim assms(2)]
  obtain o1 d1 where one: "CommitClaim env claim ?n ?later = (o1, d1)" by fastforce
  obtain o2 d2 where two: "CommitClaim env claim (conflict_next w ?n) ?later = (o2, d2)" by fastforce
  have same: "o1 = Inl e \<Longrightarrow> d1 = ?later" "o2 = Inl e \<Longrightarrow> d2 = ?later" for e
    using one two failed_operation_unchanged(8) by blast+
  have "o1 = Inr () \<and> db' = d1 \<or> o1 = Inl ErrClaimLost \<and> db' = ?later \<or>
     o1 = Inl ErrDestinationConflict \<and> (o2 = Inr () \<and> db' = d2 \<or> o2 = Inl ErrClaimLost \<and> db' = ?later)"
    using run(3) one two same
    by (auto simp: commit_step_def commit_again_def conflict_next_def Let_def split: sum.splits if_splits prod.splits)
  with claim run(1,2) one two replaced show ?thesis by (auto simp: Let_def)
qed

subsection \<open>Every decision is one the store accepts\<close>

lemma acceptable_updated: "acceptable d (r\<lparr>dUpdatedAt := t\<rparr>) \<longleftrightarrow> acceptable d r"
  by (simp add: acceptable_def sameClaimIdentity_iff validateClaimWorkspace_def legacy_dead_end_def
      cong: option.case_cong)

lemma decision_committable:
  assumes "ClaimDue env owner now dur db = (Inr (Some claim), db')"
    and "next = (dcNext (decide c w (kDownload claim)))\<lparr>dUpdatedAt := t\<rparr>"
  shows "commit_check claim next =
      (if ValidateDownload (next\<lparr>dLeaseOwner := [], dLeaseUntil := None\<rparr>) = None
       then Inr (next\<lparr>dLeaseOwner := [], dLeaseUntil := None\<rparr>)
       else Inl (ErrText (the (ValidateDownload (next\<lparr>dLeaseOwner := [], dLeaseUntil := None\<rparr>)))))
    \<or> (legacy_dead_end (kDownload claim) next \<and> commit_check claim next = Inl ErrInvalidTransition)"
proof -
  from ClaimDue_success [OF assms(1)] obtain r d where
    conv: "downloadFromDB (lease_set owner (time_add now dur) r) = Inr d" and
    claim: "claim = \<lparr>kDownload = d, kOwner = owner, kState = dState d, kVersion = dRowVersion d\<rparr>" by metis
  have v: "valid_download d" by (rule downloadFromDB_valid [OF conv])
  have owner: "trim_space owner \<noteq> []" using assms(1) by (auto simp: ClaimDue_def split: if_splits)
  have hash: "dHash d \<noteq> []" using valid_download_hash [OF v] by (auto simp: validHash_def)
  have ver: "0 \<le> dRowVersion d" using v by (auto simp: ValidateDownload_def split: if_splits)
  have st: "State_Valid (dState d)" by (rule valid_download_state [OF v])
  have acc: "acceptable d next"
  proof -
    have "acceptable d (dcNext (decide c w d))" by (rule decide_acceptable)
    then show ?thesis unfolding assms(2) claim by (simp add: acceptable_updated)
  qed
  show ?thesis
  proof (cases "dState next = dState d \<or> CanTransition (dState d) (dState next)")
    case True
    with acc owner hash ver st show ?thesis
      by (auto simp: commit_check_def claim acceptable_def Let_def split: option.splits)
  next
    case False
    with acc have dead: "legacy_dead_end d next" by (simp add: acceptable_def)
    with False acc owner hash ver st show ?thesis
      by (auto simp: commit_check_def claim acceptable_def Let_def split: option.splits)
  qed
qed

end
