(* ===== verification/Webhook.thy ===== *)
theory Webhook
  imports Leases
begin

section \<open>The webhook dispatcher (internal/webhook: dispatcher, http)\<close>

text \<open>
  Configuration check, one signed HTTP attempt and its classification, the claim-deliver-commit step,
  pruning and the idle wait.  \<open>net/url\<close>, \<open>net/http\<close>, the JSON bytes and HMAC-SHA256 are functions
  of the record \<open>Net\<close>; a transport error is kept as what \<open>classifyNetworkError\<close> asks of it.
\<close>

subsection \<open>Configuration\<close>

record WConfig =
  wcOwner :: string
  wcLeaseDuration :: duration
  wcRequestTimeout :: duration
  wcWorkerCount :: int
  wcMaxIdleWait :: duration
  wcPruneInterval :: duration
  wcVersion :: string

definition webhookCommitMargin :: duration where "webhookCommitMargin = 10 * second"

definition NewDispatcher :: "WConfig \<Rightarrow> WConfig option" where
  "NewDispatcher c =
     (if trim_space (wcOwner c) = [] then None
      else if wcRequestTimeout c \<le> 0 \<or> wcLeaseDuration c \<le> wcRequestTimeout c + webhookCommitMargin then None
      else if wcWorkerCount c \<le> 0 \<or> wcMaxIdleWait c \<le> 0 \<or> wcPruneInterval c \<le> 0 then None
      else Some (if wcVersion c = [] then c\<lparr>wcVersion := ''unknown''\<rparr> else c))"

subsection \<open>One attempt\<close>

record NetFault =
  nfTimeout :: bool
  nfDeadlineExceeded :: bool
  nfTLS :: bool
  nfDial :: bool

record Request =
  rqURL :: string
  rqHeaders :: "(string \<times> string) list"
  rqBody :: Payload

record Net =
  nParse :: "string \<Rightarrow> URL option"
  nNewRequest :: "string \<Rightarrow> bool"
  nBytes :: "Payload \<Rightarrow> string"
  nHMAC :: "string \<Rightarrow> string \<Rightarrow> string"
  nDo :: "Request \<Rightarrow> NetFault + int"
  nClaimNow :: time
  nNow :: time
  nCommitNow :: time
  nIdleNow :: time
  nCancelledInDo :: bool
  nRequestDeadline :: bool
  nCancelledStep :: bool
  nCancelledIdle :: bool
  nMeanwhile :: "Db \<Rightarrow> Db"

fun event_type_text :: "EventType \<Rightarrow> string" where
  "event_type_text EventTypeCreated = ''download.created''"
| "event_type_text EventTypeStateChanged = ''download.state_changed''"
| "event_type_text EventTypeCategoryChanged = ''download.category_changed''"
| "event_type_text EventTypeCompleted = ''download.completed''"
| "event_type_text EventTypeFailed = ''download.failed''"
| "event_type_text EventTypeTest = ''webhook.test''"
| "event_type_text (EventTypeOther s) = s"

text \<open>\<open>time.Time.Unix\<close> counts whole seconds from 1970; the zero instant is in year 1.\<close>

definition unix_seconds :: "time \<Rightarrow> int" where
  "unix_seconds t = t div second - 62135596800"

definition signature :: "Net \<Rightarrow> string \<Rightarrow> int \<Rightarrow> string \<Rightarrow> string" where
  "signature net secret timestamp body = nHMAC net secret (format_int timestamp @ ''.'' @ body)"

definition validEndpointURL :: "Net \<Rightarrow> string \<Rightarrow> bool" where
  "validEndpointURL net raw =
     (case nParse net raw of
        None \<Rightarrow> False
      | Some u \<Rightarrow>
          (if (uScheme u \<noteq> ''http'' \<and> uScheme u \<noteq> ''https'') \<or> uHost u = [] then False
           else \<not> uHasUser u \<and> uFragment u = []))"

definition classifyNetworkError :: "NetFault \<Rightarrow> string" where
  "classifyNetworkError e =
     (if nfTimeout e then ErrorCategoryTimeout
      else if nfDeadlineExceeded e then ErrorCategoryTimeout
      else if nfTLS e then ErrorCategoryTLS
      else if nfDial e then ErrorCategoryConnection
      else ErrorCategoryRequest)"

definition failureResult :: "Claim \<Rightarrow> time \<Rightarrow> int \<Rightarrow> string \<Rightarrow> Result" where
  "failureResult claim now status category =
     (let next = time_add now (DeliveryDelay (clAttemptCount claim));
          result = \<lparr>rsStatus = StatusPending, rsNextAttemptAt = Some next, rsLastHTTPStatus = status,
                    rsLastError = category, rsDeliveredAt = None\<rparr>
      in case clFirstAttemptAt claim of
           None \<Rightarrow> result
         | Some first \<Rightarrow>
             (if \<not> next < time_add first RetryDeadline
              then result\<lparr>rsStatus := StatusDead, rsNextAttemptAt := None\<rparr> else result))"

definition request_of :: "WConfig \<Rightarrow> Net \<Rightarrow> Claim \<Rightarrow> Request" where
  "request_of c net claim =
     (let timestamp = unix_seconds (nNow net)
      in \<lparr>rqURL = clURL claim,
          rqHeaders =
            [(''Content-Type'', ''application/json''),
             (''User-Agent'', ''CD211/'' @ wcVersion c),
             (''X-CD211-Event'', event_type_text (clEventType claim)),
             (''X-CD211-Event-ID'', clEventID claim),
             (''X-CD211-Timestamp'', format_int timestamp),
             (''X-CD211-Signature'', ''v1='' @ signature net (clHMACSecret claim) timestamp (nBytes net (clPayload claim)))]
            @ (if clBearerToken claim \<noteq> [] then [(''Authorization'', ''Bearer '' @ clBearerToken claim)] else []),
          rqBody = clPayload claim\<rparr>)"

text \<open>\<open>None\<close> is the cancellation of the parent context, which commits nothing.\<close>

definition deliver :: "WConfig \<Rightarrow> Net \<Rightarrow> Claim \<Rightarrow> Result option" where
  "deliver c net claim =
     (let now = nNow net
      in if \<not> validEndpointURL net (clURL claim)
         then Some (failureResult claim now 0 ErrorCategoryRequest)
         else if \<not> nNewRequest net (clURL claim)
         then Some (failureResult claim now 0 ErrorCategoryRequest)
         else case nDo net (request_of c net claim) of
             Inl e \<Rightarrow>
               (if nCancelledInDo net then None
                else if nRequestDeadline net then Some (failureResult claim now 0 ErrorCategoryTimeout)
                else Some (failureResult claim now 0 (classifyNetworkError e)))
           | Inr code \<Rightarrow>
               (if 200 \<le> code \<and> code < 300
                then Some \<lparr>rsStatus = StatusSucceeded, rsNextAttemptAt = None, rsLastHTTPStatus = code,
                           rsLastError = [], rsDeliveredAt = Some now\<rparr>
                else Some (failureResult claim now code (''HTTP '' @ format_int code))))"

subsection \<open>Step, prune, wait\<close>

definition DispatchStep :: "WConfig \<Rightarrow> Env \<Rightarrow> Net \<Rightarrow> Db \<Rightarrow> (bool \<times> store_err option) \<times> Db" where
  "DispatchStep c env net db =
     (case ClaimWebhookDue env (wcOwner c) (nClaimNow net) (wcLeaseDuration c) db of
        (Inl e, db') \<Rightarrow> ((False, Some e), db')
      | (Inr None, db') \<Rightarrow> ((False, None), db')
      | (Inr (Some claim), db') \<Rightarrow>
          (let later = nMeanwhile net db'
           in case deliver c net claim of
                None \<Rightarrow> ((True, Some (ErrText ''context canceled'')), later)
              | Some result \<Rightarrow>
                  (case CommitWebhookClaim env claim result (nCommitNow net) later of
                     (Inl e, db'') \<Rightarrow>
                       (if e = ErrClaimLost then ((True, None), db'') else ((True, Some e), db''))
                   | (Inr _, db'') \<Rightarrow> ((True, None), db''))))"

definition idleWait :: "time \<Rightarrow> time option \<Rightarrow> duration \<Rightarrow> duration" where
  "idleWait now due limit =
     (case due of
        None \<Rightarrow> limit
      | Some t \<Rightarrow> (let wait = time_sub t now in if wait < 0 then 0 else if wait > limit then limit else wait))"

definition maybePrune :: "WConfig \<Rightarrow> Env \<Rightarrow> time \<Rightarrow> time \<times> Db \<Rightarrow> time \<times> Db" where
  "maybePrune c env now s =
     (case s of (lastPrune, db) \<Rightarrow>
        if \<not> time_is_zero lastPrune \<and> time_sub now lastPrune < wcPruneInterval c then (lastPrune, db)
        else (now, snd (PruneWebhookDeliveries env now db)))"

text \<open>One iteration of \<open>worker\<close>: stop, go on at once, or sleep.\<close>

datatype turn = Quit | Again | Sleep duration

definition worker_turn :: "WConfig \<Rightarrow> Env \<Rightarrow> Net \<Rightarrow> time \<times> Db \<Rightarrow> turn \<times> (time \<times> Db)" where
  "worker_turn c env net s =
     (case s of (lastPrune, db) \<Rightarrow>
      (case DispatchStep c env net db of ((claimed, err), db') \<Rightarrow>
         if nCancelledStep net then (Quit, (lastPrune, db'))
         else if err \<noteq> None then (Sleep (wcMaxIdleWait c), (lastPrune, db'))
         else if claimed then (Again, (lastPrune, db'))
         else
           (let now = nIdleNow net; s' = maybePrune c env now (lastPrune, db')
            in case NextWebhookDue env now (snd s') of
                 Inl _ \<Rightarrow> ((if nCancelledIdle net then Quit else Sleep (wcMaxIdleWait c)), s')
               | Inr due \<Rightarrow>
                   ((if nCancelledIdle net then Quit else Sleep (idleWait now due (wcMaxIdleWait c))), s'))))"

subsection \<open>Attempts end\<close>

lemma failureResult_status:
  "rsStatus (failureResult claim now status category) =
     (if clFirstAttemptAt claim \<noteq> None \<and>
         the (clFirstAttemptAt claim) + RetryDeadline \<le> now + DeliveryDelay (clAttemptCount claim)
      then StatusDead else StatusPending)"
  by (auto simp: failureResult_def Let_def time_add_def split: option.splits)

lemma failureResult_next:
  "rsNextAttemptAt (failureResult claim now status category) =
     (if rsStatus (failureResult claim now status category) = StatusDead then None
      else Some (now + DeliveryDelay (clAttemptCount claim)))"
  by (auto simp: failureResult_def Let_def time_add_def split: option.splits)

lemma DeliveryDelay_pos: "0 < DeliveryDelay a"
  using DeliveryDelay_bounds [of a] second_pos by linarith

lemma failureResult_checked: "0 < now \<Longrightarrow> result_check (failureResult claim now status category) = None"
proof -
  assume "0 < now"
  with DeliveryDelay_pos [of "clAttemptCount claim"] have "now + DeliveryDelay (clAttemptCount claim) \<noteq> 0"
    by linarith
  then show ?thesis
    by (auto simp: failureResult_def Let_def result_check_def time_is_zero_def time_add_def split: option.splits)
qed

lemma success_checked: "0 < now \<Longrightarrow> result_check \<lparr>rsStatus = StatusSucceeded, rsNextAttemptAt = None,
    rsLastHTTPStatus = code, rsLastError = [], rsDeliveredAt = Some now\<rparr> = None"
  by (simp add: result_check_def time_is_zero_def)

lemma deliver_checked: "0 < nNow net \<Longrightarrow> deliver c net claim = Some r \<Longrightarrow> result_check r = None"
  by (auto simp: deliver_def Let_def failureResult_checked success_checked split: if_splits sum.splits)

lemma deliver_status:
  "deliver c net claim = Some r \<Longrightarrow> rsStatus r \<in> {StatusSucceeded, StatusPending, StatusDead}"
  by (auto simp: deliver_def Let_def failureResult_status split: if_splits sum.splits)

lemma delay_table:
  "DeliveryDelay 1 = 30 * second" "DeliveryDelay 2 = minute" "DeliveryDelay 3 = 2 * minute"
  "DeliveryDelay 4 = 4 * minute" "DeliveryDelay 5 = 8 * minute" "DeliveryDelay 6 = 16 * minute"
  "DeliveryDelay 7 = 32 * minute" "DeliveryDelay 8 = hour" "DeliveryDelay 9 = 2 * hour"
  "DeliveryDelay 10 = 4 * hour" "DeliveryDelay 11 = 6 * hour" "DeliveryDelay 12 = 6 * hour"
  "DeliveryDelay 13 = 6 * hour"
  by (simp_all add: DeliveryDelay_def delivery_delays_def)

text \<open>Waiting out the first twelve delays takes more than 18 hours, so the thirteenth failure is the last.\<close>

lemma twelve_delays:
  assumes "\<And>i. 1 \<le> i \<Longrightarrow> i < 13 \<Longrightarrow> t i + DeliveryDelay i \<le> t (i + 1)"
  shows "t (1 :: int) + 18 * hour \<le> (t 13 :: int)"
  using assms [of 1] assms [of 2] assms [of 3] assms [of 4] assms [of 5] assms [of 6] assms [of 7]
    assms [of 8] assms [of 9] assms [of 10] assms [of 11] assms [of 12]
  by (simp add: delay_table) (simp add: hour_def minute_def second_def)

lemma dead_at_thirteen:
  assumes "\<And>i. 1 \<le> i \<Longrightarrow> i < 13 \<Longrightarrow> t i + DeliveryDelay i \<le> t (i + 1)"
    and "clFirstAttemptAt claim = Some (t 1)" "13 \<le> clAttemptCount claim" "t 13 \<le> now"
  shows "rsStatus (failureResult claim now status category) = StatusDead"
proof -
  have "6 * hour \<le> DeliveryDelay (clAttemptCount claim)"
    using DeliveryDelay_mono [OF assms(3)] by (simp add: delay_table)
  with twelve_delays [of t, OF assms(1)] assms(2,4) show ?thesis
    by (simp add: failureResult_status RetryDeadline_def)
qed

subsection \<open>The wait never oversleeps\<close>

lemma first_by_int_least:
  assumes "first_by (\<lambda>t :: int. t) ts = Some m"
  shows "m \<in> set ts" "\<forall>t \<in> set ts. m \<le> t"
  using first_by_mem [OF assms] first_by_least [OF assms] by auto

lemma due_times_now:
  "(\<exists>t \<in> set (delivery_due_times db now v). t \<le> now) \<longleftrightarrow> claimable_delivery db now v"
  by (auto simp: delivery_due_times_def claimable_delivery_def split: option.splits)

lemma NextWebhookDue_now:
  assumes "NextWebhookDue env now db = Inr due"
  shows "(\<exists>t. due = Some t \<and> t \<le> now) \<longleftrightarrow> (\<exists>v \<in> set (webhook_deliveries db). claimable_delivery db now v)"
proof -
  let ?ts = "concat (map (delivery_due_times db now) (webhook_deliveries db))"
  from assms have due: "first_by (\<lambda>t. t) ?ts = due"
    by (auto simp: NextWebhookDue_def stmt_def id_def split: if_splits option.splits)
  have "(\<exists>t. due = Some t \<and> t \<le> now) \<longleftrightarrow> (\<exists>t \<in> set ?ts. t \<le> now)"
  proof (cases due)
    case None
    with due have "?ts = []" by simp
    with None show ?thesis by (simp only: set_empty2) simp
  next
    case (Some m)
    with due first_by_int_least [of ?ts m] show ?thesis by fastforce
  qed
  also have "\<dots> \<longleftrightarrow> (\<exists>v \<in> set (webhook_deliveries db). claimable_delivery db now v)"
    using due_times_now by fastforce
  finally show ?thesis .
qed

lemma idleWait_bounds:
  "0 \<le> limit \<Longrightarrow> 0 \<le> idleWait now due limit \<and> idleWait now due limit \<le> limit \<and>
     (due = Some t \<longrightarrow> now < t \<longrightarrow> now + idleWait now due limit \<le> t)"
  by (auto simp: idleWait_def Let_def time_sub_def max_int64_def min_int64_def split: option.splits)

subsection \<open>The dispatcher runs store operations\<close>

lemma DispatchStep_run:
  assumes "\<And>db. store_run db (nMeanwhile net db)"
  shows "store_run db (snd (DispatchStep c env net db))"
proof -
  let ?b = "snd (ClaimWebhookDue env (wcOwner c) (nClaimNow net) (wcLeaseDuration c) db)"
  have b: "store_run db ?b" by (rule run_webhook_claim)
  then have m: "store_run db (nMeanwhile net ?b)" by (rule store_run_trans [OF assms])
  have "store_run db (snd (CommitWebhookClaim env claim r t (nMeanwhile net ?b)))" for claim r t
    by (rule store_run_trans [OF run_webhook_commit m])
  with b m show ?thesis
    by (auto simp: DispatchStep_def Let_def split: prod.splits sum.splits option.splits if_splits)
      (metis snd_conv)+
qed

lemma worker_turn_run:
  assumes "\<And>db. store_run db (nMeanwhile net db)"
  shows "store_run db (snd (snd (worker_turn c env net (lastPrune, db))))"
proof -
  let ?b = "snd (DispatchStep c env net db)"
  have b: "store_run db ?b" by (rule DispatchStep_run [OF assms])
  have "store_run db (snd (maybePrune c env (nIdleNow net) (lastPrune, ?b)))"
    using b store_run_trans [OF run_prune b] by (simp add: maybePrune_def)
  with b show ?thesis
    by (auto simp: worker_turn_def Let_def split: prod.splits sum.splits)
qed

text \<open>A step that ends without an error leaves the claimed delivery outside \<open>delivering\<close>.\<close>

lemma DispatchStep_done:
  assumes "\<And>db. nMeanwhile net db = db"
    and "DispatchStep c env net db = ((True, None), db')"
    and "ClaimWebhookDue env (wcOwner c) (nClaimNow net) (wcLeaseDuration c) db = (Inr (Some claim), db1)"
  obtains r where "deliver c net claim = Some r"
    "CommitWebhookClaim env claim r (nCommitNow net) db1 = (Inr (), db')
     \<or> CommitWebhookClaim env claim r (nCommitNow net) db1 = (Inl ErrClaimLost, db')"
  using assms
  by (auto simp: DispatchStep_def Let_def split: prod.splits sum.splits option.splits if_splits)

end
