(* ===== verification/Retries.thy ===== *)
theory Retries
  imports Webhook
begin

section \<open>How long a delivery is retried (internal/webhook, repository\_outbox.go)\<close>

text \<open>
  One delivery row through its attempts.  An attempt is a run of the dispatcher's step that claims the
  row in some store and either commits a failure or is abandoned (a cancelled or crashed worker leaves
  the leased row behind).  Between two attempts the rest of the store is arbitrary; the row itself is
  as the earlier attempt left it, so a replay starts a new history.  The clock may jump, but an attempt
  does not end before it is claimed.
\<close>

definition failed_attempt :: "delivery_row \<Rightarrow> delivery_row \<Rightarrow> bool" where
  "failed_attempt v w \<longleftrightarrow> (\<exists>c env net db claim leased result.
     queue_ok db \<and> v \<in> set (webhook_deliveries db)
     \<and> ClaimWebhookDue env (wcOwner c) (nClaimNow net) (wcLeaseDuration c) db = (Inr (Some claim), leased)
     \<and> clDeliveryID claim = v_id v \<and> nClaimNow net \<le> nNow net
     \<and> store_run leased (nMeanwhile net leased)
     \<and> deliver c net claim = Some result \<and> rsStatus result \<noteq> StatusSucceeded
     \<and> fst (CommitWebhookClaim env claim result (nCommitNow net) (nMeanwhile net leased)) = Inr ()
     \<and> w \<in> set (webhook_deliveries (snd (DispatchStep c env net db))) \<and> v_id w = v_id v)"

definition abandoned_attempt :: "delivery_row \<Rightarrow> delivery_row \<Rightarrow> bool" where
  "abandoned_attempt v w \<longleftrightarrow> (\<exists>env owner now dur db claim leased.
     queue_ok db \<and> v \<in> set (webhook_deliveries db)
     \<and> ClaimWebhookDue env owner now dur db = (Inr (Some claim), leased)
     \<and> clDeliveryID claim = v_id v \<and> w \<in> set (webhook_deliveries leased) \<and> v_id w = v_id v)"

inductive delivery_attempts :: "delivery_row \<Rightarrow> nat \<Rightarrow> delivery_row \<Rightarrow> bool" where
  none: "delivery_attempts v 0 v"
| failed: "delivery_attempts v n w \<Longrightarrow> failed_attempt w w' \<Longrightarrow> delivery_attempts v (Suc n) w'"
| abandoned: "delivery_attempts v n w \<Longrightarrow> abandoned_attempt w w' \<Longrightarrow> delivery_attempts v n w'"

subsection \<open>What a claim and a failed commit do to the row\<close>

text \<open>When the row may be claimed next.\<close>

definition due_at :: "delivery_row \<Rightarrow> time \<Rightarrow> bool" where
  "due_at v now \<longleftrightarrow> in_flight v \<and> (\<exists>t. v_next_attempt_at v = Some t \<and> t \<le> now)
     \<and> (\<forall>t. v_lease_until v = Some t \<longrightarrow> t \<le> now)"

definition first_attempt :: "delivery_row \<Rightarrow> time \<Rightarrow> time" where
  "first_attempt v now = (case v_first_attempt_at v of None \<Rightarrow> now | Some f \<Rightarrow> f)"

lemma claimable_due: "claimable_delivery db now v \<Longrightarrow> due_at v now"
  by (auto simp: claimable_delivery_def due_at_def split: option.splits)

lemma row_by_id:
  "queue_ok db \<Longrightarrow> v \<in> set (webhook_deliveries db) \<Longrightarrow> w \<in> set (webhook_deliveries db) \<Longrightarrow>
   v_id v = v_id w \<Longrightarrow> v = w"
  by (auto simp: queue_ok_def distinct_map inj_on_def)

lemma attempt_claimed:
  assumes "queue_ok db" "v \<in> set (webhook_deliveries db)" "clDeliveryID claim = v_id v"
    and claimed: "ClaimWebhookDue env owner now dur db = (Inr (Some claim), db')"
  shows "due_at v now" "0 < dur" "delivery_lease owner (now + dur) now v \<in> set (webhook_deliveries db')"
    "delivery_commit_where claim (delivery_lease owner (now + dur) now v)" "queue_ok db'"
    "clAttemptCount claim = v_attempt_count v + 1" "clFirstAttemptAt claim = Some (first_attempt v now)"
proof -
  from ClaimWebhook_success [OF claimed] obtain c d event endpoint where
    c: "first_by delivery_due (filter (claimable_delivery db now) (webhook_deliveries db)) = Some c"
      "deliveryFromDB (delivery_lease owner (time_add now dur) now c) = Inr d"
      "claim = delivery_claim owner d event endpoint" by metis
  have d: "deID d = v_id c" "deFirstAttemptAt d = Some (first_attempt c now)"
    using c(2) by (auto simp: deliveryFromDB_def delivery_lease_def first_attempt_def split: if_splits option.splits)
  from delivery_claim_row [OF claimed] obtain b where
    b: "b \<in> set (webhook_deliveries db)" "claimable_delivery db now b" "v_id b = clDeliveryID claim"
      "clAttemptCount claim = v_attempt_count b + 1"
      "delivery_lease owner (time_add now dur) now b \<in> set (webhook_deliveries db')"
      "delivery_commit_where claim (delivery_lease owner (time_add now dur) now b)" by metis
  have v: "v = b" by (rule row_by_id [OF assms(1,2) b(1)]) (simp add: b(3) assms(3))
  have "c \<in> set (webhook_deliveries db)" using first_by_mem [OF c(1)] by simp
  then have "v = c" by (rule row_by_id [OF assms(1,2)]) (simp add: assms(3) [symmetric] c(3) delivery_claim_def d)
  with c d show "clFirstAttemptAt claim = Some (first_attempt v now)" by (simp add: delivery_claim_def)
  show "0 < dur" using claimed by (auto simp: ClaimWebhookDue_def split: if_splits)
  show "queue_ok db'" using queue_run [OF assms(1) run_webhook_claim] claimed by (metis snd_conv)
  show "due_at v now" "delivery_lease owner (now + dur) now v \<in> set (webhook_deliveries db')"
    "delivery_commit_where claim (delivery_lease owner (now + dur) now v)"
    "clAttemptCount claim = v_attempt_count v + 1"
    using b(4,5,6) claimable_due [OF b(2)] by (simp_all add: v time_add_def)
qed

lemma delivery_commit_result:
  assumes commit: "CommitWebhookClaim env claim result now db = (Inr (), db')"
    and "queue_ok db" "v \<in> set (webhook_deliveries db)" "delivery_commit_where claim v"
    and "w \<in> set (webhook_deliveries db')" "v_id w = v_id v"
  shows "v_status w = StatusCancelled \<or> v_status w = rsStatus result \<and> v_next_attempt_at w = rsNextAttemptAt result"
    "v_first_attempt_at w = v_first_attempt_at v" "v_attempt_count w = v_attempt_count v" "v_lease_until w = None"
proof -
  let ?g = "endpoint_gone db (clEndpointID claim)"
  let ?f = "delivery_commit_set (if ?g then StatusCancelled else rsStatus result)
      (if 0 < rsLastHTTPStatus result then Some (rsLastHTTPStatus result) else None)
      (nullableString (boundDeliveryError (rsLastError result)))
      (if ?g then None else nullableTime (rsNextAttemptAt result))
      (if ?g then None else nullableTime (rsDeliveredAt result)) now"
  have "db' = db\<lparr>webhook_deliveries := sql_update (delivery_commit_where claim) ?f (webhook_deliveries db)\<rparr>"
    by (rule delivery_commit_row [OF commit]) (simp only: commit_delivery_def update_deliveries_def sum.inject prod.inject)
  then have "webhook_deliveries db' = sql_update (delivery_commit_where claim) ?f (webhook_deliveries db)"
    by (elim ssubst) (cases db, simp only: Db.update_convs Db.select_convs)
  with assms(5) obtain u where u: "u \<in> set (webhook_deliveries db)"
      "w = (if delivery_commit_where claim u then ?f u else u)"
    by (auto simp only: set_sql_update)
  then have "v_id u = v_id v" using assms(6) by (auto simp: delivery_commit_set_def split: if_splits)
  then have "u = v" by (rule row_by_id [OF assms(2) u(1) assms(3)])
  with u(2) assms(4) show "v_status w = StatusCancelled \<or> v_status w = rsStatus result \<and> v_next_attempt_at w = rsNextAttemptAt result"
    "v_first_attempt_at w = v_first_attempt_at v" "v_attempt_count w = v_attempt_count v" "v_lease_until w = None"
    by (simp_all add: delivery_commit_set_def)
qed

lemma deliver_failed:
  assumes "deliver c net claim = Some result" "rsStatus result \<noteq> StatusSucceeded"
  obtains status category where "result = failureResult claim (nNow net) status category"
  using assms by (auto simp: deliver_def Let_def split: if_splits sum.splits)

text \<open>A failed attempt: the first attempt is on record, the count went up, the lease is gone.\<close>

lemma failed_attempt_row:
  assumes "failed_attempt v w"
  obtains now fin where "due_at v now" "now \<le> fin" "v_first_attempt_at w = Some (first_attempt v now)"
    "v_attempt_count w = v_attempt_count v + 1"
    "v_status w = StatusCancelled
     \<or> v_status w = StatusDead \<and> v_next_attempt_at w = None
     \<or> v_status w = StatusPending \<and> v_next_attempt_at w = Some (fin + DeliveryDelay (v_attempt_count w))
       \<and> fin + DeliveryDelay (v_attempt_count w) < first_attempt v now + RetryDeadline"
proof -
  from assms obtain c env net db claim db' result where a:
    "queue_ok db" "v \<in> set (webhook_deliveries db)" "clDeliveryID claim = v_id v" "nClaimNow net \<le> nNow net"
    and claimed: "ClaimWebhookDue env (wcOwner c) (nClaimNow net) (wcLeaseDuration c) db = (Inr (Some claim), db')"
    and run: "store_run db' (nMeanwhile net db')"
    and r: "deliver c net claim = Some result" "rsStatus result \<noteq> StatusSucceeded"
    and committed: "fst (CommitWebhookClaim env claim result (nCommitNow net) (nMeanwhile net db')) = Inr ()"
    and w: "w \<in> set (webhook_deliveries (snd (DispatchStep c env net db)))" "v_id w = v_id v"
    unfolding failed_attempt_def by blast
  define v1 where "v1 = delivery_lease (wcOwner c) (nClaimNow net + wcLeaseDuration c) (nClaimNow net) v"
  note leased = attempt_claimed [OF a(1,2,3) claimed, folded v1_def]
  from committed obtain db2 where
    commit: "CommitWebhookClaim env claim result (nCommitNow net) (nMeanwhile net db') = (Inr (), db2)"
    by (metis prod.collapse)
  then have w2: "w \<in> set (webhook_deliveries db2)" using w(1) claimed r(1) by (simp add: DispatchStep_def)
  from delivery_lease.lease_intact [OF a(1) _ run, of claim db2] claimed commit
  obtain u where u: "u \<in> set (webhook_deliveries db')" "delivery_commit_where claim u"
      "u \<in> set (webhook_deliveries (nMeanwhile net db'))"
    by (auto simp: claims_delivery_def commits_delivery_def)
  have "u = v1"
    by (rule row_by_id [OF leased(5) u(1) leased(3)])
      (use u(2) a(3) in \<open>simp add: delivery_commit_where_def v1_def delivery_lease_def\<close>)
  with u have v1: "v1 \<in> set (webhook_deliveries (nMeanwhile net db'))" by simp
  from w(2) have "v_id w = v_id v1" by (simp add: v1_def delivery_lease_def)
  note res = delivery_commit_result [OF commit queue_run [OF leased(5) run] v1 leased(4) w2 this]
  obtain status category where f: "result = failureResult claim (nNow net) status category"
    by (rule deliver_failed [OF r])
  have first: "v_first_attempt_at v1 = Some (first_attempt v (nClaimNow net))"
    by (simp add: v1_def delivery_lease_def first_attempt_def split: option.splits)
  have count: "v_attempt_count v1 = v_attempt_count v + 1" by (simp add: v1_def delivery_lease_def)
  show ?thesis
  proof (rule that [OF leased(1) a(4)])
    show "v_first_attempt_at w = Some (first_attempt v (nClaimNow net))" "v_attempt_count w = v_attempt_count v + 1"
      using res(2,3) first count by simp_all
    then show "v_status w = StatusCancelled
     \<or> v_status w = StatusDead \<and> v_next_attempt_at w = None
     \<or> v_status w = StatusPending \<and> v_next_attempt_at w = Some (nNow net + DeliveryDelay (v_attempt_count w))
       \<and> nNow net + DeliveryDelay (v_attempt_count w) < first_attempt v (nClaimNow net) + RetryDeadline"
      using res(1) leased(6,7) by (auto simp: f failureResult_next failureResult_status split: if_splits)
  qed
qed

lemma abandoned_attempt_row:
  assumes "abandoned_attempt v w"
  obtains now dur where "due_at v now" "0 < dur" "v_first_attempt_at w = Some (first_attempt v now)"
    "v_attempt_count w = v_attempt_count v + 1" "v_next_attempt_at w = v_next_attempt_at v"
    "v_lease_until w = Some (now + dur)"
proof -
  from assms obtain env owner now dur db claim db' where a:
    "queue_ok db" "v \<in> set (webhook_deliveries db)" "clDeliveryID claim = v_id v"
    and claimed: "ClaimWebhookDue env owner now dur db = (Inr (Some claim), db')"
    and w: "w \<in> set (webhook_deliveries db')" "v_id w = v_id v"
    unfolding abandoned_attempt_def by blast
  note leased = attempt_claimed [OF a claimed]
  have "w = delivery_lease owner (now + dur) now v"
    by (rule row_by_id [OF leased(5) w(1) leased(3)]) (simp add: w(2) delivery_lease_def)
  with that [of now dur] leased(1,2) show ?thesis
    by (simp add: delivery_lease_def first_attempt_def split: option.splits)
qed

subsection \<open>The schedule\<close>

primrec waited :: "nat \<Rightarrow> duration" where
  "waited 0 = 0"
| "waited (Suc n) = waited n + DeliveryDelay (int (Suc n))"

lemma waited_thirteen: "RetryDeadline \<le> waited 13"
  by (simp add: eval_nat_numeral delay_table RetryDeadline_def) (simp add: hour_def minute_def second_def)

lemma waited_mono: "m \<le> n \<Longrightarrow> waited m \<le> waited n"
proof (induction n)
  case (Suc n)
  then show ?case using DeliveryDelay_pos [of "int (Suc n)"] by (cases "m = Suc n") auto
qed simp

text \<open>
  After \<open>n\<close> failures: at least \<open>n\<close> attempts are counted, and an unfinished row is due no earlier than
  the first \<open>n\<close> delays after its first attempt; after a failure its next attempt lies within the deadline.
\<close>

definition on_schedule :: "nat \<Rightarrow> delivery_row \<Rightarrow> bool" where
  "on_schedule n v \<longleftrightarrow> int n \<le> v_attempt_count v \<and> n \<le> 13 \<and> (v_first_attempt_at v = None \<longrightarrow> n = 0)
     \<and> (\<forall>f now. v_first_attempt_at v = Some f \<and> due_at v now \<longrightarrow> f + waited n \<le> now)
     \<and> (\<forall>f. 0 < n \<and> in_flight v \<and> v_first_attempt_at v = Some f \<longrightarrow>
          (\<exists>t. v_next_attempt_at v = Some t \<and> f + waited n \<le> t \<and> t < f + RetryDeadline))"

lemma on_schedule_below: "on_schedule n v \<Longrightarrow> in_flight v \<Longrightarrow> n < 13"
proof (rule ccontr)
  assume s: "on_schedule n v" "in_flight v" "\<not> n < 13"
  then have n: "n = 13" by (simp add: on_schedule_def)
  with s obtain f t where "v_first_attempt_at v = Some f" "f + waited 13 \<le> t" "t < f + RetryDeadline"
    by (cases "v_first_attempt_at v") (auto simp: on_schedule_def)
  with waited_thirteen show False by linarith
qed

lemma due_first: "on_schedule n v \<Longrightarrow> due_at v now \<Longrightarrow> first_attempt v now + waited n \<le> now"
  by (cases "v_first_attempt_at v") (auto simp: on_schedule_def first_attempt_def)

lemma on_schedule_failed:
  assumes s: "on_schedule n v" and "failed_attempt v w"
  shows "on_schedule (Suc n) w"
proof -
  from failed_attempt_row [OF assms(2)] obtain now fin where
    w: "due_at v now" "now \<le> fin" "v_first_attempt_at w = Some (first_attempt v now)"
      "v_attempt_count w = v_attempt_count v + 1"
    and out: "v_status w = StatusCancelled \<or> v_status w = StatusDead \<and> v_next_attempt_at w = None
     \<or> v_status w = StatusPending \<and> v_next_attempt_at w = Some (fin + DeliveryDelay (v_attempt_count w))
       \<and> fin + DeliveryDelay (v_attempt_count w) < first_attempt v now + RetryDeadline" by blast
  have n: "n < 13" using on_schedule_below [OF s] w(1) by (simp add: due_at_def)
  have count: "int (Suc n) \<le> v_attempt_count w" using s w(4) by (simp add: on_schedule_def)
  have "first_attempt v now + waited (Suc n) \<le> fin + DeliveryDelay (v_attempt_count w)"
    using due_first [OF s w(1)] w(2) DeliveryDelay_mono [OF count] by simp
  with out n count w(3) show ?thesis by (auto simp: on_schedule_def due_at_def in_flight_def)
qed

lemma on_schedule_abandoned:
  assumes s: "on_schedule n v" and "abandoned_attempt v w"
  shows "on_schedule n w"
proof -
  from abandoned_attempt_row [OF assms(2)] obtain now dur where
    w: "due_at v now" "0 < dur" "v_first_attempt_at w = Some (first_attempt v now)"
      "v_attempt_count w = v_attempt_count v + 1" "v_next_attempt_at w = v_next_attempt_at v"
      "v_lease_until w = Some (now + dur)" by blast
  have first: "first_attempt v now + waited n \<le> now" by (rule due_first [OF s w(1)])
  have "v_first_attempt_at v = Some (first_attempt v now)" if "0 < n"
    using s that by (cases "v_first_attempt_at v") (auto simp: on_schedule_def first_attempt_def)
  with s first w show ?thesis by (auto simp: on_schedule_def due_at_def)
qed

lemma delivery_on_schedule:
  assumes "delivery_attempts v n w" "v_first_attempt_at v = None" "v_attempt_count v = 0"
  shows "on_schedule n w"
  using assms
proof (induction rule: delivery_attempts.induct)
  case none
  then show ?case by (simp add: on_schedule_def)
qed (auto intro: on_schedule_failed on_schedule_abandoned)

lemma last_failure:
  assumes "delivery_attempts v n w" "v_first_attempt_at v = None" "v_attempt_count v = 0" "n = 13"
  shows "v_status w = StatusDead \<or> v_status w = StatusCancelled"
  using assms
proof (induction rule: delivery_attempts.induct)
  case (failed v n w w')
  have "on_schedule 13 w'"
    using on_schedule_failed [OF delivery_on_schedule [OF failed.hyps(1) failed.prems(1,2)] failed.hyps(2)]
      failed.prems(3) by simp
  then have "\<not> in_flight w'" using on_schedule_below by blast
  with failed_attempt_row [OF failed.hyps(2)] show ?case by (auto simp: in_flight_def)
next
  case (abandoned v n w w')
  then have "\<not> in_flight w" by (auto simp: in_flight_def)
  with abandoned_attempt_row [OF abandoned.hyps(2)] show ?case by (auto simp: due_at_def)
qed simp

end
