(* ===== verification/Store_Paths.thy ===== *)
theory Store_Paths
  imports Store_Invariants
begin

section \<open>Local trees never nest\<close>

text \<open>
  The triggers compare a workspace with save paths and legacy trees, and the unique index compares
  workspaces for equality only.  That this is enough to keep any two local trees apart rests on the
  shape of a workspace path, which every convertible row has: its last component is the hash, 40
  characters without a slash.
\<close>

lemma prefix_slash_left:
  assumes "prefix (x @ ''/'') (y @ s)" "CHR ''/'' \<notin> set s"
  shows "prefix (x @ ''/'') y"
proof -
  from assms(1) consider "prefix (x @ ''/'') y" | us where "x @ ''/'' = y @ us" "prefix us s"
    by (auto simp: prefix_append)
  then show ?thesis
  proof cases
    case 2
    show ?thesis
    proof (cases us rule: rev_cases)
      case Nil
      with 2 show ?thesis by simp
    next
      case (snoc vs c)
      with 2(1) have "c = CHR ''/''" by (metis append_assoc last_snoc)
      with snoc 2(2) assms(2) show ?thesis by (auto dest: set_mono_prefix)
    qed
  qed
qed

lemma prefix_slash_snoc:
  "prefix (x @ ''/'') (y @ ''/'') \<longleftrightarrow> x = y \<or> prefix (x @ ''/'') y"
  by (simp add: prefix_snoc)

definition hash_like :: "string \<Rightarrow> bool" where
  "hash_like h \<longleftrightarrow> length h = 40 \<and> CHR ''/'' \<notin> set h \<and> CHR ''.'' \<notin> set h"

lemma validHash_bytes:
  assumes "validHash h"
  shows "length h = 40" "\<forall>c \<in> set h. (48 \<le> byte c \<and> byte c \<le> 57) \<or> (97 \<le> byte c \<and> byte c \<le> 102)"
proof -
  have "runes h = map byte h"
    using assms by (intro runes_ascii) (auto simp: validHash_def list_all_iff)
  with assms show "length h = 40"
    "\<forall>c \<in> set h. (48 \<le> byte c \<and> byte c \<le> 57) \<or> (97 \<le> byte c \<and> byte c \<le> 102)"
    by (auto simp: validHash_def list_all_iff)
qed

lemma validHash_like: "validHash h \<Longrightarrow> hash_like h"
  using validHash_bytes [of h] by (auto simp: hash_like_def)

lemma workspace_not_marker:
  assumes "hash_like h"
  shows "r @ ''.cd211/'' @ h \<noteq> q @ ''.cd211''"
proof
  assume eq: "r @ ''.cd211/'' @ h = q @ ''.cd211''"
  have "length h = 40" using assms by (simp add: hash_like_def)
  then have "drop 34 h = ''.cd211''"
    using arg_cong [OF eq, of "\<lambda>s. take 6 (rev s)"] by (simp add: rev_drop [symmetric] take_rev drop_rev rev_swap)
  moreover have "set (drop 34 h) \<subseteq> set h" by (rule set_drop_subset)
  ultimately show False using assms by (auto simp: hash_like_def)
qed

text \<open>A workspace that lies above another one also lies above the save path of the other.\<close>

lemma workspace_below:
  assumes "path_below a (root_slash @ ''.cd211/'' @ hb)" "a = ra @ ''.cd211/'' @ ha"
    and "hash_like ha" "hash_like hb" "root_slash = ''/'' \<or> root_slash = save @ ''/''"
    and "a \<noteq> root_slash @ ''.cd211/'' @ hb"
  shows "path_below a save"
proof -
  from assms(1,6) have "prefix (a @ ''/'') ((root_slash @ ''.cd211/'') @ hb)"
    by (auto simp: path_below_def)
  then have "prefix (a @ ''/'') ((root_slash @ ''.cd211'') @ ''/'')"
    using prefix_slash_left [of a "root_slash @ ''.cd211/''" hb] assms(4) by (simp add: hash_like_def)
  then have "a = root_slash @ ''.cd211'' \<or> prefix (a @ ''/'') (root_slash @ ''.cd211'')"
    by (simp only: prefix_slash_snoc)
  moreover have "a \<noteq> root_slash @ ''.cd211''" using workspace_not_marker [OF assms(3)] assms(2) by simp
  ultimately have "prefix (a @ ''/'') root_slash"
    using prefix_slash_left [of a root_slash "''.cd211''"] by simp
  moreover have "a \<noteq> []" using assms(2) by simp
  ultimately show ?thesis
    using assms(5) prefix_slash_snoc [of a save] prefix_slash_snoc [of a "[]"]
    by (auto simp: path_below_def)
qed

lemma convertible_workspace:
  assumes "downloadFromDB r = Inr d" "r_workspace_path r = Some w" "w \<noteq> []"
  obtains root_slash where "w = root_slash @ ''.cd211/'' @ r_hash r" "hash_like (r_hash r)"
    "root_slash = ''/'' \<or> root_slash = r_save_path r @ ''/''"
proof -
  have v: "valid_download d" by (rule downloadFromDB_valid [OF assms(1)])
  have f: "dHash d = r_hash r" "dSavePath d = r_save_path r" "dWorkspacePath d = w"
    using downloadFromDB_fields [OF assms(1)] assms(2) by (simp_all add: nullString_def)
  have h: "validHash (r_hash r)" using valid_download_hash [OF v] f by simp
  have "\<not> workspace_invalid d" using valid_download_workspace [OF v] f assms(3) by simp
  moreover have "absolutePath (r_save_path r)" using valid_download_save [OF v] f by simp
  moreover have "validateWorkspaceHash (r_hash r)"
    using validHash_bytes [OF h] by (auto simp: validateWorkspaceHash_def list_all_iff)
  ultimately have "WorkspacePath (r_save_path r) (r_hash r) = Some w"
    using f by (auto simp: WorkspacePath_def workspace_invalid_def Let_def absolutePath_def)
  from WorkspacePath_shape [OF this] h that show ?thesis by (auto simp: validHash_like split: if_splits)
qed

theorem local_trees_disjoint:
  assumes "paths_ok db" "a \<in> set (downloads db)" "b \<in> set (downloads db)" "r_hash a \<noteq> r_hash b"
    and "downloadFromDB a = Inr da" "downloadFromDB b = Inr d'"
    and "local_tree a = Some x" "local_tree b = Some y" "x \<noteq> []" "y \<noteq> []"
  shows "\<not> path_nested x y"
proof -
  from assms have apart: "rows_apart a b" by (simp add: paths_ok_def)
  show ?thesis
  proof (cases "r_workspace_path a = None \<or> r_workspace_path b = None")
    case True
    with apart assms show ?thesis
      by (auto simp: rows_apart_def trees_apart_def split: option.splits)
  next
    case False
    with assms(7,8) have w: "r_workspace_path a = Some x" "r_workspace_path b = Some y"
      by (auto simp: local_tree_def split: option.splits)
    from convertible_workspace [OF assms(5) w(1) assms(9)] obtain ra where
      x: "x = ra @ ''.cd211/'' @ r_hash a" "hash_like (r_hash a)" "ra = ''/'' \<or> ra = r_save_path a @ ''/''" by blast
    from convertible_workspace [OF assms(6) w(2) assms(10)] obtain rb where
      y: "y = rb @ ''.cd211/'' @ r_hash b" "hash_like (r_hash b)" "rb = ''/'' \<or> rb = r_save_path b @ ''/''" by blast
    from apart w have ne: "x \<noteq> y" and out: "\<not> path_below y (r_save_path a)" "\<not> path_below x (r_save_path b)"
      by (auto simp: rows_apart_def)
    from workspace_below [of x rb "r_hash b" ra "r_hash a" "r_save_path b"]
      workspace_below [of y ra "r_hash a" rb "r_hash b" "r_save_path a"] x y ne out
    show ?thesis by (auto simp: path_nested_def)
  qed
qed

end
