(* ===== verification/Example.thy ===== *)
theory Example
  imports Store_Progress Reconcile_Safety Retries Store_Paths Text_Facts
begin

section \<open>A concrete run\<close>

text \<open>
  One calm environment, two submissions, one claim and one commit, and a queue with one due delivery:
  the inputs at which the properties are applied.
\<close>

definition calm :: Env where
  "calm = \<lparr>faulty = (\<lambda>_. False), floatOob = (\<lambda>_. 0), freshID = (\<lambda>s. ''id'' @ s), freshSecret = ''k''\<rparr>"

definition hash_of :: "char \<Rightarrow> string" where
  "hash_of c = replicate 40 c"

definition example_download :: "char \<Rightarrow> Download" where
  "example_download c =
     \<lparr>dHash = hash_of c, dName = ''n'', dNameOverridden = False, dSourceKind = SourceMagnet,
      dSubmissionURI = ''magnet:'', dCategory = [], dTags = [], dAutoTMM = False, dCloudFolder = ''/c'',
      dSavePath = ''/s'', dWorkspacePath = ''/s/.cd211/'' @ hash_of c, dDestinationName = [],
      dCloudTaskName = [], dCloudResultPath = [], dCopySourcePath = [], dContentPath = [],
      dIsMultiFile = None, dPrivate = None, dTotalSize = 0, dState = StateAccepted,
      dOfflineProgress = Fin 0, dCopyProgress = Fin 0, dQbitProgress = Fin 0, dLastUpstreamStatus = [],
      dLastError = [], dLastErrorCode = [], dPhaseStartedAt = 1, dOfflineStartedAt = None,
      dCopyCompletedAt = None, dNextRunAt = Some 1, dLeaseUntil = None, dLeaseOwner = [],
      dAttemptCount = 0, dDeleteFilesRequested = False, dPauseRequested = False, dCreatedAt = 1,
      dUpdatedAt = 1, dCompletedAt = None, dRemovedAt = None, dRowVersion = 0\<rparr>"

definition example_submission :: "char \<Rightarrow> Submission" where
  "example_submission c = \<lparr>subDownload = example_download c, subFiles = []\<rparr>"

lemma driver_calm [simp]: "driver_calm calm"
  by (simp add: driver_calm_def calm_def)

lemma runes_bytes: "\<forall>c \<in> set s. byte c < 128 \<Longrightarrow> runes s = map byte s"
  and utf8_bytes: "\<forall>c \<in> set s. byte c < 128 \<Longrightarrow> utf8_valid s"
  using ascii_text by blast+

lemma hash_of_valid: "validHash (hash_of (CHR ''a''))" "validHash (hash_of (CHR ''b''))"
  by (simp_all add: validHash_def hash_of_def runes_bytes list_all_iff)

lemma example_paths:
  "path_clean ''/s'' = ''/s''" "path_clean ''/c'' = ''/c''"
  "path_join [''/s'', ''.cd211'', hash_of (CHR ''a'')] = ''/s/.cd211/'' @ hash_of (CHR ''a'')"
  "path_clean (''/s/.cd211/'' @ hash_of (CHR ''a'')) = ''/s/.cd211/'' @ hash_of (CHR ''a'')"
  "path_join [''/s'', ''.cd211'', hash_of (CHR ''b'')] = ''/s/.cd211/'' @ hash_of (CHR ''b'')"
  "path_clean (''/s/.cd211/'' @ hash_of (CHR ''b'')) = ''/s/.cd211/'' @ hash_of (CHR ''b'')"
  by code_simp+

lemma example_valid: "valid_download (example_download (CHR ''a''))" "valid_download (example_download (CHR ''b''))"
  using hash_of_valid example_paths
  by (simp_all add: ValidateDownload_def example_download_def workspace_invalid_def completion_error_def Let_def
      safeComponent_def runes_bytes utf8_bytes is_control_def absolutePath_def validTaskName_def safeProblemCode_def
      progress_def time_is_zero_def requiresCloudResult_def requiresCopySource_def contains_control_def)

lemma example_submission_valid:
  "validateSubmission (example_submission (CHR ''a'')) = None"
  "validateSubmission (example_submission (CHR ''b'')) = None"
  using example_valid
  by (simp_all add: validateSubmission_def example_submission_def Let_def)
    (simp_all add: example_download_def)

lemma example_times: "times_ok (example_download c)"
  by (simp add: times_ok_def example_download_def validNullableTime_def time_is_zero_def)

abbreviation "row_a \<equiv> insertDownloadParams (example_download (CHR ''a''))"
abbreviation "row_b \<equiv> insertDownloadParams (example_download (CHR ''b''))"

lemma example_fields [simp]:
  "r_hash (insertDownloadParams (example_download c)) = hash_of c"
  "r_save_path (insertDownloadParams (example_download c)) = ''/s''"
  "r_workspace_path (insertDownloadParams (example_download c)) = Some (''/s/.cd211/'' @ hash_of c)"
  "r_state (insertDownloadParams (example_download c)) = StateAccepted"
  "r_next_run_at (insertDownloadParams (example_download c)) = Some 1"
  "r_lease_until (insertDownloadParams (example_download c)) = None"
  "r_row_version (insertDownloadParams (example_download c)) = 0"
  "r_destination_name (insertDownloadParams (example_download c)) = None"
  "dHash (example_download c) = hash_of c" "dSavePath (example_download c) = ''/s''"
  "dState (example_download c) = StateAccepted" "dRowVersion (example_download c) = 0"
  "subDownload (example_submission c) = example_download c" "subFiles (example_submission c) = []"
  by (simp_all add: insertDownloadParams_def example_download_def example_submission_def
      nullableString_def nullableTime_def time_is_zero_def)

lemma hash_of_neq [simp]: "hash_of (CHR ''a'') \<noteq> hash_of (CHR ''b'')" "hash_of (CHR ''b'') \<noteq> hash_of (CHR ''a'')"
  by (simp_all add: hash_of_def)

definition example_db :: Db where
  "example_db = snd (CreateSubmission calm (example_submission (CHR ''a'')) empty_db)"

definition example_db2 :: Db where
  "example_db2 = snd (CreateSubmission calm (example_submission (CHR ''b'')) example_db)"

lemma not_reserved: "\<not> path_reserved ''/s''"
  by code_simp

lemma example_db_run:
  "downloads example_db = [row_a]" "map ev_id (domain_events example_db) = [''id'' @ hash_of (CHR ''a'')]"
  "download_files example_db = []" "categories example_db = []"
proof -
  have "\<not> guard_rejects empty_db row_a" "\<not> index_rejects empty_db row_a"
    by (simp_all add: guard_rejects_def index_rejects_def guard_categories_def empty_db_def)
  with submission_stored [OF driver_calm example_submission_valid(1), of empty_db]
  obtain p where "CreateSubmission calm (example_submission (CHR ''a'')) empty_db =
       (Inr ((example_download (CHR ''a''))\<lparr>dPauseRequested := False\<rparr>, True),
        notify (append_event calm EventTypeCreated p (example_download (CHR ''a''))
          (empty_db\<lparr>downloads := [row_a], download_files := []\<rparr>)))"
    by (auto simp: example_times empty_db_def not_reserved)
  then show "downloads example_db = [row_a]" "map ev_id (domain_events example_db) = [''id'' @ hash_of (CHR ''a'')]"
    "download_files example_db = []" "categories example_db = []"
    by (simp_all add: example_db_def notify_def append_event_def empty_db_def calm_def)
qed

lemma path_apart: "\<not> path_below (''/s/.cd211/'' @ hash_of c) ''/s''"
  by (simp add: path_below_def)

lemma example_ids: "ev_id ` set (domain_events example_db) = {''id'' @ hash_of (CHR ''a'')}"
  using arg_cong [OF example_db_run(2), of set] by simp

lemma example_fresh: "freshID calm (hash_of (CHR ''b'')) \<notin> ev_id ` set (domain_events example_db)"
  unfolding example_ids by (simp add: calm_def)

lemma example_db2_run: "downloads example_db2 = [row_a, row_b]"
proof -
  have "\<not> guard_rejects example_db row_b" "\<not> index_rejects example_db row_b"
    by (simp_all add: guard_rejects_def index_rejects_def guard_categories_def example_db_run guard_against_def
        path_apart [simplified] legacy_tree_def index_conflict_def legacy_key_def)
  with submission_stored [OF driver_calm example_submission_valid(2), of example_db] example_fresh
  obtain p where "CreateSubmission calm (example_submission (CHR ''b'')) example_db =
       (Inr ((example_download (CHR ''b''))\<lparr>dPauseRequested := False\<rparr>, True),
        notify (append_event calm EventTypeCreated p (example_download (CHR ''b''))
          (example_db\<lparr>downloads := [row_a, row_b], download_files := []\<rparr>)))"
    by (auto simp: example_times example_db_run not_reserved sql_get_Cons)
  then show ?thesis by (simp add: example_db2_def notify_def append_event_def)
qed

lemma run_create: "store_run db (snd (CreateSubmission env s db))"
  using store_run.step [OF store_run.refl store_step.op, of db "\<lparr>orEnv = env, orOrder = undefined, orParse = undefined\<rparr>"
      "OpCreateSubmission s"] by simp

lemma example_reachable: "reachable example_db" "reachable example_db2"
  unfolding reachable_def example_db_def example_db2_def
  by (rule run_create) (rule store_run_trans [OF run_create run_create])

lemma example_convert: "downloadFromDB row_a = Inr (example_download (CHR ''a''))"
  "downloadFromDB row_b = Inr (example_download (CHR ''b''))"
  using downloadFromDB_insert [OF example_valid(1) example_times] downloadFromDB_insert [OF example_valid(2) example_times]
  by (simp_all add: example_download_def)

subsection \<open>Claim and commit\<close>

lemma trim_owner: "trim_space ''w'' \<noteq> []"
proof -
  have "decode_rune ''w'' = (119, 1)" "decode_last_rune ''w'' = (119, 1)" by code_simp+
  then have "trim_left ''w'' = ''w''" "trim_right ''w'' = ''w''"
    by (simp_all add: trim_left_fixed trim_right_fixed is_space_def)
  then show ?thesis by (simp add: trim_space_def)
qed

definition example_claim :: DownloadClaim where
  "example_claim = \<lparr>kDownload = (example_download (CHR ''a''))\<lparr>dLeaseOwner := ''w'', dLeaseUntil := Some 15, dRowVersion := 1\<rparr>,
     kOwner = ''w'', kState = StateAccepted, kVersion = 1\<rparr>"

definition leased_db :: Db where
  "leased_db = example_db\<lparr>downloads := [lease_set ''w'' 15 row_a]\<rparr>"

lemma example_claimed: "ClaimDue calm ''w'' 5 10 example_db = (Inr (Some example_claim), leased_db)"
proof -
  have due: "first_by row_due (filter (claimable_row 5) (downloads example_db)) = Some row_a"
    by (simp add: example_db_run claimable_row_def first_by_def workflow_ended_def)
  show ?thesis
    using due_row_claimed [OF driver_calm trim_owner _ _ _ due example_convert(1), of 10]
    by (simp add: example_claim_def leased_db_def example_db_run sql_update_Cons)
qed

definition example_next :: Download where
  "example_next = (kDownload example_claim)\<lparr>dAttemptCount := 1, dUpdatedAt := 6\<rparr>"

definition committed_db :: Db where
  "committed_db = leased_db\<lparr>downloads := [commitClaimParams
     (example_next\<lparr>dLeaseOwner := [], dLeaseUntil := None\<rparr>) (lease_set ''w'' 15 row_a)]\<rparr>"

lemma example_next_valid: "valid_download (example_next\<lparr>dLeaseOwner := [], dLeaseUntil := None\<rparr>)"
  using hash_of_valid(1) example_paths
  by (simp add: ValidateDownload_def example_next_def example_claim_def example_download_def workspace_invalid_def
      completion_error_def Let_def safeComponent_def runes_bytes utf8_bytes is_control_def absolutePath_def
      validTaskName_def safeProblemCode_def progress_def time_is_zero_def requiresCloudResult_def
      requiresCopySource_def contains_control_def)

lemma example_check: "commit_check example_claim example_next = Inr (example_next\<lparr>dLeaseOwner := [], dLeaseUntil := None\<rparr>)"
  using example_next_valid trim_owner
  by (simp add: commit_check_def sameClaimIdentity_def validateClaimWorkspace_def example_claim_def example_next_def
      hash_of_def)

lemma example_committed: "CommitClaim calm example_claim example_next leased_db = (Inr (), committed_db)"
proof -
  let ?next = "example_next\<lparr>dLeaseOwner := [], dLeaseUntil := None\<rparr>"
  let ?r = "lease_set ''w'' 15 row_a"
  have w: "commit_where example_claim ?r"
    by (simp add: commit_where_def example_claim_def lease_set_def)
  have rows: "downloads leased_db = [?r]" "categories leased_db = []"
    by (simp_all add: leased_db_def example_db_run)
  have upd: "sql_update (commit_where example_claim) (commitClaimParams ?next) (downloads leased_db) =
      [commitClaimParams ?next ?r]"
    by (simp add: rows w sql_update_Cons)
  have keep: "r_hash (commitClaimParams ?next ?r) = r_hash ?r"
    by (simp add: commitClaimParams_def)
  have "CommitClaim calm example_claim example_next leased_db =
      (Inr (), leased_db\<lparr>downloads := sql_update (commit_where example_claim) (commitClaimParams ?next) (downloads leased_db)\<rparr>)"
  proof (rule checked_commit_succeeds [OF driver_calm example_check])
    show "rows_affected (commit_where example_claim) (downloads leased_db) \<noteq> 0"
      by (simp add: rows w rows_affected_def)
    show "\<forall>r \<in> set (downloads leased_db). commit_where example_claim r \<longrightarrow>
        \<not> guard_rejects leased_db (commitClaimParams ?next r) \<and> \<not> index_rejects leased_db (commitClaimParams ?next r)"
      by (simp add: rows guard_rejects_def index_rejects_def guard_categories_def keep split: option.split)
    show "sql_get r_hash (dHash ?next) (sql_update (commit_where example_claim) (commitClaimParams ?next) (downloads leased_db))
        = Some (commitClaimParams ?next ?r)"
      unfolding upd by (simp add: sql_get_Cons keep) (simp add: lease_set_def example_next_def example_claim_def)
    show "downloadFromDB (commitClaimParams ?next ?r) = Inr (?next\<lparr>dRowVersion := 2\<rparr>)"
      by code_simp
    show "dState (?next\<lparr>dRowVersion := 2\<rparr>) = kState example_claim"
      by (simp add: example_next_def example_claim_def)
  qed
  then show ?thesis by (simp add: upd committed_db_def)
qed

subsection \<open>A delivery\<close>

definition example_payload :: Payload where
  "example_payload = BuildTestPayload ''e'' 1 ''hook'' 1"

definition example_endpoint :: endpoint_row where
  "example_endpoint = \<lparr>e_id = 1, e_name = ''hook'', e_url = ''http://h'', e_hmac_secret = ''k'', e_bearer_token = None,
     e_enabled = 1, e_created_at = 1, e_updated_at = 1, e_deleted_at = None, e_row_version = 0\<rparr>"

definition example_event :: event_row where
  "example_event = \<lparr>ev_sequence = 1, ev_id = ''e'', ev_type = EventTypeTest,
     ev_aggregate_type = AggregateWebhookEndpoint, ev_aggregate_id = ''1'', ev_aggregate_version = 0,
     ev_payload = example_payload, ev_occurred_at = 1\<rparr>"

definition example_delivery :: delivery_row where
  "example_delivery = \<lparr>v_id = 1, v_event_id = ''e'', v_endpoint_id = 1, v_endpoint_name = ''hook'',
     v_event_type = EventTypeTest, v_aggregate_type = AggregateWebhookEndpoint, v_aggregate_id = ''1'',
     v_status = StatusPending, v_attempt_count = 0, v_first_attempt_at = None, v_next_attempt_at = Some 1,
     v_lease_owner = None, v_lease_until = None, v_last_http_status = None, v_last_error = None,
     v_delivered_at = None, v_created_at = 1, v_updated_at = 1, v_row_version = 0\<rparr>"

definition queue_db :: Db where
  "queue_db = empty_db\<lparr>domain_events := [example_event], last_sequence := 1,
     webhook_endpoints := [example_endpoint], last_endpoint_id := 1,
     webhook_deliveries := [example_delivery], last_delivery_id := 1\<rparr>"

lemma queue_db_tables [simp]:
  "domain_events queue_db = [example_event]" "webhook_endpoints queue_db = [example_endpoint]"
  "webhook_deliveries queue_db = [example_delivery]" "last_delivery_id queue_db = 1"
  by (simp_all add: queue_db_def)

lemma queue_db_ok: "queue_ok queue_db"
  by (simp add: queue_ok_def example_event_def example_endpoint_def example_delivery_def)

lemma example_claimable: "claimable_delivery queue_db 5 example_delivery"
  by (simp add: claimable_delivery_def in_flight_def deliverable_endpoint_def blocked_def earlier_def
      example_delivery_def example_endpoint_def)

definition delivery_held :: Claim where
  "delivery_held = delivery_claim ''w''
     \<lparr>deID = 1, deEventID = ''e'', deEndpointID = 1, deEndpointName = ''hook'', deEventType = EventTypeTest,
      deAggregateType = AggregateWebhookEndpoint, deAggregateID = ''1'', deStatus = StatusDelivering,
      deAttemptCount = 1, deFirstAttemptAt = Some 5, deNextAttemptAt = Some 1, deLeaseOwner = ''w'',
      deLeaseUntil = Some 15, deLastHTTPStatus = 0, deLastError = [], deDeliveredAt = None,
      deCreatedAt = 1, deUpdatedAt = 5, deRowVersion = 1\<rparr> example_event example_endpoint"

definition held_db :: Db where
  "held_db = queue_db\<lparr>webhook_deliveries := [delivery_lease ''w'' 15 5 example_delivery]\<rparr>"

lemma delivery_claimed: "ClaimWebhookDue calm ''w'' 5 10 queue_db = (Inr (Some delivery_held), held_db)"
proof -
  have due: "first_by delivery_due (filter (claimable_delivery queue_db 5) (webhook_deliveries queue_db)) = Some example_delivery"
    by (simp add: example_claimable first_by_def)
  have conv: "deliveryFromDB (delivery_lease ''w'' 15 5 example_delivery) = Inr
     \<lparr>deID = 1, deEventID = ''e'', deEndpointID = 1, deEndpointName = ''hook'', deEventType = EventTypeTest,
      deAggregateType = AggregateWebhookEndpoint, deAggregateID = ''1'', deStatus = StatusDelivering,
      deAttemptCount = 1, deFirstAttemptAt = Some 5, deNextAttemptAt = Some 1, deLeaseOwner = ''w'',
      deLeaseUntil = Some 15, deLastHTTPStatus = 0, deLastError = [], deDeliveredAt = None,
      deCreatedAt = 1, deUpdatedAt = 5, deRowVersion = 1\<rparr>"
    by (simp add: deliveryFromDB_def delivery_lease_def example_delivery_def time_is_zero_def validNullableTime_def
        nullString_def nullTime_def)
  show ?thesis
    using due_delivery_claimed [OF driver_calm trim_owner _ _ due, of 10] conv
    by (simp add: sql_get_Cons sql_update_Cons delivery_held_def held_db_def example_event_def example_endpoint_def
        example_delivery_def)
qed

definition delivered :: Result where
  "delivered = \<lparr>rsStatus = StatusSucceeded, rsNextAttemptAt = None, rsLastHTTPStatus = 200, rsLastError = [],
     rsDeliveredAt = Some 7\<rparr>"

lemma delivery_committed: "\<exists>db'. CommitWebhookClaim calm delivery_held delivered 8 held_db = (Inr (), db')"
proof -
  have "rows_affected (delivery_commit_where delivery_held) (webhook_deliveries held_db) \<noteq> 0"
    by (simp add: rows_affected_def held_db_def delivery_commit_where_def delivery_held_def delivery_claim_def
        delivery_lease_def example_delivery_def)
  moreover have "clOwner delivery_held = ''w''" by (simp add: delivery_held_def delivery_claim_def)
  ultimately show ?thesis
    using held_delivery_committed [OF driver_calm, of delivery_held 8 delivered held_db] trim_owner
    by (auto simp: delivery_held_def delivery_claim_def delivered_def result_check_def time_is_zero_def)
qed

end
