(* ===== verification/Example_Services.thy ===== *)
theory Example_Services
  imports Authentication Submission_Facts Example
begin

section \<open>Concrete requests\<close>

text \<open>
  A token, a session, a changed password, five wrong passwords, a magnet link and a torrent: the
  inputs at which the properties of the services are applied.
\<close>

definition no_fault :: faults where
  "no_fault = (\<lambda>_. False)"

subsection \<open>Tokens and sessions\<close>

definition example_raw :: string where
  "example_raw = replicate 32 (CHR 0x00)"

definition example_token :: string where
  "example_token = token_Prefix @ b64_encode URLAlphabet example_raw"

definition example_token_row :: api_token_row where
  "example_token_row = \<lparr>t_token_hash = Hash example_token, t_token_hint = Hint token_Prefix example_token,
     t_token_secret = example_token, t_created_at = 1, t_updated_at = 1, t_row_version = 0\<rparr>"

lemma example_history: "key_history GenerateAPIToken RevokeAPIToken None [Issued example_token] (Some example_token_row)"
proof (rule key_issued [OF key_start])
  show "raw_ok (Some example_raw)" by (simp add: raw_ok_def example_raw_def SecretBytes_def)
  have "GenerateSecret token_Prefix (Some example_raw) = Some example_token"
    by (simp add: GenerateSecret_def example_token_def)
  then show "GenerateAPIToken no_fault (Some example_raw) 1 None = (Inr example_token, Some example_token_row)"
    by (simp add: GenerateAPIToken_def InsertAPIToken_def example_token_row_def no_fault_def time_is_zero_def)
qed

definition example_sid :: string where
  "example_sid = b64_encode URLAlphabet example_raw"

definition example_session_row :: session_row where
  "example_session_row = \<lparr>ss_digest = hashSID example_sid, ss_audience = AudienceQBT, ss_csrf = [],
     ss_created_at = 1, ss_expires_at = 100\<rparr>"

definition example_request :: "string list \<Rightarrow> HttpRequest" where
  "example_request auth = \<lparr>hqMethod = ''GET'', hqAuthorization = auth, hqOrigin = [], hqTLS = False,
     hqHost = ''h'', hqRemoteAddr = ''1.2.3.4:5'', hqSID = Some example_sid\<rparr>"

definition example_front :: Front where
  "example_front = \<lparr>frParse = (\<lambda>_. None), frEqualFold = (=)\<rparr>"

definition session_config :: SessionConfig where
  "session_config = \<lparr>scTTL = 90, scRefreshInterval = 10, scCapacity = 5\<rparr>"

definition example_auth :: AuthState where
  "example_auth = \<lparr>asOperator = None, asQBTKey = None, asAPIToken = None,
     asSessions = [example_session_row], asLogins = []\<rparr>"

lemma example_sid_valid: "validSID example_sid"
  by (auto simp: validSID_iff example_sid_def example_raw_def tokenBytes_def intro!: exI [of _ "replicate 32 (CHR 0x00)"])

lemma hash_sid_length [simp]: "length (hashSID s) = 32"
  by (simp add: hashSID_def)

lemma example_session_run: "session_run 5 [] [hashSID example_sid] [example_session_row]"
proof (rule run_created [OF run_start])
  show "CreateSession no_fault (hashSID example_sid)
      \<lparr>snAudience = AudienceQBT, snCSRFToken = [], snCreatedAt = 1, snExpiresAt = 100\<rparr> 1 5 [] = (Inr True, [example_session_row])"
    by (simp add: CreateSession_def no_fault_def get_session_row_def purge_expired_def make_room.simps insert_session_def
        example_session_row_def session_checks_def time_is_zero_def Let_def)
qed

lemma example_served:
  "authBoundary no_fault example_front session_config (\<lambda>_ rows. rows) 5 (example_request []) example_auth =
    (Served \<lparr>pKind = QBTClientPrincipal, pMethod = SessionMethod\<rparr> None, example_auth)"
proof -
  have "example_sid \<noteq> []" using example_sid_valid by (auto simp: validSID_def encodedLen_def tokenBytes_def)
  moreover have "GetSID no_fault session_config (\<lambda>_ rows. rows) example_sid AudienceQBT 5 [example_session_row] =
      (SessionFound \<lparr>snAudience = AudienceQBT, snCSRFToken = [], snCreatedAt = 1, snExpiresAt = 100\<rparr> False, [example_session_row])"
    using example_sid_valid
    by (simp add: GetSID_def expire_def GetSession_def get_session_row_def no_fault_def example_session_row_def sessionFromDB_def
        session_checks_def session_config_def time_add_def time_is_zero_def Let_def)
  ultimately show ?thesis
    by (simp add: authBoundary_def session_boundary_def example_request_def example_auth_def browserOriginAllowed_def)
qed

lemma example_logout:
  "logout no_fault True (example_request []) example_auth = (LogoutDone, example_auth\<lparr>asSessions := []\<rparr>)"
  by (simp add: logout_def example_request_def RevokeSID_def RevokeSession_def revoke_session_row_def no_fault_def
      example_auth_def example_session_row_def)

subsection \<open>Passwords\<close>

lemma example_change:
  obtains table table' where "ChangePassword no_fault (Some salt) ''old'' ''new'' 1 table = (Inr (), table')"
proof -
  obtain old where old: "HashPassword (Some salt) ''old'' = Inr old" "old \<noteq> []"
    using HashPassword_defined [of salt "''old''"] by blast
  obtain new where new: "HashPassword (Some salt) ''new'' = Inr new" "new \<noteq> []"
    using HashPassword_defined [of salt "''new''"] by blast
  have "VerifyCredentials no_fault Username ''old'' (Some \<lparr>op_password_hash = old, op_updated_at = 1\<rparr>) = Inr True"
    using verify_hashed [OF old(1)] old(2) by (simp add: VerifyCredentials_def GetOperatorPasswordHash_def no_fault_def)
  with new have "ChangePassword no_fault (Some salt) ''old'' ''new'' 1 (Some \<lparr>op_password_hash = old, op_updated_at = 1\<rparr>) =
      (Inr (), Some \<lparr>op_password_hash = new, op_updated_at = 1\<rparr>)"
    by (simp add: ChangePassword_def SetOperatorPasswordHash_def no_fault_def)
  then show ?thesis by (rule that)
qed

subsection \<open>Wrong passwords\<close>

lemma example_address: "clientAddress ''1.2.3.4:5'' = ''1.2.3.4''"
proof -
  have "trim_space ''1.2.3.4:5'' = ''1.2.3.4:5''" by (rule trim_ascii) (simp_all add: is_space_def)
  then show ?thesis by (simp add: clientAddress_def SplitHostPort_def)
qed

lemma example_fits: "fits 5 (replicate 4 (1, ''1.2.3.4:5'', False) @ [(1, ''1.2.3.4:5'', False)]) []"
  by (simp add: fits_def addresses_def example_address)

lemma example_failures: "failures ''1.2.3.4'' (replicate 4 (1, ''1.2.3.4:5'', False)) = 4"
  by (simp add: failures_def example_address)

subsection \<open>A magnet link and a torrent\<close>

definition example_limits :: Limits where
  "example_limits = \<lparr>MaxInputBytes = 1000, MaxInfoBytes = 1000, MaxFiles = 10, MaxNameBytes = 100, MaxPathBytes = 100,
     MaxComponentBytes = 100, MaxTrackerCount = 10, MaxTrackerBytes = 100, MaxTotalSize = 1000\<rparr>"

definition magnet_url :: "string \<Rightarrow> MetaURL" where
  "magnet_url q = \<lparr>muScheme = ''magnet'', muRawQuery = q, muHostname = [], muHasUser = False, muFragment = [],
     muString = (\<lambda>q. ''magnet:?'' @ q)\<rparr>"

definition example_metainfo :: Metainfo where
  "example_metainfo = \<lparr>miInfoBytes = 1, miInfo = Some \<lparr>tiHasV1 = True, tiPieceLength = 1, tiPrivate = None, tiBestName = ''n'',
     tiLength = 7, tiFiles = None, tiUpverted = []\<rparr>, miAnnounce = [], miHash = hash_of (CHR ''a'')\<rparr>"

definition example_lib :: MetaLib where
  "example_lib = \<lparr>mlParse = (\<lambda>s. if has_prefix s ''magnet:?'' then Some (magnet_url (drop 8 s)) else None),
     mlLoad = (\<lambda>_. Some example_metainfo)\<rparr>"

definition example_magnet :: string where
  "example_magnet = ''magnet:?xt=urn:btih:'' @ hash_of (CHR ''a'') @ ''&dn=n''"

definition magnet_result :: MetaResult where
  "magnet_result = \<lparr>mrHash = hash_of (CHR ''a''), mrName = ''n'', mrMagnet = canonicalMagnet (hash_of (CHR ''a'')) ''n'' [],
     mrTotalSize = 0, mrMultiFile = False, mrPrivate = None, mrFiles = []\<rparr>"

definition torrent_result :: MetaResult where
  "torrent_result = \<lparr>mrHash = hash_of (CHR ''a''), mrName = ''n'', mrMagnet = canonicalMagnet (hash_of (CHR ''a'')) ''n'' [],
     mrTotalSize = 7, mrMultiFile = False, mrPrivate = Some False,
     mrFiles = [\<lparr>mfIndex = 0, mfRelativePath = ''n'', mfSize = 7\<rparr>]\<rparr>"

lemma example_lib_parses: "parses_magnets example_lib"
  by (simp add: parses_magnets_def example_lib_def magnet_url_def has_prefix_def)

lemma example_name_ok: "validateName ''n'' example_limits = None"
  by (simp add: validateName_def meta_safe_iff safeComponent_def example_limits_def runes_bytes utf8_bytes is_control_def)

lemma example_limits_ok: "validateLimits example_limits = None"
  by (simp add: validateLimits_def example_limits_def)

lemma example_torrent: "ParseTorrent example_lib [] example_limits = Inr torrent_result"
  using example_name_ok example_limits_ok
  by (simp add: ParseTorrent_def example_lib_def example_metainfo_def torrentTrackers_def normalizeTrackers_def singleFile_def
      torrent_result_def example_limits_def Let_def)

lemma example_query: "ParseQuery (drop 8 example_magnet) =
    ([(''xt'', ''urn:btih:'' @ hash_of (CHR ''a'')), (''dn'', ''n'')], True)"
  by code_simp

lemma example_hash: "magnetV1Hash [''urn:btih:'' @ hash_of (CHR ''a'')] = Inr (hash_of (CHR ''a''), True)"
  by code_simp

lemma example_parsed: "ParseMagnet example_lib example_magnet example_limits = Inr magnet_result"
proof -
  have "utf8_valid (''urn:btih:'' @ hash_of (CHR ''a''))" by (simp add: utf8_bytes hash_of_def)
  then have "list_all (\<lambda>(k, v). utf8_valid k \<and> utf8_valid v) [(''xt'', ''urn:btih:'' @ hash_of (CHR ''a'')), (''dn'', ''n'')]"
    by (simp add: utf8_bytes)
  moreover have "magnetName [''n''] (hash_of (CHR ''a'')) example_limits = Inr ''n''"
    using example_name_ok by (simp add: magnetName_def utf8_bytes)
  moreover have "mlParse example_lib example_magnet = Some (magnet_url (drop 8 example_magnet))"
    by (simp add: example_lib_def example_magnet_def has_prefix_def)
  moreover have "int (length example_magnet) \<le> 1000" by (simp add: example_magnet_def hash_of_def)
  ultimately show ?thesis
    using example_limits_ok example_query example_hash
    by (simp add: ParseMagnet_def magnet_url_def equal_fold_def ascii_lower_def query_values_def normalizeTrackers_def magnet_result_def
        example_limits_def)
qed

lemma example_canonical_length: "length (mrMagnet magnet_result) \<le> 1000"
proof -
  have "length (mrMagnet magnet_result) \<le> 100" by code_simp
  then show ?thesis by simp
qed

definition submit_world :: SubmitWorld where
  "submit_world = \<lparr>swMeta = example_lib, swSettings = None, swRoots = None, swVerify = (\<lambda>_ _. None), swLower = id,
     swNow = 1, swMeanwhile = id\<rparr>"

definition example_service :: SubmitConfig where
  "example_service = \<lparr>scCloudRoot = ''/c'', scLocalRoot = ''/s'', scLimits = example_limits\<rparr>"

definition plain_options :: Options where
  "plain_options = \<lparr>opRename = None, opTags = None, opAutoTMM = None, opSavePath = None\<rparr>"

definition torrent_submission :: Submission where
  "torrent_submission = \<lparr>subDownload = fresh_download torrent_result SourceTorrent [] ''/c'' ''/s'' (''/s/.cd211/'' @ hash_of (CHR ''a'')) 1 plain_options,
     subFiles = [\<lparr>fDownloadHash = hash_of (CHR ''a''), fIndex = 0, fRelativePath = ''n'', fSize = 7, fPriority = 0\<rparr>]\<rparr>"

lemma example_service_ok: "NewService example_service = None"
  using example_paths by (simp add: NewService_def example_service_def validCloudRoot_def validLimits_def example_limits_def)

lemma submit_world_sane: "world_sane submit_world"
  by (auto simp: world_sane_def submit_world_def example_lib_def magnet_url_def time_is_zero_def split: if_splits)

lemma example_submission_paths: "submissionPaths example_service submit_world calm db [] = Inr ([], ''/c'', ''/s'')"
  by (simp add: submissionPaths_def CanonicalCategory_def submit_world_def example_service_def trim_space_Nil)

lemma example_prepared:
  "prepare_submission example_service submit_world calm empty_db torrent_result SourceTorrent ([], ''/c'', ''/s'') False plain_options =
     Inr torrent_submission"
proof -
  have "WorkspacePath ''/s'' (hash_of (CHR ''a'')) = Some (''/s/.cd211/'' @ hash_of (CHR ''a''))"
    using example_paths by (simp add: WorkspacePath_def validateWorkspaceHash_def hash_of_def list_all_iff)
  then show ?thesis
    by (simp add: prepare_submission_def add_setting_trackers_def check_options_def chosen_save_path_def prepareRetainedContent_def
        GetDownload_def apply_last_def torrent_submission_def submission_files_def submit_world_def plain_options_def
        torrent_result_def empty_db_def calm_def stmt_def Let_def)
qed

lemma example_printable: "printable (subDownload torrent_submission)"
  by (simp add: printable_def c1_free_def torrent_submission_def fresh_download_def torrent_result_def plain_options_def runes_bytes)

end
