(* ===== verification/Example_Steps.thy ===== *)
theory Example_Steps
  imports Example Store_Facts
begin

section \<open>Concrete steps\<close>

text \<open>
  An overtaken lease on the concrete run, a world in which every interface answers, and downloads in
  the states where a decision deletes, copies and completes.
\<close>

subsection \<open>A lease that is taken over\<close>

lemma trim_other: "trim_space ''v'' \<noteq> []"
proof -
  have "decode_rune ''v'' = (118, 1)" "decode_last_rune ''v'' = (118, 1)" by code_simp+
  then have "trim_left ''v'' = ''v''" "trim_right ''v'' = ''v''"
    by (simp_all add: trim_left_fixed trim_right_fixed is_space_def)
  then show ?thesis by (simp add: trim_space_def)
qed

definition overtaking_claim :: DownloadClaim where
  "overtaking_claim = \<lparr>kDownload = (example_download (CHR ''a''))\<lparr>dLeaseOwner := ''v'', dLeaseUntil := Some 30, dRowVersion := 2\<rparr>,
     kOwner = ''v'', kState = StateAccepted, kVersion = 2\<rparr>"

definition overtaken_db :: Db where
  "overtaken_db = leased_db\<lparr>downloads := [lease_set ''v'' 30 (lease_set ''w'' 15 row_a)]\<rparr>"

lemma overtaken: "ClaimDue calm ''v'' 20 10 leased_db = (Inr (Some overtaking_claim), overtaken_db)"
proof -
  let ?r = "lease_set ''w'' 15 row_a"
  have due: "first_by row_due (filter (claimable_row 20) (downloads leased_db)) = Some ?r"
    by (simp add: leased_db_def claimable_row_def first_by_def workflow_ended_def lease_set_def)
  have conv: "downloadFromDB ?r = Inr ((example_download (CHR ''a''))\<lparr>dLeaseOwner := ''w'', dLeaseUntil := Some 15, dRowVersion := 1\<rparr>)"
    using downloadFromDB_lease [OF example_convert(1), of "''w''" 15] by simp
  show ?thesis
    using due_row_claimed [OF driver_calm trim_other _ _ _ due conv, of 10]
    by (simp add: overtaking_claim_def overtaken_db_def leased_db_def sql_update_Cons)
qed

lemma leased_reachable: "reachable leased_db" "reachable committed_db" "reachable overtaken_db"
proof -
  show l: "reachable leased_db"
    using run_claim [of example_db calm "''w''" 5 10] example_reachable(1) store_run_trans
    by (auto simp: example_claimed reachable_def)
  show "reachable committed_db"
    using run_commit [of leased_db calm example_claim example_next] l store_run_trans
    by (auto simp: example_committed reachable_def)
  show "reachable overtaken_db"
    using run_claim [of leased_db calm "''v''" 20 10] l store_run_trans
    by (auto simp: overtaken reachable_def)
qed

subsection \<open>A world that answers\<close>

definition example_config :: Config where
  "example_config = \<lparr>cfgOwner = ''w'', cfgLeaseDuration = 60 * second, cfgPollInterval = 30 * second,
     cfgOfflineTimeout = 24 * hour, cfgCopyTimeout = 24 * hour, cfgVerifyTimeout = hour, cfgWorkerCount = 4\<rparr>"

definition example_world :: World where
  "example_world =
     \<lparr>wEnsureOffline = (\<lambda>uri folder h. Inr \<lparr>otName = [], otInfoHash = h, otSourcePath = [], otState = OfflineInit,
        otProgress = Fin 0, otSize = 0\<rparr>),
      wInspectOffline = (\<lambda>folder h. Inr None),
      wInspectContent = (\<lambda>p. Inr \<lparr>coKind = ContentDirectory, coSize = 0\<rparr>),
      wCancelOffline = (\<lambda>folder h. None),
      wEnsureCopy = (\<lambda>source target. Inr \<lparr>ctSourcePath = source, ctDestinationPath = target, ctState = CopyPending,
        ctProgress = Fin 0\<rparr>),
      wInspectCopy = (\<lambda>source target. Inr None),
      wRemoveCopy = (\<lambda>source target. None),
      wVerify = (\<lambda>p expected. Inr \<lparr>vcPath = p, vcSize = 0\<rparr>),
      wVerifyUnknownType = (\<lambda>p name. Inr \<lparr>ucPath = p @ ''/'' @ name, ucSize = 7, ucMultiFile = False\<rparr>),
      wInspectCandidate = (\<lambda>p name. Inr False),
      wDelete = (\<lambda>p q. None),
      wPrepareWorkspace = (\<lambda>save h. Inr (save @ ''/.cd211/'' @ h)),
      wDeleteWorkspace = (\<lambda>save h. None),
      wApplyFilePlan = None,
      wFiles = (\<lambda>h. Inr []),
      wOverrides = None,
      wNow = 10, wOfflineStarted = 10, wRetryNow = 10, wClaimNow = 5, wUpdated = 11, wUpdatedAgain = 12,
      wCancelled = False, wDeadline = False, wMeanwhile = (\<lambda>db. db)\<rparr>"

text \<open>The example download, on its way: about to copy, paused with the copy removed, about to verify.\<close>

definition copying :: Download where
  "copying = (example_download (CHR ''a''))\<lparr>dState := StateSubmittingCopy, dCloudTaskName := ''t'',
     dCloudResultPath := ''/c/t'', dCopySourcePath := ''/c/t'', dDestinationName := ''t'',
     dLastUpstreamStatus := destinationClear\<rparr>"

definition pausing :: Download where
  "pausing = copying\<lparr>dState := StateCancelRequested, dPauseRequested := True,
     dLastUpstreamStatus := UpstreamCopyRemoved\<rparr>"

definition verifying :: Download where
  "verifying = copying\<lparr>dState := StateVerifyingLocal, dLastUpstreamStatus := UpstreamCopyCompleted\<rparr>"

lemma copying_fields [simp]:
  "dState copying = StateSubmittingCopy" "dPhaseStartedAt copying = 1" "dCloudResultPath copying = ''/c/t''"
  "dCopySourcePath copying = ''/c/t''" "dDestinationName copying = ''t''"
  "dLastUpstreamStatus copying = destinationClear" "dHash copying = hash_of (CHR ''a'')" "dSavePath copying = ''/s''"
  "dWorkspacePath copying = ''/s/.cd211/'' @ hash_of (CHR ''a'')" "dContentPath copying = []"
  by (simp_all add: copying_def) (simp_all add: example_download_def)

lemma copying_workspace: "WorkspacePath ''/s'' (hash_of (CHR ''a'')) = Some (''/s/.cd211/'' @ hash_of (CHR ''a''))"
  using hash_of_valid(1) example_paths validHash_bytes [OF hash_of_valid(1)]
  by (auto simp: WorkspacePath_def validateWorkspaceHash_def list_all_iff Let_def is_abs_def)

lemma world_answers [simp]:
  "wNow example_world = 10" "wPrepareWorkspace example_world save h = Inr (save @ ''/.cd211/'' @ h)"
  "wEnsureCopy example_world source dest = Inr \<lparr>ctSourcePath = source, ctDestinationPath = dest, ctState = CopyPending,
     ctProgress = Fin 0\<rparr>"
  "wDeleteWorkspace example_world save h = None"
  "wVerifyUnknownType example_world p name = Inr \<lparr>ucPath = p @ ''/'' @ name, ucSize = 7, ucMultiFile = False\<rparr>"
  by (simp_all add: example_world_def)

lemma early: "0 < limit \<Longrightarrow> dPhaseStartedAt d = 1 \<Longrightarrow> 10 < limit \<Longrightarrow> \<not> timedOut d 10 limit"
  by (simp add: timedOut_def time_sub_def max_int64_def min_int64_def)

lemma limits [simp]: "10 < cfgCopyTimeout example_config" "10 < cfgVerifyTimeout example_config"
  by (simp_all add: example_config_def hour_def minute_def second_def)

lemma copying_early [simp]: "\<not> timedOut copying 10 (cfgCopyTimeout example_config)"
  by (rule early) (simp_all add: example_config_def hour_def minute_def second_def)

lemma copying_copies: "EffEnsureCopy ''/c/t'' (''/s/.cd211/'' @ hash_of (CHR ''a''))
    \<in> set (dcEffects (decide example_config example_world copying))"
proof -
  have "prepareWorkspace example_world copying = (None, [EffPrepareWorkspace ''/s'' (hash_of (CHR ''a''))])"
    by (simp add: prepareWorkspace_def copying_workspace)
  then have "\<exists>x y z. decide_ensure_copy example_config example_world copying =
      decided ''ensure_copy'' x (y # [EffEnsureCopy ''/c/t'' (''/s/.cd211/'' @ hash_of (CHR ''a''))])"
    by (auto simp: decide_ensure_copy_def Let_def workspaceRoot_def)
  then show ?thesis
    by (auto simp: decide_def decide_submitting_copy_def Let_def trim_prefix_def copyRemovalCompleted_def
        has_prefix_def decided_def)
qed

lemma pausing_deletes: "EffDeleteWorkspace ''/s'' (hash_of (CHR ''a''))
    \<in> set (dcEffects (decide example_config example_world pausing))"
  by (simp add: pausing_def decide_def cancel_download_def pause_download_def Let_def copyRemovalCompleted_def decided_def)

lemma verifying_early [simp]: "\<not> timedOut verifying 10 (cfgVerifyTimeout example_config)"
  by (rule early) (simp_all add: verifying_def example_config_def hour_def minute_def second_def)

lemma verifying_completes: "dState (dcNext (decide example_config example_world verifying)) = StateCompleted"
  "dcErr (decide example_config example_world verifying) = None"
proof -
  have "dState verifying = StateVerifyingLocal" "dSourceKind verifying = SourceMagnet"
    by (simp_all add: verifying_def) (simp add: copying_def example_download_def)
  then show "dState (dcNext (decide example_config example_world verifying)) = StateCompleted"
    "dcErr (decide example_config example_world verifying) = None"
    by (simp_all add: decide_def decide_verifying_def Let_def verifyAndRecord_def decided_def complete_def)
qed

subsection \<open>A manifest, and the webhook queue further on\<close>

definition example_manifest :: "DownloadFile list" where
  "example_manifest =
     [\<lparr>fDownloadHash = ''h'', fIndex = 0, fRelativePath = ''a'', fSize = 1, fPriority = 1\<rparr>,
      \<lparr>fDownloadHash = ''h'', fIndex = 1, fRelativePath = ''b'', fSize = 2, fPriority = 1\<rparr>]"

lemma example_manifest_total: "manifest_total ''h'' 0 [] 0 example_manifest = Some 3"
proof -
  have "path_clean ''a'' = ''a''" "path_clean ''b'' = ''b''" by code_simp+
  then show ?thesis
    by (simp add: example_manifest_def manifest_path_ok_def is_abs_def has_prefix_def utf8_bytes contains_control_def
        runes_bytes is_control_def max_int64_def)
qed

lemma queue_next_due: "NextWebhookDue calm 5 queue_db = Inr (Some 1)"
  by (simp add: NextWebhookDue_def delivery_due_times_def first_by_def time_is_zero_def deliverable_endpoint_def
      example_delivery_def example_endpoint_def in_flight_def blocked_def earlier_def)

lemma example_next_due: "NextDue calm 5 example_db = Inr (Some 1)"
  by (simp add: NextDue_def due_times_def example_db_run first_by_def time_is_zero_def workflow_ended_def)

lemma queue_pruned: "PruneWebhookDeliveries calm 5 queue_db = (Inr 0, snd (PruneWebhookDeliveries calm 5 queue_db))"
  by (simp add: PruneWebhookDeliveries_def exec_wrapped_def auto_commit_def PruneDeliveries_def time_is_zero_def
     prunable_def rows_affected_def example_delivery_def)

definition delivery_reheld :: Claim where
  "delivery_reheld = delivery_held\<lparr>clOwner := ''w'', clVersion := 2, clAttemptCount := 2\<rparr>"

definition reheld_db :: Db where
  "reheld_db = held_db\<lparr>webhook_deliveries := [delivery_lease ''w'' 30 20 (delivery_lease ''w'' 15 5 example_delivery)]\<rparr>"

lemma delivery_reclaimed: "ClaimWebhookDue calm ''w'' 20 10 held_db = (Inr (Some delivery_reheld), reheld_db)"
proof -
  let ?v = "delivery_lease ''w'' 15 5 example_delivery"
  have rows: "webhook_deliveries held_db = [?v]" "domain_events held_db = [example_event]"
    "webhook_endpoints held_db = [example_endpoint]" by (simp_all add: held_db_def)
  have "claimable_delivery held_db 20 ?v"
    by (simp add: claimable_delivery_def in_flight_def deliverable_endpoint_def blocked_def earlier_def rows
      example_delivery_def example_endpoint_def delivery_lease_def)
  then have due: "first_by delivery_due (filter (claimable_delivery held_db 20) (webhook_deliveries held_db)) = Some ?v"
    by (simp add: rows first_by_def)
  have conv: "deliveryFromDB (delivery_lease ''w'' 30 20 ?v) = Inr
     \<lparr>deID = 1, deEventID = ''e'', deEndpointID = 1, deEndpointName = ''hook'', deEventType = EventTypeTest,
      deAggregateType = AggregateWebhookEndpoint, deAggregateID = ''1'', deStatus = StatusDelivering,
      deAttemptCount = 2, deFirstAttemptAt = Some 5, deNextAttemptAt = Some 1, deLeaseOwner = ''w'',
      deLeaseUntil = Some 30, deLastHTTPStatus = 0, deLastError = [], deDeliveredAt = None,
      deCreatedAt = 1, deUpdatedAt = 20, deRowVersion = 2\<rparr>"
    by (simp add: deliveryFromDB_def delivery_lease_def example_delivery_def time_is_zero_def validNullableTime_def
        nullString_def nullTime_def)
  show ?thesis
    using due_delivery_claimed [OF driver_calm trim_owner _ _ due, of 10] conv rows
    by (simp add: sql_get_Cons sql_update_Cons delivery_reheld_def delivery_held_def delivery_claim_def held_db_def
      reheld_db_def example_event_def example_endpoint_def example_delivery_def delivery_lease_def)
qed

subsection \<open>A delivery attempt that fails\<close>

text \<open>The endpoint's address does not parse.\<close>

definition sender :: WConfig where
  "sender = \<lparr>wcOwner = ''w'', wcLeaseDuration = 10, wcRequestTimeout = 1, wcWorkerCount = 1, wcMaxIdleWait = 1,
     wcPruneInterval = 1, wcVersion = ''1''\<rparr>"

definition broken_net :: Net where
  "broken_net = \<lparr>nParse = (\<lambda>_. None), nNewRequest = (\<lambda>_. True), nBytes = (\<lambda>_. []), nHMAC = (\<lambda>_ _. []),
     nDo = (\<lambda>_. Inr 500), nClaimNow = 5, nNow = 6, nCommitNow = 7, nIdleNow = 7, nCancelledInDo = False,
     nRequestDeadline = False, nCancelledStep = False, nCancelledIdle = False, nMeanwhile = id\<rparr>"

lemma attempt_fails: "\<exists>w. failed_attempt example_delivery w \<and> v_status w = StatusPending"
proof -
  let ?r = "failureResult delivery_held 6 0 ErrorCategoryRequest"
  have d: "deliver sender broken_net delivery_held = Some ?r"
    by (simp add: deliver_def validEndpointURL_def broken_net_def)
  have held: "clAttemptCount delivery_held = 1" "clFirstAttemptAt delivery_held = Some 5"
      "clOwner delivery_held = ''w''" "clDeliveryID delivery_held = 1" "clEndpointID delivery_held = 1"
      "clVersion delivery_held = 1"
    by (simp_all add: delivery_held_def delivery_claim_def)
  have pending: "rsStatus ?r = StatusPending"
    by (simp add: failureResult_status held delay_table RetryDeadline_def) (simp add: hour_def minute_def second_def)
  have "rows_affected (delivery_commit_where delivery_held) (webhook_deliveries held_db) \<noteq> 0"
    by (simp add: rows_affected_def held_db_def delivery_commit_where_def held
        delivery_lease_def example_delivery_def)
  then obtain db' where c: "CommitWebhookClaim calm delivery_held ?r 7 held_db = (Inr (), db')"
    using held_delivery_committed [OF driver_calm, of delivery_held 7 ?r held_db] trim_owner
    by (auto simp: held time_is_zero_def failureResult_checked)
  have gone: "\<not> endpoint_gone held_db 1"
    by (simp add: endpoint_gone_def held_db_def sql_get_def example_endpoint_def)
  from delivery_commit_hit [OF c] held gone pending obtain w where
    w: "w \<in> set (webhook_deliveries db')" "v_id w = 1" "v_status w = StatusPending" by metis
  have "snd (DispatchStep sender calm broken_net queue_db) = db'"
    using delivery_claimed c d by (simp add: DispatchStep_def sender_def broken_net_def)
  then have "failed_attempt example_delivery w"
    unfolding failed_attempt_def using queue_db_ok delivery_claimed d pending c w
    by (intro exI [of _ sender] exI [of _ calm] exI [of _ broken_net] exI [of _ queue_db] exI [of _ delivery_held]
        exI [of _ held_db] exI [of _ ?r])
      (simp add: sender_def broken_net_def held example_delivery_def store_run.refl)
  with w(3) show ?thesis by blast
qed

end
