(* ===== verification/File_System.thy ===== *)
theory File_System
  imports Text_Facts
begin

section \<open>A file system\<close>

text \<open>
  Directories, regular files, symbolic links and special files under one root, as a table from
  absolute component lists to nodes; the lookup of names follows links as POSIX prescribes.  A file
  carries its size and an identity, so that a rename can be told from a copy.  Permissions and times are
  not represented; a call that the system refuses is a fault of the caller's environment.
\<close>

subsection \<open>Nodes and errors\<close>

datatype errno =
    ENOENT | EACCES | EPERM | EROFS | EIO | ESTALE | EBUSY | ETIMEDOUT | ENOTDIR | EISDIR | EEXIST | ENOTEMPTY
  | ELOOP | EEscapes | EOther nat

datatype node = NFile int nat | NDir | NLink string | NSpecial

type_synonym fpath = "string list"
type_synonym fsys = "(fpath \<times> node) list"

definition fs_at :: "fsys \<Rightarrow> fpath \<Rightarrow> node option" where
  "fs_at fs p = (if p = [] then Some NDir else map_of fs p)"

fun is_link :: "node \<Rightarrow> bool" where
  "is_link (NLink t) = True"
| "is_link n = False"

fun is_regular :: "node \<Rightarrow> bool" where
  "is_regular (NFile n i) = True"
| "is_regular n = False"

fun node_size :: "node \<Rightarrow> int" where
  "node_size (NFile n i) = n"
| "node_size n = 0"

text \<open>Components of a path text, and back.\<close>

definition comps :: "string \<Rightarrow> string list" where
  "comps p = filter (\<lambda>w. w \<noteq> []) (split_on CHR ''/'' p)"

definition path_of :: "fpath \<Rightarrow> string" where
  "path_of p = ''/'' @ join_with ''/'' p"

text \<open>Every entry stands in a directory and has an ordinary name.\<close>

definition fs_wf :: "fsys \<Rightarrow> bool" where
  "fs_wf fs \<longleftrightarrow> distinct (map fst fs) \<and>
     (\<forall>p \<in> fst ` set fs. p \<noteq> [] \<and> normal_comp (last p) \<and> fs_at fs (butlast p) = Some NDir)"

subsection \<open>Resolving a path\<close>

text \<open>
  \<open>walk base n fs done todo\<close> follows the components \<open>todo\<close> from the directory \<open>done\<close> through at most \<open>n\<close>
  links.  With a base, as in \<open>os.Root\<close>, neither \<open>..\<close> nor an absolute link may leave it.
\<close>

function walk :: "fpath option \<Rightarrow> nat \<Rightarrow> fsys \<Rightarrow> fpath \<Rightarrow> string list \<Rightarrow> errno + fpath" where
  "walk base n fs done [] = Inr done"
| "walk base n fs done (w # ws) =
     (if w = ''.'' then walk base n fs done ws
      else if w = ''..'' then
        (if base = Some done then Inl EEscapes else walk base n fs (butlast done) ws)
      else case fs_at fs (done @ [w]) of
          None \<Rightarrow> Inl ENOENT
        | Some NDir \<Rightarrow> walk base n fs (done @ [w]) ws
        | Some (NLink t) \<Rightarrow>
            (if n = 0 then Inl ELOOP
             else if is_abs t then
               (if base \<noteq> None then Inl EEscapes else walk base (n - 1) fs [] (comps t @ ws))
             else walk base (n - 1) fs done (comps t @ ws))
        | Some _ \<Rightarrow> if ws = [] then Inr (done @ [w]) else Inl ENOTDIR)"
  by pat_completeness auto
termination
  by (relation "measures [\<lambda>(base, n, fs, done, ws). n, \<lambda>(base, n, fs, done, ws). length ws]") auto

declare walk.simps(2) [simp del]

text \<open>The calls of the operating system: what it follows is limited to 40 links.\<close>

definition look :: "fpath option \<Rightarrow> fsys \<Rightarrow> fpath \<Rightarrow> string \<Rightarrow> errno + node" where
  "look base fs dir w =
     (case fs_at fs dir of
        Some NDir \<Rightarrow> (case fs_at fs (dir @ [w]) of None \<Rightarrow> Inl ENOENT | Some n \<Rightarrow> Inr n)
      | Some _ \<Rightarrow> Inl ENOTDIR
      | None \<Rightarrow> Inl ENOENT)"

definition lstat_from :: "fpath option \<Rightarrow> fsys \<Rightarrow> fpath \<Rightarrow> fpath \<Rightarrow> errno + node" where
  "lstat_from base fs start p =
     (if p = [] then (case fs_at fs start of None \<Rightarrow> Inl ENOENT | Some n \<Rightarrow> Inr n)
      else and_then (walk base 40 fs start (butlast p)) (\<lambda>dir. look base fs dir (last p)))"

definition lstat :: "fsys \<Rightarrow> fpath \<Rightarrow> errno + node" where
  "lstat fs p = lstat_from None fs [] p"

definition stat :: "fsys \<Rightarrow> fpath \<Rightarrow> errno + node" where
  "stat fs p = and_then (walk None 40 fs [] p) (\<lambda>q. case fs_at fs q of None \<Rightarrow> Inl ENOENT | Some n \<Rightarrow> Inr n)"

text \<open>The entry that a call changes: its parents are followed, itself is not.\<close>

definition entry_from :: "fpath option \<Rightarrow> fsys \<Rightarrow> fpath \<Rightarrow> fpath \<Rightarrow> errno + fpath" where
  "entry_from base fs start p = and_then (walk base 40 fs start (butlast p)) (\<lambda>d. Inr (d @ [last p]))"

text \<open>\<open>filepath.EvalSymlinks\<close> follows 255 links.\<close>

definition eval_links :: "fsys \<Rightarrow> fpath \<Rightarrow> errno + fpath" where
  "eval_links fs p = walk None 255 fs [] p"

subsection \<open>Changing the file system\<close>

definition children :: "fsys \<Rightarrow> fpath \<Rightarrow> string list" where
  "children fs dir = map (\<lambda>e. last (fst e)) (filter (\<lambda>e. fst e \<noteq> [] \<and> butlast (fst e) = dir) fs)"

definition below :: "fsys \<Rightarrow> fpath \<Rightarrow> fsys" where
  "below fs dir = filter (\<lambda>e. strict_prefix dir (fst e)) fs"

text \<open>The entries strictly below a directory in the order of \<open>filepath.WalkDir\<close>.\<close>

definition tree_entries :: "fsys \<Rightarrow> fpath \<Rightarrow> fsys" where
  "tree_entries fs dir = sort_key fst (below fs dir)"

definition put :: "fpath \<Rightarrow> node \<Rightarrow> fsys \<Rightarrow> fsys" where
  "put p n fs = (p, n) # filter (\<lambda>e. fst e \<noteq> p) fs"

definition drop_entry :: "fpath \<Rightarrow> fsys \<Rightarrow> fsys" where
  "drop_entry p fs = filter (\<lambda>e. fst e \<noteq> p) fs"

definition drop_tree :: "fpath \<Rightarrow> fsys \<Rightarrow> fsys" where
  "drop_tree p fs = filter (\<lambda>e. \<not> prefix p (fst e)) fs"

definition mkdir :: "fpath \<Rightarrow> fsys \<Rightarrow> errno + fsys" where
  "mkdir p fs =
     (if fs_at fs p \<noteq> None then Inl EEXIST
      else case fs_at fs (butlast p) of
          Some NDir \<Rightarrow> Inr (put p NDir fs)
        | None \<Rightarrow> Inl ENOENT
        | Some _ \<Rightarrow> Inl ENOTDIR)"

text \<open>\<open>MkdirAll\<close> below a resolved directory; links on the way are not created and not followed here.\<close>

fun mkdir_all :: "fpath \<Rightarrow> string list \<Rightarrow> fsys \<Rightarrow> errno + fsys" where
  "mkdir_all dir [] fs = Inr fs"
| "mkdir_all dir (w # ws) fs =
     (case fs_at fs (dir @ [w]) of
        None \<Rightarrow> mkdir_all (dir @ [w]) ws (put (dir @ [w]) NDir fs)
      | Some NDir \<Rightarrow> mkdir_all (dir @ [w]) ws fs
      | Some _ \<Rightarrow> Inl ENOTDIR)"

text \<open>\<open>unlink\<close> or \<open>rmdir\<close>, whichever applies, as \<open>os.Remove\<close> tries them.\<close>

definition remove_one :: "fpath \<Rightarrow> fsys \<Rightarrow> errno + fsys" where
  "remove_one p fs =
     (case fs_at fs p of
        None \<Rightarrow> Inl ENOENT
      | Some NDir \<Rightarrow> if children fs p = [] then Inr (drop_entry p fs) else Inl ENOTEMPTY
      | Some _ \<Rightarrow> Inr (drop_entry p fs))"

text \<open>\<open>rename\<close> of what is not a directory: it replaces whatever file stands at the target.\<close>

definition rename_file :: "fpath \<Rightarrow> fpath \<Rightarrow> fsys \<Rightarrow> errno + fsys" where
  "rename_file source target fs =
     (case fs_at fs source of
        None \<Rightarrow> Inl ENOENT
      | Some NDir \<Rightarrow> Inl EISDIR
      | Some n \<Rightarrow>
          (case fs_at fs (butlast target) of
             Some NDir \<Rightarrow>
               if fs_at fs target = Some NDir then Inl EISDIR
               else Inr (put target n (drop_entry source fs))
           | Some _ \<Rightarrow> Inl ENOTDIR
           | None \<Rightarrow> Inl ENOENT))"

subsection \<open>Lookups after a change\<close>

lemma map_of_filter_keys: "map_of (filter (\<lambda>e. P (fst e)) fs) q = (if P q then map_of fs q else None)"
  by (induction fs) auto

lemma fs_at_put [simp]: "p \<noteq> [] \<Longrightarrow> fs_at (put p n fs) q = (if q = p then Some n else fs_at fs q)"
  by (simp add: fs_at_def put_def map_of_filter_keys [where P = "\<lambda>k. k \<noteq> p"])

lemma fs_at_drop_entry [simp]: "p \<noteq> [] \<Longrightarrow> fs_at (drop_entry p fs) q = (if q = p then None else fs_at fs q)"
  by (simp add: fs_at_def drop_entry_def map_of_filter_keys [where P = "\<lambda>k. k \<noteq> p"])

lemma fs_at_drop_tree [simp]: "p \<noteq> [] \<Longrightarrow> fs_at (drop_tree p fs) q = (if prefix p q then None else fs_at fs q)"
  by (auto simp: fs_at_def drop_tree_def map_of_filter_keys [where P = "\<lambda>k. \<not> prefix p k"])

lemma fs_at_root [simp]: "fs_at fs [] = Some NDir"
  by (simp add: fs_at_def)

end
