(* ===== verification/Fsafe.thy ===== *)
theory Fsafe
  imports File_System Reconcile_World
begin

section \<open>Content beneath the local root (internal/fsafe: fsafe.go)\<close>

text \<open>
  The verifier on a file system: roots, workspaces, verification of content and its removal.  Every
  call of the system may fail: the record \<open>Disk\<close> says which error it gives at which path, what the
  checks of directory identities observe, how far a failing \<open>RemoveAll\<close> came, and in which order the
  maps of a file plan are traversed.  Modes and owners are not represented.
\<close>

subsection \<open>Errors\<close>

text \<open>\<open>Wrapped\<close> is \<open>fmt.Errorf\<close> with \<open>%w\<close>: \<open>errors.As\<close> looks through it, \<open>os.IsNotExist\<close> does not.\<close>

datatype fs_err =
    Errno errno | Wrapped fs_err | FsFailure failure_kind string fs_err | FsText string | ErrFilePlanConflict

fun as_failure :: "fs_err \<Rightarrow> (failure_kind \<times> string) option" where
  "as_failure (FsFailure k operation e) = Some (k, operation)"
| "as_failure (Wrapped e) = as_failure e"
| "as_failure e = None"

fun as_errno :: "fs_err \<Rightarrow> errno option" where
  "as_errno (Errno e) = Some e"
| "as_errno (Wrapped e) = as_errno e"
| "as_errno (FsFailure k operation e) = as_errno e"
| "as_errno e = None"

fun is_conflict :: "fs_err \<Rightarrow> bool" where
  "is_conflict ErrFilePlanConflict = True"
| "is_conflict (Wrapped e) = is_conflict e"
| "is_conflict (FsFailure k operation e) = is_conflict e"
| "is_conflict e = False"

text \<open>\<open>os.IsNotExist\<close>, and \<open>errors.Is\<close> with \<open>fs.ErrNotExist\<close>.\<close>

definition os_IsNotExist :: "fs_err \<Rightarrow> bool" where
  "os_IsNotExist e \<longleftrightarrow> e = Errno ENOENT"

definition is_not_exist :: "fs_err \<Rightarrow> bool" where
  "is_not_exist e \<longleftrightarrow> as_errno e = Some ENOENT"

definition Diagnose :: "fs_err \<Rightarrow> Diagnostic" where
  "Diagnose e =
     (case as_failure e of
        Some (k, operation) \<Rightarrow> \<lparr>dgKind = k, dgOperation = operation\<rparr>
      | None \<Rightarrow>
          \<lparr>dgKind = (case as_errno e of
               Some ENOENT \<Rightarrow> FailureMissing
             | Some EACCES \<Rightarrow> FailurePermission
             | Some EPERM \<Rightarrow> FailurePermission
             | Some EROFS \<Rightarrow> FailurePermission
             | _ \<Rightarrow> FailureTransient), dgOperation = []\<rparr>)"

definition classifyFailure :: "string \<Rightarrow> failure_kind \<Rightarrow> fs_err \<Rightarrow> fs_err" where
  "classifyFailure operation fallback e =
     (if as_failure e \<noteq> None then e
      else FsFailure (if dgKind (Diagnose e) = FailureTransient then fallback else dgKind (Diagnose e)) operation e)"

definition classifyCandidateRootFailure :: "fs_err \<Rightarrow> fs_err" where
  "classifyCandidateRootFailure e =
     (let classified = classifyFailure ''resolve_candidate'' FailureTransient e
      in if dgKind (Diagnose classified) = FailureMissing then FsFailure FailureTransient ''resolve_candidate'' e
         else classified)"

definition map_err :: "('e \<Rightarrow> 'f) \<Rightarrow> 'e + 'a \<Rightarrow> 'f + 'a" where
  "map_err f r = (case r of Inl e \<Rightarrow> Inl (f e) | Inr x \<Rightarrow> Inr x)"

subsection \<open>The disk\<close>

datatype dir_identity = SameEntry | AnchorChanged | EntryIsLink | EntryChanged

record Disk =
  dkFault :: "string \<Rightarrow> fpath \<Rightarrow> errno option"
  dkIdentity :: "string \<Rightarrow> dir_identity"
  dkPartial :: "fpath \<Rightarrow> bool"
  dkOrder :: "nat \<Rightarrow> fpath list \<Rightarrow> fpath list"

definition io :: "Disk \<Rightarrow> string \<Rightarrow> fpath \<Rightarrow> errno + 'a \<Rightarrow> fs_err + 'a" where
  "io dk call p r = (case dkFault dk call p of Some e \<Rightarrow> Inl (Errno e) | None \<Rightarrow> map_err Errno r)"

definition wrapped :: "fs_err + 'a \<Rightarrow> fs_err + 'a" where
  "wrapped r = map_err Wrapped r"

subsection \<open>Relative paths\<close>

text \<open>\<open>filepath.Rel\<close> on two absolute paths.\<close>

fun rel_comps :: "fpath \<Rightarrow> fpath \<Rightarrow> string list" where
  "rel_comps (b # bs) (t # ts) = (if b = t then rel_comps bs ts else replicate (length (b # bs)) ''..'' @ t # ts)"
| "rel_comps bs ts = replicate (length bs) ''..'' @ ts"

definition Rel :: "string \<Rightarrow> string \<Rightarrow> string option" where
  "Rel base target =
     (if is_abs base \<noteq> is_abs target then None
      else let r = rel_comps (comps (path_clean base)) (comps (path_clean target))
           in Some (if r = [] then ''.'' else join_with ''/'' r))"

definition outsideRoot :: "string \<Rightarrow> bool" where
  "outsideRoot r \<longleftrightarrow> r = ''..'' \<or> has_prefix r ''../''"

definition withinOrEqual :: "string \<Rightarrow> string \<Rightarrow> bool" where
  "withinOrEqual dir p = (case Rel dir p of None \<Rightarrow> False | Some r \<Rightarrow> \<not> outsideRoot r)"

definition strictlyWithin :: "string \<Rightarrow> string \<Rightarrow> bool" where
  "strictlyWithin dir p =
     (case Rel dir p of None \<Rightarrow> False | Some r \<Rightarrow> if r = ''.'' then False else \<not> outsideRoot r)"

definition rejectReservedComponent :: "string \<Rightarrow> fs_err option" where
  "rejectReservedComponent p =
     (if ''.cd211'' \<in> set (split_on CHR ''/'' (path_clean p)) then Some (FsText ''path contains reserved component'')
      else None)"

definition fs_validateName :: "string \<Rightarrow> fs_err option" where
  "fs_validateName name =
     (if name = [] \<or> name = ''.'' \<or> name = ''..'' then Some (FsText ''content name is not a safe path segment'')
      else if \<not> utf8_valid name then Some (FsText ''content name is not valid UTF-8'')
      else if list_ex (\<lambda>r. r = 47 \<or> r = 92 \<or> is_control r) (runes name)
      then Some (FsText ''content name is not a safe path segment'')
      else None)"

definition validManifestPath :: "string \<Rightarrow> bool" where
  "validManifestPath p \<longleftrightarrow>
     p \<noteq> [] \<and> \<not> is_abs p \<and> path_clean p = p \<and> p \<noteq> ''.'' \<and> p \<noteq> ''..'' \<and> \<not> has_prefix p ''../''
     \<and> CHR 0x5C \<notin> set p \<and> CHR 0x00 \<notin> set p \<and> utf8_valid p \<and> \<not> contains_control p"

subsection \<open>Roots\<close>

definition EvalSymlinks :: "Disk \<Rightarrow> fsys \<Rightarrow> string \<Rightarrow> fs_err + string" where
  "EvalSymlinks dk fs p = io dk ''evalsymlinks'' (comps p) (map_sum id path_of (eval_links fs (comps p)))"

text \<open>\<open>New\<close>: the evaluated local root.\<close>

definition NewVerifier :: "Disk \<Rightarrow> fsys \<Rightarrow> string \<Rightarrow> fs_err + string" where
  "NewVerifier dk fs localRoot =
     (if \<not> is_abs localRoot then Inl (FsText ''local root must be absolute'')
      else case rejectReservedComponent (path_clean localRoot) of
          Some e \<Rightarrow> Inl e
        | None \<Rightarrow>
            and_then (wrapped (EvalSymlinks dk fs (path_clean localRoot))) (\<lambda>evaluated.
            case rejectReservedComponent evaluated of
              Some e \<Rightarrow> Inl e
            | None \<Rightarrow>
                and_then (wrapped (io dk ''stat'' (comps evaluated) (stat fs (comps evaluated)))) (\<lambda>info.
                if info \<noteq> NDir then Inl (FsText ''local root is not a directory'') else Inr evaluated)))"

definition resolveSaveRoot :: "Disk \<Rightarrow> fsys \<Rightarrow> string \<Rightarrow> string \<Rightarrow> fs_err + string" where
  "resolveSaveRoot dk fs localRoot savePath =
     (if \<not> is_abs savePath then Inl (FsText ''save root must be absolute'')
      else and_then (wrapped (EvalSymlinks dk fs (path_clean savePath))) (\<lambda>evaluated.
        and_then (wrapped (io dk ''stat'' (comps evaluated) (stat fs (comps evaluated)))) (\<lambda>info.
        if info \<noteq> NDir then Inl (FsText ''save root is not a directory'')
        else if \<not> withinOrEqual localRoot evaluated then Inl (FsText ''save root escapes local root'')
        else Inr evaluated)))"

definition validateExternalSaveRoot :: "Disk \<Rightarrow> fsys \<Rightarrow> string \<Rightarrow> fs_err option" where
  "validateExternalSaveRoot dk fs savePath =
     (if \<not> is_abs savePath \<or> path_clean savePath \<noteq> savePath
      then Some (FsText ''save root must be an absolute clean path'')
      else case rejectReservedComponent savePath of
          Some e \<Rightarrow> Some e
        | None \<Rightarrow>
            (case EvalSymlinks dk fs savePath of
               Inl _ \<Rightarrow> None | Inr evaluated \<Rightarrow> rejectReservedComponent evaluated))"

definition ValidatePersistedRoot :: "Disk \<Rightarrow> fsys \<Rightarrow> string \<Rightarrow> string \<Rightarrow> fs_err + string" where
  "ValidatePersistedRoot dk fs localRoot savePath =
     (case validateExternalSaveRoot dk fs savePath of
        Some e \<Rightarrow> Inl e
      | None \<Rightarrow>
          and_then (resolveSaveRoot dk fs localRoot savePath) (\<lambda>evaluated.
          case rejectReservedComponent evaluated of Some e \<Rightarrow> Inl e | None \<Rightarrow> Inr evaluated))"

text \<open>
  The nearest existing parent, looked for upwards from the reversed components of the path, and the
  missing components below it.
\<close>

fun existing_parent :: "Disk \<Rightarrow> fsys \<Rightarrow> string list \<Rightarrow> string list \<Rightarrow> fs_err + (string \<times> string list)" where
  "existing_parent dk fs upward missing =
     (case EvalSymlinks dk fs (path_of (rev upward)) of
        Inr evaluated \<Rightarrow>
          (case rejectReservedComponent evaluated of Some e \<Rightarrow> Inl e | None \<Rightarrow> Inr (evaluated, missing))
      | Inl e \<Rightarrow>
          if \<not> is_not_exist e then Inl (Wrapped e)
          else case upward of
              [] \<Rightarrow> Inl (FsText ''save root has no existing parent'')
            | w # ws \<Rightarrow> existing_parent dk fs ws (w # missing))"

definition ResolveSaveRoot :: "Disk \<Rightarrow> fsys \<Rightarrow> string \<Rightarrow> string \<Rightarrow> fs_err + (string \<times> bool)" where
  "ResolveSaveRoot dk fs localRoot savePath =
     (case validateExternalSaveRoot dk fs savePath of
        Some e \<Rightarrow> Inl e
      | None \<Rightarrow>
          (case resolveSaveRoot dk fs localRoot savePath of
             Inr evaluated \<Rightarrow>
               (case rejectReservedComponent evaluated of
                  Some e \<Rightarrow> Inl e
                | None \<Rightarrow> if evaluated = localRoot then Inl (FsText ''save root must be below local root'')
                          else Inr (evaluated, True))
           | Inl e \<Rightarrow>
               if \<not> is_not_exist e then Inl e
               else and_then (existing_parent dk fs (rev (comps savePath)) []) (\<lambda>(parent, missing).
                 if parent \<noteq> localRoot \<and> \<not> strictlyWithin localRoot parent
                 then Inl (FsText ''save root escapes local root'')
                 else case Rel localRoot parent of
                     None \<Rightarrow> Inl (FsText ''save root escapes local root'')
                   | Some r \<Rightarrow>
                       if outsideRoot r then Inl (FsText ''save root escapes local root'')
                       else let canonical = path_join [localRoot, foldl (\<lambda>p w. path_join [p, w]) r missing]
                            in case rejectReservedComponent canonical of
                                 Some e \<Rightarrow> Inl e | None \<Rightarrow> Inr (canonical, False))))"

subsection \<open>Opened directories\<close>

text \<open>An \<open>os.Root\<close> is the directory it was opened at.\<close>

definition open_dir :: "fpath \<Rightarrow> fsys \<Rightarrow> fpath \<Rightarrow> string list \<Rightarrow> errno + fpath" where
  "open_dir base fs start ws =
     and_then (walk (Some base) 40 fs start ws) (\<lambda>q.
     case fs_at fs q of Some NDir \<Rightarrow> Inr q | Some _ \<Rightarrow> Inl ENOTDIR | None \<Rightarrow> Inl ENOENT)"

definition openSaveRoot :: "Disk \<Rightarrow> fsys \<Rightarrow> string \<Rightarrow> string \<Rightarrow> fs_err + (fpath \<times> string)" where
  "openSaveRoot dk fs localRoot savePath =
     and_then (wrapped (io dk ''openroot'' (comps localRoot) (open_dir [] fs [] (comps localRoot)))) (\<lambda>base.
     and_then (wrapped (EvalSymlinks dk fs (path_clean savePath))) (\<lambda>evaluated.
     and_then (wrapped (io dk ''stat'' (comps evaluated) (stat fs (comps evaluated)))) (\<lambda>info.
     if info \<noteq> NDir then Inl (FsText ''save root is not a directory'')
     else case Rel localRoot evaluated of
         None \<Rightarrow> Inl (FsText ''save root escapes local root'')
       | Some r \<Rightarrow>
           if outsideRoot r then Inl (FsText ''save root escapes local root'')
           else and_then (wrapped (io dk ''openroot'' (comps evaluated) (open_dir base fs base (comps r)))) (\<lambda>q.
             case dkFault dk ''anchor'' q of
               Some e \<Rightarrow> Inl (Wrapped (Errno e))
             | None \<Rightarrow>
                 if dkIdentity dk ''save root'' = AnchorChanged
                 then Inl (FsText ''save root changed during validation'')
                 else Inr (q, evaluated)))))"

text \<open>Modes are not represented: what is left is that opening or changing the mode may fail.\<close>

definition setRootMode :: "Disk \<Rightarrow> fpath \<Rightarrow> fs_err option" where
  "setRootMode dk q =
     (case dkFault dk ''open'' q of
        Some e \<Rightarrow> Some (Wrapped (Errno e))
      | None \<Rightarrow> (case dkFault dk ''chmod'' q of Some e \<Rightarrow> Some (Wrapped (Errno e)) | None \<Rightarrow> None))"

definition openWorkspaceSaveRoot :: "Disk \<Rightarrow> fsys \<Rightarrow> string \<Rightarrow> string \<Rightarrow> fs_err + (fpath \<times> string)" where
  "openWorkspaceSaveRoot dk fs localRoot savePath =
     and_then (openSaveRoot dk fs localRoot savePath) (\<lambda>(q, evaluated).
     if \<not> withinOrEqual localRoot evaluated
     then Inl (FsText ''save root must be below or equal to local root'')
     else case setRootMode dk q of Some e \<Rightarrow> Inl e | None \<Rightarrow> Inr (q, evaluated))"

text \<open>Sequences of calls on the file system: what a failed one has changed stays.\<close>

type_synonym 'a fsm = "fsys \<Rightarrow> (fs_err + 'a) \<times> fsys"

definition fs_bind :: "'a fsm \<Rightarrow> ('a \<Rightarrow> 'b fsm) \<Rightarrow> 'b fsm" where
  "fs_bind m f fs = (case m fs of (Inl e, fs') \<Rightarrow> (Inl e, fs') | (Inr x, fs') \<Rightarrow> f x fs')"

definition fs_get :: "(fsys \<Rightarrow> fs_err + 'a) \<Rightarrow> 'a fsm" where
  "fs_get f fs = (f fs, fs)"

definition fs_check :: "(fsys \<Rightarrow> fs_err option) \<Rightarrow> unit fsm" where
  "fs_check f fs = (case f fs of Some e \<Rightarrow> Inl e | None \<Rightarrow> Inr (), fs)"

definition fs_change :: "(fsys \<Rightarrow> fs_err + fsys) \<Rightarrow> unit fsm" where
  "fs_change f fs = (case f fs of Inl e \<Rightarrow> (Inl e, fs) | Inr fs' \<Rightarrow> (Inr (), fs'))"

definition fs_return :: "'a \<Rightarrow> 'a fsm" where
  "fs_return x fs = (Inr x, fs)"

definition fs_fail :: "fs_err \<Rightarrow> 'a fsm" where
  "fs_fail e fs = (Inl e, fs)"

definition fs_on_err :: "(fs_err \<Rightarrow> fs_err) \<Rightarrow> 'a fsm \<Rightarrow> 'a fsm" where
  "fs_on_err f m fs = (case m fs of (r, fs') \<Rightarrow> (map_err f r, fs'))"

definition PrepareSaveRoot :: "Disk \<Rightarrow> string \<Rightarrow> string \<Rightarrow> string fsm" where
  "PrepareSaveRoot dk localRoot savePath =
     fs_bind (fs_check (\<lambda>fs. validateExternalSaveRoot dk fs savePath)) (\<lambda>_.
     fs_bind (fs_get (\<lambda>fs. ResolveSaveRoot dk fs localRoot savePath)) (\<lambda>(canonical, present).
     if present then
       fs_bind (fs_get (\<lambda>fs. openSaveRoot dk fs localRoot canonical)) (\<lambda>(q, evaluated).
       if evaluated \<noteq> canonical then fs_fail (FsText ''save root changed during preparation'')
       else fs_bind (fs_check (\<lambda>_. setRootMode dk q)) (\<lambda>_. fs_return canonical))
     else
       (case Rel localRoot canonical of
          None \<Rightarrow> fs_fail (FsText ''save root escapes local root'')
        | Some r \<Rightarrow>
            if outsideRoot r then fs_fail (FsText ''save root escapes local root'')
            else
              fs_bind (fs_get (\<lambda>fs. wrapped (io dk ''openroot'' (comps localRoot) (open_dir [] fs [] (comps localRoot))))) (\<lambda>base.
              fs_bind (fs_change (\<lambda>fs. wrapped (io dk ''mkdirall'' (comps canonical) (mkdir_all base (comps r) fs)))) (\<lambda>_.
              fs_bind (fs_get (\<lambda>fs. wrapped (io dk ''openroot'' (comps canonical) (open_dir base fs base (comps r))))) (\<lambda>q.
              fs_bind (fs_check (\<lambda>_. setRootMode dk q)) (\<lambda>_.
              fs_bind (fs_get (\<lambda>fs. resolveSaveRoot dk fs localRoot canonical)) (\<lambda>prepared.
              if prepared \<noteq> canonical then fs_fail (FsText ''save root changed during preparation'')
              else fs_return prepared))))))))"

subsection \<open>Workspaces\<close>

abbreviation "validate_identity \<equiv> ''validate_workspace_identity''"

definition sameRootDirectory :: "Disk \<Rightarrow> fsys \<Rightarrow> fpath \<Rightarrow> string \<Rightarrow> fs_err option" where
  "sameRootDirectory dk fs parent name =
     (case dkFault dk ''anchor'' (parent @ [name]) of
        Some e \<Rightarrow> Some (classifyFailure validate_identity FailureTransient (Wrapped (Errno e)))
      | None \<Rightarrow>
          if dkIdentity dk name = AnchorChanged
          then Some (FsFailure FailureTransient validate_identity (FsText ''changed during validation''))
          else case io dk ''lstat'' (parent @ [name]) (look None fs parent name) of
              Inl e \<Rightarrow> Some (classifyFailure validate_identity FailureTransient (Wrapped e))
            | Inr info \<Rightarrow>
                if is_link info \<or> dkIdentity dk name = EntryIsLink
                then Some (FsFailure FailureUnsafe validate_identity (FsText ''became a symbolic link during validation''))
                else if dkIdentity dk name = EntryChanged
                then Some (FsFailure FailureUnsafe validate_identity (FsText ''changed during validation''))
                else None)"

text \<open>The directory entry, created when it is missing.\<close>

definition entry_info :: "Disk \<Rightarrow> string \<Rightarrow> fpath \<Rightarrow> string \<Rightarrow> fsys \<Rightarrow> fs_err + node" where
  "entry_info dk call parent name fs = io dk call (parent @ [name]) (look None fs parent name)"

definition ensured_entry :: "Disk \<Rightarrow> fpath \<Rightarrow> string \<Rightarrow> node fsm" where
  "ensured_entry dk parent name fs =
     (case entry_info dk ''lstat'' parent name fs of
        Inr info \<Rightarrow> (Inr info, fs)
      | Inl e \<Rightarrow>
          if \<not> os_IsNotExist e then (Inl (Wrapped e), fs)
          else fs_bind
            (fs_change (\<lambda>fs. case io dk ''mkdir'' (parent @ [name]) (mkdir (parent @ [name]) fs) of
               Inl e' \<Rightarrow> if e' = Errno EEXIST then Inr fs else Inl (Wrapped e') | Inr fs' \<Rightarrow> Inr fs'))
            (\<lambda>_. fs_get (\<lambda>fs. wrapped (entry_info dk ''lstat created'' parent name fs))) fs)"

definition ensureWorkspaceDir :: "Disk \<Rightarrow> fpath \<Rightarrow> string \<Rightarrow> fpath fsm" where
  "ensureWorkspaceDir dk parent name =
     fs_bind (ensured_entry dk parent name) (\<lambda>info.
     if is_link info then fs_fail (FsFailure FailureUnsafe validate_identity (FsText ''must not be a symbolic link''))
     else if info \<noteq> NDir then fs_fail (FsFailure FailureUnsafe validate_identity (FsText ''is not a directory''))
     else
       fs_bind (fs_get (\<lambda>fs. wrapped (io dk ''openroot'' (parent @ [name]) (open_dir parent fs parent [name])))) (\<lambda>child.
       fs_bind (fs_check (\<lambda>fs. sameRootDirectory dk fs parent name)) (\<lambda>_.
       fs_bind (fs_check (\<lambda>_. setRootMode dk child)) (\<lambda>_.
       fs_bind (fs_check (\<lambda>fs. sameRootDirectory dk fs parent name)) (\<lambda>_. fs_return child)))))"

definition PrepareWorkspace :: "Disk \<Rightarrow> string \<Rightarrow> string \<Rightarrow> string \<Rightarrow> string fsm" where
  "PrepareWorkspace dk localRoot savePath hash =
     (let unsafe = FsFailure FailureUnsafe ''prepare_workspace'';
          classify = classifyFailure ''prepare_workspace'' FailureTransient
      in fs_bind (fs_on_err unsafe (fs_check (\<lambda>fs. validateExternalSaveRoot dk fs savePath))) (\<lambda>_.
         case WorkspacePath savePath hash of
           None \<Rightarrow> fs_fail (unsafe (FsText ''workspace path''))
         | Some logical \<Rightarrow>
             fs_bind (fs_on_err classify (fs_get (\<lambda>fs. openWorkspaceSaveRoot dk fs localRoot savePath))) (\<lambda>(saveRoot, _).
             fs_bind (fs_on_err (classify \<circ> Wrapped) (ensureWorkspaceDir dk saveRoot ''.cd211'')) (\<lambda>cdRoot.
             fs_bind (fs_on_err (classifyFailure validate_identity FailureTransient \<circ> Wrapped)
                        (fs_get (entry_info dk ''lstat parent'' saveRoot ''.cd211''))) (\<lambda>_.
             fs_bind (fs_check (\<lambda>fs. sameRootDirectory dk fs saveRoot ''.cd211'')) (\<lambda>_.
             fs_bind (fs_on_err (classify \<circ> Wrapped) (ensureWorkspaceDir dk cdRoot hash)) (\<lambda>workspaceRoot.
             fs_bind (fs_check (\<lambda>fs. sameRootDirectory dk fs saveRoot ''.cd211'')) (\<lambda>_.
             fs_bind (fs_check (\<lambda>_. map_option (\<lambda>e. classify (Wrapped (Errno e))) (dkFault dk ''close'' workspaceRoot)))
               (\<lambda>_. fs_return logical)))))))))"

subsection \<open>Removing a workspace\<close>

text \<open>The tree may hold directories and regular files only.\<close>

fun tree_ok :: "Disk \<Rightarrow> fsys \<Rightarrow> fs_err option" where
  "tree_ok dk [] = None"
| "tree_ok dk ((p, n) # es) =
     (case dkFault dk ''walk'' p of
        Some e \<Rightarrow> Some (Errno e)
      | None \<Rightarrow>
          if is_link n
          then Some (FsFailure FailureUnsafe validate_identity (FsText ''workspace tree contains symbolic link''))
          else case dkFault dk ''info'' p of
              Some e \<Rightarrow> Some (Errno e)
            | None \<Rightarrow>
                if n \<noteq> NDir \<and> \<not> is_regular n
                then Some (FsFailure FailureUnsafe validate_identity (FsText ''workspace tree contains special file''))
                else tree_ok dk es)"

definition rejectWorkspaceTree :: "Disk \<Rightarrow> fpath \<Rightarrow> fsys \<Rightarrow> fs_err option" where
  "rejectWorkspaceTree dk dir fs =
     (case tree_ok dk (tree_entries fs dir) of
        None \<Rightarrow> None
      | Some e \<Rightarrow>
          if as_failure e \<noteq> None then Some e
          else Some (classifyFailure validate_identity FailureTransient (Wrapped e)))"

text \<open>\<open>RemoveAll\<close> either removes the whole tree or fails half-way.\<close>

definition remove_all :: "Disk \<Rightarrow> fpath \<Rightarrow> unit fsm" where
  "remove_all dk p fs =
     (case dkFault dk ''removeall'' p of
        Some e \<Rightarrow> (Inl (Errno e), filter (\<lambda>e. \<not> (prefix p (fst e) \<and> dkPartial dk (fst e))) fs)
      | None \<Rightarrow> (Inr (), drop_tree p fs))"

fun remove_names :: "Disk \<Rightarrow> fpath \<Rightarrow> string list \<Rightarrow> unit fsm" where
  "remove_names dk dir [] = fs_return ()"
| "remove_names dk dir (w # ws) =
     fs_bind (fs_on_err Wrapped (remove_all dk (dir @ [w]))) (\<lambda>_. remove_names dk dir ws)"

definition read_names :: "Disk \<Rightarrow> fpath \<Rightarrow> fsys \<Rightarrow> fs_err + string list" where
  "read_names dk dir fs =
     and_then (wrapped (io dk ''open'' dir (Inr ()))) (\<lambda>_.
     and_then (wrapped (io dk ''readdir'' dir (Inr (take 128 (children fs dir))))) (\<lambda>names.
     and_then (wrapped (io dk ''close'' dir (Inr ()))) (\<lambda>_. Inr names)))"

lemma drop_tree_child: "w \<in> set (children fs dir) \<Longrightarrow> length (drop_tree (dir @ [w]) fs) < length fs"
proof -
  assume "w \<in> set (children fs dir)"
  then obtain e where "e \<in> set fs" "fst e = dir @ [w]" by (auto simp: children_def)
  then show ?thesis unfolding drop_tree_def by (intro length_filter_less) auto
qed

lemma remove_names_shrinks: "remove_names dk dir ws fs = (Inr (), fs') \<Longrightarrow> length fs' \<le> length fs"
proof (induction ws arbitrary: fs)
  case (Cons w ws)
  then have "remove_names dk dir ws (drop_tree (dir @ [w]) fs) = (Inr (), fs')"
    by (auto simp: fs_bind_def fs_on_err_def remove_all_def map_err_def split: option.splits)
  from Cons.IH [OF this] show ?case by (simp add: drop_tree_def order_trans [OF _ length_filter_le])
qed (simp add: fs_return_def)

lemma remove_batch_shrinks:
  assumes "read_names dk dir fs = Inr names" "names \<noteq> []" "remove_names dk dir names fs = (Inr (), fs')"
  shows "length fs' < length fs"
proof -
  from assms(1) have names: "names = take 128 (children fs dir)"
    by (auto simp: read_names_def and_then_Inr_iff wrapped_def map_err_def io_def split: option.splits sum.splits)
  from assms(2) obtain w ws where w: "names = w # ws" by (cases names) auto
  then have child: "w \<in> set (children fs dir)" using names in_set_takeD [of w 128 "children fs dir"] by simp
  from assms(3) w have "remove_names dk dir ws (drop_tree (dir @ [w]) fs) = (Inr (), fs')"
    by (auto simp: fs_bind_def fs_on_err_def remove_all_def map_err_def split: option.splits)
  from remove_names_shrinks [OF this] drop_tree_child [OF child] show ?thesis by simp
qed

text \<open>The loop over batches of names, until the directory reads as empty.\<close>

function remove_batches :: "Disk \<Rightarrow> fpath \<Rightarrow> unit fsm" where
  "remove_batches dk dir fs =
     (case read_names dk dir fs of
        Inl e \<Rightarrow> (Inl e, fs)
      | Inr names \<Rightarrow>
          if names = [] then (Inr (), fs)
          else case remove_names dk dir names fs of
              (Inl e, fs') \<Rightarrow> (Inl e, fs')
            | (Inr _, fs') \<Rightarrow> remove_batches dk dir fs')"
  by pat_completeness auto
termination
  by (relation "measure (\<lambda>(dk, dir, fs). length fs)") (auto intro: remove_batch_shrinks)

declare remove_batches.simps [simp del]

definition removeWorkspace :: "Disk \<Rightarrow> fpath \<Rightarrow> string \<Rightarrow> unit fsm" where
  "removeWorkspace dk parent hash fs =
     (case entry_info dk ''lstat'' parent hash fs of
        Inl e \<Rightarrow> if os_IsNotExist e then (Inr (), fs) else (Inl (Wrapped e), fs)
      | Inr info \<Rightarrow>
          if is_link info \<or> info \<noteq> NDir then (Inl (FsText ''workspace must be a directory''), fs)
          else
            fs_bind (fs_get (\<lambda>fs. wrapped (io dk ''openroot'' (parent @ [hash]) (open_dir parent fs parent [hash])))) (\<lambda>child.
            fs_bind (fs_check (\<lambda>fs. sameRootDirectory dk fs parent hash)) (\<lambda>_.
            fs_bind (fs_check (rejectWorkspaceTree dk child)) (\<lambda>_.
            fs_bind (fs_check (\<lambda>fs. sameRootDirectory dk fs parent hash)) (\<lambda>_.
            fs_bind (remove_batches dk child) (\<lambda>_.
            fs_bind (fs_check (\<lambda>fs. sameRootDirectory dk fs parent hash)) (\<lambda>_.
            fs_change (\<lambda>fs. wrapped (io dk ''remove'' (parent @ [hash]) (remove_one (parent @ [hash]) fs))))))))) fs)"

definition DeleteWorkspace :: "Disk \<Rightarrow> string \<Rightarrow> string \<Rightarrow> string \<Rightarrow> unit fsm" where
  "DeleteWorkspace dk localRoot savePath hash =
     (case WorkspacePath savePath hash of
        None \<Rightarrow> fs_fail (FsText ''workspace path'')
      | Some _ \<Rightarrow>
          fs_bind (fs_get (\<lambda>fs. openWorkspaceSaveRoot dk fs localRoot savePath)) (\<lambda>(saveRoot, _) fs.
          case entry_info dk ''lstat'' saveRoot ''.cd211'' fs of
            Inl e \<Rightarrow> if os_IsNotExist e then (Inr (), fs) else (Inl (Wrapped e), fs)
          | Inr cdInfo \<Rightarrow>
              if is_link cdInfo \<or> cdInfo \<noteq> NDir then (Inl (FsText ''workspace parent must be a directory''), fs)
              else
                fs_bind (fs_get (\<lambda>fs. wrapped (io dk ''openroot'' (saveRoot @ [''.cd211'']) (open_dir saveRoot fs saveRoot [''.cd211''])))) (\<lambda>cdRoot.
                fs_bind (fs_check (\<lambda>fs. sameRootDirectory dk fs saveRoot ''.cd211'')) (\<lambda>_.
                fs_bind (\<lambda>fs. case entry_info dk ''lstat'' cdRoot ''.quarantine'' fs of
                     Inl e \<Rightarrow> if os_IsNotExist e then (Inr (), fs) else (Inl (Wrapped e), fs)
                   | Inr info \<Rightarrow>
                       if is_link info \<or> info \<noteq> NDir then (Inl (FsText ''workspace quarantine must be a directory''), fs)
                       else
                         fs_bind (fs_get (\<lambda>fs. wrapped (io dk ''openroot'' (cdRoot @ [''.quarantine'']) (open_dir cdRoot fs cdRoot [''.quarantine''])))) (\<lambda>quarantine.
                         fs_bind (fs_check (\<lambda>fs. sameRootDirectory dk fs cdRoot ''.quarantine'')) (\<lambda>_.
                         fs_on_err Wrapped (removeWorkspace dk quarantine hash))) fs) (\<lambda>_.
                fs_bind (fs_check (\<lambda>fs. sameRootDirectory dk fs saveRoot ''.cd211'')) (\<lambda>_.
                removeWorkspace dk cdRoot hash)))) fs))"

end
