(* ===== verification/Fsafe_Content.thy ===== *)
theory Fsafe_Content
  imports Fsafe
begin

section \<open>Verifying and deleting content (internal/fsafe: fsafe.go)\<close>

text \<open>
  The content of a save root or a workspace: inspection of the candidate, the comparison with a torrent
  manifest, the measure of a tree, deletion of verified content, and the listing of directories.
\<close>

subsection \<open>Paths without links\<close>

definition splitPath :: "string \<Rightarrow> string list" where
  "splitPath v = (if v = ''.'' then [] else comps v)"

fun components_safe :: "Disk \<Rightarrow> fsys \<Rightarrow> fpath \<Rightarrow> string list \<Rightarrow> fs_err option" where
  "components_safe dk fs current [] = None"
| "components_safe dk fs current (w # ws) =
     (case io dk ''lstat component'' (current @ [w]) (lstat fs (current @ [w])) of
        Inr info \<Rightarrow>
          if is_link info then Some (FsFailure FailureUnsafe ''apply_file_plan'' (FsText ''plan path contains symlink''))
          else components_safe dk fs (current @ [w]) ws
      | Inl e \<Rightarrow>
          if \<not> os_IsNotExist e then Some (classifyFailure ''apply_file_plan'' FailureTransient e)
          else components_safe dk fs (current @ [w]) ws)"

definition safeAbsoluteComponents :: "Disk \<Rightarrow> fsys \<Rightarrow> string \<Rightarrow> string \<Rightarrow> fs_err option" where
  "safeAbsoluteComponents dk fs dir target =
     (case Rel dir target of
        None \<Rightarrow> Some (FsFailure FailureUnsafe ''apply_file_plan'' (FsText ''plan path escapes root''))
      | Some r \<Rightarrow>
          if outsideRoot r
          then Some (FsFailure FailureUnsafe ''apply_file_plan'' (FsText ''plan path escapes root''))
          else components_safe dk fs (comps dir) (splitPath r))"

definition safePlanComponents :: "Disk \<Rightarrow> fsys \<Rightarrow> string \<Rightarrow> string \<Rightarrow> fs_err option" where
  "safePlanComponents dk fs dir relative = safeAbsoluteComponents dk fs dir (path_join [dir, relative])"

subsection \<open>Verification\<close>

text \<open>The candidate as logical path, resolved path and node.\<close>

definition inspectCandidate :: "Disk \<Rightarrow> fsys \<Rightarrow> string \<Rightarrow> string \<Rightarrow> string \<Rightarrow> fs_err + (string \<times> string \<times> node)" where
  "inspectCandidate dk fs localRoot savePath name =
     (let classify = (\<lambda>e. classifyFailure ''inspect_candidate'' FailureTransient (Wrapped e))
      in case fs_validateName name of
           Some e \<Rightarrow> Inl (FsFailure FailureUnsafe ''inspect_candidate'' e)
         | None \<Rightarrow>
             and_then (map_err classifyCandidateRootFailure (resolveSaveRoot dk fs localRoot savePath)) (\<lambda>saveRoot.
             (let candidatePath = path_join [path_clean savePath, name]
              in and_then (map_err classify (io dk ''lstat'' (comps candidatePath) (lstat fs (comps candidatePath)))) (\<lambda>info.
                 if is_link info
                 then Inl (FsFailure FailureUnsafe ''inspect_candidate'' (FsText ''candidate must not be a symbolic link''))
                 else and_then (map_err classify (EvalSymlinks dk fs candidatePath)) (\<lambda>candidate.
                   if \<not> strictlyWithin saveRoot candidate \<or> \<not> strictlyWithin localRoot candidate
                   then Inl (FsFailure FailureUnsafe ''resolve_candidate'' (FsText ''candidate escapes configured roots''))
                   else and_then (map_err classify (io dk ''stat'' (comps candidate) (stat fs (comps candidate)))) (\<lambda>info'.
                     Inr (candidatePath, candidate, info')))))))"

definition fs_InspectCandidate :: "Disk \<Rightarrow> fsys \<Rightarrow> string \<Rightarrow> string \<Rightarrow> string \<Rightarrow> fs_err + bool" where
  "fs_InspectCandidate dk fs localRoot savePath name =
     (case inspectCandidate dk fs localRoot savePath name of
        Inl e \<Rightarrow>
          if dgKind (Diagnose e) = FailureMissing \<and> dgOperation (Diagnose e) = ''inspect_candidate'' then Inr False
          else Inl e
      | Inr (_, _, info) \<Rightarrow>
          if info \<noteq> NDir \<and> \<not> is_regular info
          then Inl (FsFailure FailureUnsafe ''inspect_candidate'' (FsText ''candidate is not a regular file or directory''))
          else Inr True)"

text \<open>The sum over a tree is a 64-bit sum.\<close>

definition wrap64 :: "int \<Rightarrow> int" where
  "wrap64 n = (n + 2 ^ 63) mod 2 ^ 64 - 2 ^ 63"

fun sum_tree :: "Disk \<Rightarrow> int \<Rightarrow> fsys \<Rightarrow> fs_err + int" where
  "sum_tree dk acc [] = Inr acc"
| "sum_tree dk acc ((p, n) # es) =
     (case dkFault dk ''walk'' p of
        Some e \<Rightarrow> Inl (Errno e)
      | None \<Rightarrow>
          if n = NDir then sum_tree dk acc es
          else if \<not> is_regular n
          then Inl (FsFailure FailureUnsafe ''measure_content'' (FsText ''content contains a symbolic link or special file''))
          else case dkFault dk ''info'' p of
              Some e \<Rightarrow> Inl (Errno e)
            | None \<Rightarrow> sum_tree dk (wrap64 (acc + node_size n)) es)"

definition treeSize :: "Disk \<Rightarrow> fsys \<Rightarrow> fpath \<Rightarrow> fs_err + int" where
  "treeSize dk fs dir =
     map_err (\<lambda>e. if as_failure e \<noteq> None then e else classifyFailure ''measure_content'' FailureTransient (Wrapped e))
       (sum_tree dk 0 (tree_entries fs dir))"

text \<open>One path of the manifest, component by component.\<close>

fun manifest_parts :: "Disk \<Rightarrow> fsys \<Rightarrow> fpath \<Rightarrow> string list \<Rightarrow> int \<Rightarrow> fs_err option" where
  "manifest_parts dk fs current [] len = None"
| "manifest_parts dk fs current (w # ws) len =
     (case io dk ''lstat manifest'' (current @ [w]) (lstat fs (current @ [w])) of
        Inl e \<Rightarrow> Some (classifyFailure ''verify_manifest'' FailureTransient (Wrapped e))
      | Inr info \<Rightarrow>
          if is_link info
          then Some (FsFailure FailureUnsafe ''verify_manifest'' (FsText ''manifest path contains symbolic link''))
          else if ws \<noteq> [] \<and> info \<noteq> NDir
          then Some (FsFailure FailureLayout ''verify_manifest'' (FsText ''manifest parent is not a directory''))
          else if ws = [] \<and> (\<not> is_regular info \<or> node_size info \<noteq> len)
          then Some (FsFailure FailureLayout ''verify_manifest'' (FsText ''manifest file is not an exact regular file''))
          else manifest_parts dk fs (current @ [w]) ws len)"

fun verify_files :: "Disk \<Rightarrow> fsys \<Rightarrow> fpath \<Rightarrow> string list \<Rightarrow> int \<Rightarrow> (string \<times> int) list \<Rightarrow> fs_err + int" where
  "verify_files dk fs dir seen acc [] = Inr acc"
| "verify_files dk fs dir seen acc ((relative, len) # files) =
     (if \<not> validManifestPath relative \<or> len < 0
      then Inl (FsFailure FailureUnsafe ''verify_manifest'' (FsText ''manifest path or size is invalid''))
      else if relative \<in> set seen
      then Inl (FsFailure FailureLayout ''verify_manifest'' (FsText ''manifest contains duplicate path''))
      else case manifest_parts dk fs dir (split_on CHR ''/'' relative) len of
          Some e \<Rightarrow> Inl e
        | None \<Rightarrow>
            if max_int64 - len < acc
            then Inl (FsFailure FailureLayout ''verify_manifest'' (FsText ''manifest size overflows''))
            else verify_files dk fs dir (relative # seen) (acc + len) files)"

definition verifyManifest :: "Disk \<Rightarrow> fsys \<Rightarrow> string \<Rightarrow> (string \<times> int) list \<Rightarrow> fs_err + int" where
  "verifyManifest dk fs dir files = verify_files dk fs (comps dir) [] 0 files"

abbreviation "single_mismatch \<equiv>
  FsFailure FailureLayout ''verify_manifest'' (FsText ''single-file manifest does not match candidate'')"

definition Verify_content :: "Disk \<Rightarrow> fsys \<Rightarrow> string \<Rightarrow> string \<Rightarrow> ExpectedContent \<Rightarrow> fs_err + VerifiedContent" where
  "Verify_content dk fs localRoot savePath x =
     (if \<not> xcMultiFile x \<and> xcFiles x \<noteq> [] then
        (if length (xcFiles x) \<noteq> 1 then Inl single_mismatch
         else and_then (map_err classifyCandidateRootFailure (resolveSaveRoot dk fs localRoot savePath)) (\<lambda>saveRoot.
           and_then (verifyManifest dk fs saveRoot (xcFiles x)) (\<lambda>len.
           Inr \<lparr>vcPath = path_join [path_clean savePath, fst (hd (xcFiles x))], vcSize = len\<rparr>)))
      else
        and_then (inspectCandidate dk fs localRoot savePath (xcCandidateName x)) (\<lambda>(candidatePath, candidate, info).
        if \<not> xcMultiFile x then
          (if \<not> is_regular info
           then Inl (FsFailure FailureLayout ''inspect_candidate'' (FsText ''single-file candidate is not a regular file''))
           else if xcFiles x \<noteq> [] \<and> (length (xcFiles x) \<noteq> 1 \<or> \<not> validManifestPath (fst (hd (xcFiles x)))
              \<or> snd (hd (xcFiles x)) < 0 \<or> node_size info \<noteq> snd (hd (xcFiles x)))
           then Inl single_mismatch
           else Inr \<lparr>vcPath = candidatePath, vcSize = node_size info\<rparr>)
        else if info \<noteq> NDir
        then Inl (FsFailure FailureLayout ''inspect_candidate'' (FsText ''multi-file candidate is not a directory''))
        else if xcFiles x = [] then
          and_then (treeSize dk fs (comps candidate)) (\<lambda>len. Inr \<lparr>vcPath = candidatePath, vcSize = len\<rparr>)
        else and_then (verifyManifest dk fs candidate (xcFiles x)) (\<lambda>len.
          Inr \<lparr>vcPath = candidatePath, vcSize = len\<rparr>)))"

definition VerifyUnknownType :: "Disk \<Rightarrow> fsys \<Rightarrow> string \<Rightarrow> string \<Rightarrow> string \<Rightarrow> fs_err + UnknownContent" where
  "VerifyUnknownType dk fs localRoot savePath name =
     and_then (inspectCandidate dk fs localRoot savePath name) (\<lambda>(candidatePath, candidate, info).
     if info = NDir then
       and_then (treeSize dk fs (comps candidate)) (\<lambda>len.
       Inr \<lparr>ucPath = candidatePath, ucSize = len, ucMultiFile = True\<rparr>)
     else if \<not> is_regular info
     then Inl (FsFailure FailureUnsafe ''inspect_candidate'' (FsText ''candidate is not a regular file or directory''))
     else Inr \<lparr>ucPath = candidatePath, ucSize = node_size info, ucMultiFile = False\<rparr>)"

subsection \<open>Deletion\<close>

text \<open>The deletion tree from its root on: its errors are wrapped.\<close>

fun links_in :: "Disk \<Rightarrow> fsys \<Rightarrow> fs_err option" where
  "links_in dk [] = None"
| "links_in dk ((p, n) # es) =
     (case dkFault dk ''walk'' p of
        Some e \<Rightarrow> Some (Wrapped (Errno e))
      | None \<Rightarrow> if is_link n then Some (FsText ''deletion tree contains symbolic link'') else links_in dk es)"

definition rejectSymlinkTree :: "Disk \<Rightarrow> fsys \<Rightarrow> fpath \<Rightarrow> fs_err option" where
  "rejectSymlinkTree dk fs dir =
     (case io dk ''walk'' dir (lstat fs dir) of
        Inl e \<Rightarrow> Some (Wrapped e)
      | Inr n \<Rightarrow> if is_link n then Some (FsText ''deletion tree contains symbolic link'')
                 else links_in dk (tree_entries fs dir))"

definition delete_relative :: "string \<Rightarrow> string \<Rightarrow> string \<Rightarrow> string option" where
  "delete_relative cleanSavePath evaluated cleanContentPath =
     (case (case Rel cleanSavePath cleanContentPath of
              Some r \<Rightarrow> if outsideRoot r then Rel evaluated cleanContentPath else Some r
            | None \<Rightarrow> Rel evaluated cleanContentPath) of
        None \<Rightarrow> None
      | Some r \<Rightarrow> if validManifestPath r then Some r else None)"

definition remove_content :: "Disk \<Rightarrow> fpath \<Rightarrow> string list \<Rightarrow> node \<Rightarrow> unit fsm" where
  "remove_content dk dir ws info fs =
     (case io dk ''resolve'' (dir @ ws) (entry_from (Some dir) fs dir ws) of
        Inl e \<Rightarrow> if os_IsNotExist e then (Inr (), fs) else (Inl (Wrapped e), fs)
      | Inr p \<Rightarrow>
          (case (if info = NDir then remove_all dk p fs
                 else case io dk ''remove'' p (remove_one p fs) of Inl e \<Rightarrow> (Inl e, fs) | Inr fs' \<Rightarrow> (Inr (), fs')) of
             (Inl e, fs') \<Rightarrow> if os_IsNotExist e then (Inr (), fs') else (Inl (Wrapped e), fs')
           | (Inr _, fs') \<Rightarrow> (Inr (), fs')))"

text \<open>
  The error of the tree walk is wrapped, so that the test whether the tree has vanished never holds; it is
  kept as the code has it.
\<close>

definition checked_tree :: "Disk \<Rightarrow> fpath \<Rightarrow> node \<Rightarrow> bool fsm" where
  "checked_tree dk p info fs =
     (if info \<noteq> NDir then (Inr True, fs)
      else case rejectSymlinkTree dk fs p of
          None \<Rightarrow> (Inr True, fs)
        | Some e \<Rightarrow> if os_IsNotExist e then (Inr False, fs) else (Inl e, fs))"

definition delete_beneath :: "Disk \<Rightarrow> fpath \<Rightarrow> string \<Rightarrow> string \<Rightarrow> unit fsm" where
  "delete_beneath dk dir evaluated relative fs =
     (case io dk ''lstat'' (dir @ comps relative) (lstat_from (Some dir) fs dir (comps relative)) of
        Inl e \<Rightarrow> if os_IsNotExist e then (Inr (), fs) else (Inl (Wrapped e), fs)
      | Inr info \<Rightarrow>
          if is_link info then (Inl (FsText ''content must not be a symbolic link''), fs)
          else if info \<noteq> NDir \<and> \<not> is_regular info
          then (Inl (FsText ''content is not a regular file or directory''), fs)
          else if info = NDir \<and> path_dir relative \<noteq> ''.''
          then (Inl (FsText ''directory content must be a direct child of save root''), fs)
          else fs_bind (checked_tree dk (comps evaluated @ comps relative) info)
            (\<lambda>present. if present then remove_content dk dir (comps relative) info else fs_return ()) fs)"

definition Delete_content :: "Disk \<Rightarrow> string \<Rightarrow> string \<Rightarrow> string \<Rightarrow> unit fsm" where
  "Delete_content dk localRoot contentPath savePath =
     (if \<not> is_abs savePath \<or> \<not> is_abs contentPath then fs_fail (FsText ''save and content paths must be absolute'')
      else
        fs_bind (fs_get (\<lambda>fs. openSaveRoot dk fs localRoot (path_clean savePath))) (\<lambda>(dir, evaluated).
        case delete_relative (path_clean savePath) evaluated (path_clean contentPath) of
          None \<Rightarrow> fs_fail (FsText ''content escapes save root'')
        | Some relative \<Rightarrow>
            fs_bind (fs_check (\<lambda>fs. safePlanComponents dk fs evaluated relative)) (\<lambda>_.
            delete_beneath dk dir evaluated relative)))"

subsection \<open>Listing a directory\<close>

definition stat_in :: "fpath \<Rightarrow> fsys \<Rightarrow> string list \<Rightarrow> errno + node" where
  "stat_in base fs ws =
     and_then (walk (Some base) 40 fs base ws) (\<lambda>q. case fs_at fs q of None \<Rightarrow> Inl ENOENT | Some n \<Rightarrow> Inr n)"

text \<open>What a child counts as: links are followed when they stay below the local root.\<close>

definition listed_node :: "Disk \<Rightarrow> fsys \<Rightarrow> string \<Rightarrow> fpath \<Rightarrow> string \<Rightarrow> string \<Rightarrow> node option" where
  "listed_node dk fs localRoot dir name childPath =
     (case entry_info dk ''lstat'' dir name fs of
        Inl _ \<Rightarrow> None
      | Inr info \<Rightarrow>
          if \<not> is_link info then Some info
          else case EvalSymlinks dk fs childPath of
              Inl _ \<Rightarrow> None
            | Inr target \<Rightarrow>
                if \<not> withinOrEqual localRoot target then None
                else case io dk ''open'' (comps target)
                       (stat_in (comps localRoot) fs (comps (the (Rel localRoot target)))) of
                    Inl _ \<Rightarrow> None
                  | Inr info' \<Rightarrow> Some info')"

definition shown :: "string \<Rightarrow> node option \<Rightarrow> bool" where
  "shown visibility n =
     (case n of
        None \<Rightarrow> False
      | Some info \<Rightarrow>
          (info = NDir \<or> is_regular info) \<and> (visibility = ''dirs'' \<longrightarrow> info = NDir)
          \<and> (visibility = ''files'' \<longrightarrow> is_regular info))"

definition ListDirectory :: "Disk \<Rightarrow> fsys \<Rightarrow> string \<Rightarrow> string \<Rightarrow> string \<Rightarrow> fs_err + string list" where
  "ListDirectory dk fs localRoot dirPath visibility =
     (if visibility \<notin> {''all'', ''dirs'', ''files''} then Inl (FsText ''invalid visibility'')
      else if \<not> is_abs dirPath \<or> path_clean dirPath \<noteq> dirPath then Inl (FsText ''unsafe path'')
      else and_then (wrapped (EvalSymlinks dk fs dirPath)) (\<lambda>evaluated.
        if \<not> withinOrEqual localRoot evaluated then Inl (FsText ''unsafe path'')
        else and_then (wrapped (io dk ''openroot'' (comps localRoot) (open_dir [] fs [] (comps localRoot)))) (\<lambda>base.
          case Rel localRoot evaluated of
            None \<Rightarrow> Inl (FsText ''unsafe path'')
          | Some r \<Rightarrow>
              and_then (wrapped (io dk ''open'' (comps evaluated) (stat_in base fs (comps r)))) (\<lambda>info.
              if info \<noteq> NDir then Inl (Wrapped (Errno ENOTDIR))
              else and_then (wrapped (io dk ''openroot'' (comps evaluated) (open_dir base fs base (comps r)))) (\<lambda>dir.
                and_then (wrapped (io dk ''open'' dir (Inr ()))) (\<lambda>_.
                and_then (wrapped (io dk ''readdir'' dir (Inr (children fs dir)))) (\<lambda>names.
                Inr (sort (map (\<lambda>name. path_join [dirPath, name])
                  (filter (\<lambda>name. shown visibility (listed_node dk fs localRoot dir name (path_join [dirPath, name]))) names))))))))))"

end
