(* ===== verification/Fsafe_Plan.thy ===== *)
theory Fsafe_Plan
  imports Fsafe_Content
begin

section \<open>Renames inside a torrent root (internal/fsafe: plan.go)\<close>

text \<open>
  A file plan renames in two phases, through a temporary name for each source, so that chains and
  swaps work, and it can be run again after a crash.  The maps of the code are lists of moves; the order in
  which a loop over a map visits them is \<open>dkOrder\<close>.
\<close>

record Move =
  mvSource :: fpath
  mvTemp :: fpath
  mvTarget :: fpath
  mvSize :: int

abbreviation "apply_op \<equiv> ''apply_file_plan''"
abbreviation "conflict_err \<equiv> Wrapped ErrFilePlanConflict"

definition plan_path :: "string \<Rightarrow> string \<Rightarrow> fpath" where
  "plan_path dir relative = comps (path_join [dir, relative])"

definition temp_name :: "string \<Rightarrow> int \<Rightarrow> string" where
  "temp_name hash index = ''.cd211-plan-'' @ hash @ ''-'' @ format_int index"

definition plan_ok :: "FilePlan \<Rightarrow> bool" where
  "plan_ok p \<longleftrightarrow> validManifestPath (fpOriginalPath p) \<and> validManifestPath (fpEffectivePath p) \<and> 0 \<le> fpSize p
     \<and> fpPriority p \<in> {0, 1, 6, 7}"

subsection \<open>The moves of a plan\<close>

definition moves_file :: "FilePlan \<Rightarrow> bool" where
  "moves_file p \<longleftrightarrow> \<not> (fpPriority p = 0 \<or> path_clean (fpOriginalPath p) = path_clean (fpEffectivePath p))"

definition move_of :: "string \<Rightarrow> string \<Rightarrow> FilePlan \<Rightarrow> Move" where
  "move_of dir hash p =
     \<lparr>mvSource = plan_path dir (fpOriginalPath p), mvTemp = plan_path dir (temp_name hash (fpIndex p)),
      mvTarget = plan_path dir (fpEffectivePath p), mvSize = fpSize p\<rparr>"

fun collect_moves :: "Disk \<Rightarrow> fsys \<Rightarrow> string \<Rightarrow> string \<Rightarrow> Move list \<Rightarrow> FilePlan list \<Rightarrow> fs_err + Move list" where
  "collect_moves dk fs dir hash moves [] = Inr moves"
| "collect_moves dk fs dir hash moves (p # ps) =
     (if \<not> plan_ok p then Inl (FsFailure FailureUnsafe apply_op (FsText ''invalid file plan''))
      else case safePlanComponents dk fs dir (fpOriginalPath p) of
          Some e \<Rightarrow> Inl e
        | None \<Rightarrow>
            (case safePlanComponents dk fs dir (fpEffectivePath p) of
               Some e \<Rightarrow> Inl e
             | None \<Rightarrow>
                 if \<not> moves_file p then collect_moves dk fs dir hash moves ps
                 else if mvSource (move_of dir hash p) \<in> mvSource ` set moves then Inl conflict_err
                 else collect_moves dk fs dir hash (moves @ [move_of dir hash p]) ps))"

text \<open>The maps \<open>targetSources\<close> and \<open>moving\<close>.\<close>

definition target_source :: "Move list \<Rightarrow> fpath \<Rightarrow> Move option" where
  "target_source moves t = find (\<lambda>m. mvTarget m = t) (rev moves)"

definition is_source :: "Move list \<Rightarrow> fpath \<Rightarrow> bool" where
  "is_source moves p \<longleftrightarrow> p \<in> mvSource ` set moves"

definition exact_file :: "node \<Rightarrow> int \<Rightarrow> bool" where
  "exact_file n len \<longleftrightarrow> is_regular n \<and> node_size n = len"

definition peek :: "Disk \<Rightarrow> fsys \<Rightarrow> fpath \<Rightarrow> fs_err + node" where
  "peek dk fs p = io dk ''lstat plan'' p (lstat fs p)"

subsection \<open>The check before anything moves\<close>

text \<open>A source beside its temporary: only the file that another move has published there.\<close>

definition both_present :: "Disk \<Rightarrow> fsys \<Rightarrow> Move list \<Rightarrow> Move \<Rightarrow> node \<Rightarrow> node \<Rightarrow> bool" where
  "both_present dk fs moves m sourceInfo tempInfo \<longleftrightarrow>
     (case target_source moves (mvSource m) of
        None \<Rightarrow> False
      | Some other \<Rightarrow>
          mvSource other \<noteq> mvSource m \<and> peek dk fs (mvTemp other) = Inl (Errno ENOENT)
          \<and> exact_file sourceInfo (mvSize other) \<and> exact_file tempInfo (mvSize m))"

definition target_free :: "Disk \<Rightarrow> fsys \<Rightarrow> Move list \<Rightarrow> fpath \<Rightarrow> fs_err option" where
  "target_free dk fs moves target =
     (case peek dk fs target of
        Inr info \<Rightarrow>
          if is_link info then Some conflict_err
          else if \<not> is_source moves target then Some conflict_err
          else None
      | Inl e \<Rightarrow> if os_IsNotExist e then None else Some e)"

text \<open>The result says whether the move is already complete.\<close>

definition check_move :: "Disk \<Rightarrow> fsys \<Rightarrow> string \<Rightarrow> Move list \<Rightarrow> Move \<Rightarrow> fs_err + bool" where
  "check_move dk fs dir moves m =
     (case safeAbsoluteComponents dk fs dir (path_of (mvTemp m)) of
        Some e \<Rightarrow> Inl e
      | None \<Rightarrow>
          (let source = peek dk fs (mvSource m);
               temp = peek dk fs (mvTemp m);
               rest = (\<lambda>_. case target_free dk fs moves (mvTarget m) of Some e \<Rightarrow> Inl e | None \<Rightarrow> Inr False)
           in case (source, temp) of
                (Inr s, Inr t) \<Rightarrow> if both_present dk fs moves m s t then Inr False else Inl conflict_err
              | (Inr s, Inl e) \<Rightarrow>
                  if \<not> os_IsNotExist e then Inl e
                  else if is_link s \<or> \<not> exact_file s (mvSize m) then Inl conflict_err
                  else rest ()
              | (Inl e, Inr t) \<Rightarrow>
                  if \<not> os_IsNotExist e then Inl e
                  else if is_link t \<or> \<not> exact_file t (mvSize m) then Inl conflict_err
                  else rest ()
              | (Inl e, Inl e') \<Rightarrow>
                  if \<not> os_IsNotExist e then Inl e
                  else if \<not> os_IsNotExist e' then Inl e'
                  else (case peek dk fs (mvTarget m) of
                      Inr info \<Rightarrow>
                        if exact_file info (mvSize m) then
                          (if target_source moves (mvTarget m) \<noteq> None then Inr True else Inl conflict_err)
                        else Inl conflict_err
                    | Inl e'' \<Rightarrow> if \<not> os_IsNotExist e'' then Inl e'' else rest ())))"

fun check_moves :: "Disk \<Rightarrow> fsys \<Rightarrow> string \<Rightarrow> Move list \<Rightarrow> fpath list \<Rightarrow> Move list \<Rightarrow> fs_err + fpath list" where
  "check_moves dk fs dir moves completed [] = Inr completed"
| "check_moves dk fs dir moves completed (m # ms) =
     and_then (check_move dk fs dir moves m) (\<lambda>finished.
     check_moves dk fs dir moves (if finished then mvSource m # completed else completed) ms)"

subsection \<open>The two phases and the exclusions\<close>

text \<open>The system calls on full paths, with the links of the parents followed.\<close>

definition os_rename :: "fpath \<Rightarrow> fpath \<Rightarrow> fsys \<Rightarrow> errno + fsys" where
  "os_rename source target fs =
     and_then (entry_from None fs [] source) (\<lambda>s. and_then (entry_from None fs [] target) (\<lambda>t. rename_file s t fs))"

definition os_remove :: "fpath \<Rightarrow> fsys \<Rightarrow> errno + fsys" where
  "os_remove p fs = and_then (entry_from None fs [] p) (\<lambda>q. remove_one q fs)"

definition stage_move :: "Disk \<Rightarrow> fpath list \<Rightarrow> Move \<Rightarrow> unit fsm" where
  "stage_move dk completed m fs =
     (if mvSource m \<in> set completed then (Inr (), fs)
      else case peek dk fs (mvTemp m) of
          Inr _ \<Rightarrow> (Inr (), fs)
        | Inl _ \<Rightarrow> fs_change (\<lambda>fs. io dk ''rename'' (mvSource m) (os_rename (mvSource m) (mvTemp m) fs)) fs)"

definition publish_move :: "Disk \<Rightarrow> string \<Rightarrow> Move list \<Rightarrow> fpath list \<Rightarrow> Move \<Rightarrow> unit fsm" where
  "publish_move dk dir moves completed m fs =
     (if mvSource m \<in> set completed then (Inr (), fs)
      else case peek dk fs (mvTemp m) of
          Inl e \<Rightarrow>
            if os_IsNotExist e then
              (case peek dk fs (mvTarget m) of
                 Inr info \<Rightarrow>
                   if exact_file info (mvSize m) then
                     (if target_source moves (mvTarget m) \<noteq> None then (Inr (), fs) else (Inl conflict_err, fs))
                   else (Inl e, fs)
               | Inl _ \<Rightarrow> (Inl e, fs))
            else (Inl e, fs)
        | Inr _ \<Rightarrow>
            fs_bind (fs_check (\<lambda>fs. safeAbsoluteComponents dk fs dir (path_of (butlast (mvTarget m))))) (\<lambda>_.
            fs_bind (fs_change (\<lambda>fs. io dk ''mkdirall'' (butlast (mvTarget m)) (mkdir_all [] (butlast (mvTarget m)) fs))) (\<lambda>_.
            fs_bind (fs_check (\<lambda>fs. target_free dk fs moves (mvTarget m))) (\<lambda>_.
            fs_change (\<lambda>fs. io dk ''rename'' (mvTemp m) (os_rename (mvTemp m) (mvTarget m) fs))))) fs)"

definition exclude_plan :: "Disk \<Rightarrow> string \<Rightarrow> FilePlan \<Rightarrow> unit fsm" where
  "exclude_plan dk dir p fs =
     (if fpPriority p \<noteq> 0 then (Inr (), fs)
      else let candidate = plan_path dir (fpOriginalPath p)
           in case safeAbsoluteComponents dk fs dir (path_of candidate) of
                Some e \<Rightarrow> (Inl e, fs)
              | None \<Rightarrow>
                  (case peek dk fs candidate of
                     Inl e \<Rightarrow> if os_IsNotExist e then (Inr (), fs) else (Inl e, fs)
                   | Inr info \<Rightarrow>
                       if is_link info \<or> \<not> exact_file info (fpSize p) then (Inl conflict_err, fs)
                       else (case io dk ''remove'' candidate (os_remove candidate fs) of
                               Inl e \<Rightarrow> if os_IsNotExist e then (Inr (), fs) else (Inl e, fs)
                             | Inr fs' \<Rightarrow> (Inr (), fs'))))"

fun fs_each :: "('a \<Rightarrow> unit fsm) \<Rightarrow> 'a list \<Rightarrow> unit fsm" where
  "fs_each f [] = fs_return ()"
| "fs_each f (x # xs) = fs_bind (f x) (\<lambda>_. fs_each f xs)"

text \<open>The loops over the maps visit the moves in the order of their sources that the run happens to take.\<close>

definition ordered :: "Disk \<Rightarrow> nat \<Rightarrow> Move list \<Rightarrow> Move list" where
  "ordered dk n moves =
     List.map_filter (\<lambda>s. find (\<lambda>m. mvSource m = s) moves) (dkOrder dk n (map mvSource moves))"

definition run_moves :: "Disk \<Rightarrow> string \<Rightarrow> FilePlan list \<Rightarrow> Move list \<Rightarrow> unit fsm" where
  "run_moves dk dir plans moves =
     fs_bind (fs_get (\<lambda>fs. check_moves dk fs dir moves [] (ordered dk 0 moves))) (\<lambda>completed.
     fs_bind (fs_each (stage_move dk completed) (ordered dk 1 moves)) (\<lambda>_.
     fs_bind (fs_each (publish_move dk dir moves completed) (ordered dk 2 moves)) (\<lambda>_.
     fs_each (exclude_plan dk dir) plans)))"

definition applyFilePlan :: "Disk \<Rightarrow> string \<Rightarrow> string \<Rightarrow> string \<Rightarrow> FilePlan list \<Rightarrow> unit fsm" where
  "applyFilePlan dk localRoot root_dir hash plans =
     (if hash = [] \<or> \<not> is_abs root_dir
      then fs_fail (FsFailure FailureUnsafe apply_op (FsText ''invalid file plan root''))
      else
        fs_bind (fs_get (\<lambda>fs. EvalSymlinks dk fs root_dir)) (\<lambda>dir.
        if \<not> strictlyWithin localRoot dir
        then fs_fail (FsFailure FailureUnsafe apply_op (FsText ''file plan escapes local root''))
        else
          fs_bind (fs_get (\<lambda>fs. collect_moves dk fs dir hash [] plans)) (run_moves dk dir plans)))"

definition ApplyFilePlan :: "Disk \<Rightarrow> string \<Rightarrow> string \<Rightarrow> string \<Rightarrow> FilePlan list \<Rightarrow> unit fsm" where
  "ApplyFilePlan dk localRoot root_dir hash plans =
     fs_on_err (\<lambda>e. if as_failure e \<noteq> None then e
                   else if is_conflict e then FsFailure FailureLayout apply_op e
                   else classifyFailure apply_op FailureTransient e)
       (applyFilePlan dk localRoot root_dir hash plans)"

end
