(* ===== verification/Fsafe_Facts.thy ===== *)
theory Fsafe_Facts
  imports Fsafe_Plan
begin

section \<open>What the file operations can reach\<close>

text \<open>
  Nothing outside the opened directory changes, however links are laid out in the file system and
  whichever calls fail; what verification accepts is on the disk.
\<close>

subsection \<open>Walking stays inside the base\<close>

lemma prefix_butlast: "prefix b p \<Longrightarrow> b \<noteq> p \<Longrightarrow> prefix b (butlast p)"
  by (metis butlast_append butlast_snoc prefix_def prefix_order.eq_iff self_append_conv)

lemma walk_inside: "walk (Some b) n fs p ws = Inr q \<Longrightarrow> prefix b p \<Longrightarrow> prefix b q"
proof (induction "Some b" n fs p ws rule: walk.induct)
  case (2 n fs p w ws)
  consider (dot) "w = ''.''" | (dots) "w = ''..''" | (name) "w \<noteq> ''.''" "w \<noteq> ''..''" by blast
  then show ?case
  proof cases
    case dot
    with 2 show ?thesis by (simp add: walk.simps(2))
  next
    case dots
    with "2.prems" have "b \<noteq> p" "walk (Some b) n fs (butlast p) ws = Inr q"
      by (auto simp: walk.simps(2) split: if_splits)
    with dots "2.hyps"(2) "2.prems"(2) prefix_butlast show ?thesis by auto
  next
    case name
    with 2 show ?thesis
      by (auto simp: walk.simps(2) split: option.splits node.splits if_splits)
  qed
qed simp

lemma entry_inside:
  assumes "entry_from (Some b) fs b ws = Inr q"
  shows "strict_prefix b q"
proof -
  from assms obtain d where d: "walk (Some b) 40 fs b (butlast ws) = Inr d" "q = d @ [last ws]"
    by (auto simp: entry_from_def and_then_Inr_iff)
  from walk_inside [OF d(1)] d(2) show ?thesis by (auto simp: strict_prefix_def prefix_def)
qed

lemma open_dir_Inr: "open_dir b fs p ws = Inr q \<longleftrightarrow> walk (Some b) 40 fs p ws = Inr q \<and> fs_at fs q = Some NDir"
  by (cases "walk (Some b) 40 fs p ws"; cases "fs_at fs q"; cases "the (fs_at fs q)")
    (auto simp: open_dir_def and_then_Inr_iff split: option.splits node.splits)

lemma open_inside: "open_dir b fs b ws = Inr q \<Longrightarrow> prefix b q"
  by (auto simp: open_dir_Inr dest: walk_inside)

text \<open>A single ordinary name that is a directory opens as itself.\<close>

lemma open_child:
  assumes "fs_at fs (p @ [w]) = Some NDir" "w \<noteq> ''.''" "w \<noteq> ''..''"
  shows "open_dir p fs p [w] = Inr (p @ [w])"
  using assms by (simp add: open_dir_def walk.simps(2))

subsection \<open>Calls that fail change nothing else\<close>

lemma io_Inr [simp]: "io dk call p r = Inr x \<longleftrightarrow> dkFault dk call p = None \<and> r = Inr x"
  by (auto simp: io_def map_err_def split: option.splits sum.splits)

lemma wrapped_Inr [simp]: "wrapped r = Inr x \<longleftrightarrow> r = Inr x"
  by (auto simp: wrapped_def map_err_def split: sum.splits)

lemma map_err_Inr [simp]: "map_err f r = Inr x \<longleftrightarrow> r = Inr x"
  by (auto simp: map_err_def split: sum.splits)

text \<open>\<open>only S fs fs'\<close>: the change removes entries among \<open>S\<close> and does nothing else.\<close>

definition only_removes :: "(fpath \<Rightarrow> bool) \<Rightarrow> fsys \<Rightarrow> fsys \<Rightarrow> bool" where
  "only_removes S fs fs' \<longleftrightarrow> (\<forall>p. fs_at fs' p \<noteq> fs_at fs p \<longrightarrow> S p \<and> fs_at fs' p = None)"

lemma only_removes_refl [simp]: "only_removes S fs fs"
  by (simp add: only_removes_def)

lemma only_removes_trans: "only_removes S fs fs' \<Longrightarrow> only_removes S fs' fs'' \<Longrightarrow> only_removes S fs fs''"
  unfolding only_removes_def by metis

lemma only_removes_mono: "only_removes S fs fs' \<Longrightarrow> (\<And>p. S p \<Longrightarrow> T p) \<Longrightarrow> only_removes T fs fs'"
  by (auto simp: only_removes_def)

lemma only_removes_filter: "(\<And>p. \<not> P p \<Longrightarrow> S p) \<Longrightarrow> only_removes S fs (filter (\<lambda>e. P (fst e)) fs)"
  by (auto simp: only_removes_def fs_at_def map_of_filter_keys)

definition removes :: "(fpath \<Rightarrow> bool) \<Rightarrow> 'a fsm \<Rightarrow> bool" where
  "removes S m \<longleftrightarrow> (\<forall>fs. only_removes S fs (snd (m fs)))"

lemma removes_return [simp]: "removes S (fs_return x)" by (simp add: removes_def fs_return_def)
lemma removes_fail [simp]: "removes S (fs_fail e)" by (simp add: removes_def fs_fail_def)
lemma removes_get [simp]: "removes S (fs_get f)" by (simp add: removes_def fs_get_def)
lemma removes_check [simp]: "removes S (fs_check f)" by (simp add: removes_def fs_check_def)

lemma removes_on_err [simp]: "removes S (fs_on_err f m) = removes S m"
proof -
  have "snd (fs_on_err f m fs) = snd (m fs)" for fs by (simp add: fs_on_err_def split: prod.split)
  then show ?thesis by (simp add: removes_def)
qed

lemma removes_bind: "removes S m \<Longrightarrow> (\<And>x. removes S (f x)) \<Longrightarrow> removes S (fs_bind m f)"
  unfolding removes_def fs_bind_def
  by (auto split: prod.splits sum.splits) (metis only_removes_trans snd_conv)+

lemma removes_got:
  assumes "\<And>x. f fs = Inr x \<Longrightarrow> only_removes S fs (snd (g x fs))"
  shows "only_removes S fs (snd (fs_bind (fs_get f) g fs))"
  using assms by (auto simp: fs_bind_def fs_get_def split: sum.split)

lemma removes_mono: "removes S m \<Longrightarrow> (\<And>p. S p \<Longrightarrow> T p) \<Longrightarrow> removes T m"
  unfolding removes_def using only_removes_mono by blast

lemma removes_remove_all: "removes (prefix p) (remove_all dk p)"
  unfolding removes_def
proof
  fix fs
  show "only_removes (prefix p) fs (snd (remove_all dk p fs))"
    using only_removes_filter [where P = "\<lambda>q. \<not> prefix p q"]
      only_removes_filter [where P = "\<lambda>q. \<not> (prefix p q \<and> dkPartial dk q)"]
    by (auto simp: remove_all_def drop_tree_def split: option.split)
qed

lemma removes_remove_one: "removes (prefix p) (fs_change (\<lambda>fs. wrapped (io dk call q (remove_one p fs))))"
  unfolding removes_def
proof
  fix fs
  show "only_removes (prefix p) fs (snd (fs_change (\<lambda>fs. wrapped (io dk call q (remove_one p fs))) fs))"
    using only_removes_filter [where P = "\<lambda>k. k \<noteq> p" and S = "prefix p" and fs = fs]
    by (auto simp: fs_change_def remove_one_def drop_entry_def split: sum.splits option.splits node.splits if_splits)
qed

subsection \<open>Deleting content\<close>

lemma remove_content_inside: "only_removes (strict_prefix dir) fs (snd (remove_content dk dir ws info fs))"
proof (cases "io dk ''resolve'' (dir @ ws) (entry_from (Some dir) fs dir ws)")
  case (Inr p)
  then have "strict_prefix dir p" by (auto dest: entry_inside)
  then have below_p: "prefix p q \<Longrightarrow> strict_prefix dir q" for q
    using prefix_order.less_le_trans by blast
  have "removes (strict_prefix dir) (remove_all dk p)"
    "removes (strict_prefix dir) (fs_change (\<lambda>fs. wrapped (io dk ''remove'' p (remove_one p fs))))"
    by (rule removes_mono [OF removes_remove_all below_p] removes_mono [OF removes_remove_one below_p]; assumption)+
  then have "only_removes (strict_prefix dir) fs (snd (remove_all dk p fs))"
    "only_removes (strict_prefix dir) fs (snd (fs_change (\<lambda>fs. wrapped (io dk ''remove'' p (remove_one p fs))) fs))"
    by (simp_all add: removes_def)
  moreover from Inr have "snd (remove_content dk dir ws info fs) \<in> {fs, snd (remove_all dk p fs),
      snd (fs_change (\<lambda>fs. wrapped (io dk ''remove'' p (remove_one p fs))) fs)}"
    by (simp add: remove_content_def fs_change_def wrapped_def map_err_def split: sum.split prod.split)
  ultimately show ?thesis by auto
qed (simp add: remove_content_def)

lemma delete_beneath_inside: "removes (strict_prefix dir) (delete_beneath dk dir evaluated relative)"
proof -
  have "removes (strict_prefix dir) (fs_bind (checked_tree dk p info)
      (\<lambda>present. if present then remove_content dk dir ws info else fs_return ()))" for p info ws
  proof (rule removes_bind)
    show "removes (strict_prefix dir) (checked_tree dk p info)"
      by (simp add: removes_def checked_tree_def split: option.split)
  qed (use remove_content_inside in \<open>auto simp: removes_def fs_return_def\<close>)
  then show ?thesis by (auto simp: removes_def delete_beneath_def split: sum.splits)
qed

lemma open_save_root:
  assumes "openSaveRoot dk fs localRoot savePath = Inr (dir, evaluated)"
  obtains base where "open_dir [] fs [] (comps localRoot) = Inr base" "prefix base dir" "fs_at fs dir = Some NDir"
proof -
  from assms obtain base where base: "open_dir [] fs [] (comps localRoot) = Inr base"
    and rest: "(case Rel localRoot evaluated of
         None \<Rightarrow> Inl (FsText ''save root escapes local root'')
       | Some r \<Rightarrow>
           if outsideRoot r then Inl (FsText ''save root escapes local root'')
           else and_then (wrapped (io dk ''openroot'' (comps evaluated) (open_dir base fs base (comps r)))) (\<lambda>q.
             case dkFault dk ''anchor'' q of
               Some e \<Rightarrow> Inl (Wrapped (Errno e))
             | None \<Rightarrow>
                 if dkIdentity dk ''save root'' = AnchorChanged
                 then Inl (FsText ''save root changed during validation'')
                 else Inr (q, evaluated))) = Inr (dir, evaluated)"
    by (auto simp: openSaveRoot_def and_then_Inr_iff split: option.splits if_splits)
  from rest obtain r where "open_dir base fs base (comps r) = Inr dir"
    by (cases "Rel localRoot evaluated") (auto simp: and_then_Inr_iff split: if_splits option.splits)
  with base that show ?thesis by (blast dest: open_inside open_dir_Inr [THEN iffD1, THEN conjunct2])
qed

subsection \<open>Deleting a workspace\<close>

lemma removes_names: "removes (strict_prefix dir) (remove_names dk dir ws)"
proof (induction ws)
  case (Cons w ws)
  have "removes (strict_prefix dir) (remove_all dk (dir @ [w]))"
    by (rule removes_mono [OF removes_remove_all]) (auto simp: prefix_def strict_prefix_def)
  with Cons show ?case by (auto intro: removes_bind)
qed simp

lemma removes_batches: "only_removes (strict_prefix dir) fs (snd (remove_batches dk dir fs))"
proof (induction dk dir fs rule: remove_batches.induct)
  case (1 dk dir fs)
  show ?case
  proof (cases "read_names dk dir fs")
    case (Inr names)
    from removes_names [of dir dk names] have step: "only_removes (strict_prefix dir) fs (snd (remove_names dk dir names fs))"
      by (simp add: removes_def)
    obtain r fs1 where call: "remove_names dk dir names fs = (r, fs1)" by fastforce
    show ?thesis
    proof (cases "names = [] \<or> r \<noteq> Inr ()")
      case True
      with Inr call step show ?thesis by (cases r) (auto simp: remove_batches.simps [of dk dir fs])
    next
      case False
      with Inr call have "remove_batches dk dir fs = remove_batches dk dir fs1"
        by (simp add: remove_batches.simps [of dk dir fs])
      moreover from 1 [OF Inr _ call [symmetric]] False have "only_removes (strict_prefix dir) fs1 (snd (remove_batches dk dir fs1))"
        by simp
      ultimately show ?thesis using step call only_removes_trans by simp
    qed
  qed (simp add: remove_batches.simps [of dk dir fs])
qed

lemma removes_workspace:
  assumes "hash \<noteq> ''.''" "hash \<noteq> ''..''"
  shows "removes (prefix (parent @ [hash])) (removeWorkspace dk parent hash)"
  unfolding removes_def
proof
  fix fs
  show "only_removes (prefix (parent @ [hash])) fs (snd (removeWorkspace dk parent hash fs))"
  proof (cases "entry_info dk ''lstat'' parent hash fs = Inr NDir")
    case True
    then have "fs_at fs (parent @ [hash]) = Some NDir"
      by (auto simp: entry_info_def look_def split: option.splits node.splits)
    with open_child assms have child: "open_dir parent fs parent [hash] = Inr (parent @ [hash])" by blast
    have batches: "removes (prefix (parent @ [hash])) (remove_batches dk (parent @ [hash]))"
      unfolding removes_def using only_removes_mono [OF removes_batches] by (auto simp: strict_prefix_def)
    have "removes (prefix (parent @ [hash]))
       (fs_bind (fs_check (\<lambda>fs. sameRootDirectory dk fs parent hash)) (\<lambda>_.
        fs_bind (fs_check (rejectWorkspaceTree dk (parent @ [hash]))) (\<lambda>_.
        fs_bind (fs_check (\<lambda>fs. sameRootDirectory dk fs parent hash)) (\<lambda>_.
        fs_bind (remove_batches dk (parent @ [hash])) (\<lambda>_.
        fs_bind (fs_check (\<lambda>fs. sameRootDirectory dk fs parent hash)) (\<lambda>_.
        fs_change (\<lambda>fs. wrapped (io dk ''remove'' (parent @ [hash]) (remove_one (parent @ [hash]) fs)))))))))"
      by (intro removes_bind removes_check batches removes_remove_one)
    with True child show ?thesis
      by (auto simp: removes_def removeWorkspace_def intro!: removes_got)
  qed (auto simp: removeWorkspace_def split: sum.split)
qed

lemma workspace_parent_kept:
  "removes (\<lambda>p. prefix (cd @ [hash]) p \<or> prefix (cd @ [''.quarantine'', hash]) p)
     (fs_bind (\<lambda>fs. case entry_info dk ''lstat'' cd ''.quarantine'' fs of
          Inl e \<Rightarrow> if os_IsNotExist e then (Inr (), fs) else (Inl (Wrapped e), fs)
        | Inr info \<Rightarrow>
            if is_link info \<or> info \<noteq> NDir then (Inl (FsText ''workspace quarantine must be a directory''), fs)
            else
              fs_bind (fs_get (\<lambda>fs. wrapped (io dk ''openroot'' (cd @ [''.quarantine'']) (open_dir cd fs cd [''.quarantine''])))) (\<lambda>quarantine.
              fs_bind (fs_check (\<lambda>fs. sameRootDirectory dk fs cd ''.quarantine'')) (\<lambda>_.
              fs_on_err Wrapped (removeWorkspace dk quarantine hash))) fs) (\<lambda>_.
      fs_bind (fs_check (\<lambda>fs. sameRootDirectory dk fs saveRoot ''.cd211'')) (\<lambda>_.
      removeWorkspace dk cd hash)))"
  (is "removes ?S (fs_bind ?quarantine ?rest)")
  if "hash \<noteq> ''.''" "hash \<noteq> ''..''"
proof (rule removes_bind)
  from removes_workspace [OF that, of cd dk] have "removes ?S (removeWorkspace dk cd hash)"
    by (rule removes_mono) simp
  then show "removes ?S (?rest x)" for x by (intro removes_bind removes_check)
  have nested: "removes ?S (removeWorkspace dk (cd @ [''.quarantine'']) hash)"
    using removes_workspace [OF that, of "cd @ [''.quarantine'']" dk] by (rule removes_mono) simp
  show "removes ?S ?quarantine"
    unfolding removes_def
  proof
    fix fs
    show "only_removes ?S fs (snd (?quarantine fs))"
    proof (cases "entry_info dk ''lstat'' cd ''.quarantine'' fs = Inr NDir")
      case True
      then have "fs_at fs (cd @ [''.quarantine'']) = Some NDir"
        by (auto simp: entry_info_def look_def split: option.splits node.splits)
      then have "open_dir cd fs cd [''.quarantine''] = Inr (cd @ [''.quarantine''])" by (simp add: open_child)
      moreover from nested have "removes ?S (fs_bind (fs_check (\<lambda>fs. sameRootDirectory dk fs cd ''.quarantine'')) (\<lambda>_.
              fs_on_err Wrapped (removeWorkspace dk (cd @ [''.quarantine'']) hash)))"
        by (intro removes_bind removes_check) simp
      ultimately show ?thesis using True by (auto simp: removes_def intro!: removes_got)
    qed (auto split: sum.split)
  qed
qed

lemma workspace_deletion_confined:
  fixes dk localRoot savePath hash fs
  defines "fs' \<equiv> snd (DeleteWorkspace dk localRoot savePath hash fs)"
  assumes "fs_at fs' p \<noteq> fs_at fs p"
  shows "\<exists>dir evaluated. openSaveRoot dk fs localRoot savePath = Inr (dir, evaluated) \<and> fs_at fs' p = None
     \<and> (prefix (dir @ [''.cd211'', hash]) p \<or> prefix (dir @ [''.cd211'', ''.quarantine'', hash]) p)"
proof -
  from assms have "WorkspacePath savePath hash \<noteq> None"
    by (auto simp: DeleteWorkspace_def fs_fail_def split: option.splits)
  then have hash: "hash \<noteq> ''.''" "hash \<noteq> ''..''"
    by (auto simp: WorkspacePath_def validateWorkspaceHash_def split: if_splits)
  show ?thesis
  proof (cases "openWorkspaceSaveRoot dk fs localRoot savePath")
    case (Inr opened)
    obtain dir evaluated where opened: "opened = (dir, evaluated)" by (cases opened)
    with Inr have root_dir: "openSaveRoot dk fs localRoot savePath = Inr (dir, evaluated)"
      by (auto simp: openWorkspaceSaveRoot_def and_then_Inr_iff split: if_splits option.splits)
    let ?S = "\<lambda>p. prefix ((dir @ [''.cd211'']) @ [hash]) p \<or> prefix ((dir @ [''.cd211'']) @ [''.quarantine'', hash]) p"
    have "only_removes ?S fs fs'"
    proof (cases "entry_info dk ''lstat'' dir ''.cd211'' fs = Inr NDir")
      case True
      then have "fs_at fs (dir @ [''.cd211'']) = Some NDir"
        by (auto simp: entry_info_def look_def split: option.splits node.splits)
      then have "open_dir dir fs dir [''.cd211''] = Inr (dir @ [''.cd211''])" by (simp add: open_child)
      moreover have "removes ?S (fs_bind (fs_check (\<lambda>fs. sameRootDirectory dk fs dir ''.cd211'')) (\<lambda>_.
          fs_bind m (\<lambda>_. fs_bind (fs_check (\<lambda>fs. sameRootDirectory dk fs dir ''.cd211'')) (\<lambda>_.
                removeWorkspace dk (dir @ [''.cd211'']) hash))))"
        if "removes ?S (fs_bind m (\<lambda>_. fs_bind (fs_check (\<lambda>fs. sameRootDirectory dk fs dir ''.cd211'')) (\<lambda>_.
                removeWorkspace dk (dir @ [''.cd211'']) hash)))" for m
        by (rule removes_bind [OF removes_check that])
      note this [OF workspace_parent_kept [OF hash]]
      ultimately show ?thesis using True Inr opened \<open>WorkspacePath savePath hash \<noteq> None\<close>
        by (auto simp: assms(1) DeleteWorkspace_def removes_def intro!: removes_got)
    qed (use Inr opened in \<open>auto simp: assms(1) DeleteWorkspace_def fs_fail_def split: option.split sum.split intro!: removes_got\<close>)
    with assms(2) root_dir show ?thesis by (auto simp: only_removes_def)
  next
    case (Inl e)
    with assms show ?thesis
      by (auto simp: DeleteWorkspace_def fs_bind_def fs_get_def fs_fail_def split: option.splits)
  qed
qed

lemma content_deletion_confined:
  fixes dk localRoot contentPath savePath fs
  defines "fs' \<equiv> snd (Delete_content dk localRoot contentPath savePath fs)"
  assumes "fs_at fs' p \<noteq> fs_at fs p"
  shows "\<exists>base dir evaluated. open_dir [] fs [] (comps localRoot) = Inr base \<and> prefix base dir
     \<and> openSaveRoot dk fs localRoot (path_clean savePath) = Inr (dir, evaluated)
     \<and> strict_prefix dir p \<and> fs_at fs' p = None"
proof (cases "openSaveRoot dk fs localRoot (path_clean savePath)")
  case (Inr opened)
  obtain dir evaluated where opened: "opened = (dir, evaluated)" by (cases opened)
  have "only_removes (strict_prefix dir) fs fs'"
    using Inr opened delete_beneath_inside
    by (auto simp: assms(1) Delete_content_def fs_fail_def removes_def fs_bind_def [of "fs_check _"] fs_check_def
        split: option.split intro!: removes_got)
  with assms(2) have "strict_prefix dir p" "fs_at fs' p = None" by (auto simp: only_removes_def)
  with Inr opened show ?thesis by (auto elim: open_save_root)
next
  case (Inl e)
  with assms show ?thesis
    by (auto simp: Delete_content_def fs_bind_def fs_get_def fs_fail_def split: if_splits)
qed

end
