(* ===== verification/Fsafe_Verified.thy ===== *)
theory Fsafe_Verified
  imports Fsafe_Facts Reconcile_Safety
begin

section \<open>What verification has seen\<close>

text \<open>
  A manifest that verifies is on the disk file by file; content of unknown type is a regular file or a
  tree without links.  With the verifier of the reconciler instantiated by these operations, a completed
  download is on the disk.
\<close>

definition files_present :: "fsys \<Rightarrow> fpath \<Rightarrow> (string \<times> int) list \<Rightarrow> bool" where
  "files_present fs dir files \<longleftrightarrow>
     list_all (\<lambda>(relative, len). \<exists>i. lstat fs (dir @ split_on CHR ''/'' relative) = Inr (NFile len i)) files"

text \<open>The sum that the walk over a tree accumulates.\<close>

definition tree_sum :: "fsys \<Rightarrow> fpath \<Rightarrow> int" where
  "tree_sum fs dir = foldl (\<lambda>acc n. wrap64 (acc + node_size n)) 0 (filter is_regular (map snd (tree_entries fs dir)))"

definition plain_tree :: "fsys \<Rightarrow> fpath \<Rightarrow> bool" where
  "plain_tree fs dir \<longleftrightarrow> list_all (\<lambda>(p, n). n = NDir \<or> is_regular n) (tree_entries fs dir)"

definition content_present :: "fsys \<Rightarrow> fpath \<Rightarrow> int \<Rightarrow> bool" where
  "content_present fs p len \<longleftrightarrow>
     (\<exists>i. stat fs p = Inr (NFile len i)) \<or> (stat fs p = Inr NDir \<and> plain_tree fs p \<and> len = tree_sum fs p)"

lemma exact_NFile: "is_regular n \<and> node_size n = len \<longleftrightarrow> (\<exists>i. n = NFile len i)"
  by (cases n) auto

lemma manifest_parts_present:
  "manifest_parts dk fs dir ws len = None \<Longrightarrow> ws \<noteq> [] \<Longrightarrow> \<exists>i. lstat fs (dir @ ws) = Inr (NFile len i)"
proof (induction ws arbitrary: dir)
  case (Cons w ws)
  show ?case
  proof (cases "ws = []")
    case True
    with Cons.prems exact_NFile show ?thesis by (auto split: sum.splits if_splits)
  next
    case False
    from Cons.prems have "manifest_parts dk fs (dir @ [w]) ws len = None" by (auto split: sum.splits if_splits)
    from Cons.IH [OF this False] show ?thesis by simp
  qed
qed simp

lemma split_nonempty: "split_on c s \<noteq> []"
  by (induction s) (auto split: list.splits)

lemma verify_files_present:
  "verify_files dk fs dir seen acc files = Inr n \<Longrightarrow>
     files_present fs dir files \<and> n = acc + sum_list (map snd files) \<and> distinct (map fst files)
     \<and> set (map fst files) \<inter> set seen = {} \<and> acc \<le> n \<and> (files \<noteq> [] \<longrightarrow> n \<le> max_int64)"
proof (induction files arbitrary: seen acc)
  case (Cons f files)
  obtain relative len where f: "f = (relative, len)" by (cases f)
  with Cons.prems have parts: "manifest_parts dk fs dir (split_on CHR ''/'' relative) len = None"
    and rest: "verify_files dk fs dir (relative # seen) (acc + len) files = Inr n"
    and ok: "0 \<le> len" "acc \<le> max_int64 - len" "relative \<notin> set seen"
    by (auto split: if_splits option.splits)
  from Cons.IH [OF rest] ok manifest_parts_present [OF parts split_nonempty] show ?case
    by (cases files) (auto simp: f files_present_def)
qed (auto simp: files_present_def)

lemma sum_tree_plain:
  "sum_tree dk acc es = Inr n \<Longrightarrow>
     list_all (\<lambda>(p, m). m = NDir \<or> is_regular m) es
     \<and> n = foldl (\<lambda>acc m. wrap64 (acc + node_size m)) acc (filter is_regular (map snd es))"
  by (induction dk acc es rule: sum_tree.induct) (auto split: option.splits if_splits)

lemma tree_size_plain: "treeSize dk fs dir = Inr n \<Longrightarrow> plain_tree fs dir \<and> n = tree_sum fs dir"
  using sum_tree_plain by (fastforce simp: treeSize_def plain_tree_def tree_sum_def)

subsection \<open>The content of one download\<close>

text \<open>
  Where the recorded content path leads: the directory or file that \<open>filepath.EvalSymlinks\<close> makes of it,
  strictly below the local root and below the resolved workspace.
\<close>

definition resolved_content :: "Disk \<Rightarrow> fsys \<Rightarrow> string \<Rightarrow> string \<Rightarrow> string \<Rightarrow> string \<Rightarrow> bool" where
  "resolved_content dk fs localRoot work p t \<longleftrightarrow> EvalSymlinks dk fs p = Inr t \<and> strictlyWithin localRoot t
     \<and> (\<exists>saveRoot. resolveSaveRoot dk fs localRoot work = Inr saveRoot \<and> strictlyWithin saveRoot t)"

lemma candidate_resolved:
  assumes "inspectCandidate dk fs localRoot work name = Inr (p, candidate, info)"
  shows "p = path_join [path_clean work, name] \<and> resolved_content dk fs localRoot work p candidate
    \<and> stat fs (comps candidate) = Inr info"
  using assms
  by (auto simp: inspectCandidate_def Let_def and_then_Inr_iff resolved_content_def io_def split: option.splits if_splits)

lemma save_root_resolved:
  "resolveSaveRoot dk fs localRoot work = Inr dir \<Longrightarrow>
     EvalSymlinks dk fs (path_clean work) = Inr dir \<and> withinOrEqual localRoot dir \<and> stat fs (comps dir) = Inr NDir"
  by (auto simp: resolveSaveRoot_def and_then_Inr_iff wrapped_def io_def split: if_splits option.splits)

lemma unknown_content_present:
  assumes "VerifyUnknownType dk fs localRoot work name = Inr c"
  shows "ucPath c = path_join [path_clean work, name] \<and>
    (\<exists>t. resolved_content dk fs localRoot work (ucPath c) t \<and> content_present fs (comps t) (ucSize c)
       \<and> (ucMultiFile c \<longleftrightarrow> stat fs (comps t) = Inr NDir))"
proof -
  from assms obtain p candidate info where c: "inspectCandidate dk fs localRoot work name = Inr (p, candidate, info)"
    and rest: "(if info = NDir then and_then (treeSize dk fs (comps candidate)) (\<lambda>len. Inr \<lparr>ucPath = p, ucSize = len, ucMultiFile = True\<rparr>)
       else if \<not> is_regular info
       then Inl (FsFailure FailureUnsafe ''inspect_candidate'' (FsText ''candidate is not a regular file or directory''))
       else Inr \<lparr>ucPath = p, ucSize = node_size info, ucMultiFile = False\<rparr>) = Inr c"
    by (auto simp: VerifyUnknownType_def and_then_Inr_iff)
  from rest candidate_resolved [OF c] exact_NFile [of info "node_size info"] tree_size_plain
  have "content_present fs (comps candidate) (ucSize c) \<and> ucPath c = p
      \<and> (ucMultiFile c \<longleftrightarrow> stat fs (comps candidate) = Inr NDir)"
    by (auto simp: content_present_def and_then_Inr_iff split: if_splits)
  with candidate_resolved [OF c] show ?thesis by auto
qed

text \<open>
  A manifest that verifies: a single file lies directly below the resolved workspace, the files of a
  directory below what the content path resolves to.
\<close>

definition manifest_present ::
    "Disk \<Rightarrow> fsys \<Rightarrow> string \<Rightarrow> string \<Rightarrow> string \<Rightarrow> bool \<Rightarrow> (string \<times> int) list \<Rightarrow> string \<Rightarrow> bool" where
  "manifest_present dk fs localRoot work name single files p \<longleftrightarrow>
     (if single then length files = 1 \<and> p = path_join [path_clean work, fst (hd files)] \<and>
        (\<exists>dir. EvalSymlinks dk fs (path_clean work) = Inr dir \<and> withinOrEqual localRoot dir
           \<and> files_present fs (comps dir) files)
      else p = path_join [path_clean work, name] \<and>
        (\<exists>t. resolved_content dk fs localRoot work p t \<and> files_present fs (comps t) files))"

lemma known_content_present:
  assumes "Verify_content dk fs localRoot work x = Inr c" "xcFiles x \<noteq> []"
  shows "manifest_present dk fs localRoot work (xcCandidateName x) (\<not> xcMultiFile x) (xcFiles x) (vcPath c)
     \<and> distinct (map fst (xcFiles x)) \<and> vcSize c = sum_list (map snd (xcFiles x)) \<and> vcSize c \<le> max_int64"
proof (cases "xcMultiFile x")
  case False
  with assms obtain dir len where r: "resolveSaveRoot dk fs localRoot work = Inr dir"
      "verifyManifest dk fs dir (xcFiles x) = Inr len" "length (xcFiles x) = 1"
      "c = \<lparr>vcPath = path_join [path_clean work, fst (hd (xcFiles x))], vcSize = len\<rparr>"
    by (auto simp: Verify_content_def and_then_Inr_iff split: if_splits)
  from verify_files_present [OF r(2) [unfolded verifyManifest_def]] save_root_resolved [OF r(1)] r(3,4) False assms(2)
  show ?thesis by (auto simp: manifest_present_def)
next
  case True
  with assms obtain p dir info len where r: "inspectCandidate dk fs localRoot work (xcCandidateName x) = Inr (p, dir, info)"
      "verifyManifest dk fs dir (xcFiles x) = Inr len" "c = \<lparr>vcPath = p, vcSize = len\<rparr>"
    by (auto simp: Verify_content_def and_then_Inr_iff split: if_splits)
  from verify_files_present [OF r(2) [unfolded verifyManifest_def]] candidate_resolved [OF r(1)] r(3) True assms(2)
  show ?thesis by (auto simp: manifest_present_def)
qed

subsection \<open>The reconciler on this file system\<close>

text \<open>The verifying calls of the reconciler are those of the verifier, made on one state of the disk.\<close>

definition disk_verifier :: "Disk \<Rightarrow> fsys \<Rightarrow> string \<Rightarrow> World \<Rightarrow> World" where
  "disk_verifier dk fs localRoot w = w
     \<lparr>wVerify := \<lambda>p x. map_err Diagnose (Verify_content dk fs localRoot p x),
      wVerifyUnknownType := \<lambda>p name. map_err Diagnose (VerifyUnknownType dk fs localRoot p name)\<rparr>"

lemma verify_disk [simp]: "wVerify (disk_verifier dk fs localRoot w) p x = map_err Diagnose (Verify_content dk fs localRoot p x)"
  by (simp add: disk_verifier_def)

lemma selected_disk [simp]: "selected_files (disk_verifier dk fs localRoot w) d = selected_files w d"
  by (simp add: selected_files_def disk_verifier_def split: sum.split option.split)

text \<open>
  What a completed row says of the disk.  Of unknown type is a magnet, or a torrent whose layout is not recorded;
  else the manifest is the recorded one, as far as the overrides select its files.
\<close>

definition recorded_on_disk :: "Disk \<Rightarrow> fsys \<Rightarrow> string \<Rightarrow> World \<Rightarrow> Download \<Rightarrow> Download \<Rightarrow> bool" where
  "recorded_on_disk dk fs localRoot w d n \<longleftrightarrow>
     (if dSourceKind d = SourceMagnet \<or> dIsMultiFile d = None then
        dContentPath n = path_join [path_clean (workspaceRoot d), dDestinationName d] \<and>
        (\<exists>t. resolved_content dk fs localRoot (workspaceRoot d) (dContentPath n) t
           \<and> content_present fs (comps t) (dTotalSize n)
           \<and> dIsMultiFile n = Some (stat fs (comps t) = Inr NDir))
      else \<exists>files. selected_files w d = Some files \<and> files \<noteq> [] \<and>
        manifest_present dk fs localRoot (workspaceRoot d) (dDestinationName d) (copiesTorrentAsFile d)
          (map (\<lambda>f. (fRelativePath f, fSize f)) files) (dContentPath n) \<and>
        distinct (map fRelativePath files) \<and> dTotalSize n = sum_list (map fSize files) \<and> dTotalSize n \<le> max_int64)"

lemma completed_is_present:
  fixes c dk fs localRoot w d
  defines "dc \<equiv> decide c (disk_verifier dk fs localRoot w) d"
  assumes "dState (dcNext dc) = StateCompleted" "dcErr dc = None"
  shows "recorded_on_disk dk fs localRoot w d (dcNext dc)"
proof -
  let ?w = "disk_verifier dk fs localRoot w"
  from decide_completes [of c ?w d] assms obtain d' eff
    where v: "verifyAndRecord ?w d = (None, d', eff)" "dcNext dc = complete (wNow ?w) d'"
    by (auto simp: dc_def)
  have n: "dTotalSize (dcNext dc) = dTotalSize d'" "dContentPath (dcNext dc) = dContentPath d'"
    "dIsMultiFile (dcNext dc) = dIsMultiFile d'"
    by (simp_all add: v(2) complete_def clear_error_def)
  show ?thesis
  proof (cases "dSourceKind d = SourceMagnet \<or> dIsMultiFile d = None")
    case True
    from verify_unknown_recorded [OF v(1) True] obtain r where
        "VerifyUnknownType dk fs localRoot (workspaceRoot d) (dDestinationName d) = Inr r"
        "dContentPath d' = ucPath r" "dTotalSize d' = ucSize r" "dIsMultiFile d' = Some (ucMultiFile r)"
      unfolding verified_unknown_def by (auto simp: disk_verifier_def)
    with unknown_content_present [OF this(1)] True n show ?thesis by (auto simp: recorded_on_disk_def)
  next
    case False
    from verify_manifest_recorded [OF v(1) False] obtain files r where f: "selected_files w d = Some files" "files \<noteq> []"
        "Verify_content dk fs localRoot (workspaceRoot d) (expected_content d files) = Inr r"
        "dContentPath d' = vcPath r" "dTotalSize d' = vcSize r"
      by auto
    from known_content_present [OF f(3)] f(1,2,4,5) False n show ?thesis
      by (auto simp: recorded_on_disk_def expected_content_def comp_def)
  qed
qed

end
