(* ===== verification/Fsafe_Convergence.thy ===== *)
theory Fsafe_Convergence
  imports Fsafe_Facts
begin

section \<open>Renames that survive faults (internal/fsafe: plan.go)\<close>

text \<open>
  A plan whose sources, temporaries and targets are all apart, so that no target is the source of another
  move, can be interrupted by any failing call and run again: the file of each move is at its source,
  its temporary or its target, nothing else is touched, and a run in which no call fails completes the plan.
\<close>

lemma map_err_simps [simp]: "map_err f (Inl e) = Inl (f e)" "map_err f (Inr x) = Inr x"
  by (simp_all add: map_err_def)

lemma io_fine: "dkFault dk call p = None \<Longrightarrow> io dk call p r = map_err Errno r"
  by (simp add: io_def)

subsection \<open>Plain paths\<close>

text \<open>Every entry stands in a directory.\<close>

definition rooted :: "fsys \<Rightarrow> bool" where
  "rooted fs \<longleftrightarrow> (\<forall>p. fs_at fs p \<noteq> None \<longrightarrow> p \<noteq> [] \<longrightarrow> fs_at fs (butlast p) = Some NDir)"

lemma rootedD: "rooted fs \<Longrightarrow> fs_at fs (p @ [w]) \<noteq> None \<Longrightarrow> fs_at fs p = Some NDir"
  by (metis rooted_def append_is_Nil_conv butlast_snoc not_Cons_self2)

lemma rooted_above: "rooted fs \<Longrightarrow> fs_at fs (p @ q) \<noteq> None \<Longrightarrow> q \<noteq> [] \<Longrightarrow> fs_at fs p = Some NDir"
proof (induction q rule: rev_induct)
  case (snoc w q)
  then have "fs_at fs (p @ q) = Some NDir" using rootedD [of fs "p @ q" w] by simp
  with snoc show ?case by (cases "q = []") auto
qed simp

text \<open>No link and no file stands in the way of the path.\<close>

definition open_way :: "fsys \<Rightarrow> fpath \<Rightarrow> bool" where
  "open_way fs p \<longleftrightarrow> p \<noteq> [] \<and> list_all normal_comp p \<and> (\<forall>q. strict_prefix q p \<longrightarrow> fs_at fs q \<in> {None, Some NDir})"

lemma walk_plain:
  assumes "rooted fs" "fs_at fs d = Some NDir" "list_all normal_comp ws"
    "\<And>q. prefix q ws \<Longrightarrow> fs_at fs (d @ q) \<in> {None, Some NDir}"
  shows "walk None n fs d ws = (if fs_at fs (d @ ws) = Some NDir then Inr (d @ ws) else Inl ENOENT)"
  using assms(2-)
proof (induction ws arbitrary: d)
  case (Cons w ws)
  then have names: "w \<noteq> ''.''" "w \<noteq> ''..''" by (auto simp: normal_comp_def)
  show ?case
  proof (cases "fs_at fs (d @ [w])")
    case None
    with rooted_above [OF assms(1), of "d @ [w]" ws] have "fs_at fs (d @ w # ws) = None" by (cases "ws = []") fastforce+
    with None names show ?thesis by (simp add: walk.simps(2))
  next
    case (Some x)
    with Cons.prems(3) [of "[w]"] have dir: "fs_at fs (d @ [w]) = Some NDir" by simp
    have "fs_at fs ((d @ [w]) @ q) \<in> {None, Some NDir}" if "prefix q ws" for q
      using Cons.prems(3) [of "w # q"] that by simp
    from Cons.IH [OF dir _ this] Cons.prems(2) dir names show ?thesis by (simp add: walk.simps(2))
  qed
qed simp

lemma strictly_above: "p \<noteq> [] \<Longrightarrow> prefix q (butlast p) \<Longrightarrow> strict_prefix q p"
  by (cases p rule: rev_cases) (auto simp: strict_prefix_def prefix_def)

lemma walk_parent:
  assumes "rooted fs" "open_way fs p"
  shows "walk None n fs [] (butlast p) = (if fs_at fs (butlast p) = Some NDir then Inr (butlast p) else Inl ENOENT)"
proof -
  have "prefix q (butlast p) \<Longrightarrow> strict_prefix q p" for q
    using assms(2) by (intro strictly_above) (simp_all add: open_way_def)
  with assms walk_plain [of fs "[]" "butlast p" n] show ?thesis
    by (auto simp: open_way_def list_all_iff in_set_butlastD)
qed

lemma lstat_plain:
  assumes "rooted fs" "open_way fs p"
  shows "lstat fs p = (case fs_at fs p of None \<Rightarrow> Inl ENOENT | Some n \<Rightarrow> Inr n)"
proof -
  have p: "p \<noteq> []" "butlast p @ [last p] = p" using assms(2) by (auto simp: open_way_def)
  with assms rootedD [of fs "butlast p" "last p"] show ?thesis
    by (cases "fs_at fs p") (auto simp: lstat_def lstat_from_def walk_parent look_def)
qed

lemma entry_plain:
  assumes "rooted fs" "open_way fs p"
  shows "entry_from None fs [] p = (if fs_at fs (butlast p) = Some NDir then Inr p else Inl ENOENT)"
  using assms by (auto simp: entry_from_def walk_parent open_way_def)

definition looked :: "fsys \<Rightarrow> fpath \<Rightarrow> errno + node" where
  "looked fs p = (case fs_at fs p of None \<Rightarrow> Inl ENOENT | Some n \<Rightarrow> Inr n)"

lemma peek_plain: "rooted fs \<Longrightarrow> open_way fs p \<Longrightarrow> peek dk fs p = io dk ''lstat plan'' p (looked fs p)"
  by (simp add: peek_def lstat_plain looked_def)

subsection \<open>What a rename does\<close>

lemma rename_Inr:
  assumes "rooted fs" "open_way fs source" "open_way fs target" "os_rename source target fs = Inr fs'"
  obtains n where "fs_at fs source = Some n" "n \<noteq> NDir" "fs_at fs (butlast target) = Some NDir"
    "fs_at fs target \<noteq> Some NDir" "\<And>q. fs_at fs' q = (if q = target then Some n else if q = source then None else fs_at fs q)"
proof -
  have "source \<noteq> []" "target \<noteq> []" using assms(2,3) by (auto simp: open_way_def)
  with assms that show thesis
    by (auto simp: os_rename_def and_then_Inr_iff entry_plain rename_file_def split: if_splits option.splits node.splits)
qed

lemma rename_possible:
  assumes "rooted fs" "open_way fs source" "open_way fs target" "fs_at fs source = Some n" "n \<noteq> NDir"
    "fs_at fs (butlast target) = Some NDir" "fs_at fs target \<noteq> Some NDir"
  shows "\<exists>fs'. os_rename source target fs = Inr fs'"
proof -
  have "fs_at fs (butlast source) = Some NDir"
    using assms(1,2,4) by (metis open_way_def option.distinct(1) rooted_def)
  with assms show ?thesis by (cases n) (simp_all add: os_rename_def entry_plain rename_file_def)
qed

lemma rename_rooted:
  assumes "rooted fs" "fs_at fs source = Some n" "n \<noteq> NDir" "fs_at fs (butlast target) = Some NDir"
    "fs_at fs target \<noteq> Some NDir"
    "\<And>q. fs_at fs' q = (if q = target then Some n else if q = source then None else fs_at fs q)"
  shows "rooted fs'"
  unfolding rooted_def
proof (intro allI impI)
  fix p assume p: "fs_at fs' p \<noteq> None" "p \<noteq> []"
  have dir: "fs_at fs (butlast p) = Some NDir"
    using p assms(1,4,6) by (auto simp: rooted_def split: if_splits)
  with assms(2,3,5,6) show "fs_at fs' (butlast p) = Some NDir" by auto
qed


lemma drop_rooted: "rooted fs \<Longrightarrow> p \<noteq> [] \<Longrightarrow> fs_at fs p \<noteq> Some NDir \<Longrightarrow> rooted (drop_entry p fs)"
  by (auto simp: rooted_def)

lemma mkdir_all_Inr:
  "mkdir_all d ws fs = Inr fs' \<Longrightarrow> rooted fs \<Longrightarrow> fs_at fs d = Some NDir \<Longrightarrow>
     rooted fs' \<and> fs_at fs' (d @ ws) = Some NDir
     \<and> (\<forall>q. fs_at fs' q = fs_at fs q \<or> (fs_at fs q = None \<and> fs_at fs' q = Some NDir \<and> prefix q (d @ ws)))"
proof (induction ws arbitrary: d fs)
  case (Cons w ws)
  show ?case
  proof (cases "fs_at fs (d @ [w])")
    case None
    let ?fs = "put (d @ [w]) NDir fs"
    have "rooted ?fs" using Cons.prems(2,3) by (auto simp: rooted_def)
    with None Cons.IH [of "d @ [w]" ?fs] Cons.prems(1) have IH: "rooted fs' \<and> fs_at fs' ((d @ [w]) @ ws) = Some NDir"
      "\<And>q. fs_at fs' q = fs_at ?fs q \<or> (fs_at ?fs q = None \<and> fs_at fs' q = Some NDir \<and> prefix q ((d @ [w]) @ ws))"
      by (auto split: node.splits)
    have "fs_at fs' q = fs_at fs q \<or> (fs_at fs q = None \<and> fs_at fs' q = Some NDir \<and> prefix q (d @ w # ws))" for q
      using IH(2) [of q] None by (auto split: if_splits)
    with IH(1) show ?thesis by simp
  next
    case (Some x)
    with Cons.prems(1) have "x = NDir" "mkdir_all (d @ [w]) ws fs = Inr fs'" by (auto split: node.splits)
    with Cons.IH [of "d @ [w]" fs] Cons.prems(2) Some show ?thesis by simp
  qed
qed simp

lemma mkdir_all_possible:
  "(\<And>q. prefix q ws \<Longrightarrow> fs_at fs (d @ q) \<in> {None, Some NDir}) \<Longrightarrow> \<exists>fs'. mkdir_all d ws fs = Inr fs'"
proof (induction ws arbitrary: d fs)
  case (Cons w ws)
  from Cons.prems [of "[w]"] have w: "fs_at fs (d @ [w]) \<in> {None, Some NDir}" by simp
  have ws: "fs_at fs ((d @ [w]) @ q) \<in> {None, Some NDir}" if "prefix q ws" for q
    using Cons.prems [of "w # q"] that by simp
  then have "fs_at (put (d @ [w]) NDir fs) ((d @ [w]) @ q) \<in> {None, Some NDir}" if "prefix q ws" for q
    using that by auto
  from Cons.IH [OF this] Cons.IH [OF ws] w show ?case by auto
qed simp

subsection \<open>The state of a plan\<close>

definition move_paths :: "Move \<Rightarrow> fpath list" where
  "move_paths m = [mvSource m, mvTemp m, mvTarget m]"

definition plan_paths :: "Move list \<Rightarrow> fpath list \<Rightarrow> fpath list" where
  "plan_paths moves excluded = concat (map move_paths moves) @ excluded"

definition plan_apart :: "Move list \<Rightarrow> fpath list \<Rightarrow> bool" where
  "plan_apart moves excluded \<longleftrightarrow> distinct (plan_paths moves excluded) \<and>
     list_all (\<lambda>p. list_all (\<lambda>q. prefix p q \<longrightarrow> p = q) (plan_paths moves excluded)) (plan_paths moves excluded)"

text \<open>The file of a move is at exactly one of its three places.\<close>

definition one_place :: "fsys \<Rightarrow> Move \<Rightarrow> node \<Rightarrow> bool" where
  "one_place fs m n \<longleftrightarrow> (\<exists>p \<in> set (move_paths m). fs_at fs p = Some n \<and> (\<forall>q \<in> set (move_paths m) - {p}. fs_at fs q = None))"

text \<open>Outside the plan nothing has changed, but for new directories above targets.\<close>

definition outside_kept :: "Move list \<Rightarrow> fpath list \<Rightarrow> fsys \<Rightarrow> fsys \<Rightarrow> bool" where
  "outside_kept moves excluded fs fs' \<longleftrightarrow> (\<forall>q. q \<notin> set (plan_paths moves excluded) \<longrightarrow>
     fs_at fs' q = fs_at fs q \<or>
     (fs_at fs q = None \<and> fs_at fs' q = Some NDir \<and> (\<exists>m \<in> set moves. strict_prefix q (mvTarget m))))"

definition plan_state :: "Move list \<Rightarrow> fpath list \<Rightarrow> (Move \<Rightarrow> node) \<Rightarrow> fsys \<Rightarrow> fsys \<Rightarrow> bool" where
  "plan_state moves excluded node0 fs0 fs \<longleftrightarrow>
     rooted fs \<and> (\<forall>m \<in> set moves. one_place fs m (node0 m))
     \<and> (\<forall>p \<in> set (plan_paths moves excluded). open_way fs p)
     \<and> (\<forall>p \<in> set excluded. fs_at fs p \<in> {None, fs_at fs0 p})
     \<and> outside_kept moves excluded fs0 fs"

lemma outside_kept_trans:
  "outside_kept moves excluded fs fs' \<Longrightarrow> outside_kept moves excluded fs' fs'' \<Longrightarrow> outside_kept moves excluded fs fs''"
  unfolding outside_kept_def by metis

lemma plan_state_change:
  assumes "plan_apart moves excluded" "plan_state moves excluded node0 fs0 fs" "rooted fs'"
    "outside_kept moves excluded fs fs'" "\<And>m. m \<in> set moves \<Longrightarrow> one_place fs' m (node0 m)"
    "\<And>p. p \<in> set excluded \<Longrightarrow> fs_at fs' p \<in> {None, fs_at fs p}"
  shows "plan_state moves excluded node0 fs0 fs'"
proof -
  have "open_way fs' p" if p: "p \<in> set (plan_paths moves excluded)" for p
  proof -
    from assms(2) p have way: "open_way fs p" by (simp add: plan_state_def)
    have "fs_at fs' q \<in> {None, Some NDir}" if q: "strict_prefix q p" for q
    proof -
      from q p assms(1) have "q \<notin> set (plan_paths moves excluded)"
        by (auto simp: plan_apart_def list_all_iff strict_prefix_def)
      moreover from way q have "fs_at fs q \<in> {None, Some NDir}" by (simp add: open_way_def)
      ultimately show ?thesis using assms(4) by (auto simp: outside_kept_def)
    qed
    with way show ?thesis by (auto simp: open_way_def)
  qed
  moreover have "outside_kept moves excluded fs0 fs'"
    using assms(2,4) outside_kept_trans by (auto simp: plan_state_def)
  moreover have "fs_at fs' p \<in> {None, fs_at fs0 p}" if "p \<in> set excluded" for p
  proof -
    from assms(2) that have "fs_at fs p \<in> {None, fs_at fs0 p}" by (simp add: plan_state_def)
    with assms(6) [OF that] show ?thesis by auto
  qed
  ultimately show ?thesis using assms(3,5) by (simp add: plan_state_def)
qed


lemma apart_moves:
  assumes "plan_apart moves excluded" "m \<in> set moves"
  shows "distinct (move_paths m)" "m' \<in> set moves \<Longrightarrow> m' \<noteq> m \<Longrightarrow> set (move_paths m') \<inter> set (move_paths m) = {}"
    "set (move_paths m) \<inter> set excluded = {}" "set (move_paths m) \<subseteq> set (plan_paths moves excluded)"
proof -
  from assms have d: "distinct (concat (map move_paths moves))" "set (concat (map move_paths moves)) \<inter> set excluded = {}"
    by (auto simp: plan_apart_def plan_paths_def)
  then show "distinct (move_paths m)" "set (move_paths m) \<inter> set excluded = {}"
    using assms(2) by (auto simp: distinct_concat_iff)
  show "set (move_paths m) \<subseteq> set (plan_paths moves excluded)"
    using assms(2) by (auto simp: plan_paths_def)
  have "removeAll [] (map move_paths moves) = map move_paths moves"
    by (rule removeAll_id) (auto simp: move_paths_def)
  with d(1) have "distinct (map move_paths moves)" "\<And>xs ys. xs \<in> move_paths ` set moves \<Longrightarrow> ys \<in> move_paths ` set moves
      \<Longrightarrow> xs \<noteq> ys \<Longrightarrow> set xs \<inter> set ys = {}"
    by (simp_all add: distinct_concat_iff)
  then show "m' \<in> set moves \<Longrightarrow> m' \<noteq> m \<Longrightarrow> set (move_paths m') \<inter> set (move_paths m) = {}"
    using assms(2) by (metis distinct_map image_eqI inj_onD)
qed

lemma state_move:
  assumes "plan_state moves excluded node0 fs0 fs" "m \<in> set moves" "p \<in> set (move_paths m)"
  shows "rooted fs" "open_way fs p" "one_place fs m (node0 m)"
  using assms by (auto simp: plan_state_def plan_paths_def)

lemma one_place_holder:
  assumes "one_place fs m n" "p \<in> set (move_paths m)" "fs_at fs p \<noteq> None" "q \<in> set (move_paths m)"
  shows "fs_at fs q = (if q = p then Some n else None)"
proof -
  from assms(1) obtain h where h: "h \<in> set (move_paths m)" "fs_at fs h = Some n"
      "\<forall>q \<in> set (move_paths m) - {h}. fs_at fs q = None" unfolding one_place_def by blast
  with assms(2,3) have "h = p" by (metis Diff_iff singletonD)
  with h assms(4) show ?thesis by simp
qed

lemma rename_within:
  assumes apart: "plan_apart moves excluded" and st: "plan_state moves excluded node0 fs0 fs" and m: "m \<in> set moves"
    and p: "p \<in> set (move_paths m)" "p' \<in> set (move_paths m)" "p \<noteq> p'" and call: "os_rename p p' fs = Inr fs'"
  shows "plan_state moves excluded node0 fs0 fs'" "fs_at fs' p' = Some (node0 m)"
    "q \<notin> set (move_paths m) \<Longrightarrow> fs_at fs' q = fs_at fs q"
proof -
  note at = state_move [OF st m]
  from rename_Inr [OF at(1,2,2) call] p obtain n where n: "fs_at fs p = Some n" "n \<noteq> NDir" "fs_at fs (butlast p') = Some NDir"
    "fs_at fs p' \<noteq> Some NDir" "\<And>q. fs_at fs' q = (if q = p' then Some n else if q = p then None else fs_at fs q)"
    by blast
  have here: "fs_at fs q = (if q = p then Some (node0 m) else None)" if "q \<in> set (move_paths m)" for q
    using one_place_holder [OF at(3) p(1) _ that] p(1) n(1) by simp
  then have node: "n = node0 m" using n(1) p(1) by auto
  show moved: "fs_at fs' p' = Some (node0 m)" using n(5) node by simp
  show other: "q \<notin> set (move_paths m) \<Longrightarrow> fs_at fs' q = fs_at fs q" for q using n(5) p by auto
  have "one_place fs' m' (node0 m')" if m': "m' \<in> set moves" for m'
  proof (cases "m' = m")
    case True
    have "fs_at fs' q = None" if "q \<in> set (move_paths m)" "q \<noteq> p'" for q using here [OF that(1)] that n(5) by auto
    with moved p(2) True show ?thesis by (auto simp: one_place_def)
  next
    case False
    from apart_moves(2) [OF apart m m' False] other have "fs_at fs' q = fs_at fs q" if "q \<in> set (move_paths m')" for q
      using that by blast
    with st m' show ?thesis by (simp add: one_place_def plan_state_def)
  qed
  moreover have "outside_kept moves excluded fs fs'" using other apart_moves(4) [OF apart m] by (auto simp: outside_kept_def)
  moreover have "fs_at fs' q \<in> {None, fs_at fs q}" if "q \<in> set excluded" for q
    using other [of q] that apart_moves(3) [OF apart m] by auto
  ultimately show "plan_state moves excluded node0 fs0 fs'"
    using rename_rooted [OF at(1) [OF p(1)] n(1-4)] n(5) by (intro plan_state_change [OF apart st]) auto
qed

lemma mkdir_within:
  assumes apart: "plan_apart moves excluded" and st: "plan_state moves excluded node0 fs0 fs" and m: "m \<in> set moves"
    and call: "mkdir_all [] (butlast (mvTarget m)) fs = Inr fs'"
  shows "plan_state moves excluded node0 fs0 fs'" "fs_at fs' (butlast (mvTarget m)) = Some NDir"
    "q \<in> set (plan_paths moves excluded) \<Longrightarrow> fs_at fs' q = fs_at fs q"
proof -
  have t: "mvTarget m \<in> set (move_paths m)" by (simp add: move_paths_def)
  note at = state_move [OF st m t]
  from mkdir_all_Inr [OF call at(1)] have made: "rooted fs'" "fs_at fs' (butlast (mvTarget m)) = Some NDir"
    "\<And>q. fs_at fs' q = fs_at fs q \<or> (fs_at fs q = None \<and> fs_at fs' q = Some NDir \<and> prefix q (butlast (mvTarget m)))"
    by auto
  then show "fs_at fs' (butlast (mvTarget m)) = Some NDir" by blast
  have above: "strict_prefix q (mvTarget m)" if "prefix q (butlast (mvTarget m))" for q
    using strictly_above [OF _ that] at(2) by (simp add: open_way_def)
  then have "strict_prefix q (mvTarget m) \<Longrightarrow> q \<notin> set (plan_paths moves excluded)" for q
    using apart apart_moves(4) [OF apart m] t by (auto simp: plan_apart_def list_all_iff strict_prefix_def)
  with made(3) above show kept: "q \<in> set (plan_paths moves excluded) \<Longrightarrow> fs_at fs' q = fs_at fs q" for q by blast
  have "one_place fs' m' (node0 m')" if m': "m' \<in> set moves" for m'
  proof -
    from kept apart_moves(4) [OF apart m'] have "fs_at fs' q = fs_at fs q" if "q \<in> set (move_paths m')" for q using that by blast
    with st m' show ?thesis by (simp add: one_place_def plan_state_def)
  qed
  moreover have "outside_kept moves excluded fs fs'" using made(3) above m by (auto simp: outside_kept_def)
  moreover have "fs_at fs' q \<in> {None, fs_at fs q}" if "q \<in> set excluded" for q
    using kept [of q] that by (simp add: plan_paths_def)
  ultimately show "plan_state moves excluded node0 fs0 fs'"
    using made(1) by (intro plan_state_change [OF apart st]) auto
qed


subsection \<open>No call of a run leaves the states of the plan\<close>

lemma fs_change_cases: "snd (fs_change f fs) = fs \<or> f fs = Inr (snd (fs_change f fs))"
  by (simp add: fs_change_def split: sum.split)

lemma snd_fs_bind: "snd (fs_bind m f fs) = (case fst (m fs) of Inl e \<Rightarrow> snd (m fs) | Inr x \<Rightarrow> snd (f x (snd (m fs))))"
  by (simp add: fs_bind_def split: prod.split sum.split)

lemma stage_keeps:
  fixes dk completed m fs
  assumes apart: "plan_apart moves excluded" and st: "plan_state moves excluded node0 fs0 fs" and m: "m \<in> set moves"
  defines "fs' \<equiv> snd (stage_move dk completed m fs)"
  shows "plan_state moves excluded node0 fs0 fs'" "q \<notin> set (move_paths m) \<Longrightarrow> fs_at fs' q = fs_at fs q"
    "fs_at fs' (mvTarget m) = fs_at fs (mvTarget m)"
proof -
  have mem: "mvSource m \<in> set (move_paths m)" "mvTemp m \<in> set (move_paths m)" "mvTarget m \<in> set (move_paths m)"
    by (simp_all add: move_paths_def)
  have ne: "mvSource m \<noteq> mvTemp m" using apart_moves(1) [OF apart m] by (simp add: move_paths_def)
  have "fs' = fs \<or> os_rename (mvSource m) (mvTemp m) fs = Inr fs'"
    using fs_change_cases [of "\<lambda>fs. io dk ''rename'' (mvSource m) (os_rename (mvSource m) (mvTemp m) fs)" fs]
    by (auto simp: fs'_def stage_move_def split: sum.split)
  then show "plan_state moves excluded node0 fs0 fs'" "q \<notin> set (move_paths m) \<Longrightarrow> fs_at fs' q = fs_at fs q"
    "fs_at fs' (mvTarget m) = fs_at fs (mvTarget m)"
  proof (safe)
    assume call: "os_rename (mvSource m) (mvTemp m) fs = Inr fs'"
    note moved = rename_within [OF apart st m mem(1,2) ne call]
    show "plan_state moves excluded node0 fs0 fs'" by (rule moved(1))
    show "q \<notin> set (move_paths m) \<Longrightarrow> fs_at fs' q = fs_at fs q" by (rule moved(3))
    from rename_Inr [OF state_move(1,2,2) [OF st m] call] mem st m have "fs_at fs (mvSource m) \<noteq> None"
      by (metis option.distinct(1) state_move(1,2))
    with one_place_holder [OF state_move(3) [OF st m mem(1)] mem(1) _ mem(3)] 
      one_place_holder [OF state_move(3) [OF moved(1) m mem(1)] mem(2) _ mem(3)] moved(2) apart_moves(1) [OF apart m]
    show "fs_at fs' (mvTarget m) = fs_at fs (mvTarget m)" by (auto simp: move_paths_def)
  qed (use st in simp_all)
qed

lemma publish_keeps:
  fixes dk dir completed m fs
  assumes apart: "plan_apart moves excluded" and st: "plan_state moves excluded node0 fs0 fs" and m: "m \<in> set moves"
  defines "fs' \<equiv> snd (publish_move dk dir moves completed m fs)"
  shows "plan_state moves excluded node0 fs0 fs'"
    "q \<in> set (plan_paths moves excluded) \<Longrightarrow> q \<notin> set (move_paths m) \<Longrightarrow> fs_at fs' q = fs_at fs q"
    "fs_at fs (mvSource m) = None \<Longrightarrow> fs_at fs' (mvSource m) = None"
proof -
  have mem: "mvSource m \<in> set (move_paths m)" "mvTemp m \<in> set (move_paths m)" "mvTarget m \<in> set (move_paths m)"
    by (simp_all add: move_paths_def)
  have ne: "mvTemp m \<noteq> mvTarget m" using apart_moves(1) [OF apart m] by (simp add: move_paths_def)
  define made where "made = snd (fs_change (\<lambda>fs. io dk ''mkdirall'' (butlast (mvTarget m)) (mkdir_all [] (butlast (mvTarget m)) fs)) fs)"
  have "made = fs \<or> mkdir_all [] (butlast (mvTarget m)) fs = Inr made"
    using fs_change_cases [of "\<lambda>fs. io dk ''mkdirall'' (butlast (mvTarget m)) (mkdir_all [] (butlast (mvTarget m)) fs)" fs]
    by (auto simp: made_def)
  then have made: "plan_state moves excluded node0 fs0 made"
    "\<And>q. q \<in> set (plan_paths moves excluded) \<Longrightarrow> fs_at made q = fs_at fs q"
    using mkdir_within(1,3) [OF apart st m] st by auto
  have "fs' = fs \<or> fs' = made \<or> os_rename (mvTemp m) (mvTarget m) made = Inr fs'"
    using fs_change_cases [of "\<lambda>fs. io dk ''rename'' (mvTemp m) (os_rename (mvTemp m) (mvTarget m) fs)" made]
    by (auto simp: fs'_def publish_move_def made_def snd_fs_bind fs_check_def split: sum.split option.split)
  then consider (unmoved) "fs' = fs \<or> fs' = made" | (moved) "os_rename (mvTemp m) (mvTarget m) made = Inr fs'" by blast
  then have "plan_state moves excluded node0 fs0 fs'
    \<and> (\<forall>q \<in> set (plan_paths moves excluded) - set (move_paths m). fs_at fs' q = fs_at fs q)
    \<and> (fs_at fs (mvSource m) = None \<longrightarrow> fs_at fs' (mvSource m) = None)"
  proof cases
    case unmoved
    with made st apart_moves(4) [OF apart m] mem(1) show ?thesis by auto
  next
    case moved
    note published = rename_within [OF apart made(1) m mem(2,3) ne moved]
    have "fs_at fs' (mvSource m) = None"
      using one_place_holder [OF state_move(3) [OF published(1) m mem(1)] mem(3) _ mem(1)] published(2)
        apart_moves(1) [OF apart m] by (simp add: move_paths_def)
    with published made(2) show ?thesis by simp
  qed
  then show "plan_state moves excluded node0 fs0 fs'"
    "q \<in> set (plan_paths moves excluded) \<Longrightarrow> q \<notin> set (move_paths m) \<Longrightarrow> fs_at fs' q = fs_at fs q"
    "fs_at fs (mvSource m) = None \<Longrightarrow> fs_at fs' (mvSource m) = None" by blast+
qed


text \<open>The files that stay where they are: a plan with priority 0 removes its file, another one leaves it.\<close>

definition excluded_paths :: "string \<Rightarrow> FilePlan list \<Rightarrow> fpath list" where
  "excluded_paths dir plans = map (\<lambda>p. plan_path dir (fpOriginalPath p)) (filter (\<lambda>p. \<not> moves_file p) plans)"

lemma exclude_keeps:
  fixes dk dir p fs
  assumes apart: "plan_apart moves (excluded_paths dir plans)"
    and st: "plan_state moves (excluded_paths dir plans) node0 fs0 fs" and p: "p \<in> set plans"
  defines "fs' \<equiv> snd (exclude_plan dk dir p fs)"
  shows "plan_state moves (excluded_paths dir plans) node0 fs0 fs'"
    "q \<noteq> plan_path dir (fpOriginalPath p) \<or> fpPriority p \<noteq> 0 \<Longrightarrow> fs_at fs' q = fs_at fs q"
    "fs_at fs q = None \<Longrightarrow> fs_at fs' q = None"
proof -
  let ?excluded = "excluded_paths dir plans"
  let ?c = "plan_path dir (fpOriginalPath p)"
  have same: "\<exists>n. fs_at fs ?c = Some n \<and> n \<noteq> NDir \<and> ?c \<in> set ?excluded \<and> fs' = drop_entry ?c fs" if moved: "fs' \<noteq> fs"
  proof -
    from moved have prio: "fpPriority p = 0" by (cases "fpPriority p = 0") (simp_all add: fs'_def exclude_plan_def)
    then have c: "?c \<in> set ?excluded" using p by (auto simp: excluded_paths_def moves_file_def)
    with st have way: "rooted fs" "open_way fs ?c" by (auto simp: plan_state_def plan_paths_def)
    from moved prio obtain info where info: "peek dk fs ?c = Inr info" "exact_file info (fpSize p)"
        "os_remove ?c fs = Inr fs'"
      by (auto simp: fs'_def exclude_plan_def Let_def io_fine split: option.splits sum.splits if_splits)
    from info(1) way have at: "fs_at fs ?c = Some info" by (auto simp: peek_plain looked_def split: option.splits)
    with info(3) way exact_file_def info(2) c show ?thesis
      by (cases info) (auto simp: os_remove_def entry_plain remove_one_def exact_file_def split: if_splits)
  qed
  show kept: "q \<noteq> ?c \<or> fpPriority p \<noteq> 0 \<Longrightarrow> fs_at fs' q = fs_at fs q" for q
  proof (cases "fs' = fs")
    case False
    then have "fpPriority p = 0" by (cases "fpPriority p = 0") (simp_all add: fs'_def exclude_plan_def)
    with same [OF False] st show "q \<noteq> ?c \<or> fpPriority p \<noteq> 0 \<Longrightarrow> fs_at fs' q = fs_at fs q"
      by (auto simp: plan_state_def plan_paths_def open_way_def)
  qed simp
  have other: "fs_at fs' q = fs_at fs q" if "q \<notin> set ?excluded" for q
  proof (cases "fs' = fs")
    case False
    with same that show ?thesis by (metis kept)
  qed simp
  have gone: "fs_at fs' q \<in> {None, fs_at fs q}" for q
  proof (cases "fs' = fs")
    case False
    from same [OF this] st show ?thesis by (auto simp: plan_state_def plan_paths_def open_way_def)
  qed simp
  then show "fs_at fs q = None \<Longrightarrow> fs_at fs' q = None" by force
  have "rooted fs'"
  proof (cases "fs' = fs")
    case False
    with same st obtain n where "fs_at fs ?c = Some n" "n \<noteq> NDir" "fs' = drop_entry ?c fs" "open_way fs ?c" "rooted fs"
      by (auto simp: plan_state_def plan_paths_def)
    with drop_rooted [of fs ?c] show ?thesis by (simp add: open_way_def)
  qed (use st in \<open>simp add: plan_state_def\<close>)
  moreover have "one_place fs' m (node0 m)" if m: "m \<in> set moves" for m
  proof -
    have "fs_at fs' q = fs_at fs q" if "q \<in> set (move_paths m)" for q
      using other [of q] apart_moves(3) [OF apart m] that by blast
    with st m show ?thesis by (simp add: one_place_def plan_state_def)
  qed
  moreover have "outside_kept moves ?excluded fs fs'" using other by (simp add: outside_kept_def plan_paths_def)
  ultimately show "plan_state moves ?excluded node0 fs0 fs'"
    using gone by (intro plan_state_change [OF apart st])
qed

lemma fs_each_keeps:
  assumes "\<And>x fs. x \<in> set xs \<Longrightarrow> P fs \<Longrightarrow> P (snd (f x fs))" "P fs"
  shows "P (snd (fs_each f xs fs))"
  using assms by (induction xs arbitrary: fs) (auto simp: fs_return_def snd_fs_bind split: sum.split)

lemma map_filter_mem: "y \<in> set (List.map_filter f xs) \<longleftrightarrow> (\<exists>x \<in> set xs. f x = Some y)"
  by (induction xs) (auto simp: List.map_filter_simps split: option.splits)

lemma set_ordered: "set (ordered dk n moves) \<subseteq> set moves"
proof
  fix m assume "m \<in> set (ordered dk n moves)"
  then obtain s where "find (\<lambda>m. mvSource m = s) moves = Some m" unfolding ordered_def map_filter_mem by blast
  from find_mem [OF this] show "m \<in> set moves" by blast
qed

lemma run_keeps:
  assumes apart: "plan_apart moves (excluded_paths dir plans)"
    and st: "plan_state moves (excluded_paths dir plans) node0 fs0 fs"
  shows "plan_state moves (excluded_paths dir plans) node0 fs0 (snd (run_moves dk dir plans moves fs))"
proof -
  let ?P = "plan_state moves (excluded_paths dir plans) node0 fs0"
  have "?P (snd (fs_each (stage_move dk completed) (ordered dk 1 moves) fs))" if "?P fs" for completed fs
    by (rule fs_each_keeps [where P = ?P, OF stage_keeps(1) [OF apart] that]) (use set_ordered in blast)+
  moreover have "?P (snd (fs_each (publish_move dk dir moves completed) (ordered dk 2 moves) fs))" if "?P fs" for completed fs
    by (rule fs_each_keeps [where P = ?P, OF publish_keeps(1) [OF apart] that]) (use set_ordered in blast)+
  moreover have "?P (snd (fs_each (exclude_plan dk dir) plans fs))" if "?P fs" for fs
    by (rule fs_each_keeps [where P = ?P, OF exclude_keeps(1) [OF apart] that])
  ultimately show ?thesis using st by (simp add: run_moves_def snd_fs_bind fs_get_def split: sum.split)
qed

end
