(* ===== verification/Fsafe_Retry.thy ===== *)
theory Fsafe_Retry
  imports Fsafe_Convergence
begin

section \<open>A run without faults completes the plan (internal/fsafe: plan.go)\<close>

text \<open>
  From every state that faulted runs can leave behind, a run in which no call fails takes each file to
  its target.  A plan with a chain of renames has no such guarantee: an example loses a file.
\<close>

text \<open>No call fails, and the loops over the maps visit every move.\<close>

definition faultless :: "Disk \<Rightarrow> bool" where
  "faultless dk \<longleftrightarrow> (\<forall>call p. dkFault dk call p = None) \<and> (\<forall>n xs. set (dkOrder dk n xs) = set xs)"

lemma calm_io [simp]: "faultless dk \<Longrightarrow> io dk call p r = map_err Errno r"
  by (simp add: faultless_def io_fine)

lemma find_unique: "distinct (map f ms) \<Longrightarrow> m \<in> set ms \<Longrightarrow> find (\<lambda>k. f k = f m) ms = Some m"
  by (induction ms) (auto simp: rev_image_eqI)

lemma calm_ordered:
  assumes "faultless dk" "distinct (map mvSource moves)"
  shows "set (ordered dk n moves) = set moves"
proof
  show "set moves \<subseteq> set (ordered dk n moves)"
  proof
    fix m assume m: "m \<in> set moves"
    have "set (dkOrder dk n (map mvSource moves)) = mvSource ` set moves"
        using assms(1) by (simp add: faultless_def)
    with m find_unique [OF assms(2) m] show "m \<in> set (ordered dk n moves)"
      unfolding ordered_def map_filter_mem by blast
  qed
qed (rule set_ordered)

subsection \<open>The component checks pass\<close>

text \<open>The root of the plan as text and as path.\<close>

definition plan_dir :: "string \<Rightarrow> fpath \<Rightarrow> bool" where
  "plan_dir dir d \<longleftrightarrow> dir = path_of d \<and> list_all normal_comp d"

lemma comps_path_of: "list_all normal_comp p \<Longrightarrow> comps (path_of p) = p"
proof -
  assume p: "list_all normal_comp p"
  then have "list_all (\<lambda>w. CHR ''/'' \<notin> set w) p" "filter (\<lambda>w. w \<noteq> []) p = p"
    by (auto simp: list_all_iff normal_comp_def filter_id_conv)
  with split_join [of "CHR ''/''" p] show ?thesis by (cases "p = []") (simp_all add: comps_def path_of_def)
qed

lemma clean_path_of: "list_all normal_comp p \<Longrightarrow> path_clean (path_of p) = path_of p"
proof -
  assume p: "list_all normal_comp p"
  then have "list_all (\<lambda>w. CHR ''/'' \<notin> set w) p" by (auto simp: list_all_iff normal_comp_def)
  with split_join [of "CHR ''/''" p] clean_comps_normal [OF p, of True "[]"] show ?thesis
    by (cases "p = []") (simp_all add: path_of_def path_clean_def)
qed

lemma rel_comps_below: "rel_comps d (d @ r) = r"
  by (induction d) (cases r, auto)

lemma Rel_below:
  assumes "list_all normal_comp (d @ r)"
  shows "Rel (path_of d) (path_of (d @ r)) = Some (if r = [] then ''.'' else join_with ''/'' r)"
proof -
  have "is_abs (path_of p)" for p by (simp add: path_of_def)
  with assms show ?thesis by (simp add: Rel_def clean_path_of comps_path_of rel_comps_below)
qed


lemma relative_text:
  assumes "list_all normal_comp r" "r \<noteq> []"
  shows "\<not> outsideRoot (join_with ''/'' r)" "splitPath (join_with ''/'' r) = r"
proof -
  have "list_all (\<lambda>w. CHR ''/'' \<notin> set w) r" using assms by (auto simp: list_all_iff normal_comp_def)
  with assms(2) have split: "split_on CHR ''/'' (join_with ''/'' r) = r" by (intro split_join)
  have "''..'' \<notin> set r" "''.'' \<notin> set r" using assms by (auto simp: list_all_iff normal_comp_def)
  then show "\<not> outsideRoot (join_with ''/'' r)"
  proof (rule_tac notI)
    assume "outsideRoot (join_with ''/'' r)"
    then consider "join_with ''/'' r = ''..''" | t where "join_with ''/'' r = ''..'' @ CHR ''/'' # t"
      by (auto simp: outsideRoot_def has_prefix_def prefix_def)
    then have "''..'' \<in> set r"
      by cases (use split split_on_append [of "CHR ''/''" "''..''"] in \<open>force+\<close>)
    with \<open>''..'' \<notin> set r\<close> show False by blast
  qed
  from \<open>''.'' \<notin> set r\<close> split have "join_with ''/'' r \<noteq> ''.''" by force
  moreover have "filter (\<lambda>w. w \<noteq> []) r = r" using assms(1) by (auto simp: list_all_iff normal_comp_def filter_id_conv)
  ultimately show "splitPath (join_with ''/'' r) = r" by (simp add: splitPath_def comps_def split)
qed

lemma components_calm:
  "faultless dk \<Longrightarrow> rooted fs \<Longrightarrow> ws \<noteq> [] \<Longrightarrow> open_way fs (cur @ ws) \<Longrightarrow> fs_at fs (cur @ ws) \<notin> Some ` Collect is_link
   \<Longrightarrow> components_safe dk fs cur ws = None"
proof (induction ws arbitrary: cur)
  case (Cons w ws)
  have way: "open_way fs (cur @ [w])"
    using Cons.prems(4) by (auto simp: open_way_def) (metis append.assoc append_Cons append_Nil prefix_order.less_le_trans prefixI)+
  have "\<not> is_link n" if "fs_at fs (cur @ [w]) = Some n" for n
  proof (cases "ws = []")
    case False
    with Cons.prems(4) have "fs_at fs (cur @ [w]) \<in> {None, Some NDir}"
      by (auto simp: open_way_def strict_prefix_def)
    with that show ?thesis by auto
  qed (use that Cons.prems(5) in auto)
  moreover have "components_safe dk fs (cur @ [w]) ws = None"
    using Cons by (cases "ws = []") auto
  ultimately show ?case
    using Cons.prems(1,2) lstat_plain [OF Cons.prems(2) way] by (auto simp: os_IsNotExist_def split: option.splits sum.splits)
qed simp

lemma safe_calm:
  assumes "faultless dk" "rooted fs" "plan_dir dir d" "open_way fs p" "prefix d p" "fs_at fs p \<notin> Some ` Collect is_link"
  shows "safeAbsoluteComponents dk fs dir (path_of p) = None"
proof -
  obtain r where p: "p = d @ r" using assms(5) by (auto simp: prefix_def)
  have normal: "list_all normal_comp (d @ r)" using assms(4) p by (simp add: open_way_def)
  show ?thesis
  proof (cases "r = []")
    case True
    with Rel_below [OF normal] assms(3) p show ?thesis
      by (simp add: safeAbsoluteComponents_def plan_dir_def outsideRoot_def has_prefix_def prefix_def splitPath_def)
  next
    case False
    with Rel_below [OF normal] assms(3) p relative_text [of r] normal components_calm [OF assms(1,2) False] assms(4,6)
    show ?thesis by (simp add: safeAbsoluteComponents_def plan_dir_def comps_path_of)
  qed
qed


subsection \<open>Each call succeeds\<close>

text \<open>What a plan asks for: its moves hold exact files, below the root.\<close>

definition plan_files :: "string \<Rightarrow> fpath \<Rightarrow> Move list \<Rightarrow> FilePlan list \<Rightarrow> (Move \<Rightarrow> node) \<Rightarrow> fsys \<Rightarrow> bool" where
  "plan_files dir d moves plans node0 fs0 \<longleftrightarrow> plan_dir dir d
     \<and> (\<forall>m \<in> set moves. exact_file (node0 m) (mvSize m) \<and> butlast (mvTemp m) = d)
     \<and> (\<forall>p \<in> set (plan_paths moves (excluded_paths dir plans)). strict_prefix d p)
     \<and> (\<forall>p \<in> set plans. fpPriority p = 0 \<longrightarrow>
          (case fs_at fs0 (plan_path dir (fpOriginalPath p)) of None \<Rightarrow> True | Some n \<Rightarrow> exact_file n (fpSize p)))"

lemma exact_not_link: "exact_file n len \<Longrightarrow> \<not> is_link n \<and> n \<noteq> NDir"
  by (cases n) (auto simp: exact_file_def)

lemma peek_calm: "faultless dk \<Longrightarrow> rooted fs \<Longrightarrow> open_way fs p \<Longrightarrow> peek dk fs p = map_err Errno (looked fs p)"
  by (simp add: peek_plain)

lemma target_known: "m \<in> set moves \<Longrightarrow> target_source moves (mvTarget m) \<noteq> None"
  by (auto simp: target_source_def find_None_iff)

lemma place:
  assumes "plan_apart moves excluded" "plan_state moves excluded node0 fs0 fs" "m \<in> set moves"
  obtains (source) "fs_at fs (mvSource m) = Some (node0 m)" "fs_at fs (mvTemp m) = None" "fs_at fs (mvTarget m) = None"
    | (temp) "fs_at fs (mvSource m) = None" "fs_at fs (mvTemp m) = Some (node0 m)" "fs_at fs (mvTarget m) = None"
    | (target) "fs_at fs (mvSource m) = None" "fs_at fs (mvTemp m) = None" "fs_at fs (mvTarget m) = Some (node0 m)"
proof -
  have "distinct (move_paths m)" "one_place fs m (node0 m)"
    using apart_moves(1) [OF assms(1,3)] assms(2,3) by (auto simp: plan_state_def)
  with that show thesis by (auto simp: one_place_def move_paths_def)
qed

lemma move_ways:
  assumes "plan_state moves excluded node0 fs0 fs" "m \<in> set moves"
  shows "rooted fs" "open_way fs (mvSource m)" "open_way fs (mvTemp m)" "open_way fs (mvTarget m)"
  using state_move(1) [OF assms, of "mvSource m"] state_move(2) [OF assms] by (simp_all add: move_paths_def)

lemma check_calm:
  assumes calm: "faultless dk" and apart: "plan_apart moves (excluded_paths dir plans)"
    and st: "plan_state moves (excluded_paths dir plans) node0 fs0 fs"
    and files: "plan_files dir d moves plans node0 fs0" and m: "m \<in> set moves"
  shows "check_move dk fs dir moves m = Inr (fs_at fs (mvTarget m) \<noteq> None)"
proof -
  note ways = move_ways [OF st m]
  have exact: "exact_file (node0 m) (mvSize m)" "\<not> is_link (node0 m)"
    using files m exact_not_link by (auto simp: plan_files_def)
  have "prefix d (mvTemp m)" "plan_dir dir d"
    using files apart_moves(4) [OF apart m] by (auto simp: plan_files_def move_paths_def strict_prefix_def)
  moreover have "fs_at fs (mvTemp m) \<notin> Some ` Collect is_link"
    using place [OF apart st m] exact(2) by (cases rule: place [OF apart st m]) auto
  ultimately have safe: "safeAbsoluteComponents dk fs dir (path_of (mvTemp m)) = None"
    using safe_calm [OF calm ways(1)] ways(3) by blast
  note looks = peek_calm [OF calm ways(1)] looked_def
  show ?thesis
    by (cases rule: place [OF apart st m])
      (use exact safe target_known [OF m] ways in
        \<open>simp_all add: check_move_def looks target_free_def os_IsNotExist_def Let_def\<close>)
qed

lemma checks_calm:
  assumes "faultless dk" "plan_apart moves (excluded_paths dir plans)"
    "plan_state moves (excluded_paths dir plans) node0 fs0 fs" "plan_files dir d moves plans node0 fs0"
  shows "set ms \<subseteq> set moves \<Longrightarrow> \<exists>completed. check_moves dk fs dir moves acc ms = Inr completed
     \<and> set completed = set acc \<union> mvSource ` {m \<in> set ms. fs_at fs (mvTarget m) \<noteq> None}"
proof (induction ms arbitrary: acc)
  case (Cons m ms)
  let ?acc = "if fs_at fs (mvTarget m) \<noteq> None then mvSource m # acc else acc"
  have "check_moves dk fs dir moves acc (m # ms) = check_moves dk fs dir moves ?acc ms"
    using check_calm [OF assms, of m] Cons.prems by simp
  moreover obtain completed where "check_moves dk fs dir moves ?acc ms = Inr completed"
      "set completed = set ?acc \<union> mvSource ` {m \<in> set ms. fs_at fs (mvTarget m) \<noteq> None}"
    using Cons.IH [of ?acc] Cons.prems by auto
  ultimately show ?case by (intro exI [of _ completed]) auto
qed simp


lemma root_present:
  assumes "plan_files dir d moves plans node0 fs0" "plan_apart moves (excluded_paths dir plans)"
    "plan_state moves (excluded_paths dir plans) node0 fs0 fs" "m \<in> set moves"
  shows "fs_at fs d = Some NDir"
proof -
  from assms(3,4) obtain p where p: "p \<in> set (move_paths m)" "fs_at fs p \<noteq> None"
    by (auto simp: plan_state_def one_place_def)
  then have "strict_prefix d p" using assms(1) apart_moves(4) [OF assms(2,4)] by (auto simp: plan_files_def)
  then obtain r where "p = d @ r" "r \<noteq> []" by (auto simp: strict_prefix_def prefix_def)
  with rooted_above [of fs d r] p(2) assms(3) show ?thesis by (simp add: plan_state_def)
qed

lemma stage_calm:
  assumes calm: "faultless dk" and apart: "plan_apart moves (excluded_paths dir plans)"
    and st: "plan_state moves (excluded_paths dir plans) node0 fs0 fs"
    and files: "plan_files dir d moves plans node0 fs0" and m: "m \<in> set moves"
    and completed: "mvSource m \<in> set completed \<longleftrightarrow> fs_at fs (mvTarget m) \<noteq> None"
  shows "fst (stage_move dk completed m fs) = Inr ()" "fs_at (snd (stage_move dk completed m fs)) (mvSource m) = None"
proof -
  note ways = move_ways [OF st m]
  note looks = peek_calm [OF calm ways(1)] looked_def
  have mem: "mvSource m \<in> set (move_paths m)" "mvTemp m \<in> set (move_paths m)" "mvSource m \<noteq> mvTemp m"
    using apart_moves(1) [OF apart m] by (auto simp: move_paths_def)
  have "fst (stage_move dk completed m fs) = Inr () \<and> fs_at (snd (stage_move dk completed m fs)) (mvSource m) = None"
  proof (cases rule: place [OF apart st m, case_names source temp target])
    case source
    have "node0 m \<noteq> NDir" "butlast (mvTemp m) = d" using files m exact_not_link by (auto simp: plan_files_def)
    with rename_possible [OF ways(1,2,3) source(1)] root_present [OF files apart st m] source(2) obtain fs'
      where call: "os_rename (mvSource m) (mvTemp m) fs = Inr fs'" by auto
    note moved = rename_within [OF apart st m mem call]
    from one_place_holder [OF state_move(3) [OF moved(1) m mem(1)] mem(2) _ mem(1)] moved(2) mem(3)
    have "fs_at fs' (mvSource m) = None" by simp
    moreover have "stage_move dk completed m fs = (Inr (), fs')"
      using call source completed calm ways by (simp add: stage_move_def looks fs_change_def)
    ultimately show ?thesis by simp
  next
    case temp
    with completed calm ways show ?thesis by (simp add: stage_move_def looks)
  next
    case target
    with completed show ?thesis by (simp add: stage_move_def)
  qed
  then show "fst (stage_move dk completed m fs) = Inr ()" "fs_at (snd (stage_move dk completed m fs)) (mvSource m) = None"
    by simp_all
qed

lemma parent_safe:
  assumes calm: "faultless dk" and apart: "plan_apart moves (excluded_paths dir plans)"
    and st: "plan_state moves (excluded_paths dir plans) node0 fs0 fs"
    and files: "plan_files dir d moves plans node0 fs0" and m: "m \<in> set moves"
  shows "safeAbsoluteComponents dk fs dir (path_of (butlast (mvTarget m))) = None"
proof -
  note ways = move_ways [OF st m]
  have t: "strict_prefix d (mvTarget m)" "plan_dir dir d"
    using files apart_moves(4) [OF apart m] by (auto simp: plan_files_def move_paths_def)
  then have below: "prefix d (butlast (mvTarget m))"
    using prefix_butlast [of d "mvTarget m"] by (auto simp: strict_prefix_def)
  show ?thesis
  proof (cases "butlast (mvTarget m) = d")
    case True
    with Rel_below [of d "[]"] t(2) show ?thesis
      by (simp add: safeAbsoluteComponents_def plan_dir_def outsideRoot_def has_prefix_def prefix_def splitPath_def)
  next
    case False
    then have ne: "butlast (mvTarget m) \<noteq> []" using below by auto
    have up: "strict_prefix q (mvTarget m)" if "prefix q (butlast (mvTarget m))" for q
      using strictly_above [OF _ that] ways(4) by (simp add: open_way_def)
    have "open_way fs (butlast (mvTarget m))"
      using ways(4) ne up by (auto simp: open_way_def list_all_iff in_set_butlastD strict_prefix_def)
    moreover have "fs_at fs (butlast (mvTarget m)) \<in> {None, Some NDir}"
      using ways(4) up [of "butlast (mvTarget m)"] by (simp add: open_way_def)
    moreover have "{None, Some NDir} \<inter> Some ` Collect is_link = {}" by auto
    ultimately show ?thesis using safe_calm [OF calm ways(1) t(2) _ below] by blast
  qed
qed

lemma publish_calm:
  assumes calm: "faultless dk" and apart: "plan_apart moves (excluded_paths dir plans)"
    and st: "plan_state moves (excluded_paths dir plans) node0 fs0 fs"
    and files: "plan_files dir d moves plans node0 fs0" and m: "m \<in> set moves"
    and staged: "fs_at fs (mvSource m) = None" "mvSource m \<in> set completed \<Longrightarrow> fs_at fs (mvTarget m) \<noteq> None"
  shows "fst (publish_move dk dir moves completed m fs) = Inr ()"
    "fs_at (snd (publish_move dk dir moves completed m fs)) (mvTarget m) = Some (node0 m)"
proof -
  note ways = move_ways [OF st m]
  note looks = peek_calm [OF calm] looked_def
  have mem: "mvTemp m \<in> set (move_paths m)" "mvTarget m \<in> set (move_paths m)" "mvTemp m \<noteq> mvTarget m"
    using apart_moves(1) [OF apart m] by (auto simp: move_paths_def)
  have exact: "exact_file (node0 m) (mvSize m)" "node0 m \<noteq> NDir"
    using files m exact_not_link by (auto simp: plan_files_def)
  have "fst (publish_move dk dir moves completed m fs) = Inr ()
    \<and> fs_at (snd (publish_move dk dir moves completed m fs)) (mvTarget m) = Some (node0 m)"
  proof (cases rule: place [OF apart st m, case_names source temp target])
    case temp
    have "strict_prefix q (mvTarget m)" if "prefix q (butlast (mvTarget m))" for q
      using strictly_above [OF _ that] ways(4) by (simp add: open_way_def)
    then have "fs_at fs ([] @ q) \<in> {None, Some NDir}" if "prefix q (butlast (mvTarget m))" for q
      using ways(4) that by (simp add: open_way_def)
    from mkdir_all_possible [OF this] obtain fs1 where make: "mkdir_all [] (butlast (mvTarget m)) fs = Inr fs1" by blast
    note made = mkdir_within [OF apart st m make]
    note ways1 = move_ways [OF made(1) m]
    have at: "fs_at fs1 (mvTemp m) = Some (node0 m)" "fs_at fs1 (mvTarget m) = None"
      using made(3) apart_moves(4) [OF apart m] mem temp by auto
    with rename_possible [OF ways1(1,3,4) at(1) exact(2) made(2)] obtain fs' where
      call: "os_rename (mvTemp m) (mvTarget m) fs1 = Inr fs'" by auto
    have "target_free dk fs1 moves (mvTarget m) = None"
      using at(2) ways1 by (simp add: target_free_def looks calm os_IsNotExist_def)
    then have "publish_move dk dir moves completed m fs = (Inr (), fs')"
      using temp staged(2) ways make call parent_safe [OF calm apart st files m]
      by (auto simp: publish_move_def looks calm fs_bind_def fs_check_def fs_change_def)
    with rename_within(2) [OF apart made(1) m mem call] show ?thesis by simp
  qed (use staged ways exact target_known [OF m] in
      \<open>auto simp: publish_move_def looks calm os_IsNotExist_def\<close>)
  then show "fst (publish_move dk dir moves completed m fs) = Inr ()"
    "fs_at (snd (publish_move dk dir moves completed m fs)) (mvTarget m) = Some (node0 m)" by simp_all
qed


lemma exclude_calm:
  assumes calm: "faultless dk" and apart: "plan_apart moves (excluded_paths dir plans)"
    and st: "plan_state moves (excluded_paths dir plans) node0 fs0 fs"
    and files: "plan_files dir d moves plans node0 fs0" and p: "p \<in> set plans"
  shows "fst (exclude_plan dk dir p fs) = Inr ()"
    "fpPriority p = 0 \<Longrightarrow> fs_at (snd (exclude_plan dk dir p fs)) (plan_path dir (fpOriginalPath p)) = None"
proof -
  let ?c = "plan_path dir (fpOriginalPath p)"
  have "fst (exclude_plan dk dir p fs) = Inr ()
    \<and> (fpPriority p = 0 \<longrightarrow> fs_at (snd (exclude_plan dk dir p fs)) ?c = None)"
  proof (cases "fpPriority p = 0")
    case True
    with p have c: "?c \<in> set (excluded_paths dir plans)" by (auto simp: excluded_paths_def moves_file_def)
    with st have way: "rooted fs" "open_way fs ?c" and at: "fs_at fs ?c \<in> {None, fs_at fs0 ?c}"
      by (auto simp: plan_state_def plan_paths_def)
    have "fs_at fs0 ?c = None \<or> (\<exists>n. fs_at fs0 ?c = Some n \<and> exact_file n (fpSize p))"
      using files p True by (auto simp: plan_files_def split: option.splits)
    with at consider (gone) "fs_at fs ?c = None" | (present) n where "fs_at fs ?c = Some n" "exact_file n (fpSize p)" by auto
    moreover have "prefix d ?c" "plan_dir dir d"
      using files c by (auto simp: plan_files_def plan_paths_def strict_prefix_def)
    ultimately have safe: "safeAbsoluteComponents dk fs dir (path_of ?c) = None"
      using safe_calm [OF calm way(1) _ way(2)] exact_not_link by cases fastforce+
    from at consider "fs_at fs ?c = None" | n where "fs_at fs ?c = Some n" "exact_file n (fpSize p)"
      using \<open>fs_at fs0 ?c = None \<or> _\<close> by auto
    then show ?thesis
    proof cases
      case 1
      with safe True way calm show ?thesis by (simp add: exclude_plan_def peek_calm looked_def os_IsNotExist_def)
    next
      case (2 n)
      have "fs_at fs (butlast ?c) = Some NDir" using 2(1) way by (auto simp: rooted_def open_way_def)
      moreover have "remove_one ?c fs = Inr (drop_entry ?c fs)"
        using 2 exact_not_link [OF 2(2)] by (cases n) (auto simp: remove_one_def)
      moreover have "?c \<noteq> []" using way(2) by (simp add: open_way_def)
      ultimately show ?thesis using 2 safe True way calm exact_not_link [OF 2(2)]
        by (simp add: exclude_plan_def peek_calm looked_def os_remove_def entry_plain)
    qed
  qed (simp add: exclude_plan_def)
  then show "fst (exclude_plan dk dir p fs) = Inr ()"
    "fpPriority p = 0 \<Longrightarrow> fs_at (snd (exclude_plan dk dir p fs)) ?c = None" by simp_all
qed

lemma fs_each_calm:
  assumes step: "\<And>x fs. x \<in> set xs \<Longrightarrow> I fs \<Longrightarrow> fst (f x fs) = Inr () \<and> I (snd (f x fs)) \<and> D x (snd (f x fs))"
    and keep: "\<And>x y fs. x \<in> set xs \<Longrightarrow> y \<in> set xs \<Longrightarrow> I fs \<Longrightarrow> D y fs \<Longrightarrow> D y (snd (f x fs))"
    and start: "I fs"
  shows "fst (fs_each f xs fs) = Inr () \<and> I (snd (fs_each f xs fs)) \<and> (\<forall>x \<in> set xs. D x (snd (fs_each f xs fs)))"
  using assms
proof (induction xs arbitrary: fs)
  case (Cons x xs)
  let ?fs = "snd (f x fs)"
  have one: "fst (f x fs) = Inr ()" "I ?fs" "D x ?fs" using Cons.prems(1) [of x fs] Cons.prems(3) by simp_all
  have rest: "fst (fs_each f xs ?fs) = Inr () \<and> I (snd (fs_each f xs ?fs)) \<and> (\<forall>x \<in> set xs. D x (snd (fs_each f xs ?fs)))"
    by (rule Cons.IH) (use Cons.prems one(2) in auto)
  have "(\<lambda>fs. I fs \<and> D x fs) (snd (fs_each f xs ?fs))"
    by (rule fs_each_keeps) (use Cons.prems one in auto)
  moreover have "fs_each f (x # xs) fs = fs_each f xs ?fs"
    using one(1) by (cases "f x fs") (simp add: fs_bind_def)
  ultimately show ?case using rest by simp
qed (simp add: fs_return_def)


subsection \<open>Each phase completes\<close>

lemma sources_distinct:
  assumes "plan_apart moves excluded"
  shows "distinct (map mvSource moves)"
    "m \<in> set moves \<Longrightarrow> m' \<in> set moves \<Longrightarrow> mvSource m = mvSource m' \<longleftrightarrow> m = m'"
proof -
  have "distinct (concat (map move_paths moves))" using assms by (simp add: plan_apart_def plan_paths_def)
  then have "distinct moves" by (induction moves) (auto simp: move_paths_def)
  moreover have "inj_on mvSource (set moves)"
    by (rule inj_onI) (use apart_moves(2) [OF assms] in \<open>force simp: move_paths_def\<close>)
  ultimately show "distinct (map mvSource moves)" by (simp add: distinct_map)
  from \<open>inj_on mvSource (set moves)\<close>
  show "m \<in> set moves \<Longrightarrow> m' \<in> set moves \<Longrightarrow> mvSource m = mvSource m' \<longleftrightarrow> m = m'" by (metis inj_onD)
qed

lemma other_move:
  assumes "plan_apart moves excluded" "m \<in> set moves" "m' \<in> set moves" "m \<noteq> m'"
  shows "mvSource m \<notin> set (move_paths m')" "mvTarget m \<notin> set (move_paths m')"
    "mvSource m \<in> set (plan_paths moves excluded)" "mvTarget m \<in> set (plan_paths moves excluded)"
  using apart_moves(2) [OF assms(1,3,2,4)] apart_moves(4) [OF assms(1,2)] by (auto simp: move_paths_def)

text \<open>Before a phase: the state, and what the checks have recorded as complete.\<close>

definition before_stage :: "string \<Rightarrow> Move list \<Rightarrow> FilePlan list \<Rightarrow> (Move \<Rightarrow> node) \<Rightarrow> fsys \<Rightarrow> fpath list \<Rightarrow> fsys \<Rightarrow> bool" where
  "before_stage dir moves plans node0 fs0 completed fs \<longleftrightarrow>
     plan_state moves (excluded_paths dir plans) node0 fs0 fs
     \<and> (\<forall>m \<in> set moves. mvSource m \<in> set completed \<longleftrightarrow> fs_at fs (mvTarget m) \<noteq> None)"

definition before_publish :: "string \<Rightarrow> Move list \<Rightarrow> FilePlan list \<Rightarrow> (Move \<Rightarrow> node) \<Rightarrow> fsys \<Rightarrow> fpath list \<Rightarrow> fsys \<Rightarrow> bool" where
  "before_publish dir moves plans node0 fs0 completed fs \<longleftrightarrow>
     plan_state moves (excluded_paths dir plans) node0 fs0 fs
     \<and> (\<forall>m \<in> set moves. fs_at fs (mvSource m) = None)
     \<and> (\<forall>m \<in> set moves. mvSource m \<in> set completed \<longrightarrow> fs_at fs (mvTarget m) \<noteq> None)"

lemma stage_phase:
  assumes calm: "faultless dk" and apart: "plan_apart moves (excluded_paths dir plans)"
    and files: "plan_files dir d moves plans node0 fs0" and ms: "set ms = set moves"
    and start: "before_stage dir moves plans node0 fs0 completed fs"
  shows "fst (fs_each (stage_move dk completed) ms fs) = Inr ()"
    "before_publish dir moves plans node0 fs0 completed (snd (fs_each (stage_move dk completed) ms fs))"
proof -
  let ?I = "before_stage dir moves plans node0 fs0 completed" and ?D = "\<lambda>m fs. fs_at fs (mvSource m) = None"
  have one: "fst (stage_move dk completed m fs) = Inr () \<and> ?I (snd (stage_move dk completed m fs)) \<and> ?D m (snd (stage_move dk completed m fs))"
    if m: "m \<in> set moves" and I: "?I fs" for m fs
  proof -
    from I have st: "plan_state moves (excluded_paths dir plans) node0 fs0 fs" by (simp add: before_stage_def)
    note keeps = stage_keeps [OF apart st m, where dk = dk and completed = completed]
    have "fs_at (snd (stage_move dk completed m fs)) (mvTarget k) = fs_at fs (mvTarget k)" if "k \<in> set moves" for k
      using keeps(2,3) other_move(2) [OF apart that m] by (cases "k = m") auto
    with stage_calm [OF calm apart st files m, of completed] I keeps(1) m show ?thesis by (simp add: before_stage_def)
  qed
  have two: "?D k (snd (stage_move dk completed m fs))" if "m \<in> set moves" "k \<in> set moves" "?I fs" "?D k fs" for m k fs
    using one [OF that(1,3)] other_move(1) [OF apart that(2,1)] that
      stage_keeps(2) [OF apart _ that(1), where dk = dk and completed = completed and fs = fs]
    by (cases "k = m") (auto simp: before_stage_def)
  have "fst (fs_each (stage_move dk completed) ms fs) = Inr () \<and> ?I (snd (fs_each (stage_move dk completed) ms fs))
      \<and> (\<forall>m \<in> set ms. ?D m (snd (fs_each (stage_move dk completed) ms fs)))"
    by (rule fs_each_calm [where D = ?D]) (use one two start ms in auto)
  with ms show "fst (fs_each (stage_move dk completed) ms fs) = Inr ()"
    "before_publish dir moves plans node0 fs0 completed (snd (fs_each (stage_move dk completed) ms fs))"
    by (auto simp: before_stage_def before_publish_def)
qed

lemma publish_phase:
  assumes calm: "faultless dk" and apart: "plan_apart moves (excluded_paths dir plans)"
    and files: "plan_files dir d moves plans node0 fs0" and ms: "set ms = set moves"
    and start: "before_publish dir moves plans node0 fs0 completed fs"
  shows "fst (fs_each (publish_move dk dir moves completed) ms fs) = Inr ()"
    "plan_state moves (excluded_paths dir plans) node0 fs0 (snd (fs_each (publish_move dk dir moves completed) ms fs))"
    "\<forall>m \<in> set moves. fs_at (snd (fs_each (publish_move dk dir moves completed) ms fs)) (mvTarget m) = Some (node0 m)"
proof -
  let ?f = "publish_move dk dir moves completed" and ?I = "before_publish dir moves plans node0 fs0 completed"
    and ?D = "\<lambda>m fs. fs_at fs (mvTarget m) = Some (node0 m)"
  have one: "fst (?f m fs) = Inr () \<and> ?I (snd (?f m fs)) \<and> ?D m (snd (?f m fs))"
    if m: "m \<in> set moves" and I: "?I fs" for m fs
  proof -
    from I have st: "plan_state moves (excluded_paths dir plans) node0 fs0 fs" by (simp add: before_publish_def)
    note keeps = publish_keeps [OF apart st m, where dk = dk and dir = dir and completed = completed]
    have calmly: "fst (?f m fs) = Inr ()" "?D m (snd (?f m fs))"
      using publish_calm [OF calm apart st files m, of completed] I m by (auto simp: before_publish_def)
    have "fs_at (snd (?f m fs)) (mvSource k) = None" if "k \<in> set moves" for k
      using keeps(2,3) other_move(1,3) [OF apart that m] I that m by (cases "k = m") (auto simp: before_publish_def)
    moreover have "fs_at (snd (?f m fs)) (mvTarget k) = fs_at fs (mvTarget k)" if "k \<in> set moves" "k \<noteq> m" for k
      using keeps(2) other_move(2,4) [OF apart that(1) m that(2)] by simp
    ultimately have "?I (snd (?f m fs))" using I keeps(1) calmly(2) by (fastforce simp: before_publish_def)
    with calmly show ?thesis by simp
  qed
  have two: "?D k (snd (?f m fs))" if "m \<in> set moves" "k \<in> set moves" "?I fs" "?D k fs" for m k fs
    using one [OF that(1,3)] other_move(2,4) [OF apart that(2,1)] that
      publish_keeps(2) [OF apart _ that(1), where dk = dk and dir = dir and completed = completed and fs = fs]
    by (cases "k = m") (auto simp: before_publish_def)
  have "fst (fs_each ?f ms fs) = Inr () \<and> ?I (snd (fs_each ?f ms fs)) \<and> (\<forall>m \<in> set ms. ?D m (snd (fs_each ?f ms fs)))"
    by (rule fs_each_calm [where D = ?D]) (use one two start ms in auto)
  with ms show "fst (fs_each ?f ms fs) = Inr ()" "plan_state moves (excluded_paths dir plans) node0 fs0 (snd (fs_each ?f ms fs))"
    "\<forall>m \<in> set moves. ?D m (snd (fs_each ?f ms fs))" by (auto simp: before_publish_def)
qed

lemma exclude_phase:
  assumes calm: "faultless dk" and apart: "plan_apart moves (excluded_paths dir plans)"
    and files: "plan_files dir d moves plans node0 fs0"
    and start: "plan_state moves (excluded_paths dir plans) node0 fs0 fs" "\<forall>m \<in> set moves. fs_at fs (mvTarget m) = Some (node0 m)"
  defines "fs' \<equiv> snd (fs_each (exclude_plan dk dir) plans fs)"
  shows "fst (fs_each (exclude_plan dk dir) plans fs) = Inr ()"
    "\<forall>m \<in> set moves. fs_at fs' (mvTarget m) = Some (node0 m)"
    "\<forall>p \<in> set plans. fpPriority p = 0 \<longrightarrow> fs_at fs' (plan_path dir (fpOriginalPath p)) = None"
proof -
  let ?I = "\<lambda>fs. plan_state moves (excluded_paths dir plans) node0 fs0 fs \<and> (\<forall>m \<in> set moves. fs_at fs (mvTarget m) = Some (node0 m))"
    and ?D = "\<lambda>p fs. fpPriority p = 0 \<longrightarrow> fs_at fs (plan_path dir (fpOriginalPath p)) = None"
  have one: "fst (exclude_plan dk dir p fs) = Inr () \<and> ?I (snd (exclude_plan dk dir p fs)) \<and> ?D p (snd (exclude_plan dk dir p fs))"
    if p: "p \<in> set plans" and I: "?I fs" for p fs
  proof -
    from I have st: "plan_state moves (excluded_paths dir plans) node0 fs0 fs" by blast
    note keeps = exclude_keeps [OF apart st p, where dk = dk]
    have "fs_at (snd (exclude_plan dk dir p fs)) (mvTarget m) = fs_at fs (mvTarget m)" if "m \<in> set moves" for m
      using apart_moves(3) [OF apart that] keeps(2) [of "mvTarget m"] p
      by (cases "fpPriority p = 0") (auto simp: move_paths_def excluded_paths_def moves_file_def)
    with I keeps(1) exclude_calm [OF calm apart st files p] show ?thesis by simp
  qed
  have two: "?D k (snd (exclude_plan dk dir p fs))" if "p \<in> set plans" "?I fs" "?D k fs" for p k fs
    using exclude_keeps(3) [OF apart _ that(1), where dk = dk and fs = fs] that by blast
  have "fst (fs_each (exclude_plan dk dir) plans fs) = Inr () \<and> ?I fs' \<and> (\<forall>p \<in> set plans. ?D p fs')"
    unfolding fs'_def by (rule fs_each_calm [where I = ?I and D = ?D]) (use one two start in blast)+
  then show "fst (fs_each (exclude_plan dk dir) plans fs) = Inr ()"
    "\<forall>m \<in> set moves. fs_at fs' (mvTarget m) = Some (node0 m)"
    "\<forall>p \<in> set plans. fpPriority p = 0 \<longrightarrow> fs_at fs' (plan_path dir (fpOriginalPath p)) = None" by blast+
qed

lemma run_calm:
  assumes calm: "faultless dk" and apart: "plan_apart moves (excluded_paths dir plans)"
    and st: "plan_state moves (excluded_paths dir plans) node0 fs0 fs"
    and files: "plan_files dir d moves plans node0 fs0"
  defines "after \<equiv> run_moves dk dir plans moves fs"
  shows "fst after = Inr ()" "\<forall>m \<in> set moves. fs_at (snd after) (mvTarget m) = Some (node0 m)"
    "\<forall>p \<in> set plans. fpPriority p = 0 \<longrightarrow> fs_at (snd after) (plan_path dir (fpOriginalPath p)) = None"
proof -
  note ordered = calm_ordered [OF calm sources_distinct(1) [OF apart]]
  obtain completed where checked: "check_moves dk fs dir moves [] (ordered dk 0 moves) = Inr completed"
    and "set completed = mvSource ` {m \<in> set moves. fs_at fs (mvTarget m) \<noteq> None}"
    using checks_calm [OF calm apart st files, of "ordered dk 0 moves" "[]"] ordered by auto
  with sources_distinct(2) [OF apart] st have start: "before_stage dir moves plans node0 fs0 completed fs"
    by (auto simp: before_stage_def)
  obtain fs1 where staged: "fs_each (stage_move dk completed) (ordered dk 1 moves) fs = (Inr (), fs1)"
      "before_publish dir moves plans node0 fs0 completed fs1"
    using stage_phase [OF calm apart files ordered start] by (metis prod.collapse)
  obtain fs2 where published: "fs_each (publish_move dk dir moves completed) (ordered dk 2 moves) fs1 = (Inr (), fs2)"
      "plan_state moves (excluded_paths dir plans) node0 fs0 fs2" "\<forall>m \<in> set moves. fs_at fs2 (mvTarget m) = Some (node0 m)"
    using publish_phase [OF calm apart files ordered staged(2)] by (metis prod.collapse)
  have "after = fs_each (exclude_plan dk dir) plans fs2"
    using staged published checked by (simp add: after_def run_moves_def fs_bind_def fs_get_def del: One_nat_def)
  with exclude_phase [OF calm apart files published(2,3)]
  show "fst after = Inr ()" "\<forall>m \<in> set moves. fs_at (snd after) (mvTarget m) = Some (node0 m)"
    "\<forall>p \<in> set plans. fpPriority p = 0 \<longrightarrow> fs_at (snd after) (plan_path dir (fpOriginalPath p)) = None" by simp_all
qed

end
