(* ===== verification/Fsafe_Apply.thy ===== *)
theory Fsafe_Apply
  imports Fsafe_Retry
begin

section \<open>Applying a file plan again and again (internal/fsafe: plan.go)\<close>

text \<open>
  The whole operation, with the resolution of its root and the collection of the moves: after any number
  of attempts that fails at any of its calls, an attempt in which no call fails completes a plan whose paths are apart.
\<close>

lemma rooted_code [code]: "rooted fs \<longleftrightarrow> list_all (\<lambda>(p, n). p = [] \<or> fs_at fs (butlast p) = Some NDir) fs"
proof -
  have "p \<noteq> [] \<Longrightarrow> fs_at fs p \<noteq> None \<longleftrightarrow> p \<in> fst ` set fs" for p by (simp add: fs_at_def map_of_eq_None_iff)
  then have "rooted fs \<longleftrightarrow> (\<forall>p \<in> fst ` set fs. p \<noteq> [] \<longrightarrow> fs_at fs (butlast p) = Some NDir)"
    unfolding rooted_def by blast
  then show ?thesis by (auto simp: list_all_iff)
qed

lemma open_way_code [code]:
  "open_way fs p \<longleftrightarrow> p \<noteq> [] \<and> list_all normal_comp p
     \<and> list_all (\<lambda>q. q = p \<or> fs_at fs q = None \<or> fs_at fs q = Some NDir) (prefixes p)"
  by (auto simp: open_way_def list_all_iff strict_prefix_def)

definition plan_moves :: "string \<Rightarrow> string \<Rightarrow> FilePlan list \<Rightarrow> Move list" where
  "plan_moves dir hash plans = map (move_of dir hash) (filter moves_file plans)"

text \<open>
  A plan that is ready: its root and the ways to its files are free of links, its files are there, its
  temporaries and targets are free, and no path of it is another or lies under another.
\<close>

definition file_ready :: "fsys \<Rightarrow> string \<Rightarrow> string \<Rightarrow> FilePlan \<Rightarrow> bool" where
  "file_ready fs dir hash p \<longleftrightarrow> plan_ok p \<and>
     (if moves_file p then
        (let m = move_of dir hash p
         in (case fs_at fs (mvSource m) of None \<Rightarrow> False | Some n \<Rightarrow> exact_file n (fpSize p))
            \<and> fs_at fs (mvTemp m) = None \<and> fs_at fs (mvTarget m) = None \<and> butlast (mvTemp m) = comps dir)
      else path_clean (fpOriginalPath p) = path_clean (fpEffectivePath p)
        \<and> (case fs_at fs (plan_path dir (fpOriginalPath p)) of
             None \<Rightarrow> True | Some n \<Rightarrow> \<not> is_link n \<and> (fpPriority p = 0 \<longrightarrow> exact_file n (fpSize p))))"

definition plan_ready :: "string \<Rightarrow> string \<Rightarrow> string \<Rightarrow> FilePlan list \<Rightarrow> fsys \<Rightarrow> bool" where
  "plan_ready localRoot dir hash plans fs \<longleftrightarrow>
     hash \<noteq> [] \<and> dir = path_of (comps dir) \<and> list_all normal_comp (comps dir) \<and> strictlyWithin localRoot dir
     \<and> rooted fs \<and> fs_at fs (comps dir) = Some NDir \<and> list_all (file_ready fs dir hash) plans
     \<and> plan_apart (plan_moves dir hash plans) (excluded_paths dir plans)
     \<and> list_all (\<lambda>q. strict_prefix (comps dir) q \<and> open_way fs q) (plan_paths (plan_moves dir hash plans) (excluded_paths dir plans))"

subsection \<open>The moves that are collected\<close>

lemma collected:
  "collect_moves dk fs dir hash acc ps = Inr ms \<Longrightarrow> ms = acc @ plan_moves dir hash ps"
proof (induction ps arbitrary: acc)
  case (Cons p ps)
  with Cons.IH [of "acc @ [move_of dir hash p]"] Cons.IH [of acc] show ?case
    by (auto simp: plan_moves_def split: if_splits option.splits)
qed (simp add: plan_moves_def)

lemma clean_rooted:
  "list_all normal_comp st \<Longrightarrow> list_all (\<lambda>w. CHR ''/'' \<notin> set w) ws \<Longrightarrow> list_all normal_comp (clean_comps True st ws)"
  by (induction True st ws rule: clean_comps.induct) (auto simp: normal_comp_def split: list.splits)

lemma clean_absolute:
  assumes "is_abs p"
  shows "list_all normal_comp (comps (path_clean p)) \<and> path_of (comps (path_clean p)) = path_clean p"
proof -
  let ?l = "clean_comps True [] (split_on CHR ''/'' p)"
  have "list_all (\<lambda>w. CHR ''/'' \<notin> set w) (split_on CHR ''/'' p)"
    using split_on_comps by (fastforce simp: list_all_iff)
  then have l: "list_all normal_comp ?l" by (intro clean_rooted) simp_all
  have "p \<noteq> []" using assms by auto
  with assms have "path_clean p = path_of ?l" by (simp add: path_clean_def path_of_def)
  with l comps_path_of [OF l] show ?thesis by simp
qed

lemma join_absolute: "is_abs dir \<Longrightarrow> path_of (plan_path dir r) = path_join [dir, r]"
proof -
  assume dir: "is_abs dir"
  then obtain x where x: "dir = CHR ''/'' # x" by (cases dir) auto
  have "is_abs (dir @ ''/'' @ r)" using x by simp
  with clean_absolute [OF this] x show ?thesis by (simp add: plan_path_def path_join_def)
qed

lemma collect_calm:
  assumes "\<And>p. p \<in> set ps \<Longrightarrow> plan_ok p \<and> safePlanComponents dk fs dir (fpOriginalPath p) = None
      \<and> safePlanComponents dk fs dir (fpEffectivePath p) = None"
    and "distinct (map mvSource (acc @ plan_moves dir hash ps))"
  shows "collect_moves dk fs dir hash acc ps = Inr (acc @ plan_moves dir hash ps)"
  using assms
proof (induction ps arbitrary: acc)
  case (Cons p ps)
  show ?case
  proof (cases "moves_file p")
    case True
    then have moves: "plan_moves dir hash (p # ps) = move_of dir hash p # plan_moves dir hash ps" by (simp add: plan_moves_def)
    with Cons.prems(2) have "mvSource (move_of dir hash p) \<notin> mvSource ` set acc" by auto
    with True moves Cons.IH [of "acc @ [move_of dir hash p]"] Cons.prems show ?thesis by simp
  next
    case False
    then have "plan_moves dir hash (p # ps) = plan_moves dir hash ps" by (simp add: plan_moves_def)
    with False Cons.IH [of acc] Cons.prems show ?thesis by simp
  qed
qed (simp add: plan_moves_def)


subsection \<open>From the ready plan on\<close>

definition initial_node :: "fsys \<Rightarrow> Move \<Rightarrow> node" where
  "initial_node fs m = the (fs_at fs (mvSource m))"

abbreviation "plan_kept dir hash plans fs0 fs \<equiv>
  plan_state (plan_moves dir hash plans) (excluded_paths dir plans) (initial_node fs0) fs0 fs"

lemma ready_state:
  assumes "plan_ready localRoot dir hash plans fs"
  shows "plan_kept dir hash plans fs fs"
    "plan_files dir (comps dir) (plan_moves dir hash plans) plans (initial_node fs) fs"
proof -
  note ready = assms [unfolded plan_ready_def list_all_iff file_ready_def]
  have moved: "m \<in> set (plan_moves dir hash plans) \<Longrightarrow> exact_file (initial_node fs m) (mvSize m)
      \<and> butlast (mvTemp m) = comps dir \<and> fs_at fs (mvSource m) = Some (initial_node fs m)
      \<and> fs_at fs (mvTemp m) = None \<and> fs_at fs (mvTarget m) = None" for m
    using ready by (fastforce simp: plan_moves_def initial_node_def Let_def move_of_def split: option.splits)
  then have "one_place fs m (initial_node fs m)" if "m \<in> set (plan_moves dir hash plans)" for m
    using that by (auto simp: one_place_def move_paths_def)
  with ready show "plan_kept dir hash plans fs fs" by (simp add: plan_state_def outside_kept_def)
  have "(case fs_at fs (plan_path dir (fpOriginalPath p)) of None \<Rightarrow> True | Some n \<Rightarrow> exact_file n (fpSize p))"
    if "p \<in> set plans" "fpPriority p = 0" for p
  proof -
    have "\<not> moves_file p" using that(2) by (simp add: moves_file_def)
    with ready that show ?thesis by (auto split: option.splits)
  qed
  with ready moved show "plan_files dir (comps dir) (plan_moves dir hash plans) plans (initial_node fs) fs"
    by (simp add: plan_files_def plan_dir_def list_all_iff)
qed

lemma root_kept:
  assumes ready: "plan_ready localRoot dir hash plans fs0" and st: "plan_kept dir hash plans fs0 fs"
    and q: "prefix q (comps dir)"
  shows "fs_at fs q = Some NDir"
proof -
  obtain r where d: "comps dir = q @ r" using q by (auto simp: prefix_def)
  with ready rooted_above [of fs0 q r] have "fs_at fs0 q = Some NDir"
    by (cases "r = []") (auto simp: plan_ready_def)
  moreover have "q \<notin> set (plan_paths (plan_moves dir hash plans) (excluded_paths dir plans))"
  proof
    assume "q \<in> set (plan_paths (plan_moves dir hash plans) (excluded_paths dir plans))"
    then have "strict_prefix (comps dir) q" using ready by (auto simp: plan_ready_def list_all_iff)
    with q show False by (simp add: strict_prefix_def prefix_order.eq_iff)
  qed
  ultimately show ?thesis using st by (auto simp: plan_state_def outside_kept_def)
qed

lemma root_resolves:
  assumes ready: "plan_ready localRoot dir hash plans fs0" and st: "plan_kept dir hash plans fs0 fs"
  shows "EvalSymlinks dk fs dir = io dk ''evalsymlinks'' (comps dir) (Inr dir)"
proof -
  have "fs_at fs ([] @ q) \<in> {None, Some NDir}" if "prefix q (comps dir)" for q
    using root_kept [OF ready st that] by simp
  with ready st root_kept [OF ready st, of "comps dir"] walk_plain [of fs "[]" "comps dir" 255]
  show ?thesis by (simp add: EvalSymlinks_def eval_links_def plan_ready_def plan_state_def)
qed

lemma apply_runs:
  assumes ready: "plan_ready localRoot dir hash plans fs0" and st: "plan_kept dir hash plans fs0 fs"
  shows "snd (ApplyFilePlan dk localRoot dir hash plans fs) \<in> {fs, snd (run_moves dk dir plans (plan_moves dir hash plans) fs)}"
proof -
  have "snd (fs_on_err f m fs) = snd (m fs)" for f and m :: "unit fsm"
    by (simp add: fs_on_err_def split: prod.split)
  moreover have "is_abs dir" using ready by (metis is_abs_Cons append_Cons path_of_def plan_ready_def)
  moreover from root_resolves [OF ready st, of dk] have "EvalSymlinks dk fs dir = Inr dir \<or> (\<exists>e. EvalSymlinks dk fs dir = Inl e)"
    by (auto simp: io_def split: option.splits)
  ultimately show ?thesis
    using ready collected [of dk fs dir hash "[]" plans]
    by (auto simp: ApplyFilePlan_def applyFilePlan_def plan_ready_def snd_fs_bind fs_get_def fs_fail_def split: sum.split)
qed

lemma apply_keeps:
  assumes "plan_ready localRoot dir hash plans fs0" "plan_kept dir hash plans fs0 fs"
  shows "plan_kept dir hash plans fs0 (snd (ApplyFilePlan dk localRoot dir hash plans fs))"
proof -
  have "plan_apart (plan_moves dir hash plans) (excluded_paths dir plans)" using assms(1) by (simp add: plan_ready_def)
  from run_keeps [OF this assms(2)] apply_runs [OF assms, of dk] assms(2) show ?thesis by auto
qed


subsection \<open>The attempt that succeeds\<close>

lemma ready_safe:
  assumes calm: "faultless dk" and ready: "plan_ready localRoot dir hash plans fs0" and st: "plan_kept dir hash plans fs0 fs"
    and p: "p \<in> set plans"
  shows "plan_ok p \<and> safePlanComponents dk fs dir (fpOriginalPath p) = None \<and> safePlanComponents dk fs dir (fpEffectivePath p) = None"
proof -
  let ?moves = "plan_moves dir hash plans" and ?excluded = "excluded_paths dir plans" and ?m = "move_of dir hash p"
  have ok: "plan_ok p" and apart: "plan_apart ?moves ?excluded" and dir: "is_abs dir" "plan_dir dir (comps dir)"
    using ready p by (auto simp: plan_ready_def list_all_iff file_ready_def plan_dir_def)
      (metis is_abs_Cons append_Cons path_of_def)
  have safe: "safePlanComponents dk fs dir r = None"
    if "plan_path dir r \<in> set (plan_paths ?moves ?excluded)" "fs_at fs (plan_path dir r) \<notin> Some ` Collect is_link" for r
  proof -
    have "prefix (comps dir) (plan_path dir r)"
      using ready that(1) by (auto simp: plan_ready_def list_all_iff strict_prefix_def)
    moreover have "rooted fs" "open_way fs (plan_path dir r)" using st that(1) by (auto simp: plan_state_def)
    ultimately show ?thesis
      using safe_calm [OF calm _ dir(2)] that(2) by (simp add: safePlanComponents_def join_absolute [OF dir(1), symmetric])
  qed
  show ?thesis
  proof (cases "moves_file p")
    case True
    then have m: "?m \<in> set ?moves" using p by (simp add: plan_moves_def)
    have paths: "plan_path dir (fpOriginalPath p) = mvSource ?m" "plan_path dir (fpEffectivePath p) = mvTarget ?m"
      by (simp_all add: move_of_def)
    have "\<not> is_link (initial_node fs0 ?m)"
      using ready_state(2) [OF ready] m exact_not_link by (auto simp: plan_files_def)
    then have "fs_at fs (mvSource ?m) \<notin> Some ` Collect is_link" "fs_at fs (mvTarget ?m) \<notin> Some ` Collect is_link"
      by (cases rule: place [OF apart st m]; auto)+
    with ok safe paths apart_moves(4) [OF apart m] show ?thesis by (simp add: move_paths_def)
  next
    case False
    have fine: "file_ready fs0 dir hash p" using ready p by (simp add: plan_ready_def list_all_iff)
    with False have "path_clean (fpOriginalPath p) = path_clean (fpEffectivePath p)" by (simp add: file_ready_def)
    moreover have "path_clean (fpOriginalPath p) = fpOriginalPath p" "path_clean (fpEffectivePath p) = fpEffectivePath p"
      using ok by (simp_all add: plan_ok_def validManifestPath_def)
    ultimately have "fpEffectivePath p = fpOriginalPath p" by simp
    moreover have "plan_path dir (fpOriginalPath p) \<in> set ?excluded" using p False by (auto simp: excluded_paths_def)
    ultimately have c: "fpEffectivePath p = fpOriginalPath p" "plan_path dir (fpOriginalPath p) \<in> set ?excluded" by blast+
    have "fs_at fs0 (plan_path dir (fpOriginalPath p)) \<notin> Some ` Collect is_link"
      using fine False by (auto simp: file_ready_def split: option.splits)
    moreover from st c(2) have "fs_at fs (plan_path dir (fpOriginalPath p)) \<in> {None, fs_at fs0 (plan_path dir (fpOriginalPath p))}"
      by (simp add: plan_state_def)
    ultimately have "fs_at fs (plan_path dir (fpOriginalPath p)) \<notin> Some ` Collect is_link" by auto
    with safe [of "fpOriginalPath p"] c ok show ?thesis by (simp add: plan_paths_def)
  qed
qed

lemma apply_calm:
  assumes calm: "faultless dk" and ready: "plan_ready localRoot dir hash plans fs0" and st: "plan_kept dir hash plans fs0 fs"
  shows "ApplyFilePlan dk localRoot dir hash plans fs = run_moves dk dir plans (plan_moves dir hash plans) fs"
proof -
  have apart: "plan_apart (plan_moves dir hash plans) (excluded_paths dir plans)" and abs: "is_abs dir"
    using ready by (simp add: plan_ready_def) (metis ready is_abs_Cons append_Cons path_of_def plan_ready_def)
  have "collect_moves dk fs dir hash [] plans = Inr (plan_moves dir hash plans)"
    using collect_calm [of plans dk fs dir "[]" hash] ready_safe [OF calm ready st] sources_distinct(1) [OF apart] by simp
  moreover have "EvalSymlinks dk fs dir = Inr dir" using root_resolves [OF ready st] calm by simp
  moreover obtain fs' where "run_moves dk dir plans (plan_moves dir hash plans) fs = (Inr (), fs')"
    using run_calm(1) [OF calm apart st ready_state(2) [OF ready]] by (metis prod.collapse)
  ultimately show ?thesis using ready abs
    by (simp add: ApplyFilePlan_def applyFilePlan_def fs_on_err_def fs_bind_def fs_get_def plan_ready_def)
qed

lemma run_leaves:
  assumes apart: "plan_apart moves (excluded_paths dir plans)" and st: "plan_state moves (excluded_paths dir plans) node0 fs0 fs"
    and q: "q \<in> set (excluded_paths dir plans)" "\<And>p. p \<in> set plans \<Longrightarrow> fpPriority p = 0 \<Longrightarrow> q \<noteq> plan_path dir (fpOriginalPath p)"
  shows "fs_at (snd (run_moves dk dir plans moves fs)) q = fs_at fs q"
proof -
  let ?P = "\<lambda>fs'. plan_state moves (excluded_paths dir plans) node0 fs0 fs' \<and> fs_at fs' q = fs_at fs q"
  have out: "q \<notin> set (move_paths m)" "q \<in> set (plan_paths moves (excluded_paths dir plans))" if "m \<in> set moves" for m
    using apart_moves(3) [OF apart that] q(1) by (auto simp: plan_paths_def)
  have stage1: "?P (snd (stage_move dk completed m fs1))" if "m \<in> set moves" "?P fs1" for completed m fs1
    using stage_keeps(1,2) [OF apart _ that(1), of node0 fs0 fs1] out(1) [OF that(1)] that(2) by simp
  have publish1: "?P (snd (publish_move dk dir moves completed m fs1))" if "m \<in> set moves" "?P fs1" for completed m fs1
    using publish_keeps(1,2) [OF apart _ that(1), of node0 fs0 fs1] out [OF that(1)] that(2) by simp
  have exclude1: "?P (snd (exclude_plan dk dir p fs1))" if "p \<in> set plans" "?P fs1" for p fs1
  proof -
    have "q \<noteq> plan_path dir (fpOriginalPath p) \<or> fpPriority p \<noteq> 0" using q(2) [OF that(1)] by blast
    with exclude_keeps(1,2) [OF apart _ that(1), of node0 fs0 fs1] that(2) show ?thesis by simp
  qed
  have stage: "?P (snd (fs_each (stage_move dk completed) (ordered dk n moves) fs1))" if "?P fs1" for completed n fs1
    by (rule fs_each_keeps [where P = ?P, OF stage1 that]) (use set_ordered in auto)
  have publish: "?P (snd (fs_each (publish_move dk dir moves completed) (ordered dk n moves) fs1))" if "?P fs1" for completed n fs1
    by (rule fs_each_keeps [where P = ?P, OF publish1 that]) (use set_ordered in auto)
  have exclude: "?P (snd (fs_each (exclude_plan dk dir) plans fs1))" if "?P fs1" for fs1
    by (rule fs_each_keeps [where P = ?P, OF exclude1 that])
  have "?P (snd (run_moves dk dir plans moves fs))"
    using st stage publish exclude by (simp add: run_moves_def snd_fs_bind fs_get_def split: sum.split)
  then show ?thesis by blast
qed

lemma kept_file:
  assumes "plan_apart moves (excluded_paths dir plans)" "p \<in> set plans" "\<not> moves_file p" "fpPriority p \<noteq> 0"
  shows "plan_path dir (fpOriginalPath p) \<in> set (excluded_paths dir plans)"
    "k \<in> set plans \<Longrightarrow> fpPriority k = 0 \<Longrightarrow> plan_path dir (fpOriginalPath p) \<noteq> plan_path dir (fpOriginalPath k)"
proof -
  show "plan_path dir (fpOriginalPath p) \<in> set (excluded_paths dir plans)"
    using assms(2,3) by (auto simp: excluded_paths_def)
  have "distinct (map (\<lambda>p. plan_path dir (fpOriginalPath p)) (filter (\<lambda>p. \<not> moves_file p) plans))"
    using assms(1) by (simp add: plan_apart_def plan_paths_def excluded_paths_def)
  then have "inj_on (\<lambda>p. plan_path dir (fpOriginalPath p)) {p \<in> set plans. \<not> moves_file p}"
    by (simp add: distinct_map)
  moreover have "\<not> moves_file k" if "fpPriority k = 0" for k using that by (simp add: moves_file_def)
  ultimately show "k \<in> set plans \<Longrightarrow> fpPriority k = 0 \<Longrightarrow> plan_path dir (fpOriginalPath p) \<noteq> plan_path dir (fpOriginalPath k)"
    using assms(2-4) by (fastforce dest: inj_onD)
qed

text \<open>Any number of attempts, each on its own run of faults.\<close>

definition attempts :: "string \<Rightarrow> string \<Rightarrow> string \<Rightarrow> FilePlan list \<Rightarrow> Disk list \<Rightarrow> fsys \<Rightarrow> fsys" where
  "attempts localRoot dir hash plans dks fs0 = fold (\<lambda>dk fs. snd (ApplyFilePlan dk localRoot dir hash plans fs)) dks fs0"

lemma attempts_keep:
  "plan_ready localRoot dir hash plans fs0 \<Longrightarrow> plan_kept dir hash plans fs0 fs
   \<Longrightarrow> plan_kept dir hash plans fs0 (attempts localRoot dir hash plans dks fs)"
  by (induction dks arbitrary: fs) (auto simp: attempts_def apply_keeps)


lemma attempts_leave:
  assumes ready: "plan_ready localRoot dir hash plans fs0" and p: "p \<in> set plans" "\<not> moves_file p" "fpPriority p \<noteq> 0"
  shows "plan_kept dir hash plans fs0 fs \<Longrightarrow> fs_at (attempts localRoot dir hash plans dks fs) (plan_path dir (fpOriginalPath p))
     = fs_at fs (plan_path dir (fpOriginalPath p))"
proof (induction dks arbitrary: fs)
  case (Cons dk dks)
  have apart: "plan_apart (plan_moves dir hash plans) (excluded_paths dir plans)" using ready by (simp add: plan_ready_def)
  let ?fs = "snd (ApplyFilePlan dk localRoot dir hash plans fs)"
  have "fs_at ?fs (plan_path dir (fpOriginalPath p)) = fs_at fs (plan_path dir (fpOriginalPath p))"
    using apply_runs [OF ready Cons.prems, of dk] run_leaves [OF apart Cons.prems kept_file [OF apart p], of dk] by auto
  with Cons.IH [OF apply_keeps [OF ready Cons.prems, of dk]] show ?case by (simp add: attempts_def)
qed (simp add: attempts_def)

lemma plan_completed:
  assumes ready: "plan_ready localRoot dir hash plans fs0" and calm: "faultless dk"
    and call: "ApplyFilePlan dk localRoot dir hash plans (attempts localRoot dir hash plans dks fs0) = (r, fs)"
  shows "r = Inr () \<and>
    (\<forall>m \<in> set (plan_moves dir hash plans). fs_at fs (mvTarget m) = fs_at fs0 (mvSource m)
       \<and> fs_at fs (mvSource m) = None \<and> fs_at fs (mvTemp m) = None) \<and>
    (\<forall>p \<in> set plans. fpPriority p = 0 \<longrightarrow> fs_at fs (plan_path dir (fpOriginalPath p)) = None) \<and>
    (\<forall>p \<in> set plans. \<not> moves_file p \<longrightarrow> fpPriority p \<noteq> 0
       \<longrightarrow> fs_at fs (plan_path dir (fpOriginalPath p)) = fs_at fs0 (plan_path dir (fpOriginalPath p))) \<and>
    outside_kept (plan_moves dir hash plans) (excluded_paths dir plans) fs0 fs"
proof -
  let ?moves = "plan_moves dir hash plans" and ?fs = "attempts localRoot dir hash plans dks fs0"
  have apart: "plan_apart ?moves (excluded_paths dir plans)" using ready by (simp add: plan_ready_def)
  have st: "plan_kept dir hash plans fs0 ?fs" by (rule attempts_keep [OF ready ready_state(1) [OF ready]])
  have run: "run_moves dk dir plans ?moves ?fs = (r, fs)" using apply_calm [OF calm ready st] call by simp
  note calmly = run_calm [OF calm apart st ready_state(2) [OF ready], unfolded run fst_conv snd_conv]
  have kept: "plan_kept dir hash plans fs0 fs" using run_keeps [OF apart st, of dk] run by simp
  have moved: "fs_at fs (mvTarget m) = fs_at fs0 (mvSource m) \<and> fs_at fs (mvSource m) = None \<and> fs_at fs (mvTemp m) = None"
    if m: "m \<in> set ?moves" for m
  proof -
    have "fs_at fs (mvTarget m) = Some (initial_node fs0 m)" using calmly(2) m by blast
    moreover from ready m have "fs_at fs0 (mvSource m) = Some (initial_node fs0 m)"
      by (auto simp: plan_moves_def initial_node_def plan_ready_def list_all_iff file_ready_def Let_def split: option.splits)
    ultimately show ?thesis by (cases rule: place [OF apart kept m]) auto
  qed
  have still: "fs_at fs (plan_path dir (fpOriginalPath p)) = fs_at fs0 (plan_path dir (fpOriginalPath p))"
    if p: "p \<in> set plans" "\<not> moves_file p" "fpPriority p \<noteq> 0" for p
    using attempts_leave [OF ready p ready_state(1) [OF ready], of dks] run_leaves [OF apart st kept_file [OF apart p], of dk] run by simp
  from calmly(1,3) moved still kept show ?thesis by (simp add: plan_state_def)
qed

end
