(* ===== verification/Local_Trees.thy ===== *)
theory Local_Trees
  imports Store_Paths Fsafe_Apply
begin

section \<open>Local trees never nest, as directories\<close>

text \<open>
  The triggers compare texts.  A workspace is recorded as \<open>filepath.Clean\<close> leaves it, and for such
  texts the comparison is one of component lists: a tree is not below another one as a directory
  either.  A legacy tree is the text of its save path and name; when that is clean too the same holds.
\<close>

lemma path_of_below:
  assumes "prefix p q" "p \<noteq> []"
  shows "path_below (path_of p) (path_of q)"
proof -
  from assms(1) obtain r where q: "q = p @ r" by (auto simp: prefix_def)
  show ?thesis
  proof (cases "r = []")
    case False
    with assms(2) show ?thesis
      by (auto simp: q path_below_def path_of_def join_with_append prefix_def)
  qed (simp add: q path_below_def)
qed

lemma clean_below:
  assumes "is_abs x" "is_abs y" "path_clean x = x" "path_clean y = y" "x \<noteq> ''/''"
    and "prefix (comps x) (comps y)"
  shows "path_below x y"
proof -
  have x: "path_of (comps x) = x" and y: "path_of (comps y) = y"
    using clean_absolute assms(1-4) by metis+
  have "comps x \<noteq> []"
    using x assms(5) by (auto simp: path_of_def)
  from path_of_below [OF assms(6) this] show ?thesis by (simp add: x y)
qed

lemma local_tree_absolute:
  assumes "downloadFromDB a = Inr d" "local_tree a = Some x" "x \<noteq> []"
  shows "is_abs x" "r_workspace_path a = Some x \<Longrightarrow> path_clean x = x \<and> x \<noteq> ''/''"
proof -
  have v: "valid_download d" by (rule downloadFromDB_valid [OF assms(1)])
  have f: "dHash d = r_hash a" "dSavePath d = r_save_path a" "dWorkspacePath d = nullString (r_workspace_path a)"
    using downloadFromDB_fields [OF assms(1)] by simp_all
  have save: "is_abs (r_save_path a)" using valid_download_save [OF v] f by (simp add: absolutePath_def)
  have ws: "is_abs x \<and> path_clean x = x" if "r_workspace_path a = Some x"
  proof -
    have "\<not> workspace_invalid d"
      using valid_download_workspace [OF v] f assms(3) that by (simp add: nullString_def)
    then show ?thesis
      using f that by (auto simp: workspace_invalid_def absolutePath_def nullString_def Let_def)
  qed
  have ne: "x \<noteq> ''/''" if w: "r_workspace_path a = Some x"
  proof -
    from convertible_workspace [OF assms(1) w assms(3)] obtain s where "x = s @ ''.cd211/'' @ r_hash a" by blast
    then show ?thesis by (auto simp: append_eq_Cons_conv)
  qed
  show "r_workspace_path a = Some x \<Longrightarrow> path_clean x = x \<and> x \<noteq> ''/''" using ws ne by blast
  show "is_abs x"
  proof (cases "r_workspace_path a")
    case None
    with assms(2) obtain dest where x: "x = dest_path (r_save_path a) dest"
      by (auto simp: local_tree_def legacy_tree_def split: option.splits if_splits)
    have "rtrim_slash p = [] \<or> is_abs (rtrim_slash p)" if "is_abs p" for p
    proof -
      have "prefix (rtrim_slash p) p"
        using suffix_dropWhile [of _ "rev p"] by (simp add: rtrim_slash_def suffix_to_prefix)
      with that show ?thesis by (cases "rtrim_slash p"; cases p) auto
    qed
    from this [OF save] show ?thesis
      by (cases "rtrim_slash (r_save_path a)") (auto simp: x dest_path_def)
  qed (use ws assms(2) in \<open>simp add: local_tree_def\<close>)
qed

text \<open>A tree that is compared as a directory: a workspace, or a clean legacy path below the root.\<close>

definition directory_text :: "download_row \<Rightarrow> string \<Rightarrow> bool" where
  "directory_text r x \<longleftrightarrow> r_workspace_path r = Some x \<or> (path_clean x = x \<and> x \<noteq> ''/'')"

theorem local_trees_disjoint_directories:
  assumes "paths_ok db" "a \<in> set (downloads db)" "b \<in> set (downloads db)" "r_hash a \<noteq> r_hash b"
    and "downloadFromDB a = Inr da" "downloadFromDB b = Inr d'"
    and "local_tree a = Some x" "local_tree b = Some y" "x \<noteq> []" "y \<noteq> []"
  shows "\<not> path_nested x y \<and> (directory_text a x \<longrightarrow> directory_text b y \<longrightarrow>
    \<not> prefix (comps x) (comps y) \<and> \<not> prefix (comps y) (comps x))"
proof -
  note apart = local_trees_disjoint [OF assms]
  note ax = local_tree_absolute [OF assms(5,7,9)] and ay = local_tree_absolute [OF assms(6,8,10)]
  have "path_clean x = x \<and> x \<noteq> ''/''" if "directory_text a x"
    using that ax(2) by (auto simp: directory_text_def)
  moreover have "path_clean y = y \<and> y \<noteq> ''/''" if "directory_text b y"
    using that ay(2) by (auto simp: directory_text_def)
  ultimately show ?thesis
    using clean_below [OF ax(1) ay(1)] clean_below [OF ay(1) ax(1)] apart
    by (auto simp: path_nested_def)
qed

end
