(* ===== verification/Example_Disk.thy ===== *)
theory Example_Disk
  imports Example_Steps Fsafe_Verified Local_Trees
begin

section \<open>An example disk\<close>

text \<open>
  A small file system with a workspace, a torrent root and a link that leads outside, on which the
  operations of the verifier run; and a chain of renames that loses a file.
\<close>

definition quiet :: Disk where
  "quiet = \<lparr>dkFault = (\<lambda>_ _. None), dkIdentity = (\<lambda>_. SameEntry), dkPartial = (\<lambda>_. True), dkOrder = (\<lambda>_ xs. xs)\<rparr>"

definition example_work :: fpath where
  "example_work = [''s'', ''.cd211'', hash_of (CHR ''a''), ''t'']"

definition example_disk :: fsys where
  "example_disk =
     [([''etc''], NDir), ([''s''], NDir), ([''s'', ''m''], NDir), ([''s'', ''m'', ''t''], NDir),
      ([''s'', ''m'', ''t'', ''a''], NFile 5 1), ([''s'', ''m'', ''t'', ''b''], NFile 6 2),
      ([''s'', ''m'', ''t'', ''x''], NFile 7 3), ([''s'', ''l''], NLink ''/etc''), ([''s'', ''.cd211''], NDir),
      ([''s'', ''.cd211'', hash_of (CHR ''a'')], NDir), (example_work, NFile 7 4)]"

definition example_plan :: "int \<Rightarrow> string \<Rightarrow> string \<Rightarrow> int \<Rightarrow> int \<Rightarrow> FilePlan" where
  "example_plan i source dest priority len = \<lparr>fpIndex = i, fpOriginalPath = source, fpEffectivePath = dest,
     fpPriority = priority, fpSize = len\<rparr>"

text \<open>One file moves into a new directory, one stays, one is excluded; the first attempt breaks off.\<close>

definition example_plans :: "FilePlan list" where
  "example_plans = [example_plan 0 ''a'' ''d/c'' 1 5, example_plan 1 ''b'' ''b'' 6 6, example_plan 2 ''x'' ''x'' 0 7]"

definition broken :: Disk where
  "broken = quiet\<lparr>dkFault := (\<lambda>call p. if call = ''mkdirall'' then Some EIO else None)\<rparr>"

lemma quiet_calm: "faultless quiet"
  by (simp add: faultless_def quiet_def)

lemma example_plan_ready: "plan_ready ''/s'' ''/s/m/t'' ''h'' example_plans example_disk"
  by code_simp

lemma example_deletes:
  "fs_at (snd (Delete_content quiet ''/s'' ''/s/m/t'' ''/s/m'' example_disk)) [''s'', ''m'', ''t'', ''a''] \<noteq>
     fs_at example_disk [''s'', ''m'', ''t'', ''a'']"
  by code_simp

lemma example_workspace_goes:
  "fs_at (snd (DeleteWorkspace quiet ''/s'' ''/s'' (hash_of (CHR ''a'')) example_disk)) example_work \<noteq>
     fs_at example_disk example_work"
  by code_simp

lemma example_verified:
  "VerifyUnknownType quiet example_disk ''/s'' (''/s/.cd211/'' @ hash_of (CHR ''a'')) ''t'' =
     Inr \<lparr>ucPath = ''/s/.cd211/'' @ hash_of (CHR ''a'') @ ''/t'', ucSize = 7, ucMultiFile = False\<rparr>"
  by code_simp

lemma disk_completes:
  "dState (dcNext (decide example_config (disk_verifier quiet example_disk ''/s'' example_world) verifying)) = StateCompleted"
  "dcErr (decide example_config (disk_verifier quiet example_disk ''/s'' example_world) verifying) = None"
proof -
  have "dState verifying = StateVerifyingLocal" "dSourceKind verifying = SourceMagnet" "dDestinationName verifying = ''t''"
    by (simp_all add: verifying_def) (simp add: copying_def example_download_def)
  moreover have "workspaceRoot verifying = ''/s/.cd211/'' @ hash_of (CHR ''a'')"
    by (simp add: workspaceRoot_def verifying_def)
  ultimately show
    "dState (dcNext (decide example_config (disk_verifier quiet example_disk ''/s'' example_world) verifying)) = StateCompleted"
    "dcErr (decide example_config (disk_verifier quiet example_disk ''/s'' example_world) verifying) = None"
    using example_verified
    by (simp_all add: decide_def decide_verifying_def Let_def verifyAndRecord_def decided_def complete_def disk_verifier_def)
qed

subsection \<open>The chain\<close>

definition chain_fault :: Disk where
  "chain_fault = quiet\<lparr>dkFault := (\<lambda>call p. if call = ''rename'' \<and> p = [''r'', ''x'', temp_name ''h'' 2] then Some EIO else None)\<rparr>"

definition chain_disk :: fsys where
  "chain_disk = [([''r''], NDir), ([''r'', ''x''], NDir), ([''r'', ''x'', ''a''], NFile 5 1),
     ([''r'', ''x'', ''b''], NFile 5 2), ([''r'', ''x'', ''c''], NFile 5 3)]"

definition chain_plans :: "FilePlan list" where
  "chain_plans = [example_plan 0 ''a'' ''b'' 1 5, example_plan 1 ''b'' ''c'' 1 5, example_plan 2 ''c'' ''d'' 1 5]"

definition chain_left :: fsys where
  "chain_left = [([''r'', ''x'', ''c''], NFile 5 2), ([''r'', ''x'', ''b''], NFile 5 1),
     ([''r'', ''x'', ''.cd211-plan-h-2''], NFile 5 3), ([''r''], NDir), ([''r'', ''x''], NDir)]"

lemma chain_interrupted:
  "ApplyFilePlan chain_fault ''/r'' ''/r/x'' ''h'' chain_plans chain_disk =
     (Inl (FsFailure FailureTransient ''apply_file_plan'' (Errno EIO)), chain_left)"
  by code_simp

lemma chain_rerun:
  "ApplyFilePlan quiet ''/r'' ''/r/x'' ''h'' chain_plans chain_left =
     (Inr (), [([''r'', ''x'', ''d''], NFile 5 3), ([''r'', ''x'', ''c''], NFile 5 1), ([''r''], NDir), ([''r'', ''x''], NDir)])"
  by code_simp

lemma chain_kept: "NFile 5 2 \<in> snd ` set chain_left"
  by (simp add: chain_left_def)

end
