(* ===== verification/Go_Time.thy ===== *)
theory Go_Time
  imports Go_Text
begin

section \<open>Texts of instants and durations (Go's time package)\<close>

text \<open>
  \<open>time.Time.Format(time.RFC3339)\<close> for UTC instants of four-digit years and \<open>time.Duration.String\<close>,
  as the standard library computes them.  An instant counts nanoseconds from 1 January of year 1.
\<close>

subsection \<open>The civil calendar\<close>

definition pad_left :: "nat \<Rightarrow> string \<Rightarrow> string" where
  "pad_left n s = replicate (n - length s) CHR ''0'' @ s"

definition two :: "int \<Rightarrow> string" where "two n = pad_left 2 (format_nat (nat n))"
definition four :: "int \<Rightarrow> string" where "four n = pad_left 4 (format_nat (nat n))"

text \<open>Year, month and day of the \<open>n\<close>-th day from 1 January of year 1; years are counted from March inside.\<close>

definition civil :: "int \<Rightarrow> int \<times> int \<times> int" where
  "civil n =
     (let z = n + 306; era = z div 146097; doe = z mod 146097;
          yoe = (doe - doe div 1460 + doe div 36524 - doe div 146096) div 365;
          doy = doe - (365 * yoe + yoe div 4 - yoe div 100);
          mp = (5 * doy + 2) div 153;
          d = doy - (153 * mp + 2) div 5 + 1;
          m = (if mp < 10 then mp + 3 else mp - 9)
      in (yoe + era * 400 + (if m \<le> 2 then 1 else 0), m, d))"

definition day_nanos :: int where "day_nanos = 86400 * 10 ^ 9"

definition format_seconds :: "time \<Rightarrow> string" where
  "format_seconds t =
     (let (y, m, d) = civil (t div day_nanos); s = (t mod day_nanos) div 10 ^ 9
      in four y @ ''-'' @ two m @ ''-'' @ two d @ ''T'' @ two (s div 3600) @ '':''
         @ two (s div 60 mod 60) @ '':'' @ two (s mod 60))"

definition format_rfc3339 :: "time \<Rightarrow> string" where
  "format_rfc3339 t = format_seconds t @ ''Z''"

lemma format_zero_time: "format_rfc3339 0 = ''0001-01-01T00:00:00Z''" by code_simp
lemma format_new_year: "format_rfc3339 (63902817296 * 10 ^ 9) = ''2025-12-31T22:34:56Z''" by code_simp
end
