(* ===== verification/Settings_Store.thy ===== *)
theory Settings_Store
  imports Store_System Credentials Go_Time
begin

section \<open>The settings table (store/settings.go)\<close>

text \<open>
  Settings are rows of a key-value table; \<open>SetupState\<close> joins it with the categories of the store and
  the operator row, which the transactions of this file change together.  A Go map given by the
  caller is an association list in the order its iteration takes.
\<close>

record setting_row =
  stKey :: string
  stValue :: string
  stUpdatedAt :: time

type_synonym settings_table = "setting_row list"

definition upsert_setting :: "string \<Rightarrow> string \<Rightarrow> time \<Rightarrow> settings_table \<Rightarrow> settings_table" where
  "upsert_setting k v now t =
     (if k \<in> stKey ` set t then sql_update (\<lambda>r. stKey r = k) (\<lambda>r. r\<lparr>stValue := v, stUpdatedAt := now\<rparr>) t
      else t @ [\<lparr>stKey = k, stValue = v, stUpdatedAt = now\<rparr>])"

definition setting_map :: "settings_table \<Rightarrow> string \<Rightarrow> string option" where
  "setting_map t = map_of (map (\<lambda>r. (stKey r, stValue r)) t)"

definition ListSettings :: "faults \<Rightarrow> settings_table \<Rightarrow> store_err + (string \<Rightarrow> string option)" where
  "ListSettings flt t = stmt flt ''list settings'' (Inr (setting_map t))"

definition upsert_settings :: "(string \<times> string) list \<Rightarrow> time \<Rightarrow> settings_table \<Rightarrow> settings_table" where
  "upsert_settings values now t = fold (\<lambda>(k, v). upsert_setting k v now) values t"

record SetupState =
  ssSettings :: settings_table
  ssDb :: Db
  ssOperator :: "operator_row option"

subsection \<open>Replacing settings and categories\<close>

text \<open>The category rows of one transaction; the first rejected one ends it.\<close>

definition category_params :: "Category \<Rightarrow> category_row" where
  "category_params c =
     \<lparr>g_name = catName c, g_cloud_path = catCloudPath c, g_save_path = catSavePath c,
      g_enabled = (if catEnabled c then 1 else 0), g_created_at = catCreatedAt c, g_updated_at = catUpdatedAt c\<rparr>"

definition put_category :: "faults \<Rightarrow> Category \<Rightarrow> unit tx" where
  "put_category flt c =
     tx_bind (tx_catch (tx_exec flt ''replace settings category'' (upsert_category (category_params c)))
               (\<lambda>e. if destinationConstraint e then ErrDestinationConflict else wrap ''replace settings category'' e))
       (\<lambda>_. tx_return ())"

definition ReplaceSettingsAndCategories :: "faults \<Rightarrow> (string \<times> string) list \<Rightarrow> Category list \<Rightarrow> time \<Rightarrow>
    SetupState \<Rightarrow> (store_err + unit) \<times> SetupState" where
  "ReplaceSettingsAndCategories flt values cats now s =
     (if time_is_zero now then (Inl (ErrText ''settings update time is required''), s)
      else if list_ex (\<lambda>c. validateCategory c \<noteq> None) cats then (Inl (ErrText ''replace settings category''), s)
      else if flt ''begin settings replace'' then (Inl (ErrDriver ''begin settings replace''), s)
      else if values \<noteq> [] \<and> flt ''replace settings'' then (Inl (ErrDriver ''replace settings''), s)
      else case tx_each (put_category flt) cats (ssDb s) of
          Inl e \<Rightarrow> (Inl e, s)
        | Inr (_, db') \<Rightarrow>
            if flt ''commit settings replace'' then (Inl (ErrDriver ''commit settings replace''), s)
            else (Inr (), s\<lparr>ssSettings := upsert_settings values now (ssSettings s), ssDb := db'\<rparr>))"

definition ReplaceSettings :: "faults \<Rightarrow> (string \<times> string) list \<Rightarrow> time \<Rightarrow> SetupState \<Rightarrow>
    (store_err + unit) \<times> SetupState" where
  "ReplaceSettings flt values now = ReplaceSettingsAndCategories flt values [] now"

subsection \<open>The qBittorrent preferences\<close>

definition qbt_preferences :: "string option \<Rightarrow> bool option \<Rightarrow> (string \<times> string) list" where
  "qbt_preferences trackers enabled =
     (case trackers of None \<Rightarrow> [] | Some t \<Rightarrow> [(''qbt.add_trackers'', t)]) @
     (case enabled of None \<Rightarrow> [] | Some b \<Rightarrow> [(''qbt.add_trackers_enabled'', if b then ''true'' else ''false'')])"

definition UpdateQBTPreferences :: "faults \<Rightarrow> string option \<Rightarrow> bool option \<Rightarrow> time \<Rightarrow> settings_table \<Rightarrow>
    (store_err + unit) \<times> settings_table" where
  "UpdateQBTPreferences flt trackers enabled now t =
     (if time_is_zero now \<or> (trackers = None \<and> enabled = None)
      then (Inl (ErrText ''qbt preference update is invalid''), t)
      else if flt ''begin preferences'' then (Inl (ErrDriver ''begin preferences''), t)
      else if trackers \<noteq> None \<and> flt ''upsert trackers'' then (Inl (ErrDriver ''upsert trackers''), t)
      else if enabled \<noteq> None \<and> flt ''upsert enabled'' then (Inl (ErrDriver ''upsert enabled''), t)
      else if flt ''commit preferences'' then (Inl (ErrDriver ''commit preferences''), t)
      else (Inr (), upsert_settings (qbt_preferences trackers enabled) now t))"

subsection \<open>The end of the set-up\<close>

definition KeySetupCompletedAt :: string where "KeySetupCompletedAt = ''setup.completed_at''"

definition ErrSetupCompleted :: store_err where "ErrSetupCompleted = ErrText ''setup already completed''"

definition CompleteSetup :: "faults \<Rightarrow> string \<Rightarrow> (string \<times> string) list \<Rightarrow> time \<Rightarrow> SetupState \<Rightarrow>
    (store_err + unit) \<times> SetupState" where
  "CompleteSetup flt passwordHash values now s =
     (if passwordHash = [] then (Inl (ErrText ''operator password hash is empty''), s)
      else if time_is_zero now then (Inl (ErrText ''setup completion time is required''), s)
      else if flt ''begin setup completion'' then (Inl (ErrDriver ''begin setup completion''), s)
      else if flt ''read operator password'' then (Inl (ErrDriver ''read operator password''), s)
      else if ssOperator s \<noteq> None then (Inl ErrSetupCompleted, s)
      else if flt ''read settings'' then (Inl (ErrDriver ''read settings''), s)
      else if KeySetupCompletedAt \<in> stKey ` set (ssSettings s) then (Inl ErrSetupCompleted, s)
      else if flt ''set operator password'' then (Inl (ErrDriver ''set operator password''), s)
      else if values \<noteq> [] \<and> flt ''upsert setup setting'' then (Inl (ErrDriver ''upsert setup setting''), s)
      else if flt ''record setup completion'' then (Inl (ErrDriver ''record setup completion''), s)
      else if flt ''commit setup completion'' then (Inl (ErrDriver ''commit setup completion''), s)
      else (Inr (), s\<lparr>ssOperator := Some \<lparr>op_password_hash = passwordHash, op_updated_at = now\<rparr>,
              ssSettings := upsert_setting KeySetupCompletedAt (format_rfc3339 now) now
                              (upsert_settings values now (ssSettings s))\<rparr>))"

subsection \<open>What a settings table says\<close>

lemma upsert_setting_keys: "stKey ` set (upsert_setting k v now t) = insert k (stKey ` set t)"
proof -
  have "stKey ` set (sql_update (\<lambda>r. stKey r = k) (\<lambda>r. r\<lparr>stValue := v, stUpdatedAt := now\<rparr>) t) = stKey ` set t"
    using sql_update_keys [of stKey "\<lambda>r. r\<lparr>stValue := v, stUpdatedAt := now\<rparr>" "\<lambda>r. stKey r = k" t]
    by (metis list.set_map setting_row.select_convs(1) setting_row.surjective setting_row.update_convs(2,3))
  then show ?thesis by (auto simp: upsert_setting_def)
qed

lemma distinct_upsert_setting:
  "distinct (map stKey t) \<Longrightarrow> distinct (map stKey (upsert_setting k v now t))"
  by (auto simp: upsert_setting_def sql_update_keys)

lemma setting_map_upsert [simp]: "setting_map (upsert_setting k v now t) = (setting_map t)(k \<mapsto> v)"
proof (induction t)
  case Nil
  then show ?case by (simp add: upsert_setting_def setting_map_def)
next
  case (Cons r t)
  show ?case
  proof (cases "stKey r = k")
    case True
    have "setting_map (sql_update (\<lambda>r. stKey r = k) (\<lambda>r. r\<lparr>stValue := v, stUpdatedAt := now\<rparr>) t) x = setting_map t x"
      if "x \<noteq> k" for x
      using that by (induction t) (auto simp: setting_map_def sql_update_Cons)
    with True show ?thesis by (auto simp: upsert_setting_def setting_map_def sql_update_Cons fun_eq_iff)
  next
    case False
    with Cons show ?thesis
      by (auto simp: upsert_setting_def setting_map_def sql_update_Cons fun_eq_iff split: if_splits)
  qed
qed

lemma setting_map_upserts: "setting_map (upsert_settings values now t) = setting_map t ++ map_of (rev values)"
proof (induction "values" arbitrary: t)
  case Nil
  then show ?case by (simp add: upsert_settings_def)
next
  case (Cons kv "values")
  then show ?case by (cases kv) (simp add: upsert_settings_def map_add_def fun_eq_iff split: option.splits)
qed

lemma distinct_upsert_settings:
  "distinct (map stKey t) \<Longrightarrow> distinct (map stKey (upsert_settings values now t))"
  unfolding upsert_settings_def
  by (induction "values" arbitrary: t) (auto simp: distinct_upsert_setting)

text \<open>The iteration order of the caller's map does not matter.\<close>

lemma upsert_settings_order:
  assumes "distinct (map fst values)" and "set values = set values'" and "distinct (map fst values')"
  shows "setting_map (upsert_settings values now t) = setting_map (upsert_settings values' now t)"
  using assms by (metis setting_map_upserts distinct_rev map_of_eqI map_of_inject_set rev_map set_rev)

text \<open>A failing transaction changes nothing; set-up completes at most once.\<close>

lemma replace_atomic:
  "fst (ReplaceSettingsAndCategories flt values cats now s) = Inl e \<Longrightarrow>
   snd (ReplaceSettingsAndCategories flt values cats now s) = s"
  by (auto simp: ReplaceSettingsAndCategories_def split: sum.splits if_splits)

lemma setup_completes_once:
  assumes "fst (CompleteSetup flt h values now s) = Inr ()"
    and s': "s' = snd (CompleteSetup flt h values now s)"
    and later: "ssOperator s'' = ssOperator s' \<or> stKey ` set (ssSettings s') \<subseteq> stKey ` set (ssSettings s'')"
  shows "fst (CompleteSetup flt' h' values' now' s'') \<noteq> Inr () \<and> snd (CompleteSetup flt' h' values' now' s'') = s''"
proof -
  have "ssOperator s' \<noteq> None" "KeySetupCompletedAt \<in> stKey ` set (ssSettings s')"
    using assms(1) s' by (auto simp: CompleteSetup_def upsert_setting_keys split: if_splits)
  with later have "ssOperator s'' \<noteq> None \<or> KeySetupCompletedAt \<in> stKey ` set (ssSettings s'')" by auto
  then show ?thesis by (auto simp: CompleteSetup_def ErrSetupCompleted_def)
qed

end
