(* ===== verification/Http_Types.thy ===== *)
theory Http_Types
  imports Domain_Projection
begin

section \<open>Bodies of the qBittorrent API (httpapi/types.go)\<close>

text \<open>
  The structures that the handlers encode, one record each, and JSON values for the rest.  A value of
  type \<open>any\<close> that is \<open>nil\<close> or a Boolean is an optional Boolean.
\<close>

datatype json = JNull | JBool bool | JInt int | JFloat float64 | JText string | JList "json list"
  | JObject "(string \<times> json) list"

record categoryView =
  cvName :: string
  cvSavePath :: string
  cvDownloadPath :: string
  cvDownloadPathEnabled :: bool

record torrentInfo =
  tiAddedOn :: int
  tiAmountLeft :: int
  tiAutoTMM :: bool
  tiAvailability :: float64
  tiCategory :: string
  tiCompleted :: int
  tiCompletionOn :: int
  tiContentPath :: string
  tiDLSpeed :: int
  tiDownloadLimit :: int
  tiDownloadPath :: string
  tiDownloaded :: int
  tiDownloadedSession :: int
  tiETA :: int
  tiFLPiecePrio :: bool
  tiForceStart :: bool
  tiHash :: string
  tiInfohashV1 :: string
  tiInfohashV2 :: string
  tiInactiveSeedingTimeLimit :: int
  tiLastActivity :: int
  tiMagnetURI :: string
  tiMaxRatio :: float64
  tiMaxSeedingTime :: int
  tiName :: string
  tiNameLo :: string
  tiNumComplete :: int
  tiNumIncomplete :: int
  tiNumLeechs :: int
  tiNumSeeds :: int
  tiPopularity :: float64
  tiPriority :: int
  tiPrivate :: "bool option"
  tiProgress :: float64
  tiRatio :: float64
  tiRatioLimit :: float64
  tiSavePath :: string
  tiSeedingTime :: int
  tiSeedingTimeLimit :: int
  tiSeenComplete :: int
  tiSeqDL :: bool
  tiSize :: int
  tiState :: string
  tiSuperSeeding :: bool
  tiTags :: string
  tiTimeActive :: int
  tiTotalSize :: int
  tiTracker :: string
  tiTrackersCount :: int
  tiUploadLimit :: int
  tiUploaded :: int
  tiUploadedSession :: int
  tiUPSpeed :: int

record torrentProperties =
  tpHash :: string
  tpName :: string
  tpSavePath :: string
  tpDownloadPath :: string
  tpComment :: string
  tpCreatedBy :: string
  tpCreationDate :: int
  tpAdditionDate :: int
  tpCompletionDate :: int
  tpLastSeen :: int
  tpTotalSize :: int
  tpPieceSize :: int
  tpPieceCount :: int
  tpPiecesHave :: int
  tpSeedingTime :: int
  tpTimeElapsed :: int
  tpETA :: int
  tpConnectCount :: int
  tpConnectLimit :: int
  tpDownloaded :: int
  tpDownloadedSession :: int
  tpUploaded :: int
  tpUploadedSession :: int
  tpDownloadSpeed :: int
  tpDownloadSpeedAvg :: int
  tpUploadSpeed :: int
  tpUploadSpeedAvg :: int
  tpDownloadLimit :: int
  tpUploadLimit :: int
  tpWasted :: int
  tpSeeds :: int
  tpSeedsTotal :: int
  tpPeers :: int
  tpPeersTotal :: int
  tpShareRatio :: float64
  tpPopularity :: float64
  tpReannounce :: int
  tpPrivate :: "bool option"
  tpIsPrivate :: bool
  tpHasMetadata :: bool

record torrentFile =
  tfIndex :: int
  tfName :: string
  tfSize :: int
  tfProgress :: float64
  tfPriority :: int
  tfAvailability :: float64
  tfPieceRange :: "int \<times> int"
  tfIsSeed :: "bool option"

text \<open>The zero value of \<open>torrentInfo\<close>.\<close>

definition zero_info :: torrentInfo where
  "zero_info = \<lparr>tiAddedOn = 0, tiAmountLeft = 0, tiAutoTMM = False, tiAvailability = Fin 0, tiCategory = [],
     tiCompleted = 0, tiCompletionOn = 0, tiContentPath = [], tiDLSpeed = 0, tiDownloadLimit = 0,
     tiDownloadPath = [], tiDownloaded = 0, tiDownloadedSession = 0, tiETA = 0,
     tiFLPiecePrio = False, tiForceStart = False, tiHash = [], tiInfohashV1 = [], tiInfohashV2 = [],
     tiInactiveSeedingTimeLimit = 0, tiLastActivity = 0, tiMagnetURI = [], tiMaxRatio = Fin 0,
     tiMaxSeedingTime = 0, tiName = [], tiNameLo = [], tiNumComplete = 0, tiNumIncomplete = 0,
     tiNumLeechs = 0, tiNumSeeds = 0, tiPopularity = Fin 0, tiPriority = 0, tiPrivate = None,
     tiProgress = Fin 0, tiRatio = Fin 0, tiRatioLimit = Fin 0, tiSavePath = [], tiSeedingTime = 0,
     tiSeedingTimeLimit = 0, tiSeenComplete = 0, tiSeqDL = False, tiSize = 0, tiState = [],
     tiSuperSeeding = False, tiTags = [], tiTimeActive = 0, tiTotalSize = 0, tiTracker = [],
     tiTrackersCount = 0, tiUploadLimit = 0, tiUploaded = 0, tiUploadedSession = 0, tiUPSpeed = 0\<rparr>"

end
