(* ===== verification/Go_Net.thy ===== *)
theory Go_Net
  imports Go_Text
begin

section \<open>Host and port (Go's net package)\<close>

text \<open>\<open>net.SplitHostPort\<close>: the host, bracketed where it has colons, and what follows the last colon.\<close>

fun index_of :: "char \<Rightarrow> string \<Rightarrow> nat option" where
  "index_of c [] = None"
| "index_of c (x # xs) = (if x = c then Some 0 else map_option Suc (index_of c xs))"

fun last_index :: "char \<Rightarrow> string \<Rightarrow> nat option" where
  "last_index c [] = None"
| "last_index c (x # xs) =
     (case last_index c xs of Some i \<Rightarrow> Some (Suc i) | None \<Rightarrow> if x = c then Some 0 else None)"

definition SplitHostPort :: "string \<Rightarrow> (string \<times> string) option" where
  "SplitHostPort hostport =
     (case last_index CHR '':'' hostport of
        None \<Rightarrow> None
      | Some i \<Rightarrow>
          (let port = drop (Suc i) hostport
           in if hostport ! 0 = CHR ''['' then
                (case index_of CHR '']'' hostport of
                   None \<Rightarrow> None
                 | Some close \<Rightarrow>
                     if close + 1 \<noteq> i \<or> CHR ''['' \<in> set (drop 1 hostport) \<or> CHR '']'' \<in> set (drop (close + 1) hostport)
                     then None else Some (drop 1 (take close hostport), port))
              else if CHR '':'' \<in> set (take i hostport) \<or> CHR ''['' \<in> set hostport \<or> CHR '']'' \<in> set hostport
              then None else Some (take i hostport, port)))"

lemma last_index_append:
  "last_index c (xs @ ys) = (case last_index c ys of Some i \<Rightarrow> Some (length xs + i) | None \<Rightarrow> last_index c xs)"
  by (induction xs) (auto split: option.splits)

lemma last_index_None: "last_index c xs = None \<longleftrightarrow> c \<notin> set xs"
proof (induction xs)
  case (Cons x xs)
  then show ?case by (cases "last_index c xs") auto
qed simp

lemma last_index_Some: "last_index c xs = Some i \<Longrightarrow> i < length xs \<and> xs ! i = c \<and> c \<notin> set (drop (Suc i) xs)"
  by (induction xs arbitrary: i) (auto simp: last_index_None split: option.splits if_splits)

text \<open>An address without brackets is put together from its parts and split again.\<close>

lemma split_join_host_port:
  assumes "set host \<inter> {CHR '':'', CHR ''['', CHR '']''} = {}" and "set port \<inter> {CHR '':'', CHR ''['', CHR '']''} = {}"
  shows "SplitHostPort (host @ '':'' @ port) = Some (host, port)"
proof -
  have "last_index CHR '':'' (host @ '':'' @ port) = Some (length host)"
    using assms by (simp add: last_index_append last_index_None [THEN iffD2])
  moreover have "(host @ '':'' @ port) ! 0 \<noteq> CHR ''[''"
    using assms by (cases host) auto
  ultimately show ?thesis using assms by (auto simp: SplitHostPort_def Let_def)
qed

lemma split_host_port_sound:
  assumes "SplitHostPort s = Some (host, port)" and "s ! 0 \<noteq> CHR ''[''"
  shows "s = host @ '':'' @ port \<and> CHR '':'' \<notin> set host"
proof -
  obtain i where i: "last_index CHR '':'' s = Some i" and h: "host = take i s" "port = drop (Suc i) s"
    and c: "CHR '':'' \<notin> set (take i s)"
    using assms by (auto simp: SplitHostPort_def Let_def split: option.splits if_splits)
  from last_index_Some [OF i] have "i < length s" "s ! i = CHR '':''" by auto
  then have "s = take i s @ '':'' @ drop (Suc i) s" using id_take_nth_drop [of i s] by simp
  with h c show ?thesis by simp
qed

end
