(* ===== verification/Log_Redaction.thy ===== *)
theory Log_Redaction
  imports Text_Facts
begin

section \<open>Redaction of log records (logging/logging.go)\<close>

text \<open>
  What a log record may carry: texts are made valid UTF-8, freed of control characters and cut to a
  bound, values under a sensitive or an unknown name are replaced, at every depth.
\<close>

subsection \<open>Clean texts\<close>

definition replacement :: string where "replacement = [CHR 0xEF, CHR 0xBF, CHR 0xBD]"

text \<open>\<open>strings.ToValidUTF8\<close>: one replacement for each run of ill-formed bytes.\<close>

function to_valid_utf8 :: "bool \<Rightarrow> string \<Rightarrow> string" where
  "to_valid_utf8 in_run s =
     (if s = [] then []
      else if rune_len s = 0 then (if in_run then [] else replacement) @ to_valid_utf8 True (tl s)
      else take (rune_len s) s @ to_valid_utf8 False (drop (rune_len s) s))"
  by pat_completeness auto
termination by (relation "measure (length \<circ> snd)") auto

text \<open>\<open>strings.Map\<close> with a space for each control character.\<close>

function blank_controls :: "string \<Rightarrow> string" where
  "blank_controls s =
     (if s = [] then []
      else if rune_len s = 0 then replacement @ blank_controls (tl s)
      else (if is_control (fst (decode_rune s)) then '' '' else take (rune_len s) s)
           @ blank_controls (drop (rune_len s) s))"
  by pat_completeness auto
termination by (relation "measure length") auto

declare to_valid_utf8.simps [simp del] blank_controls.simps [simp del]

definition cleanString :: "string \<Rightarrow> nat \<Rightarrow> string" where
  "cleanString s bound =
     (let v = blank_controls (if utf8_valid s then s else to_valid_utf8 False s)
      in if bound < length v then cut_to_valid (take bound v) else v)"

definition maxString :: nat where "maxString = 512"

text \<open>\<open>SanitizeFilename\<close>: the last element of the path, whichever slashes it uses.\<close>

definition SanitizeFilename :: "string \<Rightarrow> string" where
  "SanitizeFilename name =
     cleanString (path_base (map (\<lambda>c. if c = CHR 0x5C then CHR ''/'' else c) name)) maxString"

subsection \<open>Values\<close>

datatype log_value = LText string | LBytes string | LPlain string | LList "log_value list"
  | LMap "(string \<times> log_value) list"

abbreviation omitted :: log_value where "omitted \<equiv> LText ''[OMITTED]''"

definition safeNames :: "string list" where
  "safeNames =
     [''method'', ''path'', ''status'', ''duration_ms'', ''response_bytes'', ''client_ip'',
      ''user_agent'', ''content_type'', ''content_length'', ''host'', ''auth_mode'', ''auth_surface'',
      ''auth_attempt'', ''auth_principal'', ''reason'', ''internal_reason'', ''error'', ''msg'',
      ''source_kind'', ''infohash'', ''name'', ''filename'', ''size'', ''category'', ''raw_category'',
      ''savepath'', ''resolved_savepath'', ''stopped'', ''paused'', ''autoTMM'', ''url_fingerprint'',
      ''url_host'', ''preview'', ''request'', ''response'', ''details'', ''truncated'', ''hash'',
      ''state'', ''operation'', ''attempt'', ''latency'', ''result'', ''problem'', ''failure_kind'',
      ''fs_operation'', ''errno'', ''errno_text'', ''path_role'', ''row_version'']"

definition sensitiveNames :: "string list" where
  "sensitiveNames =
     [''authorization'', ''cookie'', ''password'', ''token'', ''secret'', ''csrf'', ''sid'', ''api_key'']"

definition sensitive :: "string \<Rightarrow> bool" where
  "sensitive key \<longleftrightarrow>
     (let k = to_lower (map (\<lambda>c. if c = CHR ''-'' then CHR ''_'' else c) key)
      in list_ex (str_contains k) sensitiveNames)"

definition safeAttr :: "string \<Rightarrow> log_value \<Rightarrow> log_value" where
  "safeAttr key v =
     (if sensitive key then omitted
      else if key \<notin> set safeNames then omitted
      else case v of LText s \<Rightarrow> LText (cleanString s maxString) | LBytes s \<Rightarrow> omitted | _ \<Rightarrow> v)"

fun sanitizeAny :: "string \<Rightarrow> log_value \<Rightarrow> log_value" where
  "sanitizeAny key (LMap kvs) =
     (if sensitive key then omitted else LMap (map (\<lambda>(k, v). (k, sanitizeAny k v)) kvs))"
| "sanitizeAny key (LList vs) = (if sensitive key then omitted else LList (map (sanitizeAny key) vs))"
| "sanitizeAny key (LText s) = (if sensitive key then omitted else safeAttr key (LText s))"
| "sanitizeAny key (LBytes s) = (if sensitive key then omitted else safeAttr key (LBytes s))"
| "sanitizeAny key (LPlain s) = (if sensitive key then omitted else safeAttr key (LPlain s))"

subsection \<open>What a record can still say\<close>

definition clean_text :: "string \<Rightarrow> bool" where
  "clean_text s \<longleftrightarrow> utf8_valid s \<and> \<not> contains_control s \<and> length s \<le> maxString"

text \<open>
  A value that may stand under a name: nothing but the mark of omission under a sensitive name at any
  depth, and texts only under the listed names, clean and short.
\<close>

fun disclosed :: "string \<Rightarrow> log_value \<Rightarrow> bool" where
  "disclosed key (LMap kvs) = (\<not> sensitive key \<and> list_all (\<lambda>(k, v). disclosed k v) kvs)"
| "disclosed key (LList vs) = (\<not> sensitive key \<and> list_all (disclosed key) vs)"
| "disclosed key (LText s) = (s = ''[OMITTED]'' \<or> (\<not> sensitive key \<and> key \<in> set safeNames \<and> clean_text s))"
| "disclosed key (LBytes s) = False"
| "disclosed key (LPlain s) = (\<not> sensitive key \<and> key \<in> set safeNames)"

lemma valid_first_rune: "0 < rune_len s \<Longrightarrow> utf8_valid (take (rune_len s) s)"
proof -
  assume pos: "0 < rune_len s"
  then have ne: "s \<noteq> []" by (auto simp: rune_len_def)
  have "rune_len (take (rune_len s) s) = rune_len s" using pos by (simp add: rune_len_prefix)
  then show ?thesis using pos ne utf8_valid_step [of "take (rune_len s) s"] by (cases "take (rune_len s) s = []") auto
qed

lemma valid_replacement: "utf8_valid replacement" by code_simp

lemma valid_space: "utf8_valid '' ''" by code_simp

lemma to_valid_utf8_valid: "utf8_valid (to_valid_utf8 b s)"
proof (induction b s rule: to_valid_utf8.induct)
  case (1 b s)
  consider "s = []" | "s \<noteq> []" "rune_len s = 0" | "s \<noteq> []" "0 < rune_len s" by auto
  then show ?case
  proof cases
    case 1
    then show ?thesis by (subst to_valid_utf8.simps) simp
  next
    case 2
    with "1.IH"(1) show ?thesis by (simp add: to_valid_utf8.simps [of b s] runes_append valid_replacement)
  next
    case 3
    with "1.IH"(2) valid_first_rune [of s] show ?thesis by (simp add: to_valid_utf8.simps [of b s] runes_append)
  qed
qed

lemma runes_first: "0 < rune_len s \<Longrightarrow> runes (take (rune_len s) s) = [fst (decode_rune s)]"
proof -
  assume pos: "0 < rune_len s"
  then have ne: "s \<noteq> []" by (auto simp: rune_len_def)
  have len: "rune_len (take (rune_len s) s) = rune_len s" using pos by (simp add: rune_len_prefix)
  then have "decode_rune (take (rune_len s) s) = decode_rune s"
    using pos ne len by (simp add: decode_rune_def Let_def)
  moreover have "snd (decode_rune s) = rune_len s" using pos ne by (simp add: decode_rune_def Let_def)
  moreover have "take (rune_len s) s \<noteq> []" using pos ne by simp
  ultimately show ?thesis using runes.simps [of "take (rune_len s) s"] by simp
qed

lemma replacement_rune: "runes replacement = [65533]"
proof -
  have "decode_rune replacement = (65533, 3)"
    by (simp add: replacement_def decode_rune_def rune_len_def lead_len_def tail_ok.simps second_ok_def is_cont_def Let_def)
  moreover have "drop 3 replacement = []" "replacement \<noteq> []" by (simp_all add: replacement_def)
  ultimately show ?thesis using runes.simps [of replacement] by simp
qed

lemma blank_controls_clean:
  "utf8_valid (blank_controls s) \<and> \<not> list_ex is_control (runes (blank_controls s))"
proof (induction s rule: blank_controls.induct)
  case (1 s)
  have sp: "runes '' '' = [32]" using ascii_text [of "'' ''"] by simp
  have nc: "\<not> is_control 65533" "\<not> is_control 32" by (simp_all add: is_control_def)
  have space: "utf8_valid ('' '' @ t) = utf8_valid t" "runes ('' '' @ t) = 32 # runes t" for t
    using runes_append [OF valid_space] sp by auto
  consider "s = []" | "s \<noteq> []" "rune_len s = 0" | "s \<noteq> []" "0 < rune_len s" by auto
  then show ?case
  proof cases
    case 1
    then have "blank_controls s = []" by (subst blank_controls.simps) simp
    then show ?thesis by simp
  next
    case 2
    with "1.IH"(1) nc replacement_rune show ?thesis by (simp add: blank_controls.simps [of s] runes_append valid_replacement)
  next
    case 3
    with "1.IH"(2) nc space valid_first_rune [of s] runes_first [of s] show ?thesis
      by (auto simp: blank_controls.simps [of s] runes_append)
  qed
qed

lemma runes_prefix: "utf8_valid t \<Longrightarrow> prefix t s \<Longrightarrow> set (runes t) \<subseteq> set (runes s)"
  by (auto simp: prefix_def runes_append)

lemma cleanString_clean:
  "utf8_valid (cleanString s n) \<and> \<not> contains_control (cleanString s n) \<and> length (cleanString s n) \<le> n"
proof -
  define v where "v = blank_controls (if utf8_valid s then s else to_valid_utf8 False s)"
  have v: "utf8_valid v" "\<not> list_ex is_control (runes v)" using blank_controls_clean by (simp_all add: v_def)
  let ?c = "cut_to_valid (take n v)"
  have p: "prefix ?c (take n v)" by (rule cut_to_valid_prefix)
  then have len: "length ?c \<le> n" using prefix_length_le by fastforce
  have "prefix ?c v" using p take_is_prefix prefix_order.trans by blast
  then have "set (runes ?c) \<subseteq> set (runes v)" using cut_to_valid_valid runes_prefix by blast
  with v have "\<not> list_ex is_control (runes ?c)" by (auto simp: list_ex_iff)
  with v len show ?thesis
    by (auto simp: cleanString_def v_def [symmetric] Let_def contains_control_def cut_to_valid_valid)
qed

lemma sanitized_discloses: "disclosed key (sanitizeAny key v)"
proof (induction v arbitrary: key)
  case (LMap kvs)
  then show ?case by (fastforce simp: list_all_iff)
qed (auto simp: list_all_iff safeAttr_def clean_text_def cleanString_clean)

end
