(* ===== verification/Http_Base.thy ===== *)
theory Http_Base
  imports Store_System Submission Fsafe_Plan Authentication Settings_Store Http_Types Go_Net Log_Redaction
begin

section \<open>Requests, replies and the actions of a handler (internal/httpapi)\<close>

text \<open>
  A handler of the qBittorrent API reads the values of a request, calls the repository, the file system
  and the reconciler's waker, and replies.  \<open>Api\<close> is what the calls act on; a handler is an action on
  it that may reply early.  \<open>Backend\<close> is what the program does not decide: the driver's faults at each
  call, what other clients do to the store before it, the disk's faults, the clock, and the libraries
  that are not modelled: \<open>beParseObject\<close> decodes a JSON object, \<open>beSchemeHost\<close> is the scheme and host
  that \<open>url.ParseRequestURI\<close> finds, \<open>beFetch\<close> the answer to a download of a torrent file.
\<close>

subsection \<open>Requests and replies\<close>

type_synonym form = "string \<Rightarrow> string list option"

text \<open>
  \<open>hrQuery\<close> is \<open>URL.Query()\<close>; \<open>hrForm\<close> is the form of the body when its media type and its size are
  accepted by \<open>parseURLEncodedForm\<close>; \<open>hrPostForm\<close> is what \<open>ParseForm\<close> alone finds.
\<close>

record ApiRequest =
  hrMethod :: string
  hrPath :: string
  hrQuery :: form
  hrForm :: "form option"
  hrPostForm :: "form option"

definition form_values :: "form \<Rightarrow> string \<Rightarrow> string list" where
  "form_values f name = (case f name of None \<Rightarrow> [] | Some vs \<Rightarrow> vs)"

text \<open>
  A text with its status, an empty 200, a JSON body before encoding (a map lists its members in the
  order of the keys, as the encoder does), or a panic of the handler, which net/http recovers from by
  closing the connection.
\<close>

datatype reply =
    Reply nat string | OkReply | JsonReply json | TorrentList "torrentInfo list" | FileList "torrentFile list"
  | PropertiesReply torrentProperties | CategoryMap "(string \<times> categoryView) list"
  | MainData int "(string \<times> torrentInfo) list" "(string \<times> categoryView) list" "string list" | Panicked

definition plain :: "nat \<Rightarrow> string \<Rightarrow> reply" where "plain status body = Reply status body"

definition badRequest :: reply where "badRequest = plain 400 (''Bad Request'' @ [CHR 0x0A])"
definition forbidden :: reply where "forbidden = plain 403 (''Forbidden'' @ [CHR 0x0A])"
definition notFound :: reply where "notFound = plain 404 (''Not Found'' @ [CHR 0x0A])"
definition conflict_reply :: reply where "conflict_reply = plain 409 (''Conflict'' @ [CHR 0x0A])"
definition internalError :: reply where "internalError = plain 500 (''Internal Server Error'' @ [CHR 0x0A])"

lemmas reply_defs = plain_def badRequest_def forbidden_def notFound_def conflict_reply_def internalError_def

definition repositoryError :: "store_err \<Rightarrow> reply" where
  "repositoryError e =
     (if e = ErrNotFound then notFound else if e = ErrInvalidTransition then conflict_reply else internalError)"

subsection \<open>The state and the outside of a request\<close>

record Api =
  apDb :: Db
  apSettings :: settings_table
  apFs :: fsys
  apCalls :: nat
  apWakes :: nat

record Backend =
  beEnv :: "nat \<Rightarrow> Env"
  beOthers :: "nat \<Rightarrow> Db \<Rightarrow> Db"
  beDisk :: "nat \<Rightarrow> Disk"
  beNow :: "nat \<Rightarrow> time"
  beGoos :: string
  beOrder :: "string list \<Rightarrow> string list"
  beIsIP :: "string \<Rightarrow> bool"
  beFloatOob :: "float64 \<Rightarrow> int"
  beLower :: "string \<Rightarrow> string"
  beCloudRoot :: string
  beLocalRoot :: string
  beFsRoot :: string
  beSubmit :: "nat \<Rightarrow> SubmitWorld"
  beSubmitConfig :: SubmitConfig
  beParseObject :: "string \<Rightarrow> (string \<Rightarrow> json option) option"
  beSchemeHost :: "string \<Rightarrow> (string \<times> string) option"
  beFetch :: "nat \<Rightarrow> string \<Rightarrow> string \<Rightarrow> string option"

type_synonym 'a act = "Api \<Rightarrow> (reply + 'a) \<times> Api"

definition act_return :: "'a \<Rightarrow> 'a act" where "act_return x s = (Inr x, s)"
definition respond :: "reply \<Rightarrow> 'a act" where "respond r s = (Inl r, s)"

definition act_bind :: "'a act \<Rightarrow> ('a \<Rightarrow> 'b act) \<Rightarrow> 'b act" where
  "act_bind m f s = (case m s of (Inl r, s') \<Rightarrow> (Inl r, s') | (Inr x, s') \<Rightarrow> f x s')"

definition check :: "bool \<Rightarrow> reply \<Rightarrow> unit act" where
  "check c r = (if c then act_return () else respond r)"

definition need :: "'a option \<Rightarrow> reply \<Rightarrow> 'a act" where
  "need x r = (case x of None \<Rightarrow> respond r | Some v \<Rightarrow> act_return v)"

text \<open>\<open>if err != nil { h(err); return }\<close>\<close>

definition or_else :: "('e + 'a) act \<Rightarrow> ('e \<Rightarrow> reply) \<Rightarrow> 'a act" where
  "or_else m h = act_bind m (\<lambda>x. case x of Inl e \<Rightarrow> respond (h e) | Inr v \<Rightarrow> act_return v)"

text \<open>A call of the repository: other clients come first, then the operation with this call's driver.\<close>

definition repo_call :: "Backend \<Rightarrow> (Env \<Rightarrow> Db \<Rightarrow> (store_err + 'a) \<times> Db) \<Rightarrow> (store_err + 'a) act" where
  "repo_call be f s =
     (let n = apCalls s; out = f (beEnv be n) (beOthers be n (apDb s))
      in (Inr (fst out), s\<lparr>apDb := snd out, apCalls := Suc n\<rparr>))"

definition repo_read :: "Backend \<Rightarrow> (Env \<Rightarrow> Db \<Rightarrow> store_err + 'a) \<Rightarrow> (store_err + 'a) act" where
  "repo_read be f = repo_call be (\<lambda>env db. (f env db, db))"

definition fs_read :: "Backend \<Rightarrow> (Disk \<Rightarrow> fsys \<Rightarrow> fs_err + 'a) \<Rightarrow> (fs_err + 'a) act" where
  "fs_read be f s = (Inr (f (beDisk be (apCalls s)) (apFs s)), s\<lparr>apCalls := Suc (apCalls s)\<rparr>)"

definition fs_call :: "Backend \<Rightarrow> (Disk \<Rightarrow> 'a fsm) \<Rightarrow> (fs_err + 'a) act" where
  "fs_call be f s =
     (let out = f (beDisk be (apCalls s)) (apFs s)
      in (Inr (fst out), s\<lparr>apFs := snd out, apCalls := Suc (apCalls s)\<rparr>))"

definition now_at :: "Backend \<Rightarrow> time act" where
  "now_at be s = (Inr (beNow be (apCalls s)), s)"

definition calls_at :: "nat act" where
  "calls_at s = (Inr (apCalls s), s)"

definition wake :: "unit act" where
  "wake s = (Inr (), s\<lparr>apWakes := Suc (apWakes s)\<rparr>)"

definition wake_if :: "bool \<Rightarrow> unit act" where
  "wake_if c = (if c then wake else act_return ())"

text \<open>Loops over the selected downloads; \<open>act_any\<close> also tells whether one iteration had an effect.\<close>

fun act_each :: "('x \<Rightarrow> unit act) \<Rightarrow> 'x list \<Rightarrow> unit act" where
  "act_each f [] = act_return ()"
| "act_each f (x # xs) = act_bind (f x) (\<lambda>_. act_each f xs)"

fun act_any :: "('x \<Rightarrow> bool act) \<Rightarrow> 'x list \<Rightarrow> bool act" where
  "act_any f [] = act_return False"
| "act_any f (x # xs) = act_bind (f x) (\<lambda>c. act_bind (act_any f xs) (\<lambda>c'. act_return (c \<or> c')))"

definition finish :: "reply act \<Rightarrow> Api \<Rightarrow> reply \<times> Api" where
  "finish m s = (case m s of (Inl r, s') \<Rightarrow> (r, s') | (Inr r, s') \<Rightarrow> (r, s'))"

definition done_with :: "unit act \<Rightarrow> reply act" where
  "done_with m = act_bind m (\<lambda>_. act_return OkReply)"

lemmas act_defs = act_return_def respond_def act_bind_def check_def need_def or_else_def now_at_def calls_at_def
  wake_def wake_if_def done_with_def

subsection \<open>Values of a request\<close>

definition qbt_first :: "string list \<Rightarrow> string" where
  "qbt_first values = (case values of [v] \<Rightarrow> v | _ \<Rightarrow> [])"

definition one_of :: "form \<Rightarrow> string \<Rightarrow> string option" where
  "one_of f name = exactlyOne (form_values f name)"

definition parseURLEncodedForm :: "ApiRequest \<Rightarrow> form act" where
  "parseURLEncodedForm r = need (hrForm r) badRequest"

definition qbtParams :: "ApiRequest \<Rightarrow> form act" where
  "qbtParams r = (if hrMethod r = ''GET'' then act_return (hrQuery r) else parseURLEncodedForm r)"

definition readRequestValues :: "ApiRequest \<Rightarrow> string \<Rightarrow> string list option" where
  "readRequestValues r name =
     (if hrMethod r = ''POST'' then map_option (\<lambda>f. form_values f name) (hrPostForm r)
      else Some (form_values (hrQuery r) name))"

definition requestOne :: "ApiRequest \<Rightarrow> string \<Rightarrow> string option" where
  "requestOne r name =
     (case readRequestValues r name of
        Some [] \<Rightarrow> Some [] | Some [v] \<Rightarrow> Some v | _ \<Rightarrow> None)"

definition optionalBool :: "string list \<Rightarrow> bool \<times> bool" where
  "optionalBool values =
     (case values of
        [] \<Rightarrow> (False, True)
      | [v] \<Rightarrow> (let w = to_lower (trim_space v)
                in if w \<in> {[], ''false'', ''0''} then (False, True)
                   else if w \<in> {''true'', ''1''} then (True, True) else (False, False))
      | _ \<Rightarrow> (False, False))"

definition requiredBool :: "form \<Rightarrow> string \<Rightarrow> bool option" where
  "requiredBool f name =
     map_option (\<lambda>v. to_lower (trim_space v) \<in> {''true'', ''1''}) (one_of f name)"

definition lower_hex :: "char \<Rightarrow> bool" where
  "lower_hex c \<longleftrightarrow> (48 \<le> byte c \<and> byte c \<le> 57) \<or> (97 \<le> byte c \<and> byte c \<le> 102)"

definition canonicalHash :: "string \<Rightarrow> string option" where
  "canonicalHash raw =
     (let value = to_lower (trim_space raw)
      in if length value = 40 \<and> list_all lower_hex value then Some value else None)"

definition canonicalHashQuery :: "ApiRequest \<Rightarrow> string option" where
  "canonicalHashQuery r =
     (case readRequestValues r ''hash'' of Some [v] \<Rightarrow> canonicalHash v | _ \<Rightarrow> None)"

definition parseQBTInt :: "string \<Rightarrow> int" where
  "parseQBTInt v = (case Atoi v of None \<Rightarrow> 0 | Some n \<Rightarrow> n)"

definition hasTag :: "string \<Rightarrow> string \<Rightarrow> bool" where
  "hasTag joined wanted \<longleftrightarrow> wanted \<in> set (split_on CHR '','' joined)"

fun distinct_tags :: "string list \<Rightarrow> string list \<Rightarrow> string list option" where
  "distinct_tags seen [] = Some []"
| "distinct_tags seen (raw # rest) =
     (let part = trim_space raw
      in if part = [] then distinct_tags seen rest
         else if list_ex (\<lambda>r. r < 0x20 \<or> r = 0x7f) (runes part) then None
         else if part \<in> set seen then distinct_tags seen rest
         else map_option (Cons part) (distinct_tags (part # seen) rest))"

definition normalizeTags :: "string \<Rightarrow> bool \<Rightarrow> string option" where
  "normalizeTags raw required =
     (case distinct_tags [] (split_on CHR '','' raw) of
        None \<Rightarrow> None
      | Some result \<Rightarrow> if required \<and> result = [] then None else Some (join_with '','' result))"

definition api_safeRelativePath :: "string \<Rightarrow> bool" where
  "api_safeRelativePath v \<longleftrightarrow>
     v \<noteq> [] \<and> v \<noteq> ''.'' \<and> v \<noteq> ''..'' \<and> \<not> is_abs v \<and> path_clean v = v \<and> \<not> has_prefix v ''../''
     \<and> CHR 0x5C \<notin> set v \<and> CHR 0x00 \<notin> set v
     \<and> list_all (\<lambda>part. part \<noteq> ''.'' \<and> part \<noteq> ''..'' \<and> \<not> list_ex (\<lambda>r. r < 0x20 \<or> r = 0x7f) (runes part))
         (split_on CHR ''/'' v)"

text \<open>A clean absolute path given as the only value.\<close>

definition clean_abs :: "string \<Rightarrow> bool" where
  "clean_abs p \<longleftrightarrow> is_abs p \<and> path_clean p = p"

end
