(* ===== verification/Http_Torrents.thy ===== *)
theory Http_Torrents
  imports Http_Base Fsafe_Content
begin

section \<open>Listings (httpapi/torrents.go, sync.go)\<close>

text \<open>
  The read handlers: the torrent list with its filters, order and page, the properties and files of one
  torrent, the synthetic lists, and the synchronisation answers.
\<close>

subsection \<open>The projected entry\<close>

definition unixOrZero :: "time option \<Rightarrow> int" where
  "unixOrZero v = (case v of None \<Rightarrow> 0 | Some t \<Rightarrow> time_unix t)"

definition projectTorrentInfo :: "(string \<Rightarrow> string) \<Rightarrow> Download \<Rightarrow> Projection \<Rightarrow> bool \<Rightarrow> torrentInfo" where
  "projectTorrentInfo lower d p private =
     \<lparr>tiAddedOn = time_unix (dCreatedAt d), tiAmountLeft = pSize p - pCompleted p, tiAutoTMM = dAutoTMM d,
     tiAvailability = Fin (- 1), tiCategory = pCategory p, tiCompleted = pCompleted p,
     tiCompletionOn = unixOrZero (dCompletedAt d), tiContentPath = pContentPath p, tiDLSpeed = 0,
     tiDownloadLimit = - 1, tiDownloadPath = [], tiDownloaded = pCompleted p, tiDownloadedSession = 0,
     tiETA = pETA p, tiFLPiecePrio = False, tiForceStart = False, tiHash = pHash p, tiInfohashV1 = pHash p,
     tiInfohashV2 = [], tiInactiveSeedingTimeLimit = pInactiveSeedingTimeLimit p,
     tiLastActivity = pLastActivity p, tiMagnetURI = [], tiMaxRatio = pRatioLimit p,
     tiMaxSeedingTime = pSeedingTimeLimit p, tiName = pName p, tiNameLo = lower (pName p), tiNumComplete = 0,
     tiNumIncomplete = 0, tiNumLeechs = 0, tiNumSeeds = 0, tiPopularity = Fin (- 1), tiPriority = 0,
     tiPrivate = (if dPrivate d = None then None else Some private), tiProgress = pProgress p,
     tiRatio = pRatio p, tiRatioLimit = pRatioLimit p, tiSavePath = pSavePath p,
     tiSeedingTime = pSeedingTime p, tiSeedingTimeLimit = pSeedingTimeLimit p, tiSeenComplete = 0,
     tiSeqDL = False, tiSize = pSize p, tiState = pState p, tiSuperSeeding = False, tiTags = pTags p,
     tiTimeActive = 0, tiTotalSize = pSize p, tiTracker = [], tiTrackersCount = 0, tiUploadLimit = - 1,
     tiUploaded = 0, tiUploadedSession = 0, tiUPSpeed = 0\<rparr>"

subsection \<open>Order\<close>

datatype field_value = FNumber int | FText string | FFloat float64

fun field_less :: "field_value \<Rightarrow> field_value \<Rightarrow> bool" where
  "field_less (FNumber a) (FNumber b) = (a < b)"
| "field_less (FText a) (FText b) = (a < b)"
| "field_less (FFloat a) (FFloat b) = float_less a b"
| "field_less a b = False"

text \<open>The field that a name of the sort parameter compares; every other name compares nothing.\<close>

definition sort_fields :: "(string \<times> (torrentInfo \<Rightarrow> field_value)) list" where
  "sort_fields =
     [(''added_on'', FNumber \<circ> tiAddedOn), (''amount_left'', FNumber \<circ> tiAmountLeft),
      (''category'', FText \<circ> tiCategory), (''completed'', FNumber \<circ> tiCompleted),
      (''completion_on'', FNumber \<circ> tiCompletionOn), (''content_path'', FText \<circ> tiContentPath),
      (''dl_limit'', FNumber \<circ> tiDownloadLimit), (''dlspeed'', FNumber \<circ> tiDLSpeed),
      (''downloaded'', FNumber \<circ> tiDownloaded), (''eta'', FNumber \<circ> tiETA), (''hash'', FText \<circ> tiHash),
      (''last_activity'', FNumber \<circ> tiLastActivity), (''name'', FText \<circ> tiName),
      (''num_leechs'', FNumber \<circ> tiNumLeechs), (''num_seeds'', FNumber \<circ> tiNumSeeds),
      (''popularity'', FFloat \<circ> tiPopularity), (''progress'', FFloat \<circ> tiProgress),
      (''ratio'', FFloat \<circ> tiRatio), (''save_path'', FText \<circ> tiSavePath), (''size'', FNumber \<circ> tiSize),
      (''total_size'', FNumber \<circ> tiSize), (''state'', FText \<circ> tiState), (''tags'', FText \<circ> tiTags),
      (''time_active'', FNumber \<circ> tiTimeActive), (''up_limit'', FNumber \<circ> tiUploadLimit),
      (''uploaded'', FNumber \<circ> tiUploaded), (''upspeed'', FNumber \<circ> tiUPSpeed)]"

definition torrentInfoLess :: "torrentInfo \<Rightarrow> torrentInfo \<Rightarrow> string \<Rightarrow> bool" where
  "torrentInfoLess a b field =
     (case map_of sort_fields field of
        None \<Rightarrow> tiHash a < tiHash b
      | Some get \<Rightarrow>
          if field_less (get a) (get b) then True
          else if field_less (get b) (get a) then False
          else tiHash a < tiHash b)"

definition sort_names :: "string list" where
  "sort_names =
     [''added_on'', ''amount_left'', ''category'', ''completed'', ''completion_on'', ''content_path'',
      ''dl_limit'', ''dlspeed'', ''downloaded'', ''eta'', ''hash'', ''last_activity'', ''name'',
      ''num_leechs'', ''num_seeds'', ''popularity'', ''progress'', ''ratio'', ''save_path'',
      ''size'', ''state'', ''tags'', ''time_active'', ''total_size'', ''up_limit'', ''uploaded'', ''upspeed'']"

definition validTorrentSort :: "string \<Rightarrow> bool" where
  "validTorrentSort v \<longleftrightarrow> v \<in> set sort_names"

text \<open>
  \<open>sort.SliceStable\<close>: on an order that is a strict weak order every stable sorting gives the same
  list; this one inserts from the end, each element before the first that is not less.
\<close>

fun insert_stable :: "('a \<Rightarrow> 'a \<Rightarrow> bool) \<Rightarrow> 'a \<Rightarrow> 'a list \<Rightarrow> 'a list" where
  "insert_stable lt x [] = [x]"
| "insert_stable lt x (y # ys) = (if lt y x then y # insert_stable lt x ys else x # y # ys)"

definition sort_stable :: "('a \<Rightarrow> 'a \<Rightarrow> bool) \<Rightarrow> 'a list \<Rightarrow> 'a list" where
  "sort_stable lt xs = foldr (insert_stable lt) xs []"

subsection \<open>Filters and pages\<close>

definition matchesTorrentFilter :: "Projection \<Rightarrow> string \<Rightarrow> bool" where
  "matchesTorrentFilter p flt =
     (if flt \<in> {[], ''all''} then True
      else if flt \<in> {''downloading'', ''running'', ''active''}
        then pState p \<in> {''queuedDL'', ''metaDL'', ''downloading'', ''moving''}
      else if flt = ''completed'' then pProgress p = Fin 1
      else if flt = ''stopped'' then pState p \<in> {''stoppedDL'', ''stoppedUP''}
      else if flt = ''inactive'' then pState p \<in> {''stoppedDL'', ''stoppedUP'', ''error''}
      else if flt = ''moving'' then pState p = ''moving''
      else if flt = ''errored'' then pState p = ''error''
      else if flt \<in> {''seeding'', ''stalled'', ''stalled_uploading'', ''stalled_downloading'', ''checking''} then False
      else True)"

record InfoQuery =
  iqCategory :: "string option"
  iqFilter :: string
  iqTag :: "string option"
  iqHashes :: "string list"
  iqPrivate :: "bool option"
  iqSort :: string
  iqReverse :: bool
  iqLimit :: int
  iqOffset :: int

text \<open>The parameters in the order of the checks; \<open>None\<close> where the handler answers 400.\<close>

definition obind :: "'a option \<Rightarrow> ('a \<Rightarrow> 'b option) \<Rightarrow> 'b option" where
  "obind x f = (case x of None \<Rightarrow> None | Some v \<Rightarrow> f v)"

definition at_most_one :: "ApiRequest \<Rightarrow> string \<Rightarrow> string list option" where
  "at_most_one r name =
     obind (readRequestValues r name) (\<lambda>vs. if length vs > 1 then None else Some vs)"

definition hash_filter :: "string \<Rightarrow> string list" where
  "hash_filter raw = (if raw = [] then [] else List.map_filter canonicalHash (split_on CHR ''|'' raw))"

definition info_query :: "(string \<Rightarrow> string) \<Rightarrow> ApiRequest \<Rightarrow> InfoQuery option" where
  "info_query lower r =
     obind (at_most_one r ''category'') (\<lambda>categoryValues.
     let (category, valid) = CanonicalCategory lower (qbt_first categoryValues) True
     in if \<not> valid then None
        else obind (requestOne r ''filter'') (\<lambda>flt.
          obind (at_most_one r ''tag'') (\<lambda>tagValues.
          obind (requestOne r ''hashes'') (\<lambda>hashesRaw.
          obind (requestOne r ''private'') (\<lambda>privateRaw.
          obind (requestOne r ''sort'') (\<lambda>sortBy.
          obind (requestOne r ''reverse'') (\<lambda>reverseRaw.
          obind (requestOne r ''limit'') (\<lambda>limitRaw.
          obind (requestOne r ''offset'') (\<lambda>offsetRaw.
          let (privateFilter, privateValid) = optionalBool [privateRaw]
          in if sortBy \<noteq> [] \<and> \<not> validTorrentSort sortBy then None
             else Some \<lparr>iqCategory = (if length categoryValues = 1 then Some category else None),
               iqFilter = flt, iqTag = (if length tagValues = 1 then Some (qbt_first tagValues) else None),
               iqHashes = hash_filter hashesRaw,
               iqPrivate = (if privateRaw \<noteq> [] \<and> privateValid then Some privateFilter else None),
               iqSort = sortBy, iqReverse = fst (optionalBool [reverseRaw]),
               iqLimit = parseQBTInt limitRaw, iqOffset = parseQBTInt offsetRaw\<rparr>)))))))))"

definition is_private :: "Download \<Rightarrow> bool" where
  "is_private d = (case dPrivate d of None \<Rightarrow> False | Some b \<Rightarrow> b)"

definition hash_selected :: "InfoQuery \<Rightarrow> Download \<Rightarrow> bool" where
  "hash_selected q d \<longleftrightarrow> iqHashes q = [] \<or> dHash d \<in> set (iqHashes q)"

definition info_matches :: "InfoQuery \<Rightarrow> Download \<Rightarrow> Projection \<Rightarrow> bool" where
  "info_matches q d p \<longleftrightarrow> matchesTorrentFilter p (iqFilter q)
     \<and> (case iqTag q of None \<Rightarrow> True | Some tag \<Rightarrow> hasTag (pTags p) tag)
     \<and> (case iqPrivate q of None \<Rightarrow> True | Some b \<Rightarrow> is_private d = b)"

fun info_entries :: "Backend \<Rightarrow> InfoQuery \<Rightarrow> Download list \<Rightarrow> torrentInfo list option" where
  "info_entries be q [] = Some []"
| "info_entries be q (d # ds) =
     (if \<not> hash_selected q d then info_entries be q ds
      else case Project (beFloatOob be) d of
          Inl e \<Rightarrow> None
        | Inr p \<Rightarrow>
            if info_matches q d p
            then map_option (Cons (projectTorrentInfo (beLower be) d p (is_private d))) (info_entries be q ds)
            else info_entries be q ds)"

definition info_less :: "InfoQuery \<Rightarrow> torrentInfo \<Rightarrow> torrentInfo \<Rightarrow> bool" where
  "info_less q a b = (if iqReverse q then torrentInfoLess b a (iqSort q) else torrentInfoLess a b (iqSort q))"

definition info_sorted :: "InfoQuery \<Rightarrow> torrentInfo list \<Rightarrow> torrentInfo list" where
  "info_sorted q xs = (if iqSort q = [] then xs else sort_stable (info_less q) xs)"

text \<open>
  The page of the reply, with the sums of Go's 64-bit \<open>int\<close>; \<open>None\<close> is the panic of a slice expression
  whose end lies before its start.
\<close>

definition page_offset :: "int \<Rightarrow> int \<Rightarrow> int" where
  "page_offset len offset =
     (let o1 = (if offset < 0 then wrap64 (len + offset) else offset)
      in if len \<le> o1 \<or> o1 < 0 then 0 else o1)"

definition info_page :: "int \<Rightarrow> int \<Rightarrow> 'a list \<Rightarrow> 'a list option" where
  "info_page limit offset xs =
     (let len = int (length xs);
          o2 = page_offset len offset;
          l2 = (if limit \<le> 0 then len else limit)
      in if 0 < o2 \<or> l2 < len then
           (let e1 = wrap64 (o2 + l2);
                e2 = (if len < e1 then len else e1);
                o3 = (if len < o2 then len else o2)
            in if e2 < o3 then None else Some (take (nat (e2 - o3)) (drop (nat o3) xs)))
         else Some xs)"

definition torrents_info :: "Backend \<Rightarrow> ApiRequest \<Rightarrow> reply act" where
  "torrents_info be r =
     act_bind (need (info_query (beLower be) r) badRequest) (\<lambda>q.
     act_bind (or_else (repo_read be (\<lambda>env. ListDownloads env (iqCategory q))) (\<lambda>_. internalError)) (\<lambda>downloads.
     act_bind (need (info_entries be q downloads) internalError) (\<lambda>entries.
     act_return (case info_page (iqLimit q) (iqOffset q) (info_sorted q entries) of
                   None \<Rightarrow> Panicked | Some page \<Rightarrow> TorrentList page))))"

subsection \<open>One torrent\<close>

definition get_visible :: "Backend \<Rightarrow> string \<Rightarrow> Download option act" where
  "get_visible be hash =
     act_bind (repo_read be (\<lambda>env. GetDownload env hash)) (\<lambda>x.
     act_return (case x of Inr d \<Rightarrow> if State_Visible (dState d) then Some d else None | Inl e \<Rightarrow> None))"

definition visibleDownload :: "Backend \<Rightarrow> string \<Rightarrow> Download act" where
  "visibleDownload be hash = act_bind (get_visible be hash) (\<lambda>x. need x notFound)"

definition requireVisibleHash :: "Backend \<Rightarrow> ApiRequest \<Rightarrow> string act" where
  "requireVisibleHash be r =
     act_bind (need (canonicalHashQuery r) badRequest) (\<lambda>hash.
     act_bind (visibleDownload be hash) (\<lambda>_. act_return hash))"

definition projected :: "Backend \<Rightarrow> Download \<Rightarrow> Projection act" where
  "projected be d = (case Project (beFloatOob be) d of Inl e \<Rightarrow> respond internalError | Inr p \<Rightarrow> act_return p)"

definition torrent_properties :: "Download \<Rightarrow> Projection \<Rightarrow> torrentProperties" where
  "torrent_properties d p =
     \<lparr>tpHash = pHash p, tpName = pName p, tpSavePath = pSavePath p, tpDownloadPath = [], tpComment = [],
      tpCreatedBy = [], tpCreationDate = time_unix (dCreatedAt d), tpAdditionDate = time_unix (dCreatedAt d),
      tpCompletionDate = unixOrZero (dCompletedAt d), tpLastSeen = 0, tpTotalSize = pSize p, tpPieceSize = 0,
      tpPieceCount = 0, tpPiecesHave = 0, tpSeedingTime = pSeedingTime p, tpTimeElapsed = 0, tpETA = pETA p,
      tpConnectCount = 0, tpConnectLimit = - 1, tpDownloaded = pCompleted p, tpDownloadedSession = 0,
      tpUploaded = 0, tpUploadedSession = 0, tpDownloadSpeed = 0, tpDownloadSpeedAvg = - 1, tpUploadSpeed = 0,
      tpUploadSpeedAvg = - 1, tpDownloadLimit = - 1, tpUploadLimit = - 1, tpWasted = 0, tpSeeds = 0,
      tpSeedsTotal = 0, tpPeers = 0, tpPeersTotal = 0, tpShareRatio = pRatio p, tpPopularity = Fin (- 1),
      tpReannounce = 0, tpPrivate = dPrivate d, tpIsPrivate = is_private d, tpHasMetadata = (dPrivate d \<noteq> None)\<rparr>"

definition torrents_properties :: "Backend \<Rightarrow> ApiRequest \<Rightarrow> reply act" where
  "torrents_properties be r =
     act_bind (need (canonicalHashQuery r) badRequest) (\<lambda>hash.
     act_bind (visibleDownload be hash) (\<lambda>d.
     act_bind (projected be d) (\<lambda>p. act_return (PropertiesReply (torrent_properties d p)))))"

text \<open>The last override of an index is the one the handler's map keeps.\<close>

definition override_of :: "FileOverride list \<Rightarrow> int \<Rightarrow> FileOverride option" where
  "override_of overrides index = find (\<lambda>ov. oFileIndex ov = index) (rev overrides)"

definition file_view :: "FileOverride list \<Rightarrow> DownloadFile \<Rightarrow> string \<times> int" where
  "file_view overrides f =
     (case override_of overrides (fIndex f) of
        None \<Rightarrow> (fRelativePath f, 1) | Some ov \<Rightarrow> (oRelativePath ov, oPriority ov))"

fun parse_indexes :: "int \<Rightarrow> string list \<Rightarrow> int list option" where
  "parse_indexes n [] = Some []"
| "parse_indexes n (raw # rest) =
     (case Atoi raw of
        None \<Rightarrow> None
      | Some i \<Rightarrow> if i < 0 \<or> n \<le> i then None else map_option (Cons i) (parse_indexes n rest))"

definition selected_indexes :: "string \<Rightarrow> DownloadFile list \<Rightarrow> int list option" where
  "selected_indexes raw stored =
     (if raw = [] then Some (map fIndex stored)
      else parse_indexes (int (length stored)) (split_on CHR ''|'' raw))"

definition torrent_file :: "FileOverride list \<Rightarrow> Projection \<Rightarrow> DownloadFile \<Rightarrow> torrentFile" where
  "torrent_file overrides p f =
     (let (name, priority) = file_view overrides f
      in \<lparr>tfIndex = fIndex f, tfName = name, tfSize = fSize f, tfProgress = pProgress p, tfPriority = priority,
          tfAvailability = Fin (- 1), tfPieceRange = (0, 0),
          tfIsSeed = (if fIndex f = 0 then Some (pProgress p = Fin 1) else None)\<rparr>)"

definition torrents_files :: "Backend \<Rightarrow> ApiRequest \<Rightarrow> reply act" where
  "torrents_files be r =
     act_bind (need (canonicalHashQuery r) badRequest) (\<lambda>hash.
     act_bind (visibleDownload be hash) (\<lambda>d.
     act_bind (projected be d) (\<lambda>p.
     act_bind (need (requestOne r ''indexes'') badRequest) (\<lambda>indexesRaw.
     act_bind (or_else (repo_read be (\<lambda>env. ListDownloadFiles env hash)) (\<lambda>_. internalError)) (\<lambda>stored.
     act_bind (or_else (repo_read be (\<lambda>env. ListDownloadFileOverrides env hash)) (\<lambda>_. internalError)) (\<lambda>overrides.
     act_bind (need (selected_indexes indexesRaw stored) conflict_reply) (\<lambda>selected.
     act_return (FileList (map (torrent_file overrides p)
                    (filter (\<lambda>f. fIndex f \<in> set selected) stored))))))))))"

subsection \<open>Counts, tags and the synthetic lists\<close>

definition torrents_count :: "Backend \<Rightarrow> reply act" where
  "torrents_count be =
     act_bind (or_else (repo_read be (\<lambda>env. ListDownloads env None)) (\<lambda>_. internalError)) (\<lambda>downloads.
     act_return (plain 200 (format_nat (length downloads))))"

definition torrents_tags :: "Backend \<Rightarrow> reply act" where
  "torrents_tags be =
     act_bind (or_else (repo_read be ListTags) (\<lambda>_. internalError)) (\<lambda>tags.
     act_return (JsonReply (JList (map JText tags))))"

definition after_visible :: "Backend \<Rightarrow> ApiRequest \<Rightarrow> json \<Rightarrow> reply act" where
  "after_visible be r body = act_bind (requireVisibleHash be r) (\<lambda>_. act_return (JsonReply body))"

definition torrents_sslParameters :: "Backend \<Rightarrow> ApiRequest \<Rightarrow> reply act" where
  "torrents_sslParameters be r =
     after_visible be r (JObject [(''ssl_certificate'', JText []), (''ssl_dh_params'', JText []), (''ssl_private_key'', JText [])])"

definition torrents_pieceHashes :: "Backend \<Rightarrow> ApiRequest \<Rightarrow> reply act" where
  "torrents_pieceHashes be r = after_visible be r (JList [])"

definition torrents_pieceStates :: "Backend \<Rightarrow> ApiRequest \<Rightarrow> reply act" where
  "torrents_pieceStates be r = after_visible be r (JList [])"

definition torrents_trackers :: "Backend \<Rightarrow> ApiRequest \<Rightarrow> reply act" where
  "torrents_trackers be r = after_visible be r (JList [])"

definition torrents_webseeds :: "Backend \<Rightarrow> ApiRequest \<Rightarrow> reply act" where
  "torrents_webseeds be r = after_visible be r (JList [])"

definition key_order :: "(string \<times> 'v) list \<Rightarrow> (string \<times> 'v) list" where
  "key_order kvs =
     map (\<lambda>k. (k, the (map_of (rev kvs) k))) (sort (remdups (map fst kvs)))"

definition torrents_limits :: "ApiRequest \<Rightarrow> string \<Rightarrow> reply act" where
  "torrents_limits r field =
     (case readRequestValues r field of
        Some [v] \<Rightarrow> act_return (JsonReply (JObject (key_order
                      (map (\<lambda>raw. (raw, JInt (- 1))) (filter (\<lambda>raw. raw \<noteq> []) (split_on CHR ''|'' v))))))
      | _ \<Rightarrow> respond badRequest)"

definition torrents_categories :: "Backend \<Rightarrow> reply act" where
  "torrents_categories be =
     act_bind (or_else (repo_read be ListCategories) (\<lambda>_. internalError)) (\<lambda>rows.
     act_return (CategoryMap (key_order (map (\<lambda>c. (catName c,
       \<lparr>cvName = catName c, cvSavePath = catSavePath c, cvDownloadPath = [], cvDownloadPathEnabled = False\<rparr>)) rows))))"

subsection \<open>Synchronisation\<close>

text \<open>The \<open>server_state\<close> and \<open>full_update\<close> members of the main data are constants and left out.\<close>

definition nextRID :: "string \<Rightarrow> int" where
  "nextRID raw = (case Atoi raw of None \<Rightarrow> 1 | Some rid \<Rightarrow> if rid < 0 then 1 else rid mod 1000000 + 1)"

definition sync_info :: "Projection \<Rightarrow> torrentInfo" where
  "sync_info p = zero_info\<lparr>tiHash := pHash p, tiName := pName p, tiSize := pSize p, tiCompleted := pCompleted p,
     tiProgress := pProgress p, tiETA := pETA p, tiState := pState p, tiCategory := pCategory p,
     tiTags := pTags p, tiSavePath := pSavePath p, tiContentPath := pContentPath p, tiRatio := pRatio p,
     tiRatioLimit := pRatioLimit p, tiSeedingTime := pSeedingTime p, tiSeedingTimeLimit := pSeedingTimeLimit p,
     tiInactiveSeedingTimeLimit := pInactiveSeedingTimeLimit p, tiLastActivity := pLastActivity p\<rparr>"

fun sync_torrents :: "Backend \<Rightarrow> Download list \<Rightarrow> (string \<times> torrentInfo) list option" where
  "sync_torrents be [] = Some []"
| "sync_torrents be (d # ds) =
     (if \<not> State_Visible (dState d) then sync_torrents be ds
      else case Project (beFloatOob be) d of
          Inl e \<Rightarrow> None
        | Inr p \<Rightarrow> map_option (Cons (pHash p, sync_info p)) (sync_torrents be ds))"

definition rid_of :: "form \<Rightarrow> int option" where
  "rid_of params =
     (case form_values params ''rid'' of [] \<Rightarrow> Some 1 | [v] \<Rightarrow> Some (nextRID v) | _ \<Rightarrow> None)"

definition syncMainData :: "Backend \<Rightarrow> ApiRequest \<Rightarrow> reply act" where
  "syncMainData be r =
     act_bind (qbtParams r) (\<lambda>params.
     act_bind (need (rid_of params) badRequest) (\<lambda>rid.
     act_bind (or_else (repo_read be (\<lambda>env. ListDownloads env None)) (\<lambda>_. internalError)) (\<lambda>downloads.
     act_bind (need (sync_torrents be downloads) internalError) (\<lambda>torrents.
     act_bind (or_else (repo_read be ListCategories) (\<lambda>_. internalError)) (\<lambda>rows.
     act_bind (or_else (repo_read be ListTags) (\<lambda>_. internalError)) (\<lambda>tags.
     act_return (MainData rid (key_order torrents)
       (key_order (map (\<lambda>c. (catName c, \<lparr>cvName = catName c, cvSavePath = catSavePath c, cvDownloadPath = [],
                                           cvDownloadPathEnabled = False\<rparr>)) rows)) tags)))))))"

definition syncTorrentPeers :: "Backend \<Rightarrow> ApiRequest \<Rightarrow> reply act" where
  "syncTorrentPeers be r =
     act_bind (qbtParams r) (\<lambda>params.
     act_bind (need (rid_of params) badRequest) (\<lambda>rid.
     act_bind (need (one_of params ''hash'') notFound) (\<lambda>raw.
     act_bind (need (canonicalHash raw) notFound) (\<lambda>hash.
     act_bind (or_else (repo_read be (\<lambda>env. GetDownload env hash)) repositoryError) (\<lambda>d.
     act_bind (check (State_Visible (dState d)) notFound) (\<lambda>_.
     act_return (JsonReply (JObject [(''full_update'', JBool True), (''peers'', JObject []), (''rid'', JInt rid),
       (''show_flags'', JBool False)]))))))))"

end
