(* ===== verification/Http_Actions.thy ===== *)
theory Http_Actions
  imports Http_Torrents
begin

section \<open>Requests that change something (httpapi/torrents.go, categories.go)\<close>

text \<open>
  The selection of downloads and the handlers that act on it: categories, deletion, start and stop,
  tags, paths, priorities, renames with their file plans, and the requests that are accepted without
  an effect.
\<close>

subsection \<open>Selection\<close>

definition selectable :: "Download \<Rightarrow> bool" where
  "selectable d \<longleftrightarrow> State_Visible (dState d) \<or> (dState d = StateDeleteRequested \<and> dLastError d \<noteq> [])"

fun select_parts :: "Backend \<Rightarrow> string list \<Rightarrow> string list \<Rightarrow> string list act" where
  "select_parts be seen [] = act_return (rev seen)"
| "select_parts be seen (part # rest) =
     (case canonicalHash part of
        None \<Rightarrow> select_parts be seen rest
      | Some hash \<Rightarrow>
          if hash \<in> set seen then select_parts be seen rest
          else act_bind (repo_read be (\<lambda>env. GetDownload env hash)) (\<lambda>x.
               case x of
                 Inl e \<Rightarrow> select_parts be seen rest
               | Inr d \<Rightarrow> if selectable d then select_parts be (hash # seen) rest else select_parts be seen rest))"

definition selectedHashes :: "Backend \<Rightarrow> form \<Rightarrow> string \<Rightarrow> string list act" where
  "selectedHashes be f name =
     act_bind (need (one_of f name) badRequest) (\<lambda>raw.
     if raw = ''all'' then
       act_bind (or_else (repo_read be (\<lambda>env. ListDownloads env None)) (\<lambda>_. badRequest)) (\<lambda>downloads.
       act_return (map dHash (filter selectable downloads)))
     else select_parts be [] (split_on CHR ''|'' raw))"

text \<open>The common start of a handler: the form, then the selection.\<close>

definition with_selection :: "Backend \<Rightarrow> ApiRequest \<Rightarrow> string \<Rightarrow> (form \<Rightarrow> string list \<Rightarrow> reply act) \<Rightarrow> reply act" where
  "with_selection be r name k =
     act_bind (parseURLEncodedForm r) (\<lambda>f. act_bind (selectedHashes be f name) (\<lambda>hashes. k f hashes))"

definition ok_reply :: "reply act" where "ok_reply = act_return OkReply"

text \<open>A repository operation whose error is answered by \<open>repositoryError\<close>.\<close>

definition repo_do :: "Backend \<Rightarrow> (Env \<Rightarrow> time \<Rightarrow> Db \<Rightarrow> (store_err + unit) \<times> Db) \<Rightarrow> unit act" where
  "repo_do be f = act_bind (now_at be) (\<lambda>now. or_else (repo_call be (\<lambda>env. f env now)) repositoryError)"

subsection \<open>Category, deletion, start and stop\<close>

definition setCategory_handler :: "Backend \<Rightarrow> ApiRequest \<Rightarrow> reply act" where
  "setCategory_handler be r =
     with_selection be r ''hashes'' (\<lambda>f hashes.
       act_bind (need (one_of f ''category'') badRequest) (\<lambda>rawCategory.
       let (category, valid) = CanonicalCategory (beLower be) rawCategory True
       in act_bind (check valid badRequest) (\<lambda>_.
          done_with (act_each (\<lambda>hash. repo_do be (\<lambda>env now. SetCategory env hash category now)) hashes))))"

definition deleteTorrents :: "Backend \<Rightarrow> ApiRequest \<Rightarrow> reply act" where
  "deleteTorrents be r =
     with_selection be r ''hashes'' (\<lambda>f hashes.
       act_bind (need (requiredBool f ''deleteFiles'') badRequest) (\<lambda>deleteFiles.
       if hashes = [] then ok_reply
       else act_bind (repo_do be (\<lambda>env now. RequestDelete env (beOrder be) hashes deleteFiles now)) (\<lambda>_.
            done_with wake)))"

text \<open>One iteration of the start loop: whether a stopped download was started.\<close>

definition start_selected :: "Backend \<Rightarrow> time \<Rightarrow> string \<Rightarrow> bool act" where
  "start_selected be now hash =
     act_bind (repo_read be (\<lambda>env. GetDownload env hash)) (\<lambda>x.
     case x of
       Inl e \<Rightarrow> act_return False
     | Inr d \<Rightarrow>
         if dState d = StateStopped \<or> dState d = StateAccepted
         then act_bind (or_else (repo_call be (\<lambda>env. Start env hash now)) repositoryError) (\<lambda>_.
              act_return (dState d = StateStopped))
         else act_return False)"

definition start_all :: "Backend \<Rightarrow> string list \<Rightarrow> reply act" where
  "start_all be hashes =
     act_bind (now_at be) (\<lambda>now.
     act_bind (act_any (start_selected be now) hashes) (\<lambda>effective. done_with (wake_if effective)))"

definition start_handler :: "Backend \<Rightarrow> ApiRequest \<Rightarrow> reply act" where
  "start_handler be r = with_selection be r ''hashes'' (\<lambda>f hashes. start_all be hashes)"

definition setForceStart :: "Backend \<Rightarrow> ApiRequest \<Rightarrow> reply act" where
  "setForceStart be r =
     with_selection be r ''hashes'' (\<lambda>f hashes.
       act_bind (need (requiredBool f ''value'') badRequest) (\<lambda>_. start_all be hashes))"

definition stop_selected :: "Backend \<Rightarrow> time \<Rightarrow> string \<Rightarrow> bool act" where
  "stop_selected be now hash =
     act_bind (repo_read be (\<lambda>env. GetDownload env hash)) (\<lambda>x.
     case x of
       Inl e \<Rightarrow> act_return False
     | Inr d \<Rightarrow>
         if \<not> CanPause d then act_return False
         else act_bind (or_else (repo_call be (\<lambda>env. Pause env hash now)) repositoryError) (\<lambda>_.
              act_return (dState d \<noteq> StateStopped)))"

definition stop_handler :: "Backend \<Rightarrow> ApiRequest \<Rightarrow> reply act" where
  "stop_handler be r =
     with_selection be r ''hashes'' (\<lambda>f hashes.
       act_bind (now_at be) (\<lambda>now.
       act_bind (act_any (stop_selected be now) hashes) (\<lambda>effective. done_with (wake_if effective))))"

definition recheck_selected :: "Backend \<Rightarrow> time \<Rightarrow> string \<Rightarrow> bool act" where
  "recheck_selected be now hash =
     act_bind (repo_read be (\<lambda>env. GetDownload env hash)) (\<lambda>x.
     case x of
       Inl e \<Rightarrow> act_return False
     | Inr d \<Rightarrow>
         if CanRetry d
         then act_bind (or_else (repo_call be (\<lambda>env. Retry env hash (RetryTarget d) now)) repositoryError) (\<lambda>_.
              act_return True)
         else if dState d = StateCompleted
         then act_bind (or_else (repo_call be (\<lambda>env. Reverify env hash now)) repositoryError) (\<lambda>_. act_return True)
         else act_return False)"

definition recheck_handler :: "Backend \<Rightarrow> ApiRequest \<Rightarrow> reply act" where
  "recheck_handler be r =
     with_selection be r ''hashes'' (\<lambda>f hashes.
       act_bind (now_at be) (\<lambda>now.
       act_bind (act_any (recheck_selected be now) hashes) (\<lambda>effective. done_with (wake_if effective))))"

subsection \<open>Tags and categories\<close>

definition addTags_handler :: "Backend \<Rightarrow> ApiRequest \<Rightarrow> reply act" where
  "addTags_handler be r =
     with_selection be r ''hashes'' (\<lambda>f hashes.
       act_bind (need (one_of f ''tags'') badRequest) (\<lambda>raw.
       act_bind (need (normalizeTags raw False) badRequest) (\<lambda>tags.
       if hashes \<noteq> [] \<and> tags \<noteq> [] then done_with (repo_do be (\<lambda>env now. AddTags env hashes tags now)) else ok_reply)))"

definition removeTags_handler :: "Backend \<Rightarrow> ApiRequest \<Rightarrow> reply act" where
  "removeTags_handler be r =
     with_selection be r ''hashes'' (\<lambda>f hashes.
       act_bind (need (case f ''tags'' of None \<Rightarrow> Some [] | Some vs \<Rightarrow> exactlyOne vs) badRequest) (\<lambda>raw.
       act_bind (need (normalizeTags raw False) badRequest) (\<lambda>tags.
       if hashes \<noteq> [] then done_with (repo_do be (\<lambda>env now. RemoveTags env hashes tags now)) else ok_reply)))"

definition tag_list_handler :: "Backend \<Rightarrow> (Env \<Rightarrow> string \<Rightarrow> time \<Rightarrow> Db \<Rightarrow> (store_err + unit) \<times> Db) \<Rightarrow> ApiRequest \<Rightarrow> reply act" where
  "tag_list_handler be f r =
     act_bind (parseURLEncodedForm r) (\<lambda>values.
     act_bind (need (one_of values ''tags'') badRequest) (\<lambda>raw.
     act_bind (need (normalizeTags raw False) badRequest) (\<lambda>tags.
     if tags \<noteq> [] then done_with (repo_do be (\<lambda>env. f env tags)) else ok_reply)))"

definition createTags_handler :: "Backend \<Rightarrow> ApiRequest \<Rightarrow> reply act" where
  "createTags_handler be = tag_list_handler be CreateTags"

definition deleteTags_handler :: "Backend \<Rightarrow> ApiRequest \<Rightarrow> reply act" where
  "deleteTags_handler be = tag_list_handler be DeleteTags"

definition removeCategories_handler :: "Backend \<Rightarrow> ApiRequest \<Rightarrow> reply act" where
  "removeCategories_handler be r =
     act_bind (parseURLEncodedForm r) (\<lambda>f.
     act_bind (need (one_of f ''categories'') badRequest) (\<lambda>raw.
     let names = List.map_filter (\<lambda>v. let (name, valid) = CanonicalCategory (beLower be) v False
                                      in if valid then Some name else None) (split_on CHR 0x0A raw)
     in done_with (repo_do be (\<lambda>env. RemoveCategories env names))))"

definition category_error :: "store_err \<Rightarrow> reply" where
  "category_error e = (if e = ErrDestinationConflict then conflict_reply else internalError)"

definition put_row :: "Backend \<Rightarrow> Category \<Rightarrow> (store_err \<Rightarrow> reply) \<Rightarrow> unit act" where
  "put_row be c h = act_bind (or_else (repo_call be (\<lambda>env. UpsertCategory env c)) h) (\<lambda>_. act_return ())"

definition createCategory :: "Backend \<Rightarrow> ApiRequest \<Rightarrow> reply act" where
  "createCategory be r =
     act_bind (parseURLEncodedForm r) (\<lambda>f.
     act_bind (need (one_of f ''category'') badRequest) (\<lambda>rawName.
     act_bind (check (trim_space rawName \<noteq> []) badRequest) (\<lambda>_.
     let (name, valid) = CanonicalCategory (beLower be) rawName False
     in act_bind (check valid conflict_reply) (\<lambda>_.
        act_bind (repo_read be (\<lambda>env. GetCategory env name)) (\<lambda>found.
        act_bind (check (isl found) conflict_reply) (\<lambda>_.
        act_bind (check (found = Inl ErrNotFound) internalError) (\<lambda>_.
        act_bind (need (case f ''savePath'' of
                          None \<Rightarrow> Some (path_join [beLocalRoot be, name])
                        | Some vs \<Rightarrow> (case exactlyOne vs of
                                        Some p \<Rightarrow> if clean_abs p then Some p else None | None \<Rightarrow> None)) badRequest) (\<lambda>savePath.
        act_bind (or_else (fs_read be (\<lambda>dk fs. ResolveSaveRoot dk fs (beFsRoot be) savePath)) (\<lambda>_. badRequest)) (\<lambda>(resolved, _).
        act_bind (now_at be) (\<lambda>now.
        let category = \<lparr>catName = name, catCloudPath = path_join [beCloudRoot be, name], catSavePath = resolved,
                        catEnabled = False, catCreatedAt = now, catUpdatedAt = now\<rparr>
        in act_bind (put_row be category category_error) (\<lambda>_.
           act_bind (or_else (fs_call be (\<lambda>dk. PrepareSaveRoot dk (beFsRoot be) resolved)) (\<lambda>_. badRequest)) (\<lambda>prepared.
           act_bind (check (prepared = resolved) badRequest) (\<lambda>_.
           done_with (put_row be (category\<lparr>catEnabled := True\<rparr>) category_error))))))))))))))"

definition editCategory :: "Backend \<Rightarrow> ApiRequest \<Rightarrow> reply act" where
  "editCategory be r =
     act_bind (parseURLEncodedForm r) (\<lambda>f.
     act_bind (need (one_of f ''category'') badRequest) (\<lambda>rawName.
     act_bind (need (one_of f ''savePath'') badRequest) (\<lambda>rawPath.
     let (name, valid) = CanonicalCategory (beLower be) rawName False
     in act_bind (check (valid \<and> clean_abs rawPath) badRequest) (\<lambda>_.
        act_bind (or_else (repo_read be (\<lambda>env. GetCategory env name))
                    (\<lambda>e. if e = ErrNotFound then conflict_reply else internalError)) (\<lambda>category.
        act_bind (or_else (fs_read be (\<lambda>dk fs. ResolveSaveRoot dk fs (beFsRoot be) rawPath)) (\<lambda>_. badRequest)) (\<lambda>(resolved, _).
        act_bind (or_else (fs_call be (\<lambda>dk. PrepareSaveRoot dk (beFsRoot be) resolved)) (\<lambda>_. badRequest)) (\<lambda>_.
        act_bind (now_at be) (\<lambda>now.
        done_with (put_row be (category\<lparr>catSavePath := resolved, catUpdatedAt := now\<rparr>) repositoryError)))))))))"

subsection \<open>Save paths\<close>

definition check_not_started :: "Backend \<Rightarrow> string \<Rightarrow> unit act" where
  "check_not_started be hash =
     act_bind (or_else (repo_read be (\<lambda>env. GetDownload env hash)) repositoryError) (\<lambda>d.
     check (dState d = StateStopped \<or> dState d = StateAccepted) conflict_reply)"

definition prepared_root :: "Backend \<Rightarrow> string \<Rightarrow> string act" where
  "prepared_root be raw =
     act_bind (or_else (fs_read be (\<lambda>dk fs. ResolveSaveRoot dk fs (beFsRoot be) raw)) (\<lambda>_. badRequest)) (\<lambda>(resolved, _).
     act_bind (or_else (fs_call be (\<lambda>dk. PrepareSaveRoot dk (beFsRoot be) resolved)) (\<lambda>_. internalError)) (\<lambda>_.
     act_return resolved))"

definition clean_value :: "form \<Rightarrow> string \<Rightarrow> string act" where
  "clean_value f name =
     act_bind (need (one_of f name) badRequest) (\<lambda>raw. act_bind (check (clean_abs raw) badRequest) (\<lambda>_. act_return raw))"

definition setSavePath_handler :: "Backend \<Rightarrow> ApiRequest \<Rightarrow> reply act" where
  "setSavePath_handler be r =
     act_bind (parseURLEncodedForm r) (\<lambda>f.
     act_bind (clean_value f ''path'') (\<lambda>raw.
     act_bind (selectedHashes be f ''id'') (\<lambda>hashes.
     act_bind (act_each (check_not_started be) hashes) (\<lambda>_.
     act_bind (prepared_root be raw) (\<lambda>resolved.
     if hashes \<noteq> [] then done_with (repo_do be (\<lambda>env. SetSavePaths env hashes resolved)) else ok_reply)))))"

definition setLocation :: "Backend \<Rightarrow> ApiRequest \<Rightarrow> reply act" where
  "setLocation be r =
     with_selection be r ''hashes'' (\<lambda>f hashes.
       act_bind (act_each (check_not_started be) hashes) (\<lambda>_.
       act_bind (clean_value f ''location'') (\<lambda>raw.
       act_bind (prepared_root be raw) (\<lambda>resolved.
       done_with (repo_do be (\<lambda>env. SetSavePaths env hashes resolved))))))"

subsection \<open>Files\<close>

fun file_ids :: "int list \<Rightarrow> string list \<Rightarrow> int list option" where
  "file_ids seen [] = Some (rev seen)"
| "file_ids seen (raw # rest) =
     (case Atoi raw of
        None \<Rightarrow> None
      | Some i \<Rightarrow> if i < 0 then None else if i \<in> set seen then file_ids seen rest else file_ids (i # seen) rest)"

definition filePriority :: "Backend \<Rightarrow> ApiRequest \<Rightarrow> reply act" where
  "filePriority be r =
     act_bind (parseURLEncodedForm r) (\<lambda>f.
     act_bind (need (canonicalHash (qbt_first (form_values f ''hash''))) badRequest) (\<lambda>hash.
     act_bind (need (one_of f ''id'') badRequest) (\<lambda>ids.
     act_bind (need (one_of f ''priority'') badRequest) (\<lambda>rawPriority.
     act_bind (need (case Atoi rawPriority of None \<Rightarrow> None
                     | Some p \<Rightarrow> if p \<noteq> 0 \<and> p \<noteq> 1 \<and> p \<noteq> 6 \<and> p \<noteq> 7 then None else Some p) badRequest) (\<lambda>priority.
     act_bind (need (file_ids [] (split_on CHR ''|'' ids)) badRequest) (\<lambda>indexes.
     act_bind (check (indexes \<noteq> []) badRequest) (\<lambda>_.
     done_with (repo_do be (\<lambda>env. SetFilePriorities env hash indexes priority)))))))))"

text \<open>The current path and priority of every known index, from the manifest and its overrides.\<close>

definition file_of :: "DownloadFile list \<Rightarrow> int \<Rightarrow> DownloadFile option" where
  "file_of files index = find (\<lambda>f. fIndex f = index) (rev files)"

definition effective_path :: "DownloadFile list \<Rightarrow> FileOverride list \<Rightarrow> int \<Rightarrow> string" where
  "effective_path files overrides i =
     (case override_of overrides i of
        Some ov \<Rightarrow> oRelativePath ov
      | None \<Rightarrow> (case file_of files i of Some f \<Rightarrow> fRelativePath f | None \<Rightarrow> []))"

definition effective_priority :: "FileOverride list \<Rightarrow> int \<Rightarrow> int" where
  "effective_priority overrides i = (case override_of overrides i of Some ov \<Rightarrow> oPriority ov | None \<Rightarrow> 1)"

definition file_size :: "DownloadFile list \<Rightarrow> int \<Rightarrow> int" where
  "file_size files i = (case file_of files i of Some f \<Rightarrow> fSize f | None \<Rightarrow> 0)"

definition known_indexes :: "DownloadFile list \<Rightarrow> FileOverride list \<Rightarrow> int list" where
  "known_indexes files overrides = remdups (map fIndex files @ map oFileIndex overrides)"

definition rename_target :: "DownloadFile list \<Rightarrow> FileOverride list \<Rightarrow> string \<Rightarrow> string \<Rightarrow> reply + int" where
  "rename_target files overrides oldPath newPath =
     (case filter (\<lambda>i. effective_path files overrides i = oldPath) (known_indexes files overrides) of
        [] \<Rightarrow> Inl notFound
      | [target] \<Rightarrow>
          if target < 0 then Inl notFound
          else if list_ex (\<lambda>i. i \<noteq> target \<and> effective_path files overrides i = newPath) (known_indexes files overrides)
          then Inl conflict_reply else Inr target
      | _ \<Rightarrow> Inl conflict_reply)"

definition completedPlanRoot :: "Download \<Rightarrow> string" where
  "completedPlanRoot d =
     (let dir = (if dWorkspacePath d = [] then dSavePath d else dWorkspacePath d)
      in path_clean
           (if dSourceKind d = SourceTorrent \<and> dIsMultiFile d = Some True \<and> dCopySourcePath d = dCloudResultPath d
            then path_join [dir, dDestinationName d] else dir))"

definition renamePlanError :: "fs_err \<Rightarrow> reply" where
  "renamePlanError e =
     (if is_not_exist e then notFound else if is_conflict e then conflict_reply else internalError)"

definition apply_plans :: "Backend \<Rightarrow> Download \<Rightarrow> FilePlan list \<Rightarrow> unit act" where
  "apply_plans be d plans =
     or_else (fs_call be (\<lambda>dk. ApplyFilePlan dk (beFsRoot be) (completedPlanRoot d) (dHash d) plans)) renamePlanError"

definition applyCompletedFilePlan :: "Backend \<Rightarrow> Download \<Rightarrow> string \<Rightarrow> string \<Rightarrow> int \<Rightarrow> unit act" where
  "applyCompletedFilePlan be d oldPath newPath len =
     apply_plans be d [\<lparr>fpIndex = 0, fpOriginalPath = oldPath, fpEffectivePath = newPath, fpPriority = 1, fpSize = len\<rparr>]"

definition rename_paths :: "form \<Rightarrow> (string \<times> string) act" where
  "rename_paths f =
     act_bind (need (one_of f ''oldPath'') badRequest) (\<lambda>oldPath.
     act_bind (need (one_of f ''newPath'') badRequest) (\<lambda>newPath.
     act_bind (check (api_safeRelativePath oldPath \<and> api_safeRelativePath newPath) badRequest) (\<lambda>_.
     act_return (oldPath, newPath))))"

definition renameFile :: "Backend \<Rightarrow> ApiRequest \<Rightarrow> reply act" where
  "renameFile be r =
     act_bind (parseURLEncodedForm r) (\<lambda>f.
     act_bind (need (canonicalHash (qbt_first (form_values f ''hash''))) badRequest) (\<lambda>hash.
     act_bind (rename_paths f) (\<lambda>(oldPath, newPath).
     act_bind (or_else (repo_read be (\<lambda>env. GetDownload env hash)) repositoryError) (\<lambda>d.
     act_bind (or_else (repo_read be (\<lambda>env. ListDownloadFiles env hash)) repositoryError) (\<lambda>files.
     act_bind (or_else (repo_read be (\<lambda>env. ListDownloadFileOverrides env hash)) repositoryError) (\<lambda>overrides.
     case rename_target files overrides oldPath newPath of
       Inl e \<Rightarrow> respond e
     | Inr target \<Rightarrow>
         act_bind (if dState d = StateCompleted \<and> oldPath \<noteq> newPath
                   then applyCompletedFilePlan be d oldPath newPath (file_size files target)
                   else act_return ()) (\<lambda>_.
         done_with (repo_do be (\<lambda>env. SetFileOverride env hash target newPath (effective_priority overrides target))))))))))"

definition folder_target :: "string \<Rightarrow> string \<Rightarrow> string \<Rightarrow> string" where
  "folder_target oldPath newPath current =
     (if current = oldPath then newPath
      else if has_prefix current (oldPath @ ''/'') then newPath @ drop (length oldPath) current
      else current)"

definition completedFolderPlans :: "DownloadFile list \<Rightarrow> FileOverride list \<Rightarrow> string \<Rightarrow> string \<Rightarrow> FilePlan list" where
  "completedFolderPlans files overrides oldPath newPath =
     List.map_filter (\<lambda>f.
       let (current, priority) = file_view overrides f;
           effective = folder_target oldPath newPath current
       in if effective \<noteq> current \<and> priority \<noteq> 0
          then Some \<lparr>fpIndex = fIndex f, fpOriginalPath = current, fpEffectivePath = effective, fpPriority = 1,
                     fpSize = fSize f\<rparr>
          else None) files"

definition requireSingleVisibleForm :: "Backend \<Rightarrow> form \<Rightarrow> string \<Rightarrow> string act" where
  "requireSingleVisibleForm be f name =
     act_bind (need (one_of f name) badRequest) (\<lambda>raw.
     act_bind (need (canonicalHash raw) notFound) (\<lambda>hash.
     act_bind (visibleDownload be hash) (\<lambda>_. act_return hash)))"

definition renameFolder :: "Backend \<Rightarrow> ApiRequest \<Rightarrow> reply act" where
  "renameFolder be r =
     act_bind (parseURLEncodedForm r) (\<lambda>f.
     act_bind (requireSingleVisibleForm be f ''hash'') (\<lambda>hash.
     act_bind (rename_paths f) (\<lambda>(oldPath, newPath).
     act_bind (or_else (repo_read be (\<lambda>env. GetDownload env hash)) repositoryError) (\<lambda>d.
     act_bind
       (if dState d = StateCompleted then
          act_bind (or_else (repo_read be (\<lambda>env. ListDownloadFiles env hash)) repositoryError) (\<lambda>files.
          act_bind (or_else (repo_read be (\<lambda>env. ListDownloadFileOverrides env hash)) repositoryError) (\<lambda>overrides.
          let plans = completedFolderPlans files overrides oldPath newPath
          in if plans \<noteq> [] then apply_plans be d plans else act_return ()))
        else act_return ()) (\<lambda>_.
     done_with (repo_do be (\<lambda>env. RenameFolder env hash oldPath newPath)))))))"

text \<open>\<open>strings.Join(strings.Fields(name), " ")\<close>: the words between white space.\<close>

lemma rune_step: "(r, w) = decode_rune s \<Longrightarrow> s \<noteq> [] \<Longrightarrow> 0 < w"
  using decode_rune_width_pos [of s] by (cases "decode_rune s") auto

function fields_of :: "string \<Rightarrow> string \<Rightarrow> string list" where
  "fields_of word s =
     (if s = [] then (if word = [] then [] else [word])
      else let (r, w) = decode_rune s
           in if is_space r then (if word = [] then [] else [word]) @ fields_of [] (drop w s)
              else fields_of (word @ take w s) (drop w s))"
  by pat_completeness auto
termination
  by (relation "measure (\<lambda>(word, s). length s)") (auto dest: rune_step)

declare fields_of.simps [simp del]

definition renameTorrent :: "Backend \<Rightarrow> ApiRequest \<Rightarrow> reply act" where
  "renameTorrent be r =
     act_bind (parseURLEncodedForm r) (\<lambda>f.
     act_bind (requireSingleVisibleForm be f ''hash'') (\<lambda>hash.
     act_bind (need (one_of f ''name'') conflict_reply) (\<lambda>name.
     act_bind (check (trim_space name \<noteq> [] \<and> \<not> contains_any name [CHR ''/'', CHR 0x5C, CHR 0x00]) conflict_reply) (\<lambda>_.
     done_with (repo_do be (\<lambda>env. RenameDownload env hash (join_with '' '' (fields_of [] name))))))))"

end
