(* ===== verification/Http_Add.thy ===== *)
theory Http_Add
  imports Http_Actions
begin

section \<open>Adding torrents (httpapi/torrents.go, addTorrent)\<close>

text \<open>
  The add form: its checks, the magnet links, torrent addresses and uploaded files it submits one after
  the other, and the reply, which counts only rows that were inserted.
\<close>

text \<open>
  \<open>adMedia\<close> is the media type if it can be parsed, \<open>adForm\<close> the parsed form unless it is refused, and
  \<open>adFiles\<close> the uploaded files, by name, in the order in which the map of the form yields them; a file
  that cannot be read has no content.
\<close>

record AddRequest =
  adMedia :: "string option"
  adForm :: "form option"
  adFiles :: "(string \<times> string option) list"

definition addBad :: reply where "addBad = Reply 400 ''Bad Request''"

definition stoppedSubmission :: "form \<Rightarrow> bool" where
  "stoppedSubmission f =
     (fst (optionalBool (form_values f ''stopped'')) \<or> fst (optionalBool (form_values f ''paused'')))"

definition addCategory :: "form \<Rightarrow> string option" where
  "addCategory f = (case f ''category'' of None \<Rightarrow> Some [] | Some vs \<Rightarrow> exactlyOne vs)"

text \<open>A value that may be given at most once.\<close>

definition single_value :: "form \<Rightarrow> string \<Rightarrow> string option option" where
  "single_value f name = (case f name of None \<Rightarrow> Some None | Some vs \<Rightarrow> map_option Some (exactlyOne vs))"

definition add_rename_ok :: "string option \<Rightarrow> bool" where
  "add_rename_ok v =
     (case v of None \<Rightarrow> True
      | Some n \<Rightarrow> trim_space n \<noteq> [] \<and> \<not> contains_any n [CHR ''/'', CHR 0x5C, CHR 0x00])"

definition add_tags_ok :: "string option \<Rightarrow> bool" where
  "add_tags_ok v = (case v of None \<Rightarrow> True | Some t \<Rightarrow> normalizeTags t False \<noteq> None)"

definition add_options :: "form \<Rightarrow> Options option" where
  "add_options f =
     obind (single_value f ''rename'') (\<lambda>rename.
     obind (single_value f ''tags'') (\<lambda>tags.
     obind (single_value f ''autoTMM'') (\<lambda>autoTMM.
     obind (single_value f ''savepath'') (\<lambda>savepath.
     if add_rename_ok rename \<and> add_tags_ok tags
     then Some \<lparr>opRename = rename, opTags = tags,
            opAutoTMM = (if autoTMM = None then None else requiredBool f ''autoTMM''), opSavePath = savepath\<rparr>
     else None))))"

definition url_lines :: "string list \<Rightarrow> string list" where
  "url_lines urlValues =
     (case urlValues of [v] \<Rightarrow> filter (\<lambda>l. l \<noteq> []) (map trim_space (split_on CHR 0x0A v)) | _ \<Rightarrow> [])"

text \<open>
  One call of the submission service, on the settings of the moment; the waker runs when a row was
  inserted.
\<close>

definition settings_text :: "store_err + (string \<Rightarrow> string option) \<Rightarrow> store_err + (string \<Rightarrow> string)" where
  "settings_text x = (case x of Inl e \<Rightarrow> Inl e | Inr m \<Rightarrow> Inr (\<lambda>k. case m k of None \<Rightarrow> [] | Some v \<Rightarrow> v))"

definition submit_call :: "Backend \<Rightarrow>
    (SubmitConfig \<Rightarrow> SubmitWorld \<Rightarrow> Env \<Rightarrow> Db \<Rightarrow> (submit_err + (Download \<times> bool)) \<times> Db) \<Rightarrow>
    (submit_err + (Download \<times> bool)) act" where
  "submit_call be f s =
     (let n = apCalls s; env = beEnv be n;
          w = (beSubmit be n)\<lparr>swSettings := Some (settings_text (ListSettings (faulty env) (apSettings s)))\<rparr>;
          out = f (beSubmitConfig be) w env (beOthers be n (apDb s));
          woken = (case fst out of Inr (d, True) \<Rightarrow> 1 | _ \<Rightarrow> 0)
      in (Inr (fst out), s\<lparr>apDb := snd out, apCalls := Suc n, apWakes := apWakes s + woken\<rparr>))"

text \<open>\<open>record\<close>: whether the submission counts as a success, or the reply that ends the request.\<close>

definition record_result :: "Options \<Rightarrow> string \<Rightarrow> submit_err + (Download \<times> bool) \<Rightarrow> reply + bool" where
  "record_result o' filename x =
     (case x of
        Inr (d, inserted) \<Rightarrow> Inr inserted
      | Inl ErrCategoryInvalid \<Rightarrow> Inl (Reply 409 ''Conflict'')
      | Inl ErrInvalidOptions \<Rightarrow> Inl (Reply 409 ''Conflict'')
      | Inl ErrInvalidSource \<Rightarrow>
          if filename = [] then Inr False
          else Inl (Reply 415 (''Error: '' @ [CHR 0x27] @ SanitizeFilename filename @ [CHR 0x27] @ '' is not a valid torrent file.''))
      | Inl _ \<Rightarrow> Inl (Reply 500 ''Internal Server Error''))"

definition recorded :: "Options \<Rightarrow> string \<Rightarrow> (submit_err + (Download \<times> bool)) act \<Rightarrow> bool act" where
  "recorded o' filename m =
     act_bind m (\<lambda>x. case record_result o' filename x of Inl r \<Rightarrow> respond r | Inr b \<Rightarrow> act_return b)"

definition add_url :: "Backend \<Rightarrow> string \<Rightarrow> string \<Rightarrow> bool \<Rightarrow> Options \<Rightarrow> string \<Rightarrow> bool act" where
  "add_url be cookie category stopped o' raw =
     (case beSchemeHost be raw of
        None \<Rightarrow> act_return False
      | Some (scheme, host) \<Rightarrow>
          (let kind = to_lower scheme
           in if kind = ''magnet'' then
                recorded o' [] (submit_call be (\<lambda>c w env. SubmitMagnetWithOptions c w env raw category stopped o'))
              else if kind = ''http'' \<or> kind = ''https'' then
                act_bind calls_at (\<lambda>n. case beFetch be n raw cookie of
                    None \<Rightarrow> act_return False
                  | Some data \<Rightarrow> recorded o' []
                      (submit_call be (\<lambda>c w env. SubmitTorrentWithOptions c w env data category stopped o')))
              else act_return False))"

definition add_file :: "Backend \<Rightarrow> string \<Rightarrow> bool \<Rightarrow> Options \<Rightarrow> string \<times> string option \<Rightarrow> bool act" where
  "add_file be category stopped o' file =
     (case snd file of
        None \<Rightarrow> respond addBad
      | Some data \<Rightarrow> recorded o' (fst file)
          (submit_call be (\<lambda>c w env. SubmitTorrentWithOptions c w env data category stopped o')))"

definition addTorrent :: "Backend \<Rightarrow> AddRequest \<Rightarrow> reply act" where
  "addTorrent be r =
     act_bind (check (adMedia r \<in> {Some ''application/x-www-form-urlencoded'', Some ''multipart/form-data''}) addBad) (\<lambda>_.
     act_bind (need (adForm r) addBad) (\<lambda>f.
     act_bind (need (addCategory f) addBad) (\<lambda>rawCategory.
     let (category, valid) = CanonicalCategory (beLower be) rawCategory True; stopped = stoppedSubmission f
     in act_bind (check valid addBad) (\<lambda>_.
        act_bind (check (length (form_values f ''urls'') \<le> 1) addBad) (\<lambda>_.
        act_bind (need (add_options f) addBad) (\<lambda>o'.
        act_bind (need (single_value f ''cookie'') addBad) (\<lambda>cookie.
        act_bind (act_any (add_url be (case cookie of None \<Rightarrow> [] | Some c \<Rightarrow> c) category stopped o')
                    (url_lines (form_values f ''urls''))) (\<lambda>a.
        act_bind (act_any (add_file be category stopped o')
                    (if adMedia r = Some ''multipart/form-data'' then adFiles r else [])) (\<lambda>b.
        act_return (Reply 200 (if a \<or> b then ''Ok.'' else ''Fails.'')))))))))))"

end
