(* ===== verification/Go_Duration.thy ===== *)
theory Go_Duration
  imports Go_Text Float64
begin

section \<open>Durations as text (Go's time package)\<close>

text \<open>
  \<open>time.ParseDuration\<close> with its bounds: numbers are read into 64 unsigned bits, fractions are scaled in
  floating point, and every overflow is refused.
\<close>

definition is_digit :: "char \<Rightarrow> bool" where
  "is_digit c \<longleftrightarrow> 48 \<le> byte c \<and> byte c \<le> 57"

definition digit_of :: "char \<Rightarrow> nat" where "digit_of c = byte c - 48"

text \<open>\<open>leadingInt\<close>: \<open>None\<close> is the overflow.\<close>

fun leadingInt :: "nat \<Rightarrow> string \<Rightarrow> (nat \<times> string) option" where
  "leadingInt x [] = Some (x, [])"
| "leadingInt x (c # s) =
     (if \<not> is_digit c then Some (x, c # s)
      else if 2 ^ 63 div 10 < x then None
      else (let y = x * 10 + digit_of c in if 2 ^ 63 < y then None else leadingInt y s))"

text \<open>\<open>leadingFraction\<close>: digits that no longer fit are read and dropped; the scale is a power of ten below \<open>10 ^ 20\<close>, exact in floating point.\<close>

fun leadingFraction :: "bool \<Rightarrow> nat \<Rightarrow> nat \<Rightarrow> string \<Rightarrow> nat \<times> nat \<times> string" where
  "leadingFraction overflow x scale [] = (x, scale, [])"
| "leadingFraction overflow x scale (c # s) =
     (if \<not> is_digit c then (x, scale, c # s)
      else if overflow then leadingFraction True x scale s
      else if (2 ^ 63 - 1) div 10 < x then leadingFraction True x scale s
      else (let y = x * 10 + digit_of c
            in if 2 ^ 63 < y then leadingFraction True x scale s else leadingFraction False y (scale * 10) s))"

definition unit_chars :: "string \<Rightarrow> string \<times> string" where
  "unit_chars s = (takeWhile (\<lambda>c. \<not> (c = CHR ''.'' \<or> is_digit c)) s, dropWhile (\<lambda>c. \<not> (c = CHR ''.'' \<or> is_digit c)) s)"

definition unitMap :: "(string \<times> nat) list" where
  "unitMap =
     [(''ns'', 1), (''us'', 1000), ([CHR 0xC2, CHR 0xB5, CHR ''s''], 1000), ([CHR 0xCE, CHR 0xBC, CHR ''s''], 1000),
      (''ms'', 1000000), (''s'', 1000000000), (''m'', 60 * 1000000000), (''h'', 3600 * 1000000000)]"

text \<open>\<open>uint64(float64(f) * (float64(unit) / scale))\<close>\<close>

definition scaled_fraction :: "nat \<Rightarrow> nat \<Rightarrow> nat \<Rightarrow> nat" where
  "scaled_fraction f scale unit = nat \<lfloor>rnd (rnd (of_nat f) * rnd (of_nat unit / of_nat scale))\<rfloor>"

text \<open>One number with its unit: its nanoseconds and the rest of the text.\<close>

definition duration_part :: "string \<Rightarrow> (nat \<times> string) option" where
  "duration_part s =
     (if s = [] \<or> \<not> (hd s = CHR ''.'' \<or> is_digit (hd s)) then None
      else case leadingInt 0 s of
          None \<Rightarrow> None
        | Some (v, r) \<Rightarrow>
            (let pre = (length r \<noteq> length s);
                 point = (r \<noteq> [] \<and> hd r = CHR ''.'');
                 (f, scale, r') = (if point then leadingFraction False 0 1 (tl r) else (0, 1, r));
                 post = (point \<and> length r' \<noteq> length (tl r));
                 (u, r'') = unit_chars r'
             in if \<not> pre \<and> \<not> post then None
                else if u = [] then None
                else case map_of unitMap u of
                    None \<Rightarrow> None
                  | Some unit \<Rightarrow>
                      if 2 ^ 63 div unit < v then None
                      else (let w = v * unit + (if 0 < f then scaled_fraction f scale unit else 0)
                            in if 0 < f \<and> 2 ^ 63 < w then None else Some (w, r''))))"

lemma leadingInt_rest: "leadingInt x s = Some (v, r) \<Longrightarrow> length r \<le> length s"
  by (induction x s rule: leadingInt.induct) (auto simp: Let_def split: if_splits)

lemma leadingFraction_rest: "leadingFraction b x n s = (f, k, r) \<Longrightarrow> length r \<le> length s"
  by (induction b x n s rule: leadingFraction.induct) (auto simp: Let_def split: if_splits)

lemma unit_chars_rest: "unit_chars s = (u, r) \<Longrightarrow> u \<noteq> [] \<Longrightarrow> length r < length s"
proof -
  assume "unit_chars s = (u, r)" "u \<noteq> []"
  then have "u @ r = s" by (auto simp: unit_chars_def)
  with \<open>u \<noteq> []\<close> show ?thesis by (cases u) auto
qed

lemma duration_part_rest: "duration_part s = Some (w, r) \<Longrightarrow> length r < length s"
proof -
  assume d: "duration_part s = Some (w, r)"
  then obtain v t where t: "leadingInt 0 s = Some (v, t)"
    by (auto simp: duration_part_def split: if_splits option.splits)
  obtain f k r' where f: "(if t \<noteq> [] \<and> hd t = CHR ''.'' then leadingFraction False 0 1 (tl t) else (0, 1, t)) = (f, k, r')"
    by (metis prod_cases3)
  obtain u r'' where u: "unit_chars r' = (u, r'')" by (cases "unit_chars r'") auto
  have "u \<noteq> []" "r = r''"
    using d t f u unfolding duration_part_def Let_def
    by (simp_all split: if_split_asm option.split_asm)
  moreover have "length r' \<le> length t"
    using f leadingFraction_rest [of False 0 1 "tl t" f k r'] by (auto split: if_splits)
  ultimately show ?thesis using unit_chars_rest [OF u] leadingInt_rest [OF t] by simp
qed

function duration_parts :: "nat \<Rightarrow> string \<Rightarrow> nat option" where
  "duration_parts d s =
     (if s = [] then Some d
      else case duration_part s of
          None \<Rightarrow> None
        | Some (w, r) \<Rightarrow> if 2 ^ 63 < d + w then None else duration_parts (d + w) r)"
  by pat_completeness auto
termination by (relation "measure (length \<circ> snd)") (auto dest: duration_part_rest)

declare duration_parts.simps [simp del]

definition ParseDuration :: "string \<Rightarrow> int option" where
  "ParseDuration s =
     (let neg = (s \<noteq> [] \<and> hd s = CHR ''-'');
          body = (if s \<noteq> [] \<and> (hd s = CHR ''-'' \<or> hd s = CHR ''+'') then tl s else s)
      in if body = ''0'' then Some 0
         else if body = [] then None
         else case duration_parts 0 body of
             None \<Rightarrow> None
           | Some d \<Rightarrow>
               if neg then Some (- int d)
               else if 2 ^ 63 - 1 < d then None else Some (int d))"

lemma duration_parts_bound: "duration_parts d s = Some n \<Longrightarrow> d \<le> 2 ^ 63 \<Longrightarrow> n \<le> 2 ^ 63"
proof (induction d s rule: duration_parts.induct)
  case (1 d s)
  have *: "(if s = [] then Some d
      else case duration_part s of None \<Rightarrow> None
        | Some (w, r) \<Rightarrow> if 2 ^ 63 < d + w then None else duration_parts (d + w) r) = Some n"
    using "1.prems"(1) duration_parts.simps [of d s] by simp
  show ?case
  proof (cases "s = []")
    case True
    with * "1.prems"(2) show ?thesis by simp
  next
    case False
    with * obtain w r where "duration_part s = Some (w, r)" "\<not> 2 ^ 63 < d + w" "duration_parts (d + w) r = Some n"
      by (auto split: option.splits if_splits)
    with "1.IH" [OF False this(1) refl this(2,3)] show ?thesis by simp
  qed
qed

lemma ParseDuration_range: "ParseDuration s = Some d \<Longrightarrow> - (2 ^ 63) \<le> d \<and> d < 2 ^ 63"
  using duration_parts_bound [of 0]
  by (force simp: ParseDuration_def Let_def split: if_splits option.splits)

end
