(* ===== verification/Native_Api.thy ===== *)
theory Native_Api
  imports Http_Add Go_Duration
begin

section \<open>The native API (nativeapi/handler.go)\<close>

text \<open>
  Submission, query, the wait for a terminal state and the event feed, behind the bearer token of the
  theory Authentication.  The handlers act on the same state as those of the qBittorrent API.  A request that
  parks is woken by the signal, by its deadline, by the retirement of the runtime or by the departure
  of its client: the wakes are a list, and a request whose list is used up is still waiting.
\<close>

subsection \<open>The model of a download\<close>

definition terminalOutcome :: "State \<Rightarrow> string option" where
  "terminalOutcome s =
     (if s = StateCompleted then Some ''completed'' else if s = StateFailed then Some ''failed''
      else if s = StateCancelled then Some ''cancelled'' else if s = StateDeleted then Some ''deleted'' else None)"

definition projectProgress :: "(float64 \<Rightarrow> int) \<Rightarrow> Download \<Rightarrow> float64" where
  "projectProgress oob d =
     (case Project oob d of Inr p \<Rightarrow> pProgress p | Inl e \<Rightarrow> math_max (Fin 0) (math_min (Fin 1) (dQbitProgress d)))"

record downloadModel =
  dmHash :: string
  dmName :: string
  dmCategory :: string
  dmState :: State
  dmProgress :: float64
  dmVersion :: int
  dmTerminal :: bool
  dmOutcome :: "string option"
  dmCloudResultPath :: "string option"
  dmCopySourcePath :: "string option"
  dmWorkspacePath :: "string option"
  dmContentPath :: "string option"
  dmTotalSize :: int
  dmError :: "string option"
  dmErrorCode :: "string option"
  dmNextRetryAt :: "time option"
  dmCreatedAt :: time
  dmUpdatedAt :: time
  dmCompletedAt :: "time option"
  dmSelf :: string
  dmWait :: string

definition downloadsPrefix :: string where "downloadsPrefix = ''/api/v1/downloads/''"

definition present :: "string \<Rightarrow> string option" where
  "present v = (if v = [] then None else Some v)"

definition download_model :: "(float64 \<Rightarrow> int) \<Rightarrow> Download \<Rightarrow> downloadModel" where
  "download_model oob d =
     \<lparr>dmHash = dHash d, dmName = dName d, dmCategory = dCategory d, dmState = dState d,
      dmProgress = projectProgress oob d, dmVersion = dRowVersion d, dmTerminal = (terminalOutcome (dState d) \<noteq> None),
      dmOutcome = terminalOutcome (dState d), dmCloudResultPath = present (dCloudResultPath d),
      dmCopySourcePath = present (dCopySourcePath d), dmWorkspacePath = present (dWorkspacePath d),
      dmContentPath = present (dContentPath d), dmTotalSize = dTotalSize d, dmError = present (SanitizeDownloadError d),
      dmErrorCode = present (dLastErrorCode d),
      dmNextRetryAt = (if dLastError d \<noteq> [] \<or> dLastErrorCode d \<noteq> [] then dNextRunAt d else None),
      dmCreatedAt = dCreatedAt d, dmUpdatedAt = dUpdatedAt d, dmCompletedAt = dCompletedAt d,
      dmSelf = downloadsPrefix @ dHash d, dmWait = downloadsPrefix @ dHash d @ ''/wait''\<rparr>"

subsection \<open>Replies\<close>

text \<open>
  An error with its status and code, 405 with the allowed method, a model, the answer to a submission,
  204 with a row version, a page of events, a request whose client is gone, and one that still waits.
\<close>

datatype native_reply =
    NError nat string | NAllow string | NModel downloadModel | NSubmitted nat bool downloadModel | NVersion int
  | NEvents "(string \<times> Payload) list" string bool | NSilent | NWaiting

definition invalidRequest :: native_reply where "invalidRequest = NError 400 ''invalid_request''"
definition downloadNotFound :: native_reply where "downloadNotFound = NError 404 ''download_not_found''"
definition requestTooLarge :: native_reply where "requestTooLarge = NError 413 ''request_too_large''"
definition unsupportedMediaType :: native_reply where "unsupportedMediaType = NError 415 ''unsupported_media_type''"
definition invalidSubmission :: native_reply where "invalidSubmission = NError 422 ''invalid_submission''"
definition nativeInternal :: native_reply where "nativeInternal = NError 500 ''internal_error''"

lemmas native_replies = invalidRequest_def downloadNotFound_def requestTooLarge_def unsupportedMediaType_def
  invalidSubmission_def nativeInternal_def

subsection \<open>Requests\<close>

text \<open>
  The query parameters and the fields of a form in the order in which their map yields them.  The decoder of
  the JSON body and of the multipart form is a library: a body is too large, malformed, or decoded;
  \<open>mqMore\<close> says that more follows the first JSON value.
\<close>

datatype 'a body = TooLarge | Malformed | Decoded 'a

record magnetRequest =
  mqMagnet :: "string option"
  mqCategory :: "string option"
  mqStopped :: "bool option"
  mqMore :: bool

record multipartForm =
  mfValues :: "(string \<times> string list) list"
  mfFiles :: "(string \<times> string option list) list"

record NativeRequest =
  nrMethod :: string
  nrPath :: string
  nrQuery :: "(string \<times> string list) list"
  nrMedia :: "string option"
  nrJSON :: "magnetRequest body"
  nrMultipart :: "multipartForm body"

definition native_read :: "Backend \<Rightarrow> (Env \<Rightarrow> Db \<Rightarrow> store_err + 'a) \<Rightarrow> Api \<Rightarrow> (store_err + 'a) \<times> Api" where
  "native_read be f s =
     (let n = apCalls s; db = beOthers be n (apDb s) in (f (beEnv be n) db, s\<lparr>apDb := db, apCalls := Suc n\<rparr>))"

subsection \<open>Submission\<close>

definition submit_result :: "Backend \<Rightarrow> submit_err + (Download \<times> bool) \<Rightarrow> native_reply" where
  "submit_result be x =
     (case x of
        Inl e \<Rightarrow> if e = ErrInvalidSource \<or> e = ErrCategoryInvalid then invalidSubmission else nativeInternal
      | Inr (d, created) \<Rightarrow> NSubmitted (if created then 201 else 200) created (download_model (beFloatOob be) d))"

definition noOptions :: Options where
  "noOptions = \<lparr>opRename = None, opTags = None, opAutoTMM = None, opSavePath = None\<rparr>"

definition submitted :: "Backend \<Rightarrow> (SubmitConfig \<Rightarrow> SubmitWorld \<Rightarrow> Env \<Rightarrow> Db \<Rightarrow> (submit_err + (Download \<times> bool)) \<times> Db) \<Rightarrow>
    Api \<Rightarrow> native_reply \<times> Api" where
  "submitted be f s = (case submit_call be f s of (x, s') \<Rightarrow> (submit_result be (projr x), s'))"

definition submitJSON :: "Backend \<Rightarrow> NativeRequest \<Rightarrow> Api \<Rightarrow> native_reply \<times> Api" where
  "submitJSON be r s =
     (case nrJSON r of
        TooLarge \<Rightarrow> (requestTooLarge, s)
      | Malformed \<Rightarrow> (invalidRequest, s)
      | Decoded q \<Rightarrow>
          (if mqMore q then (invalidRequest, s)
           else case mqMagnet q of
               None \<Rightarrow> (invalidRequest, s)
             | Some magnet \<Rightarrow>
                 submitted be (\<lambda>c w env. SubmitMagnetWithOptions c w env magnet
                   (case mqCategory q of None \<Rightarrow> [] | Some v \<Rightarrow> v) (mqStopped q = Some True) noOptions) s))"

definition multipartScalar :: "(string \<times> string list) list \<Rightarrow> string \<Rightarrow> string option" where
  "multipartScalar vals name = (case map_of vals name of None \<Rightarrow> Some [] | Some raw \<Rightarrow> exactlyOne raw)"

definition multipartStopped :: "(string \<times> string list) list \<Rightarrow> bool option" where
  "multipartStopped vals =
     (case map_of vals ''stopped'' of
        None \<Rightarrow> Some False
      | Some [v] \<Rightarrow>
          (let w = to_lower (trim_space v)
           in if w \<in> {''true'', ''1''} then Some True else if w \<in> {''false'', ''0''} then Some False else None)
      | Some _ \<Rightarrow> None)"

definition submitMultipart :: "Backend \<Rightarrow> NativeRequest \<Rightarrow> Api \<Rightarrow> native_reply \<times> Api" where
  "submitMultipart be r s =
     (case nrMultipart r of
        TooLarge \<Rightarrow> (requestTooLarge, s)
      | Malformed \<Rightarrow> (invalidRequest, s)
      | Decoded f \<Rightarrow>
          (case (multipartScalar (mfValues f) ''category'', multipartStopped (mfValues f)) of
             (Some category, Some stopped) \<Rightarrow>
               if list_ex (\<lambda>(name, v). name \<noteq> ''category'' \<and> name \<noteq> ''stopped'') (mfValues f) then (invalidRequest, s)
               else (case mfFiles f of
                   [(name, [Some data])] \<Rightarrow>
                     if name \<noteq> ''torrent'' then (invalidRequest, s)
                     else submitted be (\<lambda>c w env. SubmitTorrentWithOptions c w env data category stopped noOptions) s
                 | _ \<Rightarrow> (invalidRequest, s))
           | _ \<Rightarrow> (invalidRequest, s)))"

definition native_submit :: "Backend \<Rightarrow> NativeRequest \<Rightarrow> Api \<Rightarrow> native_reply \<times> Api" where
  "native_submit be r s =
     (case nrMedia r of
        None \<Rightarrow> (unsupportedMediaType, s)
      | Some m \<Rightarrow>
          if m = ''application/json'' then submitJSON be r s
          else if m = ''multipart/form-data'' then submitMultipart be r s
          else (unsupportedMediaType, s))"

subsection \<open>Query\<close>

definition read_error :: "store_err \<Rightarrow> native_reply" where
  "read_error e = (if e = ErrNotFound then downloadNotFound else nativeInternal)"

definition serveDownload :: "Backend \<Rightarrow> NativeRequest \<Rightarrow> string \<Rightarrow> Api \<Rightarrow> native_reply \<times> Api" where
  "serveDownload be r hash s =
     (if nrMethod r \<noteq> ''GET'' then (NAllow ''GET'', s)
      else case native_read be (\<lambda>env. GetDownload env hash) s of
          (Inl e, s') \<Rightarrow> (read_error e, s')
        | (Inr d, s') \<Rightarrow> (NModel (download_model (beFloatOob be) d), s'))"

subsection \<open>The wait\<close>

text \<open>\<open>Signalled\<close>: the channel of the snapshot was closed; \<open>Elapsed\<close>: the timer fired; \<open>Retired\<close>: shutdown; \<open>Departed\<close>: the client left.\<close>

datatype wake_reason = Signalled | Elapsed | Retired | Departed

definition minWaitTimeout :: int where "minWaitTimeout = second"
definition maxWaitTimeout :: int where "maxWaitTimeout = 25 * second"
definition defaultWaitTimeout :: int where "defaultWaitTimeout = 25 * second"

definition parseWaitTimeout :: "NativeRequest \<Rightarrow> int option" where
  "parseWaitTimeout r =
     (if list_ex (\<lambda>(name, v). name \<noteq> ''timeout'') (nrQuery r) then None
      else case map_of (nrQuery r) ''timeout'' of
          None \<Rightarrow> Some defaultWaitTimeout
        | Some [raw] \<Rightarrow>
            (case ParseDuration raw of
               None \<Rightarrow> None
             | Some t \<Rightarrow> if t < minWaitTimeout \<or> maxWaitTimeout < t then None else Some t)
        | Some _ \<Rightarrow> None)"

text \<open>The channel to park on, taken before the authoritative read.\<close>

definition take_snapshot :: "Api \<Rightarrow> nat \<times> Api" where
  "take_snapshot s =
     (case Snapshot (eventSignal (apDb s)) of (ch, sig) \<Rightarrow> (ch, s\<lparr>apDb := (apDb s)\<lparr>eventSignal := sig\<rparr>\<rparr>))"

definition finalRead :: "Backend \<Rightarrow> (nat \<Rightarrow> bool) \<Rightarrow> string \<Rightarrow> Api \<Rightarrow> native_reply \<times> Api" where
  "finalRead be gone hash s =
     (case native_read be (\<lambda>env. GetDownload env hash) s of
        (Inl e, s') \<Rightarrow>
          (if e = ErrNotFound then downloadNotFound else if gone (apCalls s') then NSilent else nativeInternal, s')
      | (Inr d, s') \<Rightarrow>
          (if terminalOutcome (dState d) \<noteq> None then NModel (download_model (beFloatOob be) d)
           else NVersion (dRowVersion d), s'))"

text \<open>One round of the loop: a reply, or the channel to park on.\<close>

definition wait_round :: "Backend \<Rightarrow> (nat \<Rightarrow> bool) \<Rightarrow> string \<Rightarrow> Api \<Rightarrow> (native_reply + nat) \<times> Api" where
  "wait_round be gone hash s =
     (if gone (apCalls s) then (Inl NSilent, s)
      else case take_snapshot s of (snapshot, s0) \<Rightarrow>
        (case native_read be (\<lambda>env. GetDownload env hash) s0 of
           (Inl e, s') \<Rightarrow> (Inl (if gone (apCalls s') then NSilent else read_error e), s')
         | (Inr d, s') \<Rightarrow>
             (if terminalOutcome (dState d) \<noteq> None then Inl (NModel (download_model (beFloatOob be) d)) else Inr snapshot, s')))"

fun wait_rounds :: "Backend \<Rightarrow> (nat \<Rightarrow> bool) \<Rightarrow> string \<Rightarrow> wake_reason list \<Rightarrow> Api \<Rightarrow> native_reply \<times> Api" where
  "wait_rounds be gone hash wakes s =
     (case wait_round be gone hash s of
        (Inl r, s') \<Rightarrow> (r, s')
      | (Inr snapshot, s') \<Rightarrow>
          (case wakes of
             [] \<Rightarrow> (NWaiting, s')
           | w # ws \<Rightarrow>
               (case w of
                  Signalled \<Rightarrow> wait_rounds be gone hash ws s'
                | Departed \<Rightarrow> (NSilent, s')
                | _ \<Rightarrow> finalRead be gone hash s')))"

declare wait_rounds.simps [simp del]

definition serveDownloadWait :: "Backend \<Rightarrow> (nat \<Rightarrow> bool) \<Rightarrow> wake_reason list \<Rightarrow> NativeRequest \<Rightarrow> string \<Rightarrow> Api \<Rightarrow>
    native_reply \<times> Api" where
  "serveDownloadWait be gone wakes r hash s =
     (if nrMethod r \<noteq> ''GET'' then (NAllow ''GET'', s)
      else case parseWaitTimeout r of
          None \<Rightarrow> (invalidRequest, s)
        | Some t \<Rightarrow> wait_rounds be gone hash wakes s)"

subsection \<open>Event cursors\<close>

definition be64 :: "nat \<Rightarrow> nat list" where
  "be64 n = map (\<lambda>i. n div 256 ^ i mod 256) (rev [0..<8])"

definition be64_value :: "nat list \<Rightarrow> nat" where
  "be64_value bs = foldl (\<lambda>acc b. acc * 256 + b) 0 bs"

definition eventCursorVersion :: nat where "eventCursorVersion = 1"

definition encodeEventCursor :: "int \<Rightarrow> string" where
  "encodeEventCursor n = b64_encode URLAlphabet (map char_of (eventCursorVersion # be64 (nat (n mod 2 ^ 64))))"

text \<open>\<open>Strict()\<close>: the unused bits of the last character must be zero; line breaks are still skipped.\<close>

definition b64_decode_strict :: "alphabet \<Rightarrow> string \<Rightarrow> string option" where
  "b64_decode_strict a s =
     (case b64_values a s of
        None \<Rightarrow> None
      | Some vs \<Rightarrow> if no_spare_bits vs then map_option (map char_of) (octets vs) else None)"

definition decodeEventCursor :: "string \<Rightarrow> int option" where
  "decodeEventCursor v =
     (case b64_decode_strict URLAlphabet v of
        None \<Rightarrow> None
      | Some raw \<Rightarrow>
          if length raw \<noteq> 9 \<or> byte (hd raw) \<noteq> eventCursorVersion then None
          else (let n = be64_value (map byte (tl raw)) in if 2 ^ 63 - 1 < n then None else Some (int n)))"

subsection \<open>The event feed\<close>

record eventsQuery =
  eqCursor :: int
  eqLatest :: bool
  eqCompleted :: bool
  eqFailed :: bool
  eqHash :: string
  eqLimit :: int
  eqWait :: int

definition defaultEventLimit :: int where "defaultEventLimit = 100"
definition maxEventLimit :: int where "maxEventLimit = 500"
definition maxEventWait :: int where "maxEventWait = 25 * second"

fun event_types :: "bool \<times> bool \<Rightarrow> string list \<Rightarrow> (bool \<times> bool) option" where
  "event_types acc [] = Some acc"
| "event_types (completed, failed) (raw # rest) =
     (let item = trim_space raw
      in if item = ''download.completed'' then (if completed then None else event_types (True, failed) rest)
         else if item = ''download.failed'' then (if failed then None else event_types (completed, True) rest)
         else None)"

definition parseEventTypes :: "string \<Rightarrow> (bool \<times> bool) option" where
  "parseEventTypes v = (if v = [] then None else event_types (False, False) (split_on CHR '','' v))"

definition event_param :: "string \<Rightarrow> string \<Rightarrow> eventsQuery \<Rightarrow> eventsQuery option" where
  "event_param name v q =
     (if name = ''cursor'' then
        (if v = [] then None
         else if v = ''latest'' then Some (q\<lparr>eqLatest := True\<rparr>)
         else map_option (\<lambda>n. q\<lparr>eqCursor := n\<rparr>) (decodeEventCursor v))
      else if name = ''types'' then
        map_option (\<lambda>(completed, failed). q\<lparr>eqCompleted := completed, eqFailed := failed\<rparr>) (parseEventTypes v)
      else if name = ''hash'' then
        (if trim_space v \<noteq> v then None else map_option (\<lambda>h. q\<lparr>eqHash := h\<rparr>) (canonicalHash v))
      else if name = ''limit'' then
        (case Atoi v of None \<Rightarrow> None
         | Some n \<Rightarrow> if n < 1 \<or> maxEventLimit < n then None else Some (q\<lparr>eqLimit := n\<rparr>))
      else if name = ''wait'' then
        (case ParseDuration v of None \<Rightarrow> None
         | Some t \<Rightarrow> if t < 0 \<or> maxEventWait < t then None else Some (q\<lparr>eqWait := t\<rparr>))
      else None)"

fun event_params :: "(string \<times> string list) list \<Rightarrow> eventsQuery \<Rightarrow> eventsQuery option" where
  "event_params [] q = Some q"
| "event_params ((name, raw) # rest) q =
     (case raw of
        [v] \<Rightarrow> (case event_param name v q of None \<Rightarrow> None | Some q' \<Rightarrow> event_params rest q')
      | _ \<Rightarrow> None)"

definition parseEventsQuery :: "NativeRequest \<Rightarrow> eventsQuery option" where
  "parseEventsQuery r = event_params (nrQuery r)
     \<lparr>eqCursor = 0, eqLatest = False, eqCompleted = True, eqFailed = True, eqHash = [],
      eqLimit = defaultEventLimit, eqWait = 0\<rparr>"

definition scan_query :: "eventsQuery \<Rightarrow> int \<Rightarrow> int \<Rightarrow> EventQuery" where
  "scan_query q cursor highWater =
     \<lparr>qAfterSequence = cursor, qThroughSequence = highWater, qIncludeCompleted = eqCompleted q,
      qIncludeFailed = eqFailed q, qAggregateID = eqHash q, qLimit = eqLimit q + 1\<rparr>"

definition writeEvents :: "(nat \<Rightarrow> bool) \<Rightarrow> (Payload \<Rightarrow> bool) \<Rightarrow> event_row list \<Rightarrow> int \<Rightarrow> int \<Rightarrow> Api \<Rightarrow> native_reply" where
  "writeEvents gone jsonValid events limit highWater s =
     (if gone (apCalls s) then NSilent
      else if list_ex (\<lambda>e. \<not> jsonValid (ev_payload e)) events then nativeInternal
      else (let hasMore = limit < int (length events);
                shown = (if hasMore then take (nat limit) events else events);
                next = (if hasMore then ev_sequence (last shown) else highWater)
            in NEvents (map (\<lambda>e. (encodeEventCursor (ev_sequence e), ev_payload e)) shown) (encodeEventCursor next) hasMore))"

text \<open>A read whose error is answered unless the client is gone.\<close>

definition event_read :: "Backend \<Rightarrow> (nat \<Rightarrow> bool) \<Rightarrow> (Env \<Rightarrow> Db \<Rightarrow> store_err + 'a) \<Rightarrow> Api \<Rightarrow> (native_reply + 'a) \<times> Api" where
  "event_read be gone f s =
     (case native_read be f s of
        (Inl e, s') \<Rightarrow> (Inl (if gone (apCalls s') then NSilent else nativeInternal), s')
      | (Inr x, s') \<Rightarrow> (Inr x, s'))"

text \<open>The last scan, after the deadline or the retirement.\<close>

definition finalEventsScan :: "Backend \<Rightarrow> (nat \<Rightarrow> bool) \<Rightarrow> (Payload \<Rightarrow> bool) \<Rightarrow> eventsQuery \<Rightarrow> int \<Rightarrow> Api \<Rightarrow> native_reply \<times> Api" where
  "finalEventsScan be gone jsonValid q cursor s =
     (if gone (apCalls s) then (NSilent, s)
      else case event_read be gone LatestEventSequence (snd (take_snapshot s)) of
          (Inl r, s1) \<Rightarrow> (r, s1)
        | (Inr highWater, s1) \<Rightarrow>
            (case event_read be gone (\<lambda>env. ListDownloadEvents env (scan_query q cursor highWater)) s1 of
               (Inl r, s2) \<Rightarrow> (r, s2)
             | (Inr events, s2) \<Rightarrow> (writeEvents gone jsonValid events (eqLimit q) highWater s2, s2)))"

text \<open>
  One round of the loop: a reply, or the channel to park on and the high-water from which the next round scans;
  \<open>first\<close> is the round that resolves the cursor.
\<close>

definition events_round :: "Backend \<Rightarrow> (nat \<Rightarrow> bool) \<Rightarrow> (Payload \<Rightarrow> bool) \<Rightarrow> eventsQuery \<Rightarrow> bool \<Rightarrow> int \<Rightarrow> Api \<Rightarrow>
    (native_reply + nat \<times> int) \<times> Api" where
  "events_round be gone jsonValid q first cursor s =
     (if gone (apCalls s) then (Inl NSilent, s)
      else case take_snapshot s of (snapshot, s0) \<Rightarrow>
        (case event_read be gone LatestEventSequence s0 of
           (Inl r, s1) \<Rightarrow> (Inl r, s1)
         | (Inr highWater, s1) \<Rightarrow>
             if first \<and> \<not> eqLatest q \<and> highWater < cursor then (Inl invalidRequest, s1)
             else (case event_read be gone (\<lambda>env. ListDownloadEvents env
                       (scan_query q (if first \<and> eqLatest q then highWater else cursor) highWater)) s1 of
                (Inl r, s2) \<Rightarrow> (Inl r, s2)
              | (Inr events, s2) \<Rightarrow>
                  if events = [] \<and> 0 < eqWait q then (Inr (snapshot, highWater), s2)
                  else (Inl (writeEvents gone jsonValid events (eqLimit q) highWater s2), s2))))"

fun events_rounds :: "Backend \<Rightarrow> (nat \<Rightarrow> bool) \<Rightarrow> (Payload \<Rightarrow> bool) \<Rightarrow> eventsQuery \<Rightarrow> bool \<Rightarrow> int \<Rightarrow> wake_reason list \<Rightarrow> Api \<Rightarrow>
    native_reply \<times> Api" where
  "events_rounds be gone jsonValid q first cursor wakes s =
     (case events_round be gone jsonValid q first cursor s of
        (Inl r, s') \<Rightarrow> (r, s')
      | (Inr (snapshot, highWater), s') \<Rightarrow>
          (case wakes of
             [] \<Rightarrow> (NWaiting, s')
           | w # ws \<Rightarrow>
               (case w of
                  Signalled \<Rightarrow> events_rounds be gone jsonValid q False highWater ws s'
                | Departed \<Rightarrow> (NSilent, s')
                | _ \<Rightarrow> finalEventsScan be gone jsonValid q highWater s')))"

declare events_rounds.simps [simp del]

definition serveEvents :: "Backend \<Rightarrow> (nat \<Rightarrow> bool) \<Rightarrow> (Payload \<Rightarrow> bool) \<Rightarrow> wake_reason list \<Rightarrow> NativeRequest \<Rightarrow> Api \<Rightarrow>
    native_reply \<times> Api" where
  "serveEvents be gone jsonValid wakes r s =
     (if nrMethod r \<noteq> ''GET'' then (NAllow ''GET'', s)
      else case parseEventsQuery r of
          None \<Rightarrow> (invalidRequest, s)
        | Some q \<Rightarrow> events_rounds be gone jsonValid q True (eqCursor q) wakes s)"

subsection \<open>Routes\<close>

definition downloadsPath :: string where "downloadsPath = ''/api/v1/downloads''"
definition eventsPath :: string where "eventsPath = ''/api/v1/events''"

definition with_hash :: "string \<Rightarrow> (string \<Rightarrow> Api \<Rightarrow> native_reply \<times> Api) \<Rightarrow> Api \<Rightarrow> native_reply \<times> Api" where
  "with_hash raw k s = (case canonicalHash raw of None \<Rightarrow> (invalidRequest, s) | Some hash \<Rightarrow> k hash s)"

definition NativeServeHTTP :: "Backend \<Rightarrow> (nat \<Rightarrow> bool) \<Rightarrow> (Payload \<Rightarrow> bool) \<Rightarrow> wake_reason list \<Rightarrow> NativeRequest \<Rightarrow> Api \<Rightarrow>
    native_reply \<times> Api" where
  "NativeServeHTTP be gone jsonValid wakes r s =
     (if nrPath r = downloadsPath then (if nrMethod r \<noteq> ''POST'' then (NAllow ''POST'', s) else native_submit be r s)
      else if nrPath r = eventsPath then serveEvents be gone jsonValid wakes r s
      else if has_prefix (nrPath r) downloadsPrefix then
        (let remainder = drop (length downloadsPrefix) (nrPath r)
         in if remainder = [] then (downloadNotFound, s)
            else case first_index CHR ''/'' remainder of
                Some i \<Rightarrow>
                  if drop (i + 1) remainder \<noteq> ''wait'' then (downloadNotFound, s)
                  else with_hash (take i remainder) (serveDownloadWait be gone wakes r) s
              | None \<Rightarrow> with_hash remainder (serveDownload be r) s)
      else (downloadNotFound, s))"

end
