(* ===== verification/Http_App.thy ===== *)
theory Http_App
  imports Http_Add
begin

section \<open>Application, search, RSS, log and transfer handlers, and accepted requests without effect\<close>

text \<open>
  httpapi/app.go, search.go, rss.go, log.go, transfer.go, and the handlers of torrents.go that check
  their form and answer without touching the store.
\<close>

subsection \<open>app.go\<close>

text \<open>Every preference of the API, in the order of the names; only the save path and the trackers carry a value.\<close>

definition preference_values :: "string \<Rightarrow> string \<Rightarrow> bool \<Rightarrow> (string \<times> json) list" where
  "preference_values localRoot addTrackers enabled =
     [(''add_stopped_enabled'', JBool False), (''add_to_top_of_queue'', JBool False),
      (''add_trackers'', JText addTrackers), (''add_trackers_enabled'', JBool enabled),
      (''alt_dl_limit'', JInt (- 1)), (''alt_up_limit'', JInt (- 1)), (''alternative_webui_enabled'', JBool False),
      (''alternative_webui_path'', JText []), (''announce_ip'', JText []),
      (''announce_to_all_tiers'', JBool False), (''announce_to_all_trackers'', JBool False),
      (''anonymous_mode'', JBool False), (''app_instance_name'', JText []), (''async_io_threads'', JInt 0),
      (''auto_delete_mode'', JInt 0), (''auto_tmm_enabled'', JBool False), (''autorun_enabled'', JBool False),
      (''autorun_on_torrent_added_enabled'', JBool False), (''autorun_on_torrent_added_program'', JText []),
      (''autorun_program'', JText []), (''banned_IPs'', JText []), (''bdecode_depth_limit'', JInt 0),
      (''bdecode_token_limit'', JInt 0), (''bittorrent_protocol'', JInt 0),
      (''block_peers_on_privileged_ports'', JBool False), (''bypass_auth_subnet_whitelist'', JText []),
      (''bypass_auth_subnet_whitelist_enabled'', JBool False), (''bypass_local_auth'', JBool False),
      (''category_changed_tmm_enabled'', JBool False), (''checking_memory_use'', JInt 0),
      (''connection_speed'', JInt 0), (''current_interface_address'', JText []),
      (''current_interface_name'', JText []), (''current_network_interface'', JText []),
      (''delete_torrent_content_files'', JBool False), (''dht'', JBool True), (''dht_bootstrap_nodes'', JText []),
      (''disk_cache'', JInt 0), (''disk_cache_ttl'', JInt 0), (''disk_io_read_mode'', JInt 0),
      (''disk_io_type'', JInt 0), (''disk_io_write_mode'', JInt 0), (''disk_queue_size'', JInt 0),
      (''dl_limit'', JInt (- 1)), (''dont_count_slow_torrents'', JBool False), (''dyndns_domain'', JText []),
      (''dyndns_enabled'', JBool False), (''dyndns_password'', JText []), (''dyndns_service'', JInt 0),
      (''dyndns_username'', JText []), (''embedded_tracker_port'', JInt 0),
      (''embedded_tracker_port_forwarding'', JBool False), (''enable_coalesce_read_write'', JBool False),
      (''enable_embedded_tracker'', JBool False), (''enable_multi_connections_from_same_ip'', JBool False),
      (''enable_piece_extent_affinity'', JBool False), (''enable_upload_suggestions'', JBool False),
      (''encryption'', JInt 0), (''excluded_file_names'', JText []),
      (''excluded_file_names_enabled'', JBool False), (''export_dir'', JText []), (''export_dir_fin'', JText []),
      (''file_log_age'', JInt 0), (''file_log_age_type'', JInt 0), (''file_log_backup_enabled'', JBool False),
      (''file_log_delete_old'', JBool False), (''file_log_enabled'', JBool False), (''file_log_max_size'', JInt 0),
      (''file_log_path'', JText []), (''file_pool_size'', JInt 0), (''hashing_threads'', JInt 0),
      (''i2p_address'', JText []), (''i2p_enabled'', JBool False), (''i2p_inbound_length'', JInt 0),
      (''i2p_inbound_quantity'', JInt 0), (''i2p_mixed_mode'', JBool False), (''i2p_outbound_length'', JInt 0),
      (''i2p_outbound_quantity'', JInt 0), (''i2p_port'', JInt 0), (''idn_support_enabled'', JBool False),
      (''incomplete_files_ext'', JBool False), (''ip_filter_enabled'', JBool False),
      (''ip_filter_path'', JText []), (''ip_filter_trackers'', JBool False), (''limit_lan_peers'', JBool False),
      (''limit_tcp_overhead'', JBool False), (''limit_utp_rate'', JBool False), (''listen_port'', JInt 0),
      (''locale'', JText []), (''lsd'', JBool False), (''mail_notification_auth_enabled'', JBool False),
      (''mail_notification_email'', JText []), (''mail_notification_enabled'', JBool False),
      (''mail_notification_password'', JText []), (''mail_notification_sender'', JText []),
      (''mail_notification_smtp'', JText []), (''mail_notification_ssl_enabled'', JBool False),
      (''mail_notification_username'', JText []), (''mark_of_the_web'', JBool False),
      (''max_active_checking_torrents'', JInt 0), (''max_active_downloads'', JInt 0),
      (''max_active_torrents'', JInt 0), (''max_active_uploads'', JInt 0),
      (''max_concurrent_http_announces'', JInt 0), (''max_connec'', JInt 0), (''max_connec_per_torrent'', JInt 0),
      (''max_inactive_seeding_time'', JInt (- 1)), (''max_inactive_seeding_time_enabled'', JBool False),
      (''max_ratio'', JFloat (Fin (- 1))), (''max_ratio_act'', JInt 0), (''max_ratio_enabled'', JBool False),
      (''max_seeding_time'', JInt (- 1)), (''max_seeding_time_enabled'', JBool False), (''max_uploads'', JInt 0),
      (''max_uploads_per_torrent'', JInt 0), (''memory_working_set_limit'', JInt 0),
      (''merge_trackers'', JBool False), (''outgoing_ports_max'', JInt 0), (''outgoing_ports_min'', JInt 0),
      (''peer_tos'', JInt 0), (''peer_turnover'', JInt 0), (''peer_turnover_cutoff'', JInt 0),
      (''peer_turnover_interval'', JInt 0), (''performance_warning'', JBool False), (''pex'', JBool False),
      (''preallocate_all'', JBool False), (''proxy_auth_enabled'', JBool False),
      (''proxy_bittorrent'', JBool False), (''proxy_hostname_lookup'', JBool False), (''proxy_ip'', JText []),
      (''proxy_misc'', JBool False), (''proxy_password'', JText []), (''proxy_peer_connections'', JBool False),
      (''proxy_port'', JInt 0), (''proxy_rss'', JBool False), (''proxy_type'', JInt 0),
      (''proxy_username'', JText []), (''python_executable_path'', JText []), (''queueing_enabled'', JBool False),
      (''random_port'', JBool False), (''reannounce_when_address_changed'', JBool False),
      (''recheck_completed_torrents'', JBool False), (''refresh_interval'', JInt 0),
      (''request_queue_size'', JInt 0), (''resolve_peer_countries'', JBool False),
      (''resume_data_storage_type'', JText []), (''rss_auto_downloading_enabled'', JBool False),
      (''rss_download_repack_proper_episodes'', JBool False), (''rss_fetch_delay'', JInt 0),
      (''rss_max_articles_per_feed'', JInt 0), (''rss_processing_enabled'', JBool False),
      (''rss_refresh_interval'', JInt 0), (''rss_smart_episode_filters'', JText []),
      (''save_path'', JText localRoot), (''save_path_changed_tmm_enabled'', JBool False),
      (''save_resume_data_interval'', JInt 0), (''scan_dirs'', JObject []), (''schedule_from_hour'', JInt 0),
      (''schedule_from_min'', JInt 0), (''schedule_to_hour'', JInt 0), (''schedule_to_min'', JInt 0),
      (''scheduler_days'', JInt 0), (''scheduler_enabled'', JBool False), (''send_buffer_low_watermark'', JInt 0),
      (''send_buffer_watermark'', JInt 0), (''send_buffer_watermark_factor'', JInt 0),
      (''slow_torrent_dl_rate_threshold'', JInt 0), (''slow_torrent_inactive_timer'', JInt 0),
      (''slow_torrent_ul_rate_threshold'', JInt 0), (''socket_backlog_size'', JInt 0),
      (''socket_receive_buffer_size'', JInt 0), (''socket_send_buffer_size'', JInt 0),
      (''ssl_enabled'', JBool False), (''ssl_listen_port'', JInt 0), (''ssrf_mitigation'', JBool False),
      (''stop_tracker_timeout'', JInt 0), (''temp_path'', JText []), (''temp_path_enabled'', JBool False),
      (''torrent_changed_tmm_enabled'', JBool False), (''torrent_content_layout'', JText ''Original''),
      (''torrent_content_remove_option'', JText []), (''torrent_file_size_limit'', JInt 0),
      (''torrent_stop_condition'', JText ''None''), (''up_limit'', JInt (- 1)),
      (''upload_choking_algorithm'', JInt 0), (''upload_slots_behavior'', JInt 0), (''upnp'', JBool False),
      (''upnp_lease_duration'', JInt 0), (''use_category_paths_in_manual_mode'', JBool False),
      (''use_https'', JBool False), (''use_subcategories'', JBool False), (''use_unwanted_folder'', JBool False),
      (''utp_tcp_mixed_mode'', JInt 0), (''validate_https_tracker_certificate'', JBool False),
      (''web_ui_address'', JText []), (''web_ui_ban_duration'', JInt 0),
      (''web_ui_clickjacking_protection_enabled'', JBool False), (''web_ui_csrf_protection_enabled'', JBool False),
      (''web_ui_custom_http_headers'', JText []), (''web_ui_domain_list'', JText []),
      (''web_ui_host_header_validation_enabled'', JBool False), (''web_ui_https_cert_path'', JText []),
      (''web_ui_https_key_path'', JText []), (''web_ui_max_auth_fail_count'', JInt 0), (''web_ui_port'', JInt 0),
      (''web_ui_reverse_proxies_list'', JText []), (''web_ui_reverse_proxy_enabled'', JBool False),
      (''web_ui_secure_cookie_enabled'', JBool False), (''web_ui_session_timeout'', JInt 0),
      (''web_ui_upnp'', JBool False), (''web_ui_use_custom_http_headers_enabled'', JBool False),
      (''web_ui_username'', JText [])]"

definition preferences_handler :: "Backend \<Rightarrow> reply act" where
  "preferences_handler be s =
     (let n = apCalls s
      in case ListSettings (faulty (beEnv be n)) (apSettings s) of
           Inl e \<Rightarrow> (Inl internalError, s\<lparr>apCalls := Suc n\<rparr>)
         | Inr m \<Rightarrow>
             (Inr (JsonReply (JObject (preference_values (beLocalRoot be)
                (case m ''qbt.add_trackers'' of None \<Rightarrow> [] | Some v \<Rightarrow> v)
                (m ''qbt.add_trackers_enabled'' = Some ''true'')))), s\<lparr>apCalls := Suc n\<rparr>))"

text \<open>\<open>json.Unmarshal\<close> into a text and into a Boolean: \<open>null\<close> leaves the zero value.\<close>

fun json_text :: "json \<Rightarrow> string option" where
  "json_text (JText t) = Some t"
| "json_text JNull = Some []"
| "json_text v = None"

fun json_bool :: "json \<Rightarrow> bool option" where
  "json_bool (JBool b) = Some b"
| "json_bool JNull = Some False"
| "json_bool v = None"

definition canonical_trackers :: "Backend \<Rightarrow> nat \<Rightarrow> string \<Rightarrow> string option" where
  "canonical_trackers be n trackers =
     (if trim_space trackers = [] then Some []
      else (let lines = map trim_space (split_on CHR 0x0A trackers)
            in if [] \<in> set lines then None
               else case normalizeTrackers (swMeta (beSubmit be n)) lines (scLimits (beSubmitConfig be)) of
                   Inl e \<Rightarrow> None | Inr canonical \<Rightarrow> Some (join_with [CHR 0x0A] canonical)))"

text \<open>A preference that may be absent: \<open>None\<close> when it is given and not acceptable.\<close>

definition optional_pref :: "(json \<Rightarrow> 'a option) \<Rightarrow> json option \<Rightarrow> 'a option option" where
  "optional_pref f v = (case v of None \<Rightarrow> Some None | Some j \<Rightarrow> map_option Some (f j))"

definition put_preferences :: "Backend \<Rightarrow> string option \<Rightarrow> bool option \<Rightarrow> unit act" where
  "put_preferences be trackers enabled s =
     (let n = apCalls s; out = UpdateQBTPreferences (faulty (beEnv be n)) trackers enabled (beNow be n) (apSettings s)
      in (case fst out of Inl e \<Rightarrow> Inl internalError | Inr u \<Rightarrow> Inr (),
          s\<lparr>apSettings := snd out, apCalls := Suc n\<rparr>))"

definition setPreferences :: "Backend \<Rightarrow> ApiRequest \<Rightarrow> reply act" where
  "setPreferences be r =
     act_bind (parseURLEncodedForm r) (\<lambda>f.
     act_bind (need (one_of f ''json'') badRequest) (\<lambda>raw.
     act_bind (check (trim_space raw \<noteq> []) badRequest) (\<lambda>_.
     act_bind (need (beParseObject be raw) badRequest) (\<lambda>submitted.
     act_bind calls_at (\<lambda>n.
     act_bind (need (optional_pref (\<lambda>j. obind (json_text j) (canonical_trackers be n)) (submitted ''add_trackers''))
                 badRequest) (\<lambda>trackers.
     act_bind (need (optional_pref json_bool (submitted ''add_trackers_enabled'')) badRequest) (\<lambda>enabled.
     if trackers = None \<and> enabled = None then ok_reply
     else done_with (put_preferences be trackers enabled))))))))"

definition getDirectoryContent :: "Backend \<Rightarrow> ApiRequest \<Rightarrow> reply act" where
  "getDirectoryContent be r =
     act_bind (qbtParams r) (\<lambda>params.
     act_bind (need (one_of params ''dirPath'') badRequest) (\<lambda>dirPath.
     act_bind (check (trim_space dirPath \<noteq> [] \<and> \<not> has_prefix dirPath '':'') badRequest) (\<lambda>_.
     act_bind (need (case params ''mode'' of None \<Rightarrow> Some ''all'' | Some vs \<Rightarrow> exactlyOne vs) badRequest) (\<lambda>mode.
     act_bind (or_else (fs_read be (\<lambda>dk fs. ListDirectory dk fs (beFsRoot be) dirPath mode))
        (\<lambda>e. if e = FsText ''unsafe path'' \<or> e = FsText ''invalid visibility'' then badRequest
             else if is_not_exist e \<or> as_errno e = Some ENOTDIR then notFound else internalError)) (\<lambda>paths.
     act_return (JsonReply (JList (map JText paths))))))))"

definition webAPIVersion :: "reply act" where "webAPIVersion = act_return (plain 200 ''2.11.0'')"
definition version_handler :: "reply act" where "version_handler = act_return (plain 200 ''v5.0.0-cd211'')"

definition buildInfo :: "string \<Rightarrow> reply act" where
  "buildInfo goos =
     act_return (JsonReply (JObject [(''bitness'', JInt 64), (''boost'', JText []), (''libtorrent'', JText []),
       (''openssl'', JText []), (''platform'', JText (if goos = ''darwin'' then ''macos'' else goos)),
       (''qt'', JText []), (''zlib'', JText [])]))"

definition defaultSavePath :: "Backend \<Rightarrow> reply act" where
  "defaultSavePath be = act_return (plain 200 (beLocalRoot be))"

definition networkInterfaceAddressList :: "ApiRequest \<Rightarrow> reply act" where
  "networkInterfaceAddressList r =
     act_bind (qbtParams r) (\<lambda>params.
     act_bind (need (one_of params ''iface'') badRequest) (\<lambda>_. act_return (JsonReply (JList []))))"

definition networkInterfaceList :: "reply act" where "networkInterfaceList = act_return (JsonReply (JList []))"

definition emptyFormPost :: "ApiRequest \<Rightarrow> reply act" where
  "emptyFormPost r = act_bind (parseURLEncodedForm r) (\<lambda>_. ok_reply)"

subsection \<open>log.go, rss.go, search.go, transfer.go\<close>

definition requireQBTParams :: "ApiRequest \<Rightarrow> string list \<Rightarrow> form act" where
  "requireQBTParams r names =
     act_bind (qbtParams r) (\<lambda>params.
     act_bind (check (list_all (\<lambda>name. params name \<noteq> None) names) badRequest) (\<lambda>_. act_return params))"

definition qbtNoop :: "ApiRequest \<Rightarrow> string list \<Rightarrow> reply act" where
  "qbtNoop r names = act_bind (requireQBTParams r names) (\<lambda>_. ok_reply)"

definition empty_list_reply :: "ApiRequest \<Rightarrow> reply act" where
  "empty_list_reply r = act_bind (qbtParams r) (\<lambda>_. act_return (JsonReply (JList [])))"

definition empty_object_reply :: "ApiRequest \<Rightarrow> string list \<Rightarrow> reply act" where
  "empty_object_reply r names = act_bind (requireQBTParams r names) (\<lambda>_. act_return (JsonReply (JObject [])))"

definition validSyntheticSearchID :: "ApiRequest \<Rightarrow> unit act" where
  "validSyntheticSearchID r =
     act_bind (requireQBTParams r [''id'']) (\<lambda>params.
     act_bind (need (one_of params ''id'') badRequest) (\<lambda>raw.
     check (Atoi raw = Some 0) notFound))"

definition searchResults :: "ApiRequest \<Rightarrow> reply act" where
  "searchResults r =
     act_bind (validSyntheticSearchID r) (\<lambda>_.
     act_return (JsonReply (JObject [(''results'', JList []), (''status'', JText ''Stopped''), (''total'', JInt 0)])))"

definition searchStatus :: "ApiRequest \<Rightarrow> reply act" where
  "searchStatus r = act_bind (validSyntheticSearchID r) (\<lambda>_. act_return (JsonReply (JList [])))"

definition search_ended :: "ApiRequest \<Rightarrow> reply act" where
  "search_ended r = done_with (validSyntheticSearchID r)"

definition searchStart :: "ApiRequest \<Rightarrow> reply act" where
  "searchStart r =
     act_bind (requireQBTParams r [''pattern'', ''category'', ''plugins'']) (\<lambda>_.
     act_return (JsonReply (JObject [(''id'', JInt 0)])))"

definition transferInfo :: "reply act" where
  "transferInfo =
     act_return (JsonReply (JObject [(''connection_status'', JText ''disconnected''), (''dht_nodes'', JInt 0),
       (''dl_info_data'', JInt 0), (''dl_info_speed'', JInt 0), (''dl_rate_limit'', JInt (- 1)),
       (''up_info_data'', JInt 0), (''up_info_speed'', JInt 0), (''up_rate_limit'', JInt (- 1))]))"

text \<open>The mode is the first value: a name that is present has one.\<close>

definition transferSetSpeedLimitsMode :: "ApiRequest \<Rightarrow> reply act" where
  "transferSetSpeedLimitsMode r =
     act_bind (requireQBTParams r [''mode'']) (\<lambda>params.
     case form_values params ''mode'' of
       [] \<Rightarrow> respond Panicked
     | v # _ \<Rightarrow> act_bind (check (Atoi v \<noteq> None) badRequest) (\<lambda>_. ok_reply))"

subsection \<open>Accepted without effect (torrents.go)\<close>

text \<open>The peers of the request that have an IP address and a port, and the rest.\<close>

definition peer_ok :: "Backend \<Rightarrow> string \<Rightarrow> bool" where
  "peer_ok be peer =
     (case SplitHostPort (trim_space peer) of
        None \<Rightarrow> False
      | Some (host, port) \<Rightarrow>
          beIsIP be host \<and> (case Atoi port of None \<Rightarrow> False | Some v \<Rightarrow> 0 \<le> v \<and> v \<le> 65535))"

definition addPeers :: "Backend \<Rightarrow> ApiRequest \<Rightarrow> reply act" where
  "addPeers be r =
     with_selection be r ''hashes'' (\<lambda>f hashes.
       act_bind (need (one_of f ''peers'') badRequest) (\<lambda>raw.
       let peers = split_on CHR ''|'' raw; added = length (filter (peer_ok be) peers)
       in act_bind (check (added \<noteq> 0) badRequest) (\<lambda>_.
          act_return (JsonReply (JObject (key_order (map (\<lambda>hash. (hash,
            JObject [(''added'', JInt (int added)), (''failed'', JInt (int (length peers) - int added))])) hashes)))))))"

definition with_names :: "form \<Rightarrow> string list \<Rightarrow> reply act" where
  "with_names f names = act_bind (check (list_all (\<lambda>name. one_of f name \<noteq> None) names) badRequest) (\<lambda>_. ok_reply)"

definition setShareLimits :: "Backend \<Rightarrow> ApiRequest \<Rightarrow> reply act" where
  "setShareLimits be r =
     with_selection be r ''hashes'' (\<lambda>f _. with_names f [''ratioLimit'', ''seedingTimeLimit'', ''inactiveSeedingTimeLimit''])"

definition setAutoManagement :: "Backend \<Rightarrow> ApiRequest \<Rightarrow> reply act" where
  "setAutoManagement be r = with_selection be r ''hashes'' (\<lambda>f _. with_names f [''enable''])"

definition setSuperSeeding :: "Backend \<Rightarrow> ApiRequest \<Rightarrow> reply act" where
  "setSuperSeeding be r = with_selection be r ''hashes'' (\<lambda>f _. with_names f [''value''])"

definition setDownloadLimit :: "Backend \<Rightarrow> ApiRequest \<Rightarrow> reply act" where
  "setDownloadLimit be r = with_selection be r ''hashes'' (\<lambda>f _. with_names f [''limit''])"

definition noopHashes :: "Backend \<Rightarrow> string \<Rightarrow> ApiRequest \<Rightarrow> reply act" where
  "noopHashes be field r = with_selection be r field (\<lambda>f _. ok_reply)"

definition with_torrent :: "Backend \<Rightarrow> string list \<Rightarrow> ApiRequest \<Rightarrow> reply act" where
  "with_torrent be names r =
     act_bind (parseURLEncodedForm r) (\<lambda>f.
     act_bind (requireSingleVisibleForm be f ''hash'') (\<lambda>_. with_names f names))"

definition addTrackers_handler :: "Backend \<Rightarrow> ApiRequest \<Rightarrow> reply act" where
  "addTrackers_handler be = with_torrent be [''urls'']"

definition removeTrackers :: "Backend \<Rightarrow> ApiRequest \<Rightarrow> reply act" where
  "removeTrackers be = with_torrent be [''urls'']"

definition setSSLParameters :: "Backend \<Rightarrow> ApiRequest \<Rightarrow> reply act" where
  "setSSLParameters be = with_torrent be [''ssl_certificate'', ''ssl_private_key'', ''ssl_dh_params'']"

definition editTracker :: "Backend \<Rightarrow> ApiRequest \<Rightarrow> reply act" where
  "editTracker be r =
     act_bind (parseURLEncodedForm r) (\<lambda>f.
     act_bind (requireSingleVisibleForm be f ''hash'') (\<lambda>_.
     act_bind (need (one_of f ''origUrl'') badRequest) (\<lambda>original.
     act_bind (need (one_of f ''newUrl'') badRequest) (\<lambda>newURL.
     act_bind (check (original = newURL \<or>
       (case beSchemeHost be newURL of None \<Rightarrow> False | Some (scheme, host) \<Rightarrow> scheme \<noteq> [] \<and> host \<noteq> [])) badRequest) (\<lambda>_.
     ok_reply)))))"

definition setDownloadPath :: "ApiRequest \<Rightarrow> reply act" where
  "setDownloadPath r = act_bind (parseURLEncodedForm r) (\<lambda>f. with_names f [''id'', ''path''])"

end
