(* ===== verification/Http_Routes.thy ===== *)
theory Http_Routes
  imports Http_App
begin

section \<open>The qBittorrent API as a whole (httpapi/handler.go)\<close>

text \<open>
  The table of routes, the dispatch behind the authentication boundary, and what a request can do: the
  locale \<open>api_reads\<close> states a relation on the state of the API by its closure under what a reading handler
  does, \<open>api_effects\<close> adds the operations; every handler then keeps the relation, whatever its branches.
\<close>

subsection \<open>Routes\<close>

definition read_routes :: "Backend \<Rightarrow> ApiRequest \<Rightarrow> (string \<times> reply act) list" where
  "read_routes be r =
     [(''app/buildInfo'', buildInfo (beGoos be)), (''app/defaultSavePath'', defaultSavePath be),
      (''app/getDirectoryContent'', getDirectoryContent be r),
      (''app/networkInterfaceAddressList'', networkInterfaceAddressList r),
      (''app/networkInterfaceList'', networkInterfaceList), (''app/preferences'', preferences_handler be),
      (''app/version'', version_handler), (''app/webapiVersion'', webAPIVersion),
      (''log/main'', empty_list_reply r), (''log/peers'', empty_list_reply r),
      (''rss/items'', empty_object_reply r []), (''rss/matchingArticles'', empty_object_reply r [''ruleName'']),
      (''rss/rules'', empty_object_reply r []), (''search/plugins'', empty_list_reply r),
      (''search/results'', searchResults r), (''search/status'', searchStatus r),
      (''sync/maindata'', syncMainData be r), (''sync/torrentPeers'', syncTorrentPeers be r),
      (''torrents/SSLParameters'', torrents_sslParameters be r), (''torrents/categories'', torrents_categories be),
      (''torrents/count'', torrents_count be), (''torrents/downloadLimit'', torrents_limits r ''hashes''),
      (''torrents/files'', torrents_files be r), (''torrents/info'', torrents_info be r),
      (''torrents/pieceHashes'', torrents_pieceHashes be r), (''torrents/pieceStates'', torrents_pieceStates be r),
      (''torrents/properties'', torrents_properties be r), (''torrents/tags'', torrents_tags be),
      (''torrents/trackers'', torrents_trackers be r), (''torrents/uploadLimit'', torrents_limits r ''hashes''),
      (''torrents/webseeds'', torrents_webseeds be r), (''transfer/downloadLimit'', act_return (plain 200 ''-1'')),
      (''transfer/info'', transferInfo), (''transfer/speedLimitsMode'', act_return (plain 200 ''0'')),
      (''transfer/uploadLimit'', act_return (plain 200 ''-1''))]"

definition noop_routes :: "ApiRequest \<Rightarrow> (string \<times> reply act) list" where
  "noop_routes r =
     [(''app/sendTestEmail'', emptyFormPost r), (''app/shutdown'', emptyFormPost r),
      (''rss/addFeed'', qbtNoop r [''url'', ''path'']), (''rss/addFolder'', qbtNoop r [''path'']),
      (''rss/markAsRead'', qbtNoop r [''itemPath'']), (''rss/moveItem'', qbtNoop r [''itemPath'', ''destPath'']),
      (''rss/refreshItem'', qbtNoop r [''itemPath'']), (''rss/removeItem'', qbtNoop r [''path'']),
      (''rss/removeRule'', qbtNoop r [''ruleName'']), (''rss/renameRule'', qbtNoop r [''ruleName'', ''newRuleName'']),
      (''rss/setFeedURL'', qbtNoop r [''path'', ''url'']), (''rss/setRule'', qbtNoop r [''ruleName'', ''ruleDef'']),
      (''search/delete'', search_ended r), (''search/downloadTorrent'', qbtNoop r [''torrentUrl'', ''pluginName'']),
      (''search/enablePlugin'', qbtNoop r [''names'', ''enable'']), (''search/installPlugin'', qbtNoop r [''sources'']),
      (''search/start'', searchStart r), (''search/stop'', search_ended r),
      (''search/uninstallPlugin'', qbtNoop r [''names'']), (''search/updatePlugins'', qbtNoop r []),
      (''transfer/banPeers'', qbtNoop r [''peers'']), (''transfer/setDownloadLimit'', qbtNoop r [''limit'']),
      (''transfer/setSpeedLimitsMode'', transferSetSpeedLimitsMode r),
      (''transfer/setUploadLimit'', qbtNoop r [''limit'']), (''transfer/toggleSpeedLimitsMode'', qbtNoop r []),
      (''torrents/export'', act_return notFound), (''torrents/setDownloadPath'', setDownloadPath r)]"

definition accept_routes :: "Backend \<Rightarrow> ApiRequest \<Rightarrow> (string \<times> reply act) list" where
  "accept_routes be r =
     [(''torrents/addPeers'', addPeers be r), (''torrents/addTrackers'', addTrackers_handler be r),
      (''torrents/bottomPrio'', noopHashes be ''hashes'' r), (''torrents/decreasePrio'', noopHashes be ''hashes'' r),
      (''torrents/editTracker'', editTracker be r), (''torrents/increasePrio'', noopHashes be ''hashes'' r),
      (''torrents/reannounce'', noopHashes be ''hashes'' r), (''torrents/removeTrackers'', removeTrackers be r),
      (''torrents/setAutoManagement'', setAutoManagement be r), (''torrents/setDownloadLimit'', setDownloadLimit be r),
      (''torrents/setSSLParameters'', setSSLParameters be r), (''torrents/setShareLimits'', setShareLimits be r),
      (''torrents/setSuperSeeding'', setSuperSeeding be r), (''torrents/setUploadLimit'', setDownloadLimit be r),
      (''torrents/toggleFirstLastPiecePrio'', noopHashes be ''hashes'' r),
      (''torrents/toggleSequentialDownload'', noopHashes be ''hashes'' r), (''torrents/topPrio'', noopHashes be ''hashes'' r)]"

definition effect_routes :: "Backend \<Rightarrow> ApiRequest \<Rightarrow> AddRequest \<Rightarrow> (string \<times> reply act) list" where
  "effect_routes be r add =
     [(''app/setPreferences'', setPreferences be r), (''torrents/add'', addTorrent be add),
      (''torrents/addTags'', addTags_handler be r), (''torrents/createCategory'', createCategory be r),
      (''torrents/createTags'', createTags_handler be r), (''torrents/delete'', deleteTorrents be r),
      (''torrents/deleteTags'', deleteTags_handler be r), (''torrents/editCategory'', editCategory be r),
      (''torrents/filePrio'', filePriority be r), (''torrents/recheck'', recheck_handler be r),
      (''torrents/removeCategories'', removeCategories_handler be r), (''torrents/removeTags'', removeTags_handler be r),
      (''torrents/rename'', renameTorrent be r), (''torrents/renameFile'', renameFile be r),
      (''torrents/renameFolder'', renameFolder be r), (''torrents/setCategory'', setCategory_handler be r),
      (''torrents/setForceStart'', setForceStart be r), (''torrents/setLocation'', setLocation be r),
      (''torrents/setSavePath'', setSavePath_handler be r), (''torrents/start'', start_handler be r),
      (''torrents/stop'', stop_handler be r)]"

definition apiPrefix :: string where "apiPrefix = ''/api/v2/''"

definition routed :: "string \<Rightarrow> (string \<times> reply act) list \<Rightarrow> reply act option" where
  "routed p routes = (if has_prefix p apiPrefix then map_of routes (drop (length apiPrefix) p) else None)"

definition methodNotAllowed :: reply where "methodNotAllowed = plain 405 (''Method Not Allowed'' @ [CHR 0x0A])"

text \<open>The handler of a route of the tables, behind the check of the method.\<close>

definition api_route :: "Backend \<Rightarrow> ApiRequest \<Rightarrow> AddRequest \<Rightarrow> reply act option" where
  "api_route be r add =
     (case routed (hrPath r) (read_routes be r) of
        Some h \<Rightarrow> Some (if hrMethod r = ''GET'' \<or> hrMethod r = ''POST'' then h else respond methodNotAllowed)
      | None \<Rightarrow>
          (case routed (hrPath r) (noop_routes r @ accept_routes be r @ effect_routes be r add) of
             Some h \<Rightarrow> Some (if hrMethod r = ''POST'' then h else respond methodNotAllowed)
           | None \<Rightarrow> None))"

definition api_answer :: "Backend \<Rightarrow> ApiRequest \<Rightarrow> AddRequest \<Rightarrow> Api \<Rightarrow> reply \<times> Api" where
  "api_answer be r add = finish (case api_route be r add of Some h \<Rightarrow> h | None \<Rightarrow> respond notFound)"

text \<open>
  The two routes of authentication work on the sessions and the login attempts.  A \<open>Set-Cookie\<close> header is
  kept as the session identifier and its end, or as the expired cookie.  What a request meets in the
  authentication stores: the failing statements of the boundary and of the handler, the two
  readings of the clock, the random source, and what other requests do to the sessions meanwhile.
\<close>

datatype set_cookie = SetSID string time | ClearSID

record AuthCalls =
  acBoundary :: faults
  acHandler :: faults
  acNow :: time
  acNow2 :: time
  acRandom :: "string option list"
  acOthers :: "nat \<Rightarrow> session_row list \<Rightarrow> session_row list"

fun login_answer :: "login_reply \<Rightarrow> reply \<times> set_cookie list" where
  "login_answer LoginBadRequest = (badRequest, [])"
| "login_answer LoginInternalError = (internalError, [])"
| "login_answer (LoginFails status) = (plain status ''Fails.'', [])"
| "login_answer (LoginOk sid expires) = (plain 200 ''Ok.'', [SetSID sid expires])"

fun logout_answer :: "logout_reply \<Rightarrow> reply \<times> set_cookie list" where
  "logout_answer LogoutBadRequest = (badRequest, [])"
| "logout_answer LogoutInternalError = (internalError, [])"
| "logout_answer LogoutDone = (OkReply, [ClearSID])"

definition login_handler :: "AuthCalls \<Rightarrow> SessionConfig \<Rightarrow> HttpRequest \<Rightarrow> ApiRequest \<Rightarrow> AuthState \<Rightarrow>
    (reply \<times> set_cookie list) \<times> AuthState" where
  "login_handler ac c hq r a =
     (case login (acHandler ac) c (acNow2 ac) (acRandom ac) hq (map_option form_values (hrForm r)) a of
        (rep, a') \<Rightarrow> (login_answer rep, a'))"

definition logout_handler :: "AuthCalls \<Rightarrow> HttpRequest \<Rightarrow> ApiRequest \<Rightarrow> AuthState \<Rightarrow>
    (reply \<times> set_cookie list) \<times> AuthState" where
  "logout_handler ac hq r a =
     (case logout (acHandler ac) (hrForm r \<noteq> None) hq a of (rep, a') \<Rightarrow> (logout_answer rep, a'))"

definition auth_paths :: "string list" where
  "auth_paths = [apiPrefix @ ''auth/login'', apiPrefix @ ''auth/logout'']"

definition dispatch :: "AuthCalls \<Rightarrow> SessionConfig \<Rightarrow> HttpRequest \<Rightarrow> Backend \<Rightarrow> ApiRequest \<Rightarrow> AddRequest \<Rightarrow>
    AuthState \<times> Api \<Rightarrow> (reply \<times> set_cookie list) \<times> AuthState \<times> Api" where
  "dispatch ac c hq be r add st =
     (if hrPath r \<in> set auth_paths then
        (if hrMethod r \<noteq> ''POST'' then ((methodNotAllowed, []), st)
         else case (if hrPath r = apiPrefix @ ''auth/login'' then login_handler ac c hq r (fst st)
                    else logout_handler ac hq r (fst st)) of
             (rep, a) \<Rightarrow> (rep, a, snd st))
      else case api_answer be r add (snd st) of (rep, s) \<Rightarrow> ((rep, []), fst st, s))"

text \<open>
  The whole handler: a request that the boundary does not serve is answered there; a renewed session is
  sent before what the handler sends.
\<close>

definition ServeHTTP :: "AuthCalls \<Rightarrow> Front \<Rightarrow> SessionConfig \<Rightarrow> HttpRequest \<Rightarrow> Backend \<Rightarrow> ApiRequest \<Rightarrow> AddRequest \<Rightarrow>
    AuthState \<times> Api \<Rightarrow> (reply \<times> set_cookie list) \<times> AuthState \<times> Api" where
  "ServeHTTP ac fr c hq be r add st =
     (case authBoundary (acBoundary ac) fr c (acOthers ac) (acNow ac) hq (fst st) of
        (Served p renewed, a) \<Rightarrow>
          (case dispatch ac c hq be r add (a, snd st) of
             ((rep, cookies), st') \<Rightarrow>
               ((rep, (case renewed of None \<Rightarrow> [] | Some (sid, expires) \<Rightarrow> [SetSID sid expires]) @ cookies), st'))
      | (Forbidden, a) \<Rightarrow> ((forbidden, []), a, snd st)
      | (Unauthorized, a) \<Rightarrow> ((Reply 401 [], []), a, snd st)
      | (InternalError, a) \<Rightarrow> ((internalError, []), a, snd st))"

text \<open>In the server's table of routes the login form stands before the boundary.\<close>

definition root_api :: "AuthCalls \<Rightarrow> Front \<Rightarrow> SessionConfig \<Rightarrow> HttpRequest \<Rightarrow> Backend \<Rightarrow> ApiRequest \<Rightarrow> AddRequest \<Rightarrow>
    AuthState \<times> Api \<Rightarrow> (reply \<times> set_cookie list) \<times> AuthState \<times> Api" where
  "root_api ac fr c hq be r add st =
     (if hrMethod r = ''POST'' \<and> hrPath r = apiPrefix @ ''auth/login''
      then (case login_handler ac c hq r (fst st) of (rep, a) \<Rightarrow> (rep, a, snd st))
      else ServeHTTP ac fr c hq be r add st)"

subsection \<open>Relations that handlers keep\<close>

locale api_reads =
  fixes R :: "Backend \<Rightarrow> Api \<Rightarrow> Api \<Rightarrow> bool"
  assumes R_refl: "R be s s"
    and R_trans: "R be s t \<Longrightarrow> R be t u \<Longrightarrow> R be s u"
    and R_tick: "R be s (s\<lparr>apCalls := n\<rparr>)"
    and R_others: "R be s (s\<lparr>apDb := beOthers be k (apDb s)\<rparr>)"
begin

definition keeps :: "Backend \<Rightarrow> 'a act \<Rightarrow> bool" where
  "keeps be m \<longleftrightarrow> (\<forall>s. R be s (snd (m s)))"

named_theorems kept

lemma keepsD: "keeps be m \<Longrightarrow> R be s (snd (m s))"
  by (simp add: keeps_def)

lemma keeps_pure [kept]:
  "keeps be (act_return x)" "keeps be (respond r)" "keeps be (check c r)" "keeps be (need v r)" "keeps be (now_at be')"
  "keeps be calls_at"
  by (simp_all add: keeps_def act_defs R_refl split: option.splits)

lemma keeps_bind [kept]:
  assumes "keeps be m" "\<And>x. keeps be (f x)"
  shows "keeps be (act_bind m f)"
  unfolding keeps_def
proof
  fix s
  show "R be s (snd (act_bind m f s))"
    using keepsD [OF assms(1), of s] keepsD [OF assms(2)] R_trans
    by (fastforce simp: act_bind_def split: prod.splits sum.splits)
qed

lemma keeps_or_else [kept]: "keeps be m \<Longrightarrow> keeps be (or_else m h)"
  unfolding or_else_def by (intro keeps_bind) (auto split: sum.splits intro: kept)

lemma keeps_done [kept]: "keeps be m \<Longrightarrow> keeps be (done_with m)"
  unfolding done_with_def by (intro kept)

lemma keeps_each [kept]: "(\<And>x. keeps be (f x)) \<Longrightarrow> keeps be (act_each f xs)"
  by (induction xs) (auto intro!: kept)

lemma keeps_any [kept]: "(\<And>x. keeps be (f x)) \<Longrightarrow> keeps be (act_any f xs)"
  by (induction xs) (auto intro!: kept)

lemma keeps_read [kept]: "keeps be (repo_read be f)"
  unfolding keeps_def
proof
  fix s
  have "R be s (s\<lparr>apDb := beOthers be (apCalls s) (apDb s)\<rparr>)" by (rule R_others)
  then show "R be s (snd (repo_read be f s))"
    using R_trans R_tick [of be "s\<lparr>apDb := beOthers be (apCalls s) (apDb s)\<rparr>" "Suc (apCalls s)"]
    by (auto simp: repo_read_def repo_call_def Let_def)
qed

lemma keeps_fs_read [kept]: "keeps be (fs_read be f)"
  by (simp add: keeps_def fs_read_def R_tick)

lemma keeps_finish: "keeps be m \<Longrightarrow> R be s (snd (finish m s))"
  using keepsD [of be m s] by (auto simp: finish_def split: prod.splits sum.splits)

lemma keeps_form [kept]:
  "keeps be (parseURLEncodedForm r)" "keeps be (qbtParams r)" "keeps be (requireQBTParams r names)"
  "keeps be (with_names f names)" "keeps be ok_reply" "keeps be (rename_paths f)" "keeps be (clean_value f name)"
  by (auto simp: parseURLEncodedForm_def qbtParams_def requireQBTParams_def with_names_def ok_reply_def
      rename_paths_def clean_value_def intro!: kept)

lemma keeps_visible [kept]: "keeps be (visibleDownload be hash)" "keeps be (requireVisibleHash be r)"
    "keeps be (requireSingleVisibleForm be f name)" "keeps be (projected be d)"
  by (auto simp: visibleDownload_def get_visible_def requireVisibleHash_def requireSingleVisibleForm_def
      projected_def split: sum.splits intro!: kept)

lemma keeps_select [kept]: "keeps be (select_parts be seen parts)"
  by (induction be seen parts rule: select_parts.induct) (auto split: option.splits sum.splits intro!: kept)

lemma keeps_selection [kept]: "(\<And>f hs. keeps be (k f hs)) \<Longrightarrow> keeps be (with_selection be r name k)"
  by (auto simp: with_selection_def selectedHashes_def intro!: kept)

lemma keeps_selected [kept]: "keeps be (selectedHashes be f name)"
  by (auto simp: selectedHashes_def intro!: kept)

lemma keeps_preferences [kept]: "keeps be (preferences_handler be)"
  by (auto simp: keeps_def preferences_handler_def Let_def R_tick split: sum.splits)

lemma routed_keeps: "list_all (\<lambda>(p, h). keeps be h) routes \<Longrightarrow> routed p routes = Some h \<Longrightarrow> keeps be h"
  by (auto simp: routed_def list_all_iff dest!: map_of_SomeD split: if_splits)

lemma reads_keep: "list_all (\<lambda>(p, h). keeps be h) (read_routes be r)"
  unfolding read_routes_def list.pred_inject prod.case
  by (intro conjI TrueI; (unfold buildInfo_def defaultSavePath_def getDirectoryContent_def networkInterfaceAddressList_def
      networkInterfaceList_def version_handler_def webAPIVersion_def empty_list_reply_def empty_object_reply_def
      searchResults_def searchStatus_def validSyntheticSearchID_def syncMainData_def syncTorrentPeers_def
      torrents_sslParameters_def torrents_categories_def torrents_count_def torrents_limits_def torrents_files_def
      torrents_info_def torrents_pieceHashes_def torrents_pieceStates_def torrents_properties_def torrents_tags_def
      torrents_trackers_def torrents_webseeds_def transferInfo_def after_visible_def)?;
      (auto split: option.splits list.splits intro!: kept)?)

lemma noops_keep: "list_all (\<lambda>(p, h). keeps be h) (noop_routes r)"
  unfolding noop_routes_def list.pred_inject prod.case
  by (intro conjI TrueI; (unfold emptyFormPost_def qbtNoop_def search_ended_def searchStart_def
      validSyntheticSearchID_def transferSetSpeedLimitsMode_def setDownloadPath_def)?;
      (auto split: list.splits intro!: kept)?)

lemma accepts_keep: "list_all (\<lambda>(p, h). keeps be h) (accept_routes be r)"
  unfolding accept_routes_def list.pred_inject prod.case
  by (intro conjI TrueI; (unfold addPeers_def addTrackers_handler_def noopHashes_def editTracker_def removeTrackers_def
      setAutoManagement_def setDownloadLimit_def setSSLParameters_def setShareLimits_def setSuperSeeding_def
      with_torrent_def Let_def)?;
      (auto intro!: kept)?)

end

definition drawn :: "(string list \<Rightarrow> string list) \<Rightarrow> Env \<Rightarrow> Oracle" where
  "drawn ord env = \<lparr>orEnv = env, orOrder = ord, orParse = (\<lambda>_. None)\<rparr>"

locale api_effects = api_reads +
  assumes R_op: "R be s (s\<lparr>apDb := run_op w a (apDb s)\<rparr>)"
    and R_meanwhile: "R be s (s\<lparr>apDb := swMeanwhile (beSubmit be k) (apDb s)\<rparr>)"
    and R_fs: "R be s (s\<lparr>apFs := fs\<rparr>)"
    and R_settings: "R be s (s\<lparr>apSettings := t\<rparr>)"
    and R_wake: "R be s (s\<lparr>apWakes := n\<rparr>)"
begin

lemma R_calls: "R be s t \<Longrightarrow> R be s (t\<lparr>apCalls := n\<rparr>)"
  by (erule R_trans) (rule R_tick)

text \<open>An operation that changes the database as some operation of the store would.\<close>

lemma keeps_call:
  assumes "\<And>env db. \<exists>w a. snd (f env db) = run_op w a db"
  shows "keeps be (repo_call be f)"
  unfolding keeps_def
proof
  fix s :: Api
  define n where "n = apCalls s"
  define t where "t = s\<lparr>apDb := beOthers be n (apDb s)\<rparr>"
  obtain w a where wa: "snd (f (beEnv be n) (apDb t)) = run_op w a (apDb t)" using assms by blast
  have "R be s t" by (simp add: t_def R_others)
  moreover have "R be t (t\<lparr>apDb := run_op w a (apDb t)\<rparr>)" by (rule R_op)
  ultimately have "R be s (t\<lparr>apDb := run_op w a (apDb t)\<rparr>)" by (rule R_trans)
  then have "R be s (t\<lparr>apDb := run_op w a (apDb t)\<rparr>\<lparr>apCalls := Suc n\<rparr>)" by (rule R_calls)
  then show "R be s (snd (repo_call be f s))"
    using wa by (simp add: repo_call_def Let_def t_def n_def)
qed

lemma keeps_op:
  assumes "\<And>env db. snd (f env db) = run_op (w env) a db"
  shows "keeps be (repo_call be f)"
  using assms by (intro keeps_call) blast

lemma keeps_do:
  assumes "\<And>env now db. snd (f env now db) = run_op (w env) (a now) db"
  shows "keeps be (repo_do be f)"
proof -
  have "keeps be (repo_call be (\<lambda>env. f env now))" for now
    by (rule keeps_op [where w = w and a = "a now"]) (rule assms)
  then show ?thesis unfolding repo_do_def by (intro kept)
qed

lemma keeps_fs_call [kept]: "keeps be (fs_call be f)"
  by (auto simp: keeps_def fs_call_def Let_def intro: R_calls R_fs)

lemma keeps_wake [kept]: "keeps be wake" "keeps be (wake_if c)"
  by (simp_all add: keeps_def wake_def wake_if_def act_return_def R_wake R_refl)

lemma keeps_put_row [kept]: "keeps be (put_row be c h)"
  unfolding put_row_def
  by (intro kept keeps_op [where w = "drawn id" and a = "OpUpsertCategory c"]) (simp add: drawn_def)

lemma keeps_dos [kept]:
  "keeps be (repo_do be (\<lambda>env. SetCategory env hash category))"
  "keeps be (repo_do be (\<lambda>env. RequestDelete env (beOrder be) hashes del))"
  "keeps be (repo_do be (\<lambda>env. AddTags env hashes tags))"
  "keeps be (repo_do be (\<lambda>env. RemoveTags env hashes tags))"
  "keeps be (repo_do be (\<lambda>env. CreateTags env tags))"
  "keeps be (repo_do be (\<lambda>env. DeleteTags env tags))"
  "keeps be (repo_do be (\<lambda>env. RemoveCategories env names))"
  "keeps be (repo_do be (\<lambda>env. SetSavePaths env hashes p))"
  "keeps be (repo_do be (\<lambda>env. SetFilePriorities env hash idx pr))"
  "keeps be (repo_do be (\<lambda>env. SetFileOverride env hash i p pr))"
  "keeps be (repo_do be (\<lambda>env. RenameFolder env hash p q))"
  "keeps be (repo_do be (\<lambda>env. RenameDownload env hash nm))"
proof -
  show "keeps be (repo_do be (\<lambda>env. SetCategory env hash category))"
    by (rule keeps_do [where w = "drawn (beOrder be)" and a = "OpSetCategory hash category"]) (simp add: drawn_def)
  show "keeps be (repo_do be (\<lambda>env. RequestDelete env (beOrder be) hashes del))"
    by (rule keeps_do [where w = "drawn (beOrder be)" and a = "OpRequestDelete hashes del"]) (simp add: drawn_def)
  show "keeps be (repo_do be (\<lambda>env. AddTags env hashes tags))"
    by (rule keeps_do [where w = "drawn (beOrder be)" and a = "OpAddTags hashes tags"]) (simp add: drawn_def)
  show "keeps be (repo_do be (\<lambda>env. RemoveTags env hashes tags))"
    by (rule keeps_do [where w = "drawn (beOrder be)" and a = "OpRemoveTags hashes tags"]) (simp add: drawn_def)
  show "keeps be (repo_do be (\<lambda>env. CreateTags env tags))"
    by (rule keeps_do [where w = "drawn (beOrder be)" and a = "OpCreateTags tags"]) (simp add: drawn_def)
  show "keeps be (repo_do be (\<lambda>env. DeleteTags env tags))"
    by (rule keeps_do [where w = "drawn (beOrder be)" and a = "OpDeleteTags tags"]) (simp add: drawn_def)
  show "keeps be (repo_do be (\<lambda>env. RemoveCategories env names))"
    by (rule keeps_do [where w = "drawn (beOrder be)" and a = "OpRemoveCategories names"]) (simp add: drawn_def)
  show "keeps be (repo_do be (\<lambda>env. SetSavePaths env hashes p))"
    by (rule keeps_do [where w = "drawn (beOrder be)" and a = "OpSetSavePaths hashes p"]) (simp add: drawn_def)
  show "keeps be (repo_do be (\<lambda>env. SetFilePriorities env hash idx pr))"
    by (rule keeps_do [where w = "drawn (beOrder be)" and a = "OpSetFilePriorities hash idx pr"]) (simp add: drawn_def)
  show "keeps be (repo_do be (\<lambda>env. SetFileOverride env hash i p pr))"
    by (rule keeps_do [where w = "drawn (beOrder be)" and a = "OpSetFileOverride hash i p pr"]) (simp add: drawn_def)
  show "keeps be (repo_do be (\<lambda>env. RenameFolder env hash p q))"
    by (rule keeps_do [where w = "drawn (beOrder be)" and a = "OpRenameFolder hash p q"]) (simp add: drawn_def)
  show "keeps be (repo_do be (\<lambda>env. RenameDownload env hash nm))"
    by (rule keeps_do [where w = "drawn (beOrder be)" and a = "OpRenameDownload hash nm"]) (simp add: drawn_def)
qed

lemma keeps_intents [kept]:
  "keeps be (repo_call be (\<lambda>env. Start env hash now))"
  "keeps be (repo_call be (\<lambda>env. Pause env hash now))"
  "keeps be (repo_call be (\<lambda>env. Retry env hash st now))"
  "keeps be (repo_call be (\<lambda>env. Reverify env hash now))"
proof -
  show "keeps be (repo_call be (\<lambda>env. Start env hash now))"
    by (rule keeps_op [where w = "drawn (beOrder be)" and a = "OpStart hash now"]) (simp add: drawn_def)
  show "keeps be (repo_call be (\<lambda>env. Pause env hash now))"
    by (rule keeps_op [where w = "drawn (beOrder be)" and a = "OpPause hash now"]) (simp add: drawn_def)
  show "keeps be (repo_call be (\<lambda>env. Retry env hash st now))"
    by (rule keeps_op [where w = "drawn (beOrder be)" and a = "OpRetry hash st now"]) (simp add: drawn_def)
  show "keeps be (repo_call be (\<lambda>env. Reverify env hash now))"
    by (rule keeps_op [where w = "drawn (beOrder be)" and a = "OpReverify hash now"]) (simp add: drawn_def)
qed

text \<open>A submission reaches the store only through \<open>CreateSubmission\<close>.\<close>

lemma submit_db:
  "snd (SubmitMagnetWithOptions c w env raw category stopped o' db) = db \<or>
   (\<exists>sub. snd (SubmitMagnetWithOptions c w env raw category stopped o' db) = snd (CreateSubmission env sub (swMeanwhile w db)))"
  "snd (SubmitTorrentWithOptions c w env data category stopped o' db) = db \<or>
   (\<exists>sub. snd (SubmitTorrentWithOptions c w env data category stopped o' db) = snd (CreateSubmission env sub (swMeanwhile w db)))"
  by (auto simp: SubmitMagnetWithOptions_def SubmitTorrentWithOptions_def submit_def
      split: sum.splits option.splits prod.splits) (metis snd_conv)+

lemma keeps_submit:
  assumes f: "\<And>w env db. snd (f (beSubmitConfig be) w env db) = db \<or>
    (\<exists>sub. snd (f (beSubmitConfig be) w env db) = snd (CreateSubmission env sub (swMeanwhile w db)))"
  shows "keeps be (submit_call be f)"
  unfolding keeps_def
proof
  fix s :: Api
  define n where "n = apCalls s"
  define w where "w = (beSubmit be n)\<lparr>swSettings := Some (settings_text (ListSettings (faulty (beEnv be n)) (apSettings s)))\<rparr>"
  define t where "t = s\<lparr>apDb := beOthers be n (apDb s)\<rparr>"
  define db' where "db' = snd (f (beSubmitConfig be) w (beEnv be n) (apDb t))"
  have st: "R be s t" by (simp add: t_def R_others)
  have "R be s (t\<lparr>apDb := db'\<rparr>)"
  proof (cases "db' = apDb t")
    case True
    with st show ?thesis by simp
  next
    case False
    then obtain sub where sub: "db' = snd (CreateSubmission (beEnv be n) sub (swMeanwhile (beSubmit be n) (apDb t)))"
      using f [of w "beEnv be n" "apDb t"] by (auto simp: db'_def w_def)
    let ?u = "t\<lparr>apDb := swMeanwhile (beSubmit be n) (apDb t)\<rparr>"
    have "R be t ?u" by (rule R_meanwhile)
    moreover have "R be ?u (?u\<lparr>apDb := run_op (drawn id (beEnv be n)) (OpCreateSubmission sub) (apDb ?u)\<rparr>)" by (rule R_op)
    ultimately have "R be t (t\<lparr>apDb := db'\<rparr>)" using R_trans sub by (fastforce simp: drawn_def)
    with st show ?thesis by (rule R_trans)
  qed
  then have "R be s (t\<lparr>apDb := db'\<rparr>\<lparr>apCalls := Suc n\<rparr>)" by (rule R_calls)
  then have "R be s (t\<lparr>apDb := db'\<rparr>\<lparr>apCalls := Suc n\<rparr>\<lparr>apWakes := k\<rparr>)" for k by (rule R_trans) (rule R_wake)
  then show "R be s (snd (submit_call be f s))"
    by (simp add: submit_call_def Let_def t_def n_def w_def db'_def)
qed

lemma keeps_recorded [kept]: "keeps be m \<Longrightarrow> keeps be (recorded o' name m)"
  unfolding recorded_def by (auto split: sum.splits intro!: kept)

lemma keeps_add [kept]: "keeps be (add_url be cookie category stopped o' raw)" "keeps be (add_file be category stopped o' file)"
proof -
  have t: "keeps be (recorded o' name (submit_call be (\<lambda>c w env. SubmitTorrentWithOptions c w env data category stopped o')))" for name data
    by (intro kept keeps_submit submit_db)
  have m: "keeps be (recorded o' name (submit_call be (\<lambda>c w env. SubmitMagnetWithOptions c w env data category stopped o')))" for name data
    by (intro kept keeps_submit submit_db)
  show "keeps be (add_file be category stopped o' file)"
    by (auto simp: add_file_def split: option.splits intro!: kept t)
  show "keeps be (add_url be cookie category stopped o' raw)"
    by (auto simp: add_url_def Let_def split: option.splits intro!: kept t m)
qed

lemma keeps_put_preferences [kept]: "keeps be (put_preferences be trackers enabled)"
  by (auto simp: keeps_def put_preferences_def Let_def intro: R_calls R_settings)

lemma keeps_selected_one [kept]: "keeps be (start_selected be now hash)" "keeps be (stop_selected be now hash)"
    "keeps be (recheck_selected be now hash)" "keeps be (check_not_started be hash)" "keeps be (start_all be hashes)"
    "keeps be (prepared_root be raw)" "keeps be (apply_plans be d plans)" "keeps be (applyCompletedFilePlan be d p q len)"
  by (auto simp: start_selected_def stop_selected_def recheck_selected_def check_not_started_def start_all_def
      prepared_root_def applyCompletedFilePlan_def apply_plans_def split: sum.splits intro!: kept)

lemma effects_keep: "list_all (\<lambda>(p, h). keeps be h) (effect_routes be r add)"
  unfolding effect_routes_def list.pred_inject prod.case
  by (intro conjI TrueI; (unfold setPreferences_def addTorrent_def addTags_handler_def createCategory_def
      createTags_handler_def deleteTorrents_def deleteTags_handler_def editCategory_def filePriority_def recheck_handler_def
      removeCategories_handler_def removeTags_handler_def renameTorrent_def renameFile_def renameFolder_def
      setCategory_handler_def setForceStart_def setLocation_def setSavePath_handler_def start_handler_def stop_handler_def
      tag_list_handler_def Let_def)?;
      (auto split: sum.splits prod.splits intro!: kept)?)

lemma answer_keeps: "R be s (snd (api_answer be r add s))"
proof -
  have all: "list_all (\<lambda>(p, h). keeps be h) (noop_routes r @ accept_routes be r @ effect_routes be r add)"
    using noops_keep accepts_keep effects_keep by simp
  show ?thesis
    using routed_keeps [OF reads_keep] routed_keeps [OF all]
    by (auto simp: api_answer_def api_route_def split: option.splits intro!: keeps_finish kept)
qed

end

end
