(* ===== verification/Http_Facts.thy ===== *)
theory Http_Facts
  imports Http_Routes "HOL-Library.Multiset"
begin

section \<open>What a request to the qBittorrent API does\<close>

text \<open>
  The relations of the API interpreted: requests are runs of store operations, and every route but those
  of the table of effects leaves the store, the disk and the settings alone.  Then the listing: its
  order, its page and its panic.
\<close>

subsection \<open>The store and the quiet routes\<close>

definition lawful_others :: "Backend \<Rightarrow> bool" where
  "lawful_others be \<longleftrightarrow> (\<forall>n db. store_run db (beOthers be n db) \<and> store_run db (swMeanwhile (beSubmit be n) db))"

definition alone :: "Backend \<Rightarrow> bool" where
  "alone be \<longleftrightarrow> (\<forall>n db. beOthers be n db = db)"

definition api_store_relation :: "Backend \<Rightarrow> Api \<Rightarrow> Api \<Rightarrow> bool" where
  "api_store_relation be s s' \<longleftrightarrow> (lawful_others be \<longrightarrow> store_run (apDb s) (apDb s'))"

definition api_unchanged :: "Backend \<Rightarrow> Api \<Rightarrow> Api \<Rightarrow> bool" where
  "api_unchanged be s s' \<longleftrightarrow> apFs s' = apFs s \<and> apSettings s' = apSettings s \<and> apWakes s' = apWakes s
     \<and> (alone be \<longrightarrow> apDb s' = apDb s)"

interpretation api_store: api_effects api_store_relation
  by unfold_locales
    (auto simp: api_store_relation_def lawful_others_def intro: store_run.refl store_run_trans store_run.step store_step.op)

interpretation api_quiet: api_reads api_unchanged
  by unfold_locales (auto simp: api_unchanged_def alone_def)

lemma request_runs: "lawful_others be \<Longrightarrow> store_run (apDb s) (apDb (snd (api_answer be r add s)))"
  using api_store.answer_keeps [of be s r add] by (simp add: api_store_relation_def)

lemma quiet_answer:
  assumes "routed (hrPath r) (effect_routes be r add) = None"
  shows "api_unchanged be s (snd (api_answer be r add s))"
proof -
  have all: "list_all (\<lambda>(p, h). api_quiet.keeps be h) (noop_routes r @ accept_routes be r)"
    using api_quiet.noops_keep api_quiet.accepts_keep by simp
  have none: "routed (hrPath r) (noop_routes r @ accept_routes be r @ effect_routes be r add) =
      routed (hrPath r) (noop_routes r @ accept_routes be r)"
    using assms by (auto simp: routed_def map_add_def split: option.splits)
  show ?thesis
    using api_quiet.routed_keeps [OF api_quiet.reads_keep] api_quiet.routed_keeps [OF all]
    by (auto simp: api_answer_def api_route_def none split: option.splits intro!: api_quiet.keeps_finish api_quiet.kept)
qed

subsection \<open>What authentication writes\<close>

text \<open>
  The boundary never touches the operator, the key or the token.  It counts login attempts only for a
  password, and of the sessions it writes at most the one that the request names.
\<close>

definition other_sessions :: "string option \<Rightarrow> session_row list \<Rightarrow> session_row list" where
  "other_sessions sid rows =
     filter (\<lambda>r. \<not> (sid \<noteq> None \<and> ss_digest r = hashSID (the sid) \<and> ss_audience r = AudienceQBT)) rows"

definition boundary_writes :: "HttpRequest \<Rightarrow> AuthState \<Rightarrow> AuthState \<Rightarrow> bool" where
  "boundary_writes hq a a' \<longleftrightarrow> asOperator a' = asOperator a \<and> asQBTKey a' = asQBTKey a \<and> asAPIToken a' = asAPIToken a
     \<and> (hqAuthorization hq = [] \<longrightarrow> asLogins a' = asLogins a)
     \<and> (hqAuthorization hq \<noteq> [] \<longrightarrow> asSessions a' = asSessions a)
     \<and> other_sessions (hqSID hq) (asSessions a') = other_sessions (hqSID hq) (asSessions a)"

lemma other_sessions_revoked:
  "other_sessions (Some sid) (revoke_session_row (hashSID sid) AudienceQBT rows) = other_sessions (Some sid) rows"
  by (auto simp: other_sessions_def revoke_session_row_def intro: filter_cong)

lemma other_sessions_refreshed:
  "refresh_session_rows (hashSID sid) AudienceQBT expected new rows = Inr (n, rows') \<Longrightarrow>
     other_sessions (Some sid) rows' = other_sessions (Some sid) rows"
proof -
  have "other_sessions (Some sid) (sql_update (refresh_where (hashSID sid) AudienceQBT expected) (\<lambda>r. r\<lparr>ss_expires_at := new\<rparr>) xs)
      = other_sessions (Some sid) xs" for xs
    by (induction xs) (auto simp: other_sessions_def sql_update_def refresh_where_def)
  then show "refresh_session_rows (hashSID sid) AudienceQBT expected new rows = Inr (n, rows') \<Longrightarrow>
     other_sessions (Some sid) rows' = other_sessions (Some sid) rows"
    by (auto simp: refresh_session_rows_def Let_def split: if_splits)
qed

lemma session_writes:
  "RevokeSession flt (hashSID sid) AudienceQBT rows = (x, rows') \<Longrightarrow> other_sessions (Some sid) rows' = other_sessions (Some sid) rows"
  "RefreshSession flt (hashSID sid) AudienceQBT expected new rows = (y, rows') \<Longrightarrow>
     other_sessions (Some sid) rows' = other_sessions (Some sid) rows"
  by (auto simp: RevokeSession_def RefreshSession_def other_sessions_revoked other_sessions_refreshed split: if_splits sum.splits)

lemma GetSID_others:
  "GetSID flt c (\<lambda>_ t. t) sid AudienceQBT now rows = (res, rows') \<Longrightarrow>
     other_sessions (Some sid) rows' = other_sessions (Some sid) rows"
  by (auto simp: GetSID_def expire_def Let_def session_writes split: if_splits sum.splits option.splits prod.splits bool.splits)

lemma boundary_writes_only:
  assumes "authBoundary flt fr c (\<lambda>_ t. t) now hq a = (out, a')"
  shows "boundary_writes hq a a'"
proof -
  have basic: "boundary_writes hq a a'" if "basic_boundary flt fr c now hq v a = (out, a')" "hqAuthorization hq \<noteq> []" for v
    using that by (auto simp: basic_boundary_def boundary_writes_def split: option.splits prod.splits sum.splits if_splits)
  have session: "boundary_writes hq a a'" if "session_boundary flt fr c (\<lambda>_ t. t) now hq a = (out, a')" "hqAuthorization hq = []"
    using that by (auto simp: session_boundary_def boundary_writes_def GetSID_others
        split: option.splits prod.splits get_result.splits if_splits)
  have same: "boundary_writes hq a a" by (simp add: boundary_writes_def)
  show ?thesis
    using assms basic session same
    by (auto simp: authBoundary_def split: list.splits option.splits prod.splits if_splits)
qed

subsection \<open>Stable sorting\<close>

lemma mset_insert_stable [simp]: "mset (insert_stable lt x xs) = add_mset x (mset xs)"
  by (induction xs) auto

lemma set_insert_stable: "set (insert_stable lt x xs) = insert x (set xs)"
  by (induction xs) auto

lemma mset_sort_stable [simp]: "mset (sort_stable lt xs) = mset xs"
  by (induction xs) (simp_all add: sort_stable_def)

lemma set_sort_stable [simp]: "set (sort_stable lt xs) = set xs"
  by (metis mset_sort_stable set_mset_mset)

definition weak_order_on :: "'a set \<Rightarrow> ('a \<Rightarrow> 'a \<Rightarrow> bool) \<Rightarrow> bool" where
  "weak_order_on A lt \<longleftrightarrow>
     (\<forall>a \<in> A. \<forall>b \<in> A. lt a b \<longrightarrow> \<not> lt b a) \<and>
     (\<forall>a \<in> A. \<forall>b \<in> A. \<forall>c \<in> A. \<not> lt b a \<longrightarrow> \<not> lt c b \<longrightarrow> \<not> lt c a)"

lemma weak_asym: "weak_order_on A lt \<Longrightarrow> a \<in> A \<Longrightarrow> b \<in> A \<Longrightarrow> lt a b \<Longrightarrow> \<not> lt b a"
  unfolding weak_order_on_def by blast

lemma weak_trans:
  "weak_order_on A lt \<Longrightarrow> a \<in> A \<Longrightarrow> b \<in> A \<Longrightarrow> c \<in> A \<Longrightarrow> \<not> lt b a \<Longrightarrow> \<not> lt c b \<Longrightarrow> \<not> lt c a"
  unfolding weak_order_on_def by blast

lemma insert_stable_sorted:
  assumes "weak_order_on A lt" "x \<in> A" "set xs \<subseteq> A" "sorted_wrt (\<lambda>a b. \<not> lt b a) xs"
  shows "sorted_wrt (\<lambda>a b. \<not> lt b a) (insert_stable lt x xs)"
  using assms(3,4)
proof (induction xs)
  case (Cons y ys)
  have set: "set (insert_stable lt x ys) = insert x (set ys)"
    by (rule set_insert_stable)
  show ?case
  proof (cases "lt y x")
    case True
    moreover have "y \<in> A" using Cons.prems(1) by simp
    ultimately have "\<not> lt x y" using weak_asym [OF assms(1) _ assms(2)] by blast
    with True Cons set show ?thesis by simp
  next
    case False
    then have "\<not> lt z x" if "z \<in> set ys" for z
    proof -
      have "x \<in> A" "y \<in> A" "z \<in> A" "\<not> lt z y" using that Cons.prems assms(2) by auto
      with False show ?thesis using weak_trans [OF assms(1)] by blast
    qed
    with False Cons.prems show ?thesis by auto
  qed
qed simp

lemma sort_stable_sorted:
  "weak_order_on A lt \<Longrightarrow> set xs \<subseteq> A \<Longrightarrow> sorted_wrt (\<lambda>a b. \<not> lt b a) (sort_stable lt xs)"
proof (induction xs)
  case (Cons x xs)
  moreover have "sort_stable lt (x # xs) = insert_stable lt x (sort_stable lt xs)" by (simp add: sort_stable_def)
  ultimately show ?case using insert_stable_sorted [of A lt x "sort_stable lt xs"] by simp
qed (simp add: sort_stable_def)

lemma weak_order_converse: "weak_order_on A lt \<Longrightarrow> weak_order_on A (\<lambda>a b. lt b a)"
  unfolding weak_order_on_def by blast

text \<open>Equal elements keep their order: a stable sorting of a list that is sorted already changes nothing.\<close>

lemma sort_stable_id: "sorted_wrt (\<lambda>a b. \<not> lt b a) xs \<Longrightarrow> sort_stable lt xs = xs"
proof (induction xs)
  case (Cons x xs)
  then have "sort_stable lt xs = xs" by simp
  then show ?case using Cons.prems by (cases xs) (auto simp: sort_stable_def)
qed (simp add: sort_stable_def)

subsection \<open>The order of torrents\<close>

definition numeric :: "field_value \<Rightarrow> bool" where
  "numeric v \<longleftrightarrow> v \<noteq> FFloat NaN"

fun field_kind :: "field_value \<Rightarrow> nat" where
  "field_kind (FNumber a) = 0"
| "field_kind (FText a) = 1"
| "field_kind (FFloat a) = 2"

lemma float_less_weak:
  assumes "a \<noteq> NaN" "b \<noteq> NaN" "c \<noteq> NaN"
  shows "float_less a b \<Longrightarrow> \<not> float_less b a" "\<not> float_less b a \<Longrightarrow> \<not> float_less c b \<Longrightarrow> \<not> float_less c a"
  using assms by (cases a; cases b; cases c; auto simp: float_less_def)+

lemma field_less_weak:
  assumes "numeric a" "numeric b" "numeric c" "field_kind a = field_kind b" "field_kind b = field_kind c"
  shows "field_less a b \<Longrightarrow> \<not> field_less b a" "\<not> field_less b a \<Longrightarrow> \<not> field_less c b \<Longrightarrow> \<not> field_less c a"
proof -
  consider (num) x y z where "a = FNumber x" "b = FNumber y" "c = FNumber z"
    | (words) u v w where "a = FText u" "b = FText v" "c = FText w"
    | (flt) f g h where "a = FFloat f" "b = FFloat g" "c = FFloat h"
    using assms(4,5) by (cases a; cases b; cases c) auto
  then have "(field_less a b \<longrightarrow> \<not> field_less b a) \<and> (\<not> field_less b a \<longrightarrow> \<not> field_less c b \<longrightarrow> \<not> field_less c a)"
  proof cases
    case num
    then show ?thesis by auto
  next
    case words
    then show ?thesis by auto
  next
    case flt
    then show ?thesis using assms(1-3) float_less_weak [of f g h] by (auto simp: numeric_def)
  qed
  then show "field_less a b \<Longrightarrow> \<not> field_less b a" "\<not> field_less b a \<Longrightarrow> \<not> field_less c b \<Longrightarrow> \<not> field_less c a"
    by auto
qed

lemma sort_field_kind: "map_of sort_fields f = Some get \<Longrightarrow> field_kind (get a) = field_kind (get b)"
  by (drule map_of_SomeD) (auto simp: sort_fields_def)

text \<open>No float of an entry is NaN.\<close>

definition numeric_info :: "torrentInfo \<Rightarrow> bool" where
  "numeric_info i \<longleftrightarrow> tiPopularity i \<noteq> NaN \<and> tiProgress i \<noteq> NaN \<and> tiRatio i \<noteq> NaN"

lemma numeric_get: "map_of sort_fields f = Some get \<Longrightarrow> numeric_info i \<Longrightarrow> numeric (get i)"
  by (drule map_of_SomeD) (auto simp: sort_fields_def numeric_def numeric_info_def)

lemma torrent_order: "weak_order_on {i. numeric_info i} (\<lambda>a b. torrentInfoLess a b field)"
proof (cases "map_of sort_fields field")
  case None
  then show ?thesis by (auto simp: weak_order_on_def torrentInfoLess_def)
next
  case (Some get)
  have n: "numeric (get i)" if "numeric_info i" for i using numeric_get [OF Some that] .
  have k: "field_kind (get i) = field_kind (get j)" for i j using sort_field_kind [OF Some] .
  note w = field_less_weak [OF n n n k k]
  have less: "torrentInfoLess a b field \<longleftrightarrow>
      field_less (get a) (get b) \<or> (\<not> field_less (get b) (get a) \<and> tiHash a < tiHash b)" for a b
    by (simp add: torrentInfoLess_def Some)
  show ?thesis
    unfolding weak_order_on_def less mem_Collect_eq
  proof (intro conjI ballI impI)
    fix a b assume "a \<in> {i. numeric_info i}" "b \<in> {i. numeric_info i}"
      and h: "field_less (get a) (get b) \<or> \<not> field_less (get b) (get a) \<and> tiHash a < tiHash b"
    then have "numeric_info a" "numeric_info b" by auto
    with h w(1) [of a b b] w(1) [of b a a] show "\<not> (field_less (get b) (get a) \<or> \<not> field_less (get a) (get b) \<and> tiHash b < tiHash a)"
      by auto
  next
    fix a b c
    assume m: "a \<in> {i. numeric_info i}" "b \<in> {i. numeric_info i}" "c \<in> {i. numeric_info i}"
      and ba: "\<not> (field_less (get b) (get a) \<or> \<not> field_less (get a) (get b) \<and> tiHash b < tiHash a)"
      and cb: "\<not> (field_less (get c) (get b) \<or> \<not> field_less (get b) (get c) \<and> tiHash c < tiHash b)"
    from m have num: "numeric_info a" "numeric_info b" "numeric_info c" by auto
    have neg: "\<not> field_less (get c) (get a)" using w(2) [of a b c] num ba cb by auto
    moreover have "\<not> tiHash c < tiHash a" if "\<not> field_less (get a) (get c)"
    proof -
      have "\<not> field_less (get a) (get b)" using that w(2) [of b c a] w(1) num ba cb by blast
      moreover have "\<not> field_less (get b) (get c)" using that w(2) [of c a b] w(1) num ba cb by blast
      ultimately show ?thesis using ba cb by auto
    qed
    ultimately show "\<not> (field_less (get c) (get a) \<or> \<not> field_less (get a) (get c) \<and> tiHash c < tiHash a)" by blast
  qed
qed

subsection \<open>The listing\<close>

definition shown_downloads :: "Backend \<Rightarrow> InfoQuery \<Rightarrow> Download list \<Rightarrow> Download list" where
  "shown_downloads be q ds =
     filter (\<lambda>d. hash_selected q d \<and>
       (case Project (beFloatOob be) d of Inl e \<Rightarrow> False | Inr p \<Rightarrow> info_matches q d p)) ds"

definition entry_of :: "Backend \<Rightarrow> Download \<Rightarrow> torrentInfo" where
  "entry_of be d = projectTorrentInfo (beLower be) d (projr (Project (beFloatOob be) d)) (is_private d)"

lemma info_entries_Some: "info_entries be q ds = Some es \<Longrightarrow> es = map (entry_of be) (shown_downloads be q ds)"
  by (induction ds arbitrary: es)
    (auto simp: shown_downloads_def entry_of_def split: if_splits sum.splits)

lemma entries_numeric:
  assumes "info_entries be q ds = Some es" "i \<in> set es"
  shows "numeric_info i"
proof -
  from assms obtain d where d: "d \<in> set (shown_downloads be q ds)" "i = entry_of be d"
    using info_entries_Some [OF assms(1)] by auto
  then obtain p where "Project (beFloatOob be) d = Inr p"
    by (cases "Project (beFloatOob be) d") (auto simp: shown_downloads_def)
  moreover from this have i: "i = projectTorrentInfo (beLower be) d p (is_private d)" using d(2) by (simp add: entry_of_def)
  moreover have "pProgress p \<noteq> NaN" using project_progress_unit [of "beFloatOob be" d p] calculation
    by (auto simp: in_unit_iff)
  moreover have "pRatio p = Fin 0"
    using \<open>Project (beFloatOob be) d = Inr p\<close> by (auto simp: Project_def Let_def split: option.splits if_splits prod.splits)
  ultimately show ?thesis by (auto simp: numeric_info_def projectTorrentInfo_def)
qed

lemma info_sorted_mset: "mset (info_sorted q xs) = mset xs"
  by (simp add: info_sorted_def)

lemma info_sorted_sorted:
  assumes "info_entries be q ds = Some es" "iqSort q \<noteq> []"
  shows "sorted_wrt (\<lambda>a b. \<not> info_less q b a) (info_sorted q es)"
proof -
  have num: "set es \<subseteq> {i. numeric_info i}" using entries_numeric [OF assms(1)] by blast
  have "weak_order_on {i. numeric_info i} (info_less q)"
    using torrent_order [of "iqSort q"] weak_order_converse [OF torrent_order [of "iqSort q"]]
    by (cases "iqReverse q") (simp_all add: info_less_def [abs_def])
  from sort_stable_sorted [OF this num] assms(2) show ?thesis
    by (simp add: info_sorted_def)
qed

lemma page_offset_range: "0 \<le> page_offset (int n) k \<and> (page_offset (int n) k = 0 \<or> page_offset (int n) k < int n)"
  by (auto simp: page_offset_def Let_def)

lemma wrap64_id: "min_int64 \<le> n \<Longrightarrow> n \<le> max_int64 \<Longrightarrow> wrap64 n = n"
  by (simp add: wrap64_def min_int64_def max_int64_def)

lemma wrap64_over: "max_int64 < n \<Longrightarrow> n < 2 ^ 64 \<Longrightarrow> wrap64 n < 0"
proof -
  assume a: "max_int64 < n" "n < 2 ^ 64"
  then have "0 \<le> n + 2 ^ 63 - 2 ^ 64" "n + 2 ^ 63 - 2 ^ 64 < 2 ^ 64" by (auto simp: max_int64_def)
  then have "(n + 2 ^ 63 - 2 ^ 64) mod 2 ^ 64 = n + 2 ^ 63 - 2 ^ 64" by simp
  moreover have "(n + 2 ^ 63) mod 2 ^ 64 = (n + 2 ^ 63 - 2 ^ 64) mod 2 ^ 64"
    using mod_add_self2 [of "n + 2 ^ 63 - 2 ^ 64" "2 ^ 64 :: int"] by (simp add: add.commute)
  ultimately show ?thesis using a by (simp add: wrap64_def)
qed

definition page_limit :: "int \<Rightarrow> nat \<Rightarrow> nat" where
  "page_limit limit n = (if limit \<le> 0 then n else nat limit)"

lemma info_page_fits:
  assumes "page_offset (int (length xs)) offset + limit \<le> max_int64" "2 * int (length xs) \<le> max_int64"
  shows "info_page limit offset xs =
    Some (take (page_limit limit (length xs)) (drop (nat (page_offset (int (length xs)) offset)) xs))"
proof -
  define k where "k = page_offset (int (length xs)) offset"
  define l where "l = (if limit \<le> 0 then int (length xs) else limit)"
  have k: "0 \<le> k" "k \<le> int (length xs)" "k < int (length xs) \<or> k = 0"
    using page_offset_range [of "length xs" offset] by (auto simp: k_def)
  have sum: "wrap64 (k + l) = k + l"
    using assms k by (intro wrap64_id) (auto simp: l_def k_def min_int64_def split: if_splits)
  have page: "info_page limit offset xs =
      (if 0 < k \<or> l < int (length xs)
       then let e = (if int (length xs) < k + l then int (length xs) else k + l)
            in if e < k then None else Some (take (nat (e - k)) (drop (nat k) xs))
       else Some xs)"
    using k unfolding info_page_def Let_def k_def [symmetric] l_def [symmetric] sum by auto
  show ?thesis
  proof (cases "0 < k \<or> l < int (length xs)")
    case True
    define e where "e = (if int (length xs) < k + l then int (length xs) else k + l)"
    have "\<not> e < k" using k by (auto simp: e_def l_def)
    moreover have "take (nat (e - k)) (drop (nat k) xs) = take (page_limit limit (length xs)) (drop (nat k) xs)"
      using k by (auto simp: page_limit_def e_def l_def nat_diff_distrib nat_add_distrib split: if_splits)
    ultimately show ?thesis using True by (simp add: page e_def [symmetric] k_def [symmetric])
  next
    case False
    with k show ?thesis by (auto simp: page page_limit_def l_def k_def [symmetric] split: if_splits)
  qed
qed

lemma info_page_panics:
  assumes "0 < page_offset (int (length xs)) offset" "limit \<le> max_int64"
    and "max_int64 < page_offset (int (length xs)) offset + limit" "2 * int (length xs) \<le> max_int64"
  shows "info_page limit offset xs = None"
proof -
  define k where "k = page_offset (int (length xs)) offset"
  have k: "0 < k" "k < int (length xs)" "max_int64 < k + limit"
    using page_offset_range [of "length xs" offset] assms by (auto simp: k_def)
  then have pos: "0 < limit" using assms(4) by linarith
  have "wrap64 (k + limit) < 0" using k assms by (intro wrap64_over) (auto simp: max_int64_def)
  with k pos show ?thesis by (auto simp: info_page_def Let_def k_def [symmetric])
qed

lemma info_reply:
  assumes "finish (torrents_info be r) s = (rep, s')" "\<exists>page. rep = TorrentList page \<or> rep = Panicked"
  shows "\<exists>q ds es. info_query (beLower be) r = Some q
    \<and> ListDownloads (beEnv be (apCalls s)) (iqCategory q) (beOthers be (apCalls s) (apDb s)) = Inr ds
    \<and> info_entries be q ds = Some es
    \<and> rep = (case info_page (iqLimit q) (iqOffset q) (info_sorted q es) of None \<Rightarrow> Panicked | Some p \<Rightarrow> TorrentList p)"
  using assms
  by (auto simp: torrents_info_def finish_def act_defs reply_defs repo_read_def repo_call_def Let_def
      split: option.splits sum.splits prod.splits)

lemma info_reply_conv:
  assumes "info_query (beLower be) r = Some q"
    and "ListDownloads (beEnv be (apCalls s)) (iqCategory q) (beOthers be (apCalls s) (apDb s)) = Inr ds"
    and "info_entries be q ds = Some es"
  shows "fst (finish (torrents_info be r) s) =
    (case info_page (iqLimit q) (iqOffset q) (info_sorted q es) of None \<Rightarrow> Panicked | Some p \<Rightarrow> TorrentList p)"
  using assms
  by (simp add: torrents_info_def finish_def act_defs repo_read_def repo_call_def Let_def)

lemma length_info_sorted [simp]: "length (info_sorted q xs) = length xs"
  by (metis info_sorted_mset size_mset)

lemma Atoi_bound: "Atoi s = Some n \<Longrightarrow> min_int64 \<le> n \<and> n \<le> max_int64"
  by (auto simp: Atoi_def Let_def split: option.splits if_splits list.splits)

lemma parse_bound: "parseQBTInt v \<le> max_int64"
  using Atoi_bound [of v] by (auto simp: parseQBTInt_def max_int64_def split: option.splits)

lemma query_bound: "info_query lower r = Some q \<Longrightarrow> iqLimit q \<le> max_int64"
  by (auto simp: info_query_def obind_def Let_def parse_bound split: option.splits prod.splits if_splits)

lemma info_page_Some:
  assumes "info_page limit offset xs = Some page" "limit \<le> max_int64" "2 * int (length xs) \<le> max_int64"
  shows "page = take (page_limit limit (length xs)) (drop (nat (page_offset (int (length xs)) offset)) xs)"
proof (cases "page_offset (int (length xs)) offset + limit \<le> max_int64")
  case True
  then show ?thesis using info_page_fits [OF True assms(3)] assms(1) by simp
next
  case False
  then have "0 < page_offset (int (length xs)) offset"
    using assms(2) page_offset_range [of "length xs" offset] by auto
  then show ?thesis using info_page_panics [of xs offset limit] assms False by simp
qed

lemma request_serves:
  assumes "ServeHTTP ac fr c hq be r add (a, s) = ((rep, cookies), a', s')" "hrPath r \<notin> set auth_paths"
  shows "a' = snd (authBoundary (acBoundary ac) fr c (acOthers ac) (acNow ac) hq a) \<and>
    ((\<exists>p cookie. fst (authBoundary (acBoundary ac) fr c (acOthers ac) (acNow ac) hq a) = Served p cookie)
       \<and> s' = snd (api_answer be r add s)
     \<or> (\<forall>p cookie. fst (authBoundary (acBoundary ac) fr c (acOthers ac) (acNow ac) hq a) \<noteq> Served p cookie) \<and> s' = s)"
  using assms by (auto simp: ServeHTTP_def dispatch_def split: prod.splits outcome.splits)

lemma request_refused:
  assumes "ServeHTTP ac fr c hq be r add (a, s) = ((rep, cookies), a', s')"
    and "\<And>p cookie. fst (authBoundary (acBoundary ac) fr c (acOthers ac) (acNow ac) hq a) \<noteq> Served p cookie"
  shows "a' = snd (authBoundary (acBoundary ac) fr c (acOthers ac) (acNow ac) hq a) \<and> s' = s"
  using assms by (auto simp: ServeHTTP_def split: prod.splits outcome.splits)

lemma quiet_served:
  assumes "ServeHTTP ac fr c hq be r add (a, s) = ((rep, cookies), a', s')" "alone be" "acOthers ac = (\<lambda>_ rows. rows)"
    and quiet: "(routed (hrPath r) (effect_routes be r add) = None \<and> hrPath r \<notin> set auth_paths) \<or>
      (\<forall>p cookie. fst (authBoundary (acBoundary ac) fr c (acOthers ac) (acNow ac) hq a) \<noteq> Served p cookie)"
  shows "apDb s' = apDb s \<and> apSettings s' = apSettings s \<and> apFs s' = apFs s \<and> apWakes s' = apWakes s
    \<and> boundary_writes hq a a'"
proof -
  have "a' = snd (authBoundary (acBoundary ac) fr c (acOthers ac) (acNow ac) hq a) \<and> api_unchanged be s s'"
    using quiet
  proof
    assume q: "routed (hrPath r) (effect_routes be r add) = None \<and> hrPath r \<notin> set auth_paths"
    have "api_unchanged be s s" by (simp add: api_unchanged_def)
    with q request_serves [OF assms(1)] quiet_answer [of r be add s] show ?thesis by auto
  next
    assume "\<forall>p cookie. fst (authBoundary (acBoundary ac) fr c (acOthers ac) (acNow ac) hq a) \<noteq> Served p cookie"
    with request_refused [OF assms(1)] show ?thesis by (simp add: api_unchanged_def)
  qed
  moreover have "boundary_writes hq a (snd (authBoundary (acBoundary ac) fr c (\<lambda>_ t. t) (acNow ac) hq a))"
    by (rule boundary_writes_only) (rule surjective_pairing)
  ultimately show ?thesis using assms(2,3) by (simp add: api_unchanged_def)
qed

lemma convert_all_length: "convert_all f rows = Inr xs \<Longrightarrow> length xs = length rows"
  by (induction rows arbitrary: xs) (auto simp: and_then_Inr_iff)

lemma listed_length: "ListDownloads env category db = Inr ds \<Longrightarrow> length ds \<le> length (downloads db)"
proof -
  assume "ListDownloads env category db = Inr ds"
  then have "length ds = length (newest_first (case category of None \<Rightarrow> filter row_visible (downloads db)
      | Some c \<Rightarrow> filter (\<lambda>r. r_category r = c \<and> row_visible r) (downloads db)))"
    using convert_all_length by (auto simp: ListDownloads_def stmt_def split: if_splits)
  then show ?thesis by (simp add: newest_first_def split: option.splits)
qed

lemma listed_page:
  assumes "fst (finish (torrents_info be r) s) = TorrentList page"
    and "2 * int (length (downloads (beOthers be (apCalls s) (apDb s)))) \<le> max_int64"
  shows "\<exists>q ds ordered. info_query (beLower be) r = Some q
    \<and> ListDownloads (beEnv be (apCalls s)) (iqCategory q) (beOthers be (apCalls s) (apDb s)) = Inr ds
    \<and> mset ordered = mset (map (entry_of be) (shown_downloads be q ds))
    \<and> sorted_wrt (\<lambda>a b. iqSort q = [] \<or> \<not> info_less q b a) ordered
    \<and> page = take (page_limit (iqLimit q) (length ordered)) (drop (nat (page_offset (int (length ordered)) (iqOffset q))) ordered)"
proof -
  have "finish (torrents_info be r) s = (TorrentList page, snd (finish (torrents_info be r) s))"
    using assms(1) by (simp add: prod_eq_iff)
  from info_reply [OF this] obtain q ds es where q: "info_query (beLower be) r = Some q"
    and ds: "ListDownloads (beEnv be (apCalls s)) (iqCategory q) (beOthers be (apCalls s) (apDb s)) = Inr ds"
    and es: "info_entries be q ds = Some es" and page: "info_page (iqLimit q) (iqOffset q) (info_sorted q es) = Some page"
    by (auto split: option.splits)
  have len: "length es \<le> length ds" using info_entries_Some [OF es] by (simp add: shown_downloads_def)
  have "page = take (page_limit (iqLimit q) (length (info_sorted q es)))
      (drop (nat (page_offset (int (length (info_sorted q es))) (iqOffset q))) (info_sorted q es))"
    using info_page_Some [OF page query_bound [OF q]] assms(2) listed_length [OF ds] len by simp
  moreover have "sorted_wrt (\<lambda>a b. iqSort q = [] \<or> \<not> info_less q b a) (info_sorted q es)"
  proof (cases "iqSort q = []")
    case True
    then show ?thesis by (simp add: sorted_wrt_iff_nth_less)
  next
    case False
    then show ?thesis using info_sorted_sorted [OF es] by simp
  qed
  ultimately show ?thesis using q ds info_sorted_mset [of q es] info_entries_Some [OF es] by metis
qed

lemma overflowing_page:
  assumes "info_query (beLower be) r = Some q"
    and "ListDownloads (beEnv be (apCalls s)) (iqCategory q) (beOthers be (apCalls s) (apDb s)) = Inr ds"
    and "info_entries be q ds = Some es" "2 * int (length es) \<le> max_int64"
    and "0 < iqOffset q" "iqOffset q < int (length es)" "max_int64 < iqOffset q + iqLimit q"
  shows "fst (finish (torrents_info be r) s) = Panicked"
proof -
  have "page_offset (int (length (info_sorted q es))) (iqOffset q) = iqOffset q"
    using assms(5,6) by (simp add: page_offset_def)
  then show ?thesis
    using info_reply_conv [OF assms(1-3)] info_page_panics [of "info_sorted q es" "iqOffset q" "iqLimit q"]
      query_bound [OF assms(1)] assms(4-7) by simp
qed

end
