(* ===== verification/Native_Feed.thy ===== *)
theory Native_Feed
  imports Native_Api Http_Facts Store_Invariants
begin

section \<open>What the native API promises: cursors and the event feed\<close>

text \<open>
  The cursor of an event is read back as its sequence; a page of the feed is a stretch of the event log; and a
  client that follows the cursors receives every matching event once, in order, whatever is committed meanwhile.
\<close>

subsection \<open>Cursors\<close>

lemma be64_small: "\<forall>b \<in> set (be64 n). b < 256"
  by (auto simp: be64_def)

lemma be64_length [simp]: "length (be64 n) = 8"
  by (simp add: be64_def)

lemma be64_value_be64: "n < 2 ^ 64 \<Longrightarrow> be64_value (be64 n) = n"
proof -
  have split: "x = x div 256 * 256 + x mod 256" for x :: nat by simp
  assume n: "n < 2 ^ 64"
  have up: "rev [0..<8] = [7, 6, 5, 4, 3, 2, 1, 0 :: nat]" by (simp add: upt_rec)
  define d where "d k = n div 256 ^ k" for k
  have step: "d l * 256 + d k mod 256 = d k" if "l = Suc k" for k l
    unfolding that by (simp add: d_def div_mult2_eq [symmetric] mult.commute)
      (metis div_mult2_eq div_mult_mod_eq mult.commute)
  have s: "d 7 * 256 + d 6 mod 256 = d 6" "d 6 * 256 + d 5 mod 256 = d 5" "d 5 * 256 + d 4 mod 256 = d 4"
    "d 4 * 256 + d 3 mod 256 = d 3" "d 3 * 256 + d 2 mod 256 = d 2" "d 2 * 256 + d 1 mod 256 = d 1"
    "d 1 * 256 + d 0 mod 256 = d 0"
    by (rule step, simp)+
  have top: "d 7 mod 256 = d 7" using n by (simp add: d_def)
  have "be64_value (be64 n) =
      ((((((d 7 mod 256 * 256 + d 6 mod 256) * 256 + d 5 mod 256) * 256 + d 4 mod 256) * 256 + d 3 mod 256) * 256
        + d 2 mod 256) * 256 + d 1 mod 256) * 256 + d 0 mod 256"
    by (simp add: be64_value_def be64_def up d_def)
  also have "\<dots> = d 0"
    by (simp only: top s)
  finally show ?thesis by (simp add: d_def)
qed

lemma b64_strict_encode: "b64_decode_strict a (b64_encode a s) = Some s"
proof -
  have "\<forall>b \<in> set (map byte s). b < 256" by auto
  then have "\<forall>x \<in> set (sextets (map byte s)). x < 64" "octets (sextets (map byte s)) = Some (map byte s)"
    using sextets_small octets_sextets by blast+
  then show ?thesis
    by (simp add: b64_decode_strict_def b64_encode_def b64_values_chars sextets_no_spare comp_def)
qed

lemma cursor_bytes: "map byte (map char_of (be64 n)) = be64 n"
  using be64_small [of n] by (auto intro!: map_idI)

lemma decode_encode: "0 \<le> n \<Longrightarrow> n < 2 ^ 63 \<Longrightarrow> decodeEventCursor (encodeEventCursor n) = Some n"
  using be64_value_be64 [of "nat n"]
  by (simp add: decodeEventCursor_def encodeEventCursor_def b64_strict_encode eventCursorVersion_def
      cursor_bytes [simplified] Let_def nat_less_iff)

text \<open>A text without line breaks that decodes is the cursor of its sequence: cursors have one spelling.\<close>

lemma be64_of_value:
  assumes "length bs = 8" "\<forall>b \<in> set bs. b < 256"
  shows "be64 (be64_value bs) = bs"
proof -
  from assms(1) obtain b7 b6 b5 b4 b3 b2 b1 b0 where bs: "bs = [b7, b6, b5, b4, b3, b2, b1, b0]"
    by (auto simp: length_Suc_conv eval_nat_numeral)
  have up: "rev [0..<8] = [7, 6, 5, 4, 3, 2, 1, 0 :: nat]" by (simp add: upt_rec)
  have div: "(x * 256 + b) div 256 = x" "(x * 256 + b) mod 256 = b" if "b < 256" for x b :: nat using that by auto
  define v where "v = be64_value bs"
  define d where "d k = v div 256 ^ k" for k
  have half: "d l = d k div 256" if "l = Suc k" for k l
    unfolding that by (simp add: d_def) (metis div_mult2_eq mult.commute)
  have n: "d 1 = d 0 div 256" "d 2 = d 1 div 256" "d 3 = d 2 div 256" "d 4 = d 3 div 256" "d 5 = d 4 div 256"
    "d 6 = d 5 div 256" "d 7 = d 6 div 256"
    by (rule half, simp)+
  have d0: "d 0 = ((((((b7 * 256 + b6) * 256 + b5) * 256 + b4) * 256 + b3) * 256 + b2) * 256 + b1) * 256 + b0"
    by (simp add: d_def v_def be64_value_def bs)
  have "b7 < 256" "b6 < 256" "b5 < 256" "b4 < 256" "b3 < 256" "b2 < 256" "b1 < 256" "b0 < 256"
    using assms(2) bs by simp_all
  then have "map (\<lambda>i. d i mod 256) [7, 6, 5, 4, 3, 2, 1, 0] = bs"
    by (simp only: list.map n d0 div bs mod_less)
  then show ?thesis by (simp add: be64_def up d_def v_def)
qed

lemma strict_image:
  assumes "b64_decode_strict a s = Some raw" "CHR 0x0A \<notin> set s" "CHR 0x0D \<notin> set s"
  shows "s = b64_encode a raw"
proof -
  from assms(1) obtain vs ns where vs: "b64_values a s = Some vs" "no_spare_bits vs" "octets vs = Some ns" "raw = map char_of ns"
    by (auto simp: b64_decode_strict_def split: option.splits if_splits)
  have "length vs = length s" using vs(1) assms(2,3)
    by (induction s arbitrary: vs) (auto split: option.splits)
  then have s: "map (b64_char a) vs = s" by (rule b64_values_full [OF vs(1)])
  have small: "\<forall>v \<in> set vs. v < 64" using b64_values_length [OF vs(1)] by blast
  have "map byte raw = ns" using octets_small [OF vs(3) small] by (auto simp: vs(4) intro!: map_idI)
  moreover have "sextets ns = vs" using sextets_octets [OF vs(3) small vs(2)] .
  ultimately show ?thesis using s by (simp add: b64_encode_def)
qed

lemma encode_decode:
  assumes "decodeEventCursor v = Some n" "CHR 0x0A \<notin> set v" "CHR 0x0D \<notin> set v"
  shows "v = encodeEventCursor n \<and> 0 \<le> n \<and> n < 2 ^ 63"
proof -
  from assms(1) obtain raw where raw: "b64_decode_strict URLAlphabet v = Some raw" "length raw = 9"
      "byte (hd raw) = eventCursorVersion" "be64_value (map byte (tl raw)) \<le> 2 ^ 63 - 1" "n = int (be64_value (map byte (tl raw)))"
    by (auto simp: decodeEventCursor_def Let_def split: option.splits if_splits)
  then obtain c cs where cs: "raw = c # cs" "length cs = 8" by (cases raw) auto
  have "be64 (be64_value (map byte cs)) = map byte cs" by (rule be64_of_value) (auto simp: cs)
  moreover have "nat (n mod 2 ^ 64) = be64_value (map byte cs)" using raw(4,5) cs by simp
  ultimately have "encodeEventCursor n = b64_encode URLAlphabet raw"
    using raw(3) by (simp add: encodeEventCursor_def cs comp_def flip: raw(3)) 
  with strict_image [OF raw(1) assms(2,3)] raw(4,5) show ?thesis by simp
qed

subsection \<open>Stretches of the log\<close>

text \<open>The events of the filter in a stretch of sequences, and as the feed shows them.\<close>

definition wanted :: "eventsQuery \<Rightarrow> event_row \<Rightarrow> bool" where
  "wanted q e \<longleftrightarrow> ev_aggregate_type e = AggregateDownload
     \<and> ((ev_type e = EventTypeCompleted \<and> eqCompleted q) \<or> (ev_type e = EventTypeFailed \<and> eqFailed q))
     \<and> (eqHash q = [] \<or> ev_aggregate_id e = eqHash q)"

definition stretch :: "(event_row \<Rightarrow> bool) \<Rightarrow> int \<Rightarrow> int \<Rightarrow> event_row list \<Rightarrow> event_row list" where
  "stretch P c h evs = filter (\<lambda>e. c < ev_sequence e \<and> ev_sequence e \<le> h \<and> P e) evs"

definition shown_event :: "event_row \<Rightarrow> string \<times> Payload" where
  "shown_event e = (encodeEventCursor (ev_sequence e), ev_payload e)"

lemma log_sorted: "log_ok db \<Longrightarrow> sorted_wrt (<) (map ev_sequence (domain_events db))"
  by (simp add: log_ok_def)

lemma log_bound: "log_ok db \<Longrightarrow> e \<in> set (domain_events db) \<Longrightarrow> 1 \<le> ev_sequence e \<and> ev_sequence e \<le> last_sequence db"
  by (metis atLeastAtMost_iff image_eqI list.set_map log_ok_def set_upto)

lemma log_append:
  assumes "log_ok db" "log_ok db'" "prefix (domain_events db) (domain_events db')"
  shows "\<exists>new. domain_events db' = domain_events db @ new \<and> (\<forall>e \<in> set new. last_sequence db < ev_sequence e)
    \<and> last_sequence db \<le> last_sequence db'"
proof -
  from assms(3) obtain new where new: "domain_events db' = domain_events db @ new" by (auto simp: prefix_def)
  have len: "int (length (domain_events x)) = last_sequence x" if "log_ok x" for x
    using that length_map [of ev_sequence "domain_events x"] by (simp add: log_ok_def del: length_map) linarith
  then have le: "last_sequence db \<le> last_sequence db'" using len [OF assms(1)] len [OF assms(2)] new by simp
  have "[1..last_sequence db'] = [1..last_sequence db] @ [last_sequence db + 1..last_sequence db']"
    using le assms(1) upto_split2 [of 1 "last_sequence db" "last_sequence db'"]
    by (cases "last_sequence db = 0") (auto simp: log_ok_def)
  then have "map ev_sequence new = [last_sequence db + 1..last_sequence db']"
    using assms(1,2) new by (simp add: log_ok_def)
  then have "e \<in> set new \<Longrightarrow> ev_sequence e \<in> set [last_sequence db + 1..last_sequence db']" for e
    by (metis image_eqI list.set_map)
  then show ?thesis using new le by fastforce
qed

lemma stretch_grows:
  assumes "log_ok db" "log_ok db'" "prefix (domain_events db) (domain_events db')" "h \<le> last_sequence db"
  shows "stretch P c h (domain_events db') = stretch P c h (domain_events db)"
  using log_append [OF assms(1-3)] assms(4) by (fastforce simp: stretch_def filter_empty_conv)

lemma stretch_join:
  "sorted_wrt (<) (map ev_sequence evs) \<Longrightarrow> a \<le> b \<Longrightarrow> b \<le> c \<Longrightarrow> stretch P a b evs @ stretch P b c evs = stretch P a c evs"
proof (induction evs)
  case (Cons e evs)
  then have IH: "stretch P a b evs @ stretch P b c evs = stretch P a c evs" by simp
  have later: "stretch P a b evs = []" if "b < ev_sequence e"
    using Cons.prems(1) that by (fastforce simp: stretch_def filter_empty_conv)
  from IH later Cons.prems show ?case by (auto simp: stretch_def)
qed (simp add: stretch_def)

lemma stretch_cut:
  assumes "sorted_wrt (<) (map ev_sequence evs)" "0 < n" "n < length (stretch P c h evs)"
  defines "m \<equiv> ev_sequence (last (take n (stretch P c h evs)))"
  shows "take n (stretch P c h evs) = stretch P c m evs \<and> c < m \<and> m \<le> h"
proof -
  let ?xs = "stretch P c h evs"
  have sorted: "sorted_wrt (<) (map ev_sequence ?xs)"
    using assms(1) by (induction evs) (auto simp: stretch_def)
  have last: "last (take n ?xs) = ?xs ! (n - 1)" using assms(2,3) by (subst last_conv_nth) auto
  have m_in: "?xs ! (n - 1) \<in> set ?xs" using assms(2,3) by (intro nth_mem) simp
  then have m: "c < m" "m \<le> h" unfolding m_def last by (simp_all add: stretch_def)
  have "stretch P c m evs = filter (\<lambda>e. ev_sequence e \<le> m) ?xs" using m(2) by (auto simp: stretch_def intro: filter_cong)
  also have "\<dots> = filter (\<lambda>e. ev_sequence e \<le> m) (take n ?xs) @ filter (\<lambda>e. ev_sequence e \<le> m) (drop n ?xs)"
    by (metis append_take_drop_id filter_append)
  also have "filter (\<lambda>e. ev_sequence e \<le> m) (take n ?xs) = take n ?xs"
  proof (rule filter_True, rule ballI)
    fix e assume "e \<in> set (take n ?xs)"
    then obtain i where "i < n" "e = ?xs ! i" using assms(3) by (auto simp: in_set_conv_nth)
    then show "ev_sequence e \<le> m"
      using sorted_wrt_nth_less [OF sorted, of i "n - 1"] less_imp_diff_less [OF assms(3), of 1] assms(2)
      unfolding m_def last by (cases "i < n - 1") (auto simp: not_less dest: le_antisym)
  qed
  also have "filter (\<lambda>e. ev_sequence e \<le> m) (drop n ?xs) = []"
  proof -
    have "\<not> ev_sequence e \<le> m" if "e \<in> set (drop n ?xs)" for e
    proof -
      from that obtain i where "i < length ?xs - n" "e = ?xs ! (n + i)" using assms(3) by (auto simp: in_set_conv_nth)
      then show ?thesis
        using sorted_wrt_nth_less [OF sorted, of "n - 1" "n + i"] trans_less_add1 [OF diff_less [OF zero_less_one assms(2)], of i]
        by (auto simp: m_def last less_diff_conv add.commute)
    qed
    then show ?thesis by (simp add: filter_empty_conv)
  qed
  finally show ?thesis using m by simp
qed

subsection \<open>One page\<close>

lemma native_readD:
  "native_read be f s = (x, s') \<Longrightarrow>
   apDb s' = beOthers be (apCalls s) (apDb s) \<and> x = f (beEnv be (apCalls s)) (apDb s')"
  by (auto simp: native_read_def Let_def)

lemma event_readD:
  "event_read be gone f s = (Inr x, s') \<Longrightarrow>
   apDb s' = beOthers be (apCalls s) (apDb s) \<and> f (beEnv be (apCalls s)) (apDb s') = Inr x"
  by (auto simp: event_read_def split: prod.splits sum.splits dest: native_readD)

lemma latest_is_last:
  assumes "log_ok db" "LatestEventSequence env db = Inr h"
  shows "h = last_sequence db"
proof -
  have "fold max [1..n] 0 = n" if "0 \<le> n" for n :: int
    using that
  proof (induction rule: int_ge_induct)
    case (step i)
    then show ?case by (simp add: upto_rec2 max_def)
  qed simp
  then show ?thesis using assms by (auto simp: LatestEventSequence_def stmt_def log_ok_def split: if_splits)
qed

lemma convert_events: "convert_all eventFromDB xs = Inr ys \<Longrightarrow> ys = xs"
  by (induction xs arbitrary: ys) (auto simp: eventFromDB_def and_then_def split: sum.splits if_splits)

lemma listed_events:
  assumes "log_ok db" "ListDownloadEvents env (scan_query q c h) db = Inr es"
  shows "es = take (nat (eqLimit q + 1)) (stretch (wanted q) c h (domain_events db)) \<and> 0 \<le> c \<and> c \<le> h \<and> 1 \<le> eqLimit q + 1"
proof -
  have row: "feed_row (scan_query q c h) = (\<lambda>e. c < ev_sequence e \<and> ev_sequence e \<le> h \<and> wanted q e)"
    by (auto simp: fun_eq_iff feed_row_def scan_query_def wanted_def)
  have "sorted (map ev_sequence (stretch (wanted q) c h (domain_events db)))"
    unfolding stretch_def using log_sorted [OF assms(1)] by (intro sorted_filter strict_sorted_imp_sorted)
  then have "sort_key ev_sequence (stretch (wanted q) c h (domain_events db)) = stretch (wanted q) c h (domain_events db)"
    by (rule sort_key_id_if_sorted)
  moreover have "0 \<le> c" "c \<le> h" "1 \<le> eqLimit q + 1" and
    "convert_all eventFromDB (take (nat (eqLimit q + 1))
      (sort_key ev_sequence (filter (feed_row (scan_query q c h)) (domain_events db)))) = Inr es"
    using assms(2) by (auto simp: ListDownloadEvents_def scan_query_def stmt_def split: if_splits)
  ultimately show ?thesis using convert_events unfolding row stretch_def by simp
qed

text \<open>The signal of a reachable store has a channel, so a snapshot changes nothing.\<close>

interpretation armed: store_relation
  "\<lambda>db db'. sgCurrent (eventSignal db) \<noteq> None \<longrightarrow> sgCurrent (eventSignal db') \<noteq> None"
  by unfold_locales
    (auto simp: notify_def Notify_def Let_def insert_event_def insert_delivery_def split: if_splits)

definition snapshot_of :: "Db \<Rightarrow> nat" where
  "snapshot_of db = fst (Snapshot (eventSignal db))"

lemma snapshot_same: "reachable (apDb s) \<Longrightarrow> take_snapshot s = (snapshot_of (apDb s), s)"
proof -
  assume "reachable (apDb s)"
  then have "sgCurrent (eventSignal (apDb s)) \<noteq> None"
    using armed.store_run_R [of empty_db "apDb s"] by (auto simp: reachable_def empty_db_def NewSignal_def)
  then show ?thesis by (auto simp: take_snapshot_def Snapshot_def snapshot_of_def)
qed

lemma written_page:
  assumes "sorted_wrt (<) (map ev_sequence evs)" "es = take (nat (limit + 1)) (stretch P c h evs)" "1 \<le> limit" "c \<le> h"
    and "writeEvents gone jv es limit h s = NEvents items nxt left"
  shows "\<exists>m. nxt = encodeEventCursor m \<and> c \<le> m \<and> m \<le> h \<and> items = map shown_event (stretch P c m evs)
    \<and> left = (stretch P m h evs \<noteq> [])"
proof -
  let ?xs = "stretch P c h evs"
  have w: "left = (limit < int (length es))" "items = map shown_event (if left then take (nat limit) es else es)"
    "nxt = encodeEventCursor (if left then ev_sequence (last (take (nat limit) es)) else h)"
    using assms(5) by (auto simp: writeEvents_def Let_def shown_event_def nativeInternal_def split: if_splits)
  show ?thesis
  proof (cases left)
    case True
    then have long: "nat limit < length ?xs" using w(1) assms(2,3) by auto
    have cut: "take (nat limit) es = take (nat limit) ?xs" using assms(2,3) by (simp add: min_def)
    define m where "m = ev_sequence (last (take (nat limit) ?xs))"
    have m: "take (nat limit) ?xs = stretch P c m evs" "c < m" "m \<le> h"
      using stretch_cut [OF assms(1) _ long] assms(3) by (auto simp: m_def)
    have "stretch P m h evs \<noteq> []"
    proof
      assume "stretch P m h evs = []"
      then have "stretch P c m evs = ?xs" using stretch_join [OF assms(1), of c m h P] m by simp
      then show False using m(1) long by (metis length_take min.absorb4 nat_neq_iff)
    qed
    then show ?thesis using w True m unfolding cut m_def [symmetric] by (intro exI [of _ m]) simp
  next
    case False
    then have "es = ?xs" using w(1) assms(2,3) by (auto simp: min_def not_less split: if_splits)
    moreover have "stretch P h h evs = []" by (auto simp: stretch_def filter_empty_conv)
    ultimately show ?thesis using w False assms(4) by (intro exI [of _ h]) simp
  qed
qed

text \<open>
  What an answer of the feed from the cursor \<open>c\<close> says: its events are the matching ones up to the next cursor,
  and \<open>has_more\<close> tells whether matching events lay beyond, up to a high-water not below the log at the request.
\<close>

definition page_of :: "eventsQuery \<Rightarrow> int \<Rightarrow> Db \<Rightarrow> Db \<Rightarrow> (string \<times> Payload) list \<Rightarrow> string \<Rightarrow> bool \<Rightarrow> bool" where
  "page_of q c db db' items nxt left \<longleftrightarrow>
     (\<exists>m h. nxt = encodeEventCursor m \<and> 0 \<le> c \<and> c \<le> m \<and> m \<le> h \<and> last_sequence db \<le> h \<and> h \<le> last_sequence db'
        \<and> items = map shown_event (stretch (wanted q) c m (domain_events db'))
        \<and> left = (stretch (wanted q) m h (domain_events db') \<noteq> []))"

lemma run_log:
  assumes "reachable db" "store_run db db'"
  shows "reachable db' \<and> log_ok db \<and> log_ok db' \<and> prefix (domain_events db) (domain_events db') \<and> last_sequence db \<le> last_sequence db'"
proof -
  have "reachable db'" using assms store_run_trans unfolding reachable_def by blast
  moreover have "prefix (domain_events db) (domain_events db')"
    using log.store_run_R [OF assms(2)] by (simp add: log_grows_def)
  ultimately show ?thesis using log_append reachable_log assms(1) by blast
qed

lemma others_run: "lawful_others be \<Longrightarrow> store_run db (beOthers be n db)"
  by (simp add: lawful_others_def)

text \<open>The two reads that a page rests on: the high-water, then the events up to it, with commits in between.\<close>

lemma scanned_page:
  assumes "reachable (apDb s)" "lawful_others be" "1 \<le> eqLimit q"
    and "event_read be gone LatestEventSequence (snd (take_snapshot s)) = (Inr h, s1)"
    and "event_read be gone (\<lambda>env. ListDownloadEvents env (scan_query q c h)) s1 = (Inr es, s2)"
  shows "store_run (apDb s) (apDb s2) \<and> reachable (apDb s2) \<and> 0 \<le> c \<and> c \<le> h
    \<and> last_sequence (apDb s) \<le> h \<and> h \<le> last_sequence (apDb s2)
    \<and> es = take (nat (eqLimit q + 1)) (stretch (wanted q) c h (domain_events (apDb s2)))"
proof -
  have r1: "store_run (apDb s) (apDb s1)" and l: "LatestEventSequence (beEnv be (apCalls s)) (apDb s1) = Inr h"
    using event_readD [OF assms(4)] others_run [OF assms(2)] unfolding snapshot_same [OF assms(1)] snd_conv by metis+
  note g1 = run_log [OF assms(1) r1]
  have r2: "store_run (apDb s1) (apDb s2)" and es: "ListDownloadEvents (beEnv be (apCalls s1)) (scan_query q c h) (apDb s2) = Inr es"
    using event_readD [OF assms(5)] others_run [OF assms(2)] by metis+
  have "reachable (apDb s1)" using g1 by simp
  note g2 = run_log [OF this r2]
  have "h = last_sequence (apDb s1)" using latest_is_last g1 l by blast
  then show ?thesis using g1 g2 listed_events [OF _ es] store_run_trans [OF r2 r1] by auto
qed

lemma answered_page:
  assumes "reachable (apDb s)" "lawful_others be" "1 \<le> eqLimit q"
    and "event_read be gone LatestEventSequence (snd (take_snapshot s)) = (Inr h, s1)"
    and "event_read be gone (\<lambda>env. ListDownloadEvents env (scan_query q c h)) s1 = (Inr es, s2)"
    and "writeEvents gone jv es (eqLimit q) h s2 = NEvents items nxt left"
  shows "page_of q c (apDb s) (apDb s2) items nxt left \<and> store_run (apDb s) (apDb s2)"
proof -
  note f = scanned_page [OF assms(1-5)]
  have "sorted_wrt (<) (map ev_sequence (domain_events (apDb s2)))"
    using f reachable_log log_sorted by blast
  from written_page [OF this _ assms(3) _ assms(6)] f show ?thesis unfolding page_of_def by metis
qed

lemma page_after_park:
  assumes "page_of q h db1 db2 items nxt left" "reachable db1" "store_run db1 db2" "last_sequence db \<le> last_sequence db1"
    and "stretch (wanted q) c h (domain_events db1) = []" "0 \<le> c" "c \<le> h" "h \<le> last_sequence db1"
  shows "page_of q c db db2 items nxt left"
proof -
  from assms(1) obtain m w where m: "nxt = encodeEventCursor m" "h \<le> m" "m \<le> w" "last_sequence db1 \<le> w" "w \<le> last_sequence db2"
      "items = map shown_event (stretch (wanted q) h m (domain_events db2))"
      "left = (stretch (wanted q) m w (domain_events db2) \<noteq> [])"
    by (auto simp: page_of_def)
  note g = run_log [OF assms(2,3)]
  have "stretch (wanted q) c h (domain_events db2) = []" using stretch_grows [of db1 db2 h] g assms(5,8) by simp
  then have "stretch (wanted q) c m (domain_events db2) = stretch (wanted q) h m (domain_events db2)"
    using stretch_join [OF log_sorted [of db2], of c h m "wanted q"] g m(2) assms(7) by simp
  with m assms(4,6,7) show ?thesis unfolding page_of_def by (intro exI [of _ m] exI [of _ w]) simp
qed

text \<open>A round that parks has seen that nothing matches up to its high-water.\<close>

lemma parked_round:
  assumes "reachable (apDb s)" "lawful_others be" "1 \<le> eqLimit q" "\<not> (first \<and> eqLatest q)"
    and "events_round be gone jv q first c s = (Inr (ch, h), s')"
  shows "store_run (apDb s) (apDb s') \<and> reachable (apDb s') \<and> stretch (wanted q) c h (domain_events (apDb s')) = []
    \<and> 0 \<le> c \<and> c \<le> h \<and> last_sequence (apDb s) \<le> h \<and> h \<le> last_sequence (apDb s')"
proof -
  from assms(5,4) obtain s1 es where
    "event_read be gone LatestEventSequence (snd (take_snapshot s)) = (Inr h, s1)"
    "event_read be gone (\<lambda>env. ListDownloadEvents env (scan_query q c h)) s1 = (Inr es, s')" "es = []"
    by (auto simp: events_round_def split: if_splits prod.splits sum.splits)
  then show ?thesis using scanned_page [OF assms(1-3)] assms(3) by fastforce
qed

lemma answered_round:
  assumes "reachable (apDb s)" "lawful_others be" "1 \<le> eqLimit q" "\<not> (first \<and> eqLatest q)"
    and "events_round be gone jv q first c s = (Inl (NEvents items nxt left), s')"
  shows "page_of q c (apDb s) (apDb s') items nxt left \<and> store_run (apDb s) (apDb s')"
proof -
  have silent: "event_read be gone f t \<noteq> (Inl (NEvents items nxt left), t')" for f :: "Env \<Rightarrow> Db \<Rightarrow> store_err + 'b" and t t'
    by (auto simp: event_read_def nativeInternal_def split: prod.split sum.split)
  from assms(5,4) obtain h s1 es where
    "event_read be gone LatestEventSequence (snd (take_snapshot s)) = (Inr h, s1)"
    "event_read be gone (\<lambda>env. ListDownloadEvents env (scan_query q c h)) s1 = (Inr es, s')"
    "writeEvents gone jv es (eqLimit q) h s' = NEvents items nxt left"
    by (auto simp: events_round_def silent native_replies split: if_splits prod.splits sum.splits)
  then show ?thesis using answered_page [OF assms(1-3)] by blast
qed

lemma final_page:
  assumes "reachable (apDb s)" "lawful_others be" "1 \<le> eqLimit q"
    and "finalEventsScan be gone jv q c s = (NEvents items nxt left, s')"
  shows "page_of q c (apDb s) (apDb s') items nxt left \<and> store_run (apDb s) (apDb s')"
proof -
  have silent: "event_read be gone f t \<noteq> (Inl (NEvents items nxt left), t')" for f :: "Env \<Rightarrow> Db \<Rightarrow> store_err + 'b" and t t'
    by (auto simp: event_read_def nativeInternal_def split: prod.split sum.split)
  from assms(4) obtain h s1 es where
    "event_read be gone LatestEventSequence (snd (take_snapshot s)) = (Inr h, s1)"
    "event_read be gone (\<lambda>env. ListDownloadEvents env (scan_query q c h)) s1 = (Inr es, s')"
    "writeEvents gone jv es (eqLimit q) h s' = NEvents items nxt left"
    by (auto simp: finalEventsScan_def silent split: if_splits prod.splits sum.splits)
  then show ?thesis using answered_page [OF assms(1-3)] by blast
qed

lemma events_rounds_eqs:
  "events_rounds be gone jv q first c [] s =
     (case events_round be gone jv q first c s of (Inl r, s') \<Rightarrow> (r, s') | (Inr (ch, h), s') \<Rightarrow> (NWaiting, s'))"
  "events_rounds be gone jv q first c (w # ws) s =
     (case events_round be gone jv q first c s of
        (Inl r, s') \<Rightarrow> (r, s')
      | (Inr (ch, h), s') \<Rightarrow>
          (case w of Signalled \<Rightarrow> events_rounds be gone jv q False h ws s' | Departed \<Rightarrow> (NSilent, s')
           | _ \<Rightarrow> finalEventsScan be gone jv q h s'))"
  by (rule trans [OF events_rounds.simps], simp split: prod.split sum.split)+

lemma rounds_page:
  assumes "reachable (apDb s)" "lawful_others be" "1 \<le> eqLimit q" "\<not> (first \<and> eqLatest q)"
    and "events_rounds be gone jv q first c wakes s = (NEvents items nxt left, s')"
  shows "page_of q c (apDb s) (apDb s') items nxt left \<and> store_run (apDb s) (apDb s')"
  using assms(1,4,5)
proof (induction wakes arbitrary: first c s)
  case (Cons w ws)
  show ?case
  proof (cases "events_round be gone jv q first c s")
    case (Pair x t)
    show ?thesis
    proof (cases x)
      case (Inl r)
      then show ?thesis using Cons.prems Pair answered_round [OF Cons.prems(1) assms(2,3) Cons.prems(2)]
        by (simp add: events_rounds_eqs)
    next
      case (Inr p)
      then obtain ch h where p: "x = Inr (ch, h)" by (cases p) auto
      note park = parked_round [OF Cons.prems(1) assms(2,3) Cons.prems(2) Pair [unfolded p]]
      have rest: "w = Signalled \<and> events_rounds be gone jv q False h ws t = (NEvents items nxt left, s')
          \<or> finalEventsScan be gone jv q h t = (NEvents items nxt left, s')"
        using Cons.prems(3) by (cases w) (auto simp: events_rounds_eqs Pair p)
      have "page_of q h (apDb t) (apDb s') items nxt left \<and> store_run (apDb t) (apDb s')"
        using rest Cons.IH [of t False h] final_page [OF _ assms(2,3), of t] park by blast
      then have page: "page_of q h (apDb t) (apDb s') items nxt left" and run: "store_run (apDb t) (apDb s')" by simp_all
      from park have "last_sequence (apDb s) \<le> last_sequence (apDb t)" by linarith
      then have "page_of q c (apDb s) (apDb s') items nxt left"
        using page_after_park [OF page _ run] park by simp
      then show ?thesis using store_run_trans [OF run] park by simp
    qed
  qed
next
  case Nil
  then show ?case
    using answered_round [OF Nil.prems(1) assms(2,3) Nil.prems(2)]
    by (auto simp: events_rounds_eqs split: prod.splits sum.splits)
qed

subsection \<open>Requests of the feed\<close>

lemma param_limit: "event_param name v q = Some q' \<Longrightarrow> 1 \<le> eqLimit q \<Longrightarrow> 1 \<le> eqLimit q'"
  by (auto simp: event_param_def split: if_splits option.splits prod.splits)

lemma params_limit: "event_params ps q = Some q' \<Longrightarrow> 1 \<le> eqLimit q \<Longrightarrow> 1 \<le> eqLimit q'"
  by (induction ps q rule: event_params.induct) (auto split: list.splits option.splits dest: param_limit)

lemma query_limit: "parseEventsQuery r = Some q \<Longrightarrow> 1 \<le> eqLimit q"
  by (auto simp: parseEventsQuery_def defaultEventLimit_def dest!: params_limit)

lemma other_param: "event_param name v q = Some q' \<Longrightarrow> name \<noteq> ''cursor'' \<Longrightarrow> eqCursor q' = eqCursor q \<and> eqLatest q' = eqLatest q"
  by (auto simp: event_param_def split: if_splits option.splits prod.splits)

lemma no_cursor_params:
  "event_params ps q = Some q' \<Longrightarrow> map_of ps ''cursor'' = None \<Longrightarrow> eqCursor q' = eqCursor q \<and> eqLatest q' = eqLatest q"
  by (induction ps q rule: event_params.induct) (auto split: list.splits option.splits if_splits dest: other_param)

lemma cursor_params:
  "event_params ps q = Some q' \<Longrightarrow> distinct (map fst ps) \<Longrightarrow> map_of ps ''cursor'' = Some [v] \<Longrightarrow> decodeEventCursor v = Some n \<Longrightarrow>
   v \<noteq> ''latest'' \<Longrightarrow> eqCursor q' = n \<and> eqLatest q' = eqLatest q"
proof (induction ps q rule: event_params.induct)
  case (2 name raw rest q)
  from 2(2) obtain w q1 where w: "raw = [w]" "event_param name w q = Some q1" "event_params rest q1 = Some q'"
    by (auto split: list.splits option.splits)
  show ?case
  proof (cases "name = ''cursor''")
    case True
    with 2(3,4) w have "w = v" "map_of rest ''cursor'' = None" by (auto simp: map_of_eq_None_iff)
    moreover from this w(2) True 2(5,6) have "eqCursor q1 = n \<and> eqLatest q1 = eqLatest q"
      by (auto simp: event_param_def split: if_splits)
    ultimately show ?thesis using no_cursor_params [OF w(3)] by simp
  next
    case False
    then show ?thesis using 2 w other_param [OF w(2)] by auto
  qed
qed simp

lemma latest_is_no_cursor: "decodeEventCursor ''latest'' = None"
  by code_simp

lemma served_page:
  assumes "reachable (apDb s)" "lawful_others be" "parseEventsQuery r = Some q" "\<not> eqLatest q"
    and "serveEvents be gone jv wakes r s = (NEvents items nxt left, s')"
  shows "page_of q (eqCursor q) (apDb s) (apDb s') items nxt left \<and> store_run (apDb s) (apDb s')"
  using rounds_page [OF assms(1,2) query_limit [OF assms(3)], of True] assms(3-5)
  by (auto simp: serveEvents_def invalidRequest_def split: if_splits)

lemma served_event:
  assumes "nrPath r = eventsPath"
  shows "NativeServeHTTP be gone jv wakes r s = serveEvents be gone jv wakes r s"
  using assms by (simp add: NativeServeHTTP_def eventsPath_def downloadsPath_def)

subsection \<open>Every request is a run of the store\<close>

definition native_run :: "Backend \<Rightarrow> Api \<Rightarrow> Api \<Rightarrow> bool" where
  "native_run be s s' \<longleftrightarrow> (lawful_others be \<longrightarrow> reachable (apDb s) \<longrightarrow> store_run (apDb s) (apDb s'))"

lemma wait_rounds_eqs:
  "wait_rounds be gone hash [] s =
     (case wait_round be gone hash s of (Inl r, s') \<Rightarrow> (r, s') | (Inr ch, s') \<Rightarrow> (NWaiting, s'))"
  "wait_rounds be gone hash (w # ws) s =
     (case wait_round be gone hash s of
        (Inl r, s') \<Rightarrow> (r, s')
      | (Inr ch, s') \<Rightarrow>
          (case w of Signalled \<Rightarrow> wait_rounds be gone hash ws s' | Departed \<Rightarrow> (NSilent, s')
           | _ \<Rightarrow> finalRead be gone hash s'))"
  by (rule trans [OF wait_rounds.simps], simp split: prod.split sum.split)+

lemma native_run_refl: "native_run be s s"
  by (simp add: native_run_def store_run.refl)

lemma native_run_trans: "native_run be s t \<Longrightarrow> native_run be t u \<Longrightarrow> native_run be s u"
  unfolding native_run_def reachable_def using store_run_trans by blast

lemma native_run_read: "native_read be f s = (x, s') \<Longrightarrow> native_run be s s'"
  by (auto simp: native_run_def dest!: native_readD others_run)

lemma native_run_event: "event_read be gone f s = (x, s') \<Longrightarrow> native_run be s s'"
  by (auto simp: event_read_def split: prod.splits sum.splits dest: native_run_read)

lemma native_run_snapshot:
  "take_snapshot s = (ch, t) \<Longrightarrow> native_run be s t"
  "native_run be s (snd (take_snapshot s))"
  using snapshot_same [of s] by (auto simp: native_run_def store_run.refl)

lemma wait_round_run: "wait_round be gone hash s = (x, s') \<Longrightarrow> native_run be s s'"
  by (auto simp: wait_round_def native_run_refl split: if_splits prod.splits sum.splits
      dest!: native_run_snapshot(1) native_run_read intro: native_run_trans)

lemma final_read_run: "finalRead be gone hash s = (x, s') \<Longrightarrow> native_run be s s'"
  by (auto simp: finalRead_def split: prod.splits sum.splits dest: native_run_read)

lemma wait_rounds_run: "wait_rounds be gone hash wakes s = (rep, s') \<Longrightarrow> native_run be s s'"
proof (induction wakes arbitrary: s)
  case Nil
  then show ?case by (auto simp: wait_rounds_eqs split: prod.splits sum.splits dest: wait_round_run)
next
  case (Cons w ws)
  obtain x t where round: "wait_round be gone hash s = (x, t)" by fastforce
  have "native_run be t s'"
    using Cons.prems Cons.IH [of t] final_read_run [of be gone hash t rep s'] native_run_refl
    by (cases x; cases w) (auto simp: wait_rounds_eqs round)
  then show ?case using native_run_trans wait_round_run [OF round] by blast
qed

lemma scan_run:
  "finalEventsScan be gone jv q c s = (r, s') \<Longrightarrow> native_run be s s'"
  "events_round be gone jv q first c s = (x, s') \<Longrightarrow> native_run be s s'"
proof -
  show "finalEventsScan be gone jv q c s = (r, s') \<Longrightarrow> native_run be s s'"
    using native_run_snapshot(2) [of be s]
    by (auto simp: finalEventsScan_def native_run_refl split: if_splits prod.splits sum.splits
        dest!: native_run_event intro: native_run_trans)
  show "events_round be gone jv q first c s = (x, s') \<Longrightarrow> native_run be s s'"
    by (auto simp: events_round_def native_run_refl split: if_splits prod.splits sum.splits
        dest!: native_run_snapshot(1) native_run_event) (blast intro: native_run_trans)+
qed

lemma events_rounds_run: "events_rounds be gone jv q first c wakes s = (rep, s') \<Longrightarrow> native_run be s s'"
proof (induction wakes arbitrary: first c s)
  case Nil
  then show ?case by (auto simp: events_rounds_eqs split: prod.splits sum.splits dest: scan_run(2))
next
  case (Cons w ws)
  obtain x t where round: "events_round be gone jv q first c s = (x, t)" by fastforce
  have "native_run be t s'"
    using Cons.prems Cons.IH [of False _ t] scan_run(1) [of be gone jv q _ t rep s'] native_run_refl
    by (cases x; cases w) (auto simp: events_rounds_eqs round)
  then show ?case using native_run_trans scan_run(2) [OF round] by blast
qed

lemma submitted_run:
  assumes "api_store.keeps be (submit_call be f)" "submitted be f s = (rep, s')"
  shows "native_run be s s'"
  using api_store.keepsD [OF assms(1), of s] assms(2)
  by (auto simp: submitted_def native_run_def api_store_relation_def split: prod.splits)

lemmas submit_runs = submitted_run [OF api_store.keeps_submit, OF api_store.submit_db(1)] submitted_run [OF api_store.keeps_submit, OF api_store.submit_db(2)]

lemma native_request_runs: "NativeServeHTTP be gone jv wakes r s = (rep, s') \<Longrightarrow> native_run be s s'"
  by (auto simp: NativeServeHTTP_def native_submit_def submitJSON_def submitMultipart_def serveDownload_def
      serveDownloadWait_def serveEvents_def with_hash_def Let_def native_run_refl
      split: if_splits option.splits body.splits list.splits prod.splits sum.splits
      dest: submit_runs native_run_read wait_rounds_run events_rounds_run)

subsection \<open>A client that follows the feed\<close>

text \<open>
  The client asks without a cursor first and then with the text of the last \<open>next_cursor\<close>, always with the
  same filter, with any limits and waits; between its requests the store moves on.
\<close>

definition same_filter :: "eventsQuery \<Rightarrow> eventsQuery \<Rightarrow> bool" where
  "same_filter f q \<longleftrightarrow> eqCompleted q = eqCompleted f \<and> eqFailed q = eqFailed f \<and> eqHash q = eqHash f"

inductive follows :: "Backend \<Rightarrow> (nat \<Rightarrow> bool) \<Rightarrow> (Payload \<Rightarrow> bool) \<Rightarrow> eventsQuery \<Rightarrow> Api \<Rightarrow>
    (string \<times> Payload) list \<Rightarrow> string \<Rightarrow> Api \<Rightarrow> bool" for be gone jv f s where
  oldest: "nrPath r = eventsPath \<Longrightarrow> parseEventsQuery r = Some q \<Longrightarrow> same_filter f q \<Longrightarrow> map_of (nrQuery r) ''cursor'' = None \<Longrightarrow>
     NativeServeHTTP be gone jv wakes r s = (NEvents items nxt left, s') \<Longrightarrow> follows be gone jv f s items nxt s'"
| onward: "follows be gone jv f s items cur s1 \<Longrightarrow> store_run (apDb s1) (apDb s2) \<Longrightarrow>
     nrPath r = eventsPath \<Longrightarrow> parseEventsQuery r = Some q \<Longrightarrow> same_filter f q \<Longrightarrow> distinct (map fst (nrQuery r)) \<Longrightarrow>
     map_of (nrQuery r) ''cursor'' = Some [cur] \<Longrightarrow>
     NativeServeHTTP be gone jv wakes r s2 = (NEvents page nxt left, s') \<Longrightarrow> follows be gone jv f s (items @ page) nxt s'"

lemma same_wanted: "same_filter f q \<Longrightarrow> wanted q = wanted f"
  by (simp add: same_filter_def wanted_def fun_eq_iff)

lemma page_end:
  "page_of q c db db' items nxt left \<Longrightarrow> \<exists>m. nxt = encodeEventCursor m \<and> c \<le> m \<and> m \<le> last_sequence db'
     \<and> items = map shown_event (stretch (wanted q) c m (domain_events db'))"
  unfolding page_of_def by (metis order_trans)

lemma native_reaches:
  "NativeServeHTTP be gone jv wakes r s = (rep, s') \<Longrightarrow> reachable (apDb s) \<Longrightarrow> lawful_others be \<Longrightarrow>
   store_run (apDb s) (apDb s') \<and> reachable (apDb s')"
  using native_request_runs [of be gone jv wakes r s rep s'] run_log by (auto simp: native_run_def)

lemma follows_reachable: "follows be gone jv f s items nxt s' \<Longrightarrow> reachable (apDb s) \<Longrightarrow> lawful_others be \<Longrightarrow> reachable (apDb s')"
  by (induction rule: follows.induct) (use native_reaches run_log in blast)+

lemma followed:
  assumes "follows be gone jv f s items nxt s'" "reachable (apDb s)" "lawful_others be" "last_sequence (apDb s') < 2 ^ 63"
  shows "\<exists>m. nxt = encodeEventCursor m \<and> 0 \<le> m \<and> m \<le> last_sequence (apDb s')
    \<and> items = map shown_event (stretch (wanted f) 0 m (domain_events (apDb s')))"
  using assms(1,4)
proof (induction rule: follows.induct)
  case (oldest r q wakes items nxt left s')
  have q: "eqCursor q = 0 \<and> \<not> eqLatest q"
    using oldest(2,4) no_cursor_params by (fastforce simp: parseEventsQuery_def)
  from served_page [OF assms(2,3) oldest(2)] q oldest(5) served_event [OF oldest(1)]
  have page: "page_of q 0 (apDb s) (apDb s') items nxt left" by auto
  show ?case using page_end [OF page] same_wanted [OF oldest(3)] by simp
next
  case (onward items cur s1 s2 r q wakes page nxt left s')
  note r1 = follows_reachable [OF onward(1) assms(2,3)]
  note g1 = run_log [OF r1 onward(2)]
  then have r2: "reachable (apDb s2)" by simp
  from native_reaches [OF onward(8) r2 assms(3)] have "store_run (apDb s2) (apDb s')" by simp
  note g2 = run_log [OF r2 this]
  have "last_sequence (apDb s1) < 2 ^ 63" using g1 g2 onward(10) by linarith
  from onward(9) [OF this] obtain n where n: "cur = encodeEventCursor n" "0 \<le> n" "n \<le> last_sequence (apDb s1)"
    "items = map shown_event (stretch (wanted f) 0 n (domain_events (apDb s1)))" by blast
  have cur: "decodeEventCursor cur = Some n" using n decode_encode \<open>last_sequence (apDb s1) < 2 ^ 63\<close> by simp
  have q: "eqCursor q = n \<and> \<not> eqLatest q"
    using cursor_params [of "nrQuery r" _ q cur n] onward(4,6,7) cur latest_is_no_cursor
    by (fastforce simp: parseEventsQuery_def)
  from served_page [OF r2 assms(3) onward(4)] q onward(8) served_event [OF onward(3)]
  have page: "page_of q n (apDb s2) (apDb s') page nxt left" by auto
  from page_end [OF this] same_wanted [OF onward(5)] obtain m where m: "nxt = encodeEventCursor m" "n \<le> m" "m \<le> last_sequence (apDb s')"
    "page = map shown_event (stretch (wanted f) n m (domain_events (apDb s')))" by auto
  have "stretch (wanted f) 0 n (domain_events (apDb s1)) = stretch (wanted f) 0 n (domain_events (apDb s'))"
    using stretch_grows [of "apDb s1" "apDb s'" n] g1 g2 n(3) by (metis prefix_order.trans)
  then have "items @ page = map shown_event (stretch (wanted f) 0 m (domain_events (apDb s')))"
    using stretch_join [OF log_sorted [of "apDb s'"], of 0 n m "wanted f"] g2 n(2,4) m(2,4) by (metis map_append)
  then show ?case using m n(2) by (intro exI [of _ m]) simp
qed

text \<open>All that the client has received: the matching events of the log up to its cursor.\<close>

lemma followed_all:
  assumes "follows be gone jv f s items nxt s'" "reachable (apDb s)" "lawful_others be" "last_sequence (apDb s') < 2 ^ 63"
  shows "\<exists>m. decodeEventCursor nxt = Some m \<and> 0 \<le> m \<and> m \<le> last_sequence (apDb s')
    \<and> items = map shown_event (filter (\<lambda>e. ev_sequence e \<le> m \<and> wanted f e) (domain_events (apDb s')))"
proof -
  from followed [OF assms] obtain m where m: "nxt = encodeEventCursor m" "0 \<le> m" "m \<le> last_sequence (apDb s')"
    "items = map shown_event (stretch (wanted f) 0 m (domain_events (apDb s')))" by blast
  have "log_ok (apDb s')" using follows_reachable [OF assms(1-3)] reachable_log by blast
  then have "stretch (wanted f) 0 m (domain_events (apDb s')) =
      filter (\<lambda>e. ev_sequence e \<le> m \<and> wanted f e) (domain_events (apDb s'))"
    unfolding stretch_def using log_bound by (intro filter_cong) fastforce+
  with m assms(4) decode_encode show ?thesis by (intro exI [of _ m]) simp
qed

end
