(* ===== verification/Native_Wait.thy ===== *)
theory Native_Wait
  imports Native_Feed Store_Facts
begin

section \<open>What the native API promises: the wait\<close>

text \<open>
  What each answer of the wait says about the store, and that the channel a waiter parks on is closed by
  every commit that changes a state after the snapshot.
\<close>

subsection \<open>Answers\<close>

definition stored_as :: "string \<Rightarrow> Db \<Rightarrow> Download \<Rightarrow> bool" where
  "stored_as hash db d \<longleftrightarrow> (\<exists>env. GetDownload env hash db = Inr d)"

definition wait_answer :: "(float64 \<Rightarrow> int) \<Rightarrow> string \<Rightarrow> wake_reason list \<Rightarrow> Db \<Rightarrow> native_reply \<Rightarrow> bool" where
  "wait_answer oob hash wakes db rep \<longleftrightarrow>
     (case rep of
        NModel m \<Rightarrow> \<exists>d. stored_as hash db d \<and> terminalOutcome (dState d) \<noteq> None \<and> m = download_model oob d
      | NVersion v \<Rightarrow> (\<exists>d. stored_as hash db d \<and> terminalOutcome (dState d) = None \<and> v = dRowVersion d)
          \<and> (Elapsed \<in> set wakes \<or> Retired \<in> set wakes)
      | NWaiting \<Rightarrow> (\<exists>d. stored_as hash db d \<and> terminalOutcome (dState d) = None) \<and> set wakes \<subseteq> {Signalled}
      | NSilent \<Rightarrow> True
      | r \<Rightarrow> r = downloadNotFound \<or> r = nativeInternal)"

lemma wait_answer_more: "wait_answer oob hash ws db rep \<Longrightarrow> rep \<noteq> NWaiting \<Longrightarrow> wait_answer oob hash (w # ws) db rep"
  by (auto simp: wait_answer_def split: native_reply.splits)

lemma round_answer:
  assumes "wait_round be gone hash s = (x, s')"
  shows "case x of Inr ch \<Rightarrow> \<exists>d. stored_as hash (apDb s') d \<and> terminalOutcome (dState d) = None
    | Inl r \<Rightarrow> r \<noteq> NWaiting \<and> wait_answer (beFloatOob be) hash ws (apDb s') r"
  using assms
  by (auto simp: wait_round_def wait_answer_def stored_as_def read_error_def downloadNotFound_def nativeInternal_def
      split: if_splits prod.splits sum.splits dest!: native_readD) metis+

lemma final_answer:
  assumes "finalRead be gone hash s = (r, s')" "w = Elapsed \<or> w = Retired"
  shows "wait_answer (beFloatOob be) hash (w # ws) (apDb s') r"
  using assms
  by (auto simp: finalRead_def wait_answer_def stored_as_def downloadNotFound_def nativeInternal_def
      split: if_splits prod.splits sum.splits dest!: native_readD) metis+

lemma waited: "wait_rounds be gone hash wakes s = (rep, s') \<Longrightarrow> wait_answer (beFloatOob be) hash wakes (apDb s') rep"
proof (induction wakes arbitrary: s)
  case Nil
  obtain x t where round: "wait_round be gone hash s = (x, t)" by fastforce
  then show ?case using round_answer [OF round, of "[]"] Nil
    by (cases x) (auto simp: wait_rounds_eqs wait_answer_def)
next
  case (Cons w ws)
  obtain x t where round: "wait_round be gone hash s = (x, t)" by fastforce
  show ?case
  proof (cases x)
    case (Inl r)
    then show ?thesis using Cons.prems round_answer [OF round, of "w # ws"] by (simp add: wait_rounds_eqs round)
  next
    case (Inr ch)
    consider "w = Signalled" "wait_rounds be gone hash ws t = (rep, s')" | "w = Departed" "rep = NSilent"
      | "w = Elapsed \<or> w = Retired" "finalRead be gone hash t = (rep, s')"
      using Cons.prems Inr by (cases w) (auto simp: wait_rounds_eqs round)
    then show ?thesis
    proof cases
      case 1
      then show ?thesis using Cons.IH [OF 1(2)] by (cases "rep = NWaiting") (auto simp: wait_answer_more, simp add: wait_answer_def)
    next
      case 2
      then show ?thesis by (simp add: wait_answer_def)
    next
      case 3
      then show ?thesis by (intro final_answer)
    qed
  qed
qed

text \<open>A download that is terminal at the first read is answered at once, whatever the wakes.\<close>

lemma answered_at_once:
  assumes "\<not> gone (apCalls s)" "reachable (apDb s)"
    and "GetDownload (beEnv be (apCalls s)) hash (beOthers be (apCalls s) (apDb s)) = Inr d" "terminalOutcome (dState d) \<noteq> None"
  shows "fst (wait_rounds be gone hash wakes s) = NModel (download_model (beFloatOob be) d)"
  using assms(1,3,4)
  by (cases wakes) (auto simp: wait_rounds_eqs wait_round_def snapshot_same [OF assms(2)] native_read_def Let_def)

subsection \<open>Wake-ups\<close>

text \<open>The channel of a snapshot stays the current one until a notification closes it.\<close>

definition channel_kept :: "Db \<Rightarrow> Db \<Rightarrow> bool" where
  "channel_kept db db' \<longleftrightarrow> set (sgClosed (eventSignal db)) \<subseteq> set (sgClosed (eventSignal db'))
     \<and> (snapshot_of db' = snapshot_of db \<or> snapshot_of db \<in> set (sgClosed (eventSignal db')))"

lemma channel_kept_same: "eventSignal db' = eventSignal db \<Longrightarrow> channel_kept db db'"
  by (simp add: channel_kept_def snapshot_of_def)

lemma notified: "snapshot_of db \<in> set (sgClosed (eventSignal (notify db)))"
  by (simp add: snapshot_of_def notify_def Notify_closes)

interpretation channel: store_relation channel_kept
proof unfold_locales
  show "channel_kept a c" if "channel_kept a b" "channel_kept b c" for a b c
    using that by (auto simp: channel_kept_def)
  show "channel_kept db (notify db)" for db
    using notified [of db] by (auto simp: channel_kept_def) (auto simp: notify_def Notify_closes)
qed (auto simp: insert_event_def insert_delivery_def Let_def split: if_splits intro: channel_kept_same)

lemma emit_after_notifies:
  assumes "emit_after env l conv hash ev db = Inr (u, db')" "domain_events db' \<noteq> domain_events db"
  shows "snapshot_of db \<in> set (sgClosed (eventSignal db'))"
proof -
  from assms obtain ty prev d db2 where "emit env ty prev d db = Inr ((), db2)" "db' = notify db2"
    by (auto simp: emit_after_def reread_def get_row_def tx_bind_Inr split: option.splits)
  then show ?thesis
    using channel.stepsD [OF channel.steps_emit_env, of env ty prev d db "()" db2] notified [of db2]
    by (auto simp: channel_kept_def notify_def Notify_closes)
qed

lemma commit_notifies:
  assumes "paths_ok db" "CommitClaim env claim next db = (Inr (), db')" "dState next \<noteq> kState claim"
  shows "snapshot_of db \<in> set (sgClosed (eventSignal db'))"
proof -
  from assms(2) obtain next' db1 n where
    upd: "commit_statement claim next' db = Inr (n, db1)"
    and em: "emit_after env ''committed claim'' downloadFromDB (dHash next')
       (\<lambda>d. if dState d \<noteq> kState claim then Some (commit_event (dState d), kState claim) else None) db1 = Inr ((), db')"
    by (auto simp: CommitClaim_def in_tx_def tx_bind_Inr split: sum.splits if_splits)
  have same: "domain_events db1 = domain_events db" "eventSignal db1 = eventSignal db"
    using upd by (auto simp: commit_statement_def update_guarded_def update_plain_def split: if_splits)
  have "domain_events db' \<noteq> domain_events db1"
    using commit_announces [OF assms(1,2)] assms(3) same(1) by (auto simp: announced_def)
  from emit_after_notifies [OF em this] show ?thesis by (simp add: snapshot_of_def same(2))
qed

text \<open>Both waits park on the channel that was current before their reads.\<close>

definition parks_on :: "Backend \<Rightarrow> (nat \<Rightarrow> bool) \<Rightarrow> nat \<Rightarrow> Api \<Rightarrow> Api \<Rightarrow> bool" where
  "parks_on be gone ch s s' \<longleftrightarrow> (\<exists>hash. wait_round be gone hash s = (Inr ch, s'))
     \<or> (\<exists>jv q first c h. events_round be gone jv q first c s = (Inr (ch, h), s'))"

lemma parked_channel:
  assumes "parks_on be gone ch s s'" "reachable (apDb s)" "lawful_others be"
  shows "ch = snapshot_of (apDb s) \<and> store_run (apDb s) (apDb s')"
proof -
  have "native_run be s s'" using assms(1) wait_round_run scan_run(2) unfolding parks_on_def by blast
  moreover have "ch = snapshot_of (apDb s)"
    using assms(1) unfolding parks_on_def
    by (auto simp: wait_round_def events_round_def snapshot_same [OF assms(2)] split: if_splits prod.splits sum.splits)
  ultimately show ?thesis using assms(2,3) by (simp add: native_run_def)
qed

lemma parked_waiter_woken:
  assumes "reachable (apDb s)" "lawful_others be" "parks_on be gone ch s s'"
    and "store_run (apDb s) db1" "CommitClaim env claim next db1 = (Inr (), db2)" "dState next \<noteq> kState claim"
    and "store_run db2 db3"
  shows "ch \<in> set (sgClosed (eventSignal db3))"
proof -
  have "paths_ok db1" using assms(1,4) reachable_paths store_run_trans unfolding reachable_def by blast
  then have "snapshot_of db1 \<in> set (sgClosed (eventSignal db2))" using commit_notifies assms(5,6) by blast
  moreover have "channel_kept (apDb s) db1" using channel.store_run_R [OF assms(4)] .
  moreover have "channel_kept db1 db2"
    using channel.CommitClaim_R [of db1 env claim "next"] assms(5) by simp
  moreover have "channel_kept db2 db3" using channel.store_run_R [OF assms(7)] .
  ultimately show ?thesis using parked_channel [OF assms(3,1,2)] by (auto simp: channel_kept_def)
qed

end
