(* ===== verification/Http_Rename.thy ===== *)
theory Http_Rename
  imports Http_Facts Fsafe_Apply
begin

section \<open>Folder renames: the disk and the store\<close>

text \<open>
  The file plans that the handler applies to a completed download and the overrides that the store
  writes for the same request are computed by different code; here they are shown to agree.
\<close>

subsection \<open>What the store records\<close>

text \<open>The primary keys of the file tables.\<close>

definition file_keys :: "Db \<Rightarrow> bool" where
  "file_keys db \<longleftrightarrow> distinct (map (\<lambda>f. (fr_download_hash f, fr_file_index f)) (download_files db))
     \<and> distinct (map (\<lambda>o'. (oDownloadHash o', oFileIndex o')) (file_overrides db))"

definition recorded_file :: "string \<Rightarrow> Db \<Rightarrow> file_row \<Rightarrow> effectiveFile" where
  "recorded_file hash db f = effective_file (overrides_of hash db) f"

definition stored_value :: "string \<Rightarrow> Db \<Rightarrow> int \<Rightarrow> (string \<times> int) option" where
  "stored_value hash db i =
     map_option (\<lambda>o'. (oRelativePath o', oPriority o')) (find (\<lambda>o'. oDownloadHash o' = hash \<and> oFileIndex o' = i) (file_overrides db))"

lemma find_filter: "find P xs = (case filter P xs of [] \<Rightarrow> None | y # _ \<Rightarrow> Some y)"
  by (induction xs) auto

lemma find_sorted_key: "find (\<lambda>x. f x = k) (sort_key f xs) = find (\<lambda>x. f x = k) xs"
  by (simp add: find_filter sort_key_stable)

lemma find_in_filter: "find P (filter Q xs) = find (\<lambda>x. Q x \<and> P x) xs"
  by (induction xs) auto

lemma override_lookup:
  "find (\<lambda>o'. oFileIndex o' = i) (overrides_of hash db) = find (\<lambda>o'. oDownloadHash o' = hash \<and> oFileIndex o' = i) (file_overrides db)"
  by (simp add: overrides_of_def find_sorted_key find_in_filter)

lemma recorded_file_value:
  "recorded_file hash db f =
     (case stored_value hash db (fr_file_index f) of
        None \<Rightarrow> \<lparr>xIndex = fr_file_index f, xPath = fr_relative_path f, xPrio = 1\<rparr>
      | Some (p, prio) \<Rightarrow> \<lparr>xIndex = fr_file_index f, xPath = p, xPrio = prio\<rparr>)"
  by (simp add: recorded_file_def effective_file_def override_lookup stored_value_def split: option.splits)

lemma find_update:
  "find Q (sql_update P g xs) = map_option (\<lambda>x. if P x then g x else x) (find Q xs)" if "\<And>x. P x \<Longrightarrow> Q (g x) = Q x"
  using that by (induction xs) (auto simp: sql_update_Cons)

lemma upsert_value:
  assumes "UpsertDownloadFileOverride ov db = Inr (u, db')"
  shows "stored_value (oDownloadHash ov) db' i =
      (if i = oFileIndex ov then Some (oRelativePath ov, oPriority ov) else stored_value (oDownloadHash ov) db i)"
    "download_files db' = download_files db" "downloads db' = downloads db"
proof -
  let ?same = "\<lambda>x. oDownloadHash x = oDownloadHash ov \<and> oFileIndex x = oFileIndex ov"
  let ?g = "\<lambda>x. x\<lparr>oRelativePath := oRelativePath ov, oPriority := oPriority ov\<rparr>"
  let ?Q = "\<lambda>o'. oDownloadHash o' = oDownloadHash ov \<and> oFileIndex o' = i"
  show "download_files db' = download_files db" "downloads db' = downloads db"
    using assms by (auto simp: UpsertDownloadFileOverride_def Let_def split: if_splits)
  consider "list_ex ?same (file_overrides db)" "file_overrides db' = sql_update ?same ?g (file_overrides db)"
    | "\<not> list_ex ?same (file_overrides db)" "file_overrides db' = file_overrides db @ [ov]"
    using assms by (auto simp: UpsertDownloadFileOverride_def Let_def split: if_splits)
  then show "stored_value (oDownloadHash ov) db' i =
      (if i = oFileIndex ov then Some (oRelativePath ov, oPriority ov) else stored_value (oDownloadHash ov) db i)"
  proof cases
    case 1
    have "find ?Q (file_overrides db') = map_option (\<lambda>x. if ?same x then ?g x else x) (find ?Q (file_overrides db))"
      unfolding 1(2) by (rule find_update) simp
    moreover obtain x where x: "find ?same (file_overrides db) = Some x" using 1(1)
      by (cases "find ?same (file_overrides db)") (auto simp: find_None_iff list_ex_iff)
    moreover have "?same x" using x by (auto simp: find_Some_iff)
    moreover have "\<not> ?same y" if "find ?Q (file_overrides db) = Some y" "i \<noteq> oFileIndex ov" for y
      using that by (auto simp: find_Some_iff)
    ultimately show ?thesis
      by (cases "i = oFileIndex ov"; cases "find ?Q (file_overrides db)") (auto simp: stored_value_def)
  next
    case 2
    have "find Q (xs @ [x]) = (case find Q xs of None \<Rightarrow> if Q x then Some x else None | Some y \<Rightarrow> Some y)" for Q :: "FileOverride \<Rightarrow> bool" and xs x
      by (induction xs) auto
    moreover have "find ?same (file_overrides db) = None" using 2(1) by (auto simp: find_None_iff list_ex_iff)
    ultimately show ?thesis using 2(2) by (auto simp: stored_value_def split: option.splits)
  qed
qed

text \<open>The loop that writes the overrides: each index at most once.\<close>

lemma write_overrides:
  assumes "tx_each (\<lambda>x. if old (xIndex x) = xPath x then tx_return ()
      else exec_wrapped env l (UpsertDownloadFileOverride
        \<lparr>oDownloadHash = hash, oFileIndex = xIndex x, oRelativePath = xPath x, oPriority = xPrio x\<rparr>)) xs db = Inr (u, db')"
    and "distinct (map xIndex xs)"
  shows "download_files db' = download_files db
    \<and> (\<forall>x \<in> set xs. stored_value hash db' (xIndex x) =
          (if old (xIndex x) = xPath x then stored_value hash db (xIndex x) else Some (xPath x, xPrio x)))
    \<and> (\<forall>i. i \<notin> xIndex ` set xs \<longrightarrow> stored_value hash db' i = stored_value hash db i)"
  using assms
proof (induction xs arbitrary: db)
  case (Cons x xs)
  let ?ov = "\<lparr>oDownloadHash = hash, oFileIndex = xIndex x, oRelativePath = xPath x, oPriority = xPrio x\<rparr>"
  obtain v db1 where first: "(if old (xIndex x) = xPath x then tx_return () else exec_wrapped env l (UpsertDownloadFileOverride ?ov)) db = Inr (v, db1)"
    and rest: "tx_each (\<lambda>x. if old (xIndex x) = xPath x then tx_return ()
      else exec_wrapped env l (UpsertDownloadFileOverride
        \<lparr>oDownloadHash = hash, oFileIndex = xIndex x, oRelativePath = xPath x, oPriority = xPrio x\<rparr>)) xs db1 = Inr (u, db')"
    using Cons.prems(1) by (auto simp: tx_bind_Inr)
  have one: "download_files db1 = download_files db \<and>
      stored_value hash db1 i = (if i = xIndex x \<and> old (xIndex x) \<noteq> xPath x then Some (xPath x, xPrio x) else stored_value hash db i)" for i
  proof (cases "old (xIndex x) = xPath x")
    case True
    with first show ?thesis by simp
  next
    case False
    with first have "UpsertDownloadFileOverride ?ov db = Inr (v, db1)" by (auto simp: exec_wrapped_def)
    from upsert_value [OF this] False show ?thesis by auto
  qed
  have ne: "xIndex y \<noteq> xIndex x" if "y \<in> set xs" for y
    using that Cons.prems(2) by (metis distinct.simps(2) image_eqI list.set_map list.simps(9))
  have ih: "download_files db' = download_files db1"
      "\<forall>y \<in> set xs. stored_value hash db' (xIndex y) =
          (if old (xIndex y) = xPath y then stored_value hash db1 (xIndex y) else Some (xPath y, xPrio y))"
      "\<forall>i. i \<notin> xIndex ` set xs \<longrightarrow> stored_value hash db' i = stored_value hash db1 i"
    using Cons.IH [OF rest] Cons.prems(2) by simp_all
  have "\<forall>y \<in> set xs. stored_value hash db' (xIndex y) =
          (if old (xIndex y) = xPath y then stored_value hash db (xIndex y) else Some (xPath y, xPrio y))"
    using ih(2) one ne by simp
  moreover have "stored_value hash db' (xIndex x) =
          (if old (xIndex x) = xPath x then stored_value hash db (xIndex x) else Some (xPath x, xPrio x))"
    using ih(3) one Cons.prems(2) by simp
  moreover have "stored_value hash db' i = stored_value hash db i" if "i \<notin> xIndex ` set (x # xs)" for i
    using that ih(3) one [of i] by simp
  ultimately show ?case using ih(1) one by simp
qed simp

lemma files_of_index:
  assumes "file_keys db"
  shows "distinct (map fr_file_index (files_of hash db))" and "f \<in> set (files_of hash db) \<Longrightarrow> fr_download_hash f = hash"
proof -
  have "distinct (map fr_file_index (filter (\<lambda>f. fr_download_hash f = hash) fs))"
    if "distinct (map (\<lambda>f. (fr_download_hash f, fr_file_index f)) fs)" for fs :: "file_row list"
    using that by (auto simp: distinct_map inj_on_def)
  then have "distinct (map fr_file_index (filter (\<lambda>f. fr_download_hash f = hash) (download_files db)))"
    using assms by (simp add: file_keys_def)
  moreover have "mset (map fr_file_index (files_of hash db)) = mset (map fr_file_index (filter (\<lambda>f. fr_download_hash f = hash) (download_files db)))"
    by (simp add: files_of_def)
  ultimately show "distinct (map fr_file_index (files_of hash db))" by (metis mset_eq_imp_distinct_iff)
  show "f \<in> set (files_of hash db) \<Longrightarrow> fr_download_hash f = hash" by (auto simp: files_of_def)
qed

lemma find_by_index: "distinct (map g xs) \<Longrightarrow> x \<in> set xs \<Longrightarrow> find (\<lambda>y. g y = g x) xs = Some x"
  by (induction xs) (auto simp: rev_image_eqI)

lemma old_relative_recorded:
  assumes "file_keys db" "f \<in> set (files_of hash db)"
  shows "old_relative (files_of hash db) (overrides_of hash db) (fr_file_index f) = xPath (recorded_file hash db f)"
  using find_by_index [OF files_of_index(1) [OF assms(1)] assms(2)]
  by (simp add: old_relative_def recorded_file_def effective_file_def split: option.splits)

theorem folder_records:
  assumes "RenameFolder env hash old new now db = (Inr u, db')" and keys: "file_keys db"
  shows "files_of hash db' = files_of hash db"
    and "f \<in> set (files_of hash db) \<Longrightarrow> recorded_file hash db' f =
      (recorded_file hash db f)\<lparr>xPath := rename_prefix old new (xPath (recorded_file hash db f))\<rparr>"
proof -
  let ?files = "files_of hash db" and ?ovs = "overrides_of hash db"
  define after where "after = map (\<lambda>x. x\<lparr>xPath := rename_prefix old new (xPath x)\<rparr>) (map (effective_file ?ovs) ?files)"
  from assms(1) have "rename_folder env hash old new now db = Inr (u, db')"
    by (auto simp: RenameFolder_def in_tx_def split: if_splits sum.splits)
  then obtain v db1 n db2 where loop: "tx_each (\<lambda>x. if old_relative ?files ?ovs (xIndex x) = xPath x then tx_return ()
        else exec_wrapped env ''write folder override'' (UpsertDownloadFileOverride
          \<lparr>oDownloadHash = hash, oFileIndex = xIndex x, oRelativePath = xPath x, oPriority = xPrio x\<rparr>)) after db = Inr (v, db1)"
    and touch: "TouchDownload now hash db1 = Inr (n, db2)"
    and last: "commitMutationTx (faulty env) ''commit folder rename'' True db2 = Inr (u, db')"
    by (auto simp: rename_folder_def tx_bind_Inr Let_def need_row_def get_row_def after_def split: option.splits)
  have idx: "map xIndex after = map fr_file_index ?files"
    by (simp add: after_def effective_file_def split: option.splits)
  have keep: "download_files db' = download_files db1 \<and> file_overrides db' = file_overrides db1"
    using touch last by (auto simp: TouchDownload_def update_guarded_def update_plain_def notify_def Let_def split: if_splits)
  note w = write_overrides [OF loop, unfolded idx, OF files_of_index(1) [OF keys]]
  show files: "files_of hash db' = ?files" using w keep by (simp add: files_of_def)
  have val: "stored_value hash db' i = stored_value hash db1 i" for i using keep by (simp add: stored_value_def)
  assume f: "f \<in> set ?files"
  let ?x = "(recorded_file hash db f)\<lparr>xPath := rename_prefix old new (xPath (recorded_file hash db f))\<rparr>"
  have x: "?x \<in> set after" "xIndex ?x = fr_file_index f"
    using f by (auto simp: after_def recorded_file_def effective_file_def split: option.splits)
  have "stored_value hash db1 (fr_file_index f) =
      (if xPath (recorded_file hash db f) = xPath ?x then stored_value hash db (fr_file_index f) else Some (xPath ?x, xPrio ?x))"
    using w x old_relative_recorded [OF keys f] by auto
  then show "recorded_file hash db' f = ?x"
    unfolding recorded_file_value [of hash db'] val
    by (auto simp: recorded_file_value [of hash db] split: option.splits)
qed

subsection \<open>What the handler plans\<close>

lemma find_rev: "distinct (map g xs) \<Longrightarrow> find (\<lambda>x. g x = k) (rev xs) = find (\<lambda>x. g x = k) xs"
proof (cases "k \<in> g ` set xs")
  case True
  then obtain x where x: "x \<in> set xs" "k = g x" by auto
  assume "distinct (map g xs)"
  then show ?thesis using find_by_index [of g xs x] find_by_index [of g "rev xs" x] x
    by (simp add: rev_map [symmetric])
next
  case False
  then have "find (\<lambda>x. g x = k) ys = None" if "set ys = set xs" for ys
    using that by (auto simp: find_None_iff)
  then show ?thesis by simp
qed

lemma overrides_of_index: "file_keys db \<Longrightarrow> distinct (map oFileIndex (overrides_of hash db))"
proof -
  assume keys: "file_keys db"
  have "distinct (map oFileIndex (filter (\<lambda>o'. oDownloadHash o' = hash) os))"
    if "distinct (map (\<lambda>o'. (oDownloadHash o', oFileIndex o')) os)" for os :: "FileOverride list"
    using that by (auto simp: distinct_map inj_on_def)
  then have "distinct (map oFileIndex (filter (\<lambda>o'. oDownloadHash o' = hash) (file_overrides db)))"
    using keys by (simp add: file_keys_def)
  moreover have "mset (map oFileIndex (overrides_of hash db)) = mset (map oFileIndex (filter (\<lambda>o'. oDownloadHash o' = hash) (file_overrides db)))"
    by (simp add: overrides_of_def)
  ultimately show ?thesis by (metis mset_eq_imp_distinct_iff)
qed

lemma converted_files:
  assumes "convert_all fileFromDB rows = Inr files"
  shows "files = map (\<lambda>f. \<lparr>fDownloadHash = fr_download_hash f, fIndex = fr_file_index f,
             fRelativePath = fr_relative_path f, fSize = fr_size f, fPriority = 0\<rparr>) rows"
  using assms by (induction rows arbitrary: files) (auto simp: fileFromDB_def and_then_def split: sum.splits if_splits)

definition folder_plan :: "string \<Rightarrow> string \<Rightarrow> string \<Rightarrow> Db \<Rightarrow> file_row \<Rightarrow> FilePlan" where
  "folder_plan hash old new db f =
     (let x = recorded_file hash db f
      in \<lparr>fpIndex = fr_file_index f, fpOriginalPath = xPath x, fpEffectivePath = rename_prefix old new (xPath x),
          fpPriority = 1, fpSize = fr_size f\<rparr>)"

definition folder_moves :: "string \<Rightarrow> string \<Rightarrow> string \<Rightarrow> Db \<Rightarrow> file_row \<Rightarrow> bool" where
  "folder_moves hash old new db f \<longleftrightarrow>
     (let x = recorded_file hash db f in rename_prefix old new (xPath x) \<noteq> xPath x \<and> xPrio x \<noteq> 0)"

lemma handler_plans:
  assumes "ListDownloadFiles env hash db = Inr files" "file_keys db"
  shows "completedFolderPlans files (overrides_of hash db) old new =
    map (folder_plan hash old new db) (filter (folder_moves hash old new db) (files_of hash db))"
proof -
  have files: "files = map (\<lambda>f. \<lparr>fDownloadHash = fr_download_hash f, fIndex = fr_file_index f,
             fRelativePath = fr_relative_path f, fSize = fr_size f, fPriority = 0\<rparr>) (files_of hash db)"
    using assms(1) by (intro converted_files) (auto simp: ListDownloadFiles_def stmt_def split: if_splits)
  have ov: "override_of (overrides_of hash db) i = find (\<lambda>o'. oFileIndex o' = i) (overrides_of hash db)" for i
    unfolding override_of_def by (rule find_rev [OF overrides_of_index [OF assms(2)]])
  have target: "folder_target old new p = rename_prefix old new p" for p
    by (simp add: folder_target_def rename_prefix_def)
  have view: "file_view (overrides_of hash db) g = (xPath (recorded_file hash db f), xPrio (recorded_file hash db f))"
    if "fIndex g = fr_file_index f" "fRelativePath g = fr_relative_path f" for f and g :: DownloadFile
    using that by (simp add: file_view_def ov recorded_file_def effective_file_def split: option.splits)
  have mf: "List.map_filter h (map g xs) = map k (filter P xs)"
    if "\<And>x. h (g x) = (if P x then Some (k x) else None)" for h g k P and xs :: "file_row list"
    using that by (induction xs) (simp_all add: List.map_filter_simps)
  show ?thesis
    unfolding completedFolderPlans_def files
    by (rule mf) (simp add: view target folder_moves_def folder_plan_def Let_def)
qed

text \<open>Applied without a fault, the handler's plan moves every selected file of the folder to its new path.\<close>

lemma folder_plan_moves:
  assumes ready: "plan_ready localRoot dir dh
      (map (folder_plan hash old new db) (filter (folder_moves hash old new db) (files_of hash db))) fs0"
    and calm: "faultless dk"
  shows "\<exists>fs. ApplyFilePlan dk localRoot dir dh
      (map (folder_plan hash old new db) (filter (folder_moves hash old new db) (files_of hash db))) fs0 = (Inr (), fs) \<and>
    (\<forall>x \<in> set (files_of hash db). folder_moves hash old new db x \<longrightarrow>
       fs_at fs (plan_path dir (rename_prefix old new (xPath (recorded_file hash db x)))) =
         fs_at fs0 (plan_path dir (xPath (recorded_file hash db x)))
       \<and> fs_at fs (plan_path dir (xPath (recorded_file hash db x))) = None)"
proof -
  let ?plans = "map (folder_plan hash old new db) (filter (folder_moves hash old new db) (files_of hash db))"
  obtain r fs where call: "ApplyFilePlan dk localRoot dir dh ?plans (attempts localRoot dir dh ?plans [] fs0) = (r, fs)"
    by fastforce
  note completed = plan_completed [OF ready calm call]
  have "fs_at fs (plan_path dir (rename_prefix old new (xPath (recorded_file hash db x)))) =
        fs_at fs0 (plan_path dir (xPath (recorded_file hash db x)))
      \<and> fs_at fs (plan_path dir (xPath (recorded_file hash db x))) = None"
    if x: "x \<in> set (files_of hash db)" "folder_moves hash old new db x" for x
  proof -
    let ?p = "folder_plan hash old new db x"
    have p: "?p \<in> set ?plans" using x by auto
    then have "plan_ok ?p" using ready by (auto simp: plan_ready_def list_all_iff file_ready_def)
    then have "moves_file ?p"
      using x(2) by (auto simp: plan_ok_def validManifestPath_def moves_file_def folder_plan_def folder_moves_def Let_def)
    then have "move_of dir dh ?p \<in> set (plan_moves dir dh ?plans)" using p by (auto simp: plan_moves_def)
    with completed show ?thesis by (auto simp: move_of_def folder_plan_def Let_def)
  qed
  with completed call show ?thesis by (auto simp: attempts_def)
qed
subsection \<open>The request\<close>

text \<open>An action that never ends early with the empty 200.\<close>

definition late_ok :: "'a act \<Rightarrow> bool" where
  "late_ok m \<longleftrightarrow> (\<forall>s. fst (m s) \<noteq> Inl OkReply)"

named_theorems late

lemma late_pure [late]: "late_ok (act_return x)" "r \<noteq> OkReply \<Longrightarrow> late_ok (respond r)" "r \<noteq> OkReply \<Longrightarrow> late_ok (check c r)"
  "r \<noteq> OkReply \<Longrightarrow> late_ok (need v r)" "late_ok (now_at be)" "late_ok (repo_read be f)" "late_ok (repo_call be g)" "late_ok (fs_call be h)"
  by (auto simp: late_ok_def act_defs repo_read_def repo_call_def fs_call_def Let_def split: option.splits)

lemma late_bind [late]: "late_ok m \<Longrightarrow> (\<And>x. late_ok (f x)) \<Longrightarrow> late_ok (act_bind m f)"
  by (auto simp: late_ok_def act_bind_def split: prod.splits sum.splits) (metis fst_conv)

lemma late_or_else [late]: "late_ok m \<Longrightarrow> (\<And>e. h e \<noteq> OkReply) \<Longrightarrow> late_ok (or_else m h)"
  unfolding or_else_def by (intro late_bind) (auto split: sum.splits intro!: late)

lemma error_replies: "badRequest \<noteq> OkReply" "notFound \<noteq> OkReply" "conflict_reply \<noteq> OkReply" "internalError \<noteq> OkReply"
    "repositoryError e \<noteq> OkReply" "renamePlanError e' \<noteq> OkReply"
  by (auto simp: reply_defs repositoryError_def renamePlanError_def)

lemma rename_folder_late: "late_ok (renameFolder be r)"
  unfolding renameFolder_def parseURLEncodedForm_def requireSingleVisibleForm_def visibleDownload_def get_visible_def
    rename_paths_def apply_plans_def done_with_def repo_do_def Let_def
  by (auto split: prod.splits intro!: late error_replies)

lemma act_bind_Inr: "act_bind m f s = (Inr y, s'') \<longleftrightarrow> (\<exists>x s'. m s = (Inr x, s') \<and> f x s' = (Inr y, s''))"
  by (auto simp: act_bind_def split: prod.splits sum.splits)

lemma act_Inr:
  "act_return x s = (Inr y, s') \<longleftrightarrow> y = x \<and> s' = s"
  "respond rep s = (Inr y, s') \<longleftrightarrow> False"
  "check c rep s = (Inr u, s') \<longleftrightarrow> c \<and> s' = s"
  "need v rep s = (Inr y, s') \<longleftrightarrow> v = Some y \<and> s' = s"
  "now_at be s = (Inr t, s') \<longleftrightarrow> t = beNow be (apCalls s) \<and> s' = s"
  by (auto simp: act_defs split: option.splits)

lemma or_else_Inr: "or_else m h s = (Inr y, s') \<longleftrightarrow> m s = (Inr (Inr y), s')"
proof -
  have "(\<exists>x s''. m s = (Inr x, s'') \<and> (case x of Inl e \<Rightarrow> respond (h e) | Inr v \<Rightarrow> act_return v) s'' = (Inr y, s')) \<longleftrightarrow>
      m s = (Inr (Inr y), s')"
  proof
    assume "\<exists>x s''. m s = (Inr x, s'') \<and> (case x of Inl e \<Rightarrow> respond (h e) | Inr v \<Rightarrow> act_return v) s'' = (Inr y, s')"
    then obtain x s'' where x: "m s = (Inr x, s'')" "(case x of Inl e \<Rightarrow> respond (h e) | Inr v \<Rightarrow> act_return v) s'' = (Inr y, s')"
      by blast
    then show "m s = (Inr (Inr y), s')" by (cases x) (simp_all add: act_Inr)
  qed (auto simp: act_Inr)
  then show ?thesis by (simp add: or_else_def act_bind_Inr)
qed

lemma read_Inr:
  assumes "alone be"
  shows "repo_read be f s = (Inr y, s') \<longleftrightarrow> f (beEnv be (apCalls s)) (apDb s) = y \<and> s' = s\<lparr>apCalls := Suc (apCalls s)\<rparr>"
  using assms by (auto simp: repo_read_def repo_call_def Let_def alone_def)

lemma call_Inr:
  assumes "alone be"
  shows "repo_call be f s = (Inr y, s') \<longleftrightarrow> fst (f (beEnv be (apCalls s)) (apDb s)) = y
     \<and> s' = s\<lparr>apDb := snd (f (beEnv be (apCalls s)) (apDb s)), apCalls := Suc (apCalls s)\<rparr>"
  using assms by (auto simp: repo_call_def Let_def alone_def)

lemma read_overrides: "ListDownloadFileOverrides env hash db = Inr os \<Longrightarrow> os = overrides_of hash db"
  by (auto simp: ListDownloadFileOverrides_def stmt_def split: if_splits)

theorem rename_request_agrees:
  assumes alone: "alone be" and ok: "finish (renameFolder be r) s = (OkReply, s')"
    and form: "hrForm r = Some f" "obind (one_of f ''hash'') canonicalHash = Some hash"
      "one_of f ''oldPath'' = Some old" "one_of f ''newPath'' = Some new"
    and d: "GetDownload (beEnv be (apCalls s + 1)) hash (apDb s) = Inr d" "dState d = StateCompleted"
    and keys: "file_keys (apDb s)" and calm: "faultless (beDisk be (apCalls s + 4))"
    and ready: "plan_ready (beFsRoot be) (completedPlanRoot d) (dHash d)
      (map (folder_plan hash old new (apDb s)) (filter (folder_moves hash old new (apDb s)) (files_of hash (apDb s)))) (apFs s)"
    and f: "x \<in> set (files_of hash (apDb s))"
  shows "recorded_file hash (apDb s') x = (recorded_file hash (apDb s) x)
        \<lparr>xPath := rename_prefix old new (xPath (recorded_file hash (apDb s) x))\<rparr>"
    and "folder_moves hash old new (apDb s) x \<Longrightarrow>
      fs_at (apFs s') (plan_path (completedPlanRoot d) (xPath (recorded_file hash (apDb s') x))) =
        fs_at (apFs s) (plan_path (completedPlanRoot d) (xPath (recorded_file hash (apDb s) x)))
      \<and> fs_at (apFs s') (plan_path (completedPlanRoot d) (xPath (recorded_file hash (apDb s) x))) = None"
proof -
  let ?db = "apDb s" and ?n = "apCalls s"
  let ?rows = "filter (folder_moves hash old new ?db) (files_of hash ?db)"
  let ?plans = "map (folder_plan hash old new ?db) ?rows"
  have ends: "renameFolder be r s = (Inr OkReply, s')"
    using ok rename_folder_late [of be r] by (auto simp: finish_def late_ok_def split: prod.splits sum.splits) (metis fst_conv)
  obtain raw where raw: "one_of f ''hash'' = Some raw" "canonicalHash raw = Some hash"
    using form(2) by (auto simp: obind_def split: option.splits)
  obtain files s1 u env where files: "ListDownloadFiles (beEnv be (?n + 2)) hash ?db = Inr files"
    and s1: "(if ?plans \<noteq> [] then apply_plans be d ?plans else act_return ()) (s\<lparr>apCalls := ?n + 4\<rparr>) = (Inr u, s1)"
    and rename: "RenameFolder env hash old new (beNow be (apCalls s1)) (apDb s1) = (Inr (), apDb s')" and fs: "apFs s' = apFs s1"
  proof -
    from ends form(1,3,4) raw obtain s1 where
        run: "(if dState d = StateCompleted then
          act_bind (or_else (repo_read be (\<lambda>env. ListDownloadFiles env hash)) repositoryError) (\<lambda>files.
          act_bind (or_else (repo_read be (\<lambda>env. ListDownloadFileOverrides env hash)) repositoryError) (\<lambda>overrides.
          let plans = completedFolderPlans files overrides old new
          in if plans \<noteq> [] then apply_plans be d plans else act_return ()))
        else act_return ()) (s\<lparr>apCalls := ?n + 2\<rparr>) = (Inr (), s1)"
      and last: "done_with (repo_do be (\<lambda>env. RenameFolder env hash old new)) s1 = (Inr OkReply, s')"
      using d(1)
      by (auto simp: renameFolder_def parseURLEncodedForm_def requireSingleVisibleForm_def visibleDownload_def
          get_visible_def rename_paths_def act_bind_Inr act_Inr or_else_Inr read_Inr [OF alone] split: prod.splits)
    from run d(2) obtain files os where files: "ListDownloadFiles (beEnv be (?n + 2)) hash ?db = Inr files"
      and os: "ListDownloadFileOverrides (beEnv be (?n + 3)) hash ?db = Inr os"
      and s1: "(if completedFolderPlans files os old new \<noteq> []
          then apply_plans be d (completedFolderPlans files os old new) else act_return ()) (s\<lparr>apCalls := ?n + 4\<rparr>) = (Inr (), s1)"
      by (auto simp: act_bind_Inr or_else_Inr read_Inr [OF alone] Let_def numeral_eq_Suc split del: if_split)
    note s1 = s1 [unfolded read_overrides [OF os]]
    let ?out = "RenameFolder (beEnv be (apCalls s1)) hash old new (beNow be (apCalls s1)) (apDb s1)"
    have "fst ?out = Inr () \<and> s' = s1\<lparr>apDb := snd ?out, apCalls := Suc (apCalls s1)\<rparr>"
      using last by (auto simp: done_with_def repo_do_def act_bind_Inr act_Inr or_else_Inr call_Inr [OF alone])
    then have rename: "RenameFolder (beEnv be (apCalls s1)) hash old new (beNow be (apCalls s1)) (apDb s1) = (Inr (), apDb s')"
      and fs: "apFs s' = apFs s1"
      by (simp_all add: prod_eq_iff)
    from that [OF files s1 [unfolded handler_plans [OF files keys]] rename fs] show ?thesis .
  qed
  have db1: "apDb s1 = ?db"
    using s1 by (auto simp: apply_plans_def or_else_Inr fs_call_def Let_def act_Inr split: if_splits)
  show rec: "recorded_file hash (apDb s') x = (recorded_file hash (apDb s) x)
        \<lparr>xPath := rename_prefix old new (xPath (recorded_file hash (apDb s) x))\<rparr>"
    using folder_records(2) [OF rename [unfolded db1] keys f] .
  show "fs_at (apFs s') (plan_path (completedPlanRoot d) (xPath (recorded_file hash (apDb s') x))) =
        fs_at (apFs s) (plan_path (completedPlanRoot d) (xPath (recorded_file hash (apDb s) x)))
      \<and> fs_at (apFs s') (plan_path (completedPlanRoot d) (xPath (recorded_file hash (apDb s) x))) = None"
    if moves: "folder_moves hash old new (apDb s) x"
  proof -
    from moves f have "x \<in> set ?rows" by simp
    then have "apply_plans be d ?plans (s\<lparr>apCalls := ?n + 4\<rparr>) = (Inr u, s1)" using s1 by (cases "?rows = []") auto
    then have "fst (ApplyFilePlan (beDisk be (?n + 4)) (beFsRoot be) (completedPlanRoot d) (dHash d) ?plans (apFs s)) = Inr u"
      "snd (ApplyFilePlan (beDisk be (?n + 4)) (beFsRoot be) (completedPlanRoot d) (dHash d) ?plans (apFs s)) = apFs s1"
      by (auto simp: apply_plans_def or_else_Inr fs_call_def Let_def)
    with folder_plan_moves [OF ready calm] moves f show ?thesis by (auto simp: fs rec)
  qed
qed

text \<open>
  The store comes last: whatever makes it refuse a rename whose plan was applied, the files have moved
  already, the answer is the error of the store, and the store keeps the old paths.
\<close>


theorem rename_refused_after_move:
  assumes alone: "alone be"
    and form: "hrForm r = Some f" "obind (one_of f ''hash'') canonicalHash = Some hash"
      "one_of f ''oldPath'' = Some old" "one_of f ''newPath'' = Some new"
      "api_safeRelativePath old" "api_safeRelativePath new"
    and shown: "GetDownload (beEnv be (apCalls s)) hash (apDb s) = Inr d" 
    and d: "GetDownload (beEnv be (apCalls s + 1)) hash (apDb s) = Inr d" "dState d = StateCompleted"
    and reads: "ListDownloadFiles (beEnv be (apCalls s + 2)) hash (apDb s) = Inr files"
      "ListDownloadFileOverrides (beEnv be (apCalls s + 3)) hash (apDb s) = Inr overrides"
    and keys: "file_keys (apDb s)" and calm: "faultless (beDisk be (apCalls s + 4))"
    and ready: "plan_ready (beFsRoot be) (completedPlanRoot d) (dHash d)
      (map (folder_plan hash old new (apDb s)) (filter (folder_moves hash old new (apDb s)) (files_of hash (apDb s)))) (apFs s)"
    and x: "x \<in> set (files_of hash (apDb s))" "folder_moves hash old new (apDb s) x"
    and refused: "fst (RenameFolder (beEnv be (apCalls s + 5)) hash old new (beNow be (apCalls s + 5)) (apDb s)) = Inl e"
  shows "\<exists>s'. finish (renameFolder be r) s = (repositoryError e, s') \<and> apDb s' = apDb s
    \<and> fs_at (apFs s') (plan_path (completedPlanRoot d) (rename_prefix old new (xPath (recorded_file hash (apDb s') x)))) =
        fs_at (apFs s) (plan_path (completedPlanRoot d) (xPath (recorded_file hash (apDb s) x)))
    \<and> fs_at (apFs s') (plan_path (completedPlanRoot d) (xPath (recorded_file hash (apDb s') x))) = None"
proof -
  let ?plans = "map (folder_plan hash old new (apDb s)) (filter (folder_moves hash old new (apDb s)) (files_of hash (apDb s)))"
  obtain raw where raw: "one_of f ''hash'' = Some raw" "canonicalHash raw = Some hash"
    using form(2) by (auto simp: obind_def split: option.splits)
  have plans: "completedFolderPlans files overrides old new = ?plans"
    using handler_plans [OF reads(1) keys] read_overrides [OF reads(2)] by simp
  have some: "\<not> list_all (\<lambda>f. \<not> folder_moves hash old new (apDb s) f) (files_of hash (apDb s))" "?plans \<noteq> []"
    using x by (auto simp: list_all_iff filter_empty_conv)
  obtain fs where fs: "ApplyFilePlan (beDisk be (apCalls s + 4)) (beFsRoot be) (completedPlanRoot d) (dHash d) ?plans (apFs s) = (Inr (), fs)"
    and moved: "fs_at fs (plan_path (completedPlanRoot d) (rename_prefix old new (xPath (recorded_file hash (apDb s) x)))) =
         fs_at (apFs s) (plan_path (completedPlanRoot d) (xPath (recorded_file hash (apDb s) x)))"
       "fs_at fs (plan_path (completedPlanRoot d) (xPath (recorded_file hash (apDb s) x))) = None"
    using folder_plan_moves [OF ready calm] x by blast
  have db: "snd (RenameFolder (beEnv be (apCalls s + 5)) hash old new (beNow be (apCalls s + 5)) (apDb s)) = apDb s"
    using refused by (auto simp: RenameFolder_def in_tx_error_unchanged split: if_splits)
  have none: "beOthers be n db' = db'" for n db' using alone by (simp add: alone_def)
  have "State_Visible (dState d)" using d(2) by (simp add: State_Visible_def)
  then have "finish (renameFolder be r) s = (repositoryError e, s\<lparr>apFs := fs, apCalls := apCalls s + 6\<rparr>)"
    using form(1,3-6) raw shown d reads refused fs some(2) db
    by (simp add: renameFolder_def parseURLEncodedForm_def requireSingleVisibleForm_def visibleDownload_def
        get_visible_def rename_paths_def apply_plans_def repo_do_def repo_call_def repo_read_def fs_call_def finish_def act_defs
        plans Let_def none numeral_eq_Suc del: map_is_Nil_conv)
  with moved show ?thesis by simp
qed


end
