(* ===== verification/Example_Api.thy ===== *)
theory Example_Api
  imports Http_Rename Example_Services Example_Disk
begin

section \<open>Example requests\<close>

text \<open>
  A completed torrent of two files on a small disk, and requests to list it and to rename its folder.
\<close>

definition work_dir :: string where
  "work_dir = ''/s/.cd211/'' @ hash_of (CHR ''a'') @ ''/t''"

definition finished :: Download where
  "finished = copying\<lparr>dSourceKind := SourceTorrent, dState := StateCompleted, dIsMultiFile := Some True,
     dTotalSize := 11, dContentPath := work_dir, dCompletedAt := Some 9, dQbitProgress := Fin 1, dNextRunAt := None\<rparr>"

definition finished_db :: Db where
  "finished_db = empty_db\<lparr>downloads := [insertDownloadParams finished],
     download_files := [\<lparr>fr_download_hash = hash_of (CHR ''a''), fr_file_index = 0, fr_relative_path = ''a/x'', fr_size = 5\<rparr>,
       \<lparr>fr_download_hash = hash_of (CHR ''a''), fr_file_index = 1, fr_relative_path = ''c'', fr_size = 6\<rparr>]\<rparr>"

definition finished_disk :: fsys where
  "finished_disk =
     (let w = [''s'', ''.cd211'', hash_of (CHR ''a''), ''t'']
      in [([''s''], NDir), ([''s'', ''.cd211''], NDir), ([''s'', ''.cd211'', hash_of (CHR ''a'')], NDir), (w, NDir),
          (w @ [''a''], NDir), (w @ [''a'', ''x''], NFile 5 1), (w @ [''c''], NFile 6 2)])"

definition example_backend :: Backend where
  "example_backend =
     \<lparr>beEnv = (\<lambda>_. calm), beOthers = (\<lambda>_ db. db), beDisk = (\<lambda>_. quiet), beNow = (\<lambda>_. 20), beGoos = ''linux'',
      beOrder = (\<lambda>xs. xs), beIsIP = (\<lambda>_. False), beFloatOob = (\<lambda>_. 0), beLower = to_lower, beCloudRoot = ''/c'',
      beLocalRoot = ''/s'', beFsRoot = ''/s'', beSubmit = (\<lambda>_. submit_world), beSubmitConfig = example_service,
      beParseObject = (\<lambda>_. None), beSchemeHost = (\<lambda>_. None), beFetch = (\<lambda>_ _ _. None)\<rparr>"

definition example_api :: "Db \<Rightarrow> Api" where
  "example_api db = \<lparr>apDb = db, apSettings = [], apFs = finished_disk, apCalls = 0, apWakes = 0\<rparr>"

definition rename_form :: form where
  "rename_form = [''hash'' \<mapsto> [hash_of (CHR ''a'')], ''oldPath'' \<mapsto> [''a''], ''newPath'' \<mapsto> [''b'']]"

definition rename_request :: ApiRequest where
  "rename_request = \<lparr>hrMethod = ''POST'', hrPath = ''/api/v2/torrents/renameFolder'', hrQuery = Map.empty,
     hrForm = Some rename_form, hrPostForm = Some rename_form\<rparr>"

text \<open>The same torrent with a second file that was deselected under the new name: it is not on the disk.\<close>

definition clash_db :: Db where
  "clash_db = finished_db\<lparr>download_files := [hd (download_files finished_db),
       \<lparr>fr_download_hash = hash_of (CHR ''a''), fr_file_index = 1, fr_relative_path = ''b/x'', fr_size = 6\<rparr>],
     file_overrides := [\<lparr>oDownloadHash = hash_of (CHR ''a''), oFileIndex = 1, oRelativePath = ''b/x'', oPriority = 0\<rparr>]\<rparr>"

definition moved_disk :: fsys where
  "moved_disk = apFs (snd (finish (renameFolder example_backend rename_request) (example_api finished_db)))"

lemma finished_plan_ready: "plan_ready ''/s'' work_dir (hash_of (CHR ''a''))
   [\<lparr>fpIndex = 0, fpOriginalPath = ''a/x'', fpEffectivePath = ''b/x'', fpPriority = 1, fpSize = 5\<rparr>] finished_disk"
  by code_simp

lemma finished_valid: "valid_download finished"
proof -
  have w: "path_clean work_dir \<noteq> ''/s''" "is_abs work_dir" "work_dir \<noteq> []" by code_simp+
  show ?thesis
    using hash_of_valid example_paths w
    by (simp add: ValidateDownload_def finished_def copying_def)
      (simp add: example_download_def workspace_invalid_def completion_error_def Let_def
      safeComponent_def runes_bytes utf8_bytes is_control_def absolutePath_def validTaskName_def safeProblemCode_def
      progress_def time_is_zero_def requiresCloudResult_def requiresCopySource_def contains_control_def)
qed

lemma finished_times: "times_ok finished"
  by (simp add: times_ok_def finished_def copying_def)
    (simp add: example_download_def validNullableTime_def time_is_zero_def)

lemma finished_convert: "downloadFromDB (insertDownloadParams finished) = Inr finished"
proof -
  have "dPauseRequested finished = False" by (simp add: finished_def copying_def) (simp add: example_download_def)
  then have "finished\<lparr>dPauseRequested := False\<rparr> = finished" by (cases finished) simp
  then show ?thesis using downloadFromDB_insert [OF finished_valid finished_times] by simp
qed


subsection \<open>A rename that succeeds, and one that the store refuses\<close>

lemma example_paths_ok: "safeRelativePrefix ''a''" "safeRelativePrefix ''b''"
    "api_safeRelativePath ''a''" "api_safeRelativePath ''b''"
  by code_simp+

lemma to_lower_fixed: "\<forall>c \<in> set s. byte c < 128 \<and> \<not> (65 \<le> byte c \<and> byte c \<le> 90) \<Longrightarrow> to_lower s = s"
proof (induction s)
  case (Cons c s)
  then have "rune_len (c # s) = 1" using rune_len_ascii [of c s] by simp
  then show ?case using Cons by (auto simp: to_lower.simps [of "c # s"] lower_rune_def)
qed simp

lemma canonical_example: "canonicalHash (hash_of (CHR ''a'')) = Some (hash_of (CHR ''a''))"
proof -
  have "trim_space (hash_of (CHR ''a'')) = hash_of (CHR ''a'')"
    by (rule trim_ascii) (simp_all add: hash_of_def is_space_def)
  moreover have "to_lower (hash_of (CHR ''a'')) = hash_of (CHR ''a'')"
    by (rule to_lower_fixed) (simp add: hash_of_def)
  ultimately show ?thesis
    by (simp add: canonicalHash_def) (simp add: hash_of_def list_all_iff lower_hex_def)
qed

lemma finished_tables:
  "sql_get r_hash (hash_of (CHR ''a'')) (downloads finished_db) = Some (insertDownloadParams finished)"
  "downloads clash_db = downloads finished_db"
  "overrides_of (hash_of (CHR ''a'')) finished_db = []"
  "overrides_of (hash_of (CHR ''a'')) clash_db = file_overrides clash_db"
  "files_of (hash_of (CHR ''a'')) finished_db = download_files finished_db"
  "files_of (hash_of (CHR ''a'')) clash_db = download_files clash_db"
  by (simp_all add: finished_db_def clash_db_def overrides_of_def files_of_def empty_db_def sql_get_Cons finished_def)

lemma finished_read:
  "GetDownload calm (hash_of (CHR ''a'')) finished_db = Inr finished"
  "GetDownload calm (hash_of (CHR ''a'')) clash_db = Inr finished"
  using finished_tables finished_convert by (simp_all add: GetDownload_def calm_def stmt_def)

definition example_file :: "int \<Rightarrow> string \<Rightarrow> int \<Rightarrow> DownloadFile" where
  "example_file i p len = \<lparr>fDownloadHash = hash_of (CHR ''a''), fIndex = i, fRelativePath = p, fSize = len, fPriority = 0\<rparr>"

lemma finished_files:
  "ListDownloadFiles calm (hash_of (CHR ''a'')) finished_db = Inr [example_file 0 ''a/x'' 5, example_file 1 ''c'' 6]"
  "ListDownloadFiles calm (hash_of (CHR ''a'')) clash_db = Inr [example_file 0 ''a/x'' 5, example_file 1 ''b/x'' 6]"
  "ListDownloadFileOverrides calm (hash_of (CHR ''a'')) finished_db = Inr []"
  "ListDownloadFileOverrides calm (hash_of (CHR ''a'')) clash_db = Inr (file_overrides clash_db)"
  using finished_tables
  by (simp_all add: ListDownloadFiles_def ListDownloadFileOverrides_def calm_def stmt_def)
    (simp_all add: finished_db_def clash_db_def fileFromDB_def example_file_def and_then_def)

definition folder_plans :: "FilePlan list" where
  "folder_plans = [\<lparr>fpIndex = 0, fpOriginalPath = ''a/x'', fpEffectivePath = ''b/x'', fpPriority = 1, fpSize = 5\<rparr>]"

lemma folder_plans_some: "folder_plans \<noteq> []"
  by (simp add: folder_plans_def)

lemma folder_planned:
  "completedFolderPlans [example_file 0 ''a/x'' 5, example_file 1 ''c'' 6] [] ''a'' ''b'' = folder_plans"
  "completedFolderPlans [example_file 0 ''a/x'' 5, example_file 1 ''b/x'' 6] (file_overrides clash_db) ''a'' ''b'' = folder_plans"
  by code_simp+

definition renamed_disk :: fsys where
  "renamed_disk = snd (ApplyFilePlan quiet ''/s'' work_dir (hash_of (CHR ''a'')) folder_plans finished_disk)"

lemma folder_applied: "fst (ApplyFilePlan quiet ''/s'' work_dir (hash_of (CHR ''a'')) folder_plans finished_disk) = Inr ()"
  by code_simp

lemma finished_root: "completedPlanRoot finished = work_dir"
  by code_simp

lemma folder_stored: "fst (RenameFolder calm (hash_of (CHR ''a'')) ''a'' ''b'' 20 finished_db) = Inr ()"
  by code_simp

lemma folder_refused: "RenameFolder calm (hash_of (CHR ''a'')) ''a'' ''b'' 20 clash_db = (Inl ErrDestinationConflict, clash_db)"
  by code_simp

lemma backend_fields [simp]:
  "beEnv example_backend n = calm" "beOthers example_backend n db = db" "beDisk example_backend n = quiet"
  "beNow example_backend n = 20" "beFsRoot example_backend = ''/s''"
  "apDb (example_api db) = db" "apFs (example_api db) = finished_disk" "apCalls (example_api db) = 0"
  by (simp_all add: example_backend_def example_api_def)

lemma rename_form_fields [simp]:
  "one_of rename_form ''hash'' = Some (hash_of (CHR ''a''))" "one_of rename_form ''oldPath'' = Some ''a''"
  "one_of rename_form ''newPath'' = Some ''b''" "hrForm rename_request = Some rename_form"
  by (simp_all add: one_of_def form_values_def rename_form_def exactlyOne_def rename_request_def)

lemma finished_state: "dState finished = StateCompleted" "dHash finished = hash_of (CHR ''a'')"
  by (simp_all add: finished_def)

lemmas rename_run = renameFolder_def parseURLEncodedForm_def requireSingleVisibleForm_def visibleDownload_def
  get_visible_def rename_paths_def apply_plans_def repo_do_def repo_call_def repo_read_def fs_call_def finish_def act_defs

lemma rename_succeeds:
  "finish (renameFolder example_backend rename_request) (example_api finished_db) =
    (OkReply, (example_api finished_db)\<lparr>apDb := snd (RenameFolder calm (hash_of (CHR ''a'')) ''a'' ''b'' 20 finished_db),
       apFs := renamed_disk, apCalls := 6\<rparr>)"
  using folder_applied folder_stored
  by (simp add: rename_run canonical_example finished_read finished_files finished_state example_paths_ok
      folder_planned folder_plans_some finished_root renamed_disk_def Let_def State_Visible_def)

lemma backend_alone: "alone example_backend" "lawful_others example_backend"
  by (simp_all add: alone_def lawful_others_def store_run.refl) (simp add: example_backend_def submit_world_def store_run.refl)

lemma finished_keys: "file_keys finished_db"
  by (simp add: file_keys_def finished_db_def empty_db_def)

subsection \<open>Listings\<close>

definition info_request :: "string \<Rightarrow> ApiRequest" where
  "info_request limit = \<lparr>hrMethod = ''GET'', hrPath = ''/api/v2/torrents/info'',
     hrQuery = [''sort'' \<mapsto> [''hash''], ''reverse'' \<mapsto> [''1''], ''offset'' \<mapsto> [''1''], ''limit'' \<mapsto> [limit]],
     hrForm = None, hrPostForm = None\<rparr>"

definition info_asked :: "int \<Rightarrow> InfoQuery" where
  "info_asked limit = \<lparr>iqCategory = None, iqFilter = [], iqTag = None, iqHashes = [], iqPrivate = None,
     iqSort = ''hash'', iqReverse = True, iqLimit = limit, iqOffset = 1\<rparr>"

lemma query_values:
  "optionalBool [''1''] = (True, True)" "optionalBool [[]] = (False, True)" "validTorrentSort ''hash''"
  "CanonicalCategory to_lower [] True = ([], True)" "parseQBTInt ''1'' = 1"
  "parseQBTInt ''9223372036854775807'' = 9223372036854775807"
proof -
  have "trim_space ''1'' = ''1''" by (rule trim_ascii) (simp_all add: is_space_def)
  moreover have "to_lower ''1'' = ''1''" by (rule to_lower_fixed) simp
  ultimately show "optionalBool [''1''] = (True, True)" by (simp add: optionalBool_def Let_def)
  show "optionalBool [[]] = (False, True)" by (simp add: optionalBool_def Let_def)
  show "validTorrentSort ''hash''" by (simp add: validTorrentSort_def sort_names_def)
  show "CanonicalCategory to_lower [] True = ([], True)" by (simp add: CanonicalCategory_def)
  show "parseQBTInt ''1'' = 1" "parseQBTInt ''9223372036854775807'' = 9223372036854775807"
    by (simp_all add: parseQBTInt_def Atoi_def max_int64_def min_int64_def)
qed

lemma request_values:
  "readRequestValues (info_request limit) name = Some (if name = ''sort'' then [''hash'']
     else if name = ''reverse'' then [''1''] else if name = ''offset'' then [''1''] else if name = ''limit'' then [limit] else [])"
  by (simp add: readRequestValues_def info_request_def form_values_def)

lemma info_request_read:
  "info_query to_lower (info_request ''1'') = Some (info_asked 1)"
  "info_query to_lower (info_request ''9223372036854775807'') = Some (info_asked 9223372036854775807)"
  unfolding info_query_def obind_def at_most_one_def requestOne_def request_values
  by (simp_all add: query_values qbt_first_def hash_filter_def info_asked_def)

lemma example_newest: "newest_first [row_a, row_b] = [row_a, row_b]"
proof -
  have "hash_of (CHR ''a'') \<le> hash_of (CHR ''b'')" by code_simp
  moreover have "r_created_at (insertDownloadParams (example_download c)) = 1" for c
    by (simp add: insertDownloadParams_def example_download_def)
  ultimately show ?thesis by (simp add: newest_first_def less_eq_due_def)
qed

lemma example_listed: "ListDownloads calm None example_db2 = Inr [example_download (CHR ''a''), example_download (CHR ''b'')]"
proof -
  have "row_visible row_a" "row_visible row_b"
    by (simp_all add: row_visible_def insertDownloadParams_def example_download_def nullableTime_def)
  then show ?thesis
    by (simp add: ListDownloads_def stmt_def calm_def example_db2_run [unfolded calm_def] example_newest example_convert and_then_def)
qed

lemma example_projects: "\<exists>p. Project oob (example_download (CHR ''a'')) = Inr p" "\<exists>p. Project oob (example_download (CHR ''b'')) = Inr p"
  using example_valid by (simp_all add: Project_def Let_def State_Visible_def project_state_def split: prod.splits)

definition listed :: "torrentInfo list" where
  "listed = map (entry_of example_backend) [example_download (CHR ''a''), example_download (CHR ''b'')]"

lemma example_entries:
  "info_entries example_backend (info_asked limit) [example_download (CHR ''a''), example_download (CHR ''b'')] = Some listed"
proof -
  obtain p q where "Project (beFloatOob example_backend) (example_download (CHR ''a'')) = Inr p"
    "Project (beFloatOob example_backend) (example_download (CHR ''b'')) = Inr q" using example_projects by metis
  then show ?thesis
    by (simp add: listed_def entry_of_def hash_selected_def info_asked_def info_matches_def matchesTorrentFilter_def)
qed

lemma listed_two: "length listed = 2"
  by (simp add: listed_def)

lemma backend_lower: "beLower example_backend = to_lower"
  by (simp add: example_backend_def)

lemma listing_asked: "iqCategory (info_asked limit) = None" "iqOffset (info_asked limit) = 1" "iqLimit (info_asked limit) = limit"
  by (simp_all add: info_asked_def)

lemma asked_of_backend:
  "info_query (beLower example_backend) (info_request ''1'') = Some (info_asked 1)"
  "info_query (beLower example_backend) (info_request ''9223372036854775807'') = Some (info_asked 9223372036854775807)"
  "ListDownloads (beEnv example_backend (apCalls (example_api example_db2))) (iqCategory (info_asked limit))
     (beOthers example_backend (apCalls (example_api example_db2)) (apDb (example_api example_db2))) =
   Inr [example_download (CHR ''a''), example_download (CHR ''b'')]"
  by (simp_all add: backend_lower info_request_read listing_asked example_listed)

definition second_page :: "torrentInfo list" where
  "second_page = take 1 (drop 1 (info_sorted (info_asked 1) listed))"

lemma second_page_listed:
  "fst (finish (torrents_info example_backend (info_request ''1'')) (example_api example_db2)) = TorrentList second_page"
proof -
  have "info_page 1 1 (info_sorted (info_asked 1) listed) = Some second_page"
    using info_page_fits [of "info_sorted (info_asked 1) listed" 1 1]
    by (simp add: listed_two page_offset_def max_int64_def page_limit_def second_page_def)
  then show ?thesis
    using info_reply_conv [OF asked_of_backend(1) asked_of_backend(3) example_entries] by (simp add: listing_asked)
qed

lemma info_route: "routed (hrPath (info_request limit)) (effect_routes example_backend (info_request limit) add) = None"
  by (simp add: routed_def info_request_def effect_routes_def apiPrefix_def)

lemma info_path: "hrPath (info_request limit) \<notin> set auth_paths"
  by (simp add: info_request_def auth_paths_def apiPrefix_def)

definition example_calls :: AuthCalls where
  "example_calls = \<lparr>acBoundary = no_fault, acHandler = no_fault, acNow = 5, acNow2 = 5, acRandom = [], acOthers = (\<lambda>_ rows. rows)\<rparr>"

lemma rename_hash: "obind (one_of rename_form ''hash'') canonicalHash = Some (hash_of (CHR ''a''))"
  by (simp add: obind_def canonical_example)

definition renamed_api :: Api where
  "renamed_api = (example_api finished_db)\<lparr>apDb := snd (RenameFolder calm (hash_of (CHR ''a'')) ''a'' ''b'' 20 finished_db),
     apFs := renamed_disk, apCalls := 6\<rparr>"

lemma rename_answered: "finish (renameFolder example_backend rename_request) (example_api finished_db) = (OkReply, renamed_api)"
  using rename_succeeds by (simp add: renamed_api_def)

lemma finished_rows:
  "download_files finished_db = [\<lparr>fr_download_hash = hash_of (CHR ''a''), fr_file_index = 0, fr_relative_path = ''a/x'', fr_size = 5\<rparr>,
       \<lparr>fr_download_hash = hash_of (CHR ''a''), fr_file_index = 1, fr_relative_path = ''c'', fr_size = 6\<rparr>]"
  by (simp add: finished_db_def)

lemma finished_recorded:
  "recorded_file (hash_of (CHR ''a'')) finished_db f = \<lparr>xIndex = fr_file_index f, xPath = fr_relative_path f, xPrio = 1\<rparr>"
  by (simp add: recorded_file_def finished_tables effective_file_def)

lemma finished_renames: "rename_prefix ''a'' ''b'' ''a/x'' = ''b/x''" "rename_prefix ''a'' ''b'' ''c'' = ''c''"
  by (simp_all add: rename_prefix_def has_prefix_def)

lemma finished_moves:
  "folder_moves (hash_of (CHR ''a'')) ''a'' ''b'' finished_db (hd (download_files finished_db))"
  "map (folder_plan (hash_of (CHR ''a'')) ''a'' ''b'' finished_db)
     (filter (folder_moves (hash_of (CHR ''a'')) ''a'' ''b'' finished_db) (files_of (hash_of (CHR ''a'')) finished_db)) =
   [\<lparr>fpIndex = 0, fpOriginalPath = ''a/x'', fpEffectivePath = ''b/x'', fpPriority = 1, fpSize = 5\<rparr>]"
  by (simp_all add: folder_moves_def folder_plan_def finished_recorded finished_tables finished_rows finished_renames Let_def)

lemma clash_recorded:
  "recorded_file (hash_of (CHR ''a'')) clash_db (hd (download_files finished_db)) = \<lparr>xIndex = 0, xPath = ''a/x'', xPrio = 1\<rparr>"
  by (simp add: recorded_file_def finished_tables effective_file_def) (simp add: clash_db_def finished_rows)

lemma clash_keys: "file_keys clash_db"
  by (simp add: file_keys_def clash_db_def finished_db_def)

lemma clash_moves:
  "folder_moves (hash_of (CHR ''a'')) ''a'' ''b'' clash_db (hd (download_files finished_db))"
  "map (folder_plan (hash_of (CHR ''a'')) ''a'' ''b'' clash_db)
     (filter (folder_moves (hash_of (CHR ''a'')) ''a'' ''b'' clash_db) (files_of (hash_of (CHR ''a'')) clash_db)) = folder_plans"
proof -
  show "folder_moves (hash_of (CHR ''a'')) ''a'' ''b'' clash_db (hd (download_files finished_db))"
    by (simp add: folder_moves_def clash_recorded finished_renames)
  show "map (folder_plan (hash_of (CHR ''a'')) ''a'' ''b'' clash_db)
     (filter (folder_moves (hash_of (CHR ''a'')) ''a'' ''b'' clash_db) (files_of (hash_of (CHR ''a'')) clash_db)) = folder_plans"
    using handler_plans [OF finished_files(2) clash_keys, of "''a''" "''b''"] folder_planned(2)
    by (simp add: finished_tables)
qed

lemma rename_premises:
  "GetDownload (beEnv example_backend (apCalls (example_api finished_db) + 1)) (hash_of (CHR ''a'')) (apDb (example_api finished_db)) = Inr finished"
  "dState finished = StateCompleted" "file_keys (apDb (example_api finished_db))"
  "faultless (beDisk example_backend (apCalls (example_api finished_db) + 4))"
  "plan_ready (beFsRoot example_backend) (completedPlanRoot finished) (dHash finished)
      (map (folder_plan (hash_of (CHR ''a'')) ''a'' ''b'' (apDb (example_api finished_db)))
        (filter (folder_moves (hash_of (CHR ''a'')) ''a'' ''b'' (apDb (example_api finished_db)))
          (files_of (hash_of (CHR ''a'')) (apDb (example_api finished_db))))) (apFs (example_api finished_db))"
  "hd (download_files finished_db) \<in> set (files_of (hash_of (CHR ''a'')) (apDb (example_api finished_db)))"
  "folder_moves (hash_of (CHR ''a'')) ''a'' ''b'' (apDb (example_api finished_db)) (hd (download_files finished_db))"
  unfolding backend_fields finished_moves(2) finished_root finished_state(2)
  using finished_moves(1) by (simp_all add: finished_read finished_state finished_keys quiet_calm finished_plan_ready finished_tables finished_rows)

lemma clash_premises:
  "GetDownload (beEnv example_backend (apCalls (example_api clash_db))) (hash_of (CHR ''a'')) (apDb (example_api clash_db)) = Inr finished"
  "GetDownload (beEnv example_backend (apCalls (example_api clash_db) + 1)) (hash_of (CHR ''a'')) (apDb (example_api clash_db)) = Inr finished"
  "dState finished = StateCompleted"
  "ListDownloadFiles (beEnv example_backend (apCalls (example_api clash_db) + 2)) (hash_of (CHR ''a'')) (apDb (example_api clash_db))
     = Inr [example_file 0 ''a/x'' 5, example_file 1 ''b/x'' 6]"
  "ListDownloadFileOverrides (beEnv example_backend (apCalls (example_api clash_db) + 3)) (hash_of (CHR ''a'')) (apDb (example_api clash_db))
     = Inr (file_overrides clash_db)"
  "file_keys (apDb (example_api clash_db))" "faultless (beDisk example_backend (apCalls (example_api clash_db) + 4))"
  "plan_ready (beFsRoot example_backend) (completedPlanRoot finished) (dHash finished)
      (map (folder_plan (hash_of (CHR ''a'')) ''a'' ''b'' (apDb (example_api clash_db)))
        (filter (folder_moves (hash_of (CHR ''a'')) ''a'' ''b'' (apDb (example_api clash_db)))
          (files_of (hash_of (CHR ''a'')) (apDb (example_api clash_db))))) (apFs (example_api clash_db))"
  "hd (download_files finished_db) \<in> set (files_of (hash_of (CHR ''a'')) (apDb (example_api clash_db)))"
  "folder_moves (hash_of (CHR ''a'')) ''a'' ''b'' (apDb (example_api clash_db)) (hd (download_files finished_db))"
  "fst (RenameFolder (beEnv example_backend (apCalls (example_api clash_db) + 5)) (hash_of (CHR ''a'')) ''a'' ''b''
      (beNow example_backend (apCalls (example_api clash_db) + 5)) (apDb (example_api clash_db))) = Inl ErrDestinationConflict"
  unfolding backend_fields clash_moves(2) finished_root finished_state(2)
  using clash_moves(1) finished_plan_ready
  by (simp_all add: finished_read finished_state clash_keys quiet_calm finished_tables finished_files folder_refused folder_plans_def)
    (simp add: clash_db_def finished_rows)

end
