(* ===== verification/Example_Native.thy ===== *)
theory Example_Native
  imports Native_Wait Example_Api
begin

section \<open>Example requests to the native API\<close>

text \<open>A download that fails while a client waits for it, and a client of the feed that reads of it.\<close>

subsection \<open>A failing download\<close>

definition calm2 :: Env where
  "calm2 = calm\<lparr>freshID := (\<lambda>s. ''jd'' @ s)\<rparr>"

lemma calm2_calm: "driver_calm calm2"
  by (simp add: driver_calm_def calm2_def calm_def)

lemma emit_unheard:
  assumes "driver_calm env" "valid_download d" "freshID env (dHash d) \<notin> ev_id ` set (domain_events db)"
    and "list_subscribed ty db = []"
  obtains payload where "emit env ty prev d db = Inr ((), append_event env ty payload d db)"
proof -
  from payload_marshals [OF assms(2)] obtain p where
    p: "BuildDownloadPayload (floatOob env) (freshID env (dHash d)) ty prev d = Some p" by blast
  have "list_subscribed ty (append_event env ty p d db) = []" using assms(4) by (simp add: list_subscribed_def append_event_def)
  then have "emit env ty prev d db = Inr ((), append_event env ty p d db)"
    using assms(1,3) p by (simp add: emit_def emitDownloadEvent_def insert_event_def append_event_def)
  with that show ?thesis by blast
qed

definition failing :: Download where
  "failing = example_next\<lparr>dState := StateFailed, dLastError := ''gone''\<rparr>"

definition failed_db :: Db where
  "failed_db = snd (CommitClaim calm2 example_claim failing leased_db)"

lemma example_log:
  "\<exists>p. domain_events example_db = [\<lparr>ev_sequence = 1, ev_id = ''id'' @ hash_of (CHR ''a''), ev_type = EventTypeCreated,
     ev_aggregate_type = AggregateDownload, ev_aggregate_id = hash_of (CHR ''a''), ev_aggregate_version = 0,
     ev_payload = p, ev_occurred_at = 1\<rparr>] \<and> last_sequence example_db = 1 \<and> webhook_subscriptions example_db = []
     \<and> webhook_endpoints example_db = []"
proof -
  have "\<not> guard_rejects empty_db row_a" "\<not> index_rejects empty_db row_a"
    by (simp_all add: guard_rejects_def index_rejects_def guard_categories_def empty_db_def)
  with submission_stored [OF driver_calm example_submission_valid(1), of empty_db]
  obtain p where "CreateSubmission calm (example_submission (CHR ''a'')) empty_db =
       (Inr ((example_download (CHR ''a''))\<lparr>dPauseRequested := False\<rparr>, True),
        notify (append_event calm EventTypeCreated p (example_download (CHR ''a''))
          (empty_db\<lparr>downloads := [row_a], download_files := []\<rparr>)))"
    by (auto simp: example_times empty_db_def not_reserved)
  then show ?thesis
    by (simp add: example_db_def notify_def append_event_def empty_db_def calm_def example_download_def)
qed

definition failed_row :: download_row where
  "failed_row = commitClaimParams (failing\<lparr>dLeaseOwner := [], dLeaseUntil := None\<rparr>) (lease_set ''w'' 15 row_a)"

lemma failing_valid: "valid_download (failing\<lparr>dLeaseOwner := [], dLeaseUntil := None\<rparr>)"
  using hash_of_valid(1) example_paths
  by (simp add: ValidateDownload_def failing_def example_next_def example_claim_def example_download_def workspace_invalid_def
      completion_error_def Let_def safeComponent_def runes_bytes utf8_bytes is_control_def absolutePath_def
      validTaskName_def safeProblemCode_def progress_def time_is_zero_def requiresCloudResult_def
      requiresCopySource_def contains_control_def)

lemma failing_check: "commit_check example_claim failing = Inr (failing\<lparr>dLeaseOwner := [], dLeaseUntil := None\<rparr>)"
  using failing_valid trim_owner
  by (simp add: commit_check_def sameClaimIdentity_def validateClaimWorkspace_def example_claim_def example_next_def
      hash_of_def failing_def CanTransition_def activeExit_def)

lemma failed_converts: "downloadFromDB failed_row = Inr (failing\<lparr>dLeaseOwner := [], dLeaseUntil := None, dRowVersion := 2\<rparr>)"
  by code_simp

text \<open>A commit of the example claim that changes the state and is announced.\<close>

lemma announced_commit:
  assumes check: "commit_check example_claim n = Inr n'" "dHash n' = hash_of (CHR ''a'')"
    and conv: "downloadFromDB (commitClaimParams n' (lease_set ''w'' 15 row_a)) = Inr m"
    and m: "dState m \<noteq> StateAccepted" "dHash m = hash_of (CHR ''a'')"
  shows "\<exists>p. CommitClaim calm2 example_claim n leased_db =
     (Inr (), notify (append_event calm2 (commit_event (dState m)) p m
       (leased_db\<lparr>downloads := [commitClaimParams n' (lease_set ''w'' 15 row_a)]\<rparr>)))"
proof -
  let ?r = "lease_set ''w'' 15 row_a" and ?row = "commitClaimParams n' (lease_set ''w'' 15 row_a)"
  have w: "commit_where example_claim ?r"
    by (simp add: commit_where_def example_claim_def lease_set_def)
  have rows: "downloads leased_db = [?r]" "categories leased_db = []"
    by (simp_all add: leased_db_def example_db_run)
  have keep: "r_hash ?row = r_hash ?r"
    by (simp add: commitClaimParams_def)
  let ?db = "leased_db\<lparr>downloads := [?row]\<rparr>"
  have upd: "commit_statement example_claim n' leased_db = Inr (1, ?db)"
    by (simp add: commit_statement_def update_guarded_def update_plain_def rows w sql_update_Cons rows_affected_def
        guard_rejects_def index_rejects_def guard_categories_def keep split: option.split)
  have found: "sql_get r_hash (dHash n') (downloads ?db) = Some ?row"
    using check(2) by (simp add: sql_get_Cons keep) (simp add: lease_set_def)
  have state: "kState example_claim = StateAccepted"
    by (simp add: example_claim_def)
  have valid: "valid_download m" by (rule downloadFromDB_valid [OF conv])
  have "list_subscribed ty ?db = []" "freshID calm2 (dHash m) \<notin> ev_id ` set (domain_events ?db)" for ty
    using example_log m(2) by (auto simp: list_subscribed_def leased_db_def calm2_def)
  then obtain p where "emit calm2 (commit_event (dState m)) (kState example_claim) m ?db =
      Inr ((), append_event calm2 (commit_event (dState m)) p m ?db)"
    using emit_unheard [OF calm2_calm valid] by blast
  then show ?thesis
    using upd found check(1) conv state m(1) calm2_calm
    by (intro exI [of _ p]) (simp add: CommitClaim_def emit_after_def reread_def get_row_def tx_require_def)
qed

lemma failed_commit:
  "\<exists>p. CommitClaim calm2 example_claim failing leased_db =
     (Inr (), notify (append_event calm2 EventTypeFailed p (failing\<lparr>dLeaseOwner := [], dLeaseUntil := None, dRowVersion := 2\<rparr>)
       (leased_db\<lparr>downloads := [failed_row]\<rparr>)))"
  using announced_commit [OF failing_check _ failed_converts [unfolded failed_row_def]]
  by (simp add: failed_row_def commit_event_def) (simp add: failing_def example_next_def example_claim_def)

text \<open>A whole step: the example download is claimed, and its first transition is committed.\<close>

definition step_config :: Config where
  "step_config = example_config\<lparr>cfgLeaseDuration := 10\<rparr>"

definition submitting :: Download where
  "submitting = step_next step_config example_world (kDownload example_claim)"

lemma submitting_fields:
  "submitting = (kDownload example_claim)\<lparr>dState := StateSubmittingOffline, dPhaseStartedAt := 10,
     dNextRunAt := Some 10, dUpdatedAt := 11\<rparr>"
  by (simp add: submitting_def step_next_def example_claim_def example_download_def decide_def decided_def advance_def
      clear_error_def example_world_def)

lemma submitting_check: "commit_check example_claim submitting = Inr (unleased submitting)"
proof -
  have "valid_download (unleased submitting)"
    using hash_of_valid(1) example_paths
    by (simp add: ValidateDownload_def submitting_fields unleased_def example_claim_def example_download_def workspace_invalid_def
        completion_error_def Let_def safeComponent_def runes_bytes utf8_bytes is_control_def absolutePath_def
        validTaskName_def safeProblemCode_def progress_def time_is_zero_def requiresCloudResult_def
        requiresCopySource_def contains_control_def)
  then show ?thesis
    using trim_owner
    by (simp add: commit_check_def sameClaimIdentity_def validateClaimWorkspace_def unleased_def)
      (simp add: submitting_fields example_claim_def hash_of_def)
qed

lemma submitting_converts:
  "downloadFromDB (commitClaimParams (unleased submitting) (lease_set ''w'' 15 row_a)) = Inr ((unleased submitting)\<lparr>dRowVersion := 2\<rparr>)"
  unfolding submitting_fields by code_simp

lemma submitting_commits: "\<exists>db'. CommitClaim calm2 example_claim submitting leased_db = (Inr (), db')"
  using announced_commit [OF submitting_check _ submitting_converts]
  by (auto simp: submitting_fields unleased_def example_claim_def example_download_def)

lemma example_claimed2: "ClaimDue calm2 ''w'' 5 10 example_db = (Inr (Some example_claim), leased_db)"
proof -
  have "first_by row_due (filter (claimable_row 5) (downloads example_db)) = Some row_a"
    by (simp add: example_db_run claimable_row_def first_by_def workflow_ended_def)
  from due_row_claimed [OF calm2_calm trim_owner _ _ _ this example_convert(1), of 10] show ?thesis
    by (simp add: example_claim_def leased_db_def example_db_run sql_update_Cons)
qed

lemma example_step: "\<exists>db'. Step step_config calm2 example_world example_db = ((True, None), db')"
proof -
  have "cfgOwner step_config = ''w''" "cfgLeaseDuration step_config = 10" "wClaimNow example_world = 5"
    "wMeanwhile example_world = (\<lambda>db. db)" "\<not> wCancelled example_world" "\<not> wDeadline example_world"
    "wUpdated example_world = 11"
    by (simp_all add: step_config_def example_config_def example_world_def)
  moreover have "dState (kDownload example_claim) = StateAccepted" "dPhaseStartedAt (kDownload example_claim) = 1"
    by (simp_all add: example_claim_def example_download_def)
  moreover have "dcErr (decide step_config example_world (kDownload example_claim)) = None"
    "(dcNext (decide step_config example_world (kDownload example_claim)))\<lparr>dUpdatedAt := 11\<rparr> = submitting"
    using calculation by (simp_all add: decide_def submitting_def step_next_def)
  ultimately show ?thesis
    using example_claimed2 submitting_commits
    by (auto simp: Step_def commit_step_def State_Claimable_def time_is_zero_def)
qed

lemma failed_log:
  "\<exists>p e. domain_events failed_db = [e, \<lparr>ev_sequence = 2, ev_id = ''jd'' @ hash_of (CHR ''a''), ev_type = EventTypeFailed,
     ev_aggregate_type = AggregateDownload, ev_aggregate_id = hash_of (CHR ''a''), ev_aggregate_version = 2,
     ev_payload = p, ev_occurred_at = 6\<rparr>] \<and> ev_type e = EventTypeCreated \<and> ev_sequence e = 1
     \<and> last_sequence failed_db = 2 \<and> CommitClaim calm2 example_claim failing leased_db = (Inr (), failed_db)
     \<and> downloads failed_db = [failed_row]"
  using failed_commit example_log
  by (auto simp: failed_db_def append_event_def notify_def leased_db_def failing_def example_next_def example_claim_def
      example_download_def calm2_def)

lemma failed_reachable: "reachable failed_db"
  using run_commit [of leased_db calm2 example_claim failing] leased_reachable(1) store_run_trans failed_log
  by (auto simp: reachable_def)

subsection \<open>The feed, page by page\<close>

text \<open>The first request finds the log without a matching event; then the download fails; the second request reads of it.\<close>

definition feed_request :: "string option \<Rightarrow> NativeRequest" where
  "feed_request cursor = \<lparr>nrMethod = ''GET'', nrPath = eventsPath,
     nrQuery = (case cursor of None \<Rightarrow> [] | Some c \<Rightarrow> [(''cursor'', [c])]), nrMedia = None, nrJSON = Malformed, nrMultipart = Malformed\<rparr>"

definition any_event :: eventsQuery where
  "any_event = \<lparr>eqCursor = 0, eqLatest = False, eqCompleted = True, eqFailed = True, eqHash = [], eqLimit = 100, eqWait = 0\<rparr>"

lemma feed_query:
  "parseEventsQuery (feed_request None) = Some any_event"
  "parseEventsQuery (feed_request (Some (encodeEventCursor 1))) = Some (any_event\<lparr>eqCursor := 1\<rparr>)"
proof -
  show "parseEventsQuery (feed_request None) = Some any_event"
    by (simp add: parseEventsQuery_def feed_request_def any_event_def defaultEventLimit_def)
  have "decodeEventCursor (encodeEventCursor 1) = Some 1" by (rule decode_encode) simp_all
  moreover from this have "encodeEventCursor 1 \<noteq> ''latest''" "encodeEventCursor 1 \<noteq> []"
    using latest_is_no_cursor by (auto simp: decodeEventCursor_def b64_decode_strict_def no_spare_bits_def)
  ultimately show "parseEventsQuery (feed_request (Some (encodeEventCursor 1))) = Some (any_event\<lparr>eqCursor := 1\<rparr>)"
    by (simp add: parseEventsQuery_def feed_request_def any_event_def defaultEventLimit_def event_param_def)
qed

lemma first_page:
  "NativeServeHTTP example_backend (\<lambda>_. False) (\<lambda>_. True) [] (feed_request None) (example_api leased_db) =
     (NEvents [] (encodeEventCursor 1) False, (example_api leased_db)\<lparr>apCalls := 2\<rparr>)"
proof -
  have "take_snapshot (example_api leased_db) = (snapshot_of leased_db, example_api leased_db)"
    using leased_reachable(1) by (simp add: snapshot_same)
  moreover have "serveEvents example_backend (\<lambda>_. False) (\<lambda>_. True) [] (feed_request None) (example_api leased_db) =
      events_rounds example_backend (\<lambda>_. False) (\<lambda>_. True) any_event True 0 [] (example_api leased_db)"
    using feed_query(1) by (simp add: serveEvents_def feed_request_def any_event_def)
  ultimately show ?thesis
    using example_log
    by (subst served_event) (auto simp: feed_request_def events_rounds_eqs events_round_def event_read_def native_read_def
      backend_fields example_api_def LatestEventSequence_def ListDownloadEvents_def scan_query_def any_event_def
      leased_db_def calm_def writeEvents_def MaxEventFeedLimit_def feed_row_def)
qed

lemma second_page:
  "\<exists>p. NativeServeHTTP example_backend (\<lambda>_. False) (\<lambda>_. True) [] (feed_request (Some (encodeEventCursor 1))) (example_api failed_db) =
     (NEvents [(encodeEventCursor 2, p)] (encodeEventCursor 2) False, (example_api failed_db)\<lparr>apCalls := 2\<rparr>)
     \<and> domain_events failed_db \<noteq> [] \<and> ev_payload (last (domain_events failed_db)) = p"
proof -
  let ?r = "feed_request (Some (encodeEventCursor 1))" and ?q = "any_event\<lparr>eqCursor := 1\<rparr>"
  have "take_snapshot (example_api failed_db) = (snapshot_of failed_db, example_api failed_db)"
    using failed_reachable by (simp add: snapshot_same)
  moreover have "serveEvents example_backend (\<lambda>_. False) (\<lambda>_. True) [] ?r (example_api failed_db) =
      events_rounds example_backend (\<lambda>_. False) (\<lambda>_. True) ?q True 1 [] (example_api failed_db)"
    using feed_query(2) by (simp add: serveEvents_def feed_request_def)
  moreover have "hash_of c \<noteq> []" for c by (simp add: hash_of_def)
  ultimately show ?thesis
    using failed_log
    by (subst served_event) (auto simp: feed_request_def events_rounds_eqs events_round_def event_read_def native_read_def
      example_api_def LatestEventSequence_def ListDownloadEvents_def scan_query_def any_event_def
      calm_def writeEvents_def MaxEventFeedLimit_def feed_row_def eventFromDB_def time_is_zero_def)
qed

lemma backend_lawful: "lawful_others example_backend"
  by (rule backend_alone)

lemma example_follows:
  "\<exists>p. follows example_backend (\<lambda>_. False) (\<lambda>_. True) any_event (example_api leased_db) [(encodeEventCursor 2, p)]
     (encodeEventCursor 2) ((example_api failed_db)\<lparr>apCalls := 2\<rparr>)"
proof -
  obtain p where p: "NativeServeHTTP example_backend (\<lambda>_. False) (\<lambda>_. True) [] (feed_request (Some (encodeEventCursor 1))) (example_api failed_db) =
     (NEvents [(encodeEventCursor 2, p)] (encodeEventCursor 2) False, (example_api failed_db)\<lparr>apCalls := 2\<rparr>)"
    using second_page by blast
  have one: "follows example_backend (\<lambda>_. False) (\<lambda>_. True) any_event (example_api leased_db) [] (encodeEventCursor 1)
      ((example_api leased_db)\<lparr>apCalls := 2\<rparr>)"
    by (rule follows.oldest [OF _ feed_query(1) _ _ first_page]) (simp_all add: feed_request_def same_filter_def)
  have "store_run leased_db failed_db"
    using run_commit [of leased_db calm2 example_claim failing] failed_log by auto
  then show ?thesis
    using follows.onward [OF one _ _ feed_query(2) _ _ _ p] by (fastforce simp: feed_request_def same_filter_def any_event_def)
qed

subsection \<open>A wait that ends with the failure\<close>

definition wait_request :: NativeRequest where
  "wait_request = (feed_request None)\<lparr>nrPath := ''/api/v1/downloads/'' @ hash_of (CHR ''a'') @ ''/wait''\<rparr>"

lemma parked_example:
  "wait_round example_backend (\<lambda>_. False) (hash_of (CHR ''a'')) (example_api leased_db) =
     (Inr (snapshot_of leased_db), (example_api leased_db)\<lparr>apCalls := 1\<rparr>)"
proof -
  have "take_snapshot (example_api leased_db) = (snapshot_of leased_db, example_api leased_db)"
    using leased_reachable(1) by (simp add: snapshot_same)
  moreover have "downloadFromDB (lease_set ''w'' 15 row_a) = Inr ((example_download (CHR ''a''))\<lparr>dLeaseOwner := ''w'', dLeaseUntil := Some 15, dRowVersion := 1\<rparr>)"
    using downloadFromDB_lease [OF example_convert(1), of "''w''" 15] by simp
  moreover have "r_hash (lease_set ''w'' 15 row_a) = hash_of (CHR ''a'')" by (simp add: lease_set_def)
  ultimately show ?thesis
    by (simp add: wait_round_def native_read_def example_api_def GetDownload_def leased_db_def calm_def sql_get_Cons
      terminalOutcome_def example_download_def)
qed

lemma answered_example:
  "serveDownloadWait example_backend (\<lambda>_. False) [Elapsed] wait_request (hash_of (CHR ''a'')) (example_api failed_db) =
     (NModel (download_model (\<lambda>_. 0) (failing\<lparr>dLeaseOwner := [], dLeaseUntil := None, dRowVersion := 2\<rparr>)),
      (example_api failed_db)\<lparr>apCalls := 1\<rparr>)"
proof -
  have "take_snapshot (example_api failed_db) = (snapshot_of failed_db, example_api failed_db)"
    using failed_reachable by (simp add: snapshot_same)
  moreover have "r_hash failed_row = hash_of (CHR ''a'')" by code_simp
  ultimately show ?thesis
    using failed_log failed_converts
    by (auto simp: serveDownloadWait_def wait_request_def feed_request_def parseWaitTimeout_def wait_rounds_eqs wait_round_def
      native_read_def example_api_def GetDownload_def calm_def sql_get_Cons terminalOutcome_def failing_def example_backend_def)
qed

lemma example_parks:
  "parks_on example_backend (\<lambda>_. False) (snapshot_of leased_db) (example_api leased_db) ((example_api leased_db)\<lparr>apCalls := 1\<rparr>)"
  using parked_example unfolding parks_on_def by blast

lemma failing_changes: "dState failing \<noteq> kState example_claim"
  by (simp add: failing_def example_claim_def)

lemma wait_accepted: "nrMethod wait_request = ''GET''" "parseWaitTimeout wait_request \<noteq> None"
  by (simp_all add: wait_request_def feed_request_def parseWaitTimeout_def)

end
