(* ===== verification/Spec2Isabelle.thy ===== *)
theory Spec2Isabelle
  imports Example_Services Example_Disk Example_Native
begin

text \<open>
  CD211 makes CloudDrive2 look like a qBittorrent download client.  A submission becomes a row of a
  SQLite store; a reconciler leases due rows, drives the cloud offline download, the copy into a local
  workspace and the verification, and commits each outcome; every change of state is written to an
  event log in the same transaction, from which webhook workers deliver to HTTP endpoints.  Clients
  reach the store through the qBittorrent API, behind sessions, passwords and keys.

  Theories and code (all under src/internal):
    Prelude, Go_Text, Float64, Encoding, Sha256, Go_Time, Go_Duration, Go_Net, Text_Facts: lists and tables, and what
      the program uses of Go's standard library (UTF-8, strings, path, float64, base64, SHA-256, HMAC
      and PBKDF2, RFC 3339, durations as text, host and port);
    Domain_State, Domain_Projection, Domain_Errors: domain/*.go, one definition per function;
    Outbox: outbox/{outbox,payload,signal,validate}.go;
    Store_Rows .. Store_Outbox: the rows of store/sqlc/models.go, the conversions, and one definition
      for each operation of store/repository.go, repository_outbox.go, repository_qbt_surface.go over the
      SQL statements of store/sqlc/*.sql.go; Store_Schema has the indexes and triggers of
      store/migrations/00015_download_workspace.sql as they reject a write;
    Settings_Store: store/settings.go with sqlc/settings.sql.go;
    Reconcile_World, Reconcile, Reconcile_Step: reconcile/reconcile.go, the interfaces (cloud drive,
      filesystem, clock) as functions of a record, the decision as a function that logs its calls;
    Webhook: webhook/{dispatcher,http}.go, the network as a record of functions;
    Secrets, Sessions, Login_Policy, Credentials, Authentication: token, qbtkey, session, creds and authn
      with their tables, httpapi/auth.go and nativeapi/auth.go;
    Torrent_Meta, Submission: torrentmeta/torrentmeta.go and submission/service.go;
    File_System, Fsafe, Fsafe_Content, Fsafe_Plan: fsafe/{fsafe,plan}.go on a modelled file system;
    Log_Redaction: the sanitising functions of logging/logging.go;
    Http_Types, Http_Base, Http_Torrents, Http_Actions, Http_Add, Http_App, Http_Routes: httpapi/*.go, one
      definition per handler, and the dispatch behind the authentication boundary (login and logout included: ServeHTTP
      acts on the authentication tables and on the API together; root_api is the server's route to both);
    Native_Api: nativeapi/handler.go, one definition per function; a request that parks is woken by a list
      of reasons (the signal, the deadline, shutdown, the departure of the client).

  State.  The store is the record Db of its tables.  A transaction is a function from Db to an error
  or a result with the new Db (Store_Tx); in_tx rolls back on an error, and commits and fires the
  signal on success.  Any statement may fail: the record Env holds the faults of the driver, the fresh
  identifiers, and the value of an out-of-range float conversion.  Times are nanoseconds since the zero
  instant, as int; durations and sizes are int with the 64-bit saturation of the time package written out.
  The disk is a list of paths with directories, files (length and identity) and links; the record Disk
  says which call fails, what an identity check sees, whether a failing write leaves a part, and in which
  order a directory or a map is read; a walk follows at most 40 links (255 for EvalSymlinks, as Go has it),
  and a failing MkdirAll changes nothing.  A handler of the API is an action on the record Api (store, settings,
  disk, count of calls and of wakes) that may reply early; Backend holds the driver, the other clients
  that act before each of its calls, the disk's faults, the clock and the libraries that are not modelled.

  How it is proved.  Store_Relation and Store_Tx state a relation between stores by its closure under
  each statement (locales db_relation, event_relation, store_relation); every operation then preserves
  it, once and for all, and seven interpretations (rows only move forward, local paths stay apart, the
  event log, the delivery queue, events leave downloads alone, the signal keeps a channel until it is closed) give the invariants.  Store_System
  makes every request a step of a transition system; store_run is its reflexive-transitive closure and
  reachable its states.  Fencing and Leases state the lease protocol as a locale with two
  interpretations, for downloads and for deliveries; Secrets does the same for the two kinds of keys.
  Reconcile_Step and Reconcile_Safety analyse the decisions (which calls delete or exclude local content, what a
  verification establishes, what a step commits), Store_Facts the single operations, Store_Progress what
  succeeds when the driver answers, Store_Paths and Local_Trees the disjointness of the local trees, as texts
  and as directories; Retries follows one delivery row through its attempts; Session_Facts, Torrent_Facts and Submission_Facts the services.  Fsafe_Facts confines deletions,
  Fsafe_Verified says what a verification has seen, Fsafe_Convergence, Fsafe_Retry and Fsafe_Apply
  that an interrupted file plan can be repeated.  Http_Routes states a relation on the API by its closure under
  what handlers do (locales api_reads and api_effects); Http_Facts interprets it twice, by runs of
  the store and by equality, and analyses the listing; Http_Rename compares what a folder rename does to the
  disk with what it records.  Native_Feed follows a client through the pages of the event feed, Native_Wait
  the waiter from its snapshot of the signal to the commit that wakes it.  The Example theories are concrete runs, at which the properties are applied.

  Loops.  All loops are structural or have a termination proof (the byte and rune loops of Go_Text, the
  batches of fsafe, the walk by its link budget); no fuel is used.  The worker and scheduler loops are
  modelled one turn at a time, with the requests of other clients between claim and commit as an
  arbitrary function on the store.

  Not modelled.  The gRPC client of CloudDrive2 and its generated code (clouddrive): its answers are the
  parameters of the reconciler.  The web pages (web), the server and process start (server, cmd), configuration (config, settings/settings.go
  apart from one key), the delivery cursor (outbox/cursor.go), and the writing and reading of log files:
  they are I/O, parsing of requests and presentation around the operations above.  Of both APIs, JSON
  encoding is left out (a body is the value that is encoded), the constant server_state of the main data,
  and the directories that a submission prepares on the disk.  Modes, owners and raw error numbers of
  the disk are not represented.  SQLite itself is modelled by what its statements do.
\<close>

subsection \<open>The lease protocol and the store\<close>

text \<open>
  C1. A claim commits at most once: after a successful \<open>CommitClaim\<close> and any further requests to the
  store, every other commit of the same claim is refused, whatever result it carries.
\<close>

theorem download_commits_once:
  assumes "reachable a" "CommitClaim env claim next a = (Inr (), b)" "store_run b c"
  shows "fst (CommitClaim env' claim next' c) \<noteq> Inr ()"
  using download_lease.commit_once [OF reachable_paths [OF assms(1)], of claim b c] assms(2,3)
  by (force simp: commits_download_def prod_eq_iff)

theorem download_commits_once_witness:
  "fst (CommitClaim calm example_claim example_next committed_db) \<noteq> Inr ()"
  by (rule download_commits_once [OF leased_reachable(1) example_committed store_run.refl])

text \<open>
  C2. Mutual exclusion: if a claim commits, then whatever requests ran since it was taken, the leased row
  is still in the store exactly as the claim left it; nothing else has written it in between.
\<close>

theorem claimed_row_untouched:
  assumes "reachable a" "ClaimDue env owner now dur a = (Inr (Some claim), b)" "store_run b c"
    and "CommitClaim env' claim next c = (Inr (), d)"
  shows "\<exists>r \<in> set (downloads b). commit_where claim r \<and> r \<in> set (downloads c)"
  using download_lease.lease_intact [OF reachable_paths [OF assms(1)] _ assms(3)] assms(2,4)
  unfolding claims_download_def commits_download_def by blast

theorem claimed_row_untouched_witness:
  "\<exists>r \<in> set (downloads leased_db). commit_where example_claim r \<and> r \<in> set (downloads leased_db)"
  by (rule claimed_row_untouched [OF example_reachable(1) example_claimed store_run.refl example_committed])

text \<open>
  C3. Fencing: once the lease of a claim has expired and another claim has taken the same download over,
  the first claim can never commit, however much later it tries.
\<close>

theorem overtaken_claim_refused:
  assumes "reachable a" "ClaimDue env owner now dur a = (Inr (Some claim), b)" "store_run b c"
    and "ClaimDue env' owner' now' dur' c = (Inr (Some other), d)" "store_run d e"
    and "dHash (kDownload other) = dHash (kDownload claim)"
  shows "fst (CommitClaim env'' claim next e) \<noteq> Inr ()"
proof
  assume "fst (CommitClaim env'' claim next e) = Inr ()"
  then have commit: "commits_download e claim (snd (CommitClaim env'' claim next e))"
    unfolding commits_download_def by (metis prod.collapse)
  have "claims_download a claim b" "claims_download c other d"
    using assms(2,4) by (auto simp: claims_download_def)
  moreover have "paths_ok c"
    using assms(1,2,3) paths_run [OF paths_run [OF reachable_paths run_claim]] by (metis snd_conv)
  ultimately show False
    using download_lease.taken_over [OF reachable_paths [OF assms(1)] _ assms(3) _ _ assms(6,5)] commit by blast
qed

theorem overtaken_claim_refused_witness:
  "fst (CommitClaim calm example_claim example_next overtaken_db) \<noteq> Inr ()"
  by (rule overtaken_claim_refused [OF example_reachable(1) example_claimed store_run.refl overtaken store_run.refl])
    (simp add: overtaking_claim_def example_claim_def)

text \<open>
  C4. The local trees of two downloads of a reachable store, as the schema's triggers record them, never
  nest. The tree of a row is its workspace, or for a row without a workspace (the legacy layout) its
  save path followed by its destination name. As texts neither of the two trees is equal to or below the
  other. When each of them is a workspace, or a legacy path other than the root that is recorded in the
  form filepath.Clean returns, they do not nest as directories either: neither list of path components
  is a prefix of the other. A legacy row that has no destination name, whose content the reconciler
  deletes at the recorded content path, owns no tree in this sense, and the triggers do not protect it.  Both rows are readable,
  and an empty text is no tree.
\<close>

theorem local_trees_never_nest:
  assumes "reachable db" "a \<in> set (downloads db)" "b \<in> set (downloads db)" "r_hash a \<noteq> r_hash b"
    and "downloadFromDB a = Inr da" "downloadFromDB b = Inr d'"
    and "local_tree a = Some x" "local_tree b = Some y" "x \<noteq> []" "y \<noteq> []"
  shows "\<not> path_nested x y \<and>
    (r_workspace_path a = Some x \<or> (path_clean x = x \<and> x \<noteq> ''/'') \<longrightarrow>
     r_workspace_path b = Some y \<or> (path_clean y = y \<and> y \<noteq> ''/'') \<longrightarrow>
     \<not> prefix (comps x) (comps y) \<and> \<not> prefix (comps y) (comps x))"
  using local_trees_disjoint_directories [OF reachable_paths [OF assms(1)] assms(2-)]
  by (simp add: directory_text_def)

theorem local_trees_never_nest_witness:
  "\<not> path_nested (''/s/.cd211/'' @ hash_of (CHR ''a'')) (''/s/.cd211/'' @ hash_of (CHR ''b'')) \<and>
    \<not> prefix (comps (''/s/.cd211/'' @ hash_of (CHR ''a''))) (comps (''/s/.cd211/'' @ hash_of (CHR ''b'')))"
  using local_trees_never_nest [OF example_reachable(2), of row_a row_b]
  by (simp add: example_db2_run example_convert local_tree_def)

text \<open>
  C5. No request ever removes a download, changes its hash, or takes it back: in every later store there
  is exactly one row with its hash; its version never falls and counts the writes. With
  the same version the row is the same; otherwise, from a valid state, the later state is reached in
  exactly as many writes as the version has grown by, each of which keeps the state or takes one
  transition of the lifecycle. In particular one write takes at most one transition.
\<close>

theorem rows_only_move_forward:
  assumes "reachable db" "store_run db db'" "r \<in> set (downloads db)"
  shows "\<exists>r' \<in> set (downloads db'). (\<forall>q \<in> set (downloads db'). r_hash q = r_hash r \<longleftrightarrow> q = r')
    \<and> r_row_version r \<le> r_row_version r' \<and> (r_row_version r' = r_row_version r \<longrightarrow> r' = r)
    \<and> (State_Valid (r_state r) \<longrightarrow>
        (write_step ^^ nat (r_row_version r' - r_row_version r)) (r_state r) (r_state r'))"
  by (rule row_persists [OF reachable_paths [OF assms(1)] assms(2,3)])

theorem rows_only_move_forward_witness:
  "\<exists>r' \<in> set (downloads committed_db). (\<forall>q \<in> set (downloads committed_db). r_hash q = r_hash row_a \<longleftrightarrow> q = r')
    \<and> r_row_version row_a \<le> r_row_version r' \<and> (r_row_version r' = r_row_version row_a \<longrightarrow> r' = row_a)
    \<and> (State_Valid (r_state row_a) \<longrightarrow>
        (write_step ^^ nat (r_row_version r' - r_row_version row_a)) (r_state row_a) (r_state r'))"
proof (rule rows_only_move_forward [OF example_reachable(1)])
  show "store_run example_db committed_db"
    using store_run_trans [OF run_commit [of leased_db calm example_claim example_next]
        run_claim [of example_db calm "''w''" 5 10, unfolded example_claimed snd_conv]]
    by (simp add: example_committed)
qed (simp add: example_db_run)

text \<open>
  C6. The event log is append-only and gap-free: its sequence numbers are 1, 2, 3 and so on up to the last
  one, event ids never repeat, and whatever is requested later only appends to it.
\<close>

theorem event_log_has_no_gaps:
  assumes "reachable db" "store_run db db'"
  shows "map ev_sequence (domain_events db') = [1..last_sequence db'] \<and> distinct (map ev_id (domain_events db'))
    \<and> prefix (domain_events db) (domain_events db')"
  using reachable_log [OF assms(1)] log.store_run_R [OF assms(2)] by (simp add: log_grows_def log_ok_def)

theorem event_log_has_no_gaps_witness:
  "map ev_sequence (domain_events example_db2) = [1..last_sequence example_db2]
    \<and> distinct (map ev_id (domain_events example_db2)) \<and> prefix (domain_events example_db) (domain_events example_db2)"
proof (rule event_log_has_no_gaps [OF example_reachable(1)])
  show "store_run example_db example_db2" unfolding example_db2_def by (rule run_create)
qed

text \<open>
  C7. A commit that keeps the state writes nothing to the outbox; one that changes it appends exactly one
  event, of the type that belongs to the new state, and for a completion or a failure exactly one
  pending delivery for each subscribed live endpoint, in the same transaction.
\<close>

theorem commit_announces_once:
  assumes "reachable db" "CommitClaim env claim next db = (Inr (), db')"
  shows "if dState next = kState claim
    then domain_events db' = domain_events db \<and> webhook_deliveries db' = webhook_deliveries db
    else \<exists>d. dHash d = dHash (kDownload claim) \<and> dRowVersion d = kVersion claim + 1 \<and> dUpdatedAt d = dUpdatedAt next
      \<and> announced env (if dState next = StateCompleted then EventTypeCompleted
          else if dState next = StateFailed then EventTypeFailed else EventTypeStateChanged) d db db'"
  using commit_announces [OF reachable_paths [OF assms(1)] assms(2)] unfolding commit_event_def .

theorem commit_announces_once_witness:
  "domain_events committed_db = domain_events leased_db"
  using commit_announces_once [OF leased_reachable(1) example_committed]
  by (simp add: example_next_def example_claim_def example_download_def)

subsection \<open>The webhook queue\<close>

text \<open>
  C8. A claimed webhook delivery is accounted for at most once: after one commit of the claim no other
  commit of the same claim succeeds, whatever requests ran in between.
\<close>

theorem delivery_commits_once:
  assumes "queue_ok a" "CommitWebhookClaim env claim result now a = (Inr (), b)" "store_run b c"
  shows "fst (CommitWebhookClaim env' claim result' now' c) \<noteq> Inr ()"
  using delivery_lease.commit_once [OF assms(1), of claim b c] assms(2,3)
  by (force simp: commits_delivery_def prod_eq_iff)

theorem delivery_commits_once_witness:
  "fst (CommitWebhookClaim calm delivery_held delivered 9
      (snd (CommitWebhookClaim calm delivery_held delivered 8 held_db))) \<noteq> Inr ()"
proof (rule delivery_commits_once)
  show "queue_ok held_db" using queue_run [OF queue_db_ok run_webhook_claim] delivery_claimed by (metis snd_conv)
  show "CommitWebhookClaim calm delivery_held delivered 8 held_db =
      (Inr (), snd (CommitWebhookClaim calm delivery_held delivered 8 held_db))"
    using delivery_committed by (metis snd_conv)
qed (rule store_run.refl)

text \<open>
  C9. What a webhook worker is handed may be sent now: the endpoint exists, is enabled and not deleted, no
  unfinished earlier delivery of the same endpoint and aggregate exists, the row was due and unleased,
  and no other such row was due before it; the attempt is counted on the row.
\<close>

theorem claimed_delivery_in_order:
  assumes "ClaimWebhookDue env owner now dur db = (Inr (Some claim), db')"
  shows "\<exists>v \<in> set (webhook_deliveries db). v_id v = clDeliveryID claim \<and> claimable_delivery db now v
    \<and> deliverable_endpoint db (clEndpointID claim)
    \<and> (\<forall>e \<in> set (webhook_deliveries db). same_lane e v \<longrightarrow> in_flight e \<longrightarrow> \<not> earlier e v)
    \<and> (\<forall>e \<in> set (webhook_deliveries db). claimable_delivery db now e \<longrightarrow> delivery_due v \<le> delivery_due e)
    \<and> clAttemptCount claim = v_attempt_count v + 1"
proof -
  from delivery_claim_row [OF assms] obtain v where "v \<in> set (webhook_deliveries db)" "claimable_delivery db now v"
    "v_id v = clDeliveryID claim" "clAttemptCount claim = v_attempt_count v + 1" "clEndpointID claim = v_endpoint_id v"
    "\<forall>e \<in> set (webhook_deliveries db). claimable_delivery db now e \<longrightarrow> delivery_due v \<le> delivery_due e" by blast
  then show ?thesis by (intro bexI [of _ v]) (auto simp: claimable_delivery_def blocked_def list_ex_iff)
qed

theorem claimed_delivery_in_order_witness:
  "\<exists>v \<in> set (webhook_deliveries queue_db). v_id v = clDeliveryID delivery_held \<and> claimable_delivery queue_db 5 v
    \<and> deliverable_endpoint queue_db (clEndpointID delivery_held)
    \<and> (\<forall>e \<in> set (webhook_deliveries queue_db). same_lane e v \<longrightarrow> in_flight e \<longrightarrow> \<not> earlier e v)
    \<and> (\<forall>e \<in> set (webhook_deliveries queue_db). claimable_delivery queue_db 5 e \<longrightarrow> delivery_due v \<le> delivery_due e)
    \<and> clAttemptCount delivery_held = v_attempt_count v + 1"
  by (rule claimed_delivery_in_order [OF delivery_claimed])

subsection \<open>The reconciler\<close>

text \<open>
  C10. The reconciler refines the store's contract: whatever it decides for a claimed download, the checks
  before the commit refuse the result for identity, workspace or lifecycle in one case only, the
  legacy row that is cancelled or deleted with copy evidence and without a destination; otherwise only
  the structural validation of the download is left.
\<close>

theorem decision_is_committable:
  assumes "ClaimDue env owner now dur db = (Inr (Some claim), db')"
    and "next = (dcNext (decide c w (kDownload claim)))\<lparr>dUpdatedAt := t\<rparr>"
  shows "commit_check claim next =
      (if ValidateDownload (next\<lparr>dLeaseOwner := [], dLeaseUntil := None\<rparr>) = None
       then Inr (next\<lparr>dLeaseOwner := [], dLeaseUntil := None\<rparr>)
       else Inl (ErrText (the (ValidateDownload (next\<lparr>dLeaseOwner := [], dLeaseUntil := None\<rparr>)))))
    \<or> (legacy_dead_end (kDownload claim) next \<and> commit_check claim next = Inl ErrInvalidTransition)"
  by (rule decision_committable [OF assms])

theorem decision_is_committable_witness:
  "\<exists>next. next = (dcNext (decide example_config example_world (kDownload example_claim)))\<lparr>dUpdatedAt := 11\<rparr> \<and>
    (commit_check example_claim next =
      (if ValidateDownload (next\<lparr>dLeaseOwner := [], dLeaseUntil := None\<rparr>) = None
       then Inr (next\<lparr>dLeaseOwner := [], dLeaseUntil := None\<rparr>)
       else Inl (ErrText (the (ValidateDownload (next\<lparr>dLeaseOwner := [], dLeaseUntil := None\<rparr>)))))
    \<or> (legacy_dead_end (kDownload example_claim) next \<and> commit_check example_claim next = Inl ErrInvalidTransition))"
  using decision_is_committable [OF example_claimed HOL.refl] by blast

text \<open>
  C11. Every call of a reconciler decision that removes local content is one of two. It deletes the
  download's own content: its workspace, or in the legacy layout its destination below the save path, or
  the recorded content path when the files were to be deleted. Then the remote copy was removed before (or
  there was none), and the download is in one of three situations: a copy that is redone, a pause that
  rolls a copy back before its content was verified, or a deletion that asked for the files. Or the call
  applies a file plan to the download's own plan root while the content is verified. Such a plan is that of
  the recorded files and overrides, and it removes just the files that an override has deselected, whether
  or not the remote copy is still there.
\<close>

theorem local_content_deleted_safely:
  assumes "e \<in> set (dcEffects (decide c w d))" "removes_local e"
  shows "(own_content d e \<and> (dCopySourcePath d = [] \<or> copyRemovalCompleted (dLastUpstreamStatus d)) \<and>
      (dState d = StateSubmittingCopy \<and> dDestinationName d \<noteq> [] \<or>
       dState d = StateCancelRequested \<and> dPauseRequested d \<and> dContentPath d = [] \<or>
       dState d = StateDeleteRequested \<and> dDeleteFilesRequested d)) \<or>
    (own_plan w d e \<and> (dState d = StateWaitingCopy \<or> dState d = StateVerifyingLocal))"
  using assms decide_destroys [OF assms(1)] decide_destroys_own [OF assms(1)] decide_plans [OF assms(1)]
  by (auto simp: removes_local_def copy_gone_def)

theorem local_content_deleted_safely_witness:
  "(own_content pausing (EffDeleteWorkspace ''/s'' (hash_of (CHR ''a''))) \<and> (dCopySourcePath pausing = [] \<or> copyRemovalCompleted (dLastUpstreamStatus pausing)) \<and>
      (dState pausing = StateSubmittingCopy \<and> dDestinationName pausing \<noteq> [] \<or>
       dState pausing = StateCancelRequested \<and> dPauseRequested pausing \<and> dContentPath pausing = [] \<or>
       dState pausing = StateDeleteRequested \<and> dDeleteFilesRequested pausing)) \<or>
    (own_plan example_world pausing (EffDeleteWorkspace ''/s'' (hash_of (CHR ''a''))) \<and> (dState pausing = StateWaitingCopy \<or> dState pausing = StateVerifyingLocal))"
  by (rule local_content_deleted_safely [OF pausing_deletes]) (simp add: removes_local_def)

text \<open>
  C12. A copy is started only for a download in SUBMITTING_COPY whose preflight found the destination clear
  and whose source and destination were reserved, and only from that source into its own workspace.
\<close>

theorem copy_only_into_clear_destination:
  assumes "EffEnsureCopy source target \<in> set (dcEffects (decide c w d))"
  shows "dState d = StateSubmittingCopy \<and> dLastUpstreamStatus d = destinationClear \<and>
    source = dCopySourcePath d \<and> source \<noteq> [] \<and> target = workspaceRoot d \<and> dDestinationName d \<noteq> []"
  by (rule decide_copies [OF assms])

theorem copy_only_into_clear_destination_witness:
  "dState copying = StateSubmittingCopy \<and> dLastUpstreamStatus copying = destinationClear \<and>
    ''/c/t'' = dCopySourcePath copying \<and> ''/c/t'' \<noteq> [] \<and> ''/s/.cd211/'' @ hash_of (CHR ''a'') = workspaceRoot copying
    \<and> dDestinationName copying \<noteq> []"
  by (rule copy_only_into_clear_destination [OF copying_copies])

text \<open>
  C13. A download completes only from VERIFYING_LOCAL and only on a verification that succeeded in this very
  step, either of content of unknown type or of a manifest that is non-empty, free of duplicates and
  unsafe paths, and whose sizes add up without overflow; what is recorded is what was verified.
\<close>

theorem completion_is_verified:
  assumes "dState (dcNext (decide c w d)) = StateCompleted" "dcErr (decide c w d) = None"
  shows "dState d = StateVerifyingLocal \<and> (\<exists>d'. dcNext (decide c w d) = complete (wNow w) d' \<and>
    (verified_unknown w d d' \<or> verified_manifest w d d'))"
  using decide_completes [OF assms] verify_success by blast

theorem completion_is_verified_witness:
  "dState verifying = StateVerifyingLocal \<and> (\<exists>d'. dcNext (decide example_config example_world verifying) =
      complete (wNow example_world) d' \<and>
    (verified_unknown example_world verifying d' \<or> verified_manifest example_world verifying d'))"
  by (rule completion_is_verified [OF verifying_completes])

text \<open>
  C14. The reconciler over the file system: if its verifying calls are those of the verifier on a state of the
  disk, with any links and any faults, then a download that completes is there, at the content path that
  its row records. A magnet, or a torrent without a recorded layout, has the content path that joins its
  workspace (or save path) and its destination name. What that path resolves to lies strictly below the
  local root and below the resolved workspace, and is a regular file of the recorded size, or a
  directory tree without links whose sizes add up to it as a 64-bit sum; the row records which of the two. For
  every other torrent the files are the recorded manifest as far as the overrides select it, under their
  effective paths. Each of them is a regular file of exactly its size, below the directory that the content
  path resolves to, or below the resolved workspace for a torrent copied as a single file; and the recorded
  size is the sum of their sizes, without overflow.
\<close>

theorem completed_download_is_on_disk:
  assumes "dState (dcNext (decide c (disk_verifier dk fs localRoot w) d)) = StateCompleted"
    "dcErr (decide c (disk_verifier dk fs localRoot w) d) = None"
  shows "recorded_on_disk dk fs localRoot w d (dcNext (decide c (disk_verifier dk fs localRoot w) d))"
  by (rule completed_is_present [OF assms])

theorem completed_download_is_on_disk_witness:
  "recorded_on_disk quiet example_disk ''/s'' example_world verifying
    (dcNext (decide example_config (disk_verifier quiet example_disk ''/s'' example_world) verifying))"
  by (rule completed_download_is_on_disk [OF disk_completes])

text \<open>
  C15. Deleting local content changes nothing but entries strictly below the opened save root, which itself lies
  at or below the local root, and it only removes: whatever the links in the file system, the faults of the
  calls, and how far a failing removal came.
\<close>

theorem local_deletion_stays_inside:
  assumes "fs_at (snd (Delete_content dk localRoot contentPath savePath fs)) p \<noteq> fs_at fs p"
  shows "\<exists>base dir evaluated. open_dir [] fs [] (comps localRoot) = Inr base \<and> prefix base dir
    \<and> openSaveRoot dk fs localRoot (path_clean savePath) = Inr (dir, evaluated)
    \<and> strict_prefix dir p \<and> fs_at (snd (Delete_content dk localRoot contentPath savePath fs)) p = None"
  by (rule content_deletion_confined [OF assms])

theorem local_deletion_stays_inside_witness:
  "\<exists>base dir evaluated. open_dir [] example_disk [] (comps ''/s'') = Inr base \<and> prefix base dir
    \<and> openSaveRoot quiet example_disk ''/s'' (path_clean ''/s/m'') = Inr (dir, evaluated)
    \<and> strict_prefix dir [''s'', ''m'', ''t'', ''a'']
    \<and> fs_at (snd (Delete_content quiet ''/s'' ''/s/m/t'' ''/s/m'' example_disk)) [''s'', ''m'', ''t'', ''a''] = None"
  by (rule local_deletion_stays_inside [OF example_deletes])

text \<open>
  C16. A plan whose sources, temporaries and targets are apart can be interrupted anywhere: after any number of
  attempts with any faults, an attempt in which no call fails reports success, and then each file is at its
  target and nowhere else, the excluded files are gone, the files that keep their path are as before, and
  nothing else has changed but for new directories above targets.
\<close>

theorem file_plan_survives_faults:
  assumes "plan_ready localRoot dir hash plans fs0" "faultless dk"
    and "ApplyFilePlan dk localRoot dir hash plans (attempts localRoot dir hash plans dks fs0) = (r, fs)"
  shows "r = Inr () \<and>
    (\<forall>m \<in> set (plan_moves dir hash plans). fs_at fs (mvTarget m) = fs_at fs0 (mvSource m)
       \<and> fs_at fs (mvSource m) = None \<and> fs_at fs (mvTemp m) = None) \<and>
    (\<forall>p \<in> set plans. fpPriority p = 0 \<longrightarrow> fs_at fs (plan_path dir (fpOriginalPath p)) = None) \<and>
    (\<forall>p \<in> set plans. \<not> moves_file p \<longrightarrow> fpPriority p \<noteq> 0
       \<longrightarrow> fs_at fs (plan_path dir (fpOriginalPath p)) = fs_at fs0 (plan_path dir (fpOriginalPath p))) \<and>
    outside_kept (plan_moves dir hash plans) (excluded_paths dir plans) fs0 fs"
  by (rule plan_completed [OF assms])

theorem file_plan_survives_faults_witness:
  "fst (ApplyFilePlan quiet ''/s'' ''/s/m/t'' ''h'' example_plans
      (attempts ''/s'' ''/s/m/t'' ''h'' example_plans [broken] example_disk)) = Inr ()"
  using file_plan_survives_faults [OF example_plan_ready quiet_calm surjective_pairing] by blast

subsection \<open>The qBittorrent API\<close>

text \<open>
  C17. A request that the boundary does not serve, or whose route is neither one of the 21 routes with an effect nor
  auth/login or auth/logout, changes no data. When no other client intervenes, the tables of downloads,
  categories, tags, events and webhooks, the settings and the disk stay as they are and the reconciler
  is not woken, also on the routes that accept a form and promise an action. Of the authentication
  tables the boundary writes at most this: with an Authorization header the count of login attempts,
  without one the session that the request's own cookie names, which it renews or, when expired, deletes.
  All other sessions, the operator, the key and the token stay as they are.
\<close>

theorem reading_request_changes_nothing:
  assumes "ServeHTTP ac fr c hq be r add (a, s) = ((rep, cookies), a', s')" "alone be" "acOthers ac = (\<lambda>_ rows. rows)"
    and "(routed (hrPath r) (effect_routes be r add) = None \<and> hrPath r \<notin> set auth_paths) \<or>
      (\<forall>p cookie. fst (authBoundary (acBoundary ac) fr c (acOthers ac) (acNow ac) hq a) \<noteq> Served p cookie)"
  shows "apDb s' = apDb s \<and> apSettings s' = apSettings s \<and> apFs s' = apFs s \<and> apWakes s' = apWakes s \<and>
    asOperator a' = asOperator a \<and> asQBTKey a' = asQBTKey a \<and> asAPIToken a' = asAPIToken a \<and>
    (hqAuthorization hq = [] \<longrightarrow> asLogins a' = asLogins a) \<and>
    (hqAuthorization hq \<noteq> [] \<longrightarrow> asSessions a' = asSessions a) \<and>
    other_sessions (hqSID hq) (asSessions a') = other_sessions (hqSID hq) (asSessions a)"
  using quiet_served [OF assms] unfolding boundary_writes_def by blast

theorem reading_request_changes_nothing_witness:
  "apDb (snd (snd (ServeHTTP example_calls example_front session_config (example_request [])
    example_backend (info_request ''1'') undefined (example_auth, example_api example_db2)))) = example_db2"
proof -
  obtain rep cookies a' s' where served: "ServeHTTP example_calls example_front session_config (example_request []) example_backend
      (info_request ''1'') undefined (example_auth, example_api example_db2) = ((rep, cookies), a', s')"
    by (metis prod.collapse)
  have others: "acOthers example_calls = (\<lambda>_ rows. rows)" by (simp add: example_calls_def)
  from reading_request_changes_nothing [OF served backend_alone(1) others] info_route [of "''1''" undefined] info_path
  show ?thesis by (simp add: served)
qed

text \<open>
  C18. A folder rename keeps the disk and the store in step. Suppose a request on a completed download is
  answered OK, no other client changes the store meanwhile, its file rows and overrides have unique
  indexes, no call of the disk fails, and the plan is ready: the files to move are regular files below a root
  without links, and their old, temporary and new paths are all apart. Then for every file of the download
  the store records the old path with the folder replaced, and the same priority; and each file that is
  selected and whose path the rename changes has moved on the disk to exactly the path that the store now
  records, and is gone from the old one.
\<close>

theorem folder_rename_agrees:
  assumes "alone be" "finish (renameFolder be r) s = (OkReply, s')"
    and "hrForm r = Some f" "obind (one_of f ''hash'') canonicalHash = Some hash"
      "one_of f ''oldPath'' = Some old" "one_of f ''newPath'' = Some new"
    and "GetDownload (beEnv be (apCalls s + 1)) hash (apDb s) = Inr d" "dState d = StateCompleted"
    and "file_keys (apDb s)" "faultless (beDisk be (apCalls s + 4))"
    and "plan_ready (beFsRoot be) (completedPlanRoot d) (dHash d)
      (map (folder_plan hash old new (apDb s)) (filter (folder_moves hash old new (apDb s)) (files_of hash (apDb s)))) (apFs s)"
    and "x \<in> set (files_of hash (apDb s))"
  shows "recorded_file hash (apDb s') x = (recorded_file hash (apDb s) x)
      \<lparr>xPath := rename_prefix old new (xPath (recorded_file hash (apDb s) x))\<rparr>
    \<and> (folder_moves hash old new (apDb s) x \<longrightarrow>
        fs_at (apFs s') (plan_path (completedPlanRoot d) (xPath (recorded_file hash (apDb s') x))) =
          fs_at (apFs s) (plan_path (completedPlanRoot d) (xPath (recorded_file hash (apDb s) x)))
        \<and> fs_at (apFs s') (plan_path (completedPlanRoot d) (xPath (recorded_file hash (apDb s) x))) = None)"
  using rename_request_agrees [OF assms] by blast

theorem folder_rename_agrees_witness:
  "fs_at (apFs (renamed_api)) (plan_path work_dir ''b/x'') = fs_at finished_disk (plan_path work_dir ''a/x'')
    \<and> xPath (recorded_file (hash_of (CHR ''a'')) (apDb renamed_api) (hd (download_files finished_db))) = ''b/x''"
  using folder_rename_agrees [OF backend_alone(1) rename_answered rename_form_fields(4) rename_hash rename_form_fields(2,3)
      rename_premises(1-6)] rename_premises(7)
  by (auto simp: finished_root finished_rows finished_recorded finished_renames)

text \<open>
  C19. A folder rename is not atomic across the disk and the store. Suppose the request names a visible completed
  download and two safe paths, its reads succeed, no other client changes the store meanwhile, no call of the disk fails,
  the plan is ready and moves at least one file. If the store then refuses the rename, for whatever reason (a
  file that was deselected under the new name, a lease, a failing statement), the request is answered with
  the error and the store is unchanged, but the files have moved: each file that the plan
  moves lies at its new path, and nothing lies at the path that the store still records for it.
\<close>

theorem refused_rename_moves_files:
  assumes "alone be" "hrForm r = Some f" "obind (one_of f ''hash'') canonicalHash = Some hash"
      "one_of f ''oldPath'' = Some old" "one_of f ''newPath'' = Some new"
      "api_safeRelativePath old" "api_safeRelativePath new"
    and "GetDownload (beEnv be (apCalls s)) hash (apDb s) = Inr d"
      "GetDownload (beEnv be (apCalls s + 1)) hash (apDb s) = Inr d" "dState d = StateCompleted"
    and "ListDownloadFiles (beEnv be (apCalls s + 2)) hash (apDb s) = Inr files"
      "ListDownloadFileOverrides (beEnv be (apCalls s + 3)) hash (apDb s) = Inr overrides"
    and "file_keys (apDb s)" "faultless (beDisk be (apCalls s + 4))"
    and "plan_ready (beFsRoot be) (completedPlanRoot d) (dHash d)
      (map (folder_plan hash old new (apDb s)) (filter (folder_moves hash old new (apDb s)) (files_of hash (apDb s)))) (apFs s)"
    and "x \<in> set (files_of hash (apDb s))" "folder_moves hash old new (apDb s) x"
    and "fst (RenameFolder (beEnv be (apCalls s + 5)) hash old new (beNow be (apCalls s + 5)) (apDb s)) = Inl e"
  shows "\<exists>s'. finish (renameFolder be r) s = (repositoryError e, s') \<and> apDb s' = apDb s
    \<and> fs_at (apFs s') (plan_path (completedPlanRoot d) (rename_prefix old new (xPath (recorded_file hash (apDb s') x)))) =
        fs_at (apFs s) (plan_path (completedPlanRoot d) (xPath (recorded_file hash (apDb s) x)))
    \<and> fs_at (apFs s') (plan_path (completedPlanRoot d) (xPath (recorded_file hash (apDb s') x))) = None"
  by (rule rename_refused_after_move [OF assms])

theorem refused_rename_moves_files_witness:
  "\<exists>s'. finish (renameFolder example_backend rename_request) (example_api clash_db) = (internalError, s')
    \<and> apDb s' = clash_db \<and> fs_at (apFs s') (plan_path work_dir ''b/x'') = fs_at finished_disk (plan_path work_dir ''a/x'')
    \<and> fs_at (apFs s') (plan_path work_dir ''a/x'') = None"
  using refused_rename_moves_files [OF backend_alone(1) rename_form_fields(4) rename_hash rename_form_fields(2,3)
      example_paths_ok(3,4) clash_premises]
  by (auto simp: finished_root clash_recorded finished_renames repositoryError_def)

text \<open>
  C20. The torrent list: an answer holds exactly the downloads that the query selects, each once, in the order asked for
  (equal entries by hash, also in reverse), cut to the page of the offset and limit; a negative offset counts
  from the end.
\<close>

theorem listing_is_sorted_page:
  assumes "fst (finish (torrents_info be r) s) = TorrentList page"
    and "2 * int (length (downloads (beOthers be (apCalls s) (apDb s)))) \<le> max_int64"
  shows "\<exists>q ds ordered. info_query (beLower be) r = Some q
    \<and> ListDownloads (beEnv be (apCalls s)) (iqCategory q) (beOthers be (apCalls s) (apDb s)) = Inr ds
    \<and> mset ordered = mset (map (entry_of be) (shown_downloads be q ds))
    \<and> sorted_wrt (\<lambda>a b. iqSort q = [] \<or> \<not> info_less q b a) ordered
    \<and> page = take (page_limit (iqLimit q) (length ordered)) (drop (nat (page_offset (int (length ordered)) (iqOffset q))) ordered)"
  using assms by (rule listed_page)

theorem listing_is_sorted_page_witness:
  "\<exists>q ds ordered. info_query to_lower (info_request ''1'') = Some q
    \<and> ListDownloads calm (iqCategory q) example_db2 = Inr ds
    \<and> mset ordered = mset (map (entry_of example_backend) (shown_downloads example_backend q ds))
    \<and> sorted_wrt (\<lambda>a b. iqSort q = [] \<or> \<not> info_less q b a) ordered
    \<and> second_page = take (page_limit (iqLimit q) (length ordered)) (drop (nat (page_offset (int (length ordered)) (iqOffset q))) ordered)"
  using listing_is_sorted_page [OF second_page_listed] by (simp add: example_db2_run max_int64_def backend_lower)

text \<open>
  C21. A limit near the top of the 64-bit range, with an offset inside the list, overflows the end of the page: the
  handler slices backwards and panics instead of answering the rest of the list.
\<close>

theorem huge_limit_panics:
  assumes "info_query (beLower be) r = Some q"
    and "ListDownloads (beEnv be (apCalls s)) (iqCategory q) (beOthers be (apCalls s) (apDb s)) = Inr ds"
    and "info_entries be q ds = Some es" "2 * int (length es) \<le> max_int64"
    and "0 < iqOffset q" "iqOffset q < int (length es)" "max_int64 < iqOffset q + iqLimit q"
  shows "fst (finish (torrents_info be r) s) = Panicked"
  using assms by (rule overflowing_page)

theorem huge_limit_panics_witness:
  "fst (finish (torrents_info example_backend (info_request ''9223372036854775807'')) (example_api example_db2)) = Panicked"
  using huge_limit_panics [OF asked_of_backend(2) asked_of_backend(3) example_entries]
  by (simp add: listing_asked listed_two max_int64_def)

subsection \<open>The native API\<close>

text \<open>
  C22. The event feed loses and repeats nothing: a client that starts without a cursor and then always sends back the last
  next_cursor, with any limits and waits, whatever is committed between and during its requests, has received
  exactly the events of its filter up to its cursor, each once, in the order of the log, and its cursor is
  readable and not ahead of the log.
\<close>

theorem feed_delivers_each_event_once:
  assumes "follows be gone jsonValid f s items nxt s'" "reachable (apDb s)" "lawful_others be"
    and "last_sequence (apDb s') < 2 ^ 63"
  shows "\<exists>m. decodeEventCursor nxt = Some m \<and> 0 \<le> m \<and> m \<le> last_sequence (apDb s')
    \<and> items = map shown_event (filter (\<lambda>e. ev_sequence e \<le> m \<and> wanted f e) (domain_events (apDb s')))"
  using assms by (rule followed_all)

theorem feed_delivers_each_event_once_witness:
  "\<exists>p. [(encodeEventCursor 2, p)] =
    map shown_event (filter (\<lambda>e. ev_sequence e \<le> 2 \<and> wanted any_event e) (domain_events failed_db))"
proof -
  obtain p where "follows example_backend (\<lambda>_. False) (\<lambda>_. True) any_event (example_api leased_db) [(encodeEventCursor 2, p)]
      (encodeEventCursor 2) ((example_api failed_db)\<lparr>apCalls := 2\<rparr>)"
    using example_follows by blast
  from feed_delivers_each_event_once [OF this _ backend_alone(2)] leased_reachable(1) failed_log decode_encode [of 2]
  show ?thesis by auto
qed

text \<open>
  C23. A wait answers with what is stored when it answers: the model of a terminal download; or, only after its deadline
  or a shutdown, the version of a download that is not terminal; it keeps waiting only over such a download and
  while nothing but the signal has woken it.
\<close>

theorem wait_answers_what_is_stored:
  assumes "serveDownloadWait be gone wakes r hash s = (rep, s')" "nrMethod r = ''GET''" "parseWaitTimeout r \<noteq> None"
  shows "case rep of
      NModel m \<Rightarrow> \<exists>d. stored_as hash (apDb s') d \<and> terminalOutcome (dState d) \<noteq> None \<and> m = download_model (beFloatOob be) d
    | NVersion v \<Rightarrow> (\<exists>d. stored_as hash (apDb s') d \<and> terminalOutcome (dState d) = None \<and> v = dRowVersion d)
        \<and> (Elapsed \<in> set wakes \<or> Retired \<in> set wakes)
    | NWaiting \<Rightarrow> (\<exists>d. stored_as hash (apDb s') d \<and> terminalOutcome (dState d) = None) \<and> set wakes \<subseteq> {Signalled}
    | NSilent \<Rightarrow> True
    | _ \<Rightarrow> rep = downloadNotFound \<or> rep = nativeInternal"
  using assms waited [of be gone hash wakes s rep s'] unfolding serveDownloadWait_def wait_answer_def
  by (auto split: native_reply.splits)

theorem wait_answers_what_is_stored_witness:
  "\<exists>d. stored_as (hash_of (CHR ''a'')) failed_db d \<and> terminalOutcome (dState d) \<noteq> None
    \<and> download_model (\<lambda>_. 0) (failing\<lparr>dLeaseOwner := [], dLeaseUntil := None, dRowVersion := 2\<rparr>) = download_model (\<lambda>_. 0) d"
  using wait_answers_what_is_stored [OF answered_example wait_accepted] by (simp add: example_backend_def)

text \<open>
  C24. No lost wake-up: a request that parks, waiting for a download or for events, holds the channel that was current
  before its reads; any later commit of a claim that changes a state, also one that falls between the snapshot
  and the read, closes this channel, and it stays closed.
\<close>

theorem commit_wakes_every_waiter:
  assumes "reachable (apDb s)" "lawful_others be" "parks_on be gone ch s s'"
    and "store_run (apDb s) db1" "CommitClaim env claim next db1 = (Inr (), db2)" "dState next \<noteq> kState claim"
    and "store_run db2 db3"
  shows "ch \<in> set (sgClosed (eventSignal db3))"
  using assms by (rule parked_waiter_woken)

theorem commit_wakes_every_waiter_witness:
  "snapshot_of leased_db \<in> set (sgClosed (eventSignal failed_db))"
  using commit_wakes_every_waiter [OF _ backend_alone(2) example_parks _ _ failing_changes store_run.refl]
    leased_reachable(1) failed_log store_run.refl by (metis backend_fields(6))

text \<open>
  C25. Event cursors and sequences are in bijection: a text without line breaks is accepted as the cursor of a sequence
  exactly if it is the text that the server writes for this sequence, and that for all sequences of 63 bits.
\<close>

theorem cursors_have_one_spelling:
  assumes "CHR 0x0A \<notin> set v" "CHR 0x0D \<notin> set v"
  shows "decodeEventCursor v = Some n \<longleftrightarrow> 0 \<le> n \<and> n < 2 ^ 63 \<and> v = encodeEventCursor n"
  using encode_decode [OF _ assms] decode_encode by blast

theorem cursors_have_one_spelling_witness:
  "decodeEventCursor ''AQAAAAAAAAAC'' = Some 2"
proof -
  have "be64 2 = [0, 0, 0, 0, 0, 0, 0, 2]" by (simp add: be64_def upt_rec)
  then have "encodeEventCursor 2 = ''AQAAAAAAAAAC''"
    by (simp add: encodeEventCursor_def eventCursorVersion_def b64_encode_def b64_char_def b64_code_def char_of_def bit_iff_odd)
  then show ?thesis using cursors_have_one_spelling [of "''AQAAAAAAAAAC''" 2] by simp
qed

subsection \<open>Steps, progress and errors\<close>



text \<open>
  C27. Progress: when the driver answers, the earliest due row that converts is claimed; the claim carries
  its download under the new lease and version, and nothing but the lease of that row is written.
\<close>

theorem due_download_is_claimed:
  assumes "driver_calm env" "trim_space owner \<noteq> []" "0 < dur" "now \<noteq> 0" "now + dur \<noteq> 0"
    and "first_by row_due (filter (claimable_row now) (downloads db)) = Some r" "downloadFromDB r = Inr d"
  shows "ClaimDue env owner now dur db =
    (Inr (Some \<lparr>kDownload = d\<lparr>dLeaseOwner := owner, dLeaseUntil := Some (now + dur), dRowVersion := dRowVersion d + 1\<rparr>,
        kOwner = owner, kState = dState d, kVersion = dRowVersion d + 1\<rparr>),
     db\<lparr>downloads := sql_update (\<lambda>q. r_hash q = r_hash r) (lease_set owner (now + dur)) (downloads db)\<rparr>)"
  by (rule due_row_claimed [OF assms])

theorem due_download_is_claimed_witness:
  "fst (ClaimDue calm ''w'' 5 10 example_db) = Inr (Some example_claim)"
proof -
  have "first_by row_due (filter (claimable_row 5) (downloads example_db)) = Some row_a"
    by (simp add: example_db_run claimable_row_def first_by_def workflow_ended_def)
  from due_download_is_claimed [OF driver_calm trim_owner _ _ _ this example_convert(1), of 10] show ?thesis
    by (simp add: example_claim_def)
qed

text \<open>
  C28. A valid submission for an unknown hash is accepted when every statement of the driver answers: the row and
  its files are appended, exactly one created event is written and the event signal fires, all in the one
  transaction.  The conditions, which validation alone does not give: the download's update time is not
  before its creation and none of its optional times is the zero instant (times_ok: otherwise the inserted row
  is refused when it is read back); no row of the file table is left over for the hash; the save path is
  not a reserved one, and neither the path guard nor a unique index of the table rejects the row; and the
  fresh event id is not in the log yet.
\<close>

theorem submission_is_stored:
  assumes "driver_calm env" "validateSubmission s = None" "times_ok (subDownload s)"
    and "sql_get r_hash (dHash (subDownload s)) (downloads db) = None"
    and "\<forall>g \<in> set (download_files db). fr_download_hash g \<noteq> dHash (subDownload s)"
    and "\<not> path_reserved (dSavePath (subDownload s))" "\<not> guard_rejects db (insertDownloadParams (subDownload s))"
      "\<not> index_rejects db (insertDownloadParams (subDownload s))"
    and "freshID env (dHash (subDownload s)) \<notin> ev_id ` set (domain_events db)"
  shows "\<exists>payload. CreateSubmission env s db =
       (Inr ((subDownload s)\<lparr>dPauseRequested := False\<rparr>, True),
        notify (append_event env EventTypeCreated payload (subDownload s)
          (db\<lparr>downloads := downloads db @ [insertDownloadParams (subDownload s)],
              download_files := download_files db @ map file_params (subFiles s)\<rparr>)))"
  using submission_stored [OF assms] by metis

theorem submission_is_stored_witness:
  "fst (CreateSubmission calm (example_submission (CHR ''a'')) empty_db) =
    Inr ((example_download (CHR ''a''))\<lparr>dPauseRequested := False\<rparr>, True)"
proof -
  have "\<not> guard_rejects empty_db row_a" "\<not> index_rejects empty_db row_a"
    by (simp_all add: guard_rejects_def index_rejects_def guard_categories_def empty_db_def)
  with submission_is_stored [OF driver_calm example_submission_valid(1), of empty_db] show ?thesis
    by (auto simp: example_times empty_db_def not_reserved)
qed

subsection \<open>Conversions, texts and numbers\<close>

text \<open>
  C29. Storing a valid download and reading the row back: when its last update is not before its creation and
  none of its optional times (next run, lease end, offline start, copy end, completion, removal) is the zero
  instant, the same download comes back, only the pause flag, which a new row never carries, is cleared; in
  every other case the row is refused when read.  The validator checks neither condition, so a download can
  be valid and yet unreadable once stored.
\<close>

theorem stored_download_round_trip:
  assumes "valid_download d"
  shows "(times_ok d \<longrightarrow> downloadFromDB (insertDownloadParams d) = Inr (d\<lparr>dPauseRequested := False\<rparr>))
    \<and> (\<not> times_ok d \<longrightarrow> isl (downloadFromDB (insertDownloadParams d)))
    \<and> (times_ok d \<longleftrightarrow> dCreatedAt d \<le> dUpdatedAt d \<and>
         (\<forall>t \<in> {dNextRunAt d, dLeaseUntil d, dOfflineStartedAt d, dCopyCompletedAt d, dCompletedAt d, dRemovedAt d}.
            t \<noteq> Some 0))"
  using downloadFromDB_insert [OF assms] downloadFromDB_bad_times by (simp add: times_ok_iff)

theorem stored_download_round_trip_witness:
  "downloadFromDB (insertDownloadParams (example_download (CHR ''b''))) =
    Inr ((example_download (CHR ''b''))\<lparr>dPauseRequested := False\<rparr>)"
  using stored_download_round_trip [OF example_valid(2)] example_times by blast

text \<open>
  C30. What the error sanitiser lets through is the fixed placeholder or a prefix of the trimmed text of at
  most 1024 bytes, in which none of the sensitive markers (case-folded) and no occurrence of the
  submission URI is left.
\<close>

theorem redaction_removes_secrets:
  assumes "m \<in> set sensitiveErrorMarkers" "uri \<noteq> []"
  shows "length (SanitizeErrorText e uri) \<le> 1024 \<and> (SanitizeErrorText e uri = RedactedErrorText \<or>
    prefix (SanitizeErrorText e uri) (trim_space e) \<and> \<not> str_contains (to_lower (SanitizeErrorText e uri)) m
    \<and> \<not> str_contains (SanitizeErrorText e uri) uri)"
  using sanitize_length sanitize_prefix sanitize_markers [OF assms(1)] sanitize_uri [OF assms(2)] by metis

theorem redaction_removes_secrets_witness:
  "length (SanitizeErrorText ''e'' ''u'') \<le> 1024 \<and> (SanitizeErrorText ''e'' ''u'' = RedactedErrorText \<or>
    prefix (SanitizeErrorText ''e'' ''u'') (trim_space ''e'') \<and>
    \<not> str_contains (to_lower (SanitizeErrorText ''e'' ''u'')) ''token'' \<and>
    \<not> str_contains (SanitizeErrorText ''e'' ''u'') ''u'')"
  by (rule redaction_removes_secrets) (simp_all add: sensitiveErrorMarkers_def)

subsection \<open>Schedules and delivery\<close>



text \<open>
  C32. The due time that the scheduler sleeps on agrees with what it can claim: it lies at or before now
  exactly when some download is claimable now that is not STOPPED (a stopped row with a due time is
  the one case that the claim accepts and the due time leaves out).
\<close>

theorem scheduler_due_time_is_exact:
  assumes "NextDue env now db = Inr due"
  shows "(\<exists>t. due = Some t \<and> t \<le> now) \<longleftrightarrow>
    (\<exists>r \<in> set (downloads db). claimable_row now r \<and> r_state r \<noteq> StateStopped)"
  by (rule NextDue_now [OF assms])

theorem scheduler_due_time_is_exact_witness:
  "(\<exists>t. Some (1 :: time) = Some t \<and> t \<le> 5) \<longleftrightarrow>
    (\<exists>r \<in> set (downloads example_db). claimable_row 5 r \<and> r_state r \<noteq> StateStopped)"
  by (rule scheduler_due_time_is_exact [OF example_next_due])

subsection \<open>Submissions and access\<close>

text \<open>
  C33. What the submission service hands to the repository is always a valid row: whatever magnet or torrent
  was parsed under the configured limits, whatever category, options, trackers and retained content went into
  it, \<open>validateSubmission\<close> accepts it, provided names and tags are free of U+0080 to U+009F and tags
  fit into 64 KiB (the two checks that only the domain makes).
\<close>

theorem submission_passes_validation:
  assumes "NewService c = None" "MaxTotalSize (scLimits c) \<le> max_int64" "world_sane w"
    and "submissionPaths c w env db rawCategory = Inr paths"
    and "parsed (swMeta w) (scLimits c) input source res"
    and "prepare_submission c w env db res source paths stopped options = Inr s" "printable (subDownload s)"
  shows "validateSubmission s = None"
  using assms by (rule submission_is_valid)

theorem submission_passes_validation_witness:
  "validateSubmission torrent_submission = None"
  by (rule submission_passes_validation [OF example_service_ok _ submit_world_sane example_submission_paths _ example_prepared
        example_printable, where input = "[]"])
    (simp_all add: example_service_def example_limits_def max_int64_def parsed_def submit_world_def
      example_torrent [unfolded example_limits_def])

text \<open>
  C34. The files that a parsed torrent brings pass the manifest check of the reconciler: their indexes count
  up from zero, their paths are distinct, relative and clean, and their sizes add up, without overflow, to the total
  size of the submitted download, also after a revival of retained content.  Required: the service's
  configuration passes its check, and the limit of the total size is a 64-bit number.
\<close>

theorem torrent_manifest_is_accepted:
  assumes "NewService c = None" "MaxTotalSize (scLimits c) \<le> max_int64"
    and "ParseTorrent (swMeta w) data (scLimits c) = Inr res"
    and "prepare_submission c w env db res SourceTorrent paths stopped options = Inr s"
  shows "validateManifest (subDownload s) (subFiles s)"
  using assms by (rule submitted_manifest)

theorem torrent_manifest_is_accepted_witness:
  "validateManifest (subDownload torrent_submission) (subFiles torrent_submission)"
  by (rule torrent_manifest_is_accepted [OF example_service_ok _ _ example_prepared, where data = "[]"])
    (simp_all add: example_service_def example_limits_def max_int64_def submit_world_def example_torrent [unfolded example_limits_def])

text \<open>
  C35. The canonical magnet that \<open>ParseMagnet\<close> writes reads back as the same result: hash, name and
  trackers survive percent-encoding and query parsing, and canonicalising twice changes nothing.  Required: the
  canonical text is within the input limit and has at most 9998 trackers (Go refuses queries of more than
  10000 pairs); of url.Parse it is used that it splits a magnet: address into scheme and raw query.
\<close>

theorem canonical_magnet_is_fixed:
  assumes "ParseMagnet lib raw l = Inr res" "parses_magnets lib"
    and "int (length (mrMagnet res)) \<le> MaxInputBytes l" "MaxTrackerCount l \<le> 9998"
  shows "ParseMagnet lib (mrMagnet res) l = Inr res"
  using assms by (rule canonical_fixed)

theorem canonical_magnet_is_fixed_witness:
  "ParseMagnet example_lib (mrMagnet magnet_result) example_limits = Inr magnet_result"
  by (rule canonical_magnet_is_fixed [OF example_parsed example_lib_parses])
    (simp_all add: example_limits_def example_canonical_length)

text \<open>
  C36. The native API implements its specification: after any history of generated and revoked tokens, with any
  failures in between, a request is served only if its bearer token is the last one generated and not revoked since
  (up to a SHA-256 collision), it is served if it carries that token, and nothing is served after a revocation.
\<close>

theorem native_api_serves_token_in_force:
  assumes "key_history GenerateAPIToken RevokeAPIToken None evs table"
  shows "(NativeMiddleware flt r table = Served p cookie \<longrightarrow>
      (\<exists>x y. bearerToken (hqAuthorization r) = Some x \<and> in_force evs = Some y \<and> Hash x = Hash y))
    \<and> (in_force evs = Some y \<and> hqAuthorization r = [''Bearer '' @ y] \<longrightarrow>
      (\<exists>q. NativeMiddleware (\<lambda>_. False) r table = Served q None))
    \<and> (in_force evs = None \<longrightarrow> NativeMiddleware (\<lambda>_. False) r table = Unauthorized)"
  using native_served [OF assms] native_accepts [OF assms] native_refuses [OF assms] by blast

theorem native_api_serves_token_in_force_witness:
  "\<exists>q. NativeMiddleware (\<lambda>_. False) (example_request [''Bearer '' @ example_token]) (Some example_token_row) = Served q None"
  using native_api_serves_token_in_force [OF example_history, where y = example_token
      and r = "example_request [''Bearer '' @ example_token]"]
  by (simp add: example_request_def)

text \<open>
  C37. However sessions are created, refreshed, revoked and purged, their table never holds more rows than the
  capacity, no two rows share a digest, and every row satisfies the checks of its schema.
\<close>

theorem sessions_stay_bounded:
  assumes "session_run capacity rows ds t" "sessions_sound rows" "int (length rows) \<le> capacity"
  shows "sessions_sound t \<and> int (length t) \<le> capacity"
  using assms by (rule run_bounded)

theorem sessions_stay_bounded_witness:
  "sessions_sound [example_session_row] \<and> int (length [example_session_row]) \<le> 5"
  by (rule sessions_stay_bounded [OF example_session_run]) (simp_all add: sessions_sound_def)

text \<open>
  C38. Once a logout has answered, the session it names never authenticates again, whatever else happens to the
  session table, unless its random identifier is drawn a second time.
\<close>

theorem logout_is_final:
  assumes "logout flt True r s = (LogoutDone, s')" "hqSID r = Some sid"
    and "session_run capacity (asSessions s') ds rows" "hashSID sid \<notin> set ds" "0 < scTTL c"
  shows "session_boundary flt' fr c others now r (t\<lparr>asSessions := rows\<rparr>) \<noteq> (Served p cookie, t')"
  using assms by (rule logout_final)

theorem logout_is_final_witness:
  "session_boundary no_fault example_front session_config (\<lambda>_ rows. rows) 5 (example_request []) (example_auth\<lparr>asSessions := []\<rparr>) \<noteq> (Served \<lparr>pKind = QBTClientPrincipal, pMethod = SessionMethod\<rparr> None, example_auth)"
  using logout_is_final [OF example_logout _ run_start [of 5], where c = session_config and sid = example_sid
      and flt' = no_fault and fr = example_front and t = example_auth and others = "\<lambda>_ rows. rows" and now = 5]
  by (simp add: example_request_def session_config_def)

text \<open>
  C39. The login policy, as long as the table is large enough for every address seen: of the attempts of one
  address, the first four wrong ones are refused, the fifth bans the address, and after that even the right
  password is refused, however the attempts of other addresses fall in between.  The conditions: the addresses
  of all attempts and of the entries already in the table together fit into its capacity, so that nothing is
  evicted (an eviction drops an address's count, and its fifth wrong attempt is then only refused);
  the address has no entry at the start and no right password before; and all attempts lie within one
  login window.
\<close>

theorem fifth_failure_bans:
  assumes "fits capacity (rqs @ [(now, remote, valid)]) l" "map_of l (clientAddress remote) = None" "0 < t0"
    and "\<forall>(t, _, _) \<in> set (rqs @ [(now, remote, valid)]). t0 \<le> t \<and> t < t0 + loginWindow"
    and "\<forall>(_, r, v) \<in> set rqs. clientAddress r = clientAddress remote \<longrightarrow> \<not> v"
  shows "fst (AuthorizeLogin capacity now remote valid (authorize_all capacity rqs l)) =
    (if 5 \<le> failures (clientAddress remote) rqs then LoginBanned
     else if valid then LoginAllowed
     else if failures (clientAddress remote) rqs = 4 then LoginBanned else LoginInvalid)"
  using assms by (rule fifth_failure)

theorem fifth_failure_bans_witness:
  "fst (AuthorizeLogin 5 1 ''1.2.3.4:5'' False (authorize_all 5 (replicate 4 (1, ''1.2.3.4:5'', False)) [])) = LoginBanned"
  using fifth_failure_bans [of 5 "replicate 4 (1, ''1.2.3.4:5'', False)" 1 "''1.2.3.4:5''" False "[]" 1]
  by (simp add: example_fits example_failures example_address loginWindow_def)

text \<open>
  C40. The qBittorrent interface lets a request through only if it authenticated, in every case from an allowed
  origin. Either its one Authorization header carries Basic credentials whose decoded user name and password
  verify against the operator row, from an address that is not banned; or the header carries a Bearer secret
  that verifies against the digest of the key in the store; or there is no such header, and its SID cookie
  is well formed and names a live session of this interface.
\<close>

theorem boundary_serves_authenticated:
  assumes "authBoundary flt fr c others now r s = (Served p cookie, s')" "0 < scTTL c"
  shows "browserOriginAllowed fr r \<and>
    (case pMethod p of
       BasicMethod \<Rightarrow> password_checked flt c now r s
     | QBTKeyMethod \<Rightarrow> key_checked flt r s
     | SessionMethod \<Rightarrow> hqAuthorization r = [] \<and> session_checked now r s
     | NativeTokenMethod \<Rightarrow> False)"
  using assms by (rule boundary_served)

theorem boundary_serves_authenticated_witness:
  "session_checked 5 (example_request []) example_auth"
  using boundary_serves_authenticated [OF example_served] by (simp add: session_config_def)

subsection \<open>Further facts\<close>

text \<open>
  Fencing of deliveries: a worker whose lease ran out and whose delivery was claimed again cannot
  commit its outcome any more.
\<close>

theorem overtaken_delivery_refused:
  assumes "queue_ok a" "ClaimWebhookDue env owner now dur a = (Inr (Some claim), b)" "store_run b c"
    and "ClaimWebhookDue env' owner' now' dur' c = (Inr (Some other), d)" "store_run d e"
    and "clDeliveryID other = clDeliveryID claim"
  shows "fst (CommitWebhookClaim env'' claim result t e) \<noteq> Inr ()"
proof
  assume "fst (CommitWebhookClaim env'' claim result t e) = Inr ()"
  then have commit: "commits_delivery e claim (snd (CommitWebhookClaim env'' claim result t e))"
    unfolding commits_delivery_def by (metis prod.collapse)
  have "claims_delivery a claim b" "claims_delivery c other d"
    using assms(2,4) by (auto simp: claims_delivery_def)
  moreover have "queue_ok c"
    using assms(2) queue_run [OF queue_run [OF assms(1) run_webhook_claim] ] assms(3) by (metis snd_conv)
  ultimately show False
    using delivery_lease.taken_over [OF assms(1) _ assms(3) _ _ assms(6,5)] commit by blast
qed

theorem overtaken_delivery_refused_witness:
  "fst (CommitWebhookClaim calm delivery_held delivered 21 reheld_db) \<noteq> Inr ()"
  by (rule overtaken_delivery_refused [OF queue_db_ok delivery_claimed store_run.refl delivery_reclaimed store_run.refl])
    (simp add: delivery_reheld_def delivery_held_def delivery_claim_def)

text \<open>
  In every reachable store the delivery queue is sound: ids are unique and below the counter, each
  delivery names an event of the log and an endpoint of the table, and no event is queued twice for
  the same endpoint.
\<close>

theorem queue_integrity:
  assumes "reachable db"
  shows "distinct (map v_id (webhook_deliveries db)) \<and>
     distinct (map (\<lambda>v. (v_event_id v, v_endpoint_id v)) (webhook_deliveries db)) \<and>
     (\<forall>v \<in> set (webhook_deliveries db). v_id v \<le> last_delivery_id db \<and>
        v_event_id v \<in> ev_id ` set (domain_events db) \<and> v_endpoint_id v \<in> e_id ` set (webhook_endpoints db))"
  using reachable_queue [OF assms] by (simp add: queue_ok_def)

theorem queue_integrity_witness:
  "distinct (map v_id (webhook_deliveries example_db2)) \<and>
    distinct (map (\<lambda>v. (v_event_id v, v_endpoint_id v)) (webhook_deliveries example_db2))"
  using queue_integrity [OF example_reachable(2)] by blast

text \<open>
  Deleting a workspace only removes, and only the workspace itself and what lies below it, or its place in
  the quarantine, of the opened save root: a link, a special file or a replaced directory never leads the
  removal elsewhere.
\<close>

theorem workspace_deletion_stays_inside:
  assumes "fs_at (snd (DeleteWorkspace dk localRoot savePath hash fs)) p \<noteq> fs_at fs p"
  shows "\<exists>dir evaluated. openSaveRoot dk fs localRoot savePath = Inr (dir, evaluated)
    \<and> fs_at (snd (DeleteWorkspace dk localRoot savePath hash fs)) p = None
    \<and> (prefix (dir @ [''.cd211'', hash]) p \<or> prefix (dir @ [''.cd211'', ''.quarantine'', hash]) p)"
  by (rule workspace_deletion_confined [OF assms])

theorem workspace_deletion_stays_inside_witness:
  "\<exists>dir evaluated. openSaveRoot quiet example_disk ''/s'' ''/s'' = Inr (dir, evaluated)
    \<and> fs_at (snd (DeleteWorkspace quiet ''/s'' ''/s'' (hash_of (CHR ''a'')) example_disk)) example_work = None
    \<and> (prefix (dir @ [''.cd211'', hash_of (CHR ''a'')]) example_work
       \<or> prefix (dir @ [''.cd211'', ''.quarantine'', hash_of (CHR ''a'')]) example_work)"
  by (rule workspace_deletion_stays_inside [OF example_workspace_goes])

text \<open>
  Error behaviour: a submission, category change, start, retry, pause, cancel, deletion request or commit
  that reports an error leaves every table as it was.
\<close>

theorem failed_request_changes_nothing:
  assumes "CreateSubmission env s db = (Inl e, db') \<or> SetCategory env hash category now db = (Inl e, db') \<or>
    Start env hash now db = (Inl e, db') \<or> Retry env hash target now db = (Inl e, db') \<or>
    Pause env hash now db = (Inl e, db') \<or> Cancel env hash now db = (Inl e, db') \<or>
    RequestDelete env order hashes files now db = (Inl e, db') \<or> CommitClaim env claim next db = (Inl e, db') \<or>
    CommitWebhookClaim env held result now db = (Inl e, db')"
  shows "db' = db"
  using assms by (elim disjE) (erule failed_operation_unchanged)+

theorem failed_request_changes_nothing_witness:
  "snd (Start calm ''h'' 0 example_db) = example_db"
proof -
  have "Start calm ''h'' 0 example_db = (Inl (ErrText ''start time is required''), example_db)"
    by (simp add: Start_def time_is_zero_def)
  then have "Start calm ''h'' 0 example_db = (Inl (ErrText ''start time is required''), snd (Start calm ''h'' 0 example_db))"
    by simp
  from failed_request_changes_nothing [OF disjI2 [OF disjI2 [OF disjI1 [OF this]]]] show ?thesis .
qed

text \<open>
  Announcing a valid download never fails for its numbers: its payload serialises, and the progress it
  carries is a number between 0 and 1 (never NaN or infinite).
\<close>

theorem payload_always_serialises:
  assumes "valid_download d"
  shows "(\<exists>p. BuildDownloadPayload oob i t s d = Some p) \<and> in_unit (downloadProgress oob d)"
  using payload_marshals [OF assms] downloadProgress_unit [OF assms] by blast

theorem payload_always_serialises_witness:
  "(\<exists>p. BuildDownloadPayload (\<lambda>_. 0) ''i'' EventTypeCreated StateStopped (example_download (CHR ''a'')) = Some p) \<and>
    in_unit (downloadProgress (\<lambda>_. 0) (example_download (CHR ''a'')))"
  by (rule payload_always_serialises [OF example_valid(1)])

text \<open>
  What the manifest check accepts is consistent: the sizes are non-negative and add up, without
  overflowing 64 bits, to the stated total, the indices are consecutive from the first one, every path
  is safe and relative, and no path occurs twice.
\<close>

theorem manifest_accepted_adds_up:
  assumes "manifest_total h i [] 0 fs = Some t"
  shows "t = sum_list (map fSize fs) \<and> t \<le> max_int64 \<and> map fIndex fs = map (\<lambda>k. i + int k) [0..<length fs]
    \<and> distinct (map fRelativePath fs)
    \<and> (\<forall>f \<in> set fs. fDownloadHash f = h \<and> 0 \<le> fSize f \<and> manifest_path_ok (fRelativePath f))"
  using manifest_total_facts [OF assms] by (simp add: max_int64_def)

theorem manifest_accepted_adds_up_witness:
  "(3 :: int) = sum_list (map fSize example_manifest) \<and> (3 :: int) \<le> max_int64
    \<and> map fIndex example_manifest = map (\<lambda>k. 0 + int k) [0..<length example_manifest]
    \<and> distinct (map fRelativePath example_manifest)"
  using manifest_accepted_adds_up [OF example_manifest_total] by blast

text \<open>
  The renumbering loop of the verifier equals filtering: the effective manifest consists of exactly the
  files with a non-zero priority, in manifest order, under their effective paths, with their sizes, and
  numbered consecutively.
\<close>

theorem selected_files_keep_order:
  "map fRelativePath (effective_files ovs n fs) =
     map (\<lambda>f. fpEffectivePath (plan_of ovs f)) (filter (\<lambda>f. fpPriority (plan_of ovs f) \<noteq> 0) fs)
   \<and> map fSize (effective_files ovs n fs) = map fSize (filter (\<lambda>f. fpPriority (plan_of ovs f) \<noteq> 0) fs)
   \<and> map fIndex (effective_files ovs n fs) = map (\<lambda>k. n + int k) [0..<length (effective_files ovs n fs)]"
  using effective_files_facts by blast

text \<open>
  The target that a retry resolves to is always reachable: from FAILED it is a claimable state that the
  lifecycle permits, and a blocked cancellation or deletion stays what it is.
\<close>

theorem retry_target_is_permitted:
  assumes "dState d = StateFailed \<or> dState d = StateCancelRequested \<or> dState d = StateDeleteRequested"
  shows "(dState d = StateFailed \<longrightarrow> CanTransition StateFailed (RetryTarget d) \<and> RetryTarget d \<noteq> StateDeleteRequested
      \<and> State_Claimable (RetryTarget d)) \<and> (dState d \<noteq> StateFailed \<longrightarrow> RetryTarget d = dState d)"
  using RetryTarget_permitted [of d] assms by auto

theorem retry_target_is_permitted_witness:
  "RetryTarget pausing = StateCancelRequested"
proof -
  have "dState pausing = StateCancelRequested" by (simp add: pausing_def)
  with retry_target_is_permitted [of pausing] show ?thesis by simp
qed

text \<open>
  The idle worker does not miss work: the next due time it asks the store for lies at or before now
  exactly when some delivery is claimable now, and its wait is bounded by the limit and never reaches
  beyond the due time.
\<close>

theorem dispatcher_never_oversleeps:
  assumes "NextWebhookDue env now db = Inr due" "0 \<le> limit"
  shows "((\<exists>t. due = Some t \<and> t \<le> now) \<longleftrightarrow> (\<exists>v \<in> set (webhook_deliveries db). claimable_delivery db now v))
    \<and> 0 \<le> idleWait now due limit \<and> idleWait now due limit \<le> limit
    \<and> (\<forall>t. due = Some t \<and> now < t \<longrightarrow> now + idleWait now due limit \<le> t)"
  using NextWebhookDue_now [OF assms(1)] idleWait_bounds [OF assms(2)] by blast

theorem dispatcher_never_oversleeps_witness:
  "(\<exists>v \<in> set (webhook_deliveries queue_db). claimable_delivery queue_db 5 v) \<and>
    0 \<le> idleWait 5 (Some 1) 9 \<and> idleWait 5 (Some 1) 9 \<le> 9"
  using dispatcher_never_oversleeps [OF queue_next_due, of 9] by simp

text \<open>
  Whatever the HTTP attempt returned, committing a delivery whose endpoint was deleted in the meantime
  ends it as cancelled; otherwise it ends as the dispatcher reported. Either way the lease is released
  and the version grows.
\<close>

theorem deleted_endpoint_cancels:
  assumes "CommitWebhookClaim env claim result now db = (Inr (), db')"
  shows "\<exists>v' \<in> set (webhook_deliveries db'). v_id v' = clDeliveryID claim \<and> v_row_version v' = clVersion claim + 1 \<and>
    v_status v' = (if endpoint_gone db (clEndpointID claim) then StatusCancelled else rsStatus result) \<and>
    v_lease_owner v' = None \<and> v_lease_until v' = None"
  using delivery_commit_hit [OF assms] by blast

theorem deleted_endpoint_cancels_witness:
  "\<exists>v' \<in> set (webhook_deliveries (snd (CommitWebhookClaim calm delivery_held delivered 8 held_db))).
    v_id v' = clDeliveryID delivery_held \<and> v_row_version v' = clVersion delivery_held + 1 \<and>
    v_status v' = (if endpoint_gone held_db (clEndpointID delivery_held) then StatusCancelled else rsStatus delivered) \<and>
    v_lease_owner v' = None \<and> v_lease_until v' = None"
proof (rule deleted_endpoint_cancels)
  show "CommitWebhookClaim calm delivery_held delivered 8 held_db =
      (Inr (), snd (CommitWebhookClaim calm delivery_held delivered 8 held_db))"
    using delivery_committed by (metis snd_conv)
qed

text \<open>
  No lost wake-up: a waiter that takes a snapshot gets a channel that is still open, snapshots repeat it
  until the next notification, and that notification closes exactly this channel.
\<close>

theorem signal_wakes_waiters:
  assumes "signal_ok s"
  shows "fst (Snapshot s) \<notin> set (sgClosed (snd (Snapshot s))) \<and> fst (Snapshot (snd (Snapshot s))) = fst (Snapshot s)
    \<and> set (sgClosed (Notify s)) = insert (fst (Snapshot s)) (set (sgClosed s)) \<and> signal_ok (Notify s)
    \<and> fst (Snapshot (Notify s)) \<noteq> fst (Snapshot s)"
  using Snapshot_open [OF assms] Snapshot_stable Notify_closes signal_ok_Notify [OF assms]
    Snapshot_open [OF signal_ok_Notify [OF assms]] signal_snapshot_closed [of s] by (metis insertI1)

theorem signal_wakes_waiters_witness:
  "fst (Snapshot NewSignal) \<notin> set (sgClosed (snd (Snapshot NewSignal))) \<and>
    fst (Snapshot (snd (Snapshot NewSignal))) = fst (Snapshot NewSignal) \<and>
    set (sgClosed (Notify NewSignal)) = insert (fst (Snapshot NewSignal)) (set (sgClosed NewSignal)) \<and>
    signal_ok (Notify NewSignal) \<and> fst (Snapshot (Notify NewSignal)) \<noteq> fst (Snapshot NewSignal)"
  by (rule signal_wakes_waiters [OF signal_ok_New])

text \<open>
  The character tests of \<open>validSID\<close>, with their rule for the last character, accept exactly the base64 texts
  of 32 bytes, which are the identifiers that \<open>newToken\<close> hands out.
\<close>

theorem session_ids_are_encoded_bytes:
  shows "validSID sid \<longleftrightarrow> (\<exists>raw. length raw = tokenBytes \<and> sid = b64_encode URLAlphabet raw)"
  by (rule validSID_iff)

text \<open>
  After a change of the password, exactly the operator with the new password logs in: for any user name and
  attempt, verification answers whether both match, up to collisions of SHA-256 and PBKDF2.
\<close>

theorem changed_password_verifies:
  assumes "ChangePassword flt (Some salt) current new now table = (Inr (), table')"
  shows "VerifyCredentials (\<lambda>_. False) username attempt table' =
    Inr (sha256 username = sha256 Username \<and>
      pbkdf2_key attempt salt hashIterations hashKeyLength = pbkdf2_key new salt hashIterations hashKeyLength)"
  using assms by (rule change_password)

theorem changed_password_verifies_witness:
  "\<exists>table. VerifyCredentials (\<lambda>_. False) Username ''new'' table = Inr True"
proof (rule example_change [of "[]"])
  fix table table'
  assume "ChangePassword no_fault (Some []) ''old'' ''new'' 1 table = (Inr (), table')"
  from changed_password_verifies [OF this, of Username "''new''"]
  show "\<exists>table. VerifyCredentials (\<lambda>_. False) Username ''new'' table = Inr True" by auto
qed

text \<open>
  Whatever a log call passes, at any depth of maps and lists: the record discloses nothing under a key that looks
  like a credential, nothing but scalars under the listed names, and texts only as valid UTF-8 without control
  characters of at most 512 bytes.
\<close>

theorem log_records_are_redacted:
  shows "disclosed key (sanitizeAny key v)"
  by (rule sanitized_discloses)

text \<open>
  Every request to the native API is a run of the store's operations, whatever the interleaving and the wakes.
\<close>

theorem native_requests_keep_store_reachable:
  assumes "NativeServeHTTP be gone jsonValid wakes r s = (rep, s')" "reachable (apDb s)" "lawful_others be"
  shows "store_run (apDb s) (apDb s') \<and> reachable (apDb s')"
  using assms by (rule native_reaches)

end
